(* ===== verification/Go_Prelude.thy ===== *)
theory Go_Prelude
  imports Main "HOL-Library.Sublist"
begin

text \<open>
  Shared ground of the development: the parts of the Go language and its standard
  library the modelled code uses, with the lemmas every component needs.

  \<^item> Integers: \<open>int64\<close> arithmetic is \<open>int\<close> arithmetic followed by \<open>wrap64\<close>, the
    two's-complement wrap-around of Go.
  \<^item> Time: a \<open>time.Time\<close> is the number of nanoseconds since the Unix epoch (an \<open>int\<close>;
    the zero time is 1 January of year 1), a \<open>time.Duration\<close> a number of nanoseconds.
    \<open>Sub\<close> saturates at the bounds of \<open>int64\<close>, as Go documents.
  \<^item> Strings: byte lists. \<open>TrimSpace\<close> removes the UTF-8 encodings of Go's white space,
    \<open>ToUpper\<close>, \<open>ToLower\<close> and \<open>EqualFold\<close> map the ASCII letters and the non-ASCII
    runes whose mapping is an ASCII letter; every other byte is kept, which is exact
    for the comparisons with ASCII words the code makes.
\<close>

section \<open>Automation shared by the components\<close>

named_theorems go_str \<open>string operations of the Go library, unfolded\<close>
named_theorems go_time \<open>time arithmetic, unfolded\<close>

section \<open>Integers\<close>

type_synonym int64 = int

definition wrap64 :: "int \<Rightarrow> int64" where
  "wrap64 x = (x + 2 ^ 63) mod 2 ^ 64 - 2 ^ 63"

definition max_int64 :: int where "max_int64 = 2 ^ 63 - 1"

definition min_int64 :: int where "min_int64 = - (2 ^ 63)"

lemma wrap64_bounds: "min_int64 \<le> wrap64 x \<and> wrap64 x \<le> max_int64"
proof -
  have "0 \<le> (x + 2 ^ 63) mod 2 ^ 64" "(x + 2 ^ 63) mod 2 ^ 64 < (2 :: int) ^ 64"
    by simp_all
  then show ?thesis by (simp add: wrap64_def min_int64_def max_int64_def)
qed

lemma wrap64_id: "min_int64 \<le> x \<Longrightarrow> x \<le> max_int64 \<Longrightarrow> wrap64 x = x"
  by (simp add: wrap64_def min_int64_def max_int64_def)

text \<open>Go's integer division truncates towards zero.\<close>

definition go_div :: "int \<Rightarrow> int \<Rightarrow> int" where
  "go_div a b = sgn a * sgn b * (\<bar>a\<bar> div \<bar>b\<bar>)"

lemma go_div_nonneg: "0 \<le> a \<Longrightarrow> 0 < b \<Longrightarrow> go_div a b = a div b"
  by (cases "a = 0") (auto simp: go_div_def)

section \<open>Time\<close>

type_synonym gotime = int
type_synonym duration = int

definition Second :: duration where "Second = 1000000000"
definition Minute :: duration where "Minute = 60 * 1000000000"
definition Hour :: duration where "Hour = 3600 * 1000000000"

definition zero_time :: gotime where "zero_time = - 62135596800 * 1000000000"

definition time_add :: "gotime \<Rightarrow> duration \<Rightarrow> gotime" where
  "time_add t d = t + d"

definition time_sub :: "gotime \<Rightarrow> gotime \<Rightarrow> duration" where
  "time_sub t u = max min_int64 (min max_int64 (t - u))"

definition time_unix :: "gotime \<Rightarrow> int64" where
  "time_unix t = t div Second"

definition of_unix :: "int64 \<Rightarrow> gotime" where
  "of_unix s = s * Second"

lemmas go_time_defs [go_time] = time_add_def time_sub_def Second_def Minute_def Hour_def
  min_int64_def max_int64_def

lemma time_unix_of_unix [simp]: "time_unix (of_unix s) = s"
  by (simp add: time_unix_def of_unix_def Second_def)

lemma of_unix_time_unix_le: "of_unix (time_unix t) \<le> t \<and> t < of_unix (time_unix t) + Second"
proof -
  have "t = t div Second * Second + t mod Second" by simp
  moreover have "0 \<le> t mod Second" "t mod Second < Second"
    by (simp_all add: Second_def)
  ultimately show ?thesis
    unfolding of_unix_def time_unix_def by linarith
qed

lemma time_unix_mono: "t \<le> u \<Longrightarrow> time_unix t \<le> time_unix u"
  by (simp add: time_unix_def Second_def zdiv_mono1)

lemma time_sub_pos [go_time]: "0 < time_sub t u \<longleftrightarrow> u < t"
  by (auto simp: time_sub_def min_int64_def max_int64_def)

lemma time_sub_less_iff:
  "min_int64 < d \<Longrightarrow> d \<le> max_int64 \<Longrightarrow> time_sub t u < d \<longleftrightarrow> t - u < d"
  by (auto simp: time_sub_def)

section \<open>Strings\<close>

definition str_contains :: "string \<Rightarrow> char \<Rightarrow> bool" where
  "str_contains s c \<longleftrightarrow> c \<in> set s"

definition contains_any :: "string \<Rightarrow> string \<Rightarrow> bool" where
  "contains_any s cs \<longleftrightarrow> list_ex (\<lambda>c. c \<in> set cs) s"

definition has_prefix :: "string \<Rightarrow> string \<Rightarrow> bool" where
  "has_prefix s p \<longleftrightarrow> take (length p) s = p"

definition has_suffix :: "string \<Rightarrow> string \<Rightarrow> bool" where
  "has_suffix s p \<longleftrightarrow> has_prefix (rev s) (rev p)"

definition trim_prefix :: "string \<Rightarrow> string \<Rightarrow> string" where
  "trim_prefix s p = (if has_prefix s p then drop (length p) s else s)"

definition trim_suffix :: "string \<Rightarrow> string \<Rightarrow> string" where
  "trim_suffix s p = (if has_suffix s p then take (length s - length p) s else s)"

lemma has_prefix_iff: "has_prefix s p \<longleftrightarrow> prefix p s"
  unfolding has_prefix_def prefix_def by (metis append_take_drop_id append_eq_conv_conj)

lemma has_suffix_iff: "has_suffix s p \<longleftrightarrow> suffix p s"
  by (simp add: has_suffix_def has_prefix_iff suffix_to_prefix)

text \<open>\<open>strings.Cut\<close> with a one-byte separator: before, after, found.\<close>

definition cut :: "char \<Rightarrow> string \<Rightarrow> string \<times> string \<times> bool" where
  "cut c s =
     (if c \<in> set s then (takeWhile (\<lambda>x. x \<noteq> c) s, tl (dropWhile (\<lambda>x. x \<noteq> c) s), True)
      else (s, [], False))"

lemma cut_found: "c \<notin> set a \<Longrightarrow> cut c (a @ c # b) = (a, b, True)"
  by (induction a) (auto simp: cut_def)

lemma cut_absent: "c \<notin> set s \<Longrightarrow> cut c s = (s, [], False)"
  by (simp add: cut_def)

lemma cut_cases:
  obtains (found) a b where "s = a @ c # b" "c \<notin> set a" "cut c s = (a, b, True)"
  | (absent) "c \<notin> set s" "cut c s = (s, [], False)"
proof (cases "c \<in> set s")
  case True
  then obtain a b where "s = a @ c # b" "c \<notin> set a" by (meson split_list_first)
  then show ?thesis by (intro found) (auto simp: cut_found)
next
  case False
  then show ?thesis by (intro absent) (auto simp: cut_absent)
qed

text \<open>\<open>strings.Split\<close> with a one-byte separator; the result is never empty.\<close>

fun split_on :: "char \<Rightarrow> string \<Rightarrow> string list" where
  "split_on c [] = [[]]"
| "split_on c (x # s) =
     (if x = c then [] # split_on c s
      else case split_on c s of [] \<Rightarrow> [[x]] | p # ps \<Rightarrow> (x # p) # ps)"

definition join_on :: "char \<Rightarrow> string list \<Rightarrow> string" where
  "join_on c ps = (case ps of [] \<Rightarrow> [] | p # qs \<Rightarrow> p @ concat (map (\<lambda>q. c # q) qs))"

lemma split_on_nonempty [simp]: "split_on c s \<noteq> []"
  by (cases s) (auto split: list.splits)

lemma split_on_plain: "c \<notin> set s \<Longrightarrow> split_on c s = [s]"
  by (induction s) auto

lemma split_on_append: "c \<notin> set a \<Longrightarrow> split_on c (a @ c # s) = a # split_on c s"
  by (induction a) auto

lemma split_on_parts: "p \<in> set (split_on c s) \<Longrightarrow> c \<notin> set p"
  by (induction s arbitrary: p) (auto split: if_splits list.splits)

lemma join_split: "join_on c (split_on c s) = s"
proof (induction s)
  case Nil
  then show ?case by (simp add: join_on_def)
next
  case (Cons x s)
  obtain p ps where "split_on c s = p # ps"
    by (cases "split_on c s") auto
  with Cons show ?case by (auto simp: join_on_def)
qed

text \<open>\<open>strings.Index\<close>: the position of the first occurrence.\<close>

fun str_index :: "string \<Rightarrow> string \<Rightarrow> nat option" where
  "str_index p [] = (if p = [] then Some 0 else None)"
| "str_index p (c # s) = (if has_prefix (c # s) p then Some 0 else map_option Suc (str_index p s))"

definition contains_str :: "string \<Rightarrow> string \<Rightarrow> bool" where
  "contains_str s p \<longleftrightarrow> str_index p s \<noteq> None"

lemma str_index_bound: "str_index p x = Some i \<Longrightarrow> i + length p \<le> length x"
proof (induction x arbitrary: i)
  case (Cons c x)
  then show ?case by (auto simp: has_prefix_iff split: if_splits dest: prefix_length_le)
qed (auto split: if_splits)

lemma str_index_here: "str_index p (p @ y) = Some 0"
proof -
  have "has_prefix (p @ y) p" by (simp add: has_prefix_def)
  then show ?thesis by (cases "p @ y") auto
qed

lemma str_index_stable: "str_index p x = Some i \<Longrightarrow> str_index p (take (i + length p) x @ y) = Some i"
proof (induction x arbitrary: i)
  case (Cons c x)
  show ?case
  proof (cases "has_prefix (c # x) p")
    case True
    with Cons.prems have "i = 0" "take (length p) (c # x) = p" by (simp_all add: has_prefix_def)
    then show ?thesis by (simp add: str_index_here)
  next
    case False
    with Cons.prems obtain j where j: "i = Suc j" "str_index p x = Some j" by auto
    have "\<not> has_prefix (c # take (j + length p) x @ y) p"
      using False str_index_bound [OF j(2)] by (cases p) (auto simp: has_prefix_def min_def)
    with j Cons.IH show ?thesis by simp
  qed
qed (use str_index_here [of "[]"] in \<open>auto split: if_splits\<close>)

lemma str_index_char: "str_index [c] s = (if c \<in> set s then Some (length (takeWhile (\<lambda>x. x \<noteq> c) s)) else None)"
  by (induction s) (auto simp: has_prefix_def)

text \<open>\<open>strings.LastIndex\<close>: the position of the last occurrence.\<close>

definition str_last_index :: "string \<Rightarrow> string \<Rightarrow> nat option" where
  "str_last_index p s = find (\<lambda>i. has_prefix (drop i s) p) (rev [0..<Suc (length s)])"

lemma find_Some_mem: "find P xs = Some x \<Longrightarrow> x \<in> set xs \<and> P x"
  by (metis find_Some_iff nth_mem)

lemma find_after: "(\<And>x. x \<in> set xs \<Longrightarrow> \<not> P x) \<Longrightarrow> P y \<Longrightarrow> find P (xs @ y # ys) = Some y"
  by (induction xs) auto

lemma str_last_index_at:
  assumes "i \<le> length s" "has_prefix (drop i s) p" "\<And>j. i < j \<Longrightarrow> \<not> has_prefix (drop j s) p"
  shows "str_last_index p s = Some i"
proof -
  have "[0..<Suc (length s)] = [0..<i] @ i # [Suc i..<Suc (length s)]"
    using assms(1) by (metis le_SucI le_imp_less_Suc upt_add_eq_append upt_conv_Cons le_add_diff_inverse zero_le)
  then have "rev [0..<Suc (length s)] = rev [Suc i..<Suc (length s)] @ i # rev [0..<i]" by simp
  moreover have "find (\<lambda>i. has_prefix (drop i s) p) (rev [Suc i..<Suc (length s)] @ i # rev [0..<i]) = Some i"
  proof (rule find_after)
    fix x assume "x \<in> set (rev [Suc i..<Suc (length s)])"
    then have "i < x" by (simp only: set_rev atLeastLessThan_upt [symmetric] atLeastLessThan_iff Suc_le_eq)
    then show "\<not> has_prefix (drop x s) p" by (rule assms(3))
  qed (rule assms(2))
  ultimately show ?thesis unfolding str_last_index_def by (simp only:)
qed

lemma str_last_index_Some: "str_last_index p s = Some i \<Longrightarrow> s = take i s @ p @ drop (i + length p) s"
proof -
  assume "str_last_index p s = Some i"
  then have "has_prefix (drop i s) p" unfolding str_last_index_def using find_Some_mem by fastforce
  then have "drop i s = p @ drop (length p) (drop i s)" by (metis append_take_drop_id has_prefix_def)
  then show ?thesis by (metis append_take_drop_id drop_drop add.commute)
qed

text \<open>\<open>strings.Trim\<close> and \<open>TrimRight\<close> with an ASCII cut set.\<close>

definition trim_right_set :: "string \<Rightarrow> string \<Rightarrow> string" where
  "trim_right_set cutset s = rev (dropWhile (\<lambda>c. c \<in> set cutset) (rev s))"

definition trim_set :: "string \<Rightarrow> string \<Rightarrow> string" where
  "trim_set cutset s = trim_right_set cutset (dropWhile (\<lambda>c. c \<in> set cutset) s)"

subsection \<open>Case mapping\<close>

definition is_upper :: "char \<Rightarrow> bool" where
  "is_upper c \<longleftrightarrow> 65 \<le> (of_char c :: nat) \<and> of_char c \<le> (90 :: nat)"

definition is_lower :: "char \<Rightarrow> bool" where
  "is_lower c \<longleftrightarrow> 97 \<le> (of_char c :: nat) \<and> of_char c \<le> (122 :: nat)"

definition is_digit :: "char \<Rightarrow> bool" where
  "is_digit c \<longleftrightarrow> 48 \<le> (of_char c :: nat) \<and> of_char c \<le> (57 :: nat)"

definition lower_byte :: "char \<Rightarrow> char" where
  "lower_byte c = (if is_upper c then char_of ((of_char c :: nat) + 32) else c)"

definition upper_byte :: "char \<Rightarrow> char" where
  "upper_byte c = (if is_lower c then char_of ((of_char c :: nat) - 32) else c)"

text \<open>\<open>ToUpper\<close>: U+0131 (C4 B1) maps to I, U+017F (C5 BF) to S.\<close>

fun to_upper :: "string \<Rightarrow> string" where
  "to_upper [] = []"
| "to_upper [c] = [upper_byte c]"
| "to_upper (c # d # s) =
     (if c = CHR 0xC4 \<and> d = CHR 0xB1 then CHR ''I'' # to_upper s
      else if c = CHR 0xC5 \<and> d = CHR 0xBF then CHR ''S'' # to_upper s
      else upper_byte c # to_upper (d # s))"

text \<open>\<open>ToLower\<close>: U+0130 (C4 B0) maps to i, U+212A (E2 84 AA) to k.\<close>

fun to_lower :: "string \<Rightarrow> string" where
  "to_lower [] = []"
| "to_lower [c] = [lower_byte c]"
| "to_lower (c # d # s) =
     (if c = CHR 0xC4 \<and> d = CHR 0xB0 then CHR ''i'' # to_lower s
      else if c = CHR 0xE2 \<and> d = CHR 0x84 \<and> s \<noteq> [] \<and> hd s = CHR 0xAA
        then CHR ''k'' # to_lower (tl s)
      else lower_byte c # to_lower (d # s))"

text \<open>\<open>EqualFold\<close>: simple folding; U+017F folds with s, U+212A with k.\<close>

fun fold_case :: "string \<Rightarrow> string" where
  "fold_case [] = []"
| "fold_case [c] = [lower_byte c]"
| "fold_case (c # d # s) =
     (if c = CHR 0xC5 \<and> d = CHR 0xBF then CHR ''s'' # fold_case s
      else if c = CHR 0xE2 \<and> d = CHR 0x84 \<and> s \<noteq> [] \<and> hd s = CHR 0xAA
        then CHR ''k'' # fold_case (tl s)
      else lower_byte c # fold_case (d # s))"

definition equal_fold :: "string \<Rightarrow> string \<Rightarrow> bool" where
  "equal_fold s t \<longleftrightarrow> fold_case s = fold_case t"

text \<open>On ASCII strings the mappings are the byte-wise ones.\<close>

definition ascii :: "string \<Rightarrow> bool" where
  "ascii s \<longleftrightarrow> list_all (\<lambda>c. (of_char c :: nat) < 128) s"

lemma ascii_Nil [simp]: "ascii []"
  by (simp add: ascii_def)

lemma ascii_Cons [simp]: "ascii (c # s) \<longleftrightarrow> (of_char c :: nat) < 128 \<and> ascii s"
  by (simp add: ascii_def)

lemma to_lower_ascii: "ascii s \<Longrightarrow> to_lower s = map lower_byte s"
  by (induction s rule: to_lower.induct) auto

lemma to_upper_ascii: "ascii s \<Longrightarrow> to_upper s = map upper_byte s"
  by (induction s rule: to_upper.induct) auto

lemma of_char_lower_byte:
  "(of_char (lower_byte c) :: nat) = (if is_upper c then of_char c + 32 else of_char c)"
  by (simp add: lower_byte_def is_upper_def of_char_of)

lemma is_upper_lower_byte [simp]: "\<not> is_upper (lower_byte c)"
  unfolding is_upper_def of_char_lower_byte by (auto simp: is_upper_def)

lemma lower_byte_idem [simp]: "lower_byte (lower_byte c) = lower_byte c"
  by (simp add: lower_byte_def [of "lower_byte c"])

subsection \<open>White space\<close>

text \<open>The UTF-8 encodings of the runes \<open>unicode.IsSpace\<close> accepts.\<close>

definition go_spaces :: "string list" where
  "go_spaces =
     [[CHR 0x20], [CHR 0x09], [CHR 0x0A], [CHR 0x0B], [CHR 0x0C], [CHR 0x0D],
      [CHR 0xC2, CHR 0x85], [CHR 0xC2, CHR 0xA0], [CHR 0xE1, CHR 0x9A, CHR 0x80],
      [CHR 0xE2, CHR 0x80, CHR 0x80], [CHR 0xE2, CHR 0x80, CHR 0x81],
      [CHR 0xE2, CHR 0x80, CHR 0x82], [CHR 0xE2, CHR 0x80, CHR 0x83],
      [CHR 0xE2, CHR 0x80, CHR 0x84], [CHR 0xE2, CHR 0x80, CHR 0x85],
      [CHR 0xE2, CHR 0x80, CHR 0x86], [CHR 0xE2, CHR 0x80, CHR 0x87],
      [CHR 0xE2, CHR 0x80, CHR 0x88], [CHR 0xE2, CHR 0x80, CHR 0x89],
      [CHR 0xE2, CHR 0x80, CHR 0x8A], [CHR 0xE2, CHR 0x80, CHR 0xA8],
      [CHR 0xE2, CHR 0x80, CHR 0xA9], [CHR 0xE2, CHR 0x80, CHR 0xAF],
      [CHR 0xE2, CHR 0x81, CHR 0x9F], [CHR 0xE3, CHR 0x80, CHR 0x80]]"

fun strip_one :: "string list \<Rightarrow> string \<Rightarrow> string option" where
  "strip_one [] s = None"
| "strip_one (p # ps) s =
     (if p \<noteq> [] \<and> has_prefix s p then Some (drop (length p) s) else strip_one ps s)"

lemma strip_one_length: "strip_one ps s = Some r \<Longrightarrow> length r < length s"
  by (induction ps) (auto simp: has_prefix_iff prefix_def split: if_splits)

lemma strip_one_None: "strip_one ps s = None \<longleftrightarrow> (\<forall>p\<in>set ps. p \<noteq> [] \<longrightarrow> \<not> prefix p s)"
  by (induction ps) (auto simp: has_prefix_iff)

function trim_left_of :: "string list \<Rightarrow> string \<Rightarrow> string" where
  "trim_left_of ps s = (case strip_one ps s of None \<Rightarrow> s | Some r \<Rightarrow> trim_left_of ps r)"
  by pat_completeness auto
termination
  by (relation "measure (\<lambda>(ps, s). length s)") (auto dest: strip_one_length)

declare trim_left_of.simps [simp del]

lemma trim_left_of_stop: "strip_one ps s = None \<Longrightarrow> trim_left_of ps s = s"
  by (subst trim_left_of.simps) simp

lemma strip_one_trim_left [simp]: "strip_one ps (trim_left_of ps s) = None"
proof (induction ps s rule: trim_left_of.induct)
  case (1 ps s)
  then show ?case by (subst trim_left_of.simps) (simp split: option.splits)
qed

lemma strip_one_suffix: "strip_one ps s = Some r \<Longrightarrow> suffix r s"
  by (induction ps) (auto simp: suffix_drop split: if_splits)

lemma trim_left_of_suffix: "suffix (trim_left_of ps s) s"
proof (induction ps s rule: trim_left_of.induct)
  case (1 ps s)
  then show ?case
    by (subst trim_left_of.simps)
       (auto split: option.splits dest: strip_one_suffix intro: suffix_order.trans)
qed

definition trim_right_of :: "string list \<Rightarrow> string \<Rightarrow> string" where
  "trim_right_of ps s = rev (trim_left_of (map rev ps) (rev s))"

definition trim_space :: "string \<Rightarrow> string" where
  "trim_space s = trim_right_of go_spaces (trim_left_of go_spaces s)"

lemma trim_right_of_prefix: "prefix (trim_right_of ps s) s"
  using trim_left_of_suffix [of "map rev ps" "rev s"]
  by (simp add: trim_right_of_def suffix_to_prefix)

lemma trim_right_of_idem [simp]: "trim_right_of ps (trim_right_of ps s) = trim_right_of ps s"
  by (simp add: trim_right_of_def trim_left_of_stop)

lemma strip_one_prefix: "prefix t s \<Longrightarrow> strip_one ps s = None \<Longrightarrow> strip_one ps t = None"
  by (auto simp: strip_one_None intro: prefix_order.trans)

lemma trim_space_idem [simp]: "trim_space (trim_space s) = trim_space s"
proof -
  let ?l = "trim_left_of go_spaces s"
  have "strip_one go_spaces (trim_right_of go_spaces ?l) = None"
    by (rule strip_one_prefix [OF trim_right_of_prefix]) simp
  then show ?thesis by (simp add: trim_space_def trim_left_of_stop)
qed

lemma trim_space_subset: "set (trim_space s) \<subseteq> set s"
proof -
  have "set (trim_space s) \<subseteq> set (trim_left_of go_spaces s)"
    unfolding trim_space_def by (rule set_mono_prefix [OF trim_right_of_prefix])
  also have "\<dots> \<subseteq> set s" by (rule set_mono_suffix [OF trim_left_of_suffix])
  finally show ?thesis .
qed

lemma trim_space_empty [simp]: "trim_space [] = []"
  using trim_space_subset [of "[]"] by simp

section \<open>Lists and options\<close>

lemma find_map_eq: "find P (map f xs) = map_option f (find (P \<circ> f) xs)"
  by (induction xs) auto

lemma filter_neq_id [simp]: "x \<notin> set xs \<Longrightarrow> filter (\<lambda>y. y \<noteq> x) xs = xs"
  by (induction xs) auto

lemma map_fixpoint: "map f xs = xs \<Longrightarrow> x \<in> set xs \<Longrightarrow> f x = x"
  by (induction xs) auto

lemma filter_sum_le: "(\<And>x. x \<in> set xs \<Longrightarrow> (0 :: int) \<le> f x) \<Longrightarrow>
  sum_list (map f (filter P xs)) \<le> sum_list (map f xs)"
  by (induction xs) (auto intro: add_increasing)

end
