(* ===== verification/Gate.thy ===== *)
theory Gate
  imports Complex_Main Go_Prelude
begin

text \<open>
  The domain vocabulary of \<^verbatim>\<open>internal/gate\<close> (\<^verbatim>\<open>gate.go\<close>, \<^verbatim>\<open>recorder.go\<close>,
  \<^verbatim>\<open>cache.go\<close>): package references and their cache keys, severities, scan
  results, decisions, filter results, artifact entries and telemetry events. The ports of
  the package (Go interfaces) become function-valued arguments of the components that
  call them; their contracts are locales in the theories of the clients.
\<close>

section \<open>Package references\<close>

record package_ref =
  Ecosystem :: string
  Name :: string
  Version :: string
  Classifier :: string

definition Key :: "package_ref \<Rightarrow> string" where
  "Key r =
     (let key = Ecosystem r @ ''/'' @ Name r @ ''@'' @ Version r
      in if Classifier r \<noteq> [] then key @ ''?classifier='' @ Classifier r else key)"

record package_metadata =
  pm_PublishedAt :: gotime
  pm_Maintainer :: string
  pm_License :: string

section \<open>Severities\<close>

datatype severity =
    SeverityUnknown | SeverityLow | SeverityMedium | SeverityHigh | SeverityCritical

text \<open>The \<open>iota\<close> value of each constant orders the type.\<close>

primrec severity_rank :: "severity \<Rightarrow> nat" where
  "severity_rank SeverityUnknown = 0"
| "severity_rank SeverityLow = 1"
| "severity_rank SeverityMedium = 2"
| "severity_rank SeverityHigh = 3"
| "severity_rank SeverityCritical = 4"

lemma severity_rank_inject [simp]: "severity_rank s = severity_rank t \<longleftrightarrow> s = t"
  by (cases s; cases t) simp_all

instantiation severity :: linorder
begin

definition less_eq_severity :: "severity \<Rightarrow> severity \<Rightarrow> bool" where
  "s \<le> t \<longleftrightarrow> severity_rank s \<le> severity_rank t"

definition less_severity :: "severity \<Rightarrow> severity \<Rightarrow> bool" where
  "s < t \<longleftrightarrow> severity_rank s < severity_rank t"

instance
  by standard (auto simp: less_eq_severity_def less_severity_def)

end

definition ParseSeverity :: "string \<Rightarrow> severity" where
  "ParseSeverity s =
     (let u = to_upper s in
      if u = ''CRITICAL'' then SeverityCritical
      else if u = ''HIGH'' then SeverityHigh
      else if u = ''MEDIUM'' \<or> u = ''MODERATE'' then SeverityMedium
      else if u = ''LOW'' then SeverityLow
      else SeverityUnknown)"

primrec severity_String :: "severity \<Rightarrow> string" where
  "severity_String SeverityCritical = ''CRITICAL''"
| "severity_String SeverityHigh = ''HIGH''"
| "severity_String SeverityMedium = ''MEDIUM''"
| "severity_String SeverityLow = ''LOW''"
| "severity_String SeverityUnknown = ''UNKNOWN''"

definition AtLeast :: "severity \<Rightarrow> severity \<Rightarrow> bool" where
  "AtLeast s threshold = (if s = SeverityUnknown then False else threshold \<le> s)"

section \<open>Scan results and decisions\<close>

record cve_finding =
  cf_ID :: string
  cf_Aliases :: "string list"
  cf_Severity :: severity
  cf_Summary :: string
  cf_Score :: rat

record scan_result =
  sr_Clean :: bool
  sr_Findings :: "cve_finding list"
  sr_ScanJSON :: string

record policy_decision =
  pd_Allowed :: bool
  pd_Reason :: string
  pd_Findings :: "cve_finding list"

record filter_result =
  fr_Allowed :: bool
  fr_Reason :: string
  fr_PublishedAt :: gotime
  fr_BlockUntil :: gotime

record av_result =
  av_Clean :: bool
  av_Signature :: string
  av_Engine :: string
  av_Incomplete :: bool

record artifact_entry =
  ae_ArtifactPath :: string
  ae_ScanClean :: bool
  ae_LastCVECheck :: gotime
  ae_LastMalwareCheck :: gotime

section \<open>Telemetry events\<close>

datatype verdict = VerdictPass | VerdictCache | VerdictBlock | VerdictError

datatype gate_id = GateCache | GateSupply | GateCVE | GateMalware | GateImageScan

record event =
  ev_RequestID :: string
  ev_Time :: gotime
  ev_Ecosystem :: string
  ev_Package :: string
  ev_Version :: string
  ev_Verdict :: verdict
  ev_Gate :: gate_id
  ev_LatencyMS :: int64
  ev_HTTPStatus :: int
  ev_Reason :: string
  ev_BlockedBy :: "string list"
  ev_CVEs :: "cve_finding list"
  ev_MalwareEngine :: string
  ev_MalwareSignature :: string
  ev_PublishedAt :: gotime
  ev_BlockUntil :: gotime

definition ReasonDenylisted :: string where "ReasonDenylisted = ''denylisted''"

definition ReasonScanIncomplete :: string where "ReasonScanIncomplete = ''scan_incomplete''"

section \<open>Allowlist and denylist entries\<close>

text \<open>
  The two spellings an allowlist or denylist entry can have for a package: without a
  version (every version) and with one.
\<close>

definition byName :: "package_ref \<Rightarrow> string" where
  "byName r = Ecosystem r @ ''/'' @ Name r"

definition byVersion :: "package_ref \<Rightarrow> string" where
  "byVersion r = byName r @ ''@'' @ Version r"

text \<open>
  The contract of an entry index: it is built from a list of entries and matches a
  package exactly when one of the entries, trimmed, is one of its two spellings. The
  supply-chain allowlist and the policy engine's two lists both keep it.
\<close>

locale entry_index =
  fixes build :: "string list \<Rightarrow> 'i"
    and matches :: "'i \<Rightarrow> package_ref \<Rightarrow> bool"
  assumes matches_build:
    "matches (build es) r \<longleftrightarrow> (\<exists>e\<in>set es. trim_space e = byName r \<or> trim_space e = byVersion r)"
begin

lemma matches_none: "\<not> matches (build []) r"
  by (simp add: matches_build)

lemma matches_append:
  "matches (build (es @ fs)) r \<longleftrightarrow> matches (build es) r \<or> matches (build fs) r"
  by (auto simp: matches_build)

lemma matches_trimmed: "matches (build (map trim_space es)) r \<longleftrightarrow> matches (build es) r"
  by (auto simp: matches_build)

lemma matches_mono: "set es \<subseteq> set fs \<Longrightarrow> matches (build es) r \<Longrightarrow> matches (build fs) r"
  by (auto simp: matches_build)

lemma name_covers_versions:
  "trim_space e = byName r \<Longrightarrow> e \<in> set es \<Longrightarrow> matches (build es) (r\<lparr>Version := v\<rparr>)"
  by (auto simp: matches_build byName_def)

lemma matches_ignores_classifier:
  "matches (build es) (r\<lparr>Classifier := c\<rparr>) \<longleftrightarrow> matches (build es) r"
  by (simp add: matches_build byName_def byVersion_def)

end

section \<open>Lemmas\<close>

lemma AtLeast_rank: "AtLeast s t \<longleftrightarrow> s \<noteq> SeverityUnknown \<and> t \<le> s"
  by (simp add: AtLeast_def)

lemma severity_Low_least: "s \<noteq> SeverityUnknown \<longleftrightarrow> SeverityLow \<le> s"
  by (cases s) (simp_all add: less_eq_severity_def)

text \<open>An unknown threshold blocks the same findings as the threshold LOW.\<close>

lemma AtLeast_unknown_threshold: "AtLeast s SeverityUnknown \<longleftrightarrow> AtLeast s SeverityLow"
  by (cases s) (simp_all add: AtLeast_def less_eq_severity_def)

lemma AtLeast_antimono: "t \<le> t' \<Longrightarrow> AtLeast s t' \<Longrightarrow> AtLeast s t"
  by (auto simp: AtLeast_rank)

text \<open>Splitting a key back into its parts.\<close>

lemma append_sep_inject:
  assumes "c \<notin> set a" "c \<notin> set a'" "a @ c # b = a' @ c # b'"
  shows "a = a' \<and> b = b'"
  using assms by (induction a arbitrary: a') (auto simp: Cons_eq_append_conv append_eq_Cons_conv)

lemma append_last_sep_inject:
  assumes "c \<notin> set b" "c \<notin> set b'" "a @ c # b = a' @ c # b'"
  shows "a = a' \<and> b = b'"
proof -
  have "rev b @ c # rev a = rev b' @ c # rev a'"
    using arg_cong [OF assms(3), of rev] by simp
  with assms(1,2) have "rev b = rev b' \<and> rev a = rev a'"
    by (intro append_sep_inject) auto
  then show ?thesis by simp
qed

definition key_safe :: "package_ref \<Rightarrow> bool" where
  "key_safe r \<longleftrightarrow> CHR ''/'' \<notin> set (Ecosystem r) \<and> CHR ''@'' \<notin> set (Version r)
     \<and> CHR ''?'' \<notin> set (Version r) \<and> CHR ''@'' \<notin> set (Classifier r)"

definition key_tail :: "package_ref \<Rightarrow> string" where
  "key_tail r = Version r @ (if Classifier r \<noteq> [] then ''?classifier='' @ Classifier r else [])"

lemma Key_parts: "Key r = Ecosystem r @ CHR ''/'' # Name r @ CHR ''@'' # key_tail r"
  by (simp add: Key_def key_tail_def Let_def)

lemma key_tail_mark: "key_safe r \<Longrightarrow> CHR ''?'' \<in> set (key_tail r) \<longleftrightarrow> Classifier r \<noteq> []"
  by (simp add: key_safe_def key_tail_def)

lemma key_tail_inject:
  assumes "key_safe r" "key_safe r'" "key_tail r = key_tail r'"
  shows "Version r = Version r' \<and> Classifier r = Classifier r'"
proof -
  let ?c = "CHR ''?''"
  have v: "?c \<notin> set (Version r)" "?c \<notin> set (Version r')"
    using assms(1,2) by (simp_all add: key_safe_def)
  have e: "Classifier r = [] \<longleftrightarrow> Classifier r' = []"
    using assms key_tail_mark by metis
  show ?thesis
  proof (cases "Classifier r = []")
    case True
    with assms(3) e show ?thesis by (simp add: key_tail_def)
  next
    case False
    with e have "Version r @ ?c # ''classifier='' @ Classifier r
             = Version r' @ ?c # ''classifier='' @ Classifier r'"
      using assms(3) by (simp add: key_tail_def)
    from append_sep_inject [OF v this] show ?thesis by simp
  qed
qed

lemma ParseSeverity_String: "ParseSeverity (severity_String s) = s"
  by (induction s) code_simp+

lemma ParseSeverity_String_lower: "ParseSeverity (to_lower (severity_String s)) = s"
  by (induction s) code_simp+

text \<open>The cache key identifies a package reference: among references whose ecosystem has
  no slash, whose version has neither an at sign nor a question mark, and whose classifier
  has no at sign, two have the same key exactly when they are equal in every field (names
  may contain anything, as npm scopes and Maven groups do).\<close>

theorem Key_injective:
  assumes "key_safe r" "key_safe r'"
  shows "Key r = Key r' \<longleftrightarrow> r = r'"
proof
  assume k: "Key r = Key r'"
  have "Ecosystem r = Ecosystem r' \<and>
      Name r @ CHR ''@'' # key_tail r = Name r' @ CHR ''@'' # key_tail r'"
    using assms k by (intro append_sep_inject [of "CHR ''/''"]) (auto simp: key_safe_def Key_parts)
  moreover from this have "Name r = Name r' \<and> key_tail r = key_tail r'"
    using assms
    by (intro append_last_sep_inject [of "CHR ''@''"]) (auto simp: key_safe_def key_tail_def)
  ultimately show "r = r'"
    using key_tail_inject [OF assms] by simp
qed simp

theorem Key_injective_witness:
  "let r = \<lparr>Ecosystem = ''maven'', Name = ''org.a:b'', Version = ''1.0'', Classifier = ''''\<rparr>
   in key_safe r \<and> key_safe (r\<lparr>Classifier := ''sources''\<rparr>)
      \<and> Key r \<noteq> Key (r\<lparr>Classifier := ''sources''\<rparr>)"
proof -
  let ?r = "\<lparr>Ecosystem = ''maven'', Name = ''org.a:b'', Version = ''1.0'', Classifier = ''''\<rparr>"
  have k: "key_safe ?r" "key_safe (?r\<lparr>Classifier := ''sources''\<rparr>)"
    by (simp_all add: key_safe_def)
  show ?thesis using k Key_injective [OF k] by (simp add: Let_def)
qed

end
