(* ===== verification/Cache_Index.thy ===== *)
theory Cache_Index
  imports Gate
begin

text \<open>
  The SQLite index of the artifact cache, \<^verbatim>\<open>internal/cache/index.go\<close>. The table is the
  list of its rows in rowid order; a row keeps the columns of the schema, with the four
  columns of the uniqueness key gathered as a package reference. Each SQL statement of the
  source is one definition. A statement that reads fails when \<open>ix_readable\<close> is off, one
  that writes when \<open>ix_writable\<close> is off (a locked, full or closed database). Rows with
  equal \<open>last_hit\<close> come out of an ordered query in rowid order, as the index
  \<^verbatim>\<open>idx_last_hit\<close> delivers them.
\<close>

section \<open>Tables\<close>

record cache_row =
  rw_ref :: package_ref
  rw_file_path :: string
  rw_scan_clean :: int64
  rw_scan_json :: string
  rw_stored_at :: int64
  rw_expires_at :: int64
  rw_last_hit :: int64
  rw_hit_count :: int64
  rw_size_bytes :: int64
  rw_last_cve_check :: int64
  rw_last_malware_check :: int64
  rw_last_validated :: int64

record index =
  ix_rows :: "cache_row list"
  ix_readable :: bool
  ix_writable :: bool

record cache_entry =
  ce_ArtifactPath :: string
  ce_ScanClean :: bool
  ce_ScanJSON :: string
  ce_StoredAt :: gotime
  ce_HitCount :: int64
  ce_SizeBytes :: int64
  ce_LastCVECheck :: gotime
  ce_LastMalwareCheck :: gotime

datatype index_error = QueryFailed | ExecFailed

section \<open>Opening and migrating\<close>

text \<open>
  A database file from an earlier release: which of the later columns its table has, and
  its rows. A column that is absent reads as 0 (or the empty classifier) in the model and
  is written before it is ever read.
\<close>

record table_file =
  tb_has_classifier :: bool
  tb_has_checks :: bool
  tb_has_last_validated :: bool
  tb_rows :: "cache_row list"

definition rebuilt_row :: "cache_row \<Rightarrow> cache_row" where
  "rebuilt_row r = r\<lparr>rw_ref := (rw_ref r)\<lparr>Classifier := []\<rparr>, rw_last_cve_check := 0,
     rw_last_malware_check := 0, rw_last_validated := 0\<rparr>"

text \<open>The rebuild copies every row into a table with the current schema.\<close>

definition migrateClassifier :: "table_file \<Rightarrow> table_file" where
  "migrateClassifier t =
     (if tb_has_classifier t then t
      else \<lparr>tb_has_classifier = True, tb_has_checks = True, tb_has_last_validated = False,
            tb_rows = map rebuilt_row (tb_rows t)\<rparr>)"

definition checks_from_last_validated :: "cache_row \<Rightarrow> cache_row" where
  "checks_from_last_validated r =
     (let ts = (if 0 < rw_last_validated r then rw_last_validated r else rw_stored_at r)
      in r\<lparr>rw_last_cve_check := ts, rw_last_malware_check := ts, rw_last_validated := 0\<rparr>)"

definition addCheckTimestampColumns :: "table_file \<Rightarrow> table_file" where
  "addCheckTimestampColumns t =
     (let added = map (\<lambda>r. r\<lparr>rw_last_cve_check := 0, rw_last_malware_check := 0\<rparr>) (tb_rows t)
      in if tb_has_last_validated t
         then t\<lparr>tb_has_checks := True, tb_has_last_validated := False,
                tb_rows := map checks_from_last_validated added\<rparr>
         else t\<lparr>tb_has_checks := True, tb_rows := added\<rparr>)"

definition backfill_row :: "cache_row \<Rightarrow> cache_row" where
  "backfill_row r =
     (let r1 = (if rw_last_cve_check r = 0 then r\<lparr>rw_last_cve_check := rw_stored_at r\<rparr> else r)
      in if rw_last_malware_check r1 = 0 then r1\<lparr>rw_last_malware_check := rw_stored_at r1\<rparr> else r1)"

definition migrateCheckTimestamps :: "table_file \<Rightarrow> table_file" where
  "migrateCheckTimestamps t =
     (let t1 = (if \<not> tb_has_checks t then addCheckTimestampColumns t else t)
      in t1\<lparr>tb_rows := map backfill_row (tb_rows t1)\<rparr>)"

text \<open>
  Opening: the schema statement creates the table when the file has none. The pragmas,
  the schema and the migrations write, so opening fails on a database that cannot be
  written or read.
\<close>

definition empty_table :: table_file where
  "empty_table = \<lparr>tb_has_classifier = True, tb_has_checks = True,
     tb_has_last_validated = False, tb_rows = []\<rparr>"

definition NewIndex :: "bool \<Rightarrow> bool \<Rightarrow> table_file option \<Rightarrow> index_error + index" where
  "NewIndex readable writable file =
     (if \<not> writable then Inl ExecFailed
      else if \<not> readable then Inl QueryFailed
      else let t = (case file of None \<Rightarrow> empty_table | Some t \<Rightarrow> t);
               t' = migrateCheckTimestamps (migrateClassifier t)
           in Inr \<lparr>ix_rows = tb_rows t', ix_readable = True, ix_writable = True\<rparr>)"

section \<open>Statements\<close>

definition boolToInt :: "bool \<Rightarrow> int64" where
  "boolToInt b = (if b then 1 else 0)"

definition fresh_row :: "package_ref \<Rightarrow> cache_entry \<Rightarrow> cache_row" where
  "fresh_row ref e =
     (let ts = time_unix (ce_StoredAt e) in
      \<lparr>rw_ref = ref, rw_file_path = ce_ArtifactPath e, rw_scan_clean = boolToInt (ce_ScanClean e),
       rw_scan_json = ce_ScanJSON e, rw_stored_at = ts, rw_expires_at = 0, rw_last_hit = ts,
       rw_hit_count = 0, rw_size_bytes = ce_SizeBytes e, rw_last_cve_check = ts,
       rw_last_malware_check = ts, rw_last_validated = 0\<rparr>)"

text \<open>On a conflict every column but the hit count takes the new value.\<close>

fun upsert :: "cache_row \<Rightarrow> cache_row list \<Rightarrow> cache_row list" where
  "upsert n [] = [n]"
| "upsert n (r # rs) =
     (if rw_ref r = rw_ref n
      then n\<lparr>rw_hit_count := rw_hit_count r, rw_last_validated := rw_last_validated r\<rparr> # rs
      else r # upsert n rs)"

definition Index_Insert :: "index \<Rightarrow> package_ref \<Rightarrow> cache_entry \<Rightarrow> index_error + index" where
  "Index_Insert ix ref e =
     (if \<not> ix_writable ix then Inl ExecFailed
      else Inr (ix\<lparr>ix_rows := upsert (fresh_row ref e) (ix_rows ix)\<rparr>))"

definition find_row :: "package_ref \<Rightarrow> cache_row list \<Rightarrow> cache_row option" where
  "find_row ref rows = find (\<lambda>r. rw_ref r = ref) rows"

definition entry_of_row :: "cache_row \<Rightarrow> cache_entry" where
  "entry_of_row r =
     \<lparr>ce_ArtifactPath = rw_file_path r, ce_ScanClean = (rw_scan_clean r = 1),
      ce_ScanJSON = rw_scan_json r, ce_StoredAt = of_unix (rw_stored_at r),
      ce_HitCount = rw_hit_count r, ce_SizeBytes = rw_size_bytes r,
      ce_LastCVECheck = of_unix (rw_last_cve_check r),
      ce_LastMalwareCheck = of_unix (rw_last_malware_check r)\<rparr>"

definition Index_Get :: "index \<Rightarrow> package_ref \<Rightarrow> cache_entry option" where
  "Index_Get ix ref =
     (if \<not> ix_readable ix then None else map_option entry_of_row (find_row ref (ix_rows ix)))"

definition update_rows :: "package_ref \<Rightarrow> (cache_row \<Rightarrow> cache_row) \<Rightarrow> cache_row list \<Rightarrow> cache_row list" where
  "update_rows ref f rows = map (\<lambda>r. if rw_ref r = ref then f r else r) rows"

definition IncrementHit :: "index \<Rightarrow> package_ref \<Rightarrow> gotime \<Rightarrow> index_error + index" where
  "IncrementHit ix ref now =
     (if \<not> ix_writable ix then Inl ExecFailed
      else Inr (ix\<lparr>ix_rows := update_rows ref
             (\<lambda>r. r\<lparr>rw_hit_count := rw_hit_count r + 1, rw_last_hit := time_unix now\<rparr>) (ix_rows ix)\<rparr>))"

text \<open>The number of rows deleted, and the index after it.\<close>

definition Index_Delete :: "index \<Rightarrow> package_ref \<Rightarrow> index_error + nat \<times> index" where
  "Index_Delete ix ref =
     (if \<not> ix_writable ix then Inl ExecFailed
      else Inr (length (filter (\<lambda>r. rw_ref r = ref) (ix_rows ix)),
                ix\<lparr>ix_rows := filter (\<lambda>r. rw_ref r \<noteq> ref) (ix_rows ix)\<rparr>))"

definition LRUCandidates :: "index \<Rightarrow> nat \<Rightarrow> index_error + package_ref list" where
  "LRUCandidates ix n =
     (if \<not> ix_readable ix then Inl QueryFailed
      else Inr (map rw_ref (take n (sort_key rw_last_hit (ix_rows ix)))))"

definition StaleCandidates :: "index \<Rightarrow> int64 \<Rightarrow> nat \<Rightarrow> index_error + (package_ref \<times> int64) list" where
  "StaleCandidates ix cutoff n =
     (if \<not> ix_readable ix then Inl QueryFailed
      else Inr (map (\<lambda>r. (rw_ref r, rw_size_bytes r))
                 (take n (sort_key rw_last_hit (filter (\<lambda>r. rw_last_hit r < cutoff) (ix_rows ix))))))"

definition TotalSizeBytes :: "index \<Rightarrow> index_error + int64" where
  "TotalSizeBytes ix =
     (if \<not> ix_readable ix then Inl QueryFailed else Inr (sum_list (map rw_size_bytes (ix_rows ix))))"

definition StaleSizeBytes :: "index \<Rightarrow> int64 \<Rightarrow> index_error + int64" where
  "StaleSizeBytes ix cutoff =
     (if \<not> ix_readable ix then Inl QueryFailed
      else Inr (sum_list (map rw_size_bytes (filter (\<lambda>r. rw_last_hit r < cutoff) (ix_rows ix)))))"

definition Index_Count :: "index \<Rightarrow> index_error + nat" where
  "Index_Count ix = (if \<not> ix_readable ix then Inl QueryFailed else Inr (length (ix_rows ix)))"

definition Index_MarkCVEChecked :: "index \<Rightarrow> package_ref \<Rightarrow> int64 \<Rightarrow> index_error + index" where
  "Index_MarkCVEChecked ix ref ts =
     (if \<not> ix_writable ix then Inl ExecFailed
      else Inr (ix\<lparr>ix_rows := update_rows ref (\<lambda>r. r\<lparr>rw_last_cve_check := ts\<rparr>) (ix_rows ix)\<rparr>))"

definition Index_MarkMalwareChecked :: "index \<Rightarrow> package_ref \<Rightarrow> int64 \<Rightarrow> index_error + index" where
  "Index_MarkMalwareChecked ix ref ts =
     (if \<not> ix_writable ix then Inl ExecFailed
      else Inr (ix\<lparr>ix_rows := update_rows ref (\<lambda>r. r\<lparr>rw_last_malware_check := ts\<rparr>) (ix_rows ix)\<rparr>))"

section \<open>Keyed row lists\<close>

text \<open>The uniqueness constraint of the schema, and its upkeep by every statement.\<close>

definition unique_keys :: "cache_row list \<Rightarrow> bool" where
  "unique_keys rows \<longleftrightarrow> distinct (map rw_ref rows)"

lemma upsert_keys:
  "map rw_ref (upsert n rows) =
     (if rw_ref n \<in> rw_ref ` set rows then map rw_ref rows else map rw_ref rows @ [rw_ref n])"
  by (induction rows) auto

lemma unique_upsert: "unique_keys rows \<Longrightarrow> unique_keys (upsert n rows)"
  by (auto simp: unique_keys_def upsert_keys)

lemma update_rows_keys:
  "(\<And>r. rw_ref (f r) = rw_ref r) \<Longrightarrow> map rw_ref (update_rows ref f rows) = map rw_ref rows"
  by (simp add: update_rows_def)

lemma unique_update_rows:
  "(\<And>r. rw_ref (f r) = rw_ref r) \<Longrightarrow> unique_keys rows \<Longrightarrow> unique_keys (update_rows ref f rows)"
  by (simp add: unique_keys_def update_rows_keys)

lemma unique_filter: "unique_keys rows \<Longrightarrow> unique_keys (filter P rows)"
  by (simp add: unique_keys_def distinct_map_filter)

lemma find_row_upsert:
  "find_row ref (upsert n rows) =
     (if ref = rw_ref n
      then Some (case find_row ref rows of None \<Rightarrow> n
        | Some r \<Rightarrow> n\<lparr>rw_hit_count := rw_hit_count r, rw_last_validated := rw_last_validated r\<rparr>)
      else find_row ref rows)"
  by (induction rows) (auto simp: find_row_def)

lemma find_row_update:
  "(\<And>r. rw_ref (f r) = rw_ref r) \<Longrightarrow>
   find_row ref (update_rows ref' f rows) =
     (if ref = ref' then map_option f (find_row ref rows) else find_row ref rows)"
  by (induction rows) (auto simp: find_row_def update_rows_def)

lemma find_row_delete:
  "find_row ref (filter (\<lambda>r. rw_ref r \<noteq> ref') rows) = (if ref = ref' then None else find_row ref rows)"
  by (induction rows) (auto simp: find_row_def)

lemma find_row_Some: "find_row ref rows = Some r \<Longrightarrow> r \<in> set rows \<and> rw_ref r = ref"
  by (auto simp: find_row_def find_Some_iff)

lemma find_row_None: "find_row ref rows = None \<longleftrightarrow> ref \<notin> rw_ref ` set rows"
  by (auto simp: find_row_def find_None_iff)

lemma find_row_unique: "unique_keys rows \<Longrightarrow> r \<in> set rows \<Longrightarrow> find_row (rw_ref r) rows = Some r"
  by (induction rows) (auto simp: find_row_def unique_keys_def image_iff)

section \<open>Opening an old database\<close>

lemma backfill_row_sel [simp]:
  "rw_ref (backfill_row r) = rw_ref r" "rw_file_path (backfill_row r) = rw_file_path r"
  "rw_scan_clean (backfill_row r) = rw_scan_clean r" "rw_stored_at (backfill_row r) = rw_stored_at r"
  "rw_hit_count (backfill_row r) = rw_hit_count r" "rw_size_bytes (backfill_row r) = rw_size_bytes r"
  "rw_last_hit (backfill_row r) = rw_last_hit r"
  by (simp_all add: backfill_row_def Let_def)

lemma backfill_row_checks:
  "rw_stored_at r \<noteq> 0 \<Longrightarrow>
   rw_last_cve_check (backfill_row r) \<noteq> 0 \<and> rw_last_malware_check (backfill_row r) \<noteq> 0"
  by (simp add: backfill_row_def Let_def)

lemma backfill_row_idem: "rw_stored_at r \<noteq> 0 \<Longrightarrow> backfill_row (backfill_row r) = backfill_row r"
  by (simp add: backfill_row_def Let_def)

text \<open>The columns a row keeps through both migrations.\<close>

definition same_content :: "cache_row \<Rightarrow> cache_row \<Rightarrow> bool" where
  "same_content r r' \<longleftrightarrow>
     Ecosystem (rw_ref r') = Ecosystem (rw_ref r) \<and> Name (rw_ref r') = Name (rw_ref r)
     \<and> Version (rw_ref r') = Version (rw_ref r) \<and> rw_file_path r' = rw_file_path r
     \<and> rw_scan_clean r' = rw_scan_clean r \<and> rw_stored_at r' = rw_stored_at r
     \<and> rw_hit_count r' = rw_hit_count r \<and> rw_size_bytes r' = rw_size_bytes r
     \<and> rw_last_hit r' = rw_last_hit r"

lemma list_all2_map_right: "list_all2 P xs (map f xs) \<longleftrightarrow> (\<forall>x\<in>set xs. P x (f x))"
  by (induction xs) auto

lemma migrate_content:
  "list_all2 same_content (tb_rows t) (tb_rows (migrateCheckTimestamps (migrateClassifier t)))"
  by (auto simp: migrateCheckTimestamps_def migrateClassifier_def addCheckTimestampColumns_def Let_def
      checks_from_last_validated_def rebuilt_row_def same_content_def list_all2_map_right comp_def)

text \<open>Opening an index database of any earlier release keeps every cached artifact: each row
  survives, in order, with its coordinates, file, scan verdict, times, hits and size, and
  every row stored at a real time comes out with both re-check timestamps set, whichever
  of the later columns the old table lacked; opening the result again changes nothing.\<close>

theorem NewIndex_migrates:
  assumes "NewIndex True True (Some t) = Inr ix"
    and "\<forall>r\<in>set (tb_rows t). rw_stored_at r \<noteq> 0"
  shows "list_all2 same_content (tb_rows t) (ix_rows ix)
    \<and> (\<forall>r\<in>set (ix_rows ix). rw_last_cve_check r \<noteq> 0 \<and> rw_last_malware_check r \<noteq> 0)
    \<and> NewIndex True True (Some \<lparr>tb_has_classifier = True, tb_has_checks = True,
         tb_has_last_validated = False, tb_rows = ix_rows ix\<rparr>) = Inr ix"
proof -
  have rows: "ix_rows ix = tb_rows (migrateCheckTimestamps (migrateClassifier t))"
    and ix: "ix = \<lparr>ix_rows = ix_rows ix, ix_readable = True, ix_writable = True\<rparr>"
    using assms(1) by (auto simp: NewIndex_def Let_def)
  have c: "list_all2 same_content (tb_rows t) (ix_rows ix)"
    unfolding rows by (rule migrate_content)
  then have "\<forall>r\<in>set (ix_rows ix). rw_stored_at r \<noteq> 0"
    using assms(2) by (fastforce simp: list_all2_conv_all_nth in_set_conv_nth same_content_def)
  moreover obtain rs where rs: "ix_rows ix = map backfill_row rs"
    unfolding rows by (auto simp: migrateCheckTimestamps_def Let_def)
  ultimately have s: "\<forall>r\<in>set rs. rw_stored_at r \<noteq> 0" by simp
  then have i: "map backfill_row (ix_rows ix) = ix_rows ix"
    unfolding rs by (simp add: backfill_row_idem)
  have n: "NewIndex True True (Some \<lparr>tb_has_classifier = True, tb_has_checks = True,
         tb_has_last_validated = False, tb_rows = ix_rows ix\<rparr>) = Inr ix"
    using i ix by (simp add: NewIndex_def Let_def migrateCheckTimestamps_def migrateClassifier_def)
  have "\<forall>r\<in>set (ix_rows ix). rw_last_cve_check r \<noteq> 0 \<and> rw_last_malware_check r \<noteq> 0"
    using backfill_row_checks s unfolding rs by auto
  with c n show ?thesis by blast
qed

definition sample_old_row :: cache_row where
  "sample_old_row = \<lparr>rw_ref = \<lparr>Ecosystem = ''npm'', Name = ''a'', Version = ''1'', Classifier = []\<rparr>,
     rw_file_path = ''/f'', rw_scan_clean = 1, rw_scan_json = [], rw_stored_at = 1700000000,
     rw_expires_at = 0, rw_last_hit = 0, rw_hit_count = 3, rw_size_bytes = 10,
     rw_last_cve_check = 0, rw_last_malware_check = 0, rw_last_validated = 1700000500\<rparr>"

theorem NewIndex_migrates_witness:
  "\<exists>ix. NewIndex True True (Some \<lparr>tb_has_classifier = False, tb_has_checks = False,
        tb_has_last_validated = True, tb_rows = [sample_old_row]\<rparr>) = Inr ix
     \<and> (\<forall>r\<in>set (ix_rows ix). rw_last_cve_check r \<noteq> 0 \<and> rw_last_malware_check r \<noteq> 0)"
proof -
  let ?t = "\<lparr>tb_has_classifier = False, tb_has_checks = False,
        tb_has_last_validated = True, tb_rows = [sample_old_row]\<rparr>"
  have "\<forall>r\<in>set (tb_rows ?t). rw_stored_at r \<noteq> 0" by (simp add: sample_old_row_def)
  moreover obtain ix where "NewIndex True True (Some ?t) = Inr ix" by (simp add: NewIndex_def Let_def)
  ultimately show ?thesis using NewIndex_migrates by blast
qed

end
