(* ===== verification/Local_Cache.thy ===== *)
theory Local_Cache
  imports Cache_Index
begin

text \<open>
  The filesystem cache of \<^verbatim>\<open>internal/cache/local.go\<close> (with \<^verbatim>\<open>cache.go\<close>,
  \<^verbatim>\<open>factory.go\<close> and the adapter of \<^verbatim>\<open>artifactcache.go\<close>): the index, the files
  beside it, the eviction counter and the pending-eviction signal. Files are a map from
  paths to byte lists. What the operating system does during one \<open>Put\<close> (directory and
  temp-file creation, copy, rename) is an argument. The SHA-256 digest in a path is the
  argument \<open>digest\<close>: every definition works for any digest, and the theorems that need
  distinct paths for distinct keys say so as a hypothesis on the keys involved. The root
  path is taken to be clean, so joining it is appending.

  The eviction worker and the console's purge are the loops \<open>evictToSize\<close> and
  \<open>PurgeStale\<close>; a cancelled context is the argument \<open>cancelled\<close>, which says for each
  round whether the context has been cancelled when the round starts.
\<close>

section \<open>State\<close>

type_synonym bytes = string

record local_cache_config =
  lcc_RootPath :: string
  lcc_MaxSizeGB :: int64
  lcc_StaleAfter :: duration

record local_cache =
  lc_cfg :: local_cache_config
  lc_index :: index
  lc_files :: "string \<rightharpoonup> bytes"
  lc_evictions :: int64
  lc_evictCh :: bool

datatype cache_error =
    MkdirFailed | OpenTmpFailed | CreateTmpFailed | CopyFailed | RenameFailed
  | IndexFailed index_error | NoProgress nat | Cancelled | MkRootFailed | BadBackend string

definition DefaultStaleAfterDays :: int64 where "DefaultStaleAfterDays = 30"

definition NewLocalCache ::
  "local_cache_config \<Rightarrow> bool \<Rightarrow> index_error + index \<Rightarrow> (string \<rightharpoonup> bytes) \<Rightarrow> cache_error + local_cache" where
  "NewLocalCache cfg0 mkdir_ok idx files =
     (let cfg = (if lcc_StaleAfter cfg0 \<le> 0
                 then cfg0\<lparr>lcc_StaleAfter := wrap64 (DefaultStaleAfterDays * 24 * Hour)\<rparr> else cfg0)
      in if \<not> mkdir_ok then Inl MkRootFailed
         else case idx of
             Inl e \<Rightarrow> Inl (IndexFailed e)
           | Inr ix \<Rightarrow> Inr \<lparr>lc_cfg = cfg, lc_index = ix, lc_files = files, lc_evictions = 0,
                            lc_evictCh = False\<rparr>)"

text \<open>The backend selection of \<^verbatim>\<open>factory.go\<close>: the configuration handed to \<open>NewLocalCache\<close>.\<close>

definition cache_New :: "string \<Rightarrow> string \<Rightarrow> int64 \<Rightarrow> int64 \<Rightarrow> cache_error + local_cache_config" where
  "cache_New backend path maxSizeGB staleAfterDays =
     (if backend = [] \<or> backend = ''local'' then
        let days = (if staleAfterDays \<le> 0 then DefaultStaleAfterDays else staleAfterDays)
        in Inr \<lparr>lcc_RootPath = path, lcc_MaxSizeGB = maxSizeGB,
                lcc_StaleAfter = wrap64 (wrap64 (days * 24) * Hour)\<rparr>
      else Inl (BadBackend backend))"

definition artifactPath :: "(string \<Rightarrow> string) \<Rightarrow> local_cache \<Rightarrow> package_ref \<Rightarrow> string" where
  "artifactPath digest lc ref =
     (let hex = digest (Key ref) in
      lcc_RootPath (lc_cfg lc) @ ''/artifacts/'' @ take 2 hex @ ''/'' @ hex)"

section \<open>Lookup, storage, removal\<close>

definition lc_Get :: "local_cache \<Rightarrow> package_ref \<Rightarrow> gotime \<Rightarrow> cache_entry option \<times> local_cache" where
  "lc_Get lc ref now =
     (case Index_Get (lc_index lc) ref of
        None \<Rightarrow> (None, lc)
      | Some entry \<Rightarrow>
          if lc_files lc (ce_ArtifactPath entry) = None then
            (None, case Index_Delete (lc_index lc) ref of
                     Inl _ \<Rightarrow> lc | Inr (_, ix) \<Rightarrow> lc\<lparr>lc_index := ix\<rparr>)
          else
            (Some entry, case IncrementHit (lc_index lc) ref now of
                           Inl _ \<Rightarrow> lc | Inr ix \<Rightarrow> lc\<lparr>lc_index := ix\<rparr>))"

record put_io =
  io_mkdir :: bool
  io_createTemp :: bool
  io_copy :: bool
  io_rename :: bool

definition put_entry :: "string \<Rightarrow> bool \<Rightarrow> string \<Rightarrow> gotime \<Rightarrow> bytes \<Rightarrow> cache_entry" where
  "put_entry destPath scanClean scanJSON now content =
     \<lparr>ce_ArtifactPath = destPath, ce_ScanClean = scanClean, ce_ScanJSON = scanJSON,
      ce_StoredAt = now, ce_HitCount = 0, ce_SizeBytes = int (length content),
      ce_LastCVECheck = zero_time, ce_LastMalwareCheck = zero_time\<rparr>"

definition lc_Put ::
  "(string \<Rightarrow> string) \<Rightarrow> put_io \<Rightarrow> local_cache \<Rightarrow> package_ref \<Rightarrow> string \<Rightarrow> bool \<Rightarrow> string \<Rightarrow> gotime
   \<Rightarrow> cache_error option \<times> local_cache" where
  "lc_Put digest io lc ref tmpPath scanClean scanJSON now =
     (let destPath = artifactPath digest lc ref in
      if \<not> io_mkdir io then (Some MkdirFailed, lc)
      else case lc_files lc tmpPath of
        None \<Rightarrow> (Some OpenTmpFailed, lc)
      | Some content \<Rightarrow>
          if \<not> io_createTemp io then (Some CreateTmpFailed, lc)
          else if \<not> io_copy io then (Some CopyFailed, lc)
          else if \<not> io_rename io then (Some RenameFailed, lc)
          else
            let moved = lc\<lparr>lc_files := (lc_files lc)(destPath \<mapsto> content)\<rparr>;
                entry = put_entry destPath scanClean scanJSON now content
            in case Index_Insert (lc_index moved) ref entry of
                 Inl e \<Rightarrow> (Some (IndexFailed e),
                           moved\<lparr>lc_files := (lc_files moved)(destPath := None)\<rparr>)
               | Inr ix \<Rightarrow> (None, moved\<lparr>lc_index := ix, lc_evictCh := True\<rparr>))"

definition lc_invalidate :: "local_cache \<Rightarrow> package_ref \<Rightarrow> index_error option \<times> bool \<times> local_cache" where
  "lc_invalidate lc ref =
     (let lc1 = (case Index_Get (lc_index lc) ref of
                   None \<Rightarrow> lc
                 | Some entry \<Rightarrow> lc\<lparr>lc_files := (lc_files lc)(ce_ArtifactPath entry := None)\<rparr>)
      in case Index_Delete (lc_index lc1) ref of
           Inl e \<Rightarrow> (Some e, False, lc1)
         | Inr (n, ix) \<Rightarrow> (None, 0 < n, lc1\<lparr>lc_index := ix\<rparr>))"

definition lc_Invalidate :: "local_cache \<Rightarrow> package_ref \<Rightarrow> index_error option \<times> local_cache" where
  "lc_Invalidate lc ref = (case lc_invalidate lc ref of (err, _, lc') \<Rightarrow> (err, lc'))"

definition lc_MarkCVEChecked :: "local_cache \<Rightarrow> package_ref \<Rightarrow> gotime \<Rightarrow> index_error option \<times> local_cache" where
  "lc_MarkCVEChecked lc ref ts =
     (case Index_MarkCVEChecked (lc_index lc) ref (time_unix ts) of
        Inl e \<Rightarrow> (Some e, lc) | Inr ix \<Rightarrow> (None, lc\<lparr>lc_index := ix\<rparr>))"

definition lc_MarkMalwareChecked :: "local_cache \<Rightarrow> package_ref \<Rightarrow> gotime \<Rightarrow> index_error option \<times> local_cache" where
  "lc_MarkMalwareChecked lc ref ts =
     (case Index_MarkMalwareChecked (lc_index lc) ref (time_unix ts) of
        Inl e \<Rightarrow> (Some e, lc) | Inr ix \<Rightarrow> (None, lc\<lparr>lc_index := ix\<rparr>))"

text \<open>The narrower view of \<^verbatim>\<open>artifactcache.go\<close> that the proxy handler reads.\<close>

definition artifact_view :: "cache_entry \<Rightarrow> artifact_entry" where
  "artifact_view e = \<lparr>ae_ArtifactPath = ce_ArtifactPath e, ae_ScanClean = ce_ScanClean e,
     ae_LastCVECheck = ce_LastCVECheck e, ae_LastMalwareCheck = ce_LastMalwareCheck e\<rparr>"

definition ac_Get :: "local_cache \<Rightarrow> package_ref \<Rightarrow> gotime \<Rightarrow> artifact_entry option \<times> local_cache" where
  "ac_Get lc ref now =
     (case lc_Get lc ref now of (None, lc') \<Rightarrow> (None, lc') | (Some e, lc') \<Rightarrow> (Some (artifact_view e), lc'))"

section \<open>Statistics\<close>

record cache_stats =
  cs_Entries :: nat
  cs_SizeBytes :: int64
  cs_Evictions :: int64
  cs_StaleBytes :: int64

definition staleCutoff :: "local_cache \<Rightarrow> gotime \<Rightarrow> int64" where
  "staleCutoff lc now = time_unix (time_add now (wrap64 (- lcc_StaleAfter (lc_cfg lc))))"

definition lc_Stats :: "local_cache \<Rightarrow> gotime \<Rightarrow> index_error + cache_stats" where
  "lc_Stats lc now =
     (case TotalSizeBytes (lc_index lc) of
        Inl e \<Rightarrow> Inl e
      | Inr sz \<Rightarrow>
          (case Index_Count (lc_index lc) of
             Inl e \<Rightarrow> Inl e
           | Inr count \<Rightarrow>
               (case StaleSizeBytes (lc_index lc) (staleCutoff lc now) of
                  Inl e \<Rightarrow> Inl e
                | Inr stale \<Rightarrow> Inr \<lparr>cs_Entries = count, cs_SizeBytes = sz,
                    cs_Evictions = lc_evictions lc, cs_StaleBytes = stale\<rparr>)))"

section \<open>Purging stale entries\<close>

definition purgeBatch :: nat where "purgeBatch = 100"

record purge =
  pg_removed :: int64
  pg_freed :: int64
  pg_cache :: local_cache

fun purge_round :: "(package_ref \<times> int64) list \<Rightarrow> bool \<Rightarrow> purge \<Rightarrow> bool \<times> purge" where
  "purge_round [] progress st = (progress, st)"
| "purge_round ((ref, sz) # cs) progress st =
     (case lc_invalidate (pg_cache st) ref of
        (Some e, _, lc') \<Rightarrow> purge_round cs progress (st\<lparr>pg_cache := lc'\<rparr>)
      | (None, ok, lc') \<Rightarrow>
          purge_round cs True
            (if ok then st\<lparr>pg_removed := pg_removed st + 1, pg_freed := pg_freed st + sz,
                          pg_cache := lc'\<rparr>
             else st\<lparr>pg_cache := lc'\<rparr>))"

section \<open>Evicting down to a size\<close>

fun evict_round :: "package_ref list \<Rightarrow> bool \<Rightarrow> local_cache \<Rightarrow> bool \<times> local_cache" where
  "evict_round [] progress lc = (progress, lc)"
| "evict_round (ref # refs) progress lc =
     (case lc_invalidate lc ref of
        (Some e, _, lc') \<Rightarrow> evict_round refs progress lc'
      | (None, ok, lc') \<Rightarrow>
          evict_round refs True (if ok then lc'\<lparr>lc_evictions := lc_evictions lc' + 1\<rparr> else lc'))"

text \<open>
  Both loops go on only after a round that deleted without an error, which needs a
  writable index and then removes every candidate's row; so the rows left are the measure.
\<close>

lemma lc_invalidate_writable:
  "lc_invalidate lc ref = (None, ok, lc') \<Longrightarrow>
   ix_writable (lc_index lc) \<and> ix_rows (lc_index lc') = filter (\<lambda>r. rw_ref r \<noteq> ref) (ix_rows (lc_index lc))
   \<and> ix_writable (lc_index lc') \<and> ix_readable (lc_index lc') = ix_readable (lc_index lc)
   \<and> lc_cfg lc' = lc_cfg lc \<and> lc_evictions lc' = lc_evictions lc
   \<and> (ok \<longleftrightarrow> ref \<in> rw_ref ` set (ix_rows (lc_index lc)))"
  by (auto simp: lc_invalidate_def Let_def Index_Delete_def filter_empty_conv image_iff
      split: option.splits if_splits sum.splits)

lemma lc_invalidate_failed:
  "lc_invalidate lc ref = (Some e, ok, lc') \<Longrightarrow>
   \<not> ix_writable (lc_index lc) \<and> lc_index lc' = lc_index lc \<and> lc_cfg lc' = lc_cfg lc
   \<and> lc_evictions lc' = lc_evictions lc"
  by (auto simp: lc_invalidate_def Let_def Index_Delete_def split: option.splits if_splits sum.splits)

lemma purge_round_writable:
  assumes "purge_round cs progress st = (p, st')" "ix_writable (lc_index (pg_cache st))"
  shows "ix_rows (lc_index (pg_cache st')) =
           filter (\<lambda>r. rw_ref r \<notin> fst ` set cs) (ix_rows (lc_index (pg_cache st)))
    \<and> ix_writable (lc_index (pg_cache st')) \<and> (p \<longleftrightarrow> progress \<or> cs \<noteq> [])
    \<and> ix_readable (lc_index (pg_cache st')) = ix_readable (lc_index (pg_cache st))
    \<and> lc_cfg (pg_cache st') = lc_cfg (pg_cache st)"
  using assms
proof (induction cs arbitrary: progress st)
  case (Cons c cs)
  obtain ref sz where c: "c = (ref, sz)" by force
  obtain err ok lc' where i: "lc_invalidate (pg_cache st) ref = (err, ok, lc')"
    by (metis prod_cases3)
  with Cons.prems(2) have e: "err = None" by (cases err) (auto dest: lc_invalidate_failed)
  note w = lc_invalidate_writable [OF i [unfolded e]]
  define st1 where "st1 = (if ok then st\<lparr>pg_removed := pg_removed st + 1,
     pg_freed := pg_freed st + sz, pg_cache := lc'\<rparr> else st\<lparr>pg_cache := lc'\<rparr>)"
  have lc: "pg_cache st1 = lc'" by (simp add: st1_def)
  have "purge_round cs True st1 = (p, st')"
    using Cons.prems(1) by (simp add: c i e st1_def)
  from Cons.IH [OF this] w show ?case
    unfolding lc by (auto simp: c conj_commute)
qed simp

lemma purge_round_unwritable:
  assumes "purge_round cs progress st = (p, st')" "\<not> ix_writable (lc_index (pg_cache st))"
  shows "p = progress"
  using assms
proof (induction cs arbitrary: progress st)
  case (Cons c cs)
  obtain ref sz where c: "c = (ref, sz)" by force
  obtain err ok lc' where i: "lc_invalidate (pg_cache st) ref = (err, ok, lc')"
    by (metis prod_cases3)
  with Cons.prems(2) obtain e where e: "err = Some e"
    by (cases err) (auto dest: lc_invalidate_writable)
  from Cons.prems(1) have "purge_round cs progress (st\<lparr>pg_cache := lc'\<rparr>) = (p, st')"
    by (simp add: c i e)
  with Cons.IH lc_invalidate_failed [OF i [unfolded e]] Cons.prems(2) show ?case by simp
qed simp

lemma evict_round_writable:
  assumes "evict_round refs progress lc = (p, lc')" "ix_writable (lc_index lc)"
  shows "ix_rows (lc_index lc') = filter (\<lambda>r. rw_ref r \<notin> set refs) (ix_rows (lc_index lc))
    \<and> ix_writable (lc_index lc') \<and> (p \<longleftrightarrow> progress \<or> refs \<noteq> [])
    \<and> ix_readable (lc_index lc') = ix_readable (lc_index lc)"
  using assms
proof (induction refs arbitrary: progress lc)
  case (Cons ref refs)
  obtain err ok lc1 where i: "lc_invalidate lc ref = (err, ok, lc1)" by (metis prod_cases3)
  with Cons.prems(2) have e: "err = None" by (cases err) (auto dest: lc_invalidate_failed)
  note w = lc_invalidate_writable [OF i [unfolded e]]
  have "evict_round refs True (if ok then lc1\<lparr>lc_evictions := lc_evictions lc1 + 1\<rparr> else lc1) = (p, lc')"
    using Cons.prems(1) by (simp add: i e)
  from Cons.IH [OF this] w show ?case by (auto simp: conj_commute)
qed simp

lemma evict_round_unwritable:
  assumes "evict_round refs progress lc = (p, lc')" "\<not> ix_writable (lc_index lc)"
  shows "p = progress"
  using assms
proof (induction refs arbitrary: progress lc)
  case (Cons ref refs)
  obtain err ok lc1 where i: "lc_invalidate lc ref = (err, ok, lc1)" by (metis prod_cases3)
  with Cons.prems(2) obtain e where e: "err = Some e"
    by (cases err) (auto dest: lc_invalidate_writable)
  with Cons.prems i Cons.IH [of progress lc1] lc_invalidate_failed [OF i [unfolded e]]
  show ?case by simp
qed simp

lemma StaleCandidates_refs:
  "StaleCandidates ix cutoff n = Inr cs \<Longrightarrow> fst ` set cs \<subseteq> rw_ref ` set (ix_rows ix)"
  by (auto simp: StaleCandidates_def split: if_splits dest!: in_set_takeD)

lemma LRUCandidates_refs:
  "LRUCandidates ix n = Inr refs \<Longrightarrow> set refs \<subseteq> rw_ref ` set (ix_rows ix)"
  by (auto simp: LRUCandidates_def split: if_splits dest!: in_set_takeD)

lemma deleted_rows_fewer:
  "ref \<in> A \<Longrightarrow> ref \<in> rw_ref ` set rows \<Longrightarrow> length (filter (\<lambda>r. rw_ref r \<notin> A) rows) < length rows"
  by (auto intro!: length_filter_less)

lemma purge_round_fewer:
  assumes "StaleCandidates (lc_index (pg_cache st)) cutoff n = Inr cs" "cs \<noteq> []"
    and "(True, st') = purge_round cs False st"
  shows "length (ix_rows (lc_index (pg_cache st'))) < length (ix_rows (lc_index (pg_cache st)))"
proof -
  have w: "ix_writable (lc_index (pg_cache st))"
    using purge_round_unwritable [OF assms(3) [symmetric]] by blast
  obtain ref where ref: "ref \<in> fst ` set cs" using assms(2) by (cases cs) auto
  with StaleCandidates_refs [OF assms(1)]
  have "ref \<in> rw_ref ` set (ix_rows (lc_index (pg_cache st)))" by blast
  with purge_round_writable [OF assms(3) [symmetric] w] ref show ?thesis
    by (metis (no_types) deleted_rows_fewer)
qed

lemma evict_round_fewer:
  assumes "LRUCandidates (lc_index lc) n = Inr refs" "refs \<noteq> []"
    and "(True, lc') = evict_round refs False lc"
  shows "length (ix_rows (lc_index lc')) < length (ix_rows (lc_index lc))"
proof -
  have w: "ix_writable (lc_index lc)"
    using evict_round_unwritable [OF assms(3) [symmetric]] by blast
  obtain ref where ref: "ref \<in> set refs" using assms(2) by (cases refs) auto
  with LRUCandidates_refs [OF assms(1)]
  have "ref \<in> rw_ref ` set (ix_rows (lc_index lc))" by blast
  with evict_round_writable [OF assms(3) [symmetric] w] ref show ?thesis
    by (metis (no_types) deleted_rows_fewer)
qed

function PurgeStale_loop :: "(nat \<Rightarrow> bool) \<Rightarrow> int64 \<Rightarrow> nat \<Rightarrow> purge \<Rightarrow> cache_error option \<times> purge" where
  "PurgeStale_loop cancelled cutoff i st =
     (if cancelled i then (Some Cancelled, st)
      else case StaleCandidates (lc_index (pg_cache st)) cutoff purgeBatch of
        Inl e \<Rightarrow> (Some (IndexFailed e), st)
      | Inr cs \<Rightarrow>
          if length cs = 0 then (None, st)
          else case purge_round cs False st of (progress, st') \<Rightarrow>
            if \<not> progress then (Some (NoProgress (length cs)), st')
            else PurgeStale_loop cancelled cutoff (Suc i) st')"
  by pat_completeness auto
termination
  by (relation "measure (\<lambda>(_, _, _, st). length (ix_rows (lc_index (pg_cache st))))")
     (auto intro: purge_round_fewer)

declare PurgeStale_loop.simps [simp del]

definition PurgeStale ::
  "(nat \<Rightarrow> bool) \<Rightarrow> local_cache \<Rightarrow> gotime \<Rightarrow> cache_error option \<times> purge" where
  "PurgeStale cancelled lc now =
     PurgeStale_loop cancelled (staleCutoff lc now) 0 \<lparr>pg_removed = 0, pg_freed = 0, pg_cache = lc\<rparr>"

text \<open>The loop of \<open>evictToSize\<close> once the total is known to be over the limit.\<close>

function evict_loop :: "(nat \<Rightarrow> bool) \<Rightarrow> int64 \<Rightarrow> nat \<Rightarrow> int64 \<Rightarrow> local_cache \<Rightarrow> local_cache" where
  "evict_loop cancelled maxBytes i tot lc =
     (if maxBytes < tot \<and> \<not> cancelled i then
        case LRUCandidates (lc_index lc) 10 of
          Inl e \<Rightarrow> lc
        | Inr refs \<Rightarrow>
            if length refs = 0 then lc
            else case evict_round refs False lc of (progress, lc') \<Rightarrow>
              if \<not> progress then lc'
              else evict_loop cancelled maxBytes (Suc i)
                     (case TotalSizeBytes (lc_index lc') of Inl _ \<Rightarrow> 0 | Inr t \<Rightarrow> t) lc'
      else lc)"
  by pat_completeness auto
termination
  by (relation "measure (\<lambda>(_, _, _, _, lc). length (ix_rows (lc_index lc)))")
     (auto intro: evict_round_fewer)

declare evict_loop.simps [simp del]

definition evictToSize :: "(nat \<Rightarrow> bool) \<Rightarrow> int64 \<Rightarrow> local_cache \<Rightarrow> local_cache" where
  "evictToSize cancelled maxBytes lc =
     (case TotalSizeBytes (lc_index lc) of
        Inl _ \<Rightarrow> lc
      | Inr tot \<Rightarrow> if tot \<le> maxBytes then lc else evict_loop cancelled maxBytes 0 tot lc)"

definition evictIfNeeded :: "(nat \<Rightarrow> bool) \<Rightarrow> local_cache \<Rightarrow> local_cache" where
  "evictIfNeeded cancelled lc =
     (let maxBytes = wrap64 (lcc_MaxSizeGB (lc_cfg lc) * 1024 * 1024 * 1024)
      in if maxBytes = 0 then lc else evictToSize cancelled maxBytes lc)"

text \<open>One turn of the eviction worker: it takes the pending signal and runs.\<close>

definition evictWorker_turn :: "(nat \<Rightarrow> bool) \<Rightarrow> local_cache \<Rightarrow> local_cache" where
  "evictWorker_turn cancelled lc =
     (if lc_evictCh lc then evictIfNeeded cancelled (lc\<lparr>lc_evictCh := False\<rparr>) else lc)"

end
