(* ===== verification/Artifact_Cache.thy ===== *)
theory Artifact_Cache
  imports Gate
begin

text \<open>
  The port \<^verbatim>\<open>gate.ArtifactCache\<close> (\<^verbatim>\<open>internal/gate/cache.go\<close>) as the proxy handler
  uses it, together with the files the handler itself touches: the operations are a record
  of functions on a cache state \<open>'c\<close>, each returning the new state; an operation that may
  fail returns \<open>True\<close> for an error. The contract of the port is the locale
  \<open>artifact_cache\<close>: what a cache stores is a map from references to bytes and a verdict,
  and each operation acts on that map as its name says.
\<close>

record 'c cache_ops =
  c_get :: "'c \<Rightarrow> package_ref \<Rightarrow> gotime \<Rightarrow> artifact_entry option \<times> 'c"
  c_put :: "'c \<Rightarrow> package_ref \<Rightarrow> string \<Rightarrow> bool \<Rightarrow> string \<Rightarrow> gotime \<Rightarrow> bool \<times> 'c"
  c_invalidate :: "'c \<Rightarrow> package_ref \<Rightarrow> bool \<times> 'c"
  c_markCVE :: "'c \<Rightarrow> package_ref \<Rightarrow> gotime \<Rightarrow> bool \<times> 'c"
  c_markMalware :: "'c \<Rightarrow> package_ref \<Rightarrow> gotime \<Rightarrow> bool \<times> 'c"
  c_open :: "'c \<Rightarrow> string \<Rightarrow> string option"
  c_writeTemp :: "'c \<Rightarrow> string \<Rightarrow> string \<Rightarrow> 'c"
  c_remove :: "'c \<Rightarrow> string \<Rightarrow> 'c"

type_synonym contents = "package_ref \<rightharpoonup> string \<times> bool"

locale artifact_cache =
  fixes ops :: "'c cache_ops"
    and inv :: "'c \<Rightarrow> bool"
    and known :: "package_ref set"
    and contents :: "'c \<Rightarrow> contents"
    and is_temp :: "string \<Rightarrow> bool"
  assumes get_hit:
      "inv c \<Longrightarrow> c_get ops c ref now = (Some e, c') \<Longrightarrow>
       \<exists>b. contents c ref = Some (b, ae_ScanClean e) \<and> c_open ops c' (ae_ArtifactPath e) = Some b"
    and get_miss:
      "inv c \<Longrightarrow> c_get ops c ref now = (None, c') \<Longrightarrow> contents c ref = None"
    and get_keeps:
      "inv c \<Longrightarrow> c_get ops c ref now = (x, c') \<Longrightarrow> inv c' \<and> contents c' = contents c"
    and put_stores:
      "inv c \<Longrightarrow> ref \<in> known \<Longrightarrow> c_put ops c ref tmp clean json now = (False, c') \<Longrightarrow>
       inv c' \<and> (\<exists>b. c_open ops c tmp = Some b \<and> contents c' = (contents c)(ref \<mapsto> (b, clean)))"
    and put_fails:
      "inv c \<Longrightarrow> ref \<in> known \<Longrightarrow> c_put ops c ref tmp clean json now = (True, c') \<Longrightarrow>
       inv c' \<and> contents c' \<subseteq>\<^sub>m contents c"
    and invalidate_drops:
      "inv c \<Longrightarrow> ref \<in> known \<Longrightarrow> c_invalidate ops c ref = (err, c') \<Longrightarrow>
       inv c' \<and> contents c' = (contents c)(ref := None)"
    and markCVE_keeps:
      "inv c \<Longrightarrow> c_markCVE ops c ref ts = (err, c') \<Longrightarrow>
       inv c' \<and> contents c' = contents c \<and> c_open ops c' = c_open ops c"
    and markMalware_keeps:
      "inv c \<Longrightarrow> c_markMalware ops c ref ts = (err, c') \<Longrightarrow>
       inv c' \<and> contents c' = contents c \<and> c_open ops c' = c_open ops c"
    and temp_keeps:
      "inv c \<Longrightarrow> is_temp p \<Longrightarrow> inv (c_writeTemp ops c p b) \<and>
       contents (c_writeTemp ops c p b) = contents c \<and> c_open ops (c_writeTemp ops c p b) p = Some b"
    and remove_keeps:
      "inv c \<Longrightarrow> is_temp p \<Longrightarrow> inv (c_remove ops c p) \<and> contents (c_remove ops c p) = contents c"
begin

text \<open>What was stored is what a later lookup serves, with the verdict it was stored under.\<close>

lemma get_after_put:
  assumes "inv c" "ref \<in> known" "c_open ops c tmp = Some b"
    and "c_put ops c ref tmp clean json now = (False, c')"
    and "c_get ops c' ref now' = (x, c'')"
  shows "\<exists>e. x = Some e \<and> ae_ScanClean e = clean \<and> c_open ops c'' (ae_ArtifactPath e) = Some b"
proof -
  have p: "inv c'" "contents c' ref = Some (b, clean)"
    using put_stores [OF assms(1,2,4)] assms(3) by auto
  show ?thesis
  proof (cases x)
    case None
    with get_miss [of c' ref now' c''] p assms(5) show ?thesis by simp
  next
    case (Some e)
    with get_hit [of c' ref now' e c''] p assms(5) show ?thesis by auto
  qed
qed

text \<open>After an invalidation a lookup misses.\<close>

lemma get_after_invalidate:
  assumes "inv c" "ref \<in> known" "c_invalidate ops c ref = (err, c')"
    and "c_get ops c' ref now = (x, c'')"
  shows "x = None"
proof -
  have i: "inv c'" "contents c' ref = None"
    using invalidate_drops [OF assms(1-3)] by auto
  show ?thesis
  proof (cases x)
    case (Some e)
    with get_hit [of c' ref now e c''] i assms(4) show ?thesis by simp
  qed simp
qed

end

end
