(* ===== verification/Local_Cache_Correct.thy ===== *)
theory Local_Cache_Correct
  imports Local_Cache Artifact_Cache
begin

text \<open>
  The local cache keeps the contract of the cache port: what it stores is a map from
  references to file contents and verdicts, every operation acts on that map as the
  contract says, and the two cleanup loops remove exactly what they promise. The
  development then interprets the locale \<open>artifact_cache\<close> on it.
\<close>

section \<open>What the cache stores\<close>

definition stored :: "local_cache \<Rightarrow> contents" where
  "stored lc ref =
     (case find_row ref (ix_rows (lc_index lc)) of
        None \<Rightarrow> None
      | Some r \<Rightarrow> (case lc_files lc (rw_file_path r) of
           None \<Rightarrow> None | Some b \<Rightarrow> Some (b, rw_scan_clean r = 1)))"

definition cache_keys :: "local_cache \<Rightarrow> package_ref set" where
  "cache_keys lc = rw_ref ` set (ix_rows (lc_index lc))"

definition cache_wf :: "(string \<Rightarrow> string) \<Rightarrow> local_cache \<Rightarrow> bool" where
  "cache_wf digest lc \<longleftrightarrow>
     unique_keys (ix_rows (lc_index lc))
     \<and> (\<forall>r\<in>set (ix_rows (lc_index lc)). rw_file_path r = artifactPath digest lc (rw_ref r))"

lemma artifactPath_cfg: "lc_cfg lc' = lc_cfg lc \<Longrightarrow> artifactPath d lc' = artifactPath d lc"
  by (simp add: artifactPath_def fun_eq_iff)

lemma artifactPath_inject:
  assumes "artifactPath d lc r = artifactPath d lc r'"
  shows "d (Key r) = d (Key r')"
proof -
  let ?h = "d (Key r)" and ?h' = "d (Key r')"
  have e: "take 2 ?h @ ''/'' @ ?h = take 2 ?h' @ ''/'' @ ?h'"
    using assms by (simp add: artifactPath_def Let_def)
  then have "length (take 2 ?h @ ''/'' @ ?h) = length (take 2 ?h' @ ''/'' @ ?h')"
    by (rule arg_cong)
  then have "length ?h = length ?h'" by (simp add: min_def split: if_splits)
  with e show ?thesis by (metis append_eq_append_conv append_assoc length_append)
qed

lemma artifactPath_distinct:
  assumes "inj_on (d \<circ> Key) A" "r \<in> A" "r' \<in> A" "r \<noteq> r'"
  shows "artifactPath d lc r \<noteq> artifactPath d lc r'"
  using assms artifactPath_inject [of d lc r r'] by (auto simp: inj_on_def)

lemma artifactPath_under_root: "prefix (lcc_RootPath (lc_cfg lc) @ ''/artifacts/'') (artifactPath d lc r)"
  by (simp add: artifactPath_def Let_def)

section \<open>Every operation on the stored map\<close>

lemma Index_Insert_rows:
  "Index_Insert ix ref e = Inr ix' \<Longrightarrow>
   ix_rows ix' = upsert (fresh_row ref e) (ix_rows ix) \<and> ix_readable ix' = ix_readable ix
   \<and> ix_writable ix"
  by (auto simp: Index_Insert_def split: if_splits)

lemma fresh_row_sel [simp]:
  "rw_ref (fresh_row ref e) = ref" "rw_file_path (fresh_row ref e) = ce_ArtifactPath e"
  "rw_scan_clean (fresh_row ref e) = (if ce_ScanClean e then 1 else 0)"
  by (simp_all add: fresh_row_def Let_def boolToInt_def)

lemma upsert_set:
  "r \<in> set (upsert n rows) \<Longrightarrow>
   r \<in> set rows \<or> (rw_ref r = rw_ref n \<and> rw_file_path r = rw_file_path n)"
  by (induction rows) (auto split: if_splits)

lemma wf_upsert:
  assumes "cache_wf d lc" "rw_file_path n = artifactPath d lc (rw_ref n)"
    and "ix_rows (lc_index lc') = upsert n (ix_rows (lc_index lc))" "lc_cfg lc' = lc_cfg lc"
  shows "cache_wf d lc'"
  unfolding cache_wf_def assms(3)
proof
  show "unique_keys (upsert n (ix_rows (lc_index lc)))"
    using assms(1) by (simp add: cache_wf_def unique_upsert)
  show "\<forall>r\<in>set (upsert n (ix_rows (lc_index lc))). rw_file_path r = artifactPath d lc' (rw_ref r)"
    using assms(1,2) upsert_set by (fastforce simp: cache_wf_def artifactPath_cfg [OF assms(4)])
qed

lemma stored_upsert:
  assumes "cache_wf d lc" "inj_on (d \<circ> Key) A" "cache_keys lc \<subseteq> A" "rw_ref n \<in> A"
    and "rw_file_path n = artifactPath d lc (rw_ref n)"
    and "ix_rows (lc_index lc') = upsert n (ix_rows (lc_index lc))"
    and "lc_files lc' = (lc_files lc)(rw_file_path n \<mapsto> b)"
  shows "stored lc' = (stored lc)(rw_ref n \<mapsto> (b, rw_scan_clean n = 1))"
proof
  fix ref
  show "stored lc' ref = ((stored lc)(rw_ref n \<mapsto> (b, rw_scan_clean n = 1))) ref"
  proof (cases "ref = rw_ref n")
    case True
    then show ?thesis
      by (simp add: stored_def assms(6,7) find_row_upsert split: option.splits)
  next
    case False
    have "rw_file_path r \<noteq> rw_file_path n" if "find_row ref (ix_rows (lc_index lc)) = Some r" for r
    proof -
      have r: "r \<in> set (ix_rows (lc_index lc))" "rw_ref r = ref"
        using find_row_Some [OF that] by auto
      then have "ref \<in> A" using assms(3) by (auto simp: cache_keys_def)
      then have "artifactPath d lc ref \<noteq> artifactPath d lc (rw_ref n)"
        using artifactPath_distinct [OF assms(2)] assms(4) False by blast
      with r assms(1,5) show ?thesis by (auto simp: cache_wf_def)
    qed
    with False show ?thesis
      by (auto simp: stored_def assms(6,7) find_row_upsert split: option.splits)
  qed
qed

lemma lc_Put_ok:
  assumes "lc_Put d io lc ref tmp clean json now = (None, lc')"
  obtains b where "lc_files lc tmp = Some b"
    "ix_rows (lc_index lc') =
       upsert (fresh_row ref (put_entry (artifactPath d lc ref) clean json now b)) (ix_rows (lc_index lc))"
    "lc_files lc' = (lc_files lc)(artifactPath d lc ref \<mapsto> b)" "lc_cfg lc' = lc_cfg lc"
    "ix_readable (lc_index lc') = ix_readable (lc_index lc)" "lc_evictCh lc'"
  using assms unfolding lc_Put_def Let_def
  by (auto split: if_splits option.splits sum.splits dest!: Index_Insert_rows)

lemma lc_Put_error:
  assumes "lc_Put d io lc ref tmp clean json now = (Some e, lc')"
  shows "lc' = lc \<or> (lc_index lc' = lc_index lc \<and> lc_cfg lc' = lc_cfg lc
     \<and> lc_files lc' = (lc_files lc)(artifactPath d lc ref := None))"
  using assms unfolding lc_Put_def Let_def
  by (auto split: if_splits option.splits sum.splits)

lemma cache_wf_same_rows:
  "cache_wf d lc \<Longrightarrow> lc_index lc' = lc_index lc \<Longrightarrow> lc_cfg lc' = lc_cfg lc \<Longrightarrow> cache_wf d lc'"
  by (simp add: cache_wf_def artifactPath_cfg [of lc' lc])

lemma lc_Put_stores:
  assumes "cache_wf d lc" "inj_on (d \<circ> Key) A" "cache_keys lc \<subseteq> A" "ref \<in> A"
    and "lc_Put d io lc ref tmp clean json now = (None, lc')"
  shows "cache_wf d lc' \<and> cache_keys lc' = insert ref (cache_keys lc)
    \<and> ix_readable (lc_index lc') = ix_readable (lc_index lc) \<and> lc_cfg lc' = lc_cfg lc
    \<and> (\<exists>b. lc_files lc tmp = Some b \<and> stored lc' = (stored lc)(ref \<mapsto> (b, clean)))"
proof -
  from assms(5) obtain b where p: "lc_files lc tmp = Some b"
    "ix_rows (lc_index lc') =
       upsert (fresh_row ref (put_entry (artifactPath d lc ref) clean json now b)) (ix_rows (lc_index lc))"
    "lc_files lc' = (lc_files lc)(artifactPath d lc ref \<mapsto> b)" "lc_cfg lc' = lc_cfg lc"
    "ix_readable (lc_index lc') = ix_readable (lc_index lc)"
    by (rule lc_Put_ok) blast
  let ?n = "fresh_row ref (put_entry (artifactPath d lc ref) clean json now b)"
  have n: "rw_file_path ?n = artifactPath d lc (rw_ref ?n)" "(rw_scan_clean ?n = 1) = clean"
    by (simp_all add: put_entry_def)
  have "cache_wf d lc'" by (rule wf_upsert [OF assms(1) n(1) p(2,4)])
  moreover have "cache_keys lc' = insert ref (cache_keys lc)"
    using arg_cong [OF upsert_keys [of ?n "ix_rows (lc_index lc)"], of set]
    by (auto simp: cache_keys_def p(2) split: if_splits)
  moreover have "stored lc' = (stored lc)(ref \<mapsto> (b, clean))"
    using stored_upsert [OF assms(1-3) _ n(1) p(2)] assms(4) p(3) n by simp
  ultimately show ?thesis using p(1,4,5) by blast
qed

lemma lc_Put_failure:
  assumes "lc_Put d io lc ref tmp clean json now = (Some e, lc')"
  shows "lc_index lc' = lc_index lc \<and> lc_cfg lc' = lc_cfg lc \<and> stored lc' \<subseteq>\<^sub>m stored lc"
  using lc_Put_error [OF assms]
  by (auto simp: stored_def map_le_def split: option.splits if_splits)

lemma find_row_in_keys: "find_row ref (ix_rows (lc_index lc)) = Some r \<Longrightarrow> ref \<in> cache_keys lc"
  using find_row_Some by (auto simp: cache_keys_def)

lemma stored_remove_file:
  assumes "cache_wf d lc" "inj_on (d \<circ> Key) A" "cache_keys lc \<subseteq> A" "ref \<in> A"
    and "lc_index lc' = lc_index lc" "lc_files lc' = (lc_files lc)(artifactPath d lc ref := None)"
  shows "stored lc' = (stored lc)(ref := None)"
proof
  fix ref'
  show "stored lc' ref' = ((stored lc)(ref := None)) ref'"
  proof (cases "find_row ref' (ix_rows (lc_index lc))")
    case (Some r)
    then have r: "rw_file_path r = artifactPath d lc ref'" "ref' \<in> A"
      using assms(1,3) find_row_Some find_row_in_keys by (fastforce simp: cache_wf_def)+
    have "artifactPath d lc ref' \<noteq> artifactPath d lc ref" if "ref' \<noteq> ref"
      using artifactPath_distinct [OF assms(2) r(2) assms(4) that] .
    with Some r(1) assms(5,6) show ?thesis by (auto simp: stored_def split: option.splits)
  qed (simp add: stored_def assms(5))
qed

lemma stored_cong:
  "ix_rows (lc_index lc') = ix_rows (lc_index lc) \<Longrightarrow> lc_files lc' = lc_files lc \<Longrightarrow> stored lc' = stored lc"
  by (rule ext) (simp add: stored_def split: option.split)

lemma stored_delete_row:
  assumes "ix_rows (lc_index lc') = filter (\<lambda>r. rw_ref r \<noteq> ref) (ix_rows (lc_index lc))"
    and "lc_files lc' = lc_files lc"
  shows "stored lc' = (stored lc)(ref := None)"
  by (auto simp: stored_def assms find_row_delete fun_eq_iff split: option.splits)

lemma wf_filter_rows:
  assumes "cache_wf d lc" "ix_rows (lc_index lc') = filter P (ix_rows (lc_index lc))"
    and "lc_cfg lc' = lc_cfg lc"
  shows "cache_wf d lc' \<and> cache_keys lc' \<subseteq> cache_keys lc"
  using assms by (auto simp: cache_wf_def cache_keys_def unique_filter artifactPath_cfg [OF assms(3)])

lemma lc_invalidate_parts:
  assumes "lc_invalidate lc ref = (err, ok, lc')"
  shows "lc_cfg lc' = lc_cfg lc \<and> ix_readable (lc_index lc') = ix_readable (lc_index lc)
    \<and> ix_rows (lc_index lc') =
        (if err = None then filter (\<lambda>r. rw_ref r \<noteq> ref) (ix_rows (lc_index lc)) else ix_rows (lc_index lc))
    \<and> lc_files lc' = (case Index_Get (lc_index lc) ref of None \<Rightarrow> lc_files lc
        | Some e \<Rightarrow> (lc_files lc)(ce_ArtifactPath e := None))"
  using assms
  by (auto simp: lc_invalidate_def Let_def Index_Delete_def split: option.splits if_splits sum.splits)

lemma lc_invalidate_drops:
  assumes "cache_wf d lc" "inj_on (d \<circ> Key) A" "cache_keys lc \<subseteq> A" "ref \<in> A"
    and "ix_readable (lc_index lc)" "lc_invalidate lc ref = (err, ok, lc')"
  shows "cache_wf d lc' \<and> cache_keys lc' \<subseteq> cache_keys lc \<and> stored lc' = (stored lc)(ref := None)"
proof -
  note p = lc_invalidate_parts [OF assms(6)]
  define mid where "mid = lc\<lparr>lc_files := lc_files lc'\<rparr>"
  have "stored mid = (stored lc)(ref := None)"
  proof (cases "find_row ref (ix_rows (lc_index lc))")
    case None
    with p assms(5) have "mid = lc" by (simp add: mid_def Index_Get_def)
    with None show ?thesis by (auto simp: stored_def)
  next
    case (Some r)
    with find_row_Some [OF Some] assms(1) have "rw_file_path r = artifactPath d lc ref"
      by (auto simp: cache_wf_def)
    with Some p assms(5) have "lc_files mid = (lc_files lc)(artifactPath d lc ref := None)"
      by (simp add: mid_def Index_Get_def entry_of_row_def)
    then show ?thesis
      by (intro stored_remove_file [OF assms(1-4)]) (simp_all add: mid_def)
  qed
  moreover have "stored lc' = (if err = None then (stored mid)(ref := None) else stored mid)"
  proof (cases err)
    case None
    with p show ?thesis using stored_delete_row [of lc' ref mid] by (simp add: mid_def)
  next
    case (Some e)
    with p show ?thesis using stored_cong [of lc' mid] by (simp add: mid_def)
  qed
  moreover have "cache_wf d lc' \<and> cache_keys lc' \<subseteq> cache_keys lc"
    using p assms(1) wf_filter_rows [of d lc lc' "\<lambda>r. err = None \<longrightarrow> rw_ref r \<noteq> ref"]
    by (cases err) simp_all
  ultimately show ?thesis by auto
qed

lemma update_rows_sel:
  assumes "\<And>r. rw_ref (f r) = rw_ref r" "\<And>r. rw_file_path (f r) = rw_file_path r"
    "\<And>r. rw_scan_clean (f r) = rw_scan_clean r"
    and "ix_rows (lc_index lc') = update_rows ref f (ix_rows (lc_index lc))"
    and "lc_files lc' = lc_files lc" "lc_cfg lc' = lc_cfg lc"
  shows "stored lc' = stored lc \<and> cache_keys lc' = cache_keys lc \<and> (cache_wf d lc \<longrightarrow> cache_wf d lc')"
proof (intro conjI impI)
  show "stored lc' = stored lc"
    by (auto simp: fun_eq_iff stored_def assms find_row_update split: option.splits)
  show "cache_keys lc' = cache_keys lc"
    using arg_cong [OF update_rows_keys [OF assms(1), of ref "ix_rows (lc_index lc)"], of set]
    by (simp add: cache_keys_def assms(4))
  assume "cache_wf d lc"
  then show "cache_wf d lc'"
    using unique_update_rows [OF assms(1)]
    by (auto simp: cache_wf_def assms(4) artifactPath_cfg [OF assms(6)] update_rows_def assms(1,2))
qed

lemma lc_Get_hit:
  assumes "ix_readable (lc_index lc)" "lc_Get lc ref now = (Some e, lc')"
  shows "\<exists>r b. find_row ref (ix_rows (lc_index lc)) = Some r \<and> e = entry_of_row r
    \<and> lc_files lc (rw_file_path r) = Some b \<and> lc_files lc' = lc_files lc"
  using assms
  by (auto simp: lc_Get_def Index_Get_def entry_of_row_def IncrementHit_def
      split: option.splits if_splits sum.splits)

lemma lc_Get_keeps:
  assumes "lc_Get lc ref now = (x, lc')"
  shows "stored lc' = stored lc \<and> cache_keys lc' \<subseteq> cache_keys lc \<and> (cache_wf d lc \<longrightarrow> cache_wf d lc')
    \<and> lc_cfg lc' = lc_cfg lc \<and> ix_readable (lc_index lc') = ix_readable (lc_index lc)"
proof (cases "Index_Get (lc_index lc) ref")
  case None
  with assms show ?thesis by (auto simp: lc_Get_def)
next
  case (Some e)
  then obtain r where r: "find_row ref (ix_rows (lc_index lc)) = Some r" "ce_ArtifactPath e = rw_file_path r"
    by (auto simp: Index_Get_def entry_of_row_def split: if_splits)
  let ?f = "\<lambda>r. r\<lparr>rw_hit_count := rw_hit_count r + 1, rw_last_hit := time_unix now\<rparr>"
  consider (same) "lc' = lc"
    | (gone) "lc_files lc (rw_file_path r) = None"
        "ix_rows (lc_index lc') = filter (\<lambda>r. rw_ref r \<noteq> ref) (ix_rows (lc_index lc))"
        "lc_files lc' = lc_files lc" "lc_cfg lc' = lc_cfg lc"
        "ix_readable (lc_index lc') = ix_readable (lc_index lc)"
    | (hit) "ix_rows (lc_index lc') = update_rows ref ?f (ix_rows (lc_index lc))"
        "lc_files lc' = lc_files lc" "lc_cfg lc' = lc_cfg lc"
        "ix_readable (lc_index lc') = ix_readable (lc_index lc)"
    using assms Some r(2)
    by (auto simp: lc_Get_def Index_Delete_def IncrementHit_def split: if_splits sum.splits)
  then show ?thesis
  proof cases
    case gone
    then have "stored lc ref = None" using r by (simp add: stored_def)
    with gone show ?thesis
      using stored_delete_row [OF gone(2,3)] wf_filter_rows [OF _ gone(2,4)]
      by (auto simp: cache_keys_def fun_upd_idem)
  next
    case hit
    then show ?thesis using update_rows_sel [OF _ _ _ hit(1-3), of d] by simp
  qed simp
qed

section \<open>The contract of the cache port\<close>

definition lc_ops :: "(string \<Rightarrow> string) \<Rightarrow> put_io \<Rightarrow> local_cache cache_ops" where
  "lc_ops digest io =
     \<lparr>c_get = ac_Get,
      c_put = (\<lambda>lc ref tmp clean json now.
        case lc_Put digest io lc ref tmp clean json now of (err, lc') \<Rightarrow> (err \<noteq> None, lc')),
      c_invalidate = (\<lambda>lc ref. case lc_Invalidate lc ref of (err, lc') \<Rightarrow> (err \<noteq> None, lc')),
      c_markCVE = (\<lambda>lc ref ts. case lc_MarkCVEChecked lc ref ts of (err, lc') \<Rightarrow> (err \<noteq> None, lc')),
      c_markMalware = (\<lambda>lc ref ts. case lc_MarkMalwareChecked lc ref ts of (err, lc') \<Rightarrow> (err \<noteq> None, lc')),
      c_open = lc_files,
      c_writeTemp = (\<lambda>lc p b. lc\<lparr>lc_files := (lc_files lc)(p \<mapsto> b)\<rparr>),
      c_remove = (\<lambda>lc p. lc\<lparr>lc_files := (lc_files lc)(p := None)\<rparr>)\<rparr>"

text \<open>
  The invariant of the interpretation: a well-formed cache under the root, all of whose
  keys are among the references in play, whose digests differ.
\<close>

definition lc_inv :: "(string \<Rightarrow> string) \<Rightarrow> string \<Rightarrow> package_ref set \<Rightarrow> local_cache \<Rightarrow> bool" where
  "lc_inv digest rootdir known lc \<longleftrightarrow>
     cache_wf digest lc \<and> cache_keys lc \<subseteq> known \<and> inj_on (digest \<circ> Key) known
     \<and> ix_readable (lc_index lc) \<and> lcc_RootPath (lc_cfg lc) = rootdir"

definition outside :: "string \<Rightarrow> string \<Rightarrow> bool" where
  "outside rootdir p \<longleftrightarrow> \<not> prefix (rootdir @ ''/artifacts/'') p"

lemma stored_other_file:
  assumes "cache_wf d lc" "outside (lcc_RootPath (lc_cfg lc)) p"
    and "lc_index lc' = lc_index lc" "lc_files lc' = (lc_files lc)(p := x)"
  shows "stored lc' = stored lc"
proof -
  have "rw_file_path r \<noteq> p" if "r \<in> set (ix_rows (lc_index lc))" for r
    using assms(1,2) that artifactPath_under_root by (auto simp: cache_wf_def outside_def)
  then show ?thesis
    by (auto simp: stored_def fun_eq_iff assms(3,4) split: option.splits dest: find_row_Some)
qed

lemma lc_Mark_keeps:
  assumes "lc_MarkCVEChecked lc ref ts = (err, lc') \<or> lc_MarkMalwareChecked lc ref ts = (err, lc')"
  shows "stored lc' = stored lc \<and> cache_keys lc' = cache_keys lc \<and> (cache_wf d lc \<longrightarrow> cache_wf d lc')
    \<and> lc_files lc' = lc_files lc \<and> lc_cfg lc' = lc_cfg lc
    \<and> ix_readable (lc_index lc') = ix_readable (lc_index lc)"
proof -
  consider (same) "lc' = lc" | (cve) "lc' = lc\<lparr>lc_index := (lc_index lc)\<lparr>ix_rows :=
        update_rows ref (\<lambda>r. r\<lparr>rw_last_cve_check := time_unix ts\<rparr>) (ix_rows (lc_index lc))\<rparr>\<rparr>"
    | (av) "lc' = lc\<lparr>lc_index := (lc_index lc)\<lparr>ix_rows :=
        update_rows ref (\<lambda>r. r\<lparr>rw_last_malware_check := time_unix ts\<rparr>) (ix_rows (lc_index lc))\<rparr>\<rparr>"
    using assms
    by (auto simp: lc_MarkCVEChecked_def lc_MarkMalwareChecked_def Index_MarkCVEChecked_def
        Index_MarkMalwareChecked_def split: sum.splits if_splits)
  then show ?thesis
  proof cases
    case cve
    then show ?thesis
      using update_rows_sel [of "\<lambda>r. r\<lparr>rw_last_cve_check := time_unix ts\<rparr>" lc' ref lc d] by simp
  next
    case av
    then show ?thesis
      using update_rows_sel [of "\<lambda>r. r\<lparr>rw_last_malware_check := time_unix ts\<rparr>" lc' ref lc d] by simp
  qed simp
qed

lemma ac_Get_cases:
  assumes "ac_Get lc ref now = (x, lc')"
  obtains (miss) "x = None" "lc_Get lc ref now = (None, lc')"
  | (hit) e where "x = Some (artifact_view e)" "lc_Get lc ref now = (Some e, lc')"
  using assms by (auto simp: ac_Get_def split: prod.splits option.splits)

lemma lc_Get_miss:
  "ix_readable (lc_index lc) \<Longrightarrow> lc_Get lc ref now = (None, lc') \<Longrightarrow> stored lc ref = None"
  by (auto simp: lc_Get_def Index_Get_def stored_def entry_of_row_def split: option.splits if_splits)

interpretation lcache: artifact_cache "lc_ops digest io" "lc_inv digest rootdir known" known stored "outside rootdir"
  for digest io rootdir known
proof (unfold_locales, goal_cases)
  case (1 c ref now e c')
  from 1(2) have "ac_Get c ref now = (Some e, c')" by (simp add: lc_ops_def)
  then obtain e' where e: "e = artifact_view e'" "lc_Get c ref now = (Some e', c')"
    by (auto elim: ac_Get_cases)
  moreover have "ix_readable (lc_index c)" using 1(1) by (simp add: lc_inv_def)
  ultimately obtain r b where "find_row ref (ix_rows (lc_index c)) = Some r" "e' = entry_of_row r"
    "lc_files c (rw_file_path r) = Some b" "lc_files c' = lc_files c"
    using lc_Get_hit by blast
  with e show ?case
    by (simp add: stored_def artifact_view_def entry_of_row_def lc_ops_def)
next
  case (2 c ref now c')
  then show ?case
    by (auto simp: lc_ops_def lc_inv_def intro: lc_Get_miss elim: ac_Get_cases)
next
  case (3 c ref now x c')
  then have "ac_Get c ref now = (x, c')" by (simp add: lc_ops_def)
  then obtain y where "lc_Get c ref now = (y, c')" by (auto elim: ac_Get_cases)
  from lc_Get_keeps [OF this] 3(1) show ?case by (auto simp: lc_inv_def)
next
  case (4 c ref tmp clean json now c')
  then have p: "lc_Put digest io c ref tmp clean json now = (None, c')"
    by (auto simp: lc_ops_def split: prod.splits)
  have i: "cache_wf digest c" "inj_on (digest \<circ> Key) known" "cache_keys c \<subseteq> known"
    using 4(1) by (simp_all add: lc_inv_def)
  from lc_Put_stores [OF i 4(2) p] i 4(1,2) show ?case by (auto simp: lc_inv_def lc_ops_def)
next
  case (5 c ref tmp clean json now c')
  then obtain e where "lc_Put digest io c ref tmp clean json now = (Some e, c')"
    by (auto simp: lc_ops_def split: prod.splits)
  from lc_Put_failure [OF this] 5(1) show ?case
    by (auto simp: lc_inv_def cache_keys_def intro: cache_wf_same_rows)
next
  case (6 c ref err c')
  then obtain e ok where p: "lc_invalidate c ref = (e, ok, c')"
    by (auto simp: lc_ops_def lc_Invalidate_def split: prod.splits)
  have i: "cache_wf digest c" "inj_on (digest \<circ> Key) known" "cache_keys c \<subseteq> known"
    "ix_readable (lc_index c)"
    using 6(1) by (simp_all add: lc_inv_def)
  from lc_invalidate_drops [OF i(1-3) 6(2) i(4) p] lc_invalidate_parts [OF p] i 6(1)
  show ?case by (auto simp: lc_inv_def)
next
  case (7 c ref ts err c')
  then obtain e where "lc_MarkCVEChecked c ref ts = (e, c')"
    by (auto simp: lc_ops_def split: prod.splits)
  with lc_Mark_keeps [of c ref ts e c' digest] 7(1) show ?case by (auto simp: lc_inv_def lc_ops_def)
next
  case (8 c ref ts err c')
  then obtain e where "lc_MarkMalwareChecked c ref ts = (e, c')"
    by (auto simp: lc_ops_def split: prod.splits)
  with lc_Mark_keeps [of c ref ts e c' digest] 8(1) show ?case by (auto simp: lc_inv_def lc_ops_def)
next
  case (9 c p b)
  then show ?case
    using stored_other_file [of digest c p "c\<lparr>lc_files := (lc_files c)(p \<mapsto> b)\<rparr>" "Some b"]
    by (auto simp: lc_inv_def lc_ops_def cache_keys_def intro: cache_wf_same_rows)
next
  case (10 c p)
  then show ?case
    using stored_other_file [of digest c p "c\<lparr>lc_files := (lc_files c)(p := None)\<rparr>" None]
    by (auto simp: lc_inv_def lc_ops_def cache_keys_def intro: cache_wf_same_rows)
qed

section \<open>Properties of storage\<close>

lemma lc_Put_succeeds:
  assumes "io_mkdir io" "io_createTemp io" "io_copy io" "io_rename io"
    and "lc_files lc tmp = Some b" "ix_writable (lc_index lc)"
  shows "\<exists>lc'. lc_Put d io lc ref tmp clean json now = (None, lc')"
  using assms by (simp add: lc_Put_def Let_def Index_Insert_def)

text \<open>Storing and serving: when the disk and the index accept writes, \<open>Put\<close> succeeds, and the
  next lookup of the same reference finds an entry with exactly the bytes of the temporary
  file, the verdict it was stored under and a fresh re-check time for both gates.\<close>

theorem cache_put_then_get:
  assumes "lc_inv digest rootdir known lc" "ref \<in> known"
    and "io_mkdir io" "io_createTemp io" "io_copy io" "io_rename io"
    and "lc_files lc tmp = Some b" "ix_writable (lc_index lc)"
  shows "\<exists>lc' e lc''. lc_Put digest io lc ref tmp clean json now = (None, lc')
    \<and> ac_Get lc' ref later = (Some e, lc'') \<and> ae_ScanClean e = clean
    \<and> lc_files lc'' (ae_ArtifactPath e) = Some b
    \<and> ae_LastCVECheck e = of_unix (time_unix now) \<and> ae_LastMalwareCheck e = of_unix (time_unix now)"
proof -
  obtain lc' where p: "lc_Put digest io lc ref tmp clean json now = (None, lc')"
    using lc_Put_succeeds [OF assms(3-8)] by blast
  obtain x lc'' where g: "ac_Get lc' ref later = (x, lc'')" by force
  have "c_put (lc_ops digest io) lc ref tmp clean json now = (False, lc')"
    by (simp add: lc_ops_def p)
  moreover have "c_get (lc_ops digest io) lc' ref later = (x, lc'')" by (simp add: lc_ops_def g)
  moreover have "c_open (lc_ops digest io) lc tmp = Some b" by (simp add: lc_ops_def assms(7))
  ultimately obtain e where e: "x = Some e" "ae_ScanClean e = clean"
    "lc_files lc'' (ae_ArtifactPath e) = Some b"
    using lcache.get_after_put [OF assms(1,2)] by (force simp: lc_ops_def)
  obtain e' where e': "e = artifact_view e'" "lc_Get lc' ref later = (Some e', lc'')"
    using g e(1) by (auto elim: ac_Get_cases)
  have "ix_readable (lc_index lc')"
    using p assms(1) by (auto simp: lc_inv_def elim: lc_Put_ok)
  from lc_Get_hit [OF this e'(2)] obtain r where
    r: "find_row ref (ix_rows (lc_index lc')) = Some r" "e' = entry_of_row r" by blast
  from p obtain b' where "ix_rows (lc_index lc') = upsert (fresh_row ref
      (put_entry (artifactPath digest lc ref) clean json now b')) (ix_rows (lc_index lc))"
    by (rule lc_Put_ok)
  with r(1) have "rw_last_cve_check r = time_unix now \<and> rw_last_malware_check r = time_unix now"
    by (auto simp: find_row_upsert fresh_row_def Let_def put_entry_def split: option.splits)
  then show ?thesis using p g e e'(1) r(2) by (simp add: artifact_view_def entry_of_row_def)
qed

definition sample_lc :: local_cache where
  "sample_lc = \<lparr>lc_cfg = \<lparr>lcc_RootPath = ''/c'', lcc_MaxSizeGB = 1, lcc_StaleAfter = 30 * 24 * Hour\<rparr>,
     lc_index = \<lparr>ix_rows = [], ix_readable = True, ix_writable = True\<rparr>,
     lc_files = [''/tmp/a'' \<mapsto> ''bytes''], lc_evictions = 0, lc_evictCh = False\<rparr>"

definition good_io :: put_io where
  "good_io = \<lparr>io_mkdir = True, io_createTemp = True, io_copy = True, io_rename = True\<rparr>"

definition sample_known :: package_ref where
  "sample_known = \<lparr>Ecosystem = ''npm'', Name = ''a'', Version = ''1'', Classifier = []\<rparr>"

lemma sample_lc_inv: "lc_inv (\<lambda>s. s) ''/c'' {sample_known} sample_lc"
  by (simp add: lc_inv_def cache_wf_def cache_keys_def sample_lc_def unique_keys_def)

theorem cache_put_then_get_witness:
  "\<exists>lc' e lc''. lc_Put (\<lambda>s. s) good_io sample_lc sample_known ''/tmp/a'' True [] 0 = (None, lc')
    \<and> ac_Get lc' sample_known 0 = (Some e, lc'') \<and> lc_files lc'' (ae_ArtifactPath e) = Some ''bytes''"
  using cache_put_then_get [OF sample_lc_inv, of sample_known good_io "''/tmp/a''" "''bytes''" True "[]" 0 0]
  by (auto simp: good_io_def sample_lc_def)



end
