(* ===== verification/Local_Cache_Sweeps.thy ===== *)
theory Local_Cache_Sweeps
  imports Local_Cache_Correct
begin

text \<open>
  The two cleanup loops of the local cache, \<open>PurgeStale\<close> and \<open>evictToSize\<close>: both
  terminate (their definitions carry the measure), and on an index that can be read and
  written a purge removes exactly the stale entries and an eviction stops under the limit
  having removed only the least recently used ones.
\<close>

section \<open>Sums over the rows of a keyed table\<close>

lemma unique_keys_distinct: "unique_keys rows \<Longrightarrow> distinct rows"
  by (simp add: unique_keys_def distinct_map)

lemma unique_keys_inj: "unique_keys rows \<Longrightarrow> inj_on rw_ref (set rows)"
  by (simp add: unique_keys_def distinct_map)

lemma filter_refs:
  assumes "unique_keys rows" "set ks \<subseteq> set rows"
  shows "filter (\<lambda>r. rw_ref r \<notin> rw_ref ` set ks) rows = filter (\<lambda>r. r \<notin> set ks) rows"
proof (rule filter_cong [OF refl])
  fix r assume "r \<in> set rows"
  then show "rw_ref r \<notin> rw_ref ` set ks \<longleftrightarrow> r \<notin> set ks"
    using inj_on_image_mem_iff [OF unique_keys_inj [OF assms(1)] _ assms(2)] by simp
qed

lemma sum_list_split:
  fixes f :: "'a \<Rightarrow> int"
  assumes "distinct xs" "distinct ks" "set ks \<subseteq> set xs"
  shows "sum_list (map f xs) = sum_list (map f ks) + sum_list (map f (filter (\<lambda>x. x \<notin> set ks) xs))"
proof -
  have "sum f (set xs) = sum f (set xs - set ks) + sum f (set ks)"
    by (rule sum.subset_diff [OF assms(3)]) simp
  moreover have "set xs - set ks = set (filter (\<lambda>x. x \<notin> set ks) xs)" by auto
  ultimately show ?thesis
    using assms(1,2) by (simp add: sum_list_distinct_conv_sum_set)
qed

section \<open>One round of each loop\<close>

lemma purge_round_counts:
  assumes "purge_round cs progress st = (p, st')" "ix_writable (lc_index (pg_cache st))"
    and "distinct (map fst cs)" "fst ` set cs \<subseteq> rw_ref ` set (ix_rows (lc_index (pg_cache st)))"
  shows "pg_removed st' = pg_removed st + int (length cs) \<and> pg_freed st' = pg_freed st + sum_list (map snd cs)"
  using assms
proof (induction cs arbitrary: progress st)
  case (Cons c cs)
  obtain ref sz where c: "c = (ref, sz)" by force
  obtain err ok lc' where i: "lc_invalidate (pg_cache st) ref = (err, ok, lc')" by (metis prod_cases3)
  with Cons.prems(2) have e: "err = None" by (cases err) (auto dest: lc_invalidate_failed)
  note w = lc_invalidate_writable [OF i [unfolded e]]
  have ok using w Cons.prems(4) by (auto simp: c)
  define st1 where "st1 = st\<lparr>pg_removed := pg_removed st + 1, pg_freed := pg_freed st + sz, pg_cache := lc'\<rparr>"
  have "purge_round cs True st1 = (p, st')"
    using Cons.prems(1) \<open>ok\<close> by (simp add: c i e st1_def)
  moreover have "fst ` set cs \<subseteq> rw_ref ` set (ix_rows (lc_index (pg_cache st1)))"
  proof
    fix x assume x: "x \<in> fst ` set cs"
    then have "x \<noteq> ref" using Cons.prems(3) by (auto simp: c)
    moreover have "x \<in> rw_ref ` set (ix_rows (lc_index (pg_cache st)))"
      using Cons.prems(4) x by (auto simp only: c list.set image_insert)
    ultimately show "x \<in> rw_ref ` set (ix_rows (lc_index (pg_cache st1)))"
      using w by (auto simp: st1_def)
  qed
  ultimately show ?case
    using Cons.IH [of True st1] Cons.prems(3) w by (simp add: c st1_def)
qed simp

text \<open>The rows a batch names.\<close>

definition stale_batch :: "int64 \<Rightarrow> cache_row list \<Rightarrow> cache_row list" where
  "stale_batch cutoff rows = take purgeBatch (sort_key rw_last_hit (filter (\<lambda>r. rw_last_hit r < cutoff) rows))"

definition lru_batch :: "cache_row list \<Rightarrow> cache_row list" where
  "lru_batch rows = take 10 (sort_key rw_last_hit rows)"

lemma stale_batch_props:
  assumes "unique_keys rows"
  shows "distinct (stale_batch c rows)" "distinct (map rw_ref (stale_batch c rows))"
    "set (stale_batch c rows) \<subseteq> set (filter (\<lambda>r. rw_last_hit r < c) rows)"
    "stale_batch c rows = [] \<longleftrightarrow> filter (\<lambda>r. rw_last_hit r < c) rows = []"
proof -
  let ?s = "sort_key rw_last_hit (filter (\<lambda>r. rw_last_hit r < c) rows)"
  have d: "distinct (map rw_ref (filter (\<lambda>r. rw_last_hit r < c) rows))"
    using unique_filter [OF assms] by (simp add: unique_keys_def)
  then have "distinct (map rw_ref ?s)" by (simp add: distinct_map)
  then show "distinct (map rw_ref (stale_batch c rows))"
    by (simp add: stale_batch_def take_map [symmetric])
  then show "distinct (stale_batch c rows)" by (simp add: distinct_map)
  show "set (stale_batch c rows) \<subseteq> set (filter (\<lambda>r. rw_last_hit r < c) rows)"
    by (auto simp: stale_batch_def dest!: in_set_takeD)
  show "stale_batch c rows = [] \<longleftrightarrow> filter (\<lambda>r. rw_last_hit r < c) rows = []"
    by (simp add: stale_batch_def purgeBatch_def) (metis set_empty set_sort)
qed

section \<open>Purging\<close>

text \<open>A round removes its batch; the entries still stale are the others, and the sums split.\<close>

lemma purge_round_batch:
  assumes "unique_keys (ix_rows (lc_index (pg_cache st)))" "ix_writable (lc_index (pg_cache st))"
  defines "rows \<equiv> ix_rows (lc_index (pg_cache st))"
  assumes "stale_batch cutoff rows \<noteq> []"
    and "purge_round (map (\<lambda>r. (rw_ref r, rw_size_bytes r)) (stale_batch cutoff rows)) False st = (p, st1)"
  shows "p \<and> ix_rows (lc_index (pg_cache st1)) = filter (\<lambda>r. r \<notin> set (stale_batch cutoff rows)) rows
    \<and> pg_removed st1 = pg_removed st + int (length (stale_batch cutoff rows))
    \<and> pg_freed st1 = pg_freed st + sum_list (map rw_size_bytes (stale_batch cutoff rows))
    \<and> ix_writable (lc_index (pg_cache st1))
    \<and> ix_readable (lc_index (pg_cache st1)) = ix_readable (lc_index (pg_cache st))"
proof -
  note b = stale_batch_props [OF assms(1), of cutoff, folded rows_def]
  have keys: "fst ` set (map (\<lambda>r. (rw_ref r, rw_size_bytes r)) (stale_batch cutoff rows))
      = rw_ref ` set (stale_batch cutoff rows)"
    by (simp add: image_image)
  have sub: "set (stale_batch cutoff rows) \<subseteq> set rows" using b(3) by auto
  note w = purge_round_writable [OF assms(5,2), unfolded keys, folded rows_def]
  have "rw_ref ` set (stale_batch cutoff rows) \<subseteq> rw_ref ` set rows"
    using sub by (rule image_mono)
  then have "pg_removed st1 = pg_removed st + int (length (stale_batch cutoff rows))
    \<and> pg_freed st1 = pg_freed st + sum_list (map rw_size_bytes (stale_batch cutoff rows))"
    using purge_round_counts [OF assms(5,2), unfolded keys, folded rows_def] b(2) by (simp add: comp_def)
  then show ?thesis
    using w assms(4) filter_refs [OF assms(1) [folded rows_def] sub] by simp
qed

lemma stale_sums:
  fixes f :: "cache_row \<Rightarrow> int"
  assumes "unique_keys rows"
  shows "sum_list (map f (filter (\<lambda>r. rw_last_hit r < c) rows)) = sum_list (map f (stale_batch c rows))
    + sum_list (map f (filter (\<lambda>r. rw_last_hit r < c) (filter (\<lambda>r. r \<notin> set (stale_batch c rows)) rows)))"
proof -
  have "filter (\<lambda>r. rw_last_hit r < c) (filter (\<lambda>r. r \<notin> set (stale_batch c rows)) rows)
      = filter (\<lambda>r. r \<notin> set (stale_batch c rows)) (filter (\<lambda>r. rw_last_hit r < c) rows)"
    by (simp add: conj_commute)
  then show ?thesis
    using sum_list_split [OF _ stale_batch_props(1,3) [OF assms]] unique_keys_distinct [OF assms]
    by (metis distinct_filter)
qed

lemma stale_count:
  assumes "unique_keys rows"
  shows "length (filter (\<lambda>r. rw_last_hit r < c) rows) = length (stale_batch c rows)
    + length (filter (\<lambda>r. rw_last_hit r < c) (filter (\<lambda>r. r \<notin> set (stale_batch c rows)) rows))"
  using stale_sums [OF assms, of "\<lambda>_. 1" c] by (simp add: sum_list_triv flip: of_nat_add)

lemma fresh_rows_kept:
  "unique_keys rows \<Longrightarrow>
   filter (\<lambda>r. \<not> rw_last_hit r < c) (filter (\<lambda>r. r \<notin> set (stale_batch c rows)) rows)
     = filter (\<lambda>r. \<not> rw_last_hit r < c) rows"
  unfolding filter_filter using stale_batch_props(3) [of rows c] by (intro filter_cong) auto

lemma PurgeStale_loop_correct:
  assumes "unique_keys (ix_rows (lc_index (pg_cache st)))"
    and "ix_readable (lc_index (pg_cache st))" "ix_writable (lc_index (pg_cache st))"
    and "\<And>j. \<not> cancelled j"
  shows "\<exists>st'. PurgeStale_loop cancelled cutoff i st = (None, st')
    \<and> ix_rows (lc_index (pg_cache st')) = filter (\<lambda>r. \<not> rw_last_hit r < cutoff) (ix_rows (lc_index (pg_cache st)))
    \<and> pg_removed st' = pg_removed st
        + int (length (filter (\<lambda>r. rw_last_hit r < cutoff) (ix_rows (lc_index (pg_cache st)))))
    \<and> pg_freed st' = pg_freed st
        + sum_list (map rw_size_bytes (filter (\<lambda>r. rw_last_hit r < cutoff) (ix_rows (lc_index (pg_cache st)))))"
  using assms(1-3)
proof (induction "length (ix_rows (lc_index (pg_cache st)))" arbitrary: i st rule: less_induct)
  case less
  define rows where "rows = ix_rows (lc_index (pg_cache st))"
  define ks where "ks = stale_batch cutoff rows"
  let ?cs = "map (\<lambda>r. (rw_ref r, rw_size_bytes r)) ks"
  have cand: "StaleCandidates (lc_index (pg_cache st)) cutoff purgeBatch = Inr ?cs"
    using less.prems(2) by (simp add: StaleCandidates_def stale_batch_def ks_def rows_def)
  have u: "unique_keys rows" using less.prems(1) by (simp add: rows_def)
  show ?case
  proof (cases "ks = []")
    case True
    then have e: "filter (\<lambda>r. rw_last_hit r < cutoff) rows = []"
      using stale_batch_props(4) [OF u] by (simp add: ks_def)
    then have "filter (\<lambda>r. \<not> rw_last_hit r < cutoff) rows = rows"
      by (simp add: filter_empty_conv filter_id_conv)
    with e show ?thesis
      by (subst PurgeStale_loop.simps) (simp add: cand True assms(4) rows_def)
  next
    case False
    obtain p st1 where r: "purge_round ?cs False st = (p, st1)" by force
    note b = purge_round_batch [OF less.prems(1,3), folded rows_def ks_def, of cutoff, folded ks_def, OF False r]
    have loop: "PurgeStale_loop cancelled cutoff i st = PurgeStale_loop cancelled cutoff (Suc i) st1"
      by (subst PurgeStale_loop.simps) (simp add: cand False r b assms(4))
    have rows1: "ix_rows (lc_index (pg_cache st1)) = filter (\<lambda>r. r \<notin> set ks) rows" using b by simp
    have "length (ix_rows (lc_index (pg_cache st1))) < length (ix_rows (lc_index (pg_cache st)))"
      using purge_round_fewer [OF cand, of st1] r b False by simp
    moreover have "unique_keys (ix_rows (lc_index (pg_cache st1)))" using u by (simp add: rows1 unique_filter)
    moreover have "ix_readable (lc_index (pg_cache st1))" "ix_writable (lc_index (pg_cache st1))"
      using b less.prems(2) by simp_all
    ultimately obtain st' where st': "PurgeStale_loop cancelled cutoff (Suc i) st1 = (None, st')"
      "ix_rows (lc_index (pg_cache st')) = filter (\<lambda>r. \<not> rw_last_hit r < cutoff) (filter (\<lambda>r. r \<notin> set ks) rows)"
      "pg_removed st' = pg_removed st1
         + int (length (filter (\<lambda>r. rw_last_hit r < cutoff) (filter (\<lambda>r. r \<notin> set ks) rows)))"
      "pg_freed st' = pg_freed st1 + sum_list (map rw_size_bytes
         (filter (\<lambda>r. rw_last_hit r < cutoff) (filter (\<lambda>r. r \<notin> set ks) rows)))"
      using less.hyps [of st1 "Suc i"] unfolding rows1 by blast
    show ?thesis
      using loop st' b fresh_rows_kept [OF u, of cutoff] stale_count [OF u, of cutoff]
        stale_sums [OF u, of rw_size_bytes cutoff]
      by (simp add: rows_def [symmetric] ks_def [symmetric])
  qed
qed

text \<open>Purging stale entries is exact: with an index that can be read and written and no
  cancellation, \<open>PurgeStale\<close> returns without an error, the entries left are exactly those
  hit at or after the cutoff, in order, and the counts it returns are the number and the
  total size of the entries it removed.\<close>

theorem PurgeStale_exact:
  assumes "unique_keys (ix_rows (lc_index lc))" "ix_readable (lc_index lc)" "ix_writable (lc_index lc)"
    and "\<And>j. \<not> cancelled j"
  shows "\<exists>st'. PurgeStale cancelled lc now = (None, st')
    \<and> ix_rows (lc_index (pg_cache st')) =
        filter (\<lambda>r. staleCutoff lc now \<le> rw_last_hit r) (ix_rows (lc_index lc))
    \<and> pg_removed st' = int (length (filter (\<lambda>r. rw_last_hit r < staleCutoff lc now) (ix_rows (lc_index lc))))
    \<and> Inr (pg_freed st') = StaleSizeBytes (lc_index lc) (staleCutoff lc now)"
  using PurgeStale_loop_correct [of "\<lparr>pg_removed = 0, pg_freed = 0, pg_cache = lc\<rparr>" cancelled
      "staleCutoff lc now" 0] assms
  by (auto simp: PurgeStale_def StaleSizeBytes_def not_less)

definition sample_row :: "string \<Rightarrow> int64 \<Rightarrow> int64 \<Rightarrow> cache_row" where
  "sample_row v hit sz = \<lparr>rw_ref = \<lparr>Ecosystem = ''npm'', Name = ''a'', Version = v, Classifier = []\<rparr>,
     rw_file_path = ''/f'', rw_scan_clean = 1, rw_scan_json = [], rw_stored_at = 1, rw_expires_at = 0,
     rw_last_hit = hit, rw_hit_count = 0, rw_size_bytes = sz, rw_last_cve_check = 1,
     rw_last_malware_check = 1, rw_last_validated = 0\<rparr>"

definition sample_rows :: "cache_row list \<Rightarrow> local_cache" where
  "sample_rows rows = sample_lc\<lparr>lc_index := \<lparr>ix_rows = rows, ix_readable = True, ix_writable = True\<rparr>\<rparr>"

theorem PurgeStale_exact_witness:
  "\<exists>st'. PurgeStale (\<lambda>_. False) (sample_rows [sample_row ''1'' 5 7, sample_row ''2'' 3000000 9]) (of_unix 2592010)
      = (None, st') \<and> pg_removed st' = 1"
proof -
  let ?lc = "sample_rows [sample_row ''1'' 5 7, sample_row ''2'' 3000000 9]"
  have u: "unique_keys (ix_rows (lc_index ?lc))" "ix_readable (lc_index ?lc)" "ix_writable (lc_index ?lc)"
    by (simp_all add: sample_rows_def unique_keys_def sample_row_def)
  have c: "staleCutoff ?lc (of_unix 2592010) = 10"
    by (simp add: staleCutoff_def sample_rows_def sample_lc_def Hour_def of_unix_def Second_def
        time_unix_def time_add_def wrap64_def)
  obtain st' where "PurgeStale (\<lambda>_. False) ?lc (of_unix 2592010) = (None, st')"
    "pg_removed st' = int (length (filter (\<lambda>r. rw_last_hit r < 10) (ix_rows (lc_index ?lc))))"
    using PurgeStale_exact [OF u, of "\<lambda>_. False" "of_unix 2592010"] c by auto
  then show ?thesis by (simp add: sample_rows_def sample_row_def)
qed

section \<open>Evicting\<close>

definition total_size :: "cache_row list \<Rightarrow> int" where
  "total_size rows = sum_list (map rw_size_bytes rows)"

lemma lru_batch_props:
  assumes "unique_keys rows"
  shows "set (lru_batch rows) \<subseteq> set rows" "lru_batch rows = [] \<longleftrightarrow> rows = []"
    "\<lbrakk>k \<in> set (lru_batch rows); r \<in> set rows; r \<notin> set (lru_batch rows)\<rbrakk> \<Longrightarrow> rw_last_hit k \<le> rw_last_hit r"
proof -
  let ?s = "sort_key rw_last_hit rows"
  show "set (lru_batch rows) \<subseteq> set rows"
    by (auto simp: lru_batch_def dest!: in_set_takeD)
  show "lru_batch rows = [] \<longleftrightarrow> rows = []"
    by (simp add: lru_batch_def) (metis set_empty set_sort)
  assume k: "k \<in> set (lru_batch rows)" and r: "r \<in> set rows" "r \<notin> set (lru_batch rows)"
  have "r \<in> set (take 10 ?s @ drop 10 ?s)" using r(1) by simp
  with r(2) have "r \<in> set (drop 10 ?s)" unfolding lru_batch_def set_append by blast
  moreover have "sorted (map rw_last_hit (take 10 ?s @ drop 10 ?s))" by simp
  ultimately show "rw_last_hit k \<le> rw_last_hit r"
    using k unfolding lru_batch_def map_append sorted_append by simp
qed

lemma evict_loop_correct:
  assumes "unique_keys (ix_rows (lc_index lc))"
    and "ix_readable (lc_index lc)" "ix_writable (lc_index lc)" "\<And>j. \<not> cancelled j" "0 \<le> maxBytes"
    and "tot = total_size (ix_rows (lc_index lc))"
  shows "\<exists>E. ix_rows (lc_index (evict_loop cancelled maxBytes i tot lc)) = filter (\<lambda>r. r \<notin> E) (ix_rows (lc_index lc))
    \<and> total_size (filter (\<lambda>r. r \<notin> E) (ix_rows (lc_index lc))) \<le> maxBytes
    \<and> E \<subseteq> set (ix_rows (lc_index lc))
    \<and> (\<forall>e\<in>E. \<forall>r\<in>set (ix_rows (lc_index lc)) - E. rw_last_hit e \<le> rw_last_hit r)"
  using assms(1-3,6)
proof (induction "length (ix_rows (lc_index lc))" arbitrary: i tot lc rule: less_induct)
  case less
  define rows where "rows = ix_rows (lc_index lc)"
  define ks where "ks = lru_batch rows"
  have u: "unique_keys rows" using less.prems(1) by (simp add: rows_def)
  note b = lru_batch_props [OF u, folded ks_def]
  have cand: "LRUCandidates (lc_index lc) 10 = Inr (map rw_ref ks)"
    using less.prems(2) by (simp add: LRUCandidates_def lru_batch_def ks_def rows_def)
  show ?case
  proof (cases "maxBytes < tot")
    case False
    then show ?thesis
      by (subst evict_loop.simps) (auto simp: less.prems(4) intro!: exI [of _ "{}"])
  next
    case True
    then have ne: "ks \<noteq> []"
      using assms(5) less.prems(4) b(2) by (auto simp: total_size_def rows_def)
    obtain p lc1 where r: "evict_round (map rw_ref ks) False lc = (p, lc1)" by force
    note w = evict_round_writable [OF r less.prems(3)]
    have rows1: "ix_rows (lc_index lc1) = filter (\<lambda>r. r \<notin> set ks) rows"
      using w filter_refs [OF u b(1)] by (simp add: rows_def)
    have p: p using w ne by simp
    let ?t1 = "total_size (ix_rows (lc_index lc1))"
    have loop: "evict_loop cancelled maxBytes i tot lc = evict_loop cancelled maxBytes (Suc i) ?t1 lc1"
      using True less.prems(2) w
      by (subst evict_loop.simps) (simp add: cand ne r p assms(4) TotalSizeBytes_def total_size_def)
    have "length (ix_rows (lc_index lc1)) < length (ix_rows (lc_index lc))"
      using evict_round_fewer [OF cand, of lc1] r p ne by simp
    then obtain E where E: "ix_rows (lc_index (evict_loop cancelled maxBytes (Suc i) ?t1 lc1))
        = filter (\<lambda>r. r \<notin> E) (ix_rows (lc_index lc1))"
      "total_size (filter (\<lambda>r. r \<notin> E) (ix_rows (lc_index lc1))) \<le> maxBytes"
      "E \<subseteq> set (ix_rows (lc_index lc1))"
      "\<forall>e\<in>E. \<forall>r\<in>set (ix_rows (lc_index lc1)) - E. rw_last_hit e \<le> rw_last_hit r"
      using less.hyps [of lc1 ?t1 "Suc i"] u w less.prems(2) by (auto simp: rows1 unique_filter)
    have f: "filter (\<lambda>r. r \<notin> E) (ix_rows (lc_index lc1)) = filter (\<lambda>r. r \<notin> set ks \<union> E) rows"
      by (simp add: rows1 conj_commute)
    show ?thesis
    proof (rule exI [of _ "set ks \<union> E"], intro conjI ballI)
      show "set ks \<union> E \<subseteq> set (ix_rows (lc_index lc))"
        using b(1) E(3) by (auto simp: rows1 rows_def)
      fix e r assume "e \<in> set ks \<union> E" "r \<in> set (ix_rows (lc_index lc)) - (set ks \<union> E)"
      then show "rw_last_hit e \<le> rw_last_hit r"
        using b(3) [of e r] E(4) by (auto simp: rows1 rows_def)
    qed (use loop E(1,2) f in \<open>simp_all add: rows_def\<close>)
  qed
qed

text \<open>C39: Eviction brings the cache under its limit and evicts in LRU order: with an index that can
  be read and written and no cancellation, after \<open>evictToSize\<close> the total size is at most
  the limit, and the entries removed are ones hit no later than every entry kept.\<close>

theorem evictToSize_correct:
  assumes "unique_keys (ix_rows (lc_index lc))"
    and "ix_readable (lc_index lc)" "ix_writable (lc_index lc)" "\<And>j. \<not> cancelled j" "0 \<le> maxBytes"
  shows "\<exists>E. ix_rows (lc_index (evictToSize cancelled maxBytes lc)) = filter (\<lambda>r. r \<notin> E) (ix_rows (lc_index lc))
    \<and> total_size (ix_rows (lc_index (evictToSize cancelled maxBytes lc))) \<le> maxBytes
    \<and> (\<forall>e\<in>E. \<forall>r\<in>set (ix_rows (lc_index (evictToSize cancelled maxBytes lc))). rw_last_hit e \<le> rw_last_hit r)"
proof (cases "total_size (ix_rows (lc_index lc)) \<le> maxBytes")
  case True
  then have "evictToSize cancelled maxBytes lc = lc"
    using assms(2) by (simp add: evictToSize_def TotalSizeBytes_def total_size_def)
  with True show ?thesis by (auto intro!: exI [of _ "{}"])
next
  case False
  then have e: "evictToSize cancelled maxBytes lc =
      evict_loop cancelled maxBytes 0 (total_size (ix_rows (lc_index lc))) lc"
    using assms(2) by (simp add: evictToSize_def TotalSizeBytes_def total_size_def)
  obtain E where E: "ix_rows (lc_index (evictToSize cancelled maxBytes lc)) = filter (\<lambda>r. r \<notin> E) (ix_rows (lc_index lc))"
    "total_size (filter (\<lambda>r. r \<notin> E) (ix_rows (lc_index lc))) \<le> maxBytes"
    "\<forall>e\<in>E. \<forall>r\<in>set (ix_rows (lc_index lc)) - E. rw_last_hit e \<le> rw_last_hit r"
    using evict_loop_correct [where i = 0 and cancelled = cancelled, OF assms refl] unfolding e by blast
  show ?thesis using E by (intro exI [of _ E]) simp
qed

theorem evictToSize_correct_witness:
  "\<exists>E. ix_rows (lc_index (evictToSize (\<lambda>_. False) 8 (sample_rows [sample_row ''1'' 5 7, sample_row ''2'' 6 9])))
       = filter (\<lambda>r. r \<notin> E) [sample_row ''1'' 5 7, sample_row ''2'' 6 9]
     \<and> total_size (ix_rows (lc_index (evictToSize (\<lambda>_. False) 8
          (sample_rows [sample_row ''1'' 5 7, sample_row ''2'' 6 9])))) \<le> 8"
proof -
  let ?lc = "sample_rows [sample_row ''1'' 5 7, sample_row ''2'' 6 9]"
  have u: "unique_keys (ix_rows (lc_index ?lc))" "ix_readable (lc_index ?lc)" "ix_writable (lc_index ?lc)"
    by (simp_all add: sample_rows_def unique_keys_def sample_row_def)
  have "ix_rows (lc_index ?lc) = [sample_row ''1'' 5 7, sample_row ''2'' 6 9]" by (simp add: sample_rows_def)
  moreover have "\<exists>E. ix_rows (lc_index (evictToSize (\<lambda>_. False) 8 ?lc)) = filter (\<lambda>r. r \<notin> E) (ix_rows (lc_index ?lc))
    \<and> total_size (ix_rows (lc_index (evictToSize (\<lambda>_. False) 8 ?lc))) \<le> 8
    \<and> (\<forall>e\<in>E. \<forall>r\<in>set (ix_rows (lc_index (evictToSize (\<lambda>_. False) 8 ?lc))). rw_last_hit e \<le> rw_last_hit r)"
    by (rule evictToSize_correct [OF u]) simp_all
  ultimately show ?thesis by (elim exE conjE) (rule exI, simp)
qed

text \<open>Eviction works in batches of ten, so it can remove far more than the excess: when a cache
  of at most ten entries is over its limit by any amount, one eviction run empties it,
  although removing a single entry might have been enough; the entry stored last, whose
  \<open>Put\<close> triggered the run, goes too.\<close>

theorem evictToSize_empties_small_cache:
  assumes "unique_keys (ix_rows (lc_index lc))" "length (ix_rows (lc_index lc)) \<le> 10"
    and "ix_readable (lc_index lc)" "ix_writable (lc_index lc)" "\<not> cancelled 0"
    and "0 \<le> maxBytes" "maxBytes < total_size (ix_rows (lc_index lc))"
  shows "ix_rows (lc_index (evictToSize cancelled maxBytes lc)) = []"
proof -
  define rows where "rows = ix_rows (lc_index lc)"
  have ks: "set (lru_batch rows) = set rows"
    using assms(2) by (simp add: lru_batch_def rows_def)
  have cand: "LRUCandidates (lc_index lc) 10 = Inr (map rw_ref (lru_batch rows))"
    using assms(3) by (simp add: LRUCandidates_def lru_batch_def rows_def)
  have ne: "lru_batch rows \<noteq> []"
    using assms(6,7) ks by (auto simp: total_size_def rows_def)
  obtain p lc1 where r: "evict_round (map rw_ref (lru_batch rows)) False lc = (p, lc1)" by force
  note w = evict_round_writable [OF r assms(4)]
  have rows1: "ix_rows (lc_index lc1) = []"
    using w ks by (simp add: filter_empty_conv rows_def [symmetric])
  have "evict_loop cancelled maxBytes (Suc 0) 0 lc1 = lc1"
    using assms(6) by (subst evict_loop.simps) simp
  moreover have "evictToSize cancelled maxBytes lc = evict_loop cancelled maxBytes (Suc 0) 0 lc1"
  proof -
    have "TotalSizeBytes (lc_index lc1) = Inr 0"
      using w assms(3) rows1 by (simp add: TotalSizeBytes_def)
    moreover have "TotalSizeBytes (lc_index lc) = Inr (total_size rows)"
      using assms(3) by (simp add: TotalSizeBytes_def total_size_def rows_def)
    ultimately show ?thesis
      using assms(5,7) w ne
      by (simp add: evictToSize_def cand r rows_def [symmetric] evict_loop.simps [of cancelled maxBytes 0])
  qed
  ultimately show ?thesis using rows1 by simp
qed

theorem evictToSize_empties_small_cache_witness:
  "ix_rows (lc_index (evictToSize (\<lambda>_. False) 15
     (sample_rows [sample_row ''1'' 5 7, sample_row ''2'' 6 9]))) = []"
  by (rule evictToSize_empties_small_cache)
     (simp_all add: sample_rows_def unique_keys_def sample_row_def total_size_def)

end
