(* ===== verification/Supply_Chain.thy ===== *)
theory Supply_Chain
  imports Gate "HOL-Library.List_Lexorder" "HOL-Library.Char_ord"
begin

text \<open>
  The package-age filter of \<^verbatim>\<open>internal/supplychain\<close> (\<^verbatim>\<open>filter.go\<close>,
  \<^verbatim>\<open>allowlist_load.go\<close>): the allowlist, its file format, and \<open>Filter.Check\<close>.
  A Go map of type \<^verbatim>\<open>map[string]bool\<close> whose values are all true is the set of its keys; a nil
  \<^verbatim>\<open>*Allowlist\<close> is \<open>None\<close>. \<open>Check\<close> takes the clock reading \<open>time.Since\<close> makes as an
  argument and computes the minimum age with the \<open>int64\<close> wrap-around of Go.
\<close>

section \<open>Allowlists\<close>

type_synonym allowlist = "string set"

primrec NewAllowlist_loop :: "string list \<Rightarrow> string set \<Rightarrow> string set" where
  "NewAllowlist_loop [] m = m"
| "NewAllowlist_loop (e # es) m = NewAllowlist_loop es (insert (trim_space e) m)"

definition NewAllowlist :: "string list \<Rightarrow> allowlist" where
  "NewAllowlist entries = NewAllowlist_loop entries {}"

definition Allowlist_Contains :: "allowlist option \<Rightarrow> package_ref \<Rightarrow> bool" where
  "Allowlist_Contains a r =
     (case a of None \<Rightarrow> False | Some m \<Rightarrow> byName r \<in> m \<or> byVersion r \<in> m)"

definition Allowlist_Entries :: "allowlist option \<Rightarrow> string list" where
  "Allowlist_Entries a = (case a of None \<Rightarrow> [] | Some m \<Rightarrow> sorted_list_of_set m)"

lemma NewAllowlist_loop_set: "NewAllowlist_loop es m = trim_space ` set es \<union> m"
  by (induction es arbitrary: m) auto

lemma NewAllowlist_set: "NewAllowlist es = trim_space ` set es"
  by (simp add: NewAllowlist_def NewAllowlist_loop_set)

interpretation allow: entry_index NewAllowlist "\<lambda>m. Allowlist_Contains (Some m)"
  by unfold_locales (force simp: Allowlist_Contains_def NewAllowlist_set)

section \<open>The allowlist file\<close>

text \<open>
  \<^verbatim>\<open>bufio.Scanner\<close> splits at newlines, drops one trailing carriage return of each line
  and the empty line after a final newline, and fails on a line of 64 KiB or more.
\<close>

definition scan_lines :: "string \<Rightarrow> string list" where
  "scan_lines s =
     (let ls = split_on (CHR 0x0A) s in if last ls = [] then butlast ls else ls)"

definition drop_cr :: "string \<Rightarrow> string" where
  "drop_cr l = (if l \<noteq> [] \<and> last l = CHR 0x0D then butlast l else l)"

datatype load_error = OpenFailed | ScanFailed

fun LoadAllowlist_loop :: "string list \<Rightarrow> string list \<Rightarrow> load_error + string list" where
  "LoadAllowlist_loop [] acc = Inr acc"
| "LoadAllowlist_loop (l # ls) acc =
     (if 65536 \<le> length l then Inl ScanFailed
      else let line = trim_space (drop_cr l) in
        if line = [] \<or> has_prefix line ''#'' then LoadAllowlist_loop ls acc
        else LoadAllowlist_loop ls (acc @ [line]))"

text \<open>The file's contents, or \<open>None\<close> when it cannot be opened.\<close>

definition LoadAllowlist :: "string option \<Rightarrow> load_error + allowlist" where
  "LoadAllowlist file =
     (case file of None \<Rightarrow> Inl OpenFailed
      | Some content \<Rightarrow>
          (case LoadAllowlist_loop (scan_lines content) [] of
             Inl e \<Rightarrow> Inl e | Inr entries \<Rightarrow> Inr (NewAllowlist entries)))"

section \<open>The filter\<close>

record supply_chain_config =
  sc_MinAgeHours :: int64
  sc_AllowlistPath :: string
  sc_Mode :: string

record sc_filter =
  f_cfg :: supply_chain_config
  f_allowlist :: "allowlist option"

definition NewFilter :: "supply_chain_config \<Rightarrow> allowlist option \<Rightarrow> sc_filter" where
  "NewFilter cfg a = \<lparr>f_cfg = cfg, f_allowlist = a\<rparr>"

definition reasonTooNew :: string where
  "reasonTooNew = ''package_younger_than_min_age''"

definition minAge :: "supply_chain_config \<Rightarrow> duration" where
  "minAge cfg = wrap64 (sc_MinAgeHours cfg * Hour)"

definition Filter_Check :: "sc_filter \<Rightarrow> gotime \<Rightarrow> package_ref \<Rightarrow> package_metadata \<Rightarrow> filter_result" where
  "Filter_Check f now ref meta =
     (let published = pm_PublishedAt meta in
      if sc_Mode (f_cfg f) = ''off'' then
        \<lparr>fr_Allowed = True, fr_Reason = ''off'', fr_PublishedAt = published, fr_BlockUntil = zero_time\<rparr>
      else if Allowlist_Contains (f_allowlist f) ref then
        \<lparr>fr_Allowed = True, fr_Reason = ''allowlisted'', fr_PublishedAt = published,
         fr_BlockUntil = zero_time\<rparr>
      else
        let minA = minAge (f_cfg f); age = time_sub now published in
        if age < minA then
          let blockUntil = time_add published minA in
          if sc_Mode (f_cfg f) = ''dry_run'' then
            \<lparr>fr_Allowed = True, fr_Reason = ''dry_run'', fr_PublishedAt = published,
             fr_BlockUntil = blockUntil\<rparr>
          else
            \<lparr>fr_Allowed = False, fr_Reason = reasonTooNew, fr_PublishedAt = published,
             fr_BlockUntil = blockUntil\<rparr>
        else
          \<lparr>fr_Allowed = True, fr_Reason = ''ok'', fr_PublishedAt = published,
           fr_BlockUntil = zero_time\<rparr>)"

section \<open>Lemmas\<close>

text \<open>The largest number of hours a \<open>time.Duration\<close> can hold.\<close>

definition max_hours :: int where "max_hours = 2562047"

lemma minAge_exact:
  assumes "0 \<le> sc_MinAgeHours cfg" "sc_MinAgeHours cfg \<le> max_hours"
  shows "minAge cfg = sc_MinAgeHours cfg * Hour"
  unfolding minAge_def
  using assms by (intro wrap64_id) (auto simp: go_time max_hours_def)

lemma Filter_Check_blocked:
  "\<not> fr_Allowed (Filter_Check f now ref meta) \<longleftrightarrow>
     sc_Mode (f_cfg f) \<notin> {''off'', ''dry_run''}
     \<and> \<not> Allowlist_Contains (f_allowlist f) ref
     \<and> time_sub now (pm_PublishedAt meta) < minAge (f_cfg f)"
  by (simp add: Filter_Check_def Let_def)

lemma Filter_Check_allowlisted:
  "Allowlist_Contains (f_allowlist f) ref \<Longrightarrow> fr_Allowed (Filter_Check f now ref meta)"
  by (simp add: Filter_Check_def Let_def)

lemma Filter_Check_published [simp]:
  "fr_PublishedAt (Filter_Check f now ref meta) = pm_PublishedAt meta"
  by (simp add: Filter_Check_def Let_def)

lemma Filter_Check_reason:
  "fr_Reason (Filter_Check f now ref meta) \<in> {''off'', ''allowlisted'', ''dry_run'', ''ok'', reasonTooNew}"
  by (simp add: Filter_Check_def Let_def)

lemma age_below:
  assumes "0 \<le> sc_MinAgeHours cfg" "sc_MinAgeHours cfg \<le> max_hours"
  shows "time_sub now t < minAge cfg \<longleftrightarrow> now < t + sc_MinAgeHours cfg * Hour"
proof -
  have "time_sub now t < minAge cfg \<longleftrightarrow> now - t < minAge cfg"
    by (rule time_sub_less_iff)
       (use assms in \<open>auto simp: minAge_exact go_time max_hours_def\<close>)
  then show ?thesis by (auto simp: minAge_exact [OF assms])
qed

text \<open>The instant from which a version is old enough, as the documentation promises it.\<close>

definition old_enough_at :: "supply_chain_config \<Rightarrow> package_metadata \<Rightarrow> gotime" where
  "old_enough_at cfg meta = pm_PublishedAt meta + sc_MinAgeHours cfg * Hour"

lemma Filter_Check_block_until:
  assumes "0 \<le> sc_MinAgeHours (f_cfg f)" "sc_MinAgeHours (f_cfg f) \<le> max_hours"
    and "\<not> fr_Allowed (Filter_Check f now ref meta)"
  shows "fr_BlockUntil (Filter_Check f now ref meta) = old_enough_at (f_cfg f) meta
       \<and> fr_Reason (Filter_Check f now ref meta) = reasonTooNew"
  using assms(3)
  by (auto simp: Filter_Check_def Let_def old_enough_at_def minAge_exact [OF assms(1,2)] time_add_def
      split: if_splits)

lemma Filter_Check_age:
  assumes "0 \<le> sc_MinAgeHours (f_cfg f)" "sc_MinAgeHours (f_cfg f) \<le> max_hours"
  shows "\<not> fr_Allowed (Filter_Check f now ref meta) \<longleftrightarrow>
            sc_Mode (f_cfg f) \<noteq> ''off'' \<and> sc_Mode (f_cfg f) \<noteq> ''dry_run''
            \<and> \<not> Allowlist_Contains (f_allowlist f) ref \<and> now < old_enough_at (f_cfg f) meta"
  unfolding Filter_Check_blocked age_below [OF assms] old_enough_at_def by auto

text \<open>C30: With a minimum age a duration can hold, the filter refuses a package exactly when it
  enforces (the mode is neither off nor dry_run), the package is on no allowlist entry, and
  its publication date plus the minimum age lies in the future; the refusal then carries
  exactly that instant as the end of the block.\<close>

theorem Filter_Check_enforces_age:
  assumes "0 \<le> sc_MinAgeHours (f_cfg f)" "sc_MinAgeHours (f_cfg f) \<le> max_hours"
  shows "(\<not> fr_Allowed (Filter_Check f now ref meta) \<longleftrightarrow>
            sc_Mode (f_cfg f) \<noteq> ''off'' \<and> sc_Mode (f_cfg f) \<noteq> ''dry_run''
            \<and> \<not> Allowlist_Contains (f_allowlist f) ref \<and> now < old_enough_at (f_cfg f) meta)
       \<and> (\<not> fr_Allowed (Filter_Check f now ref meta) \<longrightarrow>
            fr_BlockUntil (Filter_Check f now ref meta) = old_enough_at (f_cfg f) meta
            \<and> fr_Reason (Filter_Check f now ref meta) = reasonTooNew)"
  using Filter_Check_age [OF assms] Filter_Check_block_until [OF assms] by blast

definition sample_filter :: "int \<Rightarrow> sc_filter" where
  "sample_filter h = NewFilter \<lparr>sc_MinAgeHours = h, sc_AllowlistPath = [], sc_Mode = ''enforce''\<rparr>
     (Some (NewAllowlist [''pypi/flask '']))"

definition sample_ref :: package_ref where
  "sample_ref = \<lparr>Ecosystem = ''pypi'', Name = ''requests'', Version = ''2.31.0'', Classifier = []\<rparr>"

definition sample_meta :: "gotime \<Rightarrow> package_metadata" where
  "sample_meta t = \<lparr>pm_PublishedAt = t, pm_Maintainer = [], pm_License = []\<rparr>"

lemma sample_not_allowlisted: "\<not> Allowlist_Contains (f_allowlist (sample_filter h)) sample_ref"
  unfolding sample_filter_def NewFilter_def by simp code_simp

lemma sample_filter_simps [simp]:
  "sc_MinAgeHours (f_cfg (sample_filter h)) = h" "sc_Mode (f_cfg (sample_filter h)) = ''enforce''"
  "pm_PublishedAt (sample_meta t) = t"
  by (simp_all add: sample_filter_def NewFilter_def sample_meta_def)

theorem Filter_Check_enforces_age_witness:
  "\<not> fr_Allowed (Filter_Check (sample_filter 24) (23 * Hour) sample_ref (sample_meta 0))
   \<and> fr_BlockUntil (Filter_Check (sample_filter 24) (23 * Hour) sample_ref (sample_meta 0)) = 24 * Hour"
  using Filter_Check_enforces_age [of "sample_filter 24" "23 * Hour" sample_ref "sample_meta 0"]
  by (simp add: sample_not_allowlisted max_hours_def Hour_def old_enough_at_def)

text \<open>A block lifts: once the clock reaches the instant a refusal named, the filter lets the
  same package with the same publication date through.\<close>

theorem Filter_block_lifts:
  assumes "0 \<le> sc_MinAgeHours (f_cfg f)" "sc_MinAgeHours (f_cfg f) \<le> max_hours"
    and "\<not> fr_Allowed (Filter_Check f now ref meta)"
    and "fr_BlockUntil (Filter_Check f now ref meta) \<le> later"
  shows "fr_Allowed (Filter_Check f later ref meta)"
  using Filter_Check_block_until [OF assms(1-3)] assms(4)
    Filter_Check_age [OF assms(1,2), of later ref meta]
  by auto

theorem Filter_block_lifts_witness:
  "\<not> fr_Allowed (Filter_Check (sample_filter 24) 0 sample_ref (sample_meta 0))
   \<and> fr_Allowed (Filter_Check (sample_filter 24) (24 * Hour) sample_ref (sample_meta 0))"
proof -
  have b: "\<not> fr_Allowed (Filter_Check (sample_filter 24) 0 sample_ref (sample_meta 0))"
    by (simp add: Filter_Check_age sample_not_allowlisted max_hours_def Hour_def old_enough_at_def)
  then have "fr_BlockUntil (Filter_Check (sample_filter 24) 0 sample_ref (sample_meta 0)) = 24 * Hour"
    by (simp add: Filter_Check_block_until max_hours_def old_enough_at_def)
  then show ?thesis
    using b Filter_block_lifts [of "sample_filter 24" 0 sample_ref "sample_meta 0" "24 * Hour"]
    by (simp add: max_hours_def)
qed

text \<open>One hour past the range of a duration the minimum age wraps to a negative number and
  the filter holds nothing back: with a minimum age of 2562048 hours it lets every package
  through, even one published at the very moment of the check.\<close>

theorem Filter_min_age_overflow:
  "sc_MinAgeHours (f_cfg f) = max_hours + 1 \<Longrightarrow> pm_PublishedAt meta \<le> now
   \<Longrightarrow> fr_Allowed (Filter_Check f now ref meta)"
proof -
  assume h: "sc_MinAgeHours (f_cfg f) = max_hours + 1" and n: "pm_PublishedAt meta \<le> now"
  have "minAge (f_cfg f) < 0"
    unfolding minAge_def h by (simp add: max_hours_def wrap64_def Hour_def)
  moreover have "0 \<le> time_sub now (pm_PublishedAt meta)"
    using n by (simp add: time_sub_def min_int64_def max_int64_def)
  ultimately show ?thesis using Filter_Check_blocked [of f now ref meta] by linarith
qed

theorem Filter_min_age_overflow_witness:
  "fr_Allowed (Filter_Check (sample_filter 2562048) 0 sample_ref (sample_meta 0))"
  using Filter_min_age_overflow [of "sample_filter 2562048" "sample_meta 0" 0 sample_ref]
  by (simp add: max_hours_def)

lemma LoadAllowlist_loop_ok:
  assumes "\<forall>l\<in>set ls. length l < 65536"
  shows "LoadAllowlist_loop ls acc =
    Inr (acc @ filter (\<lambda>l. l \<noteq> [] \<and> \<not> has_prefix l ''#'') (map (\<lambda>l. trim_space (drop_cr l)) ls))"
  using assms by (induction ls arbitrary: acc) (auto simp: Let_def)

text \<open>Loading an allowlist file keeps exactly its entries: when every line is shorter than
  64 KiB the loaded list contains a package exactly when some line, without its trailing
  carriage return and surrounding white space, is neither blank nor a comment and spells
  the package.\<close>

theorem LoadAllowlist_entries:
  assumes "\<forall>l\<in>set (scan_lines content). length l < 65536"
  shows "\<exists>m. LoadAllowlist (Some content) = Inr m \<and>
    (\<forall>r. Allowlist_Contains (Some m) r \<longleftrightarrow>
      (\<exists>l\<in>set (scan_lines content).
         let e = trim_space (drop_cr l) in
         e \<noteq> [] \<and> \<not> has_prefix e ''#'' \<and> (e = byName r \<or> e = byVersion r)))"
  using assms
  by (auto simp: LoadAllowlist_def LoadAllowlist_loop_ok allow.matches_build Let_def)

theorem LoadAllowlist_entries_witness:
  "\<exists>m. LoadAllowlist (Some ('' pypi/requests'' @ [CHR 0x0D, CHR 0x0A] @ ''# ours'')) = Inr m
     \<and> Allowlist_Contains (Some m) sample_ref"
proof -
  let ?c = "'' pypi/requests'' @ [CHR 0x0D, CHR 0x0A] @ ''# ours''"
  have l: "scan_lines ?c = ['' pypi/requests'' @ [CHR 0x0D], ''# ours'']"
    by (simp add: scan_lines_def)
  have t: "trim_space (drop_cr ('' pypi/requests'' @ [CHR 0x0D])) = byName sample_ref"
    by code_simp
  have e: "byName sample_ref \<noteq> []" "\<not> has_prefix (byName sample_ref) ''#''"
    by (simp_all add: byName_def sample_ref_def has_prefix_def)
  have h: "\<forall>l\<in>set (scan_lines ?c). length l < 65536" unfolding l by simp
  obtain m where m: "LoadAllowlist (Some ?c) = Inr m"
    and c: "\<forall>r. Allowlist_Contains (Some m) r \<longleftrightarrow> (\<exists>l\<in>set (scan_lines ?c).
         let e = trim_space (drop_cr l) in
         e \<noteq> [] \<and> \<not> has_prefix e ''#'' \<and> (e = byName r \<or> e = byVersion r))"
    using LoadAllowlist_entries [OF h] by blast
  have "Allowlist_Contains (Some m) sample_ref"
    unfolding c [rule_format] l Let_def
    by (rule bexI [of _ "'' pypi/requests'' @ [CHR 0x0D]"]) (simp only: t e simp_thms, simp)
  with m show ?thesis by blast
qed

end
