(* ===== verification/Policy_Engine.thy ===== *)
theory Policy_Engine
  imports Supply_Chain
begin

text \<open>
  The policy engine of \<^verbatim>\<open>internal/policy/engine.go\<close>: a severity threshold, a switch
  and two entry indexes, built from the CVE configuration and the active profile
  (\<^verbatim>\<open>internal/config/config.go\<close>), and the decision \<open>Evaluate\<close> takes on a package and
  its scan result. A nil scan result is not a case: both callers pass one.
\<close>

record cve_config =
  cc_Enabled :: bool
  cc_BaseURL :: string
  cc_BlockOn :: string
  cc_CacheTTLMinutes :: int64

record policy_profile =
  pp_CVEBlock :: bool
  pp_CVEMinSeverity :: string
  pp_SupplyChainBlock :: bool
  pp_MalwareBlock :: bool
  pp_Allowlist :: "string list"
  pp_Denylist :: "string list"

record engine =
  e_blockOn :: severity
  e_cveBlock :: bool
  e_allowlist :: "string set"
  e_denylist :: "string set"

primrec buildIndex_loop :: "string list \<Rightarrow> string set \<Rightarrow> string set" where
  "buildIndex_loop [] m = m"
| "buildIndex_loop (e # es) m = buildIndex_loop es (insert (trim_space e) m)"

definition buildIndex :: "string list \<Rightarrow> string set" where
  "buildIndex entries = buildIndex_loop entries {}"

definition matchesIndex :: "string set \<Rightarrow> package_ref \<Rightarrow> bool" where
  "matchesIndex idx r \<longleftrightarrow> byName r \<in> idx \<or> byVersion r \<in> idx"

definition NewEngine :: "cve_config \<Rightarrow> policy_profile \<Rightarrow> engine" where
  "NewEngine cfg profile =
     (let blockSeverityStr =
        (if pp_CVEMinSeverity profile \<noteq> [] then pp_CVEMinSeverity profile else cc_BlockOn cfg)
      in \<lparr>e_blockOn = ParseSeverity blockSeverityStr, e_cveBlock = pp_CVEBlock profile,
          e_allowlist = buildIndex (pp_Allowlist profile),
          e_denylist = buildIndex (pp_Denylist profile)\<rparr>)"

primrec blocked_findings :: "severity \<Rightarrow> cve_finding list \<Rightarrow> cve_finding list \<Rightarrow> cve_finding list" where
  "blocked_findings t [] acc = acc"
| "blocked_findings t (f # fs) acc =
     blocked_findings t fs (if AtLeast (cf_Severity f) t then acc @ [f] else acc)"

definition Engine_Evaluate :: "engine \<Rightarrow> package_ref \<Rightarrow> scan_result \<Rightarrow> policy_decision" where
  "Engine_Evaluate e ref result =
     (if matchesIndex (e_denylist e) ref then
        \<lparr>pd_Allowed = False, pd_Reason = ''denylisted'', pd_Findings = []\<rparr>
      else if matchesIndex (e_allowlist e) ref then
        \<lparr>pd_Allowed = True, pd_Reason = ''allowlisted_bypass'', pd_Findings = []\<rparr>
      else if \<not> e_cveBlock e then
        \<lparr>pd_Allowed = True, pd_Reason = ''cve_block_disabled'', pd_Findings = []\<rparr>
      else
        let blocked = blocked_findings (e_blockOn e) (sr_Findings result) [] in
        if 0 < length blocked then
          \<lparr>pd_Allowed = False, pd_Reason = ''cve_found'', pd_Findings = blocked\<rparr>
        else \<lparr>pd_Allowed = True, pd_Reason = ''ok'', pd_Findings = []\<rparr>)"

section \<open>Lemmas\<close>

lemma buildIndex_loop_set: "buildIndex_loop es m = trim_space ` set es \<union> m"
  by (induction es arbitrary: m) auto

lemma buildIndex_set: "buildIndex es = trim_space ` set es"
  by (simp add: buildIndex_def buildIndex_loop_set)

interpretation idx: entry_index buildIndex matchesIndex
  by unfold_locales (force simp: matchesIndex_def buildIndex_set)

text \<open>Both packages build the same index from the same entries.\<close>

lemma buildIndex_NewAllowlist: "matchesIndex (buildIndex es) r \<longleftrightarrow> Allowlist_Contains (Some (NewAllowlist es)) r"
  by (simp add: idx.matches_build allow.matches_build)

lemma blocked_findings_filter:
  "blocked_findings t fs acc = acc @ filter (\<lambda>f. AtLeast (cf_Severity f) t) fs"
  by (induction fs arbitrary: acc) auto

lemma Engine_Evaluate_denied:
  "\<not> pd_Allowed (Engine_Evaluate e ref res) \<longleftrightarrow>
     matchesIndex (e_denylist e) ref
     \<or> (\<not> matchesIndex (e_allowlist e) ref \<and> e_cveBlock e
        \<and> (\<exists>f\<in>set (sr_Findings res). AtLeast (cf_Severity f) (e_blockOn e)))"
  by (auto simp: Engine_Evaluate_def Let_def blocked_findings_filter filter_empty_conv)

lemma Engine_Evaluate_findings:
  "pd_Findings (Engine_Evaluate e ref res) =
     (if \<not> matchesIndex (e_denylist e) ref \<and> \<not> matchesIndex (e_allowlist e) ref \<and> e_cveBlock e
      then filter (\<lambda>f. AtLeast (cf_Severity f) (e_blockOn e)) (sr_Findings res) else [])"
  by (auto simp: Engine_Evaluate_def Let_def blocked_findings_filter)

lemma Engine_Evaluate_reason_denylisted:
  "pd_Reason (Engine_Evaluate e ref res) = ReasonDenylisted \<longleftrightarrow> matchesIndex (e_denylist e) ref"
  by (simp add: Engine_Evaluate_def Let_def ReasonDenylisted_def)

text \<open>C28: The engine built from a configuration and a profile refuses a package exactly when a
  denylist entry spells it, or no allowlist entry does, CVE blocking is on, and some
  finding of known severity reaches the threshold of the profile (or, when the profile
  names none, of the configuration); the findings it reports are exactly those, in scan
  order, and the reason is the denylist's exactly when the denylist matched.\<close>

theorem NewEngine_decides:
  "let e = NewEngine cfg p; d = Engine_Evaluate e ref res;
       t = ParseSeverity (if pp_CVEMinSeverity p \<noteq> [] then pp_CVEMinSeverity p else cc_BlockOn cfg);
       denied = (\<exists>x\<in>set (pp_Denylist p). trim_space x = byName ref \<or> trim_space x = byVersion ref);
       bypass = (\<exists>x\<in>set (pp_Allowlist p). trim_space x = byName ref \<or> trim_space x = byVersion ref);
       bad = filter (\<lambda>f. cf_Severity f \<noteq> SeverityUnknown \<and> t \<le> cf_Severity f) (sr_Findings res)
   in (\<not> pd_Allowed d \<longleftrightarrow> denied \<or> (\<not> bypass \<and> pp_CVEBlock p \<and> bad \<noteq> []))
      \<and> pd_Findings d = (if \<not> denied \<and> \<not> bypass \<and> pp_CVEBlock p then bad else [])
      \<and> (pd_Reason d = ReasonDenylisted \<longleftrightarrow> denied)"
  unfolding Let_def Engine_Evaluate_denied Engine_Evaluate_findings Engine_Evaluate_reason_denylisted
  by (auto simp: NewEngine_def Let_def idx.matches_build AtLeast_rank filter_empty_conv)

theorem NewEngine_decides_witness:
  "let p = \<lparr>pp_CVEBlock = True, pp_CVEMinSeverity = [], pp_SupplyChainBlock = True,
            pp_MalwareBlock = True, pp_Allowlist = [], pp_Denylist = []\<rparr>;
       c = \<lparr>cc_Enabled = True, cc_BaseURL = [], cc_BlockOn = ''high'', cc_CacheTTLMinutes = 0\<rparr>;
       f = \<lparr>cf_ID = ''CVE-1'', cf_Aliases = [], cf_Severity = SeverityCritical, cf_Summary = [],
            cf_Score = 0\<rparr>;
       r = \<lparr>sr_Clean = False, sr_Findings = [f], sr_ScanJSON = []\<rparr>
   in \<not> pd_Allowed (Engine_Evaluate (NewEngine c p) sample_ref r)"
proof -
  have "ParseSeverity ''high'' = SeverityHigh" by code_simp
  then show ?thesis
    unfolding Let_def
    by (subst NewEngine_decides [unfolded Let_def, THEN conjunct1])
       (simp add: less_eq_severity_def)
qed

text \<open>Raising the threshold never blocks more: a package the engine lets through stays let
  through when the threshold is raised and every list stays as it is.\<close>

theorem Engine_threshold_monotone:
  assumes "e_blockOn e \<le> t"
    and "pd_Allowed (Engine_Evaluate e ref res)"
  shows "pd_Allowed (Engine_Evaluate (e\<lparr>e_blockOn := t\<rparr>) ref res)"
  using assms AtLeast_antimono [OF assms(1)] Engine_Evaluate_denied [of e ref res]
    Engine_Evaluate_denied [of "e\<lparr>e_blockOn := t\<rparr>" ref res]
  by auto

theorem Engine_threshold_monotone_witness:
  "pd_Allowed (Engine_Evaluate
     (\<lparr>e_blockOn = SeverityLow, e_cveBlock = True, e_allowlist = {}, e_denylist = {}\<rparr>
        \<lparr>e_blockOn := SeverityHigh\<rparr>)
     sample_ref \<lparr>sr_Clean = True, sr_Findings = [], sr_ScanJSON = []\<rparr>)"
  by (rule Engine_threshold_monotone)
     (simp_all add: less_eq_severity_def Engine_Evaluate_def matchesIndex_def)

end
