(* ===== verification/Policy_Runtime.thy ===== *)
theory Policy_Runtime
  imports Policy_Engine
begin

text \<open>
  The live policy of \<^verbatim>\<open>internal/policy/runtime.go\<close> and \<^verbatim>\<open>store.go\<close>, with the
  settings table of \<^verbatim>\<open>internal/settings/settings.go\<close> and the adapter of
  \<^verbatim>\<open>cmd/jo-ei/settings_adapters.go\<close> behind it.

  The atomic pointer is the field \<open>rt_cur\<close>; every edit runs under the mutex, so an edit is
  one function on the whole \<open>runtime\<close> and concurrent edits are sequences of such steps
  (\<open>rt_step\<close>). Nil and empty slices are one value. A stored JSON row is the record the
  decoder reads from it (strings are taken to be valid UTF-8), or a row it cannot decode;
  a failing database is a store whose flag says so.
\<close>

section \<open>Parameters, errors, the settings store\<close>

record runtime_params =
  p_Mode :: string
  p_MinAgeHours :: int64
  p_CVEBlockOn :: string
  p_AllowlistSupply :: "string list"
  p_AllowlistCVE :: "string list"
  p_Denylist :: "string list"

datatype field =
    FMode | FMinAgeHours | FCVEBlockOn | FListEntry string nat | FList | FEntry

datatype message =
    MBadMode | MNegative | MBadSeverity | MShape | MWhitespace | MUnknownList

datatype policy_error =
    ValidationError field message | PersistError | LoadFailed | SeedFailed

record stored_params = runtime_params +
  sp_LegacyAllowlist :: "string list"

text \<open>A row is JSON text: a policy object, an array of registries, a string, or something none of them decodes.\<close>

datatype json_row =
    PolicyRow stored_params
  | RegistriesRow "(string \<times> bool \<times> string list option) list"
  | StringRow string
  | UndecodableRow

record settings_store =
  st_rows :: "string \<rightharpoonup> json_row"
  st_readable :: bool
  st_writable :: bool

datatype store_error = ReadFailed | WriteFailed | DecodeFailed

definition settings_Get :: "settings_store \<Rightarrow> string \<Rightarrow> store_error + json_row option" where
  "settings_Get s key = (if \<not> st_readable s then Inl ReadFailed else Inr (st_rows s key))"

definition settings_Put :: "settings_store \<Rightarrow> string \<Rightarrow> json_row \<Rightarrow> store_error + settings_store" where
  "settings_Put s key v =
     (if \<not> st_writable s then Inl WriteFailed else Inr (s\<lparr>st_rows := (st_rows s)(key \<mapsto> v)\<rparr>))"

fun appendMissing :: "string list \<Rightarrow> string \<Rightarrow> string list" where
  "appendMissing l e = (if e \<in> set l then l else l @ [e])"

fun migrate_legacy :: "string list \<Rightarrow> runtime_params \<Rightarrow> runtime_params" where
  "migrate_legacy [] p = p"
| "migrate_legacy (e # es) p =
     migrate_legacy es (p\<lparr>p_AllowlistSupply := appendMissing (p_AllowlistSupply p) e,
                         p_AllowlistCVE := appendMissing (p_AllowlistCVE p) e\<rparr>)"

definition DecodeStored :: "json_row \<Rightarrow> store_error + runtime_params" where
  "DecodeStored b =
     (case b of UndecodableRow \<Rightarrow> Inl DecodeFailed
      | RegistriesRow _ \<Rightarrow> Inl DecodeFailed
      | StringRow _ \<Rightarrow> Inl DecodeFailed
      | PolicyRow sp \<Rightarrow> Inr (migrate_legacy (sp_LegacyAllowlist sp) (runtime_params.truncate sp)))"

definition EncodeStored :: "runtime_params \<Rightarrow> json_row" where
  "EncodeStored p = PolicyRow (runtime_params.extend p \<lparr>sp_LegacyAllowlist = []\<rparr>)"

definition LoadPolicy :: "settings_store \<Rightarrow> store_error + runtime_params option" where
  "LoadPolicy s =
     (case settings_Get s ''policy'' of
        Inl e \<Rightarrow> Inl e
      | Inr None \<Rightarrow> Inr None
      | Inr (Some b) \<Rightarrow> (case DecodeStored b of Inl e \<Rightarrow> Inl e | Inr rp \<Rightarrow> Inr (Some rp)))"

definition SavePolicy :: "settings_store \<Rightarrow> runtime_params \<Rightarrow> store_error + settings_store" where
  "SavePolicy s rp = settings_Put s ''policy'' (EncodeStored rp)"

section \<open>The runtime\<close>

record snapshot =
  sn_engine :: engine
  sn_filter :: sc_filter
  sn_params :: runtime_params

record runtime =
  rt_cur :: snapshot
  rt_cveCfg :: cve_config
  rt_profile :: policy_profile
  rt_fileAllow :: "string list"
  rt_store :: "settings_store option"

definition snapshot_of :: "cve_config \<Rightarrow> policy_profile \<Rightarrow> string list \<Rightarrow> runtime_params \<Rightarrow> snapshot" where
  "snapshot_of cve profile fileAllow p =
     \<lparr>sn_engine = NewEngine cve (profile\<lparr>pp_CVEMinSeverity := p_CVEBlockOn p,
        pp_Allowlist := p_AllowlistCVE p, pp_Denylist := p_Denylist p\<rparr>),
      sn_filter = NewFilter
        \<lparr>sc_MinAgeHours = p_MinAgeHours p, sc_AllowlistPath = [], sc_Mode = p_Mode p\<rparr>
        (Some (NewAllowlist (fileAllow @ p_AllowlistSupply p))),
      sn_params = p\<rparr>"

definition rt_install :: "runtime \<Rightarrow> runtime_params \<Rightarrow> runtime" where
  "rt_install r p = r\<lparr>rt_cur := snapshot_of (rt_cveCfg r) (rt_profile r) (rt_fileAllow r) p\<rparr>"

definition Current :: "runtime \<Rightarrow> runtime_params" where
  "Current r = sn_params (rt_cur r)"

definition Runtime_Evaluate :: "runtime \<Rightarrow> package_ref \<Rightarrow> scan_result \<Rightarrow> policy_decision" where
  "Runtime_Evaluate r = Engine_Evaluate (sn_engine (rt_cur r))"

definition Runtime_Check :: "runtime \<Rightarrow> gotime \<Rightarrow> package_ref \<Rightarrow> package_metadata \<Rightarrow> filter_result" where
  "Runtime_Check r = Filter_Check (sn_filter (rt_cur r))"

definition Persistent :: "runtime \<Rightarrow> bool" where
  "Persistent r \<longleftrightarrow> rt_store r \<noteq> None"

definition boot_params :: "supply_chain_config \<Rightarrow> cve_config \<Rightarrow> policy_profile \<Rightarrow> runtime_params" where
  "boot_params sc cve profile =
     (let b1 = (if pp_CVEMinSeverity profile \<noteq> [] then pp_CVEMinSeverity profile else cc_BlockOn cve);
          blockOn = (if b1 = [] then ''LOW'' else b1)
      in \<lparr>p_Mode = sc_Mode sc, p_MinAgeHours = sc_MinAgeHours sc, p_CVEBlockOn = blockOn,
          p_AllowlistSupply = pp_Allowlist profile, p_AllowlistCVE = pp_Allowlist profile,
          p_Denylist = pp_Denylist profile\<rparr>)"

text \<open>The shell with the given parameters installed, and the store it writes to.\<close>

definition runtime_with ::
  "cve_config \<Rightarrow> policy_profile \<Rightarrow> string list \<Rightarrow> settings_store option \<Rightarrow> runtime_params \<Rightarrow> runtime" where
  "runtime_with cve profile fileAllow st p =
     \<lparr>rt_cur = snapshot_of cve profile fileAllow p, rt_cveCfg = cve, rt_profile = profile,
      rt_fileAllow = fileAllow, rt_store = st\<rparr>"

definition NewRuntime ::
  "supply_chain_config \<Rightarrow> cve_config \<Rightarrow> policy_profile \<Rightarrow> string list \<Rightarrow> runtime" where
  "NewRuntime sc cve profile fileAllow =
     runtime_with cve profile fileAllow None (boot_params sc cve profile)"

definition NewRuntimeWithStore ::
  "supply_chain_config \<Rightarrow> cve_config \<Rightarrow> policy_profile \<Rightarrow> string list \<Rightarrow> settings_store option
   \<Rightarrow> policy_error + runtime" where
  "NewRuntimeWithStore sc cve profile fileAllow store =
     (let seed = boot_params sc cve profile in
      case store of
        None \<Rightarrow> Inr (runtime_with cve profile fileAllow None seed)
      | Some s \<Rightarrow>
          (case LoadPolicy s of
             Inl e \<Rightarrow> Inl LoadFailed
           | Inr (Some p) \<Rightarrow> Inr (runtime_with cve profile fileAllow (Some s) p)
           | Inr None \<Rightarrow>
               (case SavePolicy s seed of
                  Inl e \<Rightarrow> Inl SeedFailed
                | Inr s' \<Rightarrow> Inr (runtime_with cve profile fileAllow (Some s') seed))))"

section \<open>Validation\<close>

definition validModes :: "string list" where "validModes = [''enforce'', ''dry_run'', ''off'']"

definition validSeverities :: "string list" where
  "validSeverities = [''CRITICAL'', ''HIGH'', ''MEDIUM'', ''LOW'']"

definition validateListEntry :: "string \<Rightarrow> message option" where
  "validateListEntry e =
     (case cut (CHR ''/'') (trim_space e) of (eco, rest, ok) \<Rightarrow>
        if \<not> ok \<or> eco = [] \<or> rest = [] then Some MShape
        else if contains_any (eco @ rest) [CHR 0x20, CHR 0x09] then Some MWhitespace
        else None)"

fun validateEntries :: "string \<Rightarrow> nat \<Rightarrow> string list \<Rightarrow> policy_error option" where
  "validateEntries l i [] = None"
| "validateEntries l i (e # es) =
     (case validateListEntry e of
        Some msg \<Rightarrow> Some (ValidationError (FListEntry l i) msg)
      | None \<Rightarrow> validateEntries l (Suc i) es)"

definition ListAllowlistSupply :: string where "ListAllowlistSupply = ''allowlist_supply''"
definition ListAllowlistCVE :: string where "ListAllowlistCVE = ''allowlist_cve''"
definition ListDenylist :: string where "ListDenylist = ''denylist''"

definition validateParams :: "runtime_params \<Rightarrow> policy_error option" where
  "validateParams p =
     (if p_Mode p \<notin> set validModes then Some (ValidationError FMode MBadMode)
      else if p_MinAgeHours p < 0 then Some (ValidationError FMinAgeHours MNegative)
      else if p_CVEBlockOn p \<notin> set validSeverities then
        Some (ValidationError FCVEBlockOn MBadSeverity)
      else case validateEntries ListAllowlistSupply 0 (p_AllowlistSupply p) of
          Some err \<Rightarrow> Some err
        | None \<Rightarrow>
            (case validateEntries ListAllowlistCVE 0 (p_AllowlistCVE p) of
               Some err \<Rightarrow> Some err
             | None \<Rightarrow> validateEntries ListDenylist 0 (p_Denylist p)))"

definition trimEntries :: "string list \<Rightarrow> string list" where
  "trimEntries entries = map trim_space entries"

definition trimmed_params :: "runtime_params \<Rightarrow> runtime_params" where
  "trimmed_params p = p\<lparr>p_AllowlistSupply := trimEntries (p_AllowlistSupply p),
     p_AllowlistCVE := trimEntries (p_AllowlistCVE p), p_Denylist := trimEntries (p_Denylist p)\<rparr>"

section \<open>Edits\<close>

text \<open>Every edit returns the error, if any, and the runtime after it.\<close>

definition updateLocked :: "runtime \<Rightarrow> runtime_params \<Rightarrow> policy_error option \<times> runtime" where
  "updateLocked r p0 =
     (let p = trimmed_params p0 in
      case validateParams p of
        Some err \<Rightarrow> (Some err, r)
      | None \<Rightarrow>
          (case rt_store r of
             None \<Rightarrow> (None, rt_install r p)
           | Some s \<Rightarrow>
               (case SavePolicy s p of
                  Inl e \<Rightarrow> (Some PersistError, r)
                | Inr s' \<Rightarrow> (None, rt_install (r\<lparr>rt_store := Some s'\<rparr>) p))))"

definition Runtime_Update ::
  "runtime \<Rightarrow> (runtime_params \<Rightarrow> runtime_params) \<Rightarrow> policy_error option \<times> runtime" where
  "Runtime_Update r fn = updateLocked r (fn (Current r))"

definition Apply :: "runtime \<Rightarrow> runtime_params \<Rightarrow> policy_error option \<times> runtime" where
  "Apply r p = Runtime_Update r (\<lambda>_. p)"

definition get_list :: "string \<Rightarrow> runtime_params \<Rightarrow> string list option" where
  "get_list l p =
     (if l = ListAllowlistSupply then Some (p_AllowlistSupply p)
      else if l = ListAllowlistCVE then Some (p_AllowlistCVE p)
      else if l = ListDenylist then Some (p_Denylist p)
      else None)"

definition set_list :: "string \<Rightarrow> string list \<Rightarrow> runtime_params \<Rightarrow> runtime_params" where
  "set_list l xs p =
     (if l = ListAllowlistSupply then p\<lparr>p_AllowlistSupply := xs\<rparr>
      else if l = ListAllowlistCVE then p\<lparr>p_AllowlistCVE := xs\<rparr>
      else p\<lparr>p_Denylist := xs\<rparr>)"

text \<open>The result of \<open>EditList\<close>: the error, whether the list changed, the runtime.\<close>

definition EditList :: "runtime \<Rightarrow> string \<Rightarrow> string \<Rightarrow> bool \<Rightarrow> policy_error option \<times> bool \<times> runtime" where
  "EditList r l entry0 add =
     (let entry = trim_space entry0; p = Current r in
      case get_list l p of
        None \<Rightarrow> (Some (ValidationError FList MUnknownList), False, r)
      | Some target \<Rightarrow>
          (case validateListEntry entry of
             Some msg \<Rightarrow> (Some (ValidationError FEntry msg), False, r)
           | None \<Rightarrow>
               let has = entry \<in> set target;
                   edited = (if add \<and> \<not> has then Some (target @ [entry])
                             else if \<not> add \<and> has then Some (filter (\<lambda>e. e \<noteq> entry) target)
                             else None)
               in case edited of
                    None \<Rightarrow> (None, False, r)
                  | Some xs \<Rightarrow>
                      (case updateLocked r (set_list l xs p) of
                         (Some err, r') \<Rightarrow> (Some err, False, r')
                       | (None, r') \<Rightarrow> (None, True, r'))))"

text \<open>
  One serialised edit of the runtime, as the console makes them (\<open>PUT /api/policy\<close> and
  the list endpoints).
\<close>

inductive rt_step :: "runtime \<Rightarrow> runtime \<Rightarrow> bool" where
  update: "Runtime_Update r fn = (err, r') \<Longrightarrow> rt_step r r'"
| edit: "EditList r l e add = (err, changed, r') \<Longrightarrow> rt_step r r'"

inductive rt_reach :: "runtime \<Rightarrow> runtime \<Rightarrow> bool" where
  start: "rt_reach r r"
| step: "rt_reach r s \<Longrightarrow> rt_step s t \<Longrightarrow> rt_reach r t"

inductive_cases rt_stepE: "rt_step r r'"

section \<open>The settings store keeps what was saved\<close>

text \<open>The contract the runtime relies on when it persists its parameters.\<close>

locale params_store =
  fixes load :: "'s \<Rightarrow> 'e + 'p option"
    and save :: "'s \<Rightarrow> 'p \<Rightarrow> 'e + 's"
    and readable :: "'s \<Rightarrow> bool"
    and holds :: "'s \<Rightarrow> 'p \<Rightarrow> bool"
  assumes save_holds: "save s p = Inr s' \<Longrightarrow> holds s' p"
    and save_readable: "save s p = Inr s' \<Longrightarrow> readable s' \<longleftrightarrow> readable s"
    and load_holds: "readable s \<Longrightarrow> holds s p \<Longrightarrow> load s = Inr (Some p)"
    and holds_unique: "holds s p \<Longrightarrow> holds s q \<Longrightarrow> p = q"
begin

lemma load_after_save: "save s p = Inr s' \<Longrightarrow> readable s \<Longrightarrow> load s' = Inr (Some p)"
  using load_holds save_holds save_readable by blast

lemma last_save_wins:
  "save s p = Inr s' \<Longrightarrow> save s' q = Inr s'' \<Longrightarrow> readable s \<Longrightarrow> load s'' = Inr (Some q)"
  using load_after_save save_readable by blast

end

lemma DecodeStored_EncodeStored [simp]: "DecodeStored (EncodeStored p) = Inr p"
  by (simp add: DecodeStored_def EncodeStored_def runtime_params.defs stored_params.defs)

definition stores :: "settings_store \<Rightarrow> runtime_params \<Rightarrow> bool" where
  "stores s p \<longleftrightarrow> (\<exists>b. st_rows s ''policy'' = Some b \<and> DecodeStored b = Inr p)"

interpretation pst: params_store LoadPolicy SavePolicy st_readable stores
  by unfold_locales
     (auto simp: LoadPolicy_def SavePolicy_def settings_Get_def settings_Put_def stores_def
       split: if_splits)

lemma LoadPolicy_Some: "LoadPolicy s = Inr (Some p) \<Longrightarrow> stores s p"
  by (auto simp: LoadPolicy_def settings_Get_def stores_def split: if_splits option.splits sum.splits)

section \<open>Every edit, by its result\<close>

lemma updateLocked_error: "updateLocked r p = (Some err, r') \<Longrightarrow> r' = r"
  by (auto simp: updateLocked_def Let_def split: option.splits sum.splits)

lemma rt_store_absent: "rt_store r = None \<Longrightarrow> r\<lparr>rt_store := None\<rparr> = r"
  by (cases r) simp

lemma updateLocked_ok:
  assumes "updateLocked r p = (None, r')"
  shows "validateParams (trimmed_params p) = None
    \<and> (\<exists>st. r' = rt_install (r\<lparr>rt_store := st\<rparr>) (trimmed_params p)
        \<and> (rt_store r = None \<longleftrightarrow> st = None)
        \<and> (\<forall>s. st = Some s \<longrightarrow> stores s (trimmed_params p)
             \<and> (\<exists>s0. rt_store r = Some s0 \<and> st_readable s = st_readable s0)))"
proof (cases "rt_store r")
  case None
  with assms show ?thesis
    by (auto simp: updateLocked_def Let_def rt_store_absent split: option.splits)
next
  case (Some s0)
  with assms obtain s' where v: "validateParams (trimmed_params p) = None"
    and s': "SavePolicy s0 (trimmed_params p) = Inr s'"
    and r': "r' = rt_install (r\<lparr>rt_store := Some s'\<rparr>) (trimmed_params p)"
    by (auto simp: updateLocked_def Let_def split: option.splits sum.splits)
  show ?thesis
    using v r' Some pst.save_holds [OF s'] pst.save_readable [OF s'] by auto
qed

lemma Current_install [simp]: "Current (rt_install r p) = p"
  by (simp add: Current_def rt_install_def snapshot_of_def)

lemma rt_install_sel [simp]:
  "rt_cveCfg (rt_install r p) = rt_cveCfg r" "rt_profile (rt_install r p) = rt_profile r"
  "rt_fileAllow (rt_install r p) = rt_fileAllow r" "rt_store (rt_install r p) = rt_store r"
  by (simp_all add: rt_install_def)

lemma EditList_cases:
  assumes "EditList r l e add = (err, changed, r')"
  obtains (same) "r' = r" "changed = False"
  | (updated) xs where "updateLocked r (set_list l xs (Current r)) = (None, r')" "err = None"
      "changed = True"
      "get_list l (Current r) \<noteq> None"
      "xs = (if add then the (get_list l (Current r)) @ [trim_space e]
             else filter (\<lambda>x. x \<noteq> trim_space e) (the (get_list l (Current r))))"
  using assms unfolding EditList_def Let_def
  by (auto split: option.splits if_splits prod.splits dest: updateLocked_error)

section \<open>Invariants of the live policy\<close>

text \<open>The engine, the filter and the parameters of the snapshot belong together.\<close>

definition consistent :: "runtime \<Rightarrow> bool" where
  "consistent r \<longleftrightarrow>
     rt_cur r = snapshot_of (rt_cveCfg r) (rt_profile r) (rt_fileAllow r) (Current r)"

text \<open>The store, if there is one, holds the active parameters.\<close>

definition persisted :: "runtime \<Rightarrow> bool" where
  "persisted r \<longleftrightarrow> (\<forall>s. rt_store r = Some s \<longrightarrow> stores s (Current r))"

definition same_boot :: "runtime \<Rightarrow> runtime \<Rightarrow> bool" where
  "same_boot r r' \<longleftrightarrow> rt_cveCfg r' = rt_cveCfg r \<and> rt_profile r' = rt_profile r
     \<and> rt_fileAllow r' = rt_fileAllow r \<and> (rt_store r' = None \<longleftrightarrow> rt_store r = None)"

definition policy_inv :: "runtime \<Rightarrow> runtime \<Rightarrow> bool" where
  "policy_inv r0 r \<longleftrightarrow> consistent r \<and> persisted r \<and> same_boot r0 r"

lemma consistent_install [simp]: "consistent (rt_install r p)"
  by (simp add: consistent_def rt_install_def snapshot_of_def Current_def)

lemma updateLocked_inv:
  assumes "policy_inv r0 r" "updateLocked r p = (err, r')"
  shows "policy_inv r0 r'"
proof (cases err)
  case None
  with assms(2) updateLocked_ok obtain st where
    "r' = rt_install (r\<lparr>rt_store := st\<rparr>) (trimmed_params p)"
    "rt_store r = None \<longleftrightarrow> st = None" "\<forall>s. st = Some s \<longrightarrow> stores s (trimmed_params p)"
    by metis
  with assms(1) show ?thesis by (auto simp: policy_inv_def persisted_def same_boot_def)
next
  case (Some e)
  with assms updateLocked_error show ?thesis by blast
qed

lemma EditList_inv:
  assumes "policy_inv r0 r" "EditList r l e add = (err, changed, r')"
  shows "policy_inv r0 r'"
  using assms(2,1) by (cases rule: EditList_cases) (auto intro: updateLocked_inv)

lemma rt_step_inv: "rt_step r r' \<Longrightarrow> policy_inv r0 r \<Longrightarrow> policy_inv r0 r'"
  by (auto elim!: rt_stepE simp: Runtime_Update_def intro: updateLocked_inv EditList_inv)

lemma rt_reach_inv: "rt_reach r s \<Longrightarrow> policy_inv r0 r \<Longrightarrow> policy_inv r0 s"
  by (induction rule: rt_reach.induct) (auto intro: rt_step_inv)

lemma runtime_with_inv:
  "(\<And>s. st = Some s \<Longrightarrow> stores s p) \<Longrightarrow>
   policy_inv (runtime_with cve prof fa st p) (runtime_with cve prof fa st p)"
  by (auto simp: policy_inv_def runtime_with_def consistent_def persisted_def same_boot_def
      Current_def snapshot_of_def)

lemma runtime_with_sel:
  "rt_cveCfg (runtime_with cve prof fa st p) = cve" "rt_profile (runtime_with cve prof fa st p) = prof"
  "rt_fileAllow (runtime_with cve prof fa st p) = fa" "rt_store (runtime_with cve prof fa st p) = st"
  "Current (runtime_with cve prof fa st p) = p"
  by (simp_all add: runtime_with_def Current_def snapshot_of_def)

lemma boot_inv:
  assumes "NewRuntimeWithStore sc cve prof fa st = Inr r"
  shows "policy_inv r r \<and> rt_cveCfg r = cve \<and> rt_profile r = prof \<and> rt_fileAllow r = fa"
  using assms
  by (auto simp: NewRuntimeWithStore_def Let_def runtime_with_sel split: option.splits sum.splits
      intro!: runtime_with_inv dest: LoadPolicy_Some pst.save_holds)

text \<open>C21: Whatever sequence of policy updates and list edits the console makes, successful or
  failing, the active engine, filter and parameters always belong to one parameter set (no
  partial application), the boot configuration behind them is unchanged, and the settings
  store, when there is one, holds exactly the active parameters.\<close>

theorem policy_edits_keep_invariant:
  assumes "NewRuntimeWithStore sc cve prof fa st = Inr r0" "rt_reach r0 r"
  shows "rt_cur r = snapshot_of cve prof fa (Current r)
    \<and> (\<forall>s. rt_store r = Some s \<longrightarrow> stores s (Current r))"
proof -
  have b: "policy_inv r0 r0" "rt_cveCfg r0 = cve" "rt_profile r0 = prof" "rt_fileAllow r0 = fa"
    using boot_inv [OF assms(1)] by auto
  have "policy_inv r0 r" using rt_reach_inv [OF assms(2) b(1)] .
  with b(2-4) show ?thesis
    by (auto simp: policy_inv_def consistent_def persisted_def same_boot_def)
qed

definition sample_sc :: supply_chain_config where
  "sample_sc = \<lparr>sc_MinAgeHours = 24, sc_AllowlistPath = [], sc_Mode = ''enforce''\<rparr>"

definition sample_cve :: cve_config where
  "sample_cve = \<lparr>cc_Enabled = True, cc_BaseURL = [], cc_BlockOn = ''HIGH'', cc_CacheTTLMinutes = 1440\<rparr>"

definition sample_profile :: policy_profile where
  "sample_profile = \<lparr>pp_CVEBlock = True, pp_CVEMinSeverity = [], pp_SupplyChainBlock = True,
     pp_MalwareBlock = True, pp_Allowlist = [], pp_Denylist = []\<rparr>"

definition sample_store :: settings_store where
  "sample_store = \<lparr>st_rows = Map.empty, st_readable = True, st_writable = True\<rparr>"

lemma sample_boot:
  "NewRuntimeWithStore sample_sc sample_cve sample_profile [] (Some sample_store) =
     Inr (runtime_with sample_cve sample_profile []
       (Some (sample_store\<lparr>st_rows := [''policy'' \<mapsto> EncodeStored (boot_params sample_sc sample_cve sample_profile)]\<rparr>))
       (boot_params sample_sc sample_cve sample_profile))"
  by (simp add: NewRuntimeWithStore_def Let_def LoadPolicy_def SavePolicy_def settings_Get_def
      settings_Put_def sample_store_def)

theorem policy_edits_keep_invariant_witness:
  "\<exists>r0. NewRuntimeWithStore sample_sc sample_cve sample_profile [] (Some sample_store) = Inr r0
     \<and> rt_cur r0 = snapshot_of sample_cve sample_profile [] (Current r0)"
  using policy_edits_keep_invariant [OF sample_boot rt_reach.start] sample_boot by blast



section \<open>What an edit does\<close>

lemma consistent_engine:
  assumes "consistent r"
  shows "e_allowlist (sn_engine (rt_cur r)) = buildIndex (p_AllowlistCVE (Current r))"
    "e_denylist (sn_engine (rt_cur r)) = buildIndex (p_Denylist (Current r))"
    "f_allowlist (sn_filter (rt_cur r)) = Some (NewAllowlist (rt_fileAllow r @ p_AllowlistSupply (Current r)))"
    "f_cfg (sn_filter (rt_cur r)) = \<lparr>sc_MinAgeHours = p_MinAgeHours (Current r),
       sc_AllowlistPath = [], sc_Mode = p_Mode (Current r)\<rparr>"
  by (simp_all add: assms [unfolded consistent_def] snapshot_of_def NewEngine_def NewFilter_def Let_def)

lemma get_set_list: "get_list l p \<noteq> None \<Longrightarrow> get_list l (set_list l xs p) = Some xs"
  by (auto simp: get_list_def set_list_def split: if_splits)

lemma get_list_trimmed: "get_list l (trimmed_params p) = map_option trimEntries (get_list l p)"
  by (simp add: get_list_def trimmed_params_def)

lemma get_list_install:
  assumes "updateLocked r (set_list l xs (Current r)) = (None, r')" "get_list l (Current r) \<noteq> None"
  shows "get_list l (Current r') = Some (trimEntries xs)"
  using updateLocked_ok [OF assms(1)] get_set_list [OF assms(2)]
  by (auto simp: get_list_trimmed)

text \<open>The runtime after an edit to the parameters \<open>p\<close>: engine, filter and parameters rebuilt from \<open>p\<close>, the policy row of the
  store replaced, everything else as it was.\<close>

definition after_edit :: "runtime \<Rightarrow> runtime_params \<Rightarrow> runtime" where
  "after_edit r p = r\<lparr>rt_cur := snapshot_of (rt_cveCfg r) (rt_profile r) (rt_fileAllow r) p,
     rt_store := map_option (\<lambda>s. s\<lparr>st_rows := (st_rows s)(''policy'' \<mapsto> EncodeStored p)\<rparr>) (rt_store r)\<rparr>"

lemma updateLocked_installs:
  assumes "updateLocked r p = (None, r')"
  shows "validateParams (trimmed_params p) = None \<and> r' = after_edit r (trimmed_params p)"
  using assms
  by (auto simp: updateLocked_def after_edit_def rt_install_def SavePolicy_def settings_Put_def Let_def split: option.splits sum.splits if_splits)

lemma EditList_installs:
  assumes "EditList r l e add = (None, True, r')" "get_list l (Current r) = Some target"
  shows "r' = after_edit r (trimmed_params (set_list l (if add then target @ [trim_space e] else filter (\<lambda>x. x \<noteq> trim_space e) target) (Current r)))"
  using assms
  by (auto simp: EditList_def Let_def split: option.splits if_splits prod.splits dest!: updateLocked_installs)

lemma after_edit_current [simp]: "Current (after_edit r p) = p"
  by (simp add: after_edit_def Current_def snapshot_of_def)

lemma after_edit_loads: "rt_store (after_edit r p) = Some s \<Longrightarrow> st_readable s \<Longrightarrow> LoadPolicy s = Inr (Some p)"
  by (auto simp: after_edit_def LoadPolicy_def settings_Get_def DecodeStored_def EncodeStored_def runtime_params.defs)

text \<open>C23: An edit is all or nothing. An update or a list edit that returns an error, and a list edit that reports no
  change, leave the whole runtime (snapshot, store and boot configuration) as it was. An update that
  succeeds has validated the edited parameters with their entries trimmed, saved them and installed engine and filter built from exactly
  them, and changed nothing else; a list edit that succeeds does so for the list with the entry added at the end or
  removed. What was saved is what a later load reads.\<close>

theorem policy_edit_all_or_nothing:
  "(Runtime_Update r fn = (Some err, r') \<longrightarrow> r' = r)
   \<and> (EditList r l e add = (Some err, changed, r') \<longrightarrow> r' = r \<and> \<not> changed)
   \<and> (EditList r l e add = (None, False, r') \<longrightarrow> r' = r)
   \<and> (Runtime_Update r fn = (None, r') \<longrightarrow>
        validateParams (Current r') = None \<and> Current r' = trimmed_params (fn (Current r)) \<and> r' = after_edit r (Current r'))
   \<and> (EditList r l e add = (None, True, r') \<and> get_list l (Current r) = Some target \<longrightarrow>
        Current r' = trimmed_params (set_list l (if add then target @ [trim_space e] else filter (\<lambda>x. x \<noteq> trim_space e) target) (Current r))
        \<and> r' = after_edit r (Current r'))
   \<and> (\<forall>s. rt_store (after_edit r p) = Some s \<and> st_readable s \<longrightarrow> LoadPolicy s = Inr (Some p))"
proof (intro conjI impI allI)
  assume "Runtime_Update r fn = (Some err, r')"
  then show "r' = r" by (simp add: Runtime_Update_def updateLocked_error)
next
  assume "Runtime_Update r fn = (None, r')"
  then have "validateParams (trimmed_params (fn (Current r))) = None \<and> r' = after_edit r (trimmed_params (fn (Current r)))"
    by (intro updateLocked_installs) (simp add: Runtime_Update_def)
  then show "validateParams (Current r') = None" "Current r' = trimmed_params (fn (Current r))" "r' = after_edit r (Current r')" by simp_all
next
  let ?xs = "if add then target @ [trim_space e] else filter (\<lambda>x. x \<noteq> trim_space e) target"
  assume "EditList r l e add = (None, True, r') \<and> get_list l (Current r) = Some target"
  then have "r' = after_edit r (trimmed_params (set_list l ?xs (Current r)))" using EditList_installs by blast
  then show "Current r' = trimmed_params (set_list l ?xs (Current r))" "r' = after_edit r (Current r')" by simp_all
next
  fix s assume "rt_store (after_edit r p) = Some s \<and> st_readable s"
  then show "LoadPolicy s = Inr (Some p)" using after_edit_loads by blast
qed (auto elim: EditList_cases)

text \<open>An unknown list is refused; a denylist entry is saved and read back.\<close>

theorem policy_edit_all_or_nothing_witness:
  "let r = runtime_with sample_cve sample_profile [] (Some sample_store) (boot_params sample_sc sample_cve sample_profile);
       out = EditList r ListDenylist '' npm/x '' True; r' = snd (snd out)
   in EditList r ''blocklist'' ''npm/x'' True = (Some (ValidationError FList MUnknownList), False, r)
      \<and> fst (snd out) \<and> p_Denylist (Current r') = [''npm/x''] \<and> r' = after_edit r (Current r')"
proof -
  let ?r = "runtime_with sample_cve sample_profile [] (Some sample_store) (boot_params sample_sc sample_cve sample_profile)"
  have "EditList ?r ''blocklist'' ''npm/x'' True
      = (Some (ValidationError FList MUnknownList), False, snd (snd (EditList ?r ''blocklist'' ''npm/x'' True)))"
    by (simp add: EditList_def get_list_def ListAllowlistSupply_def ListAllowlistCVE_def ListDenylist_def)
  with policy_edit_all_or_nothing [THEN conjunct2, THEN conjunct1, rule_format, OF this]
  have 1: "EditList ?r ''blocklist'' ''npm/x'' True = (Some (ValidationError FList MUnknownList), False, ?r)" by simp
  have "fst (EditList ?r ListDenylist '' npm/x '' True) = None \<and> fst (snd (EditList ?r ListDenylist '' npm/x '' True))" by code_simp
  then obtain r' where r': "EditList ?r ListDenylist '' npm/x '' True = (None, True, r')" by (metis prod.collapse)
  have t: "get_list ListDenylist (Current ?r) = Some []" "trim_space '' npm/x '' = ''npm/x''" "trim_space ''npm/x'' = ''npm/x''" by code_simp+
  note edit = policy_edit_all_or_nothing [THEN conjunct2, THEN conjunct2, THEN conjunct2, THEN conjunct2, THEN conjunct1, rule_format, OF conjI, OF r' t(1)]
  have "p_Denylist (Current r') = [''npm/x'']"
    unfolding edit [THEN conjunct1]
    by (simp add: t set_list_def ListDenylist_def ListAllowlistSupply_def ListAllowlistCVE_def trimmed_params_def trimEntries_def)
  moreover note edit [THEN conjunct2]
  ultimately have "p_Denylist (Current r') = [''npm/x'']" "r' = after_edit ?r (Current r')" by blast+
  with 1 r' show ?thesis by (simp add: Let_def)
qed

text \<open>Adding a denylist entry takes effect at once: after a successful add (also one that
  found the entry already there) the policy refuses every package the entry spells, with
  the denylist as the reason, whatever its scan result.\<close>

theorem EditList_deny_takes_effect:
  assumes "consistent r" "EditList r ListDenylist e True = (None, changed, r')"
    and "trim_space e = byName ref \<or> trim_space e = byVersion ref"
  shows "\<not> pd_Allowed (Runtime_Evaluate r' ref res)
       \<and> pd_Reason (Runtime_Evaluate r' ref res) = ReasonDenylisted"
proof -
  have c: "consistent r'"
    using assms(2,1) by (cases rule: EditList_cases) (auto dest!: updateLocked_ok)
  have m: "trim_space e \<in> set (p_Denylist (Current r'))"
    using assms(2)
  proof (cases rule: EditList_cases)
    case same
    with assms(2) show ?thesis
      by (auto simp: EditList_def Let_def get_list_def ListDenylist_def ListAllowlistSupply_def
          ListAllowlistCVE_def split: option.splits if_splits prod.splits)
  next
    case (updated xs)
    have "get_list ListDenylist (Current r') = Some (trimEntries xs)"
      by (rule get_list_install [OF updated(1,4)])
    with updated(5) show ?thesis
      by (auto simp: get_list_def trimEntries_def ListDenylist_def ListAllowlistSupply_def
          ListAllowlistCVE_def)
  qed
  have "matchesIndex (e_denylist (sn_engine (rt_cur r'))) ref"
    unfolding consistent_engine(2) [OF c] idx.matches_build
    using m assms(3) trim_space_idem by metis
  then show ?thesis
    by (simp add: Runtime_Evaluate_def Engine_Evaluate_def ReasonDenylisted_def)
qed

theorem EditList_deny_takes_effect_witness:
  "\<exists>r'. EditList (NewRuntime sample_sc sample_cve sample_profile []) ListDenylist ''pypi/requests'' True
          = (None, True, r')
     \<and> \<not> pd_Allowed (Runtime_Evaluate r' sample_ref \<lparr>sr_Clean = True, sr_Findings = [], sr_ScanJSON = []\<rparr>)"
proof -
  let ?r = "NewRuntime sample_sc sample_cve sample_profile []"
  have c: "consistent ?r"
    by (simp add: NewRuntime_def consistent_def runtime_with_def snapshot_of_def Current_def)
  have v: "validateListEntry ''pypi/requests'' = None" by code_simp
  have t: "trim_space ''pypi/requests'' = ''pypi/requests''" by code_simp
  have e: "EditList ?r ListDenylist ''pypi/requests'' True = (None, True, snd (snd
      (EditList ?r ListDenylist ''pypi/requests'' True)))"
    by (simp add: EditList_def Let_def get_list_def set_list_def updateLocked_def trimmed_params_def
        validateParams_def validModes_def validSeverities_def trimEntries_def v t NewRuntime_def
        runtime_with_def Current_def snapshot_of_def boot_params_def sample_sc_def sample_cve_def
        sample_profile_def ListDenylist_def ListAllowlistSupply_def ListAllowlistCVE_def)
  have "trim_space ''pypi/requests'' = byName sample_ref"
    by (simp add: t byName_def sample_ref_def)
  with EditList_deny_takes_effect [OF c e] e show ?thesis by blast
qed

text \<open>Removing a list entry takes it out of force: when the entries of the list are trimmed (as
  every successful edit leaves them), a removal that succeeds leaves exactly the other
  entries, in order, so no remaining entry spells the removed one.\<close>

theorem EditList_remove:
  assumes "EditList r l e False = (None, changed, r')"
    and "get_list l (Current r) = Some xs" "trimEntries xs = xs"
  shows "get_list l (Current r') = Some (filter (\<lambda>x. x \<noteq> trim_space e) xs)
       \<and> (changed \<longleftrightarrow> trim_space e \<in> set xs)"
  using assms(1)
proof (cases rule: EditList_cases)
  case same
  then have "trim_space e \<notin> set xs"
    using assms(1,2) by (auto simp: EditList_def Let_def split: option.splits if_splits prod.splits)
  with same assms(2) show ?thesis by simp
next
  case (updated ys)
  have "trim_space x = x" if "x \<in> set xs" for x
    using map_fixpoint [OF assms(3) [unfolded trimEntries_def] that] .
  then have y: "trimEntries ys = ys"
    using updated(5) assms(2) by (auto simp: trimEntries_def intro!: map_idI)
  have "get_list l (Current r') = Some ys"
    using get_list_install [OF updated(1,4)] y by simp
  moreover have "trim_space e \<in> set xs"
    using assms(1,2) updated(3)
    by (auto simp: EditList_def Let_def split: option.splits if_splits prod.splits)
  ultimately show ?thesis using updated(3,5) assms(2) by simp
qed

theorem EditList_remove_witness:
  "let r = NewRuntime sample_sc sample_cve (sample_profile\<lparr>pp_Denylist := [''npm/x'', ''npm/y'']\<rparr>) [] in
   \<exists>r'. EditList r ListDenylist ''npm/x'' False = (None, True, r')
      \<and> get_list ListDenylist (Current r') = Some [''npm/y'']"
proof -
  let ?r = "NewRuntime sample_sc sample_cve (sample_profile\<lparr>pp_Denylist := [''npm/x'', ''npm/y'']\<rparr>) []"
  have v: "validateListEntry ''npm/x'' = None" "validateListEntry ''npm/y'' = None" by code_simp+
  have t: "trim_space ''npm/x'' = ''npm/x''" "trim_space ''npm/y'' = ''npm/y''" by code_simp+
  have g: "get_list ListDenylist (Current ?r) = Some [''npm/x'', ''npm/y'']"
    by (simp add: get_list_def ListDenylist_def ListAllowlistSupply_def ListAllowlistCVE_def
        NewRuntime_def runtime_with_sel boot_params_def Let_def)
  have e: "EditList ?r ListDenylist ''npm/x'' False = (None, True, snd (snd
      (EditList ?r ListDenylist ''npm/x'' False)))"
    by (simp add: EditList_def Let_def g set_list_def updateLocked_def trimmed_params_def
        validateParams_def validModes_def validSeverities_def trimEntries_def v t NewRuntime_def
        runtime_with_sel boot_params_def sample_sc_def sample_cve_def get_list_def
        sample_profile_def ListDenylist_def ListAllowlistSupply_def ListAllowlistCVE_def)
  show ?thesis
    using e EditList_remove [OF e g] by (auto simp: trimEntries_def t Let_def)
qed

text \<open>The gates are edited independently: the age filter does not depend on the CVE
  allowlist, the denylist or the severity threshold, the CVE decision does not depend on
  the supply-chain allowlist, mode or minimum age, and the entries of the allowlist file
  stay in force for the age filter under every parameter set.\<close>

theorem policy_gates_independent:
  "Runtime_Check (rt_install r (p\<lparr>p_AllowlistCVE := a, p_Denylist := d, p_CVEBlockOn := t\<rparr>))
     = Runtime_Check (rt_install r p)
   \<and> Runtime_Evaluate (rt_install r (p\<lparr>p_AllowlistSupply := b, p_Mode := m, p_MinAgeHours := h\<rparr>))
     = Runtime_Evaluate (rt_install r p)
   \<and> (Allowlist_Contains (Some (NewAllowlist (rt_fileAllow r))) ref \<longrightarrow>
        fr_Allowed (Runtime_Check (rt_install r p) now ref meta))"
proof (intro conjI impI)
  assume "Allowlist_Contains (Some (NewAllowlist (rt_fileAllow r))) ref"
  then show "fr_Allowed (Runtime_Check (rt_install r p) now ref meta)"
    unfolding Runtime_Check_def
    by (intro Filter_Check_allowlisted)
       (simp add: rt_install_def snapshot_of_def NewFilter_def allow.matches_append)
qed (simp_all add: Runtime_Check_def Runtime_Evaluate_def rt_install_def snapshot_of_def
      NewEngine_def)

theorem policy_gates_independent_witness:
  "fr_Allowed (Runtime_Check (rt_install (NewRuntime sample_sc sample_cve sample_profile [''pypi/requests''])
     (boot_params sample_sc sample_cve sample_profile)) 0 sample_ref (sample_meta 0))"
proof -
  have "Allowlist_Contains (Some (NewAllowlist [''pypi/requests''])) sample_ref" by code_simp
  then show ?thesis
    using policy_gates_independent
      [of "NewRuntime sample_sc sample_cve sample_profile [''pypi/requests'']"]
    by (auto simp: NewRuntime_def runtime_with_def)
qed

text \<open>The boot parameters decide as the YAML configuration does: the engine seeded from the
  configuration (which spells an empty threshold as LOW) takes the same decision on every
  package and scan result as the engine built from the configuration directly.\<close>

theorem boot_engine_equivalent:
  "Runtime_Evaluate (NewRuntime sc cve prof fa) ref res = Engine_Evaluate (NewEngine cve prof) ref res"
proof -
  have l: "ParseSeverity ''LOW'' = SeverityLow" "ParseSeverity [] = SeverityUnknown"
    by code_simp+
  have f: "blocked_findings SeverityLow fs acc = blocked_findings SeverityUnknown fs acc" for fs acc
    by (simp add: blocked_findings_filter AtLeast_unknown_threshold)
  show ?thesis
    by (simp add: Runtime_Evaluate_def NewRuntime_def runtime_with_def snapshot_of_def NewEngine_def
        boot_params_def Let_def Engine_Evaluate_def l f)
qed

section \<open>Rows written before the per-gate split\<close>

lemma migrate_legacy_lists:
  "set (p_AllowlistSupply (migrate_legacy es p)) = set (p_AllowlistSupply p) \<union> set es
   \<and> set (p_AllowlistCVE (migrate_legacy es p)) = set (p_AllowlistCVE p) \<union> set es
   \<and> p_Denylist (migrate_legacy es p) = p_Denylist p
   \<and> p_Mode (migrate_legacy es p) = p_Mode p
   \<and> p_MinAgeHours (migrate_legacy es p) = p_MinAgeHours p
   \<and> p_CVEBlockOn (migrate_legacy es p) = p_CVEBlockOn p"
  by (induction es p rule: migrate_legacy.induct) auto

lemma migrate_legacy_distinct:
  "distinct (p_AllowlistSupply p) \<Longrightarrow> distinct (p_AllowlistSupply (migrate_legacy es p))"
  by (induction es p rule: migrate_legacy.induct) auto

text \<open>An upgrade keeps every bypass: decoding a stored row that still has the single legacy
  allowlist puts each of its entries on both per-gate lists, keeps what those lists held,
  duplicates nothing that was not duplicated before, changes no other parameter, and the
  decoded parameters are a fixed point of storing and loading.\<close>

theorem DecodeStored_migrates:
  assumes "DecodeStored (PolicyRow sp) = Inr p"
  shows "set (p_AllowlistSupply p) = set (p_AllowlistSupply sp) \<union> set (sp_LegacyAllowlist sp)
    \<and> set (p_AllowlistCVE p) = set (p_AllowlistCVE sp) \<union> set (sp_LegacyAllowlist sp)
    \<and> (distinct (p_AllowlistSupply sp) \<longrightarrow> distinct (p_AllowlistSupply p))
    \<and> p_Denylist p = p_Denylist sp \<and> p_Mode p = p_Mode sp
    \<and> p_MinAgeHours p = p_MinAgeHours sp \<and> p_CVEBlockOn p = p_CVEBlockOn sp
    \<and> DecodeStored (EncodeStored p) = Inr p"
proof -
  have p: "p = migrate_legacy (sp_LegacyAllowlist sp) (runtime_params.truncate sp)"
    using assms by (simp add: DecodeStored_def)
  show ?thesis
    unfolding p using migrate_legacy_lists migrate_legacy_distinct
    by (auto simp: runtime_params.defs)
qed

theorem DecodeStored_migrates_witness:
  "\<exists>p. DecodeStored (PolicyRow \<lparr>p_Mode = ''enforce'', p_MinAgeHours = 24, p_CVEBlockOn = ''HIGH'',
          p_AllowlistSupply = [''npm/a''], p_AllowlistCVE = [], p_Denylist = [],
          sp_LegacyAllowlist = [''npm/a'', ''npm/b'']\<rparr>) = Inr p
     \<and> set (p_AllowlistCVE p) = {''npm/a'', ''npm/b''}"
proof -
  let ?sp = "\<lparr>p_Mode = ''enforce'', p_MinAgeHours = 24, p_CVEBlockOn = ''HIGH'',
          p_AllowlistSupply = [''npm/a''], p_AllowlistCVE = [], p_Denylist = [],
          sp_LegacyAllowlist = [''npm/a'', ''npm/b'']\<rparr>"
  obtain p where p: "DecodeStored (PolicyRow ?sp) = Inr p" by (simp add: DecodeStored_def)
  from DecodeStored_migrates [OF p] have "set (p_AllowlistCVE p) = {''npm/a'', ''npm/b''}" by simp
  with p show ?thesis by blast
qed

end
