(* ===== verification/Go_HTTP.thy ===== *)
theory Go_HTTP
  imports Go_Prelude
begin

text \<open>
  What the modelled code uses of \<^verbatim>\<open>strconv\<close> and \<^verbatim>\<open>net/http\<close>: decimal numbers, header maps
  with canonical keys, status codes and responses. A header is the function that gives the
  values stored under a canonical key, the empty list when the key is absent; ranging over a
  header map and adding each value to another one is then pointwise and does not depend on
  the iteration order.
\<close>

section \<open>Decimal numbers\<close>

definition digit_char :: "nat \<Rightarrow> char" where
  "digit_char d = char_of (48 + d)"

fun nat_string :: "nat \<Rightarrow> string" where
  "nat_string n = (if n < 10 then [digit_char n] else nat_string (n div 10) @ [digit_char (n mod 10)])"

definition FormatInt :: "int64 \<Rightarrow> string" where
  "FormatInt i = (if i < 0 then CHR ''-'' # nat_string (nat (- i)) else nat_string (nat i))"

definition digits_value :: "string \<Rightarrow> int" where
  "digits_value s = foldl (\<lambda>n c. 10 * n + (of_char c - 48)) 0 s"

definition all_digits :: "string \<Rightarrow> bool" where
  "all_digits s \<longleftrightarrow> s \<noteq> [] \<and> list_all is_digit s"

text \<open>\<open>strconv.Atoi\<close>: an optional sign, decimal digits, and the range of an int64.\<close>

definition Atoi :: "string \<Rightarrow> int64 option" where
  "Atoi s =
     (let neg = has_prefix s ''-'';
          ds = (if neg \<or> has_prefix s ''+'' then tl s else s);
          n = digits_value ds;
          v = (if neg then - n else n)
      in if all_digits ds \<and> min_int64 \<le> v \<and> v \<le> max_int64 then Some v else None)"

declare nat_string.simps [simp del]

lemma digit_char_value: "d < 10 \<Longrightarrow> (of_char (digit_char d) :: nat) = 48 + d"
  by (simp add: digit_char_def of_char_of)

lemma digit_char_value_int: "d < 10 \<Longrightarrow> (of_char (digit_char d) :: int) = 48 + int d"
  by (metis digit_char_value of_nat_add of_nat_numeral of_nat_of_char)

lemma is_digit_digit_char: "d < 10 \<Longrightarrow> is_digit (digit_char d)"
  by (simp add: is_digit_def digit_char_value)

lemma nat_string_nonempty [simp]: "nat_string n \<noteq> []"
  by (subst nat_string.simps) simp

lemma nat_string_digits: "list_all is_digit (nat_string n)"
proof (induction n rule: nat_string.induct)
  case (1 n)
  then show ?case by (subst nat_string.simps) (simp add: is_digit_digit_char)
qed

lemma digits_value_nat_string: "digits_value (nat_string n) = int n"
proof (induction n rule: nat_string.induct)
  case (1 n)
  then show ?case
    by (subst nat_string.simps) (simp add: digits_value_def digit_char_value_int zmod_int zdiv_int)
qed

lemma nat_string_no_sign:
  "\<not> has_prefix (nat_string n) ''-''" "\<not> has_prefix (nat_string n) ''+''"
  using nat_string_digits [of n]
  by (cases "nat_string n"; simp add: has_prefix_def is_digit_def; auto)+

lemma Atoi_FormatInt:
  assumes "0 \<le> i" "i \<le> max_int64"
  shows "Atoi (FormatInt i) = Some i"
  using assms nat_string_digits [of "nat i"]
  by (simp add: Atoi_def FormatInt_def nat_string_no_sign digits_value_nat_string all_digits_def
      min_int64_def max_int64_def)

section \<open>Header maps\<close>

type_synonym header = "string \<Rightarrow> string list"

definition no_header :: header where
  "no_header = (\<lambda>_. [])"

text \<open>Canonical keys: the first letter and every letter after a hyphen in upper case.\<close>

fun canonical_from :: "bool \<Rightarrow> string \<Rightarrow> string" where
  "canonical_from up [] = []"
| "canonical_from up (c # s) =
     (if up then upper_byte c else lower_byte c) # canonical_from (c = CHR ''-'') s"

definition CanonicalHeaderKey :: "string \<Rightarrow> string" where
  "CanonicalHeaderKey = canonical_from True"

definition hdr_Get :: "header \<Rightarrow> string \<Rightarrow> string" where
  "hdr_Get h k = (case h (CanonicalHeaderKey k) of [] \<Rightarrow> [] | v # _ \<Rightarrow> v)"

definition hdr_Values :: "header \<Rightarrow> string \<Rightarrow> string list" where
  "hdr_Values h k = h (CanonicalHeaderKey k)"

definition hdr_Set :: "header \<Rightarrow> string \<Rightarrow> string \<Rightarrow> header" where
  "hdr_Set h k v = h(CanonicalHeaderKey k := [v])"

definition hdr_Del :: "header \<Rightarrow> string \<Rightarrow> header" where
  "hdr_Del h k = h(CanonicalHeaderKey k := [])"

definition hdr_AddAll :: "header \<Rightarrow> header \<Rightarrow> header" where
  "hdr_AddAll dst src = (\<lambda>k. dst k @ src k)"

lemma hdr_Get_Set [simp]: "hdr_Get (hdr_Set h k v) k = v"
  by (simp add: hdr_Get_def hdr_Set_def)

lemma hdr_Get_Set_other [simp]:
  "CanonicalHeaderKey k \<noteq> CanonicalHeaderKey l \<Longrightarrow> hdr_Get (hdr_Set h k v) l = hdr_Get h l"
  by (simp add: hdr_Get_def hdr_Set_def)

section \<open>Responses\<close>

abbreviation (input) StatusOK :: int where "StatusOK \<equiv> 200"
abbreviation (input) StatusBadRequest :: int where "StatusBadRequest \<equiv> 400"
abbreviation (input) StatusUnauthorized :: int where "StatusUnauthorized \<equiv> 401"
abbreviation (input) StatusForbidden :: int where "StatusForbidden \<equiv> 403"
abbreviation (input) StatusNotFound :: int where "StatusNotFound \<equiv> 404"
abbreviation (input) StatusGone :: int where "StatusGone \<equiv> 410"
abbreviation (input) StatusLocked :: int where "StatusLocked \<equiv> 423"
abbreviation (input) StatusTooManyRequests :: int where "StatusTooManyRequests \<equiv> 429"
abbreviation (input) StatusInternalServerError :: int where "StatusInternalServerError \<equiv> 500"
abbreviation (input) StatusBadGateway :: int where "StatusBadGateway \<equiv> 502"
abbreviation (input) StatusServiceUnavailable :: int where "StatusServiceUnavailable \<equiv> 503"

text \<open>
  A response as the client of a transport sees it: the body is the bytes that arrive, and
  \<open>rs_BodyErr\<close> is set when the connection breaks before its end.
\<close>

record http_response =
  rs_StatusCode :: int
  rs_Header :: header
  rs_ContentLength :: int64
  rs_Body :: string
  rs_BodyErr :: bool

end
