(* ===== verification/Circuit_Breaker.thy ===== *)
theory Circuit_Breaker
  imports Go_HTTP "HOL-Library.AList" "HOL-Library.List_Lexorder" "HOL-Library.Char_ord"
begin

text \<open>
  The per-host circuit breaker around the upstream transport,
  \<^verbatim>\<open>internal/httpx/circuitbreaker.go\<close>. The map of hosts is an association list. Each reading
  of the clock is an argument in the order the code reads it, and so is the random number
  behind the jitter. The wrapped transport is an argument that acts on a world of its own,
  so that a request that is not sent leaves that world as it is. \<open>http.ParseTime\<close> is an
  argument too.
\<close>

section \<open>State and operations\<close>

record breaker_state =
  bs_openUntil :: gotime
  bs_fails :: int64
  bs_status :: int

record circuit_breaker =
  cb_baseDelay :: duration
  cb_maxDelay :: duration
  cb_hosts :: "(string \<times> breaker_state) list"

definition NewCircuitBreaker :: "duration \<Rightarrow> duration \<Rightarrow> circuit_breaker" where
  "NewCircuitBreaker baseDelay maxDelay =
     \<lparr>cb_baseDelay = baseDelay, cb_maxDelay = maxDelay, cb_hosts = []\<rparr>"

definition isOpen :: "circuit_breaker \<Rightarrow> gotime \<Rightarrow> string \<Rightarrow> bool" where
  "isOpen c now host =
     (case map_of (cb_hosts c) host of None \<Rightarrow> False | Some st \<Rightarrow> now < bs_openUntil st)"

definition OpenHosts :: "circuit_breaker \<Rightarrow> gotime \<Rightarrow> string list" where
  "OpenHosts c now = sort (map fst (filter (\<lambda>(host, st). now < bs_openUntil st) (cb_hosts c)))"

definition Throttle :: "circuit_breaker \<Rightarrow> gotime \<Rightarrow> string \<Rightarrow> (int \<times> duration) option" where
  "Throttle c now host =
     (case map_of (cb_hosts c) host of
        None \<Rightarrow> None
      | Some st \<Rightarrow>
          (let left = time_sub (bs_openUntil st) now
           in if left \<le> 0 then None else Some (bs_status st, left)))"

definition jitter :: "circuit_breaker \<Rightarrow> int64 \<Rightarrow> duration" where
  "jitter c rnd = (if cb_baseDelay c \<le> 0 then 0 else rnd mod (cb_baseDelay c + 1))"

definition parseRetryAfter ::
  "(string \<Rightarrow> gotime option) \<Rightarrow> string \<Rightarrow> gotime \<Rightarrow> duration option" where
  "parseRetryAfter parseTime header now =
     (let header = trim_space header in
      if header = [] then None
      else case Atoi header of
        Some secs \<Rightarrow>
          if 0 \<le> secs then Some (wrap64 (secs * Second))
          else map_option (\<lambda>t. if 0 < time_sub t now then time_sub t now else 0) (parseTime header)
      | None \<Rightarrow> map_option (\<lambda>t. if 0 < time_sub t now then time_sub t now else 0) (parseTime header))"

text \<open>The cooldown a throttled answer asks for, before it is capped.\<close>

definition trip_delay ::
  "(string \<Rightarrow> gotime option) \<Rightarrow> circuit_breaker \<Rightarrow> int64 \<Rightarrow> string \<Rightarrow> gotime \<Rightarrow> int64 \<Rightarrow> duration" where
  "trip_delay parseTime c fails retryAfter now rnd =
     (case parseRetryAfter parseTime retryAfter now of
        Some d \<Rightarrow> wrap64 (d + jitter c rnd)
      | None \<Rightarrow>
          (let shift = nat (min (fails - 1) 16)
           in wrap64 (wrap64 (cb_baseDelay c * 2 ^ shift) + jitter c rnd)))"

definition trip ::
  "(string \<Rightarrow> gotime option) \<Rightarrow> circuit_breaker \<Rightarrow> string \<Rightarrow> int \<Rightarrow> string \<Rightarrow> gotime \<Rightarrow> int64 \<Rightarrow> gotime \<Rightarrow> circuit_breaker" where
  "trip parseTime c host status retryAfter now1 rnd now2 =
     (let st = (case map_of (cb_hosts c) host of
                  None \<Rightarrow> \<lparr>bs_openUntil = zero_time, bs_fails = 0, bs_status = 0\<rparr> | Some st \<Rightarrow> st);
          fails = bs_fails st + 1;
          delay = trip_delay parseTime c fails retryAfter now1 rnd;
          delay = (if cb_maxDelay c < delay then cb_maxDelay c else delay);
          until = time_add now2 delay;
          openUntil = (if bs_openUntil st < until then until else bs_openUntil st)
      in c\<lparr>cb_hosts := AList.update host \<lparr>bs_openUntil = openUntil, bs_fails = fails, bs_status = status\<rparr>
                        (cb_hosts c)\<rparr>)"

definition reset :: "circuit_breaker \<Rightarrow> string \<Rightarrow> circuit_breaker" where
  "reset c host =
     (case map_of (cb_hosts c) host of
        None \<Rightarrow> c
      | Some st \<Rightarrow> c\<lparr>cb_hosts := AList.update host (st\<lparr>bs_fails := 0, bs_openUntil := zero_time\<rparr>) (cb_hosts c)\<rparr>)"

datatype 'e transport_error = CircuitOpen string | BaseError 'e

record clock_readings =
  ck_open :: gotime
  ck_parse :: gotime
  ck_rnd :: int64
  ck_until :: gotime

definition RoundTrip ::
  "(string \<Rightarrow> gotime option) \<Rightarrow> ('req \<Rightarrow> 'w \<Rightarrow> ('e + http_response) \<times> 'w) \<Rightarrow> ('req \<Rightarrow> string) \<Rightarrow>
   clock_readings \<Rightarrow> 'req \<Rightarrow> circuit_breaker \<times> 'w \<Rightarrow>
   ('e transport_error + http_response) \<times> circuit_breaker \<times> 'w" where
  "RoundTrip parseTime base url_host k req s =
     (let c = fst s; w = snd s; host = url_host req in
      if isOpen c (ck_open k) host then (Inl (CircuitOpen host), c, w)
      else case base req w of
        (Inl err, w') \<Rightarrow> (Inl (BaseError err), c, w')
      | (Inr resp, w') \<Rightarrow>
          if rs_StatusCode resp = StatusTooManyRequests \<or> rs_StatusCode resp = StatusServiceUnavailable
          then (Inr resp, trip parseTime c host (rs_StatusCode resp) (hdr_Get (rs_Header resp) ''Retry-After'')
                            (ck_parse k) (ck_rnd k) (ck_until k), w')
          else (Inr resp, reset c host, w'))"

definition SetRetryAfter :: "header \<Rightarrow> duration \<Rightarrow> header" where
  "SetRetryAfter h d =
     (if d \<le> 0 then h
      else hdr_Set h ''Retry-After'' (FormatInt (go_div (wrap64 (d + Second - 1)) Second)))"

section \<open>What the views report\<close>

lemma Throttle_iff_isOpen: "Throttle c now host \<noteq> None \<longleftrightarrow> isOpen c now host"
  by (auto simp: Throttle_def isOpen_def Let_def split: option.splits)
     (auto simp: time_sub_def min_int64_def max_int64_def)

lemma Throttle_report:
  "Throttle c now host = Some (s, left) \<Longrightarrow>
   0 < left \<and> (\<exists>st. map_of (cb_hosts c) host = Some st \<and> s = bs_status st)"
  by (auto simp: Throttle_def Let_def split: option.splits if_splits)

definition hosts_wf :: "circuit_breaker \<Rightarrow> bool" where
  "hosts_wf c \<longleftrightarrow> distinct (map fst (cb_hosts c))"

lemma set_OpenHosts: "hosts_wf c \<Longrightarrow> h \<in> set (OpenHosts c now) \<longleftrightarrow> isOpen c now h"
proof -
  assume "hosts_wf c"
  then have "map_of (cb_hosts c) h = Some st \<longleftrightarrow> (h, st) \<in> set (cb_hosts c)" for st
    by (simp add: hosts_wf_def)
  moreover have "isOpen c now h \<longleftrightarrow> (\<exists>st. map_of (cb_hosts c) h = Some st \<and> now < bs_openUntil st)"
    by (simp add: isOpen_def split: option.split)
  ultimately show ?thesis by (auto simp: OpenHosts_def) force
qed

lemma sorted_OpenHosts: "hosts_wf c \<Longrightarrow> sorted (OpenHosts c now) \<and> distinct (OpenHosts c now)"
  by (simp add: OpenHosts_def hosts_wf_def distinct_map_filter)

section \<open>What a round trip does to the state\<close>

definition host_state :: "circuit_breaker \<Rightarrow> string \<Rightarrow> breaker_state" where
  "host_state c host = (case map_of (cb_hosts c) host of
     None \<Rightarrow> \<lparr>bs_openUntil = zero_time, bs_fails = 0, bs_status = 0\<rparr> | Some st \<Rightarrow> st)"

lemma map_of_trip: "map_of (cb_hosts (trip pt c host s ra n1 rnd n2)) h =
  (if h = host
   then (let d = min (cb_maxDelay c) (trip_delay pt c (bs_fails (host_state c host) + 1) ra n1 rnd)
         in Some \<lparr>bs_openUntil = max (bs_openUntil (host_state c host)) (n2 + d),
                  bs_fails = bs_fails (host_state c host) + 1, bs_status = s\<rparr>)
   else map_of (cb_hosts c) h)"
  by (auto simp: trip_def Let_def host_state_def update_conv' time_add_def max_def min_def)

lemma trip_keeps [simp]:
  "cb_baseDelay (trip pt c host s ra n1 rnd n2) = cb_baseDelay c"
  "cb_maxDelay (trip pt c host s ra n1 rnd n2) = cb_maxDelay c"
  "hosts_wf c \<Longrightarrow> hosts_wf (trip pt c host s ra n1 rnd n2)"
  by (simp_all add: trip_def Let_def hosts_wf_def distinct_update)

lemma map_of_reset: "map_of (cb_hosts (reset c host)) h =
  (if h = host then map_option (\<lambda>st. st\<lparr>bs_fails := 0, bs_openUntil := zero_time\<rparr>) (map_of (cb_hosts c) host)
   else map_of (cb_hosts c) h)"
  by (simp add: reset_def update_conv' split: option.split)

lemma reset_keeps [simp]:
  "cb_baseDelay (reset c host) = cb_baseDelay c" "cb_maxDelay (reset c host) = cb_maxDelay c"
  "hosts_wf c \<Longrightarrow> hosts_wf (reset c host)"
  by (simp_all add: reset_def hosts_wf_def distinct_update split: option.split)

definition throttle_status :: "int \<Rightarrow> bool" where
  "throttle_status s \<longleftrightarrow> s = StatusTooManyRequests \<or> s = StatusServiceUnavailable"

lemma RoundTrip_cases:
  assumes "RoundTrip pt base uh k req (c, w) = (r, c', w')"
  obtains (fast) "isOpen c (ck_open k) (uh req)" "r = Inl (CircuitOpen (uh req))" "c' = c" "w' = w"
  | (failed) e where "\<not> isOpen c (ck_open k) (uh req)" "base req w = (Inl e, w')" "r = Inl (BaseError e)" "c' = c"
  | (throttled) resp where "\<not> isOpen c (ck_open k) (uh req)" "base req w = (Inr resp, w')" "r = Inr resp"
      "throttle_status (rs_StatusCode resp)"
      "c' = trip pt c (uh req) (rs_StatusCode resp) (hdr_Get (rs_Header resp) ''Retry-After'')
              (ck_parse k) (ck_rnd k) (ck_until k)"
  | (answered) resp where "\<not> isOpen c (ck_open k) (uh req)" "base req w = (Inr resp, w')" "r = Inr resp"
      "\<not> throttle_status (rs_StatusCode resp)" "c' = reset c (uh req)"
  using assms
  by (auto simp: RoundTrip_def throttle_status_def Let_def split: if_splits prod.splits sum.splits)


fun RoundTrips ::
  "(string \<Rightarrow> gotime option) \<Rightarrow> ('req \<Rightarrow> 'w \<Rightarrow> ('e + http_response) \<times> 'w) \<Rightarrow> ('req \<Rightarrow> string) \<Rightarrow>
   (clock_readings \<times> 'req) list \<Rightarrow> circuit_breaker \<times> 'w \<Rightarrow>
   ('req \<times> ('e transport_error + http_response)) list \<times> circuit_breaker \<times> 'w" where
  "RoundTrips pt base uh [] s = ([], s)"
| "RoundTrips pt base uh ((k, req) # ks) s =
     (let (r, s1) = RoundTrip pt base uh k req s;
          (rs, s2) = RoundTrips pt base uh ks s1
      in ((req, r) # rs, s2))"

section \<open>Invariant of every run\<close>

definition breaker_inv :: "circuit_breaker \<Rightarrow> bool" where
  "breaker_inv c \<longleftrightarrow> hosts_wf c \<and> (\<forall>h st. map_of (cb_hosts c) h = Some st \<longrightarrow> throttle_status (bs_status st) \<and> 0 \<le> bs_fails st)"

lemma breaker_inv_New: "breaker_inv (NewCircuitBreaker b m)"
  by (simp add: breaker_inv_def NewCircuitBreaker_def hosts_wf_def)

lemma RoundTrip_inv:
  assumes "RoundTrip pt base uh k req (c, w) = (r, c', w')" "breaker_inv c"
  shows "breaker_inv c' \<and> cb_baseDelay c' = cb_baseDelay c \<and> cb_maxDelay c' = cb_maxDelay c"
  using assms(1)
proof (cases rule: RoundTrip_cases)
  case throttled
  have "0 \<le> bs_fails (host_state c (uh req))"
    using assms(2) by (auto simp: breaker_inv_def host_state_def split: option.split)
  with throttled assms(2) show ?thesis by (auto simp: breaker_inv_def map_of_trip Let_def)
next
  case answered
  with assms(2) show ?thesis by (auto simp: breaker_inv_def map_of_reset)
qed (use assms(2) in auto)

lemma RoundTrips_inv:
  assumes "RoundTrips pt base uh ks (c, w) = (rs, c', w')" "breaker_inv c"
  shows "breaker_inv c'"
  using assms
proof (induction ks arbitrary: c w rs)
  case (Cons kr ks)
  obtain k req where kr: "kr = (k, req)" by force
  obtain r c1 w1 where s: "RoundTrip pt base uh k req (c, w) = (r, c1, w1)" by (metis prod_cases3)
  show ?case
    using Cons.prems(1) Cons.IH RoundTrip_inv [OF s Cons.prems(2)]
    by (auto simp: kr s split: prod.splits)
qed simp


text \<open>The three views of the breaker agree after every run of requests: the hosts listed as
  open are sorted, without repetition, and exactly the ones a request would be refused for,
  and a host has a throttle report exactly when it is open; the report names the 429 or 503
  that opened the circuit and a positive time left.\<close>

theorem breaker_views_agree:
  assumes "RoundTrips pt base uh ks (NewCircuitBreaker b m, w) = (rs, c, w')"
  shows "sorted (OpenHosts c now) \<and> distinct (OpenHosts c now)
    \<and> (h \<in> set (OpenHosts c now) \<longleftrightarrow> isOpen c now h)
    \<and> (Throttle c now h \<noteq> None \<longleftrightarrow> isOpen c now h)
    \<and> (\<forall>s left. Throttle c now h = Some (s, left) \<longrightarrow> (s = 429 \<or> s = 503) \<and> 0 < left)"
proof -
  have "breaker_inv c" by (rule RoundTrips_inv [OF assms breaker_inv_New])
  then show ?thesis
    using Throttle_report [of c now h] Throttle_iff_isOpen [of c now h]
    unfolding breaker_inv_def by (metis sorted_OpenHosts set_OpenHosts throttle_status_def)
qed

section \<open>Cooldowns\<close>


lemma jitter_bounds: "0 < cb_baseDelay c \<Longrightarrow> 0 \<le> jitter c rnd \<and> jitter c rnd \<le> cb_baseDelay c"
  using pos_mod_bound [of "cb_baseDelay c + 1" rnd] by (simp add: jitter_def)

text \<open>
  The cooldown the upstream asks for: seconds, or the time up to a date (none for a date that has passed), or the
  exponential one when it names nothing that can be read. A request too long for the duration type has none.
\<close>

definition asked_delay :: "(string \<Rightarrow> gotime option) \<Rightarrow> circuit_breaker \<Rightarrow> string \<Rightarrow> string \<Rightarrow> gotime \<Rightarrow> duration option" where
  "asked_delay parseTime c host ra now =
     (let h = trim_space ra; backoff = cb_baseDelay c * 2 ^ nat (min (bs_fails (host_state c host)) 16);
          fits = (\<lambda>d. if d + cb_baseDelay c \<le> max_int64 then Some d else None);
          date = (case parseTime h of Some t \<Rightarrow> fits (max 0 (t - now)) | None \<Rightarrow> Some backoff)
      in if h = [] then Some backoff
         else case Atoi h of Some secs \<Rightarrow> if 0 \<le> secs then fits (secs * Second) else date | None \<Rightarrow> date)"







definition demo_base :: "string \<Rightarrow> nat \<Rightarrow> (unit + http_response) \<times> nat" where
  "demo_base host n = (Inr \<lparr>rs_StatusCode = (if host = ''a'' then 429 else 200), rs_Header = no_header,
     rs_ContentLength = 0, rs_Body = [], rs_BodyErr = False\<rparr>, Suc n)"

definition demo_clock :: "gotime \<Rightarrow> clock_readings" where
  "demo_clock t = \<lparr>ck_open = t, ck_parse = t, ck_rnd = 0, ck_until = t\<rparr>"

definition demo_breaker :: circuit_breaker where
  "demo_breaker = NewCircuitBreaker Second (5 * Minute)"

definition demo_opened :: circuit_breaker where
  "demo_opened = demo_breaker\<lparr>cb_hosts := [(''a'', \<lparr>bs_openUntil = 10 + Second, bs_fails = 1, bs_status = 429\<rparr>)]\<rparr>"

definition demo_answer :: http_response where
  "demo_answer = \<lparr>rs_StatusCode = 429, rs_Header = no_header, rs_ContentLength = 0, rs_Body = [], rs_BodyErr = False\<rparr>"

lemma demo_run:
  "RoundTrip (\<lambda>_. None) demo_base id (demo_clock 10) ''a'' (demo_breaker, 0) = (Inr demo_answer, demo_opened, 1)"
  by (simp add: RoundTrip_def demo_breaker_def demo_base_def demo_clock_def NewCircuitBreaker_def isOpen_def
      trip_def trip_delay_def parseRetryAfter_def hdr_Get_def no_header_def jitter_def Second_def Minute_def
      wrap64_def time_add_def zero_time_def demo_opened_def demo_answer_def)


theorem breaker_views_agree_witness:
  "OpenHosts demo_opened 11 = [''a''] \<and> isOpen demo_opened 11 ''a'' \<and> Throttle demo_opened 11 ''a'' \<noteq> None"
proof -
  have "RoundTrips (\<lambda>_. None) demo_base id [(demo_clock 10, ''a'')] (NewCircuitBreaker Second (5 * Minute), 0) =
      ([(''a'', Inr demo_answer)], demo_opened, 1)"
    using demo_run by (simp add: demo_breaker_def)
  from breaker_views_agree [OF this, of 11 "''a''"]
  show ?thesis by (simp add: OpenHosts_def demo_opened_def Second_def isOpen_def)
qed

section \<open>Recovery\<close>

text \<open>The breaker closes on the first success after the cooldown: an answer other than 429 and
  503 leaves the host closed at every time and its streak at zero, so that its next throttle
  starts again from the base delay; a transport failure changes nothing.\<close>

theorem success_closes_circuit:
  assumes "RoundTrip pt base uh k req (c, w) = (r, c', w')" "\<not> isOpen c (ck_open k) (uh req)"
  shows "(case r of
      Inl _ \<Rightarrow> c' = c
    | Inr resp \<Rightarrow> rs_StatusCode resp \<noteq> 429 \<and> rs_StatusCode resp \<noteq> 503 \<longrightarrow>
        (\<forall>now\<ge>zero_time. \<not> isOpen c' now (uh req)) \<and>
        asked_delay pt c' (uh req) [] t = Some (cb_baseDelay c) \<and>
        (\<forall>h. h \<noteq> uh req \<longrightarrow> map_of (cb_hosts c') h = map_of (cb_hosts c) h))"
  using assms(1)
proof (cases rule: RoundTrip_cases)
  case (answered resp)
  then show ?thesis
    by (auto simp: isOpen_def map_of_reset asked_delay_def host_state_def split: option.split)
qed (use assms(2) in \<open>auto simp: throttle_status_def\<close>)

theorem success_closes_circuit_witness:
  "\<not> isOpen (fst (snd (RoundTrip (\<lambda>_. None) (\<lambda>q w. (Inr (demo_answer\<lparr>rs_StatusCode := 200\<rparr>), w) :: (unit + http_response) \<times> unit)
       id (demo_clock (10 + Second)) ''a'' (demo_opened, ())))) (10 + Second) ''a''"
proof -
  let ?base = "\<lambda>q w. (Inr (demo_answer\<lparr>rs_StatusCode := 200\<rparr>), w) :: (unit + http_response) \<times> unit"
  have run: "RoundTrip (\<lambda>_. None) ?base id (demo_clock (10 + Second)) ''a'' (demo_opened, ()) =
      (Inr (demo_answer\<lparr>rs_StatusCode := 200\<rparr>), reset demo_opened ''a'', ())"
    by (simp add: RoundTrip_def isOpen_def demo_opened_def demo_clock_def Let_def demo_answer_def)
  have "\<not> isOpen demo_opened (ck_open (demo_clock (10 + Second))) (id ''a'')"
    by (simp add: isOpen_def demo_opened_def demo_clock_def)
  from success_closes_circuit [OF run this] have "\<forall>now\<ge>zero_time. \<not> isOpen (reset demo_opened ''a'') now ''a''"
    by simp
  then show ?thesis unfolding run by (simp add: zero_time_def Second_def)
qed

section \<open>The Retry-After header\<close>

lemma trim_space_digits: "list_all is_digit s \<Longrightarrow> trim_space s = s"
proof -
  have stop: "list_all is_digit s \<Longrightarrow> strip_one ps s = None"
    if "\<forall>p\<in>set ps. p \<noteq> [] \<and> \<not> is_digit (hd p)" for ps s
    using that by (cases s) (auto simp: strip_one_None neq_Nil_conv)
  have a: "\<forall>p\<in>set go_spaces. p \<noteq> [] \<and> \<not> is_digit (hd p)" by code_simp
  have b: "\<forall>p\<in>set (map rev go_spaces). p \<noteq> [] \<and> \<not> is_digit (hd p)" by code_simp
  assume d: "list_all is_digit s"
  then have "trim_left_of go_spaces s = s" by (intro trim_left_of_stop stop [OF a])
  moreover have "trim_right_of go_spaces s = s"
    using d by (simp add: trim_right_of_def trim_left_of_stop [OF stop [OF b]])
  ultimately show ?thesis by (simp add: trim_space_def)
qed

text \<open>A \<open>Retry-After\<close> the proxy writes is read back by another proxy's breaker as the same wait
  rounded up to a whole second: for any wait that leaves room for the rounding, the header
  \<open>SetRetryAfter\<close> sets parses to a duration at least the wait and less than a second more.\<close>

theorem RetryAfter_round_trip:
  assumes "0 < d" "d + Second - 1 \<le> max_int64"
  shows "\<exists>d'. parseRetryAfter pt (hdr_Get (SetRetryAfter h d) ''Retry-After'') now = Some d'
    \<and> d \<le> d' \<and> d' < d + Second"
proof -
  define secs where "secs = (d + Second - 1) div Second"
  have S: "0 < Second" by (simp add: Second_def)
  have e: "(d + Second - 1) = secs * Second + (d + Second - 1) mod Second"
    by (simp add: secs_def)
  have m: "0 \<le> (d + Second - 1) mod Second" "(d + Second - 1) mod Second < Second"
    using S by simp_all
  have b: "d \<le> secs * Second" "secs * Second < d + Second" using e m by linarith+
  have pos: "0 \<le> secs" using assms(1) S by (simp add: secs_def pos_imp_zdiv_nonneg_iff)
  have "secs \<le> secs * Second" using pos by (simp add: Second_def)
  then have "secs \<le> max_int64" using b(2) assms(2) by linarith
  then have at: "Atoi (FormatInt secs) = Some secs" using pos by (intro Atoi_FormatInt)
  have f: "list_all is_digit (FormatInt secs)" "FormatInt secs \<noteq> []"
    using pos nat_string_digits by (simp_all add: FormatInt_def)
  have g: "go_div (wrap64 (d + Second - 1)) Second = secs"
    using assms S by (simp add: wrap64_id min_int64_def go_div_nonneg secs_def)
  have w: "wrap64 (secs * Second) = secs * Second"
    using b assms pos S by (intro wrap64_id) (simp_all add: min_int64_def)
  show ?thesis
    using assms(1) b pos f by (simp add: SetRetryAfter_def g parseRetryAfter_def trim_space_digits at w)
qed

theorem RetryAfter_round_trip_witness:
  "\<exists>d'. parseRetryAfter (\<lambda>_. None) (hdr_Get (SetRetryAfter no_header 1500000000) ''Retry-After'') 0 = Some d'
    \<and> 1500000000 \<le> d' \<and> d' < 1500000000 + Second"
  by (rule RetryAfter_round_trip) (simp_all add: Second_def max_int64_def)

text \<open>A \<open>Retry-After\<close> above 9223372036 seconds overflows the duration: the product wraps to a
  negative delay, and the 429 that carried it does not open the circuit at all, although the
  header asks for the longest wait.\<close>

theorem huge_RetryAfter_does_not_open:
  assumes "0 < cb_baseDelay c" "cb_baseDelay c \<le> Hour" "0 < cb_maxDelay c"
    and "\<not> isOpen c (ck_open k) host" "uh req = host" "ck_open k \<le> ck_until k" "zero_time \<le> ck_until k"
    and "base req w = (Inr resp, w1)" "rs_StatusCode resp = 429"
    and "trim_space (hdr_Get (rs_Header resp) ''Retry-After'') \<noteq> []"
    and "Atoi (trim_space (hdr_Get (rs_Header resp) ''Retry-After'')) = Some secs"
    and "9223372037 \<le> secs" "secs \<le> 18446740000"
    and "RoundTrip pt base uh k req (c, w) = (r, c1, w2)"
  shows "\<forall>now\<ge>ck_until k. \<not> isOpen c1 now host"
proof -
  let ?f = "host_state c host"
  let ?ra = "hdr_Get (rs_Header resp) ''Retry-After''"
  have c1: "c1 = trip pt c host 429 ?ra (ck_parse k) (ck_rnd k) (ck_until k)"
    using assms(4,5,8,9,14) by (auto simp: RoundTrip_def)
  have "(secs * Second + 2 ^ 63) mod 2 ^ 64 = secs * Second + 2 ^ 63 - 2 ^ 64"
    using assms(12,13) mod_pos_pos_trivial [of "secs * Second + 2 ^ 63 - 2 ^ 64" "2 ^ 64"]
      minus_mod_self2 [of "secs * Second + 2 ^ 63" "2 ^ 64"]
    by (simp add: Second_def)
  then have "wrap64 (secs * Second) = secs * Second - 2 ^ 64" by (simp add: wrap64_def)
  then have d: "trip_delay pt c (bs_fails ?f + 1) ?ra (ck_parse k) (ck_rnd k) = wrap64 (secs * Second - 2 ^ 64 + jitter c (ck_rnd k))"
    using assms(10-12) by (simp add: trip_delay_def parseRetryAfter_def)
  have "trip_delay pt c (bs_fails ?f + 1) ?ra (ck_parse k) (ck_rnd k) < 0"
    unfolding d using jitter_bounds [of c "ck_rnd k"] assms(1,2,12,13)
    by (subst wrap64_id) (simp_all add: Second_def Hour_def min_int64_def max_int64_def)
  moreover have "bs_openUntil ?f \<le> ck_until k"
    using assms(4,6,7) by (auto simp: isOpen_def host_state_def split: option.splits)
  ultimately show ?thesis by (auto simp: c1 isOpen_def map_of_trip Let_def)
qed

theorem huge_RetryAfter_does_not_open_witness:
  "\<not> isOpen (fst (snd (RoundTrip (\<lambda>_. None)
       (\<lambda>q w. (Inr (demo_answer\<lparr>rs_Header := hdr_Set no_header ''Retry-After'' ''9999999999''\<rparr>), w) :: (unit + http_response) \<times> unit)
       id (demo_clock 10) ''a'' (demo_breaker, ())))) 11 ''a''"
proof -
  let ?resp = "demo_answer\<lparr>rs_Header := hdr_Set no_header ''Retry-After'' ''9999999999''\<rparr>"
  let ?base = "\<lambda>q w. (Inr ?resp, w) :: (unit + http_response) \<times> unit"
  obtain r c1 w2 where run: "RoundTrip (\<lambda>_. None) ?base id (demo_clock 10) ''a'' (demo_breaker, ()) = (r, c1, w2)"
    by (metis prod_cases3)
  have "list_all is_digit ''9999999999''" by code_simp
  then have v: "trim_space ''9999999999'' = ''9999999999''" by (rule trim_space_digits)
  have v2: "Atoi ''9999999999'' = Some 9999999999" by code_simp
  have "\<forall>now\<ge>ck_until (demo_clock 10). \<not> isOpen c1 now ''a''"
    by (rule huge_RetryAfter_does_not_open [where secs = 9999999999 and resp = ?resp, OF _ _ _ _ _ _ _ _ _ _ _ _ _ run])
       (simp_all add: demo_breaker_def NewCircuitBreaker_def isOpen_def demo_clock_def demo_answer_def
         zero_time_def Second_def Minute_def Hour_def v v2)
  then show ?thesis unfolding run by (simp add: demo_clock_def)
qed

end
