(* ===== verification/Upstream_Attempts.thy ===== *)
theory Upstream_Attempts
  imports Circuit_Breaker
begin

text \<open>
  The outcomes of one fetch over several mirrors, \<^verbatim>\<open>internal/upstream/attempts.go\<close>, and the
  error values the proxy passes around: sentinel errors, errors wrapped with text, and the
  list of attempts, which is itself an error. \<open>errors.Is\<close> and \<open>errors.As\<close> walk that tree.
  \<open>url.Parse\<close> and \<open>URL.String\<close> are arguments.
\<close>

section \<open>Errors\<close>

datatype sentinel =
    ErrCircuitOpen | ErrArtifactTooLarge | ErrNoUpstreams | ErrUnreadableRequestBody | ErrNoServableVersions
  | ErrManifestNotFound | ErrAttestationBlobRejected

datatype go_error =
    Plain string
  | Sentinel sentinel
  | Wrapped string go_error string
  | Joined string go_error string go_error
  | AttemptsError "attempt list"
and attempt = Attempt (at_URL: string) (at_Status: int) (at_Err: "go_error option") (at_Duration: duration)

type_synonym attempts = "attempt list"

primrec sentinel_text :: "sentinel \<Rightarrow> string" where
  "sentinel_text ErrCircuitOpen = ''upstream throttled: circuit open''"
| "sentinel_text ErrArtifactTooLarge = ''artifact exceeds the size cap''"
| "sentinel_text ErrNoUpstreams = ''no upstream configured''"
| "sentinel_text ErrUnreadableRequestBody = ''unreadable request body''"
| "sentinel_text ErrNoServableVersions = ''no version left with a rewritable download link''"
| "sentinel_text ErrManifestNotFound = ''manifest not found on any upstream''"
| "sentinel_text ErrAttestationBlobRejected = ''attestation blob rejected''"

text \<open>\<open>errors.Is\<close>: the error itself, what it wraps, and each attempt's error.\<close>

fun errors_Is :: "go_error \<Rightarrow> sentinel \<Rightarrow> bool" where
  "errors_Is (Plain _) t = False"
| "errors_Is (Sentinel s) t = (s = t)"
| "errors_Is (Wrapped _ e _) t = errors_Is e t"
| "errors_Is (Joined _ d _ e) t = (errors_Is d t \<or> errors_Is e t)"
| "errors_Is (AttemptsError a) t =
     list_ex (\<lambda>at. case at of Attempt _ _ (Some e) _ \<Rightarrow> errors_Is e t | _ \<Rightarrow> False) a"

lemma errors_Is_attempts:
  "errors_Is (AttemptsError a) t \<longleftrightarrow> (\<exists>x\<in>set a. \<exists>e. at_Err x = Some e \<and> errors_Is e t)"
proof -
  have "(case x of Attempt _ _ (Some e) _ \<Rightarrow> errors_Is e t | _ \<Rightarrow> False) \<longleftrightarrow> (\<exists>e. at_Err x = Some e \<and> errors_Is e t)" for x
    by (cases x) (auto split: option.split)
  then show ?thesis by (simp add: list_ex_iff)
qed

fun AttemptsFrom :: "go_error \<Rightarrow> attempts option" where
  "AttemptsFrom (AttemptsError a) = Some a"
| "AttemptsFrom (Wrapped _ e _) = AttemptsFrom e"
| "AttemptsFrom (Joined _ d _ e) = (case AttemptsFrom d of Some a \<Rightarrow> Some a | None \<Rightarrow> AttemptsFrom e)"
| "AttemptsFrom _ = None"

text \<open>The rendered text, \<open>Attempts.Error\<close> included.\<close>

fun join_with :: "string \<Rightarrow> string list \<Rightarrow> string" where
  "join_with sep [] = []"
| "join_with sep [s] = s"
| "join_with sep (s # t # ss) = s @ sep @ join_with sep (t # ss)"

fun Error :: "go_error \<Rightarrow> string" where
  "Error (Plain s) = s"
| "Error (Sentinel s) = sentinel_text s"
| "Error (Wrapped before e after) = before @ Error e @ after"
| "Error (Joined before d between e) = before @ Error d @ between @ Error e"
| "Error (AttemptsError a) =
     (if a = [] then ''no upstream attempts were made''
      else ''all '' @ FormatInt (int (length a)) @ '' upstreams failed: '' @
        join_with ''; '' (map (\<lambda>at. case at of
          Attempt u _ None _ \<Rightarrow> u @ '': unknown error''
        | Attempt u _ (Some e) _ \<Rightarrow> u @ '': '' @ Error e) a))"

definition Unwrap :: "attempts \<Rightarrow> go_error list" where
  "Unwrap a = List.map_filter at_Err a"

section \<open>Recording attempts\<close>

record url =
  u_User :: "string option"
  u_Host :: string
  u_Rest :: string

type_synonym url_parser = "string \<Rightarrow> url option"

definition SanitizeURL :: "url_parser \<Rightarrow> (url \<Rightarrow> string) \<Rightarrow> string \<Rightarrow> string" where
  "SanitizeURL url_Parse url_String raw =
     (case url_Parse raw of
        None \<Rightarrow> raw
      | Some u \<Rightarrow> if u_User u = None then raw else url_String (u\<lparr>u_User := None\<rparr>))"

definition Attempts_Add ::
  "url_parser \<Rightarrow> (url \<Rightarrow> string) \<Rightarrow> attempts \<Rightarrow> string \<Rightarrow> int \<Rightarrow> go_error option \<Rightarrow> duration \<Rightarrow> attempts" where
  "Attempts_Add url_Parse url_String a rawURL status err d =
     a @ [Attempt (SanitizeURL url_Parse url_String rawURL) status err d]"

section \<open>What a failed fetch means\<close>

definition AllNotFound :: "attempts \<Rightarrow> bool" where
  "AllNotFound a \<longleftrightarrow>
     a \<noteq> [] \<and> list_all (\<lambda>at. at_Status at = StatusNotFound \<or> at_Status at = StatusGone) a"

type_synonym throttle_lookup = "string \<Rightarrow> (int \<times> duration) option"

definition circuit_open_err :: "go_error option \<Rightarrow> bool" where
  "circuit_open_err err \<longleftrightarrow> (case err of None \<Rightarrow> False | Some e \<Rightarrow> errors_Is e ErrCircuitOpen)"

text \<open>
  The loop of \<open>Throttled\<close>: the accumulators are the results \<open>status\<close>, \<open>retryAfter\<close> and
  \<open>ok\<close>. A nil lookup is \<open>None\<close>.
\<close>

fun Throttled_loop ::
  "url_parser \<Rightarrow> throttle_lookup option \<Rightarrow> attempts \<Rightarrow> int \<Rightarrow> duration \<Rightarrow> bool \<Rightarrow> (int \<times> duration) option" where
  "Throttled_loop up t [] status retryAfter ok = (if ok then Some (status, retryAfter) else None)"
| "Throttled_loop up t (at # rest) status retryAfter ok =
     (let s = at_Status at in
      if s = StatusNotFound \<or> s = StatusGone then Throttled_loop up t rest status retryAfter ok
      else
        let known_s = (if s = StatusTooManyRequests \<or> s = StatusServiceUnavailable then Some s
                       else if s = 0 \<and> circuit_open_err (at_Err at) then Some StatusTooManyRequests
                       else None)
        in case known_s of
          None \<Rightarrow> None
        | Some s \<Rightarrow>
            (let report = (case t of None \<Rightarrow> None
                           | Some throttle \<Rightarrow>
                               (case up (at_URL at) of None \<Rightarrow> None | Some u \<Rightarrow> throttle (u_Host u)));
                 s = (case report of Some (ts, _) \<Rightarrow> if at_Status at = 0 then ts else s | None \<Rightarrow> s);
                 retryAfter = (case report of
                     Some (_, left) \<Rightarrow> if 0 < left \<and> (retryAfter = 0 \<or> left < retryAfter) then left else retryAfter
                   | None \<Rightarrow> retryAfter);
                 status = (if status \<noteq> StatusTooManyRequests then s else status)
             in Throttled_loop up t rest status retryAfter True))"

definition Throttled :: "url_parser \<Rightarrow> throttle_lookup option \<Rightarrow> attempts \<Rightarrow> (int \<times> duration) option" where
  "Throttled up t a = Throttled_loop up t a 0 0 False"

section \<open>Throttled fetches\<close>

definition not_found :: "attempt \<Rightarrow> bool" where
  "not_found at \<longleftrightarrow> at_Status at = StatusNotFound \<or> at_Status at = StatusGone"

definition throttled_at :: "attempt \<Rightarrow> bool" where
  "throttled_at at \<longleftrightarrow> at_Status at = StatusTooManyRequests \<or> at_Status at = StatusServiceUnavailable
     \<or> at_Status at = 0 \<and> circuit_open_err (at_Err at)"

definition cooldown_report :: "url_parser \<Rightarrow> throttle_lookup option \<Rightarrow> attempt \<Rightarrow> (int \<times> duration) option" where
  "cooldown_report up t at =
     (case t of None \<Rightarrow> None
      | Some throttle \<Rightarrow> (case up (at_URL at) of None \<Rightarrow> None | Some u \<Rightarrow> throttle (u_Host u)))"

text \<open>The status a throttled attempt counts as: its own, or for a refused request the one that
  opened the circuit, 429 when that is not known.\<close>

definition counted_status :: "url_parser \<Rightarrow> throttle_lookup option \<Rightarrow> attempt \<Rightarrow> int" where
  "counted_status up t at =
     (if at_Status at \<noteq> 0 then at_Status at
      else case cooldown_report up t at of Some (s, _) \<Rightarrow> s | None \<Rightarrow> StatusTooManyRequests)"

definition cooldowns :: "url_parser \<Rightarrow> throttle_lookup option \<Rightarrow> attempts \<Rightarrow> duration set" where
  "cooldowns up t a = {left. \<exists>at s. at \<in> set a \<and> throttled_at at \<and> cooldown_report up t at = Some (s, left)}"

definition shortest_of :: "duration set \<Rightarrow> duration \<Rightarrow> bool" where
  "shortest_of L r \<longleftrightarrow> (if L = {} then r = 0 else r \<in> L \<and> (\<forall>l\<in>L. r \<le> l))"

lemma Throttled_loop_Cons:
  "Throttled_loop up t (at # rest) status retry ok =
     (if not_found at then Throttled_loop up t rest status retry ok
      else if \<not> throttled_at at then None
      else Throttled_loop up t rest
        (if status \<noteq> 429 then counted_status up t at else status)
        (case cooldown_report up t at of
           Some (_, left) \<Rightarrow> if 0 < left \<and> (retry = 0 \<or> left < retry) then left else retry
         | None \<Rightarrow> retry) True)"
  by (auto simp: Let_def not_found_def throttled_at_def counted_status_def cooldown_report_def
      split: option.split prod.split)

lemma Throttled_loop_defined:
  "Throttled_loop up t a status retry ok \<noteq> None \<longleftrightarrow>
     (\<forall>at\<in>set a. not_found at \<or> throttled_at at) \<and> (ok \<or> (\<exists>at\<in>set a. throttled_at at))"
proof (induction a arbitrary: status retry ok)
  case (Cons at a)
  have "not_found at \<Longrightarrow> \<not> throttled_at at" by (auto simp: not_found_def throttled_at_def)
  then show ?case unfolding Throttled_loop_Cons using Cons.IH by auto
qed simp

text \<open>The contract of a throttle lookup, and what \<open>Throttled\<close> makes of it.\<close>

locale throttle_source =
  fixes throttle :: "'b \<Rightarrow> gotime \<Rightarrow> string \<Rightarrow> (int \<times> duration) option"
    and inv :: "'b \<Rightarrow> bool"
  assumes report: "inv b \<Longrightarrow> throttle b now h = Some (s, left) \<Longrightarrow> (s = 429 \<or> s = 503) \<and> 0 < left"
begin

lemma counted_status_cases:
  assumes "inv b" "throttled_at at"
  shows "counted_status up (Some (throttle b now)) at = 429 \<or> counted_status up (Some (throttle b now)) at = 503"
  using assms(2) report [OF assms(1)]
  by (auto simp: throttled_at_def counted_status_def cooldown_report_def split: option.splits)

lemma Throttled_loop_result:
  assumes "inv b" "Throttled_loop up (Some (throttle b now)) a status retry ok = Some (s, r)"
    and "status = (if ok then status else 0)" "ok \<Longrightarrow> status = 429 \<or> status = 503"
    and "shortest_of L retry" "\<forall>l\<in>L. 0 < l"
  shows "(s = 429 \<or> s = 503)
    \<and> (s = 429 \<longleftrightarrow> status = 429 \<or> (\<exists>at\<in>set a. throttled_at at \<and> counted_status up (Some (throttle b now)) at = 429))
    \<and> shortest_of (L \<union> cooldowns up (Some (throttle b now)) a) r"
  using assms(2-6)
proof (induction a arbitrary: status retry ok L)
  case Nil
  then show ?case by (auto simp: cooldowns_def split: if_splits)
next
  case (Cons at a)
  let ?t = "Some (throttle b now)"
  have disj: "not_found at \<Longrightarrow> \<not> throttled_at at" by (auto simp: not_found_def throttled_at_def)
  show ?case
  proof (cases "not_found at")
    case True
    with disj have "cooldowns up ?t (at # a) = cooldowns up ?t a" by (auto simp: cooldowns_def)
    with True disj Cons.IH [of status retry ok L] Cons.prems show ?thesis
      by (simp only: Throttled_loop_Cons if_True) auto
  next
    case False
    with Cons.prems(1) have th: "throttled_at at" by (simp only: Throttled_loop_Cons split: if_splits) simp
    let ?L = "case cooldown_report up ?t at of Some (_, left) \<Rightarrow> insert left L | None \<Rightarrow> L"
    let ?r = "case cooldown_report up ?t at of
           Some (_, left) \<Rightarrow> if 0 < left \<and> (retry = 0 \<or> left < retry) then left else retry
         | None \<Rightarrow> retry"
    let ?s = "if status \<noteq> 429 then counted_status up ?t at else status"
    have step: "Throttled_loop up ?t a ?s ?r True = Some (s, r)"
      using Cons.prems(1) False th unfolding Throttled_loop_Cons by simp
    have pos: "\<And>s left. cooldown_report up ?t at = Some (s, left) \<Longrightarrow> 0 < left"
      using report [OF assms(1)] by (auto simp: cooldown_report_def split: option.splits)
    have short: "shortest_of ?L ?r"
      using Cons.prems(4,5) pos by (fastforce simp: shortest_of_def split: option.split if_splits)
    have Lpos: "\<forall>l\<in>?L. 0 < l" using Cons.prems(5) pos by (auto split: option.split)
    have un: "?L \<union> cooldowns up ?t a = L \<union> cooldowns up ?t (at # a)"
      using th by (auto simp: cooldowns_def split: option.split)
    have cs: "?s = 429 \<or> ?s = 503" using counted_status_cases [OF assms(1) th] by auto
    from Cons.IH [OF step _ _ short Lpos] cs th
    show ?thesis unfolding un by auto
  qed
qed

end

interpretation breaker: throttle_source Throttle breaker_inv
  by unfold_locales (auto simp: breaker_inv_def throttle_status_def dest!: Throttle_report)

text \<open>\<open>Throttled\<close> against the circuit breaker is exact: a failed fetch counts as throttled when
  every mirror said not-found or was throttled and at least one was throttled; the status
  is then 429 if any throttled mirror counts as 429 and 503 otherwise, and the wait is the
  shortest cooldown the breaker reports among the throttled hosts, or 0 when it reports none.\<close>

theorem Throttled_exact:
  assumes "breaker_inv c"
  shows "(Throttled up (Some (Throttle c now)) a \<noteq> None \<longleftrightarrow>
      (\<forall>at\<in>set a. not_found at \<or> throttled_at at) \<and> (\<exists>at\<in>set a. throttled_at at))
    \<and> (\<forall>s r. Throttled up (Some (Throttle c now)) a = Some (s, r) \<longrightarrow>
      s = (if \<exists>at\<in>set a. throttled_at at \<and> counted_status up (Some (Throttle c now)) at = 429 then 429 else 503)
      \<and> shortest_of (cooldowns up (Some (Throttle c now)) a) r)"
proof (intro conjI allI impI)
  show "Throttled up (Some (Throttle c now)) a \<noteq> None \<longleftrightarrow>
      (\<forall>at\<in>set a. not_found at \<or> throttled_at at) \<and> (\<exists>at\<in>set a. throttled_at at)"
    unfolding Throttled_def Throttled_loop_defined by simp
next
  fix s r assume "Throttled up (Some (Throttle c now)) a = Some (s, r)"
  then have l: "Throttled_loop up (Some (Throttle c now)) a 0 0 False = Some (s, r)" by (simp add: Throttled_def)
  have "shortest_of {} 0" by (simp add: shortest_of_def)
  from breaker.Throttled_loop_result [OF assms l _ _ this]
  show "s = (if \<exists>at\<in>set a. throttled_at at \<and> counted_status up (Some (Throttle c now)) at = 429 then 429 else 503)"
    and "shortest_of (cooldowns up (Some (Throttle c now)) a) r"
    by auto
qed

definition demo_parse :: url_parser where
  "demo_parse s = Some \<lparr>u_User = None, u_Host = s, u_Rest = []\<rparr>"

theorem Throttled_exact_witness:
  "Throttled demo_parse (Some (Throttle demo_opened 11))
     [Attempt ''b'' 404 None 0, Attempt ''a'' 0 (Some (Wrapped ''a: '' (Sentinel ErrCircuitOpen) [])) 0] \<noteq> None"
proof -
  have i: "breaker_inv demo_opened"
    by (simp add: breaker_inv_def demo_opened_def hosts_wf_def throttle_status_def)
  show ?thesis
    by (rule Throttled_exact [OF i, THEN conjunct1, THEN iffD2])
       (simp add: not_found_def throttled_at_def circuit_open_err_def)
qed

text \<open>A fetch that found the artifact absent everywhere is never also reported as throttled, and
  one that saw anything but not-found and throttles is neither: the three answers 404,
  429 or 503, and 502 are mutually exclusive.\<close>

theorem fetch_outcomes_exclusive:
  "\<not> (AllNotFound a \<and> Throttled up t a \<noteq> None)
   \<and> (AllNotFound a \<or> Throttled up t a \<noteq> None \<longleftrightarrow>
        a \<noteq> [] \<and> list_all (\<lambda>at. not_found at \<or> throttled_at at) a)"
proof -
  have "not_found at \<Longrightarrow> \<not> throttled_at at" for at by (auto simp: not_found_def throttled_at_def)
  then show ?thesis
    unfolding Throttled_def Throttled_loop_defined AllNotFound_def not_found_def [symmetric] list_all_iff
    by (cases "a = []") auto
qed

end
