(* ===== verification/Http_Reply.thy ===== *)
theory Http_Reply
  imports Go_HTTP Complex_Main
begin

text \<open>The response a handler writes, as a value: status, header and body.\<close>

section \<open>Bodies and replies\<close>

text \<open>A JSON body is kept as a value; a time stands for its RFC 3339 rendering.\<close>

datatype json =
    JString string
  | JTime gotime
  | JNumber rat
  | JBool bool
  | JNull
  | JArray "json list"
  | JObject "(string \<times> json) list"

datatype reply_body = Bytes string | Text string | Json json | NoBody

record reply =
  rp_Status :: int
  rp_Header :: header
  rp_Body :: reply_body

text \<open>\<open>http.Error\<close>: plain text with the given status.\<close>

definition http_Error :: "header \<Rightarrow> string \<Rightarrow> int \<Rightarrow> reply" where
  "http_Error h msg status =
     \<lparr>rp_Status = status, rp_Header = hdr_Set h ''Content-Type'' ''text/plain; charset=utf-8'', rp_Body = Text msg\<rparr>"

end
