(* ===== verification/Proxy_Upstream.thy ===== *)
theory Proxy_Upstream
  imports Upstream_Attempts Artifact_Cache Http_Reply
begin

text \<open>
  The data the proxy handler works on and its traffic with the upstream mirrors
  (\<^verbatim>\<open>internal/proxy/handler.go\<close>: \<open>HandlerConfig\<close>, \<open>tryDownload\<close>,
  \<open>downloadFromUpstreams\<close>, \<open>forwardUpstream\<close>, \<open>writeForwardError\<close>, \<open>copyProxyHeaders\<close>,
  \<open>proxyTransparent\<close>). The ports of package \<^verbatim>\<open>gate\<close> are fields of the configuration; the
  network, the temporary files and the clock are a record of services whose answers are
  arbitrary. The response a handler writes is a value: status, header and body.
\<close>

section \<open>Requests and replies\<close>

record http_request =
  rq_Method :: string
  rq_Path :: string
  rq_URI :: string
  rq_Header :: header
  rq_Body :: "string option"
  rq_BodyErr :: bool
  rq_RoutePrefix :: string

section \<open>Ports\<close>

record metadata_ref =
  mr_Ecosystem :: string
  mr_Name :: string
  mr_Version :: string

record filtered_document =
  fd_Body :: string
  fd_Removed :: "string list"
  fd_Unmappable :: "string list"
  fd_AllRejected :: bool

record index_rewrite =
  ir_Body :: string
  ir_Rewritten :: nat
  ir_Dropped :: "string list"

type_synonym version_decider = "string \<Rightarrow> gotime \<Rightarrow> bool"

text \<open>An optional capability of the adapter is \<open>None\<close> when the adapter does not have it.\<close>

record metadata_filterer =
  mf_NormalizeMetadataRequest :: "http_request \<Rightarrow> metadata_ref option"
  mf_FilterVersions :: "string \<Rightarrow> metadata_ref \<Rightarrow> version_decider \<Rightarrow> string \<Rightarrow> go_error + filtered_document"

record index_rewriter =
  iw_IsIndexRequest :: "http_request \<Rightarrow> bool"
  iw_RewriteIndex :: "string \<Rightarrow> string \<Rightarrow> string \<Rightarrow> go_error + index_rewrite"

record adapter =
  ad_NormalizeRequest :: "http_request \<Rightarrow> package_ref option"
  ad_FetchMetadata :: "package_ref \<Rightarrow> go_error + package_metadata"
  ad_UpstreamURLs :: "http_request \<Rightarrow> string list"
  ad_MetadataFromHeader :: "(header \<Rightarrow> package_metadata) option"
  ad_IsArtifactPath :: "(http_request \<Rightarrow> bool) option"
  ad_IndexRewriter :: "index_rewriter option"
  ad_MetadataFilterer :: "metadata_filterer option"

text \<open>
  The scanner of files sees the path and what is stored there. The clock is an argument of
  the filter, which reads it.
\<close>

record 'c handler_config =
  hc_Adapter :: adapter
  hc_Filter :: "gotime \<Rightarrow> package_ref \<Rightarrow> package_metadata \<Rightarrow> filter_result"
  hc_Cache :: "'c cache_ops"
  hc_CVEScanner :: "(package_ref \<Rightarrow> go_error + scan_result) option"
  hc_Policy :: "(package_ref \<Rightarrow> scan_result \<Rightarrow> policy_decision) option"
  hc_AVScanner :: "(string \<Rightarrow> string option \<Rightarrow> go_error + av_result) option"
  hc_Recorder :: bool
  hc_CVERecheckTTL :: duration
  hc_MalwareRecheckTTL :: duration
  hc_MetadataFilterMaxMB :: int64
  hc_PublicBase :: "http_request \<Rightarrow> go_error + string"
  hc_IndexMaxMB :: int64
  hc_MaxArtifactBytes :: int64
  hc_Throttles :: "throttle_lookup option"

text \<open>
  What a request meets outside the process: whether a URL makes a request, what an upstream
  answers, temporary files, and elapsed times.
\<close>

record services =
  sv_NewRequest :: "string \<Rightarrow> go_error option"
  sv_Do :: "string \<Rightarrow> string \<Rightarrow> header \<Rightarrow> string \<Rightarrow> go_error + http_response"
  sv_CreateTemp :: "string \<Rightarrow> go_error + string"
  sv_WriteErr :: "string \<Rightarrow> go_error option"
  sv_Since :: "string \<Rightarrow> duration"
  sv_url_Parse :: url_parser
  sv_url_String :: "url \<Rightarrow> string"

definition atts_Add :: "services \<Rightarrow> attempts \<Rightarrow> string \<Rightarrow> int \<Rightarrow> go_error \<Rightarrow> attempts" where
  "atts_Add sv a u status err = Attempts_Add (sv_url_Parse sv) (sv_url_String sv) a u status (Some err) (sv_Since sv u)"

section \<open>Downloading an artifact\<close>

text \<open>
  One mirror: the temporary path, the response header, the status and the error, and the
  files afterwards. With a size cap at most one byte more than the cap is read, so a broken
  connection behind that byte is not seen.
\<close>

definition tryDownload ::
  "'c handler_config \<Rightarrow> services \<Rightarrow> 'c \<Rightarrow> string \<Rightarrow> (go_error + string) \<times> header \<times> int \<times> 'c" where
  "tryDownload cfg sv c u =
     (case sv_NewRequest sv u of
        Some err \<Rightarrow> (Inl err, no_header, 0, c)
      | None \<Rightarrow>
     (case sv_Do sv ''GET'' u no_header [] of
        Inl err \<Rightarrow> (Inl (Wrapped (''downloading '' @ SanitizeURL (sv_url_Parse sv) (sv_url_String sv) u @ '': '') err []),
                    no_header, 0, c)
      | Inr resp \<Rightarrow>
     (let hdr = rs_Header resp; status = rs_StatusCode resp; maxB = hc_MaxArtifactBytes cfg in
      if status \<noteq> StatusOK
      then (Inl (Plain (''upstream returned HTTP '' @ FormatInt status @ '' for '' @
                   SanitizeURL (sv_url_Parse sv) (sv_url_String sv) u)), hdr, status, c)
      else if 0 < maxB \<and> maxB < rs_ContentLength resp
      then (Inl (Wrapped [] (Sentinel ErrArtifactTooLarge) ('': '' @ FormatInt (rs_ContentLength resp) @ '' bytes'')),
            hdr, status, c)
      else case sv_CreateTemp sv u of
        Inl err \<Rightarrow> (Inl (Wrapped ''creating temp file: '' err []), hdr, status, c)
      | Inr tmp \<Rightarrow>
          (let limit = nat (wrap64 (maxB + 1));
               written = (if 0 < maxB then take limit (rs_Body resp) else rs_Body resp);
               readErr = (rs_BodyErr resp \<and> \<not> (0 < maxB \<and> limit \<le> length (rs_Body resp)));
               c1 = c_writeTemp (hc_Cache cfg) c tmp written
           in if readErr \<or> sv_WriteErr sv u \<noteq> None
              then (Inl (Wrapped ''writing temp file: ''
                       (case sv_WriteErr sv u of Some e \<Rightarrow> e | None \<Rightarrow> Plain ''unexpected EOF'') []),
                    hdr, status, c_remove (hc_Cache cfg) c1 tmp)
              else if 0 < maxB \<and> maxB < int (length written)
              then (Inl (Wrapped [] (Sentinel ErrArtifactTooLarge) ('': over '' @ FormatInt maxB @ '' bytes'')),
                    hdr, status, c_remove (hc_Cache cfg) c1 tmp)
              else (Inr tmp, hdr, status, c1)))))"

text \<open>The mirrors in order, up to the first that delivers or an artifact over the cap.\<close>

fun download_loop ::
  "'c handler_config \<Rightarrow> services \<Rightarrow> string list \<Rightarrow> attempts \<Rightarrow> 'c \<Rightarrow> (go_error + string \<times> header) \<times> attempts \<times> 'c" where
  "download_loop cfg sv [] atts c = (Inl (AttemptsError atts), atts, c)"
| "download_loop cfg sv (u # us) atts c =
     (case tryDownload cfg sv c u of
        (Inr path, hdr, status, c1) \<Rightarrow> (Inr (path, hdr), atts, c1)
      | (Inl err, hdr, status, c1) \<Rightarrow>
          if errors_Is err ErrArtifactTooLarge then (Inl err, atts, c1)
          else download_loop cfg sv us (atts_Add sv atts u status err) c1)"

definition downloadFromUpstreams ::
  "'c handler_config \<Rightarrow> services \<Rightarrow> string list \<Rightarrow> 'c \<Rightarrow> (go_error + string \<times> header) \<times> attempts \<times> 'c" where
  "downloadFromUpstreams cfg sv urls c = download_loop cfg sv urls [] c"

section \<open>Forwarding a request\<close>

definition hopByHopHeaders :: "string list" where
  "hopByHopHeaders = [''Connection'', ''Keep-Alive'', ''Proxy-Authenticate'', ''Proxy-Authorization'',
     ''TE'', ''Trailer'', ''Transfer-Encoding'', ''Upgrade'']"

definition copyProxyHeaders :: "header \<Rightarrow> header \<Rightarrow> header" where
  "copyProxyHeaders dst src = foldl hdr_Del (hdr_AddAll dst src) hopByHopHeaders"

fun forward_loop ::
  "services \<Rightarrow> http_request \<Rightarrow> string \<Rightarrow> string list \<Rightarrow> attempts \<Rightarrow> http_response option \<times> attempts" where
  "forward_loop sv r body [] atts = (None, atts)"
| "forward_loop sv r body (u # us) atts =
     (case sv_NewRequest sv u of
        Some err \<Rightarrow> forward_loop sv r body us (atts_Add sv atts u 0 (Wrapped ''building request: '' err []))
      | None \<Rightarrow>
     (case sv_Do sv (rq_Method r) u (copyProxyHeaders no_header (rq_Header r)) body of
        Inl err \<Rightarrow> forward_loop sv r body us (atts_Add sv atts u 0 err)
      | Inr resp \<Rightarrow>
          if rs_StatusCode resp < 400 then (Some resp, atts)
          else forward_loop sv r body us
            (atts_Add sv atts u (rs_StatusCode resp) (Plain (''upstream returned HTTP '' @ FormatInt (rs_StatusCode resp))))))"

definition forwardUpstream ::
  "'c handler_config \<Rightarrow> services \<Rightarrow> http_request \<Rightarrow> http_response option \<times> attempts \<times> go_error option" where
  "forwardUpstream cfg sv r =
     (let urls = ad_UpstreamURLs (hc_Adapter cfg) r in
      if urls = [] then (None, [], Some (Sentinel ErrNoUpstreams))
      else if rq_Body r \<noteq> None \<and> rq_BodyErr r then (None, [], Some (Sentinel ErrUnreadableRequestBody))
      else case forward_loop sv r (case rq_Body r of Some b \<Rightarrow> b | None \<Rightarrow> []) urls [] of
        (resp, atts) \<Rightarrow> (resp, atts, None))"

definition writeForwardError ::
  "'c handler_config \<Rightarrow> services \<Rightarrow> header \<Rightarrow> attempts \<Rightarrow> go_error option \<Rightarrow> reply" where
  "writeForwardError cfg sv w atts err =
     (let is = (\<lambda>t. case err of None \<Rightarrow> False | Some e \<Rightarrow> errors_Is e t) in
      if is ErrNoUpstreams then http_Error w ''no upstream configured'' StatusInternalServerError
      else if is ErrUnreadableRequestBody then http_Error w ''bad request'' StatusBadRequest
      else if AllNotFound atts then http_Error w ''not found'' StatusNotFound
      else case Throttled (sv_url_Parse sv) (hc_Throttles cfg) atts of
        Some (status, retry) \<Rightarrow> http_Error (SetRetryAfter w retry) ''upstream throttled'' status
      | None \<Rightarrow> http_Error w ''upstream unavailable'' StatusBadGateway)"

definition proxyTransparent :: "'c handler_config \<Rightarrow> services \<Rightarrow> header \<Rightarrow> http_request \<Rightarrow> reply" where
  "proxyTransparent cfg sv w r =
     (case forwardUpstream cfg sv r of
        (None, atts, err) \<Rightarrow> writeForwardError cfg sv w atts err
      | (Some resp, atts, err) \<Rightarrow>
          \<lparr>rp_Status = rs_StatusCode resp, rp_Header = copyProxyHeaders w (rs_Header resp),
           rp_Body = Bytes (rs_Body resp)\<rparr>)"

end
