(* ===== verification/Proxy_Handler.thy ===== *)
theory Proxy_Handler
  imports Proxy_Upstream
begin

text \<open>
  The download path of the proxy handler (\<^verbatim>\<open>internal/proxy/handler.go\<close>): the cache hit with
  its lazy re-checks, the gates of a miss in the order the code runs them, and the replies.
  Each phase of \<open>ServeHTTP\<close> that can end the request is a definition that returns either the
  finished outcome (the reply and the telemetry event) or what the next phase needs. The
  clock readings, the request ID, the outcome of a re-check flight another request already
  leads and what the eviction worker does between \<open>Put\<close> and the lookup after it are the
  record \<open>req_env\<close>.
\<close>

section \<open>One request's surroundings\<close>

record recheck_outcome =
  ro_gate :: gate_id
  ro_blockedBy :: string
  ro_decision :: policy_decision
  ro_av :: av_result

record 'c req_env =
  en_RequestID :: string
  en_services :: services
  en_getTime :: gotime
  en_dueTime :: gotime
  en_recheckTime :: gotime
  en_filterTime :: gotime
  en_putTime :: gotime
  en_reGetTime :: gotime
  en_eventTime :: gotime
  en_latencyMS :: int64
  en_flight :: "recheck_outcome option option"
  en_between :: "'c \<Rightarrow> 'c"

definition mkEvent ::
  "'c req_env \<Rightarrow> package_ref \<Rightarrow> verdict \<Rightarrow> gate_id \<Rightarrow> string \<Rightarrow> int \<Rightarrow> event" where
  "mkEvent en ref v g reason status =
     \<lparr>ev_RequestID = en_RequestID en, ev_Time = en_eventTime en, ev_Ecosystem = Ecosystem ref,
      ev_Package = Name ref, ev_Version = Version ref, ev_Verdict = v, ev_Gate = g,
      ev_LatencyMS = en_latencyMS en, ev_HTTPStatus = status, ev_Reason = reason, ev_BlockedBy = [],
      ev_CVEs = [], ev_MalwareEngine = [], ev_MalwareSignature = [], ev_PublishedAt = zero_time,
      ev_BlockUntil = zero_time\<rparr>"

section \<open>Replies\<close>

definition writeJSON :: "header \<Rightarrow> int \<Rightarrow> (string \<times> json) list \<Rightarrow> reply" where
  "writeJSON w status body =
     \<lparr>rp_Status = status, rp_Header = hdr_Set w ''Content-Type'' ''application/json'', rp_Body = Json (JObject body)\<rparr>"

definition writeError :: "header \<Rightarrow> string \<Rightarrow> package_ref \<Rightarrow> int \<Rightarrow> string \<Rightarrow> reply" where
  "writeError w requestID ref status reason =
     writeJSON w status
       [(''error'', JString ''proxy_error''), (''reason'', JString reason), (''request_id'', JString requestID),
        (''package'', JString (Name ref)), (''version'', JString (Version ref))]"

definition writeBlockedResponse :: "header \<Rightarrow> string \<Rightarrow> package_ref \<Rightarrow> filter_result \<Rightarrow> reply" where
  "writeBlockedResponse w requestID ref sc =
     writeJSON w StatusLocked
       ([(''error'', JString ''package_blocked''), (''package'', JString (Name ref)),
         (''version'', JString (Version ref)), (''reason'', JString (fr_Reason sc)),
         (''blocked_by'', JArray [JString ''supply_chain_filter'']), (''request_id'', JString requestID)]
        @ (if fr_PublishedAt sc \<noteq> zero_time then [(''published_at'', JTime (fr_PublishedAt sc))] else [])
        @ (if fr_BlockUntil sc \<noteq> zero_time then [(''block_until'', JTime (fr_BlockUntil sc))] else []))"

definition writeMalwareBlockedResponse ::
  "header \<Rightarrow> string \<Rightarrow> package_ref \<Rightarrow> string \<Rightarrow> string \<Rightarrow> reply" where
  "writeMalwareBlockedResponse w requestID ref engine signature =
     writeJSON w StatusForbidden
       [(''error'', JString ''package_blocked''), (''package'', JString (Name ref)),
        (''version'', JString (Version ref)), (''reason'', JString ''malware_found''),
        (''engine'', JString engine), (''signature'', JString signature),
        (''blocked_by'', JArray [JString ''malware_scanner'']), (''request_id'', JString requestID)]"

definition finding_json :: "cve_finding \<Rightarrow> json" where
  "finding_json f = JObject
     ([(''id'', JString (cf_ID f)), (''severity'', JString (severity_String (cf_Severity f))),
       (''summary'', JString (cf_Summary f))]
      @ (if cf_Score f \<noteq> 0 then [(''cvss_score'', JNumber (cf_Score f))] else []))"

definition writeCVEBlockedResponse :: "header \<Rightarrow> string \<Rightarrow> package_ref \<Rightarrow> policy_decision \<Rightarrow> reply" where
  "writeCVEBlockedResponse w requestID ref d =
     writeJSON w StatusForbidden
       [(''error'', JString ''package_blocked''), (''package'', JString (Name ref)),
        (''version'', JString (Version ref)), (''reason'', JString (pd_Reason d)),
        (''cves'', JArray (map finding_json (pd_Findings d))),
        (''blocked_by'', JArray [JString ''cve_scanner'']), (''request_id'', JString requestID)]"

text \<open>Streaming the cached file: \<open>Inl\<close> is the 500 written when it cannot be opened.\<close>

definition serveFromCache :: "'c handler_config \<Rightarrow> header \<Rightarrow> artifact_entry \<Rightarrow> 'c \<Rightarrow> reply + reply" where
  "serveFromCache cfg w entry c =
     (case c_open (hc_Cache cfg) c (ae_ArtifactPath entry) of
        None \<Rightarrow> Inl (http_Error w ''cache read error'' StatusInternalServerError)
      | Some b \<Rightarrow> Inr \<lparr>rp_Status = StatusOK,
          rp_Header = hdr_Set (hdr_Set (hdr_Set w ''Content-Type'' ''application/octet-stream'') ''X-Joei-Cache'' ''HIT'')
             ''Content-Length'' (FormatInt (int (length b))),
          rp_Body = Bytes b\<rparr>)"

section \<open>Re-checks of a cache hit\<close>

definition cve_due :: "'c handler_config \<Rightarrow> gotime \<Rightarrow> artifact_entry \<Rightarrow> bool" where
  "cve_due cfg now entry \<longleftrightarrow> 0 < hc_CVERecheckTTL cfg \<and> hc_CVEScanner cfg \<noteq> None \<and> hc_Policy cfg \<noteq> None
     \<and> hc_CVERecheckTTL cfg < time_sub now (ae_LastCVECheck entry)"

definition malware_due :: "'c handler_config \<Rightarrow> gotime \<Rightarrow> artifact_entry \<Rightarrow> bool" where
  "malware_due cfg now entry \<longleftrightarrow> 0 < hc_MalwareRecheckTTL cfg \<and> hc_AVScanner cfg \<noteq> None
     \<and> hc_MalwareRecheckTTL cfg < time_sub now (ae_LastMalwareCheck entry)"

definition recheckDue :: "'c handler_config \<Rightarrow> gotime \<Rightarrow> artifact_entry \<Rightarrow> bool" where
  "recheckDue cfg now entry = (if cve_due cfg now entry then True else malware_due cfg now entry)"

definition evictRechecked :: "'c handler_config \<Rightarrow> package_ref \<Rightarrow> 'c \<Rightarrow> 'c" where
  "evictRechecked cfg ref c = snd (c_invalidate (hc_Cache cfg) c ref)"

definition blocked_by :: "policy_decision \<Rightarrow> string" where
  "blocked_by d = (if pd_Reason d = ReasonDenylisted then ''denylist'' else ''cve'')"

definition no_decision :: policy_decision where
  "no_decision = \<lparr>pd_Allowed = False, pd_Reason = [], pd_Findings = []\<rparr>"

definition no_av :: av_result where
  "no_av = \<lparr>av_Clean = False, av_Signature = [], av_Engine = [], av_Incomplete = False\<rparr>"

definition recheck_cve ::
  "'c handler_config \<Rightarrow> gotime \<Rightarrow> package_ref \<Rightarrow> artifact_entry \<Rightarrow> 'c \<Rightarrow> recheck_outcome option \<times> 'c" where
  "recheck_cve cfg now ref entry c =
     (if \<not> cve_due cfg now entry then (None, c)
      else case (hc_CVEScanner cfg, hc_Policy cfg) of
        (Some scan, Some evaluate) \<Rightarrow>
          (case scan ref of
             Inl err \<Rightarrow> (None, c)
           | Inr res \<Rightarrow>
               (let decision = evaluate ref res in
                if \<not> pd_Allowed decision
                then (Some \<lparr>ro_gate = GateCVE, ro_blockedBy = blocked_by decision, ro_decision = decision, ro_av = no_av\<rparr>,
                      evictRechecked cfg ref c)
                else (None, snd (c_markCVE (hc_Cache cfg) c ref now))))
      | _ \<Rightarrow> (None, c))"

definition recheck_malware ::
  "'c handler_config \<Rightarrow> gotime \<Rightarrow> package_ref \<Rightarrow> artifact_entry \<Rightarrow> 'c \<Rightarrow> recheck_outcome option \<times> 'c" where
  "recheck_malware cfg now ref entry c =
     (if \<not> malware_due cfg now entry then (None, c)
      else case hc_AVScanner cfg of
        None \<Rightarrow> (None, c)
      | Some scan \<Rightarrow>
          (case scan (ae_ArtifactPath entry) (c_open (hc_Cache cfg) c (ae_ArtifactPath entry)) of
             Inl err \<Rightarrow> (None, c)
           | Inr res \<Rightarrow>
               if av_Incomplete res then (None, c)
               else if \<not> av_Clean res
               then (Some \<lparr>ro_gate = GateMalware, ro_blockedBy = ''malware'', ro_decision = no_decision, ro_av = res\<rparr>,
                     evictRechecked cfg ref c)
               else (None, snd (c_markMalware (hc_Cache cfg) c ref now))))"

definition runRechecks ::
  "'c handler_config \<Rightarrow> gotime \<Rightarrow> package_ref \<Rightarrow> artifact_entry \<Rightarrow> 'c \<Rightarrow> recheck_outcome option \<times> 'c" where
  "runRechecks cfg now ref entry c =
     (case recheck_cve cfg now ref entry c of
        (Some out, c1) \<Rightarrow> (Some out, c1)
      | (None, c1) \<Rightarrow> recheck_malware cfg now ref entry c1)"

text \<open>
  The outcome is \<open>None\<close> when the entry is to be served. The leader of a flight runs the
  re-checks; a request that joins a flight takes the leader's outcome.
\<close>

definition recheckExpired ::
  "'c handler_config \<Rightarrow> 'c req_env \<Rightarrow> header \<Rightarrow> package_ref \<Rightarrow> artifact_entry \<Rightarrow> 'c \<Rightarrow> (reply \<times> event) option \<times> 'c" where
  "recheckExpired cfg en w ref entry c =
     (if \<not> recheckDue cfg (en_dueTime en) entry then (None, c)
      else case (case en_flight en of
                   Some shared \<Rightarrow> (shared, c)
                 | None \<Rightarrow> runRechecks cfg (en_recheckTime en) ref entry c) of
        (None, c1) \<Rightarrow> (None, c1)
      | (Some out, c1) \<Rightarrow>
          (Some (if ro_gate out = GateCVE
             then (writeCVEBlockedResponse w (en_RequestID en) ref (ro_decision out),
                   (mkEvent en ref VerdictBlock GateCVE (pd_Reason (ro_decision out)) StatusForbidden)
                     \<lparr>ev_BlockedBy := [ro_blockedBy out], ev_CVEs := pd_Findings (ro_decision out)\<rparr>)
             else (writeMalwareBlockedResponse w (en_RequestID en) ref (av_Engine (ro_av out)) (av_Signature (ro_av out)),
                   (mkEvent en ref VerdictBlock GateMalware ''malware_found'' StatusForbidden)
                     \<lparr>ev_BlockedBy := [''malware''], ev_MalwareEngine := av_Engine (ro_av out),
                      ev_MalwareSignature := av_Signature (ro_av out)\<rparr>)), c1))"

definition serve_hit ::
  "'c handler_config \<Rightarrow> 'c req_env \<Rightarrow> header \<Rightarrow> package_ref \<Rightarrow> artifact_entry \<Rightarrow> 'c \<Rightarrow> (reply \<times> event) \<times> 'c" where
  "serve_hit cfg en w ref entry c =
     (if \<not> ae_ScanClean entry
      then ((writeError w (en_RequestID en) ref StatusForbidden ''scan_failed'',
             mkEvent en ref VerdictBlock GateCache ''scan_failed'' StatusForbidden), c)
      else case recheckExpired cfg en w ref entry c of
        (Some done, c1) \<Rightarrow> (done, c1)
      | (None, c1) \<Rightarrow>
          (case serveFromCache cfg w entry c1 of
             Inl rp \<Rightarrow> ((rp, mkEvent en ref VerdictError GateCache ''cache_read_error'' StatusInternalServerError), c1)
           | Inr rp \<Rightarrow> ((rp, mkEvent en ref VerdictCache GateCache ''cache_hit'' StatusOK), c1)))"

section \<open>The gates of a miss\<close>

definition fail_with :: "'c req_env \<Rightarrow> header \<Rightarrow> package_ref \<Rightarrow> gate_id \<Rightarrow> string \<Rightarrow> int \<Rightarrow> reply \<times> event" where
  "fail_with en w ref g reason status =
     (writeError w (en_RequestID en) ref status reason, mkEvent en ref VerdictError g reason status)"

definition checkSupplyChain ::
  "'c handler_config \<Rightarrow> 'c req_env \<Rightarrow> header \<Rightarrow> package_ref \<Rightarrow> package_metadata \<Rightarrow> (reply \<times> event) + filter_result" where
  "checkSupplyChain cfg en w ref meta =
     (let sc = hc_Filter cfg (en_filterTime en) ref meta in
      if \<not> fr_Allowed sc
      then Inl (writeBlockedResponse w (en_RequestID en) ref sc,
                (mkEvent en ref VerdictBlock GateSupply (fr_Reason sc) StatusLocked)
                  \<lparr>ev_BlockedBy := [''supply_chain''], ev_PublishedAt := fr_PublishedAt sc,
                   ev_BlockUntil := fr_BlockUntil sc\<rparr>)
      else Inr sc)"

definition no_filter_result :: filter_result where
  "no_filter_result = \<lparr>fr_Allowed = False, fr_Reason = [], fr_PublishedAt = zero_time, fr_BlockUntil = zero_time\<rparr>"

text \<open>The check before the download, of adapters whose publish date is metadata of its own.\<close>

definition supply_before ::
  "'c handler_config \<Rightarrow> 'c req_env \<Rightarrow> header \<Rightarrow> package_ref \<Rightarrow> (reply \<times> event) + filter_result" where
  "supply_before cfg en w ref =
     (if ad_MetadataFromHeader (hc_Adapter cfg) \<noteq> None then Inr no_filter_result
      else case ad_FetchMetadata (hc_Adapter cfg) ref of
        Inl err \<Rightarrow>
          (case Option.bind (AttemptsFrom err) (Throttled (sv_url_Parse (en_services en)) (hc_Throttles cfg)) of
             Some (status, retry) \<Rightarrow> Inl (fail_with en (SetRetryAfter w retry) ref GateSupply ''upstream_throttled'' status)
           | None \<Rightarrow> Inl (fail_with en w ref GateSupply ''upstream_metadata_unavailable'' StatusBadGateway))
      | Inr meta \<Rightarrow> checkSupplyChain cfg en w ref meta)"

text \<open>The check after it, of adapters that read the date off the download's header.\<close>

definition supply_after ::
  "'c handler_config \<Rightarrow> 'c req_env \<Rightarrow> header \<Rightarrow> package_ref \<Rightarrow> header \<Rightarrow> filter_result \<Rightarrow> (reply \<times> event) + filter_result" where
  "supply_after cfg en w ref hdr sc =
     (case ad_MetadataFromHeader (hc_Adapter cfg) of
        None \<Rightarrow> Inr sc
      | Some extract \<Rightarrow> checkSupplyChain cfg en w ref (extract hdr))"

definition cve_gate :: "'c handler_config \<Rightarrow> 'c req_env \<Rightarrow> header \<Rightarrow> package_ref \<Rightarrow> (reply \<times> event) option" where
  "cve_gate cfg en w ref =
     (case hc_CVEScanner cfg of
        None \<Rightarrow> None
      | Some scan \<Rightarrow>
          (case scan ref of
             Inl err \<Rightarrow> Some (fail_with en w ref GateCVE ''cve_scan_error'' StatusServiceUnavailable)
           | Inr res \<Rightarrow>
               (case hc_Policy cfg of
                  None \<Rightarrow> None
                | Some evaluate \<Rightarrow>
                    (let d = evaluate ref res in
                     if \<not> pd_Allowed d
                     then Some (writeCVEBlockedResponse w (en_RequestID en) ref d,
                                (mkEvent en ref VerdictBlock GateCVE (pd_Reason d) StatusForbidden)
                                  \<lparr>ev_BlockedBy := [blocked_by d], ev_CVEs := pd_Findings d\<rparr>)
                     else None))))"

definition download_gate ::
  "'c handler_config \<Rightarrow> 'c req_env \<Rightarrow> header \<Rightarrow> http_request \<Rightarrow> package_ref \<Rightarrow> 'c \<Rightarrow>
   ((reply \<times> event) + string \<times> header) \<times> 'c" where
  "download_gate cfg en w r ref c =
     (let urls = ad_UpstreamURLs (hc_Adapter cfg) r in
      if urls = [] then (Inl (fail_with en w ref GateSupply ''no_upstream_configured'' StatusInternalServerError), c)
      else case downloadFromUpstreams cfg (en_services en) urls c of
        (Inr got, atts, c1) \<Rightarrow> (Inr got, c1)
      | (Inl err, atts, c1) \<Rightarrow>
          (Inl (if errors_Is err ErrArtifactTooLarge
                then fail_with en w ref GateCache ''artifact_too_large'' StatusForbidden
                else if AllNotFound atts
                then fail_with en w ref GateSupply ''artifact_not_found'' StatusNotFound
                else case Throttled (sv_url_Parse (en_services en)) (hc_Throttles cfg) atts of
                  Some (status, retry) \<Rightarrow> fail_with en (SetRetryAfter w retry) ref GateSupply ''upstream_throttled'' status
                | None \<Rightarrow> fail_with en w ref GateSupply ''upstream_unavailable'' StatusBadGateway), c1))"

definition av_gate ::
  "'c handler_config \<Rightarrow> 'c req_env \<Rightarrow> header \<Rightarrow> package_ref \<Rightarrow> string \<Rightarrow> 'c \<Rightarrow> (reply \<times> event) option" where
  "av_gate cfg en w ref tmp c =
     (case hc_AVScanner cfg of
        None \<Rightarrow> None
      | Some scan \<Rightarrow>
          (case scan tmp (c_open (hc_Cache cfg) c tmp) of
             Inl err \<Rightarrow> Some (fail_with en w ref GateMalware ''av_scan_error'' StatusServiceUnavailable)
           | Inr av \<Rightarrow>
               if av_Incomplete av
               then Some (writeError w (en_RequestID en) ref StatusForbidden ReasonScanIncomplete,
                          (mkEvent en ref VerdictBlock GateMalware ReasonScanIncomplete StatusForbidden)
                            \<lparr>ev_BlockedBy := [ReasonScanIncomplete], ev_MalwareEngine := av_Engine av,
                             ev_MalwareSignature := av_Signature av\<rparr>)
               else if \<not> av_Clean av
               then Some (writeMalwareBlockedResponse w (en_RequestID en) ref (av_Engine av) (av_Signature av),
                          (mkEvent en ref VerdictBlock GateMalware ''malware_found'' StatusForbidden)
                            \<lparr>ev_BlockedBy := [''malware''], ev_MalwareEngine := av_Engine av,
                             ev_MalwareSignature := av_Signature av\<rparr>)
               else None))"

definition last_gate :: "'c handler_config \<Rightarrow> gate_id" where
  "last_gate cfg =
     (if hc_AVScanner cfg \<noteq> None then GateMalware
      else if hc_CVEScanner cfg \<noteq> None \<and> hc_Policy cfg \<noteq> None then GateCVE
      else GateSupply)"

text \<open>Storing the cleared artifact and serving it from the cache.\<close>

definition store_and_serve ::
  "'c handler_config \<Rightarrow> 'c req_env \<Rightarrow> header \<Rightarrow> package_ref \<Rightarrow> string \<Rightarrow> filter_result \<Rightarrow> 'c \<Rightarrow> (reply \<times> event) \<times> 'c" where
  "store_and_serve cfg en w ref tmp sc c =
     (case c_put (hc_Cache cfg) c ref tmp True [] (en_putTime en) of
        (True, c1) \<Rightarrow> (fail_with en w ref GateCache ''cache_error'' StatusInternalServerError, c1)
      | (False, c1) \<Rightarrow>
          (case c_get (hc_Cache cfg) (en_between en c1) ref (en_reGetTime en) of
             (None, c2) \<Rightarrow> (fail_with en w ref GateCache ''cache_error'' StatusInternalServerError, c2)
           | (Some entry, c2) \<Rightarrow>
               (case serveFromCache cfg w entry c2 of
                  Inl rp \<Rightarrow> ((rp, mkEvent en ref VerdictError GateCache ''cache_read_error'' StatusInternalServerError), c2)
                | Inr rp \<Rightarrow>
                    ((rp, (mkEvent en ref VerdictPass (last_gate cfg) (fr_Reason sc) StatusOK)
                            \<lparr>ev_PublishedAt := fr_PublishedAt sc\<rparr>), c2))))"

text \<open>From the delivered download on; the deferred removal of the temporary file ends each way.\<close>

definition after_download ::
  "'c handler_config \<Rightarrow> 'c req_env \<Rightarrow> header \<Rightarrow> package_ref \<Rightarrow> string \<Rightarrow> header \<Rightarrow> filter_result \<Rightarrow> 'c \<Rightarrow> (reply \<times> event) \<times> 'c" where
  "after_download cfg en w ref tmp hdr sc0 c =
     (let res = (case supply_after cfg en w ref hdr sc0 of
            Inl done \<Rightarrow> (done, c)
          | Inr sc \<Rightarrow>
              (case av_gate cfg en w ref tmp c of
                 Some done \<Rightarrow> (done, c)
               | None \<Rightarrow> store_and_serve cfg en w ref tmp sc c))
      in (fst res, c_remove (hc_Cache cfg) (snd res) tmp))"

definition serve_miss ::
  "'c handler_config \<Rightarrow> 'c req_env \<Rightarrow> header \<Rightarrow> http_request \<Rightarrow> package_ref \<Rightarrow> 'c \<Rightarrow> (reply \<times> event) \<times> 'c" where
  "serve_miss cfg en w r ref c =
     (case supply_before cfg en w ref of
        Inl done \<Rightarrow> (done, c)
      | Inr sc \<Rightarrow>
          (case cve_gate cfg en w ref of
             Some done \<Rightarrow> (done, c)
           | None \<Rightarrow>
               (case download_gate cfg en w r ref c of
                  (Inl done, c1) \<Rightarrow> (done, c1)
                | (Inr (tmp, hdr), c1) \<Rightarrow> after_download cfg en w ref tmp hdr sc c1)))"

text \<open>An intercepted request: the cache first.\<close>

definition serve_download ::
  "'c handler_config \<Rightarrow> 'c req_env \<Rightarrow> header \<Rightarrow> http_request \<Rightarrow> package_ref \<Rightarrow> 'c \<Rightarrow> (reply \<times> event) \<times> 'c" where
  "serve_download cfg en w r ref c =
     (case c_get (hc_Cache cfg) c ref (en_getTime en) of
        (Some entry, c1) \<Rightarrow> serve_hit cfg en w ref entry c1
      | (None, c1) \<Rightarrow> serve_miss cfg en w r ref c1)"

end
