(* ===== verification/Proxy_Metadata.thy ===== *)
theory Proxy_Metadata
  imports Proxy_Handler
begin

text \<open>
  Metadata and index documents (\<^verbatim>\<open>internal/proxy/metadata.go\<close>, \<^verbatim>\<open>internal/proxy/index.go\<close>):
  the documents the proxy serves only rewritten. SHA-256, gzip and the parsing of a quality
  value are a record of codecs. A request that joins another one's fetch takes its result,
  the argument \<open>flight\<close>; the result of a read is one of four cases, in the order in which
  the callers test them.
\<close>

record codecs =
  cd_sha256hex :: "string \<Rightarrow> string"
  cd_gunzip_opens :: "string \<Rightarrow> bool"
  cd_gunzip :: "string \<Rightarrow> string"
  cd_gunzip_err :: "string \<Rightarrow> bool"
  cd_gzip :: "string \<Rightarrow> string option"
  cd_zero_q :: "string \<Rightarrow> bool"

section \<open>Validators\<close>

definition dquote :: string where "dquote = [CHR 0x22]"

definition syntheticETagPrefix :: string where "syntheticETagPrefix = dquote @ ''joei.''"

definition syntheticETag :: "codecs \<Rightarrow> string \<Rightarrow> string" where
  "syntheticETag cd body = syntheticETagPrefix @ take 16 (cd_sha256hex cd body) @ dquote"

definition etagMatches :: "string \<Rightarrow> string \<Rightarrow> bool" where
  "etagMatches ifNoneMatch tag = list_ex (\<lambda>candidate. trim_space candidate = tag) (split_on (CHR '','') ifNoneMatch)"

section \<open>Reading a document\<close>

datatype read_result = ReadErr go_error | Unsupported | Oversized | Doc string

definition readMetadataDocument :: "codecs \<Rightarrow> http_response \<Rightarrow> int64 \<Rightarrow> read_result" where
  "readMetadataDocument cd resp limit =
     (let coding = trim_space (hdr_Get (rs_Header resp) ''Content-Encoding'') in
      if coding = [] \<or> equal_fold coding ''identity'' \<or> equal_fold coding ''gzip''
      then
        if \<not> (coding = [] \<or> equal_fold coding ''identity'') \<and> \<not> cd_gunzip_opens cd (rs_Body resp)
        then ReadErr (Plain ''decompressing metadata document'')
        else
          (let plain = (coding = [] \<or> equal_fold coding ''identity'');
               src = (if plain then rs_Body resp else cd_gunzip cd (rs_Body resp));
               broken = (rs_BodyErr resp \<or> \<not> plain \<and> cd_gunzip_err cd (rs_Body resp))
           in if limit \<le> 0
              then if broken then ReadErr (Plain ''reading metadata document'') else Doc src
              else (let cap = nat (wrap64 (limit + 1)); buf = take cap src in
                    if broken \<and> length src < cap then ReadErr (Plain ''reading metadata document'')
                    else if int (length buf) \<le> limit then Doc buf
                    else Oversized))
      else Unsupported)"

fun q_refused :: "codecs \<Rightarrow> string list \<Rightarrow> bool" where
  "q_refused cd [] = False"
| "q_refused cd (param # ps) =
     (case cut (CHR ''='') (trim_space param) of
        (name, value, ok) \<Rightarrow>
          if \<not> ok \<or> \<not> equal_fold (trim_space name) ''q'' then q_refused cd ps
          else if cd_zero_q cd (trim_space value) then True
          else q_refused cd ps)"

fun accepts_gzip :: "codecs \<Rightarrow> string list \<Rightarrow> bool" where
  "accepts_gzip cd [] = False"
| "accepts_gzip cd (part # parts) =
     (let fields = split_on (CHR '';'') (trim_space part) in
      if \<not> equal_fold (trim_space (hd fields)) ''gzip'' then accepts_gzip cd parts
      else \<not> q_refused cd (tl fields))"

definition clientAcceptsGzip :: "codecs \<Rightarrow> http_request \<Rightarrow> bool" where
  "clientAcceptsGzip cd r = accepts_gzip cd (split_on (CHR '','') (hdr_Get (rq_Header r) ''Accept-Encoding''))"

definition writeMetadataDocument ::
  "codecs \<Rightarrow> header \<Rightarrow> http_request \<Rightarrow> header \<Rightarrow> int \<Rightarrow> string \<Rightarrow> string \<Rightarrow> reply" where
  "writeMetadataDocument cd w r hdr status body tag =
     (let h = hdr_Set (hdr_Del (hdr_Del (hdr_Del (copyProxyHeaders w hdr) ''Content-Length'') ''Content-Encoding'')
                ''Last-Modified'') ''ETag'' tag;
          (payload, h) = (case (if clientAcceptsGzip cd r then cd_gzip cd body else None) of
                            Some gz \<Rightarrow> (gz, hdr_Set h ''Content-Encoding'' ''gzip'')
                          | None \<Rightarrow> (body, h))
      in \<lparr>rp_Status = status, rp_Header = hdr_Set h ''Content-Length'' (FormatInt (int (length payload))),
          rp_Body = Bytes payload\<rparr>)"

definition writeJSONError :: "header \<Rightarrow> int \<Rightarrow> string \<Rightarrow> reply" where
  "writeJSONError w status code =
     \<lparr>rp_Status = status, rp_Header = hdr_Set w ''Content-Type'' ''application/json'',
      rp_Body = Json (JObject [(''error'', JString code)])\<rparr>"

definition failMetadata :: "header \<Rightarrow> reply" where
  "failMetadata w = writeJSONError w StatusBadGateway ''metadata_rewrite_failed''"

definition failIndex :: "header \<Rightarrow> reply" where
  "failIndex w = writeJSONError w StatusBadGateway ''index_rewrite_failed''"

section \<open>Metadata documents\<close>

record metadata_fetch =
  mf_doc :: string
  mf_header :: header
  mf_status :: int

type_synonym fetch_result = "metadata_fetch option \<times> attempts \<times> go_error option"

text \<open>The flight's own fetch.\<close>

definition fetch_flight ::
  "'c handler_config \<Rightarrow> services \<Rightarrow> codecs \<Rightarrow> http_request \<Rightarrow> int64 \<Rightarrow> fetch_result" where
  "fetch_flight cfg sv cd r limit =
     (case forwardUpstream cfg sv r of
        (None, atts, err) \<Rightarrow> (None, atts, err)
      | (Some resp, atts, err) \<Rightarrow>
          if rs_StatusCode resp = 204
          then (Some \<lparr>mf_doc = [], mf_header = rs_Header resp, mf_status = 204\<rparr>, [], None)
          else if rs_StatusCode resp \<noteq> StatusOK
          then (None, [], Some (Plain (''upstream status carries no document to rewrite: '' @ FormatInt (rs_StatusCode resp))))
          else (case readMetadataDocument cd resp limit of
                  ReadErr e \<Rightarrow> (None, [], Some e)
                | Unsupported \<Rightarrow> (None, [], Some (Plain ''document in a content-encoding the proxy cannot decode''))
                | Oversized \<Rightarrow> (None, [], Some (Plain ''document exceeds server.metadata_filter_max_mb''))
                | Doc d \<Rightarrow> (Some \<lparr>mf_doc = d, mf_header = rs_Header resp, mf_status = rs_StatusCode resp\<rparr>, [], None)))"

definition fetchMetadataDocument ::
  "'c handler_config \<Rightarrow> services \<Rightarrow> codecs \<Rightarrow> fetch_result option \<Rightarrow> http_request \<Rightarrow> int64 \<Rightarrow> fetch_result" where
  "fetchMetadataDocument cfg sv cd flight r limit =
     (case flight of Some shared \<Rightarrow> shared | None \<Rightarrow> fetch_flight cfg sv cd r limit)"

definition credentialTag :: "codecs \<Rightarrow> http_request \<Rightarrow> string" where
  "credentialTag cd r =
     (let auth = hdr_Values (rq_Header r) ''Authorization''; cookie = hdr_Values (rq_Header r) ''Cookie'' in
      if auth = [] \<and> cookie = [] then []
      else cd_sha256hex cd (join_with [CHR 0x0A] auth @ [CHR 0x00] @ join_with [CHR 0x0A] cookie))"

definition metadata_key :: "codecs \<Rightarrow> http_request \<Rightarrow> string" where
  "metadata_key cd r = rq_URI r @ [CHR 0x00] @ hdr_Get (rq_Header r) ''Accept'' @ [CHR 0x00] @ credentialTag cd r"

definition metadataLimit :: "'c handler_config \<Rightarrow> int64" where
  "metadataLimit cfg = (if hc_MetadataFilterMaxMB cfg \<le> 0 then 0 else wrap64 (hc_MetadataFilterMaxMB cfg * 2 ^ 20))"

definition empty_scan :: scan_result where
  "empty_scan = \<lparr>sr_Clean = False, sr_Findings = [], sr_ScanJSON = []\<rparr>"

definition versionDecider :: "'c handler_config \<Rightarrow> gotime \<Rightarrow> metadata_ref \<Rightarrow> version_decider" where
  "versionDecider cfg now mref version publishedAt =
     (let ref = \<lparr>Ecosystem = mr_Ecosystem mref, Name = mr_Name mref, Version = version, Classifier = []\<rparr> in
      if (case hc_Policy cfg of
            None \<Rightarrow> False
          | Some evaluate \<Rightarrow> \<not> pd_Allowed (evaluate ref empty_scan) \<and> pd_Reason (evaluate ref empty_scan) = ReasonDenylisted)
      then False
      else if publishedAt = zero_time then True
      else fr_Allowed (hc_Filter cfg now ref \<lparr>pm_PublishedAt = publishedAt, pm_Maintainer = [], pm_License = []\<rparr>))"

definition metadataFilterRef :: "'c handler_config \<Rightarrow> http_request \<Rightarrow> metadata_ref option" where
  "metadataFilterRef cfg r =
     (case ad_MetadataFilterer (hc_Adapter cfg) of
        None \<Rightarrow> None
      | Some filterer \<Rightarrow> mf_NormalizeMetadataRequest filterer r)"

text \<open>The request sent upstream: no validators, no ranges, and the one coding the proxy decodes.\<close>

definition outbound_request :: "http_request \<Rightarrow> http_request" where
  "outbound_request r = r\<lparr>rq_Header :=
     hdr_Set (foldl hdr_Del (rq_Header r) [''If-None-Match'', ''If-Modified-Since'', ''Range'', ''If-Range''])
       ''Accept-Encoding'' ''gzip''\<rparr>"

definition set_if :: "header \<Rightarrow> string \<Rightarrow> header \<Rightarrow> header" where
  "set_if w k src = (if hdr_Get src k \<noteq> [] then hdr_Set w k (hdr_Get src k) else w)"

definition proxyMetadata ::
  "'c handler_config \<Rightarrow> services \<Rightarrow> codecs \<Rightarrow> fetch_result option \<Rightarrow> gotime \<Rightarrow> header \<Rightarrow> http_request \<Rightarrow> metadata_ref \<Rightarrow> reply" where
  "proxyMetadata cfg sv cd flight now w r mref =
     (case ad_MetadataFilterer (hc_Adapter cfg) of
        None \<Rightarrow> proxyTransparent cfg sv w r
      | Some filterer \<Rightarrow>
     (case hc_PublicBase cfg r of
        Inl err \<Rightarrow> writeJSONError w StatusBadRequest ''bad_forwarded_header''
      | Inr base \<Rightarrow>
     (let linkBase = (if rq_RoutePrefix r \<noteq> [] then base @ ''/'' @ rq_RoutePrefix r else base);
          clientTag = join_with '', '' (hdr_Values (rq_Header r) ''If-None-Match'')
      in case fetchMetadataDocument cfg sv cd flight (outbound_request r) (metadataLimit cfg) of
        (None, atts, None) \<Rightarrow> writeForwardError cfg sv w atts None
      | (None, atts, Some err) \<Rightarrow>
          if errors_Is err ErrNoUpstreams \<or> errors_Is err ErrUnreadableRequestBody
          then writeForwardError cfg sv w atts (Some err)
          else failMetadata w
      | (Some fetch, atts, Some err) \<Rightarrow> failMetadata w
      | (Some fetch, atts, None) \<Rightarrow>
          if mf_status fetch = 204
          then \<lparr>rp_Status = mf_status fetch, rp_Header = copyProxyHeaders w (mf_header fetch), rp_Body = NoBody\<rparr>
          else (case mf_FilterVersions filterer (mf_doc fetch) mref (versionDecider cfg now mref) linkBase of
                  Inl err \<Rightarrow> failMetadata w
                | Inr filtered \<Rightarrow>
                    (let tag = syntheticETag cd (fd_Body filtered) in
                     if etagMatches clientTag tag
                     then \<lparr>rp_Status = 304, rp_Header = set_if (set_if (hdr_Set w ''ETag'' tag) ''Cache-Control'' (mf_header fetch))
                             ''Vary'' (mf_header fetch), rp_Body = NoBody\<rparr>
                     else writeMetadataDocument cd w r (mf_header fetch) (mf_status fetch) (fd_Body filtered) tag)))))"

section \<open>Index documents\<close>

definition defaultIndexMaxMB :: int64 where "defaultIndexMaxMB = 64"

definition proxyIndex ::
  "'c handler_config \<Rightarrow> services \<Rightarrow> codecs \<Rightarrow> header \<Rightarrow> http_request \<Rightarrow> index_rewriter \<Rightarrow> reply" where
  "proxyIndex cfg sv cd w r rw =
     (case forwardUpstream cfg sv (outbound_request r) of
        (None, atts, err) \<Rightarrow> writeForwardError cfg sv w atts err
      | (Some resp, atts, err) \<Rightarrow>
          if rs_StatusCode resp \<noteq> StatusOK
          then if rs_StatusCode resp < 300 \<and> rs_StatusCode resp \<noteq> 204 then failIndex w
               else \<lparr>rp_Status = rs_StatusCode resp, rp_Header = copyProxyHeaders w (rs_Header resp), rp_Body = Bytes (rs_Body resp)\<rparr>
          else
            (let maxMB = (if hc_IndexMaxMB cfg \<le> 0 then defaultIndexMaxMB else hc_IndexMaxMB cfg) in
             case readMetadataDocument cd resp (wrap64 (maxMB * 2 ^ 20)) of
               Doc d \<Rightarrow>
                 (case iw_RewriteIndex rw d (hdr_Get (rs_Header resp) ''Content-Type'') (rq_Path r) of
                    Inl err \<Rightarrow> failIndex w
                  | Inr out \<Rightarrow>
                      (let tag = syntheticETag cd (ir_Body out) in
                       if etagMatches (join_with '', '' (hdr_Values (rq_Header r) ''If-None-Match'')) tag
                       then \<lparr>rp_Status = 304, rp_Header = hdr_Set w ''ETag'' tag, rp_Body = NoBody\<rparr>
                       else writeMetadataDocument cd w r (rs_Header resp) (rs_StatusCode resp) (ir_Body out) tag))
             | _ \<Rightarrow> failIndex w))"

section \<open>The handler\<close>

record 'c serve_env = "'c req_env" +
  se_codecs :: codecs
  se_metaFlight :: "fetch_result option"

text \<open>The reply, the telemetry events and the cache a request leaves.\<close>

definition ServeHTTP ::
  "'c handler_config \<Rightarrow> 'c serve_env \<Rightarrow> header \<Rightarrow> http_request \<Rightarrow> 'c \<Rightarrow> reply \<times> event list \<times> 'c" where
  "ServeHTTP cfg se w r c =
     (let en = req_env.truncate se; sv = en_services se in
      case ad_NormalizeRequest (hc_Adapter cfg) r of
        Some ref \<Rightarrow>
          (case serve_download cfg en w r ref c of
             ((rp, ev), c') \<Rightarrow> (rp, if hc_Recorder cfg then [ev] else [], c'))
      | None \<Rightarrow>
          (if (case ad_IsArtifactPath (hc_Adapter cfg) of None \<Rightarrow> False | Some m \<Rightarrow> m r)
           then writeJSONError w StatusForbidden ''unrecognized_artifact''
           else case (case ad_IndexRewriter (hc_Adapter cfg) of
                        None \<Rightarrow> None | Some rw \<Rightarrow> if iw_IsIndexRequest rw r then Some rw else None) of
             Some rw \<Rightarrow> proxyIndex cfg sv (se_codecs se) w r rw
           | None \<Rightarrow>
               (case metadataFilterRef cfg r of
                  Some mref \<Rightarrow> proxyMetadata cfg sv (se_codecs se) (se_metaFlight se) (en_filterTime se) w r mref
                | None \<Rightarrow> proxyTransparent cfg sv w r), [], c))"

end
