(* ===== verification/Proxy_Handler_Correct.thy ===== *)
theory Proxy_Handler_Correct
  imports Proxy_Handler Local_Cache_Correct
begin

text \<open>
  What the download path of the handler guarantees, proved once against the contract of the
  artifact cache (the locale \<open>artifact_cache\<close>) and stated for the handler on the local cache
  by its interpretation.
\<close>

section \<open>Downloads\<close>

text \<open>A mirror's complete answer within the size cap, written to a temporary file.\<close>

definition delivered ::
  "'c handler_config \<Rightarrow> services \<Rightarrow> string list \<Rightarrow> string \<Rightarrow> header \<Rightarrow> string \<Rightarrow> bool" where
  "delivered cfg sv urls tmp hdr b \<longleftrightarrow>
     (\<exists>u\<in>set urls. \<exists>resp. sv_Do sv ''GET'' u no_header [] = Inr resp \<and> rs_StatusCode resp = 200
        \<and> rs_Header resp = hdr \<and> rs_Body resp = b \<and> \<not> rs_BodyErr resp
        \<and> (0 < hc_MaxArtifactBytes cfg \<longrightarrow> int (length b) \<le> hc_MaxArtifactBytes cfg)
        \<and> sv_CreateTemp sv u = Inr tmp)"

lemma tryDownload_ok:
  assumes "tryDownload cfg sv c u = (Inr tmp, hdr, st, c1)" "hc_MaxArtifactBytes cfg < max_int64"
  shows "\<exists>resp. sv_Do sv ''GET'' u no_header [] = Inr resp \<and> rs_StatusCode resp = 200
    \<and> rs_Header resp = hdr \<and> \<not> rs_BodyErr resp
    \<and> (0 < hc_MaxArtifactBytes cfg \<longrightarrow> int (length (rs_Body resp)) \<le> hc_MaxArtifactBytes cfg)
    \<and> sv_CreateTemp sv u = Inr tmp \<and> c1 = c_writeTemp (hc_Cache cfg) c tmp (rs_Body resp)"
proof -
  let ?m = "hc_MaxArtifactBytes cfg"
  obtain resp where resp: "sv_Do sv ''GET'' u no_header [] = Inr resp"
    using assms(1) by (auto simp: tryDownload_def split: option.splits sum.splits)
  have w: "0 < ?m \<Longrightarrow> wrap64 (?m + 1) = ?m + 1"
    using assms(2) by (intro wrap64_id) (auto simp: min_int64_def max_int64_def)
  show ?thesis
  proof (cases "0 < ?m")
    case True
    then show ?thesis
      using assms(1) resp by (auto simp: tryDownload_def Let_def w split: option.splits sum.splits if_splits)
  next
    case False
    then show ?thesis
      using assms(1) resp by (auto simp: tryDownload_def Let_def split: option.splits sum.splits if_splits)
  qed
qed

lemma tryDownload_err_cases:
  assumes "tryDownload cfg sv c u = (Inl err, hdr, st, c1)"
  shows "c1 = c \<or> (\<exists>tmp b. sv_CreateTemp sv u = Inr tmp \<and> c1 = c_remove (hc_Cache cfg) (c_writeTemp (hc_Cache cfg) c tmp b) tmp)"
  using assms by (auto simp: tryDownload_def Let_def split: option.splits sum.splits if_splits)

definition temps_ok :: "services \<Rightarrow> (string \<Rightarrow> bool) \<Rightarrow> bool" where
  "temps_ok sv is_temp \<longleftrightarrow> (\<forall>u p. sv_CreateTemp sv u = Inr p \<longrightarrow> is_temp p)"

section \<open>Cleared artifacts\<close>

text \<open>
  What it takes for bytes to be served on a miss: a mirror delivered them, the supply-chain
  filter let the package through on the metadata its adapter reports, the CVE scan succeeded
  and the policy allowed its result, and the malware scan of these very bytes finished and
  found nothing, each as far as that gate is configured.
\<close>

definition supply_cleared :: "'c handler_config \<Rightarrow> 'c req_env \<Rightarrow> package_ref \<Rightarrow> header \<Rightarrow> bool" where
  "supply_cleared cfg en ref hdr \<longleftrightarrow>
     (case ad_MetadataFromHeader (hc_Adapter cfg) of
        Some extract \<Rightarrow> fr_Allowed (hc_Filter cfg (en_filterTime en) ref (extract hdr))
      | None \<Rightarrow> (\<exists>meta. ad_FetchMetadata (hc_Adapter cfg) ref = Inr meta
          \<and> fr_Allowed (hc_Filter cfg (en_filterTime en) ref meta)))"

definition cve_cleared :: "'c handler_config \<Rightarrow> package_ref \<Rightarrow> bool" where
  "cve_cleared cfg ref \<longleftrightarrow>
     (\<forall>scan. hc_CVEScanner cfg = Some scan \<longrightarrow>
        (\<exists>res. scan ref = Inr res \<and> (\<forall>evaluate. hc_Policy cfg = Some evaluate \<longrightarrow> pd_Allowed (evaluate ref res))))"

definition av_cleared :: "'c handler_config \<Rightarrow> string \<Rightarrow> string \<Rightarrow> bool" where
  "av_cleared cfg path b \<longleftrightarrow>
     (\<forall>scan. hc_AVScanner cfg = Some scan \<longrightarrow>
        (\<exists>av. scan path (Some b) = Inr av \<and> av_Clean av \<and> \<not> av_Incomplete av))"

definition cleared ::
  "'c handler_config \<Rightarrow> 'c req_env \<Rightarrow> http_request \<Rightarrow> package_ref \<Rightarrow> string \<Rightarrow> bool" where
  "cleared cfg en r ref b \<longleftrightarrow>
     (\<exists>tmp hdr. delivered cfg (en_services en) (ad_UpstreamURLs (hc_Adapter cfg) r) tmp hdr b
        \<and> supply_cleared cfg en ref hdr \<and> cve_cleared cfg ref \<and> av_cleared cfg tmp b)"

lemma cve_gate_passes: "cve_gate cfg en w ref = None \<longleftrightarrow> cve_cleared cfg ref"
  by (auto simp: cve_gate_def cve_cleared_def Let_def split: option.splits sum.splits)

lemma av_gate_passes: "c_open (hc_Cache cfg) c tmp = Some b \<Longrightarrow> av_gate cfg en w ref tmp c = None \<longleftrightarrow> av_cleared cfg tmp b"
  by (auto simp: av_gate_def av_cleared_def split: option.splits sum.splits if_splits)

lemma supply_stages_pass:
  assumes "supply_before cfg en w ref = Inr sc0" "supply_after cfg en w ref hdr sc0 = Inr sc"
  shows "supply_cleared cfg en ref hdr"
  using assms
  by (auto simp: supply_before_def supply_after_def supply_cleared_def checkSupplyChain_def Let_def
      split: option.splits sum.splits if_splits)

text \<open>No reply but the streamed file carries bytes.\<close>

lemma reply_no_bytes [simp]:
  "rp_Body (writeError w i ref s reason) \<noteq> Bytes b"
  "rp_Body (writeBlockedResponse w i ref sc) \<noteq> Bytes b"
  "rp_Body (writeMalwareBlockedResponse w i ref e g) \<noteq> Bytes b"
  "rp_Body (writeCVEBlockedResponse w i ref d) \<noteq> Bytes b"
  "rp_Body (http_Error w m s) \<noteq> Bytes b"
  by (simp_all add: writeError_def writeBlockedResponse_def writeMalwareBlockedResponse_def
      writeCVEBlockedResponse_def writeJSON_def http_Error_def)

lemma reply_status [simp]:
  "rp_Status (writeError w i ref s reason) = s"
  "rp_Status (writeBlockedResponse w i ref sc) = 423"
  "rp_Status (writeMalwareBlockedResponse w i ref e g) = 403"
  "rp_Status (writeCVEBlockedResponse w i ref d) = 403"
  "rp_Status (http_Error w m s) = s"
  by (simp_all add: writeError_def writeBlockedResponse_def writeMalwareBlockedResponse_def
      writeCVEBlockedResponse_def writeJSON_def http_Error_def)

definition outcome_ok :: "reply \<times> event \<Rightarrow> bool" where
  "outcome_ok out \<longleftrightarrow> ev_HTTPStatus (snd out) = rp_Status (fst out)
     \<and> (if ev_Verdict (snd out) = VerdictPass \<or> ev_Verdict (snd out) = VerdictCache
        then rp_Status (fst out) = 200 \<and> (\<exists>b. rp_Body (fst out) = Bytes b)
        else \<not> (\<exists>b. rp_Body (fst out) = Bytes b))
     \<and> (ev_Verdict (snd out) = VerdictBlock \<longrightarrow> rp_Status (fst out) = 403 \<or> rp_Status (fst out) = 423)"

lemma event_fields [simp]:
  "ev_HTTPStatus (mkEvent en ref v g reason s) = s" "ev_Verdict (mkEvent en ref v g reason s) = v"
  "ev_RequestID (mkEvent en ref v g reason s) = en_RequestID en"
  by (simp_all add: mkEvent_def)

lemma fail_with_ok [simp]: "outcome_ok (fail_with en w ref g reason s)"
  by (simp add: fail_with_def outcome_ok_def)

lemma supply_before_ok: "supply_before cfg en w ref = Inl out \<Longrightarrow> outcome_ok out"
  by (auto simp: supply_before_def checkSupplyChain_def Let_def outcome_ok_def
      split: if_splits sum.splits option.splits) (auto simp: fail_with_def)

lemma supply_after_ok: "supply_after cfg en w ref hdr sc = Inl out \<Longrightarrow> outcome_ok out"
  by (auto simp: supply_after_def checkSupplyChain_def Let_def outcome_ok_def split: if_splits option.splits)

lemma cve_gate_ok: "cve_gate cfg en w ref = Some out \<Longrightarrow> outcome_ok out"
  by (auto simp: cve_gate_def Let_def outcome_ok_def fail_with_def split: if_splits sum.splits option.splits)

lemma av_gate_ok: "av_gate cfg en w ref tmp c = Some out \<Longrightarrow> outcome_ok out"
  by (auto simp: av_gate_def outcome_ok_def fail_with_def split: if_splits sum.splits option.splits)

lemma download_gate_ok: "download_gate cfg en w r ref c = (Inl out, c1) \<Longrightarrow> outcome_ok out"
  by (auto simp: download_gate_def Let_def split: if_splits sum.splits option.splits prod.splits)

lemma recheckExpired_ok: "recheckExpired cfg en w ref entry c = (Some out, c1) \<Longrightarrow> outcome_ok out"
  by (auto simp: recheckExpired_def outcome_ok_def split: if_splits option.splits prod.splits)

lemma serveFromCache_ok:
  "serveFromCache cfg w entry c = Inl rp \<Longrightarrow> rp_Status rp = 500 \<and> \<not> (\<exists>b. rp_Body rp = Bytes b)"
  "serveFromCache cfg w entry c = Inr rp \<Longrightarrow> rp_Status rp = 200 \<and> (\<exists>b. rp_Body rp = Bytes b)"
  by (auto simp: serveFromCache_def split: option.splits)

lemma store_and_serve_ok: "outcome_ok (fst (store_and_serve cfg en w ref tmp sc c))"
  by (auto simp: store_and_serve_def split: bool.split prod.split option.split sum.split)
     (auto simp: outcome_ok_def dest: serveFromCache_ok)

lemma serve_hit_ok: "outcome_ok (fst (serve_hit cfg en w ref entry c))"
  by (auto simp: serve_hit_def outcome_ok_def split: prod.split option.split sum.split
      dest: serveFromCache_ok dest!: recheckExpired_ok)

lemma after_download_ok: "outcome_ok (fst (after_download cfg en w ref tmp hdr sc c))"
  by (auto simp: after_download_def Let_def store_and_serve_ok split: sum.split option.split
      dest: supply_after_ok av_gate_ok)

lemma serve_miss_ok: "outcome_ok (fst (serve_miss cfg en w r ref c))"
  by (auto simp: serve_miss_def after_download_ok split: sum.split option.split prod.split
      dest: supply_before_ok cve_gate_ok download_gate_ok)

text \<open>Every intercepted request ends in one telemetry event that tells what the client got: the
  event carries the status of the reply, it says pass or cache exactly when the reply
  streams an artifact with status 200, and a block is answered 403 or 423.\<close>

theorem outcome_matches_reply:
  "ev_HTTPStatus (snd (fst (serve_download cfg en w r ref c))) = rp_Status (fst (fst (serve_download cfg en w r ref c)))
   \<and> (if ev_Verdict (snd (fst (serve_download cfg en w r ref c))) \<in> {VerdictPass, VerdictCache}
      then rp_Status (fst (fst (serve_download cfg en w r ref c))) = 200
        \<and> (\<exists>b. rp_Body (fst (fst (serve_download cfg en w r ref c))) = Bytes b)
      else \<not> (\<exists>b. rp_Body (fst (fst (serve_download cfg en w r ref c))) = Bytes b))
   \<and> (if ev_Verdict (snd (fst (serve_download cfg en w r ref c))) = VerdictBlock
      then rp_Status (fst (fst (serve_download cfg en w r ref c))) \<in> {403, 423} else True)"
proof -
  have "outcome_ok (fst (serve_download cfg en w r ref c))"
    by (simp add: serve_download_def serve_hit_ok serve_miss_ok split: prod.split option.split)
  then show ?thesis by (simp add: outcome_ok_def)
qed

lemma supply_before_bytes: "supply_before cfg en w ref = Inl (rp, ev) \<Longrightarrow> rp_Body rp \<noteq> Bytes b"
  by (auto simp: supply_before_def checkSupplyChain_def fail_with_def Let_def split: if_splits sum.splits option.splits)

lemma cve_gate_bytes: "cve_gate cfg en w ref = Some (rp, ev) \<Longrightarrow> rp_Body rp \<noteq> Bytes b"
  by (auto simp: cve_gate_def fail_with_def Let_def split: if_splits sum.splits option.splits)

lemma download_gate_bytes: "download_gate cfg en w r ref c = (Inl (rp, ev), c1) \<Longrightarrow> rp_Body rp \<noteq> Bytes b"
  by (auto simp: download_gate_def fail_with_def Let_def split: if_splits sum.splits option.splits prod.splits)

lemma recheckExpired_bytes: "recheckExpired cfg en w ref entry c = (Some (rp, ev), c1) \<Longrightarrow> rp_Body rp \<noteq> Bytes b"
  by (auto simp: recheckExpired_def split: if_splits option.splits prod.splits)

section \<open>Against the contract of the cache\<close>

text \<open>
  What the handler needs of its surroundings: temporary files lie outside the cache, the
  size cap leaves room for the byte that detects an oversized body, and whatever runs
  between \<open>Put\<close> and the lookup keeps the cache well formed and only drops entries.
\<close>

definition env_ok ::
  "('c \<Rightarrow> bool) \<Rightarrow> ('c \<Rightarrow> contents) \<Rightarrow> (string \<Rightarrow> bool) \<Rightarrow> 'c handler_config \<Rightarrow> 'c req_env \<Rightarrow> bool" where
  "env_ok cache_ok held is_temp cfg en \<longleftrightarrow>
     temps_ok (en_services en) is_temp \<and> hc_MaxArtifactBytes cfg < max_int64
     \<and> (\<forall>c. cache_ok c \<longrightarrow> cache_ok (en_between en c) \<and> held (en_between en c) \<subseteq>\<^sub>m held c)"

context artifact_cache
begin

lemma download_loop_delivers:
  assumes "hc_Cache cfg = ops" "inv c" "temps_ok sv is_temp" "hc_MaxArtifactBytes cfg < max_int64"
    and "download_loop cfg sv urls atts c = (got, atts', c1)"
  shows "inv c1 \<and> contents c1 = contents c \<and>
    (\<forall>tmp hdr. got = Inr (tmp, hdr) \<longrightarrow>
       is_temp tmp \<and> (\<exists>b. delivered cfg sv urls tmp hdr b \<and> c_open ops c1 tmp = Some b))"
  using assms(2,5)
proof (induction urls arbitrary: atts c)
  case (Cons u us)
  obtain res hdr st c2 where t: "tryDownload cfg sv c u = (res, hdr, st, c2)" by (metis prod_cases4)
  show ?case
  proof (cases res)
    case (Inr tmp)
    with t tryDownload_ok [of cfg sv c u tmp hdr st c2] assms(4) obtain resp where
      resp: "sv_Do sv ''GET'' u no_header [] = Inr resp" "rs_StatusCode resp = 200" "rs_Header resp = hdr"
        "\<not> rs_BodyErr resp" "0 < hc_MaxArtifactBytes cfg \<longrightarrow> int (length (rs_Body resp)) \<le> hc_MaxArtifactBytes cfg"
        "sv_CreateTemp sv u = Inr tmp" "c2 = c_writeTemp ops c tmp (rs_Body resp)"
      by (auto simp: assms(1))
    have it: "is_temp tmp" using assms(3) resp(6) by (simp add: temps_ok_def)
    have "delivered cfg sv (u # us) tmp hdr (rs_Body resp)"
      unfolding delivered_def using resp by auto
    with temp_keeps [OF Cons.prems(1) it, of "rs_Body resp"] resp(7) it Cons.prems(2) t Inr
    show ?thesis by auto
  next
    case (Inl err)
    have "inv c2 \<and> contents c2 = contents c"
      using tryDownload_err_cases [of cfg sv c u err hdr st c2] t Inl Cons.prems(1) assms(1,3)
        temp_keeps remove_keeps by (fastforce simp: temps_ok_def)
    moreover have "delivered cfg sv us tmp hdr' b \<Longrightarrow> delivered cfg sv (u # us) tmp hdr' b" for tmp hdr' b
      by (auto simp: delivered_def)
    ultimately show ?thesis
      using Cons.IH [of c2 "atts_Add sv atts u st err"] Cons.prems(2) t Inl by (auto split: if_splits)
  qed
qed auto

text \<open>At most one entry is new: the given bytes, under the given reference, as clean.\<close>

definition adds_only :: "'c \<Rightarrow> 'c \<Rightarrow> package_ref \<Rightarrow> string \<Rightarrow> bool" where
  "adds_only c c' ref b \<longleftrightarrow> (\<forall>r' b' cl. contents c' r' = Some (b', cl) \<longrightarrow>
     contents c r' = Some (b', cl) \<or> r' = ref \<and> b' = b \<and> cl)"

lemma adds_only_le: "contents c' \<subseteq>\<^sub>m contents c \<Longrightarrow> adds_only c c' ref b"
  unfolding adds_only_def map_le_def by (metis domI)

lemma adds_only_put: "contents c' \<subseteq>\<^sub>m (contents c)(ref \<mapsto> (b, True)) \<Longrightarrow> adds_only c c' ref b"
  unfolding adds_only_def map_le_def by (metis domI fun_upd_apply option.inject prod.inject)

lemma download_gate_delivers:
  assumes "hc_Cache cfg = ops" "inv c" "env_ok inv contents is_temp cfg en" "download_gate cfg en w r ref c = (got, c1)"
  shows "inv c1 \<and> contents c1 = contents c \<and>
    (\<forall>tmp hdr. got = Inr (tmp, hdr) \<longrightarrow> is_temp tmp \<and>
       (\<exists>b. delivered cfg (en_services en) (ad_UpstreamURLs (hc_Adapter cfg) r) tmp hdr b \<and> c_open ops c1 tmp = Some b))"
proof (cases "ad_UpstreamURLs (hc_Adapter cfg) r = []")
  case True
  with assms(2,4) show ?thesis by (auto simp: download_gate_def)
next
  case False
  obtain g atts c2 where l: "download_loop cfg (en_services en) (ad_UpstreamURLs (hc_Adapter cfg) r) [] c = (g, atts, c2)"
    by (metis prod_cases3)
  have "c2 = c1" "\<forall>x. got = Inr x \<longrightarrow> g = Inr x"
    using False assms(4) l by (auto simp: download_gate_def downloadFromUpstreams_def Let_def split: sum.splits)
  with download_loop_delivers [OF assms(1,2) _ _ l] assms(3) show ?thesis by (auto simp: env_ok_def)
qed

lemma store_and_serve_stores:
  assumes "hc_Cache cfg = ops" "inv c" "ref \<in> known" "env_ok inv contents is_temp cfg en" "c_open ops c tmp = Some b"
    and "store_and_serve cfg en w ref tmp sc c = ((rp, ev), c')"
  shows "inv c' \<and> adds_only c c' ref b \<and> (\<forall>b'. rp_Body rp = Bytes b' \<longrightarrow> b' = b)"
proof -
  obtain err c1 where p: "c_put ops c ref tmp True [] (en_putTime en) = (err, c1)" by force
  show ?thesis
  proof (cases err)
    case True
    with p have "c_put ops c ref tmp True [] (en_putTime en) = (True, c1)" by simp
    from put_fails [OF assms(2,3) this] have "inv c1" "contents c1 \<subseteq>\<^sub>m contents c" by simp_all
    then show ?thesis
      using assms(1,6) p True by (auto simp: store_and_serve_def fail_with_def adds_only_le)
  next
    case False
    with p have "c_put ops c ref tmp True [] (en_putTime en) = (False, c1)" by simp
    from put_stores [OF assms(2,3) this] assms(5)
    have c1: "inv c1" "contents c1 = (contents c)(ref \<mapsto> (b, True))" by auto
    obtain x c2 where g: "c_get ops (en_between en c1) ref (en_reGetTime en) = (x, c2)" by force
    have bt: "inv (en_between en c1)" "contents (en_between en c1) \<subseteq>\<^sub>m contents c1"
      using assms(4) c1(1) by (auto simp: env_ok_def)
    have c2: "inv c2" "contents c2 = contents (en_between en c1)" using get_keeps [OF bt(1) g] by auto
    have le: "contents c2 \<subseteq>\<^sub>m (contents c)(ref \<mapsto> (b, True))" using bt(2) c1(2) c2(2) by simp
    have "x = Some e \<Longrightarrow> c_open ops c2 (ae_ArtifactPath e) = Some b" for e
    proof -
      assume "x = Some e"
      with get_hit [OF bt(1)] g obtain b' where
        "contents (en_between en c1) ref = Some (b', ae_ScanClean e)" "c_open ops c2 (ae_ArtifactPath e) = Some b'"
        by blast
      moreover from this le c2(2) have "b' = b" unfolding map_le_def by (metis domI fun_upd_same option.inject prod.inject)
      ultimately show ?thesis by simp
    qed
    then show ?thesis
      using assms(1,6) p False g c2(1) adds_only_put [OF le]
      by (auto simp: store_and_serve_def fail_with_def serveFromCache_def split: option.splits)
  qed
qed

lemma after_download_clears:
  assumes "hc_Cache cfg = ops" "inv c" "ref \<in> known" "env_ok inv contents is_temp cfg en"
    and "c_open ops c tmp = Some b" "is_temp tmp"
    and "after_download cfg en w ref tmp hdr sc0 c = ((rp, ev), c')" "supply_before cfg en w ref = Inr sc0"
  shows "inv c' \<and> (contents c' = contents c \<and> (\<forall>b'. rp_Body rp \<noteq> Bytes b') \<or>
    supply_cleared cfg en ref hdr \<and> av_cleared cfg tmp b \<and> adds_only c c' ref b \<and> (\<forall>b'. rp_Body rp = Bytes b' \<longrightarrow> b' = b))"
proof (cases "supply_after cfg en w ref hdr sc0")
  case (Inl out)
  with assms(1,7) have o: "out = (rp, ev)" "c' = c_remove ops c tmp" by (auto simp: after_download_def)
  with supply_after_ok [OF Inl] remove_keeps [OF assms(2,6)] Inl show ?thesis
    by (auto simp: supply_after_def checkSupplyChain_def Let_def split: option.splits if_splits)
next
  case (Inr sc)
  note cl = supply_stages_pass [OF assms(8) Inr]
  have op: "c_open (hc_Cache cfg) c tmp = Some b" using assms(1,5) by simp
  show ?thesis
  proof (cases "av_gate cfg en w ref tmp c")
    case (Some out)
    with assms(1,7) Inr have o: "out = (rp, ev)" "c' = c_remove ops c tmp" by (auto simp: after_download_def)
    have "\<forall>b'. rp_Body rp \<noteq> Bytes b'"
      using Some unfolding o(1) by (auto simp: av_gate_def fail_with_def split: option.splits sum.splits if_splits)
    with o remove_keeps [OF assms(2,6)] show ?thesis by simp
  next
    case None
    then have av: "av_cleared cfg tmp b" using av_gate_passes [OF op] by blast
    obtain out c2 where s: "store_and_serve cfg en w ref tmp sc c = (out, c2)" by (metis surj_pair)
    with assms(1,7) Inr None have o: "out = (rp, ev)" "c' = c_remove ops c2 tmp" by (auto simp: after_download_def)
    from store_and_serve_stores [OF assms(1-5)] s o(1)
    have st: "inv c2" "adds_only c c2 ref b" "\<forall>b'. rp_Body rp = Bytes b' \<longrightarrow> b' = b" by blast+
    with remove_keeps [OF st(1) assms(6)] o(2) cl av show ?thesis by (simp add: adds_only_def)
  qed
qed

lemma serve_miss_clears:
  assumes "hc_Cache cfg = ops" "inv c" "ref \<in> known" "env_ok inv contents is_temp cfg en"
    and "serve_miss cfg en w r ref c = ((rp, ev), c')"
  shows "inv c' \<and> (contents c' = contents c \<and> (\<forall>b. rp_Body rp \<noteq> Bytes b) \<or>
    (\<exists>b. cleared cfg en r ref b \<and> adds_only c c' ref b \<and> (\<forall>b'. rp_Body rp = Bytes b' \<longrightarrow> b' = b)))"
proof (cases "supply_before cfg en w ref")
  case (Inl out)
  then have "out = (rp, ev)" "c' = c" using assms(5) by (auto simp: serve_miss_def)
  with supply_before_bytes [of cfg en w ref rp ev] Inl assms(2) show ?thesis by simp
next
  case sc: (Inr sc)
  show ?thesis
  proof (cases "cve_gate cfg en w ref")
    case (Some out)
    then have "out = (rp, ev)" "c' = c" using assms(5) sc by (auto simp: serve_miss_def)
    with cve_gate_bytes [of cfg en w ref rp ev] Some assms(2) show ?thesis by simp
  next
    case cve: None
    obtain got c1 where d: "download_gate cfg en w r ref c = (got, c1)" by force
    have dl: "inv c1 \<and> contents c1 = contents c \<and>
      (\<forall>tmp hdr. got = Inr (tmp, hdr) \<longrightarrow> is_temp tmp \<and>
         (\<exists>b. delivered cfg (en_services en) (ad_UpstreamURLs (hc_Adapter cfg) r) tmp hdr b \<and> c_open ops c1 tmp = Some b))"
      using download_gate_delivers [OF assms(1,2,4) d] .
    show ?thesis
    proof (cases got)
      case (Inl out)
      then have "out = (rp, ev)" "c' = c1" using assms(5) sc cve d by (auto simp: serve_miss_def)
      with download_gate_bytes [of cfg en w r ref c rp ev c1] d Inl dl show ?thesis by auto
    next
      case (Inr th)
      obtain tmp hdr where th: "th = (tmp, hdr)" by force
      from dl Inr th obtain b where b: "is_temp tmp" "c_open ops c1 tmp = Some b"
        "delivered cfg (en_services en) (ad_UpstreamURLs (hc_Adapter cfg) r) tmp hdr b" by blast
      have a: "after_download cfg en w ref tmp hdr sc c1 = ((rp, ev), c')"
        using assms(5) sc cve d Inr th by (simp add: serve_miss_def)
      have i: "inv c1" "contents c1 = contents c" using dl by simp_all
      have "cleared cfg en r ref b" if "supply_cleared cfg en ref hdr" "av_cleared cfg tmp b"
        using that cve b(3) unfolding cve_gate_passes cleared_def by blast
      with after_download_clears [OF assms(1) i(1) assms(3,4) b(2,1) a sc] i(2)
      show ?thesis unfolding adds_only_def by metis
    qed
  qed
qed

lemma evict_drops:
  assumes "hc_Cache cfg = ops" "inv c" "ref \<in> known"
  shows "inv (evictRechecked cfg ref c) \<and> contents (evictRechecked cfg ref c) = (contents c)(ref := None)"
  using invalidate_drops [OF assms(2,3)] assms(1)
  by (cases "c_invalidate ops c ref") (auto simp: evictRechecked_def)

lemma recheck_cve_effect:
  assumes "hc_Cache cfg = ops" "inv c" "ref \<in> known" "recheck_cve cfg now ref entry c = (out, c1)"
  shows "inv c1 \<and> (case out of
      None \<Rightarrow> contents c1 = contents c \<and> c_open ops c1 = c_open ops c
    | Some _ \<Rightarrow> contents c1 = (contents c)(ref := None))"
  using assms(4) evict_drops [OF assms(1-3)] markCVE_keeps [OF assms(2), of ref now] assms(1,2)
  by (cases "c_markCVE ops c ref now")
     (auto simp: recheck_cve_def Let_def split: if_splits option.splits sum.splits)

lemma recheck_malware_effect:
  assumes "hc_Cache cfg = ops" "inv c" "ref \<in> known" "recheck_malware cfg now ref entry c = (out, c1)"
  shows "inv c1 \<and> (case out of
      None \<Rightarrow> contents c1 = contents c \<and> c_open ops c1 = c_open ops c
    | Some _ \<Rightarrow> contents c1 = (contents c)(ref := None))"
  using assms(4) evict_drops [OF assms(1-3)] markMalware_keeps [OF assms(2), of ref now] assms(1,2)
  by (cases "c_markMalware ops c ref now")
     (auto simp: recheck_malware_def Let_def split: if_splits option.splits sum.splits)

lemma runRechecks_effect:
  assumes "hc_Cache cfg = ops" "inv c" "ref \<in> known" "runRechecks cfg now ref entry c = (out, c1)"
  shows "inv c1 \<and> (case out of
      None \<Rightarrow> contents c1 = contents c \<and> c_open ops c1 = c_open ops c
    | Some _ \<Rightarrow> contents c1 = (contents c)(ref := None))"
proof -
  obtain o1 c2 where a: "recheck_cve cfg now ref entry c = (o1, c2)" by force
  note e1 = recheck_cve_effect [OF assms(1-3) a]
  show ?thesis
  proof (cases o1)
    case None
    with e1 have i: "inv c2" "contents c2 = contents c" "c_open ops c2 = c_open ops c" by simp_all
    have m: "recheck_malware cfg now ref entry c2 = (out, c1)" using assms(4) a None by (simp add: runRechecks_def)
    from recheck_malware_effect [OF assms(1) i(1) assms(3) m] i(2,3) show ?thesis by (cases out) simp_all
  next
    case (Some x)
    with assms(4) a e1 show ?thesis by (auto simp: runRechecks_def)
  qed
qed

lemma recheckExpired_effect:
  assumes "hc_Cache cfg = ops" "inv c" "ref \<in> known" "recheckExpired cfg en w ref entry c = (out, c1)"
  shows "inv c1 \<and> contents c1 \<subseteq>\<^sub>m contents c
    \<and> (out = None \<longrightarrow> contents c1 = contents c \<and> c_open ops c1 = c_open ops c)
    \<and> (out \<noteq> None \<and> en_flight en = None \<longrightarrow> contents c1 ref = None)"
proof (cases "recheckDue cfg (en_dueTime en) entry \<and> en_flight en = None")
  case True
  obtain x c2 where x: "runRechecks cfg (en_recheckTime en) ref entry c = (x, c2)" by force
  note e = runRechecks_effect [OF assms(1-3) x]
  have "c1 = c2" "out = None \<longleftrightarrow> x = None"
    using True assms(4) x by (auto simp: recheckExpired_def split: option.splits)
  with e show ?thesis by (cases x) (auto simp: map_le_def)
next
  case False
  with assms(4) assms(2) show ?thesis
    by (auto simp: recheckExpired_def map_le_def split: if_splits option.splits)
qed

lemma serve_hit_serves_stored:
  assumes "hc_Cache cfg = ops" "inv c" "ref \<in> known" "c_get ops c ref now = (Some entry, c1)"
    and "serve_hit cfg en w ref entry c1 = ((rp, ev), c')"
  shows "inv c' \<and> contents c' \<subseteq>\<^sub>m contents c \<and> (\<forall>b. rp_Body rp = Bytes b \<longrightarrow> contents c ref = Some (b, True))"
proof -
  have k: "inv c1" "contents c1 = contents c" using get_keeps [OF assms(2,4)] by auto
  obtain b where b: "contents c ref = Some (b, ae_ScanClean entry)" "c_open ops c1 (ae_ArtifactPath entry) = Some b"
    using get_hit [OF assms(2,4)] by blast
  show ?thesis
  proof (cases "ae_ScanClean entry")
    case False
    with assms(5) k show ?thesis by (auto simp: serve_hit_def)
  next
    case True
    obtain out c2 where re: "recheckExpired cfg en w ref entry c1 = (out, c2)" by (metis surj_pair)
    note e = recheckExpired_effect [OF assms(1) k(1) assms(3) re]
    show ?thesis
    proof (cases out)
      case (Some fin)
      with assms(5) True re have "fin = (rp, ev)" "c' = c2" by (auto simp: serve_hit_def)
      with recheckExpired_ok [of cfg en w ref entry c1 fin c2] re Some e k
        recheckExpired_bytes [of cfg en w ref entry c1 rp ev c2] show ?thesis by auto
    next
      case None
      with e have "c_open ops c2 (ae_ArtifactPath entry) = Some b" using b(2) by simp
      with assms(1,5) True re None e k b(1) show ?thesis
        by (auto simp: serve_hit_def serveFromCache_def)
    qed
  qed
qed

lemma serve_download_safe:
  assumes "hc_Cache cfg = ops" "inv c" "ref \<in> known" "env_ok inv contents is_temp cfg en"
    and "serve_download cfg en w r ref c = ((rp, ev), c')"
  shows "inv c'"
    and "contents c' r' = Some (b', cl) \<Longrightarrow> contents c r' = Some (b', cl) \<or> r' = ref \<and> cl \<and> cleared cfg en r ref b'"
    and "rp_Body rp = Bytes b \<Longrightarrow> contents c ref = Some (b, True) \<or> cleared cfg en r ref b"
proof -
  obtain x c1 where g: "c_get ops c ref (en_getTime en) = (x, c1)" by force
  have k: "inv c1" "contents c1 = contents c" using get_keeps [OF assms(2) g] by auto
  have "inv c' \<and> (contents c' r' = Some (b', cl) \<longrightarrow> contents c r' = Some (b', cl) \<or> r' = ref \<and> cl \<and> cleared cfg en r ref b')
    \<and> (rp_Body rp = Bytes b \<longrightarrow> contents c ref = Some (b, True) \<or> cleared cfg en r ref b)"
  proof (cases x)
    case None
    then have m: "serve_miss cfg en w r ref c1 = ((rp, ev), c')"
      using assms(1,5) g by (simp add: serve_download_def)
    from serve_miss_clears [OF assms(1) k(1) assms(3,4) m] k(2) show ?thesis
      unfolding adds_only_def by (elim conjE disjE exE) auto
  next
    case (Some entry)
    then have h: "serve_hit cfg en w ref entry c1 = ((rp, ev), c')"
      using assms(1,5) g by (simp add: serve_download_def)
    from serve_hit_serves_stored [OF assms(1-3) _ h] g Some show ?thesis
      unfolding map_le_def by (metis domI)
  qed
  then show "inv c'"
    and "contents c' r' = Some (b', cl) \<Longrightarrow> contents c r' = Some (b', cl) \<or> r' = ref \<and> cl \<and> cleared cfg en r ref b'"
    and "rp_Body rp = Bytes b \<Longrightarrow> contents c ref = Some (b, True) \<or> cleared cfg en r ref b"
    by blast+
qed

end

text \<open>
  A run of the handler: each request comes with the configuration and policy in force when
  it arrives, and finds the cache as the requests before it left it.
\<close>

record 'c download_request =
  dr_cfg :: "'c handler_config"
  dr_env :: "'c req_env"
  dr_w :: header
  dr_req :: http_request
  dr_ref :: package_ref

fun serve_all :: "'c download_request list \<Rightarrow> 'c \<Rightarrow> reply list \<times> 'c" where
  "serve_all [] c = ([], c)"
| "serve_all (q # qs) c =
     (let (out, c1) = serve_download (dr_cfg q) (dr_env q) (dr_w q) (dr_req q) (dr_ref q) c;
          (rps, c2) = serve_all qs c1
      in (fst out # rps, c2))"

definition q_cleared :: "'c download_request \<Rightarrow> package_ref \<Rightarrow> string \<Rightarrow> bool" where
  "q_cleared q ref b \<longleftrightarrow> dr_ref q = ref \<and> cleared (dr_cfg q) (dr_env q) (dr_req q) ref b"

context artifact_cache
begin

lemma serve_all_served_cleared:
  assumes "inv c" "\<forall>q\<in>set qs. hc_Cache (dr_cfg q) = ops \<and> dr_ref q \<in> known \<and> env_ok inv contents is_temp (dr_cfg q) (dr_env q)"
    and "serve_all qs c = (rps, c')"
  shows "length rps = length qs \<and>
    (\<forall>i b. i < length qs \<longrightarrow> rp_Body (rps ! i) = Bytes b \<longrightarrow>
       contents c (dr_ref (qs ! i)) = Some (b, True) \<or> (\<exists>j\<le>i. q_cleared (qs ! j) (dr_ref (qs ! i)) b))"
  using assms
proof (induction qs arbitrary: c rps)
  case (Cons q qs)
  obtain rp ev c1 where s: "serve_download (dr_cfg q) (dr_env q) (dr_w q) (dr_req q) (dr_ref q) c = ((rp, ev), c1)"
    by (metis surj_pair)
  obtain rps' where r: "rps = rp # rps'" "serve_all qs c1 = (rps', c')"
    using Cons.prems(3) s by (auto split: prod.splits)
  have pre: "hc_Cache (dr_cfg q) = ops" "dr_ref q \<in> known" "env_ok inv contents is_temp (dr_cfg q) (dr_env q)"
    using Cons.prems(2) by auto
  note safe = serve_download_safe [OF pre(1) Cons.prems(1) pre(2,3) s]
  have IH: "length rps' = length qs"
    "\<And>i b. i < length qs \<Longrightarrow> rp_Body (rps' ! i) = Bytes b \<Longrightarrow>
       contents c1 (dr_ref (qs ! i)) = Some (b, True) \<or> (\<exists>j\<le>i. q_cleared (qs ! j) (dr_ref (qs ! i)) b)"
    using Cons.IH [OF safe(1) _ r(2)] Cons.prems(2) by auto
  show ?case
  proof (intro conjI allI impI)
    show "length rps = length (q # qs)" by (simp add: r(1) IH(1))
  next
    fix i b assume i: "i < length (q # qs)" "rp_Body (rps ! i) = Bytes b"
    show "contents c (dr_ref ((q # qs) ! i)) = Some (b, True) \<or> (\<exists>j\<le>i. q_cleared ((q # qs) ! j) (dr_ref ((q # qs) ! i)) b)"
    proof (cases i)
      case 0
      with safe(3) [of b] i(2) show ?thesis by (auto simp: r(1) q_cleared_def)
    next
      case (Suc k)
      with i have "k < length qs" "rp_Body (rps' ! k) = Bytes b" by (auto simp: r(1))
      from IH(2) [OF this] safe(2) [of "dr_ref (qs ! k)" b True] show ?thesis
        unfolding Suc nth_Cons_Suc q_cleared_def
        by (metis Suc_le_mono nth_Cons_0 nth_Cons_Suc zero_le)
    qed
  qed
qed simp

end

text \<open>C1: No artifact leaves the proxy unchecked. Over any run of download requests on the local
  cache, the bytes a request streams were either in the cache as a clean entry of that very
  package when the run began, or were cleared by that request or an earlier one of the run
  for the same package: delivered whole by an upstream within the size cap, let through by
  the supply-chain filter, allowed by the policy on a successful CVE scan, and found clean
  by a complete malware scan of these bytes, as far as each gate is configured. Requests
  may each see another policy, scanner verdict and upstream.\<close>

theorem served_artifacts_were_cleared:
  assumes "lc_inv digest rootdir known lc"
    and "\<forall>q\<in>set qs. hc_Cache (dr_cfg q) = lc_ops digest io \<and> dr_ref q \<in> known
      \<and> env_ok (lc_inv digest rootdir known) stored (outside rootdir) (dr_cfg q) (dr_env q)"
    and "serve_all qs lc = (rps, lc')" "i < length qs" "rp_Body (rps ! i) = Bytes b"
  shows "stored lc (dr_ref (qs ! i)) = Some (b, True) \<or>
    (\<exists>j\<le>i. dr_ref (qs ! j) = dr_ref (qs ! i)
       \<and> cleared (dr_cfg (qs ! j)) (dr_env (qs ! j)) (dr_req (qs ! j)) (dr_ref (qs ! j)) b)"
  using lcache.serve_all_served_cleared [OF assms(1-3)] assms(4,5)
  unfolding q_cleared_def by metis

section \<open>A sample configuration\<close>

definition demo_adapter :: adapter where
  "demo_adapter = \<lparr>ad_NormalizeRequest = (\<lambda>_. Some sample_known),
     ad_FetchMetadata = (\<lambda>_. Inr \<lparr>pm_PublishedAt = 0, pm_Maintainer = [], pm_License = []\<rparr>),
     ad_UpstreamURLs = (\<lambda>_. [''u'']), ad_MetadataFromHeader = None, ad_IsArtifactPath = None,
     ad_IndexRewriter = None, ad_MetadataFilterer = None\<rparr>"

definition demo_finding :: cve_finding where
  "demo_finding = \<lparr>cf_ID = ''CVE-1'', cf_Aliases = [], cf_Severity = SeverityHigh, cf_Summary = [], cf_Score = 0\<rparr>"

text \<open>The filter lets everything through, the policy is the given one, the malware scanner flags
  the bytes \<open>bad\<close>.\<close>

definition demo_cfg :: "(package_ref \<Rightarrow> scan_result \<Rightarrow> policy_decision) \<Rightarrow> local_cache handler_config" where
  "demo_cfg evaluate = \<lparr>hc_Adapter = demo_adapter,
     hc_Filter = (\<lambda>now ref meta. \<lparr>fr_Allowed = True, fr_Reason = ''ok'', fr_PublishedAt = 0, fr_BlockUntil = 0\<rparr>),
     hc_Cache = lc_ops (\<lambda>s. s) good_io,
     hc_CVEScanner = Some (\<lambda>_. Inr \<lparr>sr_Clean = False, sr_Findings = [demo_finding], sr_ScanJSON = []\<rparr>),
     hc_Policy = Some evaluate,
     hc_AVScanner = Some (\<lambda>path b. Inr \<lparr>av_Clean = (b \<noteq> Some ''bad''), av_Signature = [], av_Engine = [], av_Incomplete = False\<rparr>),
     hc_Recorder = True, hc_CVERecheckTTL = Hour, hc_MalwareRecheckTTL = Hour, hc_MetadataFilterMaxMB = 0,
     hc_PublicBase = (\<lambda>_. Inr []), hc_IndexMaxMB = 0, hc_MaxArtifactBytes = 100, hc_Throttles = None\<rparr>"

definition allow_all :: "package_ref \<Rightarrow> scan_result \<Rightarrow> policy_decision" where
  "allow_all ref res = \<lparr>pd_Allowed = True, pd_Reason = ''allowed'', pd_Findings = []\<rparr>"


definition demo_services :: "string \<Rightarrow> services" where
  "demo_services body = \<lparr>sv_NewRequest = (\<lambda>_. None),
     sv_Do = (\<lambda>m u h b. Inr \<lparr>rs_StatusCode = 200, rs_Header = no_header, rs_ContentLength = -1, rs_Body = body, rs_BodyErr = False\<rparr>),
     sv_CreateTemp = (\<lambda>_. Inr ''/tmp/d''), sv_WriteErr = (\<lambda>_. None), sv_Since = (\<lambda>_. 0),
     sv_url_Parse = demo_parse, sv_url_String = u_Host\<rparr>"

definition demo_env :: "gotime \<Rightarrow> string \<Rightarrow> local_cache req_env" where
  "demo_env t body = \<lparr>en_RequestID = ''id'', en_services = demo_services body, en_getTime = t, en_dueTime = t,
     en_recheckTime = t, en_filterTime = t, en_putTime = t, en_reGetTime = t, en_eventTime = t, en_latencyMS = 0,
     en_flight = None, en_between = (\<lambda>c. c)\<rparr>"

definition demo_request :: http_request where
  "demo_request = \<lparr>rq_Method = ''GET'', rq_Path = ''/a'', rq_URI = ''/a'', rq_Header = no_header, rq_Body = None,
     rq_BodyErr = False, rq_RoutePrefix = ''npm''\<rparr>"

definition demo_download :: "gotime \<Rightarrow> (package_ref \<Rightarrow> scan_result \<Rightarrow> policy_decision) \<Rightarrow> string \<Rightarrow> local_cache download_request" where
  "demo_download t evaluate body = \<lparr>dr_cfg = demo_cfg evaluate, dr_env = demo_env t body, dr_w = no_header,
     dr_req = demo_request, dr_ref = sample_known\<rparr>"

lemmas demo_defs = demo_cfg_def demo_adapter_def demo_services_def demo_env_def demo_request_def demo_download_def
  good_io_def allow_all_def

lemma demo_env_ok: "env_ok ok held (outside ''/c'') (demo_cfg e) (demo_env t body)"
  by (simp add: env_ok_def temps_ok_def demo_defs outside_def max_int64_def has_prefix_def)

lemma demo_cache [simp]: "hc_Cache (demo_cfg e) = lc_ops (\<lambda>s. s) good_io"
  by (simp add: demo_cfg_def)

text \<open>Two requests a second apart: the first misses and is stored; the second is a hit, and
  serves what the first one stored although its own upstream would deliver malware.\<close>

definition demo_two :: "local_cache download_request list" where
  "demo_two = [demo_download 0 allow_all ''good'', demo_download Second allow_all ''bad'']"

theorem served_artifacts_were_cleared_witness:
  "rp_Body (fst (serve_all demo_two sample_lc) ! 1) = Bytes ''good'' \<and>
   (\<exists>j\<le>1. cleared (dr_cfg (demo_two ! j)) (dr_env (demo_two ! j)) (dr_req (demo_two ! j)) (dr_ref (demo_two ! j)) ''good'')"
proof -
  obtain rps lc' where s: "serve_all demo_two sample_lc = (rps, lc')" by force
  have "rp_Body (fst (serve_all demo_two sample_lc) ! 1) = Bytes ''good''" by code_simp
  then have b: "rp_Body (rps ! 1) = Bytes ''good''" by (simp add: s)
  have q: "\<forall>q\<in>set demo_two. hc_Cache (dr_cfg q) = lc_ops (\<lambda>s. s) good_io \<and> dr_ref q \<in> {sample_known}
      \<and> env_ok (lc_inv (\<lambda>s. s) ''/c'' {sample_known}) stored (outside ''/c'') (dr_cfg q) (dr_env q)"
    by (simp add: demo_two_def demo_download_def demo_env_ok)
  have "stored sample_lc (dr_ref (demo_two ! 1)) = None"
    by (simp add: stored_def sample_lc_def find_row_def)
  moreover have "1 < length demo_two" by (simp add: demo_two_def)
  ultimately show ?thesis
    using served_artifacts_were_cleared [OF sample_lc_inv q s _ b] b by (auto simp: s)
qed

section \<open>Failing closed\<close>

text \<open>C2: The proxy fails closed: a request for a package that is not stored gets no bytes and
  leaves the stored artifacts as they are whenever the gates do not clear what the mirrors
  deliver, be it that a mirror fails, a scanner is unreachable or gives up, or a gate says
  no; the reply is then not a 200.\<close>

theorem uncleared_package_not_served:
  assumes "lc_inv digest rootdir known lc" "ref \<in> known" "hc_Cache cfg = lc_ops digest io"
    and "env_ok (lc_inv digest rootdir known) stored (outside rootdir) cfg en"
    and "stored lc ref = None" "\<not> (\<exists>b. cleared cfg en r ref b)"
    and "serve_download cfg en w r ref lc = ((rp, ev), lc')"
  shows "(\<forall>b. rp_Body rp \<noteq> Bytes b) \<and> stored lc' = stored lc \<and> ev_Verdict ev \<in> {VerdictBlock, VerdictError}"
proof -
  obtain x lc1 where g: "c_get (lc_ops digest io) lc ref (en_getTime en) = (x, lc1)" by force
  have "x = None" using lcache.get_hit [OF assms(1)] g assms(5) by (cases x) fastforce+
  with g assms(3,7) have m: "serve_miss cfg en w r ref lc1 = ((rp, ev), lc')" by (simp add: serve_download_def)
  have k: "lc_inv digest rootdir known lc1" "stored lc1 = stored lc" using lcache.get_keeps [OF assms(1) g] by auto
  from lcache.serve_miss_clears [OF assms(3) k(1) assms(2,4) m] assms(6) k(2)
  have n: "\<forall>b. rp_Body rp \<noteq> Bytes b" "stored lc' = stored lc" by auto
  have "outcome_ok (rp, ev)" using serve_miss_ok [of cfg en w r ref lc1] m by simp
  with n(1) have "ev_Verdict ev \<notin> {VerdictPass, VerdictCache}" by (auto simp: outcome_ok_def)
  then have "ev_Verdict ev \<in> {VerdictBlock, VerdictError}" by (cases "ev_Verdict ev") auto
  with n show ?thesis by simp
qed

theorem uncleared_package_not_served_witness:
  "stored (snd (serve_download (demo_cfg allow_all) (demo_env 0 ''bad'') no_header demo_request sample_known sample_lc))
     = stored sample_lc"
proof -
  obtain rp ev lc' where s: "serve_download (demo_cfg allow_all) (demo_env 0 ''bad'') no_header demo_request sample_known sample_lc
      = ((rp, ev), lc')" by (metis surj_pair)
  have "\<not> (\<exists>b. cleared (demo_cfg allow_all) (demo_env 0 ''bad'') demo_request sample_known b)"
    by (auto simp: cleared_def delivered_def av_cleared_def demo_defs)
  moreover have "stored sample_lc sample_known = None" by (simp add: stored_def sample_lc_def find_row_def)
  ultimately show ?thesis
    using uncleared_package_not_served [OF sample_lc_inv _ demo_cache demo_env_ok _ _ s] by (simp add: s)
qed

section \<open>Re-checks\<close>


definition demo_lc1 :: local_cache where
  "demo_lc1 = snd (serve_download (demo_cfg allow_all) (demo_env 0 ''good'') no_header demo_request sample_known sample_lc)"

lemma demo_lc1_inv: "lc_inv (\<lambda>s. s) ''/c'' {sample_known} demo_lc1"
proof -
  obtain rp ev lc' where s: "serve_download (demo_cfg allow_all) (demo_env 0 ''good'') no_header demo_request sample_known sample_lc
      = ((rp, ev), lc')" by (metis surj_pair)
  from lcache.serve_download_safe(1) [OF demo_cache sample_lc_inv _ demo_env_ok s]
  show ?thesis by (simp add: demo_lc1_def s)
qed


text \<open>A scanner outage does not take cached artifacts away: when a hit's re-checks are due but the
  scanners only answer with errors (or a malware scan that gives up), the clean entry is
  served, and the cache is left as the lookup left it, so that the check stays due and the
  next hit tries again.\<close>

theorem recheck_outage_serves_stale:
  assumes "lc_inv digest rootdir known lc" "hc_Cache cfg = lc_ops digest io"
    and "ac_Get lc ref (en_getTime en) = (Some entry, lc1)" "ae_ScanClean entry" "en_flight en = None"
    and "\<forall>scan. hc_CVEScanner cfg = Some scan \<longrightarrow> (\<exists>e. scan ref = Inl e)"
    and "\<forall>scan p b av. hc_AVScanner cfg = Some scan \<longrightarrow> scan p b = Inr av \<longrightarrow> av_Incomplete av"
    and "serve_download cfg en w r ref lc = ((rp, ev), lc')"
  shows "\<exists>b. stored lc ref = Some (b, True) \<and> rp_Status rp = 200 \<and> rp_Body rp = Bytes b \<and> lc' = lc1"
proof -
  have g: "c_get (lc_ops digest io) lc ref (en_getTime en) = (Some entry, lc1)" using assms(3) by (simp add: lc_ops_def)
  have h: "serve_hit cfg en w ref entry lc1 = ((rp, ev), lc')"
    using assms(2,8) g by (simp add: serve_download_def)
  obtain b where b: "stored lc ref = Some (b, ae_ScanClean entry)"
      "c_open (lc_ops digest io) lc1 (ae_ArtifactPath entry) = Some b"
    using lcache.get_hit [OF assms(1) g] by blast
  have c: "recheck_cve cfg now ref entry lc1 = (None, lc1)" for now
    using assms(6) by (auto simp: recheck_cve_def split: option.split)
  have m: "recheck_malware cfg now ref entry lc1 = (None, lc1)" for now
    using assms(7) by (auto simp: recheck_malware_def split: option.split sum.split)
  have "recheckExpired cfg en w ref entry lc1 = (None, lc1)"
    using assms(5) by (simp add: recheckExpired_def runRechecks_def c m)
  with h b assms(2,4) show ?thesis by (auto simp: serve_hit_def serveFromCache_def)
qed

definition demo_down :: "local_cache handler_config" where
  "demo_down = (demo_cfg allow_all)\<lparr>hc_CVEScanner := Some (\<lambda>_. Inl (Plain ''down'')),
     hc_AVScanner := Some (\<lambda>_ _. Inl (Plain ''down''))\<rparr>"

theorem recheck_outage_serves_stale_witness:
  "\<exists>b. rp_Body (fst (fst (serve_download demo_down (demo_env (2 * Hour) []) no_header demo_request sample_known demo_lc1))) = Bytes b"
proof -
  let ?en = "demo_env (2 * Hour) []"
  obtain x lc1 where g: "ac_Get demo_lc1 sample_known (2 * Hour) = (x, lc1)" by force
  have "case fst (ac_Get demo_lc1 sample_known (2 * Hour)) of None \<Rightarrow> False | Some e \<Rightarrow> ae_ScanClean e" by code_simp
  then obtain e where e: "x = Some e" "ae_ScanClean e" by (auto simp: g split: option.splits)
  obtain rp ev lc' where s: "serve_download demo_down ?en no_header demo_request sample_known demo_lc1 = ((rp, ev), lc')"
    by (metis surj_pair)
  have "\<exists>b. stored demo_lc1 sample_known = Some (b, True) \<and> rp_Status rp = 200 \<and> rp_Body rp = Bytes b \<and> lc' = lc1"
    by (rule recheck_outage_serves_stale [OF demo_lc1_inv _ _ e(2) _ _ _ s])
       (use g e in \<open>simp_all add: demo_down_def demo_env_def\<close>)
  then show ?thesis by (auto simp: s)
qed

section \<open>Failed downloads\<close>

text \<open>Every mirror that fails is recorded once, in order, with its status; an oversized artifact
  ends the loop and is the only way to that error.\<close>

lemma download_loop_fails:
  assumes "download_loop cfg sv urls atts c = (Inl err, atts', c1)"
    and "\<forall>a\<in>set atts. \<forall>e. at_Err a = Some e \<longrightarrow> \<not> errors_Is e ErrArtifactTooLarge"
  shows "if errors_Is err ErrArtifactTooLarge then length atts' < length atts + length urls
    else err = AttemptsError atts' \<and> length atts' = length atts + length urls"
  using assms
proof (induction urls arbitrary: atts c)
  case Nil
  then show ?case by (auto simp del: errors_Is.simps simp: errors_Is_attempts)
next
  case (Cons u us)
  obtain res hdr st c2 where t: "tryDownload cfg sv c u = (res, hdr, st, c2)" by (metis prod_cases4)
  from Cons.prems(1) t obtain e where e: "res = Inl e" by (cases res) auto
  show ?case
  proof (cases "errors_Is e ErrArtifactTooLarge")
    case True
    with Cons.prems(1) t e show ?thesis by auto
  next
    case False
    then have "\<forall>a\<in>set (atts_Add sv atts u st e). \<forall>x. at_Err a = Some x \<longrightarrow> \<not> errors_Is x ErrArtifactTooLarge"
      using Cons.prems(2) by (auto simp: atts_Add_def Attempts_Add_def)
    from Cons.IH [OF _ this, of c2] Cons.prems(1) t e False show ?thesis
      by (auto simp: atts_Add_def Attempts_Add_def)
  qed
qed

text \<open>A download that fails on every mirror is answered by what the mirrors said: after the gates
  before it passed, the request ends with 403 for an artifact over the size cap, 404 when all
  of the mirrors, every one of them asked, answered not-found, the throttle status when the
  others were throttled, and 502 otherwise; nothing is served and no upstream answer is
  mistaken for absence.\<close>

theorem download_failure_status:
  assumes "c_get (hc_Cache cfg) c ref (en_getTime en) = (None, c1)"
    and "supply_before cfg en w ref = Inr sc" "cve_gate cfg en w ref = None"
    and "ad_UpstreamURLs (hc_Adapter cfg) r = urls" "urls \<noteq> []"
    and "downloadFromUpstreams cfg (en_services en) urls c1 = (Inl err, atts, c2)"
    and "serve_download cfg en w r ref c = ((rp, ev), c')"
  shows "ev_Verdict ev = VerdictError \<and> (\<forall>b. rp_Body rp \<noteq> Bytes b) \<and> c' = c2
    \<and> rp_Status rp =
      (if errors_Is err ErrArtifactTooLarge then 403
       else if list_all not_found atts then 404
       else case Throttled (sv_url_Parse (en_services en)) (hc_Throttles cfg) atts of
         Some (status, _) \<Rightarrow> status | None \<Rightarrow> 502)
    \<and> (errors_Is err ErrArtifactTooLarge \<or> length atts = length urls)"
proof -
  have out: "download_gate cfg en w r ref c1 = (Inl (rp, ev), c')"
    using assms(1-6,7) by (auto simp: serve_download_def serve_miss_def download_gate_def Let_def)
  have len: "errors_Is err ErrArtifactTooLarge \<or> length atts = length urls"
    using download_loop_fails [of cfg "en_services en" urls "[]" c1 err atts c2] assms(6)
    by (auto simp: downloadFromUpstreams_def split: if_splits)
  have nf: "\<not> errors_Is err ErrArtifactTooLarge \<Longrightarrow> AllNotFound atts \<longleftrightarrow> list_all not_found atts"
    using len assms(5) by (auto simp: AllNotFound_def not_found_def [abs_def])
  have "c' = c2 \<and> (rp, ev) =
      (if errors_Is err ErrArtifactTooLarge then fail_with en w ref GateCache ''artifact_too_large'' 403
       else if list_all not_found atts then fail_with en w ref GateSupply ''artifact_not_found'' 404
       else case Throttled (sv_url_Parse (en_services en)) (hc_Throttles cfg) atts of
         Some (status, retry) \<Rightarrow> fail_with en (SetRetryAfter w retry) ref GateSupply ''upstream_throttled'' status
       | None \<Rightarrow> fail_with en w ref GateSupply ''upstream_unavailable'' 502)"
    using out assms(4-6) nf by (auto simp: download_gate_def Let_def)
  with len show ?thesis
    by (auto simp: fail_with_def split: if_splits option.splits)
qed

definition demo_missing :: services where
  "demo_missing = (demo_services [])\<lparr>sv_Do := (\<lambda>m u h b. Inr \<lparr>rs_StatusCode = 404, rs_Header = no_header,
     rs_ContentLength = -1, rs_Body = [], rs_BodyErr = False\<rparr>)\<rparr>"

theorem download_failure_status_witness:
  "rp_Status (fst (fst (serve_download (demo_cfg allow_all) ((demo_env 0 [])\<lparr>en_services := demo_missing\<rparr>) no_header
     demo_request sample_known sample_lc))) = 404"
proof -
  let ?en = "(demo_env 0 [])\<lparr>en_services := demo_missing\<rparr>"
  let ?atts = "[Attempt ''u'' 404 (Some (Plain (''upstream returned HTTP '' @ FormatInt 404 @ '' for u''))) 0]"
  obtain rp ev c' where s: "serve_download (demo_cfg allow_all) ?en no_header demo_request sample_known sample_lc
      = ((rp, ev), c')" by (metis surj_pair)
  have d: "downloadFromUpstreams (demo_cfg allow_all) (en_services ?en) [''u''] sample_lc = (Inl (AttemptsError ?atts), ?atts, sample_lc)"
    by (simp add: downloadFromUpstreams_def tryDownload_def demo_missing_def demo_services_def SanitizeURL_def
        demo_parse_def atts_Add_def Attempts_Add_def)
  have g: "c_get (hc_Cache (demo_cfg allow_all)) sample_lc sample_known (en_getTime ?en) = (None, sample_lc)"
    by (simp add: lc_ops_def ac_Get_def lc_Get_def Index_Get_def sample_lc_def find_row_def)
  have p: "\<exists>sc. supply_before (demo_cfg allow_all) ?en no_header sample_known = Inr sc"
    by (simp add: supply_before_def demo_cfg_def demo_adapter_def checkSupplyChain_def)
  then obtain sc where p: "supply_before (demo_cfg allow_all) ?en no_header sample_known = Inr sc" ..
  have c: "cve_gate (demo_cfg allow_all) ?en no_header sample_known = None"
    by (simp add: cve_gate_def demo_cfg_def allow_all_def)
  have u: "ad_UpstreamURLs (hc_Adapter (demo_cfg allow_all)) demo_request = [''u'']"
    by (simp add: demo_cfg_def demo_adapter_def)
  from download_failure_status [OF g p c u _ d s] show ?thesis by (simp add: s not_found_def)
qed

end
