(* ===== verification/Proxy_Metadata_Correct.thy ===== *)
theory Proxy_Metadata_Correct
  imports Proxy_Metadata Proxy_Handler_Correct Policy_Engine Supply_Chain
begin

text \<open>
  What holds of the documents the proxy serves: links never lead around the gates, the
  versions hidden from a resolver are versions the download would refuse, and one caller
  never receives a document fetched with another's credentials.
\<close>

section \<open>Only rewritten documents are served\<close>

text \<open>The bytes of a document as the client gets them: as they are, or compressed for a client
  that asked for it.\<close>

definition sent_as :: "codecs \<Rightarrow> http_request \<Rightarrow> string \<Rightarrow> string \<Rightarrow> bool" where
  "sent_as cd r body b \<longleftrightarrow> b = body \<or> clientAcceptsGzip cd r \<and> cd_gzip cd body = Some b"

lemma writeMetadataDocument_body:
  "rp_Body (writeMetadataDocument cd w r h s body tag) = Bytes b \<Longrightarrow> sent_as cd r body b"
  by (auto simp: writeMetadataDocument_def sent_as_def Let_def split: option.splits if_splits)

lemma writeForwardError_no_bytes [simp]: "rp_Body (writeForwardError cfg sv w atts err) \<noteq> Bytes b"
  by (simp add: writeForwardError_def Let_def split: option.split prod.split)

lemma document_errors_no_bytes [simp]:
  "rp_Body (failIndex w) \<noteq> Bytes b" "rp_Body (failMetadata w) \<noteq> Bytes b" "rp_Body (writeJSONError w s code) \<noteq> Bytes b"
  by (simp_all add: failIndex_def failMetadata_def writeJSONError_def)

text \<open>An index document is served only rewritten: when an adapter that rewrites indexes gets an
  index request, a 200 with a body carries exactly the document the adapter made of an
  upstream document that was read whole, so no link in it was left as the upstream wrote it.\<close>

theorem index_served_only_rewritten:
  assumes "ad_NormalizeRequest (hc_Adapter cfg) r = None"
    and "\<forall>m. ad_IsArtifactPath (hc_Adapter cfg) = Some m \<longrightarrow> \<not> m r"
    and "ad_IndexRewriter (hc_Adapter cfg) = Some rw" "iw_IsIndexRequest rw r"
    and "ServeHTTP cfg se w r c = (rp, evs, c')" "rp_Status rp = 200" "rp_Body rp = Bytes b"
  shows "\<exists>resp d out. fst (forwardUpstream cfg (en_services se) (outbound_request r)) = Some resp
    \<and> rs_StatusCode resp = 200
    \<and> iw_RewriteIndex rw d (hdr_Get (rs_Header resp) ''Content-Type'') (rq_Path r) = Inr out
    \<and> sent_as (se_codecs se) r (ir_Body out) b"
proof -
  let ?cd = "se_codecs se"
  have s: "rp = proxyIndex cfg (en_services se) ?cd w r rw"
    using assms(1-5) by (auto simp: ServeHTTP_def Let_def split: option.splits)
  obtain resp atts err where f: "forwardUpstream cfg (en_services se) (outbound_request r) = (Some resp, atts, err)"
    using assms(7) unfolding s proxyIndex_def by (auto split: prod.splits option.splits)
  have ok: "rs_StatusCode resp = 200"
    using assms(6,7) unfolding s proxyIndex_def f by (auto split: if_splits)
  have "\<exists>d out. iw_RewriteIndex rw d (hdr_Get (rs_Header resp) ''Content-Type'') (rq_Path r) = Inr out \<and> sent_as ?cd r (ir_Body out) b"
    using assms(7) unfolding s proxyIndex_def f
    by (auto simp: ok Let_def split: read_result.splits sum.splits if_splits dest!: writeMetadataDocument_body)
  with f ok show ?thesis by auto
qed

text \<open>A request that joins a fetch takes what the leader got for a request with the same key.\<close>

definition joined_flight :: "'c handler_config \<Rightarrow> codecs \<Rightarrow> http_request \<Rightarrow> fetch_result option \<Rightarrow> bool" where
  "joined_flight cfg cd r flight \<longleftrightarrow>
     (\<forall>res. flight = Some res \<longrightarrow>
        (\<exists>sv r0. metadata_key cd r0 = metadata_key cd r \<and> res = fetch_flight cfg sv cd (outbound_request r0) (metadataLimit cfg)))"

lemma fetch_flight_document:
  assumes "fetch_flight cfg sv cd q limit = (Some fetch, atts, None)" "mf_status fetch \<noteq> 204"
  shows "\<exists>resp. fst (forwardUpstream cfg sv q) = Some resp \<and> rs_StatusCode resp = 200 \<and> readMetadataDocument cd resp limit = Doc (mf_doc fetch)"
  using assms by (auto simp: fetch_flight_def split: prod.splits option.splits if_splits read_result.splits)

lemma fetched_document:
  assumes "fetchMetadataDocument cfg sv cd flight (outbound_request r) (metadataLimit cfg) = (Some fetch, atts, None)" "mf_status fetch \<noteq> 204"
    and "joined_flight cfg cd r flight"
  obtains sv0 r0 resp where "metadata_key cd r0 = metadata_key cd r" "flight = None \<longrightarrow> sv0 = sv \<and> r0 = r"
    "fst (forwardUpstream cfg sv0 (outbound_request r0)) = Some resp" "rs_StatusCode resp = 200"
    "readMetadataDocument cd resp (metadataLimit cfg) = Doc (mf_doc fetch)"
proof (cases flight)
  case None
  then have "fetch_flight cfg sv cd (outbound_request r) (metadataLimit cfg) = (Some fetch, atts, None)"
    using assms(1) by (simp add: fetchMetadataDocument_def)
  from fetch_flight_document [OF this assms(2)] that [of r sv] show thesis by auto
next
  case (Some res)
  with assms(1,3) obtain sv0 r0 where k: "metadata_key cd r0 = metadata_key cd r"
    "fetch_flight cfg sv0 cd (outbound_request r0) (metadataLimit cfg) = (Some fetch, atts, None)"
    by (auto simp: fetchMetadataDocument_def joined_flight_def)
  from fetch_flight_document [OF k(2) assms(2)] Some k(1) that [of r0 sv0] show thesis by auto
qed

text \<open>C9: A metadata document is served only filtered and rewritten: whenever a request the adapter
  recognises as a metadata request gets a body, a mirror answered 200 to this request (or to a concurrent one for the same document with
  the same credentials, whose fetch it joined), the document was read whole within the size limit, and the body is what the adapter
  made of that document with this proxy's own version decision and with links under the address the
  client used.\<close>

theorem metadata_served_only_filtered:
  assumes "ad_NormalizeRequest (hc_Adapter cfg) r = None"
    and "\<forall>m. ad_IsArtifactPath (hc_Adapter cfg) = Some m \<longrightarrow> \<not> m r" "\<forall>rw. ad_IndexRewriter (hc_Adapter cfg) = Some rw \<longrightarrow> \<not> iw_IsIndexRequest rw r"
    and "ad_MetadataFilterer (hc_Adapter cfg) = Some filterer" "mf_NormalizeMetadataRequest filterer r = Some mref"
    and "joined_flight cfg (se_codecs se) r (se_metaFlight se)"
    and "ServeHTTP cfg se w r c = (rp, evs, c')" "rp_Body rp = Bytes b"
  shows "\<exists>sv r0 resp d base filtered. metadata_key (se_codecs se) r0 = metadata_key (se_codecs se) r
    \<and> (se_metaFlight se = None \<longrightarrow> sv = en_services se \<and> r0 = r)
    \<and> fst (forwardUpstream cfg sv (outbound_request r0)) = Some resp \<and> rs_StatusCode resp = 200
    \<and> readMetadataDocument (se_codecs se) resp (metadataLimit cfg) = Doc d
    \<and> hc_PublicBase cfg r = Inr base
    \<and> mf_FilterVersions filterer d mref (versionDecider cfg (en_filterTime se) mref)
        (if rq_RoutePrefix r \<noteq> [] then base @ ''/'' @ rq_RoutePrefix r else base) = Inr filtered
    \<and> sent_as (se_codecs se) r (fd_Body filtered) b"
proof -
  let ?cd = "se_codecs se"
  have s: "rp = proxyMetadata cfg (en_services se) ?cd (se_metaFlight se) (en_filterTime se) w r mref"
    using assms(1-5,7) by (auto simp: ServeHTTP_def Let_def metadataFilterRef_def split: option.splits)
  obtain base where base: "hc_PublicBase cfg r = Inr base"
    using assms(4,8) unfolding s proxyMetadata_def by (auto split: sum.splits)
  obtain fo atts err where f: "fetchMetadataDocument cfg (en_services se) ?cd (se_metaFlight se)
      (outbound_request r) (metadataLimit cfg) = (fo, atts, err)" by (metis prod_cases3)
  let ?link = "if rq_RoutePrefix r \<noteq> [] then base @ ''/'' @ rq_RoutePrefix r else base"
  note body = assms(8) [unfolded s proxyMetadata_def assms(4) base Let_def option.case sum.case f prod.case]
  obtain fetch where fo: "fo = Some fetch" "err = None" using body by (cases fo; cases err) (simp_all split: if_splits)
  note body = body [unfolded fo option.case]
  have st: "mf_status fetch \<noteq> 204" using body by (cases "mf_status fetch = 204") simp_all
  obtain filtered where d: "mf_FilterVersions filterer (mf_doc fetch) mref (versionDecider cfg (en_filterTime se) mref) ?link = Inr filtered"
    using body st by (cases "mf_FilterVersions filterer (mf_doc fetch) mref (versionDecider cfg (en_filterTime se) mref) ?link") simp_all
  then have sent: "sent_as ?cd r (fd_Body filtered) b"
    using body st by (auto split: if_splits dest: writeMetadataDocument_body)
  obtain sv0 r0 resp where q: "metadata_key ?cd r0 = metadata_key ?cd r" "se_metaFlight se = None \<longrightarrow> sv0 = en_services se \<and> r0 = r"
    "fst (forwardUpstream cfg sv0 (outbound_request r0)) = Some resp" "rs_StatusCode resp = 200"
    "readMetadataDocument ?cd resp (metadataLimit cfg) = Doc (mf_doc fetch)"
    by (rule fetched_document [OF f [unfolded fo] st assms(6)])
  show ?thesis by (intro exI conjI, fact q(1), fact q(2), fact q(3), fact q(4), fact q(5), fact base, fact d, fact sent)
qed

section \<open>Sample documents\<close>

definition demo_codecs :: codecs where
  "demo_codecs = \<lparr>cd_sha256hex = (\<lambda>s. CHR ''h'' # s), cd_gunzip_opens = (\<lambda>_. False), cd_gunzip = (\<lambda>s. s),
     cd_gunzip_err = (\<lambda>_. False), cd_gzip = (\<lambda>_. None), cd_zero_q = (\<lambda>_. False)\<rparr>"

definition demo_rewriter :: index_rewriter where
  "demo_rewriter = \<lparr>iw_IsIndexRequest = (\<lambda>_. True),
     iw_RewriteIndex = (\<lambda>d ct path. Inr \<lparr>ir_Body = ''rewritten '' @ d, ir_Rewritten = 1, ir_Dropped = []\<rparr>)\<rparr>"

definition demo_filterer :: metadata_filterer where
  "demo_filterer = \<lparr>mf_NormalizeMetadataRequest = (\<lambda>_. Some \<lparr>mr_Ecosystem = ''npm'', mr_Name = ''a'', mr_Version = []\<rparr>),
     mf_FilterVersions = (\<lambda>d mref decide base. Inr \<lparr>fd_Body = base @ d, fd_Removed = [], fd_Unmappable = [], fd_AllRejected = False\<rparr>)\<rparr>"

definition demo_docs :: "index_rewriter option \<Rightarrow> local_cache handler_config" where
  "demo_docs rw = (demo_cfg allow_all)\<lparr>hc_Adapter := demo_adapter\<lparr>ad_NormalizeRequest := (\<lambda>_. None),
     ad_IndexRewriter := rw, ad_MetadataFilterer := Some demo_filterer\<rparr>, hc_PublicBase := (\<lambda>_. Inr ''http://p'')\<rparr>"

definition demo_serve :: "string \<Rightarrow> local_cache serve_env" where
  "demo_serve body = req_env.extend (demo_env 0 body) (serve_env.fields demo_codecs None)"

lemma read_plain:
  assumes "trim_space (hdr_Get (rs_Header resp) ''Content-Encoding'') = []" "\<not> rs_BodyErr resp"
    and "0 < limit" "limit < max_int64" "int (length (rs_Body resp)) \<le> limit"
  shows "readMetadataDocument cd resp limit = Doc (rs_Body resp)"
proof -
  have "wrap64 (limit + 1) = limit + 1" using assms(3,4) by (intro wrap64_id) (auto simp: min_int64_def)
  then show ?thesis using assms by (simp add: readMetadataDocument_def)
qed

lemma demo_forward:
  "forwardUpstream (demo_docs rw) (demo_services body) r =
     (if rq_Body r \<noteq> None \<and> rq_BodyErr r then (None, [], Some (Sentinel ErrUnreadableRequestBody))
      else (Some \<lparr>rs_StatusCode = 200, rs_Header = no_header, rs_ContentLength = -1, rs_Body = body, rs_BodyErr = False\<rparr>, [], None))"
  by (simp add: forwardUpstream_def demo_docs_def demo_adapter_def demo_services_def Let_def)

lemma demo_no_gzip: "clientAcceptsGzip demo_codecs demo_request = False" "etagMatches [] (dquote @ s) = False"
  by (simp_all add: clientAcceptsGzip_def demo_request_def hdr_Get_def no_header_def equal_fold_def etagMatches_def dquote_def)

lemma demo_serve_fields [simp]:
  "en_services (demo_serve b) = demo_services b" "se_codecs (demo_serve b) = demo_codecs"
  "se_metaFlight (demo_serve b) = None" "en_filterTime (demo_serve b) = 0"
  by (simp_all add: demo_serve_def serve_env.defs req_env.defs demo_env_def)

lemma demo_docs_fields [simp]:
  "ad_NormalizeRequest (hc_Adapter (demo_docs rw)) = (\<lambda>_. None)" "ad_IsArtifactPath (hc_Adapter (demo_docs rw)) = None"
  "ad_IndexRewriter (hc_Adapter (demo_docs rw)) = rw" "ad_MetadataFilterer (hc_Adapter (demo_docs rw)) = Some demo_filterer"
  "hc_PublicBase (demo_docs rw) = (\<lambda>_. Inr ''http://p'')" "hc_IndexMaxMB (demo_docs rw) = 0"
  "hc_MetadataFilterMaxMB (demo_docs rw) = 0"
  by (simp_all add: demo_docs_def demo_adapter_def demo_cfg_def)

lemma demo_index_reply:
  "fst (ServeHTTP (demo_docs (Some demo_rewriter)) (demo_serve ''page'') no_header demo_request sample_lc) =
     writeMetadataDocument demo_codecs no_header demo_request no_header 200 ''rewritten page'' (syntheticETag demo_codecs ''rewritten page'')"
proof -
  have "\<not> etagMatches [] (syntheticETag demo_codecs s)" for s
    unfolding syntheticETag_def syntheticETagPrefix_def append_assoc by (simp add: demo_no_gzip)
  moreover have "rq_Header demo_request = no_header" "rq_Body (outbound_request demo_request) = None"
    by (simp_all add: demo_request_def outbound_request_def)
  ultimately show ?thesis
    by (simp add: ServeHTTP_def Let_def demo_rewriter_def proxyIndex_def demo_forward read_plain hdr_Get_def no_header_def
        defaultIndexMaxMB_def wrap64_def max_int64_def hdr_Values_def)
qed

lemma demo_write: "writeMetadataDocument demo_codecs w demo_request h s body tag
    = (writeMetadataDocument demo_codecs w demo_request h s body tag)\<lparr>rp_Status := s, rp_Body := Bytes body\<rparr>"
  by (simp add: writeMetadataDocument_def demo_no_gzip Let_def)

theorem index_served_only_rewritten_witness:
  "\<exists>ct d out. iw_RewriteIndex demo_rewriter d ct ''/a'' = Inr out
     \<and> sent_as demo_codecs demo_request (ir_Body out) ''rewritten page''"
proof -
  obtain rp evs c' where s: "ServeHTTP (demo_docs (Some demo_rewriter)) (demo_serve ''page'') no_header demo_request sample_lc
      = (rp, evs, c')" by (metis prod_cases3)
  have v: "rp_Status (fst (ServeHTTP (demo_docs (Some demo_rewriter)) (demo_serve ''page'') no_header demo_request sample_lc)) = 200"
    "rp_Body (fst (ServeHTTP (demo_docs (Some demo_rewriter)) (demo_serve ''page'') no_header demo_request sample_lc)) = Bytes ''rewritten page''"
    unfolding demo_index_reply by (subst demo_write, simp)+
  have r: "rp_Status rp = 200" "rp_Body rp = Bytes ''rewritten page''" using v by (simp_all add: s)
  have p: "rq_Path demo_request = ''/a''" by (simp add: demo_request_def)
  have "\<exists>resp d out. fst (forwardUpstream (demo_docs (Some demo_rewriter)) (en_services (demo_serve ''page'')) (outbound_request demo_request)) = Some resp
    \<and> rs_StatusCode resp = 200
    \<and> iw_RewriteIndex demo_rewriter d (hdr_Get (rs_Header resp) ''Content-Type'') (rq_Path demo_request) = Inr out
    \<and> sent_as (se_codecs (demo_serve ''page'')) demo_request (ir_Body out) ''rewritten page''"
    by (rule index_served_only_rewritten [OF _ _ _ _ s r]) (simp_all add: demo_rewriter_def)
  then show ?thesis unfolding p demo_serve_fields by blast
qed

theorem metadata_served_only_filtered_witness:
  "rp_Body (fst (ServeHTTP (demo_docs None) (demo_serve ''doc'') no_header demo_request sample_lc)) = Bytes ''http://p/npmdoc''
   \<and> (\<exists>resp d filtered. fst (forwardUpstream (demo_docs None) (demo_services ''doc'') (outbound_request demo_request)) = Some resp
     \<and> readMetadataDocument demo_codecs resp 0 = Doc d
     \<and> mf_FilterVersions demo_filterer d \<lparr>mr_Ecosystem = ''npm'', mr_Name = ''a'', mr_Version = []\<rparr>
       (versionDecider (demo_docs None) 0 \<lparr>mr_Ecosystem = ''npm'', mr_Name = ''a'', mr_Version = []\<rparr>) ''http://p/npm'' = Inr filtered
     \<and> sent_as demo_codecs demo_request (fd_Body filtered) ''http://p/npmdoc'')"
proof -
  let ?m = "\<lparr>mr_Ecosystem = ''npm'', mr_Name = ''a'', mr_Version = []\<rparr> :: metadata_ref"
  obtain rp evs c' where s: "ServeHTTP (demo_docs None) (demo_serve ''doc'') no_header demo_request sample_lc
      = (rp, evs, c')" by (metis prod_cases3)
  have body: "rp_Body (fst (ServeHTTP (demo_docs None) (demo_serve ''doc'') no_header demo_request sample_lc)) = Bytes ''http://p/npmdoc''"
    by code_simp
  then have r: "rp_Body rp = Bytes ''http://p/npmdoc''" by (simp add: s)
  have p: "rq_RoutePrefix demo_request = ''npm''" "metadataLimit (demo_docs None) = 0" by code_simp+
  have "\<exists>sv r0 resp d base filtered. metadata_key (se_codecs (demo_serve ''doc'')) r0 = metadata_key (se_codecs (demo_serve ''doc'')) demo_request
    \<and> (se_metaFlight (demo_serve ''doc'') = None \<longrightarrow> sv = en_services (demo_serve ''doc'') \<and> r0 = demo_request)
    \<and> fst (forwardUpstream (demo_docs None) sv (outbound_request r0)) = Some resp \<and> rs_StatusCode resp = 200
    \<and> readMetadataDocument (se_codecs (demo_serve ''doc'')) resp (metadataLimit (demo_docs None)) = Doc d
    \<and> hc_PublicBase (demo_docs None) demo_request = Inr base
    \<and> mf_FilterVersions demo_filterer d ?m (versionDecider (demo_docs None) (en_filterTime (demo_serve ''doc'')) ?m)
        (if rq_RoutePrefix demo_request \<noteq> [] then base @ ''/'' @ rq_RoutePrefix demo_request else base) = Inr filtered
    \<and> sent_as (se_codecs (demo_serve ''doc'')) demo_request (fd_Body filtered) ''http://p/npmdoc''"
    by (rule metadata_served_only_filtered [OF _ _ _ _ _ _ s r]) (simp_all add: demo_filterer_def joined_flight_def)
  then show ?thesis using body by (auto simp: p)
qed

section \<open>Hidden versions\<close>

lemma Filter_Check_date_only:
  "pm_PublishedAt m = pm_PublishedAt m' \<Longrightarrow> Filter_Check f now ref m = Filter_Check f now ref m'"
  by (simp add: Filter_Check_def Let_def)

text \<open>C12: A version is hidden from a metadata document only if its download would be refused: with
  the configured engine and filter and a CVE scanner in place, when the version decision
  rejects a version published at some time, no bytes are cleared for that version by a
  download at the same time whose metadata gives that publish time.\<close>

theorem hidden_version_would_be_refused:
  assumes "hc_Policy cfg = Some (Engine_Evaluate (NewEngine cc pp))" "hc_Filter cfg = Filter_Check f"
    and "hc_CVEScanner cfg = Some scan" "ad_MetadataFromHeader (hc_Adapter cfg) = None"
    and "ad_FetchMetadata (hc_Adapter cfg) ref = Inr meta"
    and "ref = \<lparr>Ecosystem = mr_Ecosystem mref, Name = mr_Name mref, Version = v, Classifier = []\<rparr>"
    and "\<not> versionDecider cfg (en_filterTime en) mref v (pm_PublishedAt meta)"
  shows "\<not> cleared cfg en r ref b"
proof
  assume "cleared cfg en r ref b"
  then have c: "fr_Allowed (Filter_Check f (en_filterTime en) ref meta)"
      "\<exists>res. pd_Allowed (Engine_Evaluate (NewEngine cc pp) ref res)"
    using assms(1-5) by (auto simp: cleared_def supply_cleared_def cve_cleared_def)
  from c(2) have "\<not> matchesIndex (e_denylist (NewEngine cc pp)) ref"
    using Engine_Evaluate_denied by blast
  then have "pd_Reason (Engine_Evaluate (NewEngine cc pp) ref empty_scan) \<noteq> ReasonDenylisted"
    by (simp add: Engine_Evaluate_reason_denylisted)
  moreover have "Filter_Check f (en_filterTime en) ref \<lparr>pm_PublishedAt = pm_PublishedAt meta, pm_Maintainer = [], pm_License = []\<rparr>
      = Filter_Check f (en_filterTime en) ref meta"
    by (rule Filter_Check_date_only) simp
  ultimately show False
    using assms(1,2,6,7) c(1) by (simp add: versionDecider_def Let_def split: if_splits)
qed

definition deny_profile :: policy_profile where
  "deny_profile = \<lparr>pp_CVEBlock = True, pp_CVEMinSeverity = [], pp_SupplyChainBlock = True, pp_MalwareBlock = True,
     pp_Allowlist = [], pp_Denylist = [''npm/a'']\<rparr>"

definition deny_cve :: cve_config where
  "deny_cve = \<lparr>cc_Enabled = True, cc_BaseURL = [], cc_BlockOn = ''HIGH'', cc_CacheTTLMinutes = 0\<rparr>"

definition deny_cfg :: "local_cache handler_config" where
  "deny_cfg = (demo_cfg (Engine_Evaluate (NewEngine deny_cve deny_profile)))\<lparr>hc_Filter := Filter_Check (sample_filter 24)\<rparr>"

theorem hidden_version_would_be_refused_witness:
  "\<not> cleared deny_cfg (demo_env 0 ''good'') demo_request sample_known ''good''"
proof -
  have d: "\<not> versionDecider deny_cfg (en_filterTime (demo_env 0 ''good'')) \<lparr>mr_Ecosystem = ''npm'', mr_Name = ''a'', mr_Version = []\<rparr> ''1'' 0"
    by code_simp
  show ?thesis
    by (rule hidden_version_would_be_refused [where mref = "\<lparr>mr_Ecosystem = ''npm'', mr_Name = ''a'', mr_Version = []\<rparr>"
          and v = "''1''" and cc = deny_cve and pp = deny_profile and f = "sample_filter 24"
          and meta = "\<lparr>pm_PublishedAt = 0, pm_Maintainer = [], pm_License = []\<rparr>"])
       (use d in \<open>simp_all add: deny_cfg_def demo_cfg_def demo_adapter_def sample_known_def\<close>)
qed

section \<open>The policy without a CVE scanner\<close>

lemma policy_fields:
  "hc_MaxArtifactBytes (cfg\<lparr>hc_Policy := p\<rparr>) = hc_MaxArtifactBytes cfg" "hc_Cache (cfg\<lparr>hc_Policy := p\<rparr>) = hc_Cache cfg"
  "hc_Adapter (cfg\<lparr>hc_Policy := p\<rparr>) = hc_Adapter cfg" "hc_Filter (cfg\<lparr>hc_Policy := p\<rparr>) = hc_Filter cfg"
  "hc_CVEScanner (cfg\<lparr>hc_Policy := p\<rparr>) = hc_CVEScanner cfg" "hc_AVScanner (cfg\<lparr>hc_Policy := p\<rparr>) = hc_AVScanner cfg"
  "hc_Throttles (cfg\<lparr>hc_Policy := p\<rparr>) = hc_Throttles cfg"
  "hc_CVERecheckTTL (cfg\<lparr>hc_Policy := p\<rparr>) = hc_CVERecheckTTL cfg"
  "hc_MalwareRecheckTTL (cfg\<lparr>hc_Policy := p\<rparr>) = hc_MalwareRecheckTTL cfg"
  by simp_all

lemma tryDownload_policy [simp]: "tryDownload (cfg\<lparr>hc_Policy := p\<rparr>) sv c u = tryDownload cfg sv c u"
  unfolding tryDownload_def policy_fields ..

lemma download_loop_policy [simp]: "download_loop (cfg\<lparr>hc_Policy := p\<rparr>) sv us atts c = download_loop cfg sv us atts c"
  by (induction us arbitrary: atts c) (auto split: prod.split sum.split)

text \<open>Without a CVE scanner the policy is never consulted on a download: two configurations that
  differ only in their policy, one with any denylist and one with none, answer every
  download request alike, so a denylisted package is served.\<close>

theorem policy_unused_without_scanner:
  assumes "hc_CVEScanner cfg = None"
  shows "serve_download (cfg\<lparr>hc_Policy := p\<rparr>) en w r ref c = serve_download cfg en w r ref c"
proof -
  have re: "recheck_cve (cfg\<lparr>hc_Policy := p\<rparr>) now ref e x = recheck_cve cfg now ref e x"
      "recheck_malware (cfg\<lparr>hc_Policy := p\<rparr>) now ref e x = recheck_malware cfg now ref e x"
      "recheckDue (cfg\<lparr>hc_Policy := p\<rparr>) now e = recheckDue cfg now e" for now e x
    using assms by (auto simp: recheck_cve_def recheck_malware_def recheckDue_def cve_due_def malware_due_def
        evictRechecked_def split: option.split sum.split)
  have hit: "serve_hit (cfg\<lparr>hc_Policy := p\<rparr>) en w ref e x = serve_hit cfg en w ref e x" for e x
    unfolding serve_hit_def recheckExpired_def runRechecks_def re serveFromCache_def policy_fields ..
  have cve: "cve_gate (cfg\<lparr>hc_Policy := p\<rparr>) en w ref = cve_gate cfg en w ref" "last_gate (cfg\<lparr>hc_Policy := p\<rparr>) = last_gate cfg"
    using assms by (simp_all add: cve_gate_def last_gate_def)
  have gates: "supply_before (cfg\<lparr>hc_Policy := p\<rparr>) en w ref = supply_before cfg en w ref"
      "download_gate (cfg\<lparr>hc_Policy := p\<rparr>) en w r ref x = download_gate cfg en w r ref x"
      "after_download (cfg\<lparr>hc_Policy := p\<rparr>) en w ref t h sc x = after_download cfg en w ref t h sc x" for x t h sc
    unfolding supply_before_def checkSupplyChain_def download_gate_def downloadFromUpstreams_def after_download_def
      supply_after_def av_gate_def store_and_serve_def serveFromCache_def policy_fields cve(2) download_loop_policy by (rule refl)+
  show ?thesis unfolding serve_download_def serve_miss_def hit gates cve policy_fields ..
qed

theorem policy_unused_without_scanner_witness:
  "fst (serve_download (deny_cfg\<lparr>hc_CVEScanner := None, hc_Filter := hc_Filter (demo_cfg allow_all), hc_Policy := hc_Policy deny_cfg\<rparr>)
     (demo_env 0 ''good'') no_header demo_request sample_known sample_lc)
   = fst (serve_download (deny_cfg\<lparr>hc_CVEScanner := None, hc_Filter := hc_Filter (demo_cfg allow_all), hc_Policy := None\<rparr>)
     (demo_env 0 ''good'') no_header demo_request sample_known sample_lc)"
proof -
  let ?cfg = "deny_cfg\<lparr>hc_CVEScanner := None, hc_Filter := hc_Filter (demo_cfg allow_all), hc_Policy := None\<rparr>"
  have "serve_download (?cfg\<lparr>hc_Policy := hc_Policy deny_cfg\<rparr>) (demo_env 0 ''good'') no_header demo_request sample_known sample_lc
      = serve_download ?cfg (demo_env 0 ''good'') no_header demo_request sample_known sample_lc"
    by (rule policy_unused_without_scanner) simp
  then show ?thesis by simp
qed

section \<open>Shared fetches\<close>

lemma split_at_nul: "a @ CHR 0x00 # b = a' @ CHR 0x00 # b' \<Longrightarrow> CHR 0x00 \<notin> set a \<Longrightarrow> CHR 0x00 \<notin> set a' \<Longrightarrow> a = a' \<and> b = b'"
  by (metis (no_types, lifting) cut_found prod.inject)

text \<open>Requests share a fetch only when it is the same fetch: two metadata requests with the same
  coalescing key ask for the same URI with the same \<open>Accept\<close> and carry the same credentials,
  given that the digest tells their credentials apart, so no caller gets a document that was
  fetched with someone else's token.\<close>

theorem shared_fetch_same_caller:
  assumes "metadata_key cd r = metadata_key cd r'"
    and "CHR 0x00 \<notin> set (rq_URI r)" "CHR 0x00 \<notin> set (rq_URI r')"
    and "CHR 0x00 \<notin> set (hdr_Get (rq_Header r) ''Accept'')" "CHR 0x00 \<notin> set (hdr_Get (rq_Header r') ''Accept'')"
    and "\<forall>v\<in>set (hdr_Values (rq_Header r) ''Authorization'') \<union> set (hdr_Values (rq_Header r') ''Authorization'').
           CHR 0x00 \<notin> set v"
    and "\<forall>x y. cd_sha256hex cd x = cd_sha256hex cd y \<longrightarrow> x = y" "\<forall>x. cd_sha256hex cd x \<noteq> []"
  shows "rq_URI r = rq_URI r' \<and> hdr_Get (rq_Header r) ''Accept'' = hdr_Get (rq_Header r') ''Accept''
    \<and> join_with [CHR 0x0A] (hdr_Values (rq_Header r) ''Authorization'') = join_with [CHR 0x0A] (hdr_Values (rq_Header r') ''Authorization'')
    \<and> join_with [CHR 0x0A] (hdr_Values (rq_Header r) ''Cookie'') = join_with [CHR 0x0A] (hdr_Values (rq_Header r') ''Cookie'')"
proof -
  let ?a = "\<lambda>r. join_with [CHR 0x0A] (hdr_Values (rq_Header r) ''Authorization'')"
  let ?c = "\<lambda>r. join_with [CHR 0x0A] (hdr_Values (rq_Header r) ''Cookie'')"
  have m: "rq_URI r @ CHR 0x00 # hdr_Get (rq_Header r) ''Accept'' @ CHR 0x00 # credentialTag cd r
      = rq_URI r' @ CHR 0x00 # hdr_Get (rq_Header r') ''Accept'' @ CHR 0x00 # credentialTag cd r'"
    using assms(1) by (simp add: metadata_key_def)
  have k: "rq_URI r = rq_URI r'" "hdr_Get (rq_Header r) ''Accept'' = hdr_Get (rq_Header r') ''Accept''"
      "credentialTag cd r = credentialTag cd r'"
    using split_at_nul [OF m assms(2,3)] split_at_nul [OF _ assms(4,5)] by blast+
  have j: "set (join_with sep vs) \<subseteq> set sep \<union> \<Union> (set ` set vs)" for sep vs :: "_ list"
    by (induction sep vs rule: join_with.induct) auto
  have n: "CHR 0x00 \<notin> set (?a r)" "CHR 0x00 \<notin> set (?a r')"
    using j [of "[CHR 0x0A]" "hdr_Values (rq_Header r) ''Authorization''"]
      j [of "[CHR 0x0A]" "hdr_Values (rq_Header r') ''Authorization''"] assms(6) by auto
  define none where "none r \<longleftrightarrow> hdr_Values (rq_Header r) ''Authorization'' = [] \<and> hdr_Values (rq_Header r) ''Cookie'' = []" for r :: http_request
  have tag: "credentialTag cd r = (if none r then [] else cd_sha256hex cd (?a r @ CHR 0x00 # ?c r))" for r
    by (simp add: credentialTag_def none_def Let_def)
  have empty: "none r \<Longrightarrow> ?a r = [] \<and> ?c r = []" for r by (simp add: none_def)
  have "?a r = ?a r' \<and> ?c r = ?c r'"
  proof (cases "none r \<or> none r'")
    case True
    then have "none r \<and> none r'" using k(3) assms(8) unfolding tag by (metis (full_types))
    with empty [of r] empty [of r'] show ?thesis by simp
  next
    case False
    with k(3) have "cd_sha256hex cd (?a r @ CHR 0x00 # ?c r) = cd_sha256hex cd (?a r' @ CHR 0x00 # ?c r')" unfolding tag by simp
    with assms(7) have "?a r @ CHR 0x00 # ?c r = ?a r' @ CHR 0x00 # ?c r'" by blast
    from split_at_nul [OF this n] show ?thesis .
  qed
  with k show ?thesis by simp
qed

theorem shared_fetch_same_caller_witness:
  "rq_URI demo_request = rq_URI (demo_request\<lparr>rq_Method := ''HEAD''\<rparr>)"
  by (rule shared_fetch_same_caller [of demo_codecs, THEN conjunct1])
     (simp_all add: demo_request_def metadata_key_def credentialTag_def hdr_Get_def hdr_Values_def no_header_def demo_codecs_def)

end
