(* ===== verification/Users.thy ===== *)
theory Users
  imports Go_Prelude "HOL-Library.List_Lexorder" "HOL-Library.Char_ord"
begin

text \<open>
  Console accounts, \<^verbatim>\<open>internal/users/users.go\<close> and \<^verbatim>\<open>internal/users/store.go\<close>. The table is
  the list of its rows; names compare under SQLite's NOCASE collation, which folds ASCII
  letters only. A statement that reads fails when \<open>us_readable\<close> is off, one that writes when
  \<open>us_writable\<close> is off, and a failed transaction leaves the rows as they were. Bcrypt is an
  argument; the clock and the random draws are arguments in the order they are read.
\<close>

section \<open>Accounts\<close>

definition RoleAdmin :: string where "RoleAdmin = ''admin''"
definition RoleOperator :: string where "RoleOperator = ''operator''"

definition Role_Valid :: "string \<Rightarrow> bool" where
  "Role_Valid r \<longleftrightarrow> r = RoleAdmin \<or> r = RoleOperator"

record user =
  u_Username :: string
  u_PasswordHash :: string
  u_Role :: string
  u_Disabled :: bool
  u_MustChangePassword :: bool
  u_TokenVersion :: int64
  u_CreatedAt :: gotime
  u_LastLoginAt :: "gotime option"

datatype user_error =
    ErrNotFound | ErrExists | ErrLastAdmin | UserInvalid string string | UserStoreFailed

definition minPasswordRunes :: nat where "minPasswordRunes = 12"
definition maxPasswordBytes :: nat where "maxPasswordBytes = 72"

definition username_char :: "char \<Rightarrow> bool" where
  "username_char c \<longleftrightarrow> is_upper c \<or> is_lower c \<or> is_digit c \<or> c \<in> set ''._@-''"

definition quoted :: "string \<Rightarrow> string" where
  "quoted s = CHR 0x27 # s @ [CHR 0x27]"

definition usernameMessage :: string where
  "usernameMessage = ''must be 1-64 characters of letters, digits, '' @ quoted ''.'' @ '', '' @ quoted ''_'' @ '', ''
     @ quoted ''@'' @ '' or '' @ quoted ''-''"

definition ValidateUsername :: "string \<Rightarrow> user_error option" where
  "ValidateUsername name =
     (if 1 \<le> length name \<and> length name \<le> 64 \<and> list_all username_char name then None
      else Some (UserInvalid ''username'' usernameMessage))"

text \<open>The number of runes is an argument: it is the byte count for ASCII text.\<close>

definition ValidatePassword :: "(string \<Rightarrow> nat) \<Rightarrow> string \<Rightarrow> string \<Rightarrow> user_error option" where
  "ValidatePassword runeCount username password =
     (if runeCount password < minPasswordRunes
      then Some (UserInvalid ''password'' ''must be at least 12 characters'')
      else if maxPasswordBytes < length password
      then Some (UserInvalid ''password'' ''must be at most 72 bytes'')
      else if equal_fold password username
      then Some (UserInvalid ''password'' ''must not equal the username'')
      else None)"

definition InitialAdminUsername :: string where "InitialAdminUsername = ''admin''"

definition generatedPasswordAlphabet :: string where
  "generatedPasswordAlphabet = ''ABCDEFGHIJKLMNOPQRSTUVWXYZabcdefghijklmnopqrstuvwxyz0123456789''"

definition generatedPasswordLen :: nat where "generatedPasswordLen = 20"

text \<open>
  The i-th draw of the random source is an index below the alphabet's length, or a failure,
  which ends the loop.
\<close>

fun draw_chars :: "nat option list \<Rightarrow> string option" where
  "draw_chars [] = Some []"
| "draw_chars (None # ds) = None"
| "draw_chars (Some n # ds) =
     map_option (Cons (generatedPasswordAlphabet ! (n mod length generatedPasswordAlphabet))) (draw_chars ds)"

definition GeneratePassword :: "(nat \<Rightarrow> nat option) \<Rightarrow> string option" where
  "GeneratePassword draws = draw_chars (map draws [0..<generatedPasswordLen])"

section \<open>The store\<close>

record user_store =
  us_rows :: "user list"
  us_readable :: bool
  us_writable :: bool

definition nocase :: "string \<Rightarrow> string" where
  "nocase s = map lower_byte s"

definition find_user :: "string \<Rightarrow> user list \<Rightarrow> user option" where
  "find_user name rows = find (\<lambda>u. nocase (u_Username u) = nocase name) rows"

definition Users_Get :: "user_store \<Rightarrow> string \<Rightarrow> user_error + user" where
  "Users_Get s name =
     (if \<not> us_readable s then Inl UserStoreFailed
      else case find_user name (us_rows s) of None \<Rightarrow> Inl ErrNotFound | Some u \<Rightarrow> Inr u)"

definition Users_List :: "user_store \<Rightarrow> user_error + user list" where
  "Users_List s = (if \<not> us_readable s then Inl UserStoreFailed else Inr (sort_key (nocase \<circ> u_Username) (us_rows s)))"

definition HasEnabledUsers :: "user_store \<Rightarrow> user_error + bool" where
  "HasEnabledUsers s =
     (if \<not> us_readable s then Inl UserStoreFailed
      else Inr (0 < length (filter (\<lambda>u. \<not> u_Disabled u) (us_rows s))))"

definition validateNew :: "user \<Rightarrow> user_error option" where
  "validateNew u =
     (case ValidateUsername (u_Username u) of
        Some e \<Rightarrow> Some e
      | None \<Rightarrow> if \<not> Role_Valid (u_Role u) then Some (UserInvalid ''role'' ''must be admin or operator'') else None)"

text \<open>A new row's token version is the current time in nanoseconds.\<close>

definition insert_user :: "user_store \<Rightarrow> user \<Rightarrow> gotime \<Rightarrow> user_error + user_store" where
  "insert_user s u now =
     (if \<not> us_writable s then Inl UserStoreFailed
      else if find_user (u_Username u) (us_rows s) \<noteq> None then Inl ErrExists
      else Inr (s\<lparr>us_rows := us_rows s @ [u\<lparr>u_TokenVersion := wrap64 now, u_CreatedAt := of_unix (time_unix now),
                   u_LastLoginAt := None\<rparr>]\<rparr>))"

definition Users_Create :: "user_store \<Rightarrow> user \<Rightarrow> gotime \<Rightarrow> user_error option \<times> user_store" where
  "Users_Create s u now =
     (case validateNew u of
        Some e \<Rightarrow> (Some e, s)
      | None \<Rightarrow> (case insert_user s u now of Inl e \<Rightarrow> (Some e, s) | Inr s' \<Rightarrow> (None, s')))"

text \<open>What a transaction's function asks for: nothing, an update of the current row, or its removal.\<close>

datatype row_change = NoChange | UpdateRow "user \<Rightarrow> user" | DeleteRow

definition apply_change :: "row_change \<Rightarrow> string \<Rightarrow> user list \<Rightarrow> user list" where
  "apply_change ch name rows =
     (case ch of
        NoChange \<Rightarrow> rows
      | UpdateRow f \<Rightarrow> map (\<lambda>u. if nocase (u_Username u) = nocase name then f u else u) rows
      | DeleteRow \<Rightarrow> filter (\<lambda>u. nocase (u_Username u) \<noteq> nocase name) rows)"

definition mutate ::
  "user_store \<Rightarrow> string \<Rightarrow> (user_store \<Rightarrow> user \<Rightarrow> user_error + row_change) \<Rightarrow> user_error option \<times> user_store" where
  "mutate s name fn =
     (if \<not> us_readable s then (Some UserStoreFailed, s)
      else case find_user name (us_rows s) of
        None \<Rightarrow> (Some ErrNotFound, s)
      | Some cur \<Rightarrow>
          (case fn s cur of
             Inl e \<Rightarrow> (Some e, s)
           | Inr ch \<Rightarrow>
               if (case ch of NoChange \<Rightarrow> False | _ \<Rightarrow> True) \<and> \<not> us_writable s then (Some UserStoreFailed, s)
               else (None, s\<lparr>us_rows := apply_change ch (u_Username cur) (us_rows s)\<rparr>)))"

definition enabled_admin :: "user \<Rightarrow> bool" where
  "enabled_admin u \<longleftrightarrow> u_Role u = RoleAdmin \<and> \<not> u_Disabled u"

definition guardLastAdmin :: "user_store \<Rightarrow> user \<Rightarrow> user_error option" where
  "guardLastAdmin s cur =
     (if u_Role cur \<noteq> RoleAdmin \<or> u_Disabled cur then None
      else if length (filter (\<lambda>u. enabled_admin u \<and> nocase (u_Username u) \<noteq> nocase (u_Username cur)) (us_rows s)) = 0
      then Some ErrLastAdmin
      else None)"

definition bump_version :: "user \<Rightarrow> user" where
  "bump_version u = u\<lparr>u_TokenVersion := u_TokenVersion u + 1\<rparr>"

definition SetRole :: "user_store \<Rightarrow> string \<Rightarrow> string \<Rightarrow> user_error option \<times> user_store" where
  "SetRole s name r =
     (if \<not> Role_Valid r then (Some (UserInvalid ''role'' ''must be admin or operator''), s)
      else mutate s name (\<lambda>tx cur.
        if u_Role cur = r then Inr NoChange
        else case (if r \<noteq> RoleAdmin then guardLastAdmin tx cur else None) of
          Some e \<Rightarrow> Inl e
        | None \<Rightarrow> Inr (UpdateRow (\<lambda>u. bump_version (u\<lparr>u_Role := r\<rparr>)))))"

definition SetDisabled :: "user_store \<Rightarrow> string \<Rightarrow> bool \<Rightarrow> user_error option \<times> user_store" where
  "SetDisabled s name disabled =
     mutate s name (\<lambda>tx cur.
       if u_Disabled cur = disabled then Inr NoChange
       else case (if disabled then guardLastAdmin tx cur else None) of
         Some e \<Rightarrow> Inl e
       | None \<Rightarrow> Inr (UpdateRow (\<lambda>u. bump_version (u\<lparr>u_Disabled := disabled\<rparr>))))"

definition SetPassword :: "user_store \<Rightarrow> string \<Rightarrow> string \<Rightarrow> bool \<Rightarrow> user_error option \<times> user_store" where
  "SetPassword s name hash mustChange =
     mutate s name (\<lambda>tx cur.
       Inr (UpdateRow (\<lambda>u. bump_version (u\<lparr>u_PasswordHash := hash, u_MustChangePassword := mustChange\<rparr>))))"

definition Users_Delete :: "user_store \<Rightarrow> string \<Rightarrow> user_error option \<times> user_store" where
  "Users_Delete s name =
     mutate s name (\<lambda>tx cur. case guardLastAdmin tx cur of Some e \<Rightarrow> Inl e | None \<Rightarrow> Inr DeleteRow)"

definition TouchLogin :: "user_store \<Rightarrow> string \<Rightarrow> gotime \<Rightarrow> user_error option \<times> user_store" where
  "TouchLogin s name at_time =
     (if \<not> us_writable s then (Some UserStoreFailed, s)
      else if find_user name (us_rows s) = None then (Some ErrNotFound, s)
      else (None, s\<lparr>us_rows := apply_change (UpdateRow (\<lambda>u. u\<lparr>u_LastLoginAt := Some (of_unix (time_unix at_time))\<rparr>))
              name (us_rows s)\<rparr>))"

text \<open>
  The first start: the password is generated and hashed only when the table is empty, and
  the insert itself checks again, since another process may have filled the table by then:
  \<open>other\<close> is what that process leaves.
\<close>

definition EnsureInitialAdmin ::
  "(string \<Rightarrow> string option) \<Rightarrow> user_store \<Rightarrow> (nat \<Rightarrow> nat option) \<Rightarrow> gotime \<Rightarrow> (user_store \<Rightarrow> user_store) \<Rightarrow>
   (user_error + string option) \<times> user_store" where
  "EnsureInitialAdmin hashPassword s draws now other =
     (if \<not> us_readable s then (Inl UserStoreFailed, s)
      else if us_rows s \<noteq> [] then (Inr None, s)
      else case Option.bind (GeneratePassword draws) (\<lambda>pw. map_option (Pair pw) (hashPassword pw)) of
        None \<Rightarrow> (Inl UserStoreFailed, s)
      | Some (password, hash) \<Rightarrow>
          (let s1 = other s in
           if \<not> us_writable s1 then (Inl UserStoreFailed, s1)
           else if us_rows s1 \<noteq> [] then (Inr None, s1)
           else (Inr (Some password), s1\<lparr>us_rows := [\<lparr>u_Username = InitialAdminUsername, u_PasswordHash = hash,
                   u_Role = RoleAdmin, u_Disabled = False, u_MustChangePassword = True, u_TokenVersion = wrap64 now,
                   u_CreatedAt = of_unix (time_unix now), u_LastLoginAt = None\<rparr>]\<rparr>)))"

definition ResetAdmin :: "user_store \<Rightarrow> string \<Rightarrow> gotime \<Rightarrow> (user_error + bool) \<times> user_store" where
  "ResetAdmin s hash now =
     (if \<not> us_writable s then (Inl UserStoreFailed, s)
      else if find_user InitialAdminUsername (us_rows s) \<noteq> None
      then (Inr False, s\<lparr>us_rows := apply_change (UpdateRow (\<lambda>u. bump_version (u\<lparr>u_PasswordHash := hash,
              u_MustChangePassword := True, u_Disabled := False, u_Role := RoleAdmin\<rparr>))) InitialAdminUsername (us_rows s)\<rparr>)
      else case insert_user s \<lparr>u_Username = InitialAdminUsername, u_PasswordHash = hash, u_Role = RoleAdmin,
                 u_Disabled = False, u_MustChangePassword = True, u_TokenVersion = 0, u_CreatedAt = 0, u_LastLoginAt = None\<rparr> now of
        Inl e \<Rightarrow> (Inl e, s)
      | Inr s' \<Rightarrow> (Inr True, s'))"

section \<open>Rows under the operations\<close>

definition names_unique :: "user list \<Rightarrow> bool" where
  "names_unique rows \<longleftrightarrow> distinct (map (nocase \<circ> u_Username) rows)"

lemma nocase_idem [simp]: "nocase (nocase s) = nocase s"
  by (simp add: nocase_def)

lemma find_user_Some: "find_user name rows = Some u \<Longrightarrow> u \<in> set rows \<and> nocase (u_Username u) = nocase name"
  by (auto simp: find_user_def find_Some_iff)

lemma find_user_None: "find_user name rows = None \<longleftrightarrow> (\<forall>u\<in>set rows. nocase (u_Username u) \<noteq> nocase name)"
  by (auto simp: find_user_def find_None_iff)

lemma find_user_unique:
  assumes "names_unique rows" "u \<in> set rows"
  shows "find_user (u_Username u) rows = Some u"
proof -
  obtain v where v: "find_user (u_Username u) rows = Some v"
    using assms(2) find_user_None [of "u_Username u" rows] by (cases "find_user (u_Username u) rows") auto
  with find_user_Some [OF v] assms show ?thesis
    by (auto simp: names_unique_def distinct_map inj_on_def)
qed

lemma find_user_cong: "nocase a = nocase b \<Longrightarrow> find_user a rows = find_user b rows"
  by (simp add: find_user_def)

text \<open>An update keeps the name, so it touches exactly the row found under it.\<close>

definition keeps_name :: "(user \<Rightarrow> user) \<Rightarrow> bool" where
  "keeps_name f \<longleftrightarrow> (\<forall>u. u_Username (f u) = u_Username u)"

lemma names_unique_update:
  "names_unique rows \<Longrightarrow> keeps_name f \<Longrightarrow> names_unique (apply_change (UpdateRow f) name rows)"
proof -
  assume "keeps_name f"
  then have "map (nocase \<circ> u_Username) (apply_change (UpdateRow f) name rows) = map (nocase \<circ> u_Username) rows"
    by (simp add: apply_change_def keeps_name_def)
  then show "names_unique rows \<Longrightarrow> ?thesis" by (simp only: names_unique_def)
qed

lemma find_user_update:
  "keeps_name f \<Longrightarrow> find_user n (apply_change (UpdateRow f) name rows) =
     (if nocase n = nocase name then map_option f (find_user n rows) else find_user n rows)"
  by (induction rows) (auto simp: find_user_def apply_change_def keeps_name_def)

lemma find_user_delete:
  "find_user n (apply_change DeleteRow name rows) = (if nocase n = nocase name then None else find_user n rows)"
  by (induction rows) (auto simp: find_user_def apply_change_def)

lemma same_name_iff:
  assumes "names_unique rows" "cur \<in> set rows" "nocase (u_Username cur) = nocase name" "u \<in> set rows"
  shows "nocase (u_Username u) = nocase name \<longleftrightarrow> u = cur"
proof
  assume "nocase (u_Username u) = nocase name"
  with assms show "u = cur" unfolding names_unique_def distinct_map by (metis comp_apply inj_onD)
qed (use assms(3) in simp)

lemma set_update:
  assumes "names_unique rows" "cur \<in> set rows" "nocase (u_Username cur) = nocase name"
  shows "set (apply_change (UpdateRow f) name rows) = insert (f cur) (set rows - {cur})"
proof -
  have "set (apply_change (UpdateRow f) name rows) = (\<lambda>u. if u = cur then f u else u) ` set rows"
    using same_name_iff [OF assms] by (simp add: apply_change_def cong: image_cong)
  also have "\<dots> = insert (f cur) (set rows - {cur})" using assms(2) by auto
  finally show ?thesis .
qed

lemma set_delete:
  assumes "names_unique rows" "cur \<in> set rows" "nocase (u_Username cur) = nocase name"
  shows "set (apply_change DeleteRow name rows) = set rows - {cur}"
  using same_name_iff [OF assms] by (auto simp: apply_change_def assms(3))

lemma mutate_cases:
  assumes "mutate s name fn = (err, s')"
  obtains (failed) "err \<noteq> None" "s' = s"
  | (kept) cur where "err = None" "s' = s" "find_user name (us_rows s) = Some cur" "fn s cur = Inr NoChange"
  | (changed) cur ch where "err = None" "find_user name (us_rows s) = Some cur" "fn s cur = Inr ch" "ch \<noteq> NoChange"
      "us_writable s" "us_readable s" "s' = s\<lparr>us_rows := apply_change ch (u_Username cur) (us_rows s)\<rparr>"
proof (cases "us_readable s")
  case False
  with assms failed show thesis by (auto simp: mutate_def)
next
  case readable: True
  show thesis
  proof (cases "find_user name (us_rows s)")
    case None
    with assms failed readable show thesis by (auto simp: mutate_def)
  next
    case (Some cur)
    show thesis
    proof (cases "fn s cur")
      case (Inl e)
      with assms failed readable Some show thesis by (auto simp: mutate_def)
    next
      case (Inr ch)
      show thesis
      proof (cases "ch = NoChange")
        case True
        with assms kept [OF _ _ Some] readable Some Inr show thesis by (auto simp: mutate_def apply_change_def)
      next
        case False
        then have t: "(case ch of NoChange \<Rightarrow> False | _ \<Rightarrow> True) = True" by (cases ch) simp_all
        have m: "(if \<not> us_writable s then (Some UserStoreFailed, s)
            else (None, s\<lparr>us_rows := apply_change ch (u_Username cur) (us_rows s)\<rparr>)) = (err, s')"
          using assms readable Some Inr by (simp add: mutate_def t)
        show thesis
        proof (cases "us_writable s")
          case True
          with m have "err = None" "s' = s\<lparr>us_rows := apply_change ch (u_Username cur) (us_rows s)\<rparr>" by auto
          then show thesis using changed Some Inr False True readable by blast
        next
          case False
          with m have "err \<noteq> None" "s' = s" by auto
          then show thesis by (rule failed)
        qed
      qed
    qed
  qed
qed

section \<open>Never without an administrator\<close>

text \<open>The operations the console and the login offer on a running store.\<close>

inductive user_step :: "gotime \<Rightarrow> user_store \<Rightarrow> user_store \<Rightarrow> bool" where
  create: "Users_Create s u now = (err, s') \<Longrightarrow> user_step now s s'"
| role: "SetRole s name r = (err, s') \<Longrightarrow> user_step now s s'"
| disabled: "SetDisabled s name d = (err, s') \<Longrightarrow> user_step now s s'"
| password: "SetPassword s name h m = (err, s') \<Longrightarrow> user_step now s s'"
| delete: "Users_Delete s name = (err, s') \<Longrightarrow> user_step now s s'"
| touch: "TouchLogin s name t = (err, s') \<Longrightarrow> user_step now s s'"
| reset: "ResetAdmin s h now = (res, s') \<Longrightarrow> user_step now s s'"
| database: "us_rows s' = us_rows s \<Longrightarrow> user_step now s s'"

text \<open>Runs of the store: each operation happens at a later nanosecond than the one before it.\<close>

inductive user_reach :: "gotime \<Rightarrow> user_store \<Rightarrow> gotime \<Rightarrow> user_store \<Rightarrow> bool" where
  start: "user_reach t s t s"
| step: "user_reach t s t' s' \<Longrightarrow> t' < t'' \<Longrightarrow> user_step t'' s' s'' \<Longrightarrow> user_reach t s t'' s''"

definition users_inv :: "user_store \<Rightarrow> bool" where
  "users_inv s \<longleftrightarrow> names_unique (us_rows s) \<and> (\<forall>u\<in>set (us_rows s). Role_Valid (u_Role u))
     \<and> (\<exists>u\<in>set (us_rows s). enabled_admin u)"

lemma guardLastAdmin_spec:
  assumes "names_unique (us_rows s)" "cur \<in> set (us_rows s)" "guardLastAdmin s cur = None"
  shows "\<not> enabled_admin cur \<or> (\<exists>u\<in>set (us_rows s) - {cur}. enabled_admin u)"
  using assms by (auto simp: guardLastAdmin_def enabled_admin_def filter_empty_conv split: if_splits)

text \<open>An update that leaves an enabled administrator keeps the invariant.\<close>

lemma users_inv_update:
  assumes "users_inv s" "find_user name (us_rows s) = Some cur" "keeps_name f"
    and "Role_Valid (u_Role (f cur))"
    and "enabled_admin (f cur) \<or> \<not> enabled_admin cur \<or> (\<exists>u\<in>set (us_rows s) - {cur}. enabled_admin u)"
  shows "users_inv (s\<lparr>us_rows := apply_change (UpdateRow f) (u_Username cur) (us_rows s)\<rparr>)"
proof -
  have c: "cur \<in> set (us_rows s)" and u: "names_unique (us_rows s)"
    using assms(1,2) by (auto simp: users_inv_def dest: find_user_Some)
  note st = set_update [OF u c refl, of f]
  have "\<exists>u\<in>insert (f cur) (set (us_rows s) - {cur}). enabled_admin u"
    using assms(1,5) by (auto simp: users_inv_def)
  with assms(1,3,4) u show ?thesis
    by (simp add: users_inv_def names_unique_update st)
qed

lemma bump_keeps [simp]: "u_Username (bump_version u) = u_Username u" "u_Role (bump_version u) = u_Role u"
  "u_Disabled (bump_version u) = u_Disabled u" "u_TokenVersion (bump_version u) = u_TokenVersion u + 1"
  by (simp_all add: bump_version_def)

lemma enabled_admin_bump [simp]: "enabled_admin (bump_version u) = enabled_admin u"
  by (simp add: enabled_admin_def)

lemma mutate_inv:
  assumes "users_inv s" "mutate s name fn = (err, s')"
    and upd: "\<And>cur f. cur \<in> set (us_rows s) \<Longrightarrow> fn s cur = Inr (UpdateRow f) \<Longrightarrow> keeps_name f \<and> Role_Valid (u_Role (f cur))
      \<and> (enabled_admin (f cur) \<or> \<not> enabled_admin cur \<or> (\<exists>u\<in>set (us_rows s) - {cur}. enabled_admin u))"
    and del: "\<And>cur. cur \<in> set (us_rows s) \<Longrightarrow> fn s cur = Inr DeleteRow \<Longrightarrow>
      \<not> enabled_admin cur \<or> (\<exists>u\<in>set (us_rows s) - {cur}. enabled_admin u)"
  shows "users_inv s'"
  using assms(2)
proof (cases rule: mutate_cases)
  case (changed cur ch)
  have c: "cur \<in> set (us_rows s)" and u: "names_unique (us_rows s)"
    using assms(1) changed(2) by (auto simp: users_inv_def dest: find_user_Some)
  show ?thesis
  proof (cases ch)
    case (UpdateRow f)
    with upd [OF c, of f] changed(2,3,7) assms(1) show ?thesis by (simp add: users_inv_update)
  next
    case DeleteRow
    have d: "set (us_rows s') = set (us_rows s) - {cur}" using set_delete [OF u c refl] changed(7) DeleteRow by simp
    have "names_unique (us_rows s')"
      using u changed(7) DeleteRow by (simp add: names_unique_def apply_change_def distinct_map_filter)
    moreover have "\<exists>u\<in>set (us_rows s) - {cur}. enabled_admin u"
      using del [OF c] changed(3) DeleteRow assms(1) by (auto simp: users_inv_def)
    ultimately show ?thesis using assms(1) by (auto simp: users_inv_def d)
  qed (use changed(4) in simp)
qed (use assms(1) in simp_all)

lemma insert_user_inv:
  assumes "insert_user s u now = Inr s'" "Role_Valid (u_Role u)"
    and "names_unique (us_rows s)" "\<forall>u\<in>set (us_rows s). Role_Valid (u_Role u)"
  shows "names_unique (us_rows s') \<and> (\<forall>u\<in>set (us_rows s'). Role_Valid (u_Role u)) \<and> set (us_rows s) \<subseteq> set (us_rows s')"
proof -
  have "\<forall>v\<in>set (us_rows s). nocase (u_Username v) \<noteq> nocase (u_Username u)"
    using assms(1) find_user_None [of "u_Username u" "us_rows s"] by (auto simp: insert_user_def split: if_splits)
  moreover have "us_rows s' = us_rows s @ [u\<lparr>u_TokenVersion := wrap64 now, u_CreatedAt := of_unix (time_unix now),
      u_LastLoginAt := None\<rparr>]"
    using assms(1) by (auto simp: insert_user_def split: if_splits)
  ultimately show ?thesis using assms(2-4) by (fastforce simp: names_unique_def)
qed

lemma user_step_inv: "user_step now s s' \<Longrightarrow> users_inv s \<Longrightarrow> users_inv s'"
proof (induction rule: user_step.induct)
  case (create s u now err s')
  show ?case
  proof (cases "validateNew u = None \<and> (\<exists>x. insert_user s u now = Inr x)")
    case True
    then have i: "insert_user s u now = Inr s'" "Role_Valid (u_Role u)"
      using create(1) by (auto simp: Users_Create_def validateNew_def split: option.splits if_splits)
    from insert_user_inv [OF i] create(2) show ?thesis unfolding users_inv_def by blast
  next
    case False
    with create show ?thesis by (auto simp: Users_Create_def split: option.splits sum.splits)
  qed
next
  case (role s name r err s' now)
  show ?case
  proof (cases "Role_Valid r")
    case True
    with role(1) have m: "mutate s name (\<lambda>tx cur. if u_Role cur = r then Inr NoChange
        else case (if r \<noteq> RoleAdmin then guardLastAdmin tx cur else None) of
          Some e \<Rightarrow> Inl e | None \<Rightarrow> Inr (UpdateRow (\<lambda>u. bump_version (u\<lparr>u_Role := r\<rparr>)))) = (err, s')"
      by (simp add: SetRole_def)
    from role(2) m show ?thesis
    proof (rule mutate_inv, goal_cases)
      case (1 cur f)
      then have f: "f = (\<lambda>u. bump_version (u\<lparr>u_Role := r\<rparr>))" "r \<noteq> RoleAdmin \<Longrightarrow> guardLastAdmin s cur = None"
        by (auto split: if_splits option.splits)
      have "enabled_admin (f cur) \<or> \<not> enabled_admin cur \<or> (\<exists>u\<in>set (us_rows s) - {cur}. enabled_admin u)"
        using guardLastAdmin_spec [of s cur] f role(2) 1(1) by (cases "r = RoleAdmin") (auto simp: users_inv_def enabled_admin_def)
      with True show ?case by (simp add: f keeps_name_def)
    qed (auto split: if_splits option.splits)
  qed (use role in \<open>simp add: SetRole_def\<close>)
next
  case (disabled s name d err s' now)
  from disabled(2) disabled(1) [unfolded SetDisabled_def] show ?case
  proof (rule mutate_inv, goal_cases)
    case (1 cur f)
    then have f: "f = (\<lambda>u. bump_version (u\<lparr>u_Disabled := d\<rparr>))" "d \<Longrightarrow> guardLastAdmin s cur = None"
      by (auto split: if_splits option.splits)
    have "enabled_admin (f cur) \<or> \<not> enabled_admin cur \<or> (\<exists>u\<in>set (us_rows s) - {cur}. enabled_admin u)"
      using guardLastAdmin_spec [of s cur] f disabled(2) 1(1) by (cases d) (auto simp: users_inv_def enabled_admin_def)
    with disabled(2) 1(1) show ?case by (simp add: f keeps_name_def users_inv_def)
  qed (auto split: if_splits option.splits)
next
  case (password s name h m err s' now)
  from password(2) password(1) [unfolded SetPassword_def] show ?case
    by (rule mutate_inv) (use password(2) in \<open>auto simp: keeps_name_def enabled_admin_def users_inv_def\<close>)
next
  case (delete s name err s' now)
  from delete(2) delete(1) [unfolded Users_Delete_def] show ?case
    by (rule mutate_inv) (use guardLastAdmin_spec [of s] delete(2) in \<open>auto simp: users_inv_def split: option.splits\<close>)
next
  case (touch s name t err s' now)
  show ?case
  proof (cases "us_writable s \<and> find_user name (us_rows s) \<noteq> None")
    case True
    then obtain cur where c: "find_user name (us_rows s) = Some cur" by auto
    have "apply_change (UpdateRow f) name (us_rows s) = apply_change (UpdateRow f) (u_Username cur) (us_rows s)" for f
      using find_user_Some [OF c] by (simp add: apply_change_def)
    with True touch c show ?thesis
      using users_inv_update [OF touch(2) c, of "\<lambda>u. u\<lparr>u_LastLoginAt := Some (of_unix (time_unix t))\<rparr>"] find_user_Some [OF c]
      by (auto simp: TouchLogin_def keeps_name_def enabled_admin_def users_inv_def)
  qed (use touch in \<open>auto simp: TouchLogin_def split: if_splits\<close>)
next
  case (reset s h now res s')
  let ?f = "\<lambda>u. bump_version (u\<lparr>u_PasswordHash := h, u_MustChangePassword := True, u_Disabled := False, u_Role := RoleAdmin\<rparr>)"
  show ?case
  proof (cases "find_user InitialAdminUsername (us_rows s)")
    case None
    let ?u = "\<lparr>u_Username = InitialAdminUsername, u_PasswordHash = h, u_Role = RoleAdmin, u_Disabled = False,
      u_MustChangePassword = True, u_TokenVersion = 0, u_CreatedAt = 0, u_LastLoginAt = None\<rparr>"
    show ?thesis
    proof (cases "us_writable s \<and> (\<exists>x. insert_user s ?u now = Inr x)")
      case True
      then have i: "insert_user s ?u now = Inr s'" using None reset(1) by (auto simp: ResetAdmin_def)
      have "Role_Valid (u_Role ?u)" by (simp add: Role_Valid_def)
      from insert_user_inv [OF i this] reset(2) show ?thesis unfolding users_inv_def by blast
    next
      case False
      then have "s' = s" using None reset(1) by (auto simp: ResetAdmin_def split: sum.splits if_splits)
      then show ?thesis using reset(2) by simp
    qed
  next
    case (Some cur)
    have "apply_change (UpdateRow ?f) InitialAdminUsername (us_rows s) = apply_change (UpdateRow ?f) (u_Username cur) (us_rows s)"
      using find_user_Some [OF Some] by (simp add: apply_change_def)
    with users_inv_update [OF reset(2) Some, of ?f] reset Some show ?thesis
      by (auto simp: ResetAdmin_def keeps_name_def enabled_admin_def Role_Valid_def split: if_splits)
  qed
qed (simp add: users_inv_def)

text \<open>C20: Once the first start has created the initial administrator, no sequence of account
  operations leaves the table without an enabled administrator, with an unknown role, or with
  two names that differ in case only.
\<close>

theorem an_admin_is_always_left:
  assumes "EnsureInitialAdmin hashPassword s draws now other = (Inr (Some pw), s0)"
    and "user_reach now s0 t s'"
  shows "(\<exists>u\<in>set (us_rows s'). enabled_admin u) \<and> (\<forall>u\<in>set (us_rows s'). Role_Valid (u_Role u))
    \<and> names_unique (us_rows s')"
proof -
  have "users_inv s0" using assms(1)
    by (auto simp: EnsureInitialAdmin_def users_inv_def names_unique_def Role_Valid_def enabled_admin_def Let_def
        split: option.splits if_splits)
  with assms(2) have "users_inv s'" by (induction rule: user_reach.induct) (auto intro: user_step_inv)
  then show ?thesis by (simp add: users_inv_def)
qed

text \<open>A first start on an empty table, then an attempt to delete the only administrator.\<close>

definition demo_empty :: user_store where
  "demo_empty = \<lparr>us_rows = [], us_readable = True, us_writable = True\<rparr>"

definition demo_admin :: user where
  "demo_admin = \<lparr>u_Username = ''admin'', u_PasswordHash = ''h'', u_Role = ''admin'', u_Disabled = False,
     u_MustChangePassword = True, u_TokenVersion = 1000, u_CreatedAt = 0, u_LastLoginAt = None\<rparr>"

definition demo_started :: user_store where
  "demo_started = demo_empty\<lparr>us_rows := [demo_admin]\<rparr>"

lemma demo_start:
  "EnsureInitialAdmin (\<lambda>pw. Some ''h'') demo_empty (\<lambda>i. Some i) 1000 (\<lambda>s. s) = (Inr (Some ''ABCDEFGHIJKLMNOPQRST''), demo_started)"
  by code_simp

lemma demo_delete: "Users_Delete demo_started ''ADMIN'' = (Some ErrLastAdmin, demo_started)"
  by code_simp

theorem an_admin_is_always_left_witness:
  "Users_Delete demo_started ''ADMIN'' = (Some ErrLastAdmin, demo_started) \<and> (\<exists>u\<in>set (us_rows demo_started). enabled_admin u)"
proof -
  have "user_reach 1000 demo_started 1001 demo_started"
    using user_step.delete [OF demo_delete] by (intro user_reach.step [OF user_reach.start]) simp_all
  from an_admin_is_always_left [OF demo_start this] demo_delete show ?thesis by simp
qed

section \<open>Token versions never come back\<close>

text \<open>What a session depends on: the password, the role and whether the account is enabled.\<close>

definition credentials :: "user \<Rightarrow> string \<times> string \<times> bool" where
  "credentials u = (u_PasswordHash u, u_Role u, u_Disabled u)"

definition version_step :: "user \<Rightarrow> user \<Rightarrow> bool" where
  "version_step u u' \<longleftrightarrow> u_TokenVersion u' = u_TokenVersion u \<and> credentials u' = credentials u
     \<or> u_TokenVersion u' = u_TokenVersion u + 1"

lemma version_step_refl [simp]: "version_step u u"
  by (simp add: version_step_def)

lemma version_step_bump: "u_TokenVersion v = u_TokenVersion u \<Longrightarrow> version_step u (bump_version v)"
  by (simp add: version_step_def)

lemma insert_user_shape:
  assumes "insert_user s u now = Inr s'"
  shows "\<exists>v. find_user (u_Username v) (us_rows s) = None \<and> us_rows s' = us_rows s @ [v] \<and> u_TokenVersion v = wrap64 now"
  using assms
  by (intro exI [of _ "u\<lparr>u_TokenVersion := wrap64 now, u_CreatedAt := of_unix (time_unix now), u_LastLoginAt := None\<rparr>"])
    (auto simp: insert_user_def split: if_splits)

text \<open>Every operation updates one row, deletes one, adds one, or leaves the table alone.\<close>

lemma user_step_shape:
  assumes "user_step now s s'"
  obtains (same) "us_rows s' = us_rows s"
  | (update) f name where "us_rows s' = apply_change (UpdateRow f) name (us_rows s)" "keeps_name f" "\<And>u. version_step u (f u)"
  | (delete) name where "us_rows s' = apply_change DeleteRow name (us_rows s)"
  | (insert) u where "find_user (u_Username u) (us_rows s) = None" "us_rows s' = us_rows s @ [u]" "u_TokenVersion u = wrap64 now"
  using assms
proof (cases rule: user_step.cases)
  case (create u err)
  then consider "s' = s" | "insert_user s u now = Inr s'"
    by (auto simp: Users_Create_def split: option.splits sum.splits)
  then show thesis
  proof cases
    case 2
    then show thesis using insert_user_shape that(4) by blast
  qed (use same in simp)
next
  case (role name r err)
  then consider "s' = s" | "mutate s name (\<lambda>tx cur. if u_Role cur = r then Inr NoChange
        else case (if r \<noteq> RoleAdmin then guardLastAdmin tx cur else None) of
          Some e \<Rightarrow> Inl e | None \<Rightarrow> Inr (UpdateRow (\<lambda>u. bump_version (u\<lparr>u_Role := r\<rparr>)))) = (err, s')"
    by (auto simp: SetRole_def split: if_splits)
  then show thesis
  proof cases
    case 2
    then show thesis
    proof (cases rule: mutate_cases)
      case (changed cur ch)
      then have "ch = UpdateRow (\<lambda>u. bump_version (u\<lparr>u_Role := r\<rparr>))" by (auto split: if_splits option.splits)
      with changed(7) show thesis by (intro update [of _ "u_Username cur"]) (auto simp: keeps_name_def intro: version_step_bump)
    qed (use same in simp_all)
  qed (use same in simp)
next
  case (disabled name d err)
  from disabled(1) [unfolded SetDisabled_def] show thesis
  proof (cases rule: mutate_cases)
    case (changed cur ch)
    then have "ch = UpdateRow (\<lambda>u. bump_version (u\<lparr>u_Disabled := d\<rparr>))" by (auto split: if_splits option.splits)
    with changed(7) show thesis by (intro update [of _ "u_Username cur"]) (auto simp: keeps_name_def intro: version_step_bump)
  qed (use same in simp_all)
next
  case (password name h m err)
  from password(1) [unfolded SetPassword_def] show thesis
  proof (cases rule: mutate_cases)
    case (changed cur ch)
    then have "ch = UpdateRow (\<lambda>u. bump_version (u\<lparr>u_PasswordHash := h, u_MustChangePassword := m\<rparr>))" by simp
    with changed(7) show thesis by (intro update [of _ "u_Username cur"]) (auto simp: keeps_name_def intro: version_step_bump)
  qed (use same in simp_all)
next
  case (delete name err)
  from delete(1) [unfolded Users_Delete_def] show thesis
  proof (cases rule: mutate_cases)
    case (changed cur ch)
    then have "ch = DeleteRow" by (auto split: option.splits)
    with changed(7) that(3) show thesis by auto
  qed (use same in simp_all)
next
  case (touch name t err)
  then show thesis
    using same update [of "\<lambda>u. u\<lparr>u_LastLoginAt := Some (of_unix (time_unix t))\<rparr>" name]
    by (auto simp: TouchLogin_def keeps_name_def version_step_def credentials_def split: if_splits)
next
  case (reset h res)
  let ?f = "\<lambda>u. bump_version (u\<lparr>u_PasswordHash := h, u_MustChangePassword := True, u_Disabled := False, u_Role := RoleAdmin\<rparr>)"
  have "keeps_name ?f" "version_step u (?f u)" for u by (auto simp: keeps_name_def intro: version_step_bump)
  note upd = this
  from reset consider "s' = s" | "us_rows s' = apply_change (UpdateRow ?f) InitialAdminUsername (us_rows s)"
    | u where "insert_user s u now = Inr s'"
    by (auto simp: ResetAdmin_def split: if_splits sum.splits)
  then show thesis
  proof cases
    case 2
    then show thesis using update upd by blast
  next
    case 3
    then show thesis using insert_user_shape that(4) by blast
  qed (use same in simp)
qed (use same in simp)

lemma find_user_append:
  "find_user n (rows @ [u]) = (case find_user n rows of Some v \<Rightarrow> Some v
     | None \<Rightarrow> if nocase (u_Username u) = nocase n then Some u else None)"
  by (induction rows) (auto simp: find_user_def)

lemma user_step_row:
  assumes "user_step now s s'" "find_user n (us_rows s') = Some u'"
  shows "(\<exists>u. find_user n (us_rows s) = Some u \<and> version_step u u')
    \<or> find_user n (us_rows s) = None \<and> u_TokenVersion u' = wrap64 now"
  using assms(1)
proof (cases rule: user_step_shape)
  case (update f name)
  with assms(2) show ?thesis by (auto simp: find_user_update split: if_splits)
next
  case (delete name)
  with assms(2) show ?thesis by (auto simp: find_user_delete split: if_splits)
next
  case (insert u)
  with assms(2) show ?thesis by (auto simp: find_user_append split: option.splits if_splits)
qed (use assms(2) in simp)

definition versions_by :: "gotime \<Rightarrow> user_store \<Rightarrow> bool" where
  "versions_by t s \<longleftrightarrow> (\<forall>n u. find_user n (us_rows s) = Some u \<longrightarrow> u_TokenVersion u \<le> t)"

lemma user_reach_row:
  assumes "user_reach t s t' s'" "versions_by t s" "find_user n (us_rows s) = Some u" "min_int64 \<le> t" "t' \<le> max_int64"
  shows "t \<le> t' \<and> versions_by t' s' \<and> (\<forall>u'. find_user n (us_rows s') = Some u' \<longrightarrow>
    u_TokenVersion u < u_TokenVersion u' \<or> u_TokenVersion u' = u_TokenVersion u \<and> credentials u' = credentials u)"
  using assms
proof (induction rule: user_reach.induct)
  case (step t s t1 s1 t2 s2)
  have w: "wrap64 t2 = t2" and le: "t \<le> t1" and vb: "versions_by t1 s1"
    using step by (auto intro!: wrap64_id)
  have "u_TokenVersion u2 \<le> t2" if "find_user m (us_rows s2) = Some u2" for m u2
    using user_step_row [OF step(3) that] vb step(2) w by (fastforce simp: versions_by_def version_step_def)
  moreover have "u_TokenVersion u < u_TokenVersion u2 \<or> u_TokenVersion u2 = u_TokenVersion u \<and> credentials u2 = credentials u"
    if "find_user n (us_rows s2) = Some u2" for u2
  proof -
    have "u_TokenVersion u \<le> t" using step(5,6) by (auto simp: versions_by_def)
    with user_step_row [OF step(3) that] step le w show ?thesis by (fastforce simp: version_step_def)
  qed
  ultimately show ?case using le step(2) by (simp add: versions_by_def)
qed auto

text \<open>
  A token version is never reused with other credentials: over any run of the store, deletion
  and re-creation of the account included, a name whose password, role or status differs from
  what it was has a larger version, given a clock that advances between operations and has not
  passed the 64-bit range of nanoseconds.
\<close>

theorem stale_version_never_returns:
  assumes "user_reach t s t' s'" "versions_by t s" "min_int64 \<le> t" "t' \<le> max_int64"
    and "find_user n (us_rows s) = Some u" "find_user n (us_rows s') = Some u'"
    and "credentials u' \<noteq> credentials u"
  shows "u_TokenVersion u < u_TokenVersion u'"
  using user_reach_row [OF assms(1,2,5,3,4)] assms(6,7) by auto

definition demo_reset_admin :: user where
  "demo_reset_admin = demo_admin\<lparr>u_PasswordHash := ''g'', u_MustChangePassword := False, u_TokenVersion := 1001\<rparr>"

lemma demo_password:
  "SetPassword demo_started ''Admin'' ''g'' False = (None, demo_started\<lparr>us_rows := [demo_reset_admin]\<rparr>)"
  by code_simp

theorem stale_version_never_returns_witness: "u_TokenVersion demo_admin < u_TokenVersion demo_reset_admin"
proof (rule stale_version_never_returns [where n = "''admin''" and t = 1000 and t' = 1001])
  show "user_reach 1000 demo_started 1001 (demo_started\<lparr>us_rows := [demo_reset_admin]\<rparr>)"
    using user_step.password [OF demo_password] by (intro user_reach.step [OF user_reach.start]) simp_all
  show "versions_by 1000 demo_started"
    by (auto simp: versions_by_def demo_started_def demo_admin_def dest!: find_user_Some)
  show "find_user ''admin'' (us_rows demo_started) = Some demo_admin"
    "find_user ''admin'' (us_rows (demo_started\<lparr>us_rows := [demo_reset_admin]\<rparr>)) = Some demo_reset_admin"
    "credentials demo_reset_admin \<noteq> credentials demo_admin"
    by code_simp+
qed (simp_all add: min_int64_def max_int64_def)

text \<open>
  The operations that end the sessions of an account, under whatever spelling of its name: a new password, another
  role, another status, deletion, and the reset of the initial administrator; each as it succeeds.
\<close>

inductive credential_change :: "gotime \<Rightarrow> string \<Rightarrow> user_store \<Rightarrow> user_store \<Rightarrow> bool" where
  password: "nocase name = nocase n \<Longrightarrow> SetPassword s name h m = (None, s') \<Longrightarrow> credential_change now n s s'"
| role: "nocase name = nocase n \<Longrightarrow> find_user n (us_rows s) = Some u \<Longrightarrow> u_Role u \<noteq> r \<Longrightarrow> SetRole s name r = (None, s') \<Longrightarrow> credential_change now n s s'"
| disabled: "nocase name = nocase n \<Longrightarrow> find_user n (us_rows s) = Some u \<Longrightarrow> u_Disabled u \<noteq> d \<Longrightarrow> SetDisabled s name d = (None, s')
    \<Longrightarrow> credential_change now n s s'"
| delete: "nocase name = nocase n \<Longrightarrow> Users_Delete s name = (None, s') \<Longrightarrow> credential_change now n s s'"
| reset: "nocase n = nocase InitialAdminUsername \<Longrightarrow> ResetAdmin s h now = (Inr created, s') \<Longrightarrow> credential_change now n s s'"

lemma find_user_update_bump:
  assumes "find_user n (apply_change (UpdateRow (\<lambda>u. bump_version (f u))) name rows) = Some u'" "nocase name = nocase n"
    and "\<And>u. u_Username (f u) = u_Username u" "\<And>u. u_TokenVersion (f u) = u_TokenVersion u"
  shows "\<exists>u. find_user n rows = Some u \<and> u_TokenVersion u' = u_TokenVersion u + 1"
proof -
  have "keeps_name (\<lambda>u. bump_version (f u))" using assms(3) by (simp add: keeps_name_def bump_version_def)
  with assms find_user_update [of "\<lambda>u. bump_version (f u)" n name rows]
  have "map_option (\<lambda>u. bump_version (f u)) (find_user n rows) = Some u'" by simp
  then show ?thesis using assms(4) by (auto simp: bump_version_def)
qed

lemma mutate_bumps:
  assumes "mutate s name fn = (None, s')" "nocase name = nocase n" "find_user n (us_rows s') = Some u'"
    and "\<And>cur ch. find_user name (us_rows s) = Some cur \<Longrightarrow> fn s cur = Inr ch \<Longrightarrow> ch = DeleteRow \<or> (\<exists>f. ch = UpdateRow (\<lambda>u. bump_version (f u))
       \<and> (\<forall>u. u_Username (f u) = u_Username u \<and> u_TokenVersion (f u) = u_TokenVersion u))"
  shows "\<exists>u. find_user n (us_rows s) = Some u \<and> u_TokenVersion u' = u_TokenVersion u + 1"
  using assms(1)
proof (cases rule: mutate_cases)
  case (kept cur)
  with assms(4) [OF kept(3,4)] show ?thesis by auto
next
  case (changed cur ch)
  have n: "nocase (u_Username cur) = nocase n" using find_user_Some [OF changed(2)] assms(2) by simp
  from assms(4) [OF changed(2,3)] show ?thesis
  proof
    assume "ch = DeleteRow"
    with changed(7) assms(3) n show ?thesis by (simp add: find_user_delete)
  next
    assume "\<exists>f. ch = UpdateRow (\<lambda>u. bump_version (f u)) \<and> (\<forall>u. u_Username (f u) = u_Username u \<and> u_TokenVersion (f u) = u_TokenVersion u)"
    then obtain f where "ch = UpdateRow (\<lambda>u. bump_version (f u))" "\<And>u. u_Username (f u) = u_Username u" "\<And>u. u_TokenVersion (f u) = u_TokenVersion u"
      by blast
    with changed(7) assms(3) n show ?thesis by (auto intro: find_user_update_bump [of n f "u_Username cur" "us_rows s" u'])
  qed
qed simp

text \<open>After such an operation the account is gone, or at a higher version, or was inserted at the time of the operation.\<close>

lemma credential_change_bumps:
  assumes "credential_change now n s s'" "find_user n (us_rows s') = Some u'"
  shows "(\<exists>u. find_user n (us_rows s) = Some u \<and> u_TokenVersion u' = u_TokenVersion u + 1) \<or> u_TokenVersion u' = wrap64 now"
  using assms(1)
proof cases
  case (password name h m)
  show ?thesis
    by (rule disjI1, rule mutate_bumps [OF password(2) [unfolded SetPassword_def] password(1) assms(2)])
      (auto intro!: exI [of _ "\<lambda>u. u\<lparr>u_PasswordHash := h, u_MustChangePassword := m\<rparr>"])
next
  case (role name u r)
  from role(4) have "mutate s name (\<lambda>tx cur. if u_Role cur = r then Inr NoChange
        else case (if r \<noteq> RoleAdmin then guardLastAdmin tx cur else None) of
          Some e \<Rightarrow> Inl e | None \<Rightarrow> Inr (UpdateRow (\<lambda>u. bump_version (u\<lparr>u_Role := r\<rparr>)))) = (None, s')"
    by (simp add: SetRole_def split: if_splits)
  then show ?thesis
  proof (rule disjI1 [OF mutate_bumps, OF _ role(1) assms(2)])
    fix cur ch
    assume "find_user name (us_rows s) = Some cur"
      and "(if u_Role cur = r then Inr NoChange else case (if r \<noteq> RoleAdmin then guardLastAdmin s cur else None) of
          Some e \<Rightarrow> Inl e | None \<Rightarrow> Inr (UpdateRow (\<lambda>u. bump_version (u\<lparr>u_Role := r\<rparr>)))) = Inr ch"
    then have "ch = UpdateRow (\<lambda>u. bump_version (u\<lparr>u_Role := r\<rparr>))"
      using role(2,3) find_user_cong [OF role(1)] by (auto split: option.splits if_splits)
    then show "ch = DeleteRow \<or> (\<exists>f. ch = UpdateRow (\<lambda>u. bump_version (f u))
       \<and> (\<forall>u. u_Username (f u) = u_Username u \<and> u_TokenVersion (f u) = u_TokenVersion u))"
      by (intro disjI2 exI [of _ "\<lambda>u. u\<lparr>u_Role := r\<rparr>"]) simp
  qed
next
  case (disabled name u d)
  show ?thesis
  proof (rule disjI1, rule mutate_bumps [OF disabled(4) [unfolded SetDisabled_def] disabled(1) assms(2)])
    fix cur ch
    assume "find_user name (us_rows s) = Some cur"
      and "(if u_Disabled cur = d then Inr NoChange else case (if d then guardLastAdmin s cur else None) of
         Some e \<Rightarrow> Inl e | None \<Rightarrow> Inr (UpdateRow (\<lambda>u. bump_version (u\<lparr>u_Disabled := d\<rparr>)))) = Inr ch"
    then have "ch = UpdateRow (\<lambda>u. bump_version (u\<lparr>u_Disabled := d\<rparr>))"
      using disabled(2,3) find_user_cong [OF disabled(1)] by (auto split: option.splits if_splits)
    then show "ch = DeleteRow \<or> (\<exists>f. ch = UpdateRow (\<lambda>u. bump_version (f u))
       \<and> (\<forall>u. u_Username (f u) = u_Username u \<and> u_TokenVersion (f u) = u_TokenVersion u))"
      by (intro disjI2 exI [of _ "\<lambda>u. u\<lparr>u_Disabled := d\<rparr>"]) simp
  qed
next
  case (delete name)
  show ?thesis
    by (rule disjI1, rule mutate_bumps [OF delete(2) [unfolded Users_Delete_def] delete(1) assms(2)]) (auto split: option.splits)
next
  case (reset h created)
  let ?f = "\<lambda>u. u\<lparr>u_PasswordHash := h, u_MustChangePassword := True, u_Disabled := False, u_Role := RoleAdmin\<rparr>"
  consider "us_rows s' = apply_change (UpdateRow (\<lambda>u. bump_version (?f u))) InitialAdminUsername (us_rows s)"
    | u where "find_user n (us_rows s) = None" "insert_user s u now = Inr s'"
    using reset(2) find_user_cong [OF reset(1), of "us_rows s"] by (auto simp: ResetAdmin_def split: if_splits sum.splits)
  then show ?thesis
  proof cases
    case 1
    then have "find_user n (apply_change (UpdateRow (\<lambda>u. bump_version (?f u))) InitialAdminUsername (us_rows s)) = Some u'" using assms(2) by simp
    from find_user_update_bump [OF this reset(1) [symmetric]] show ?thesis by simp
  next
    case 2
    obtain v where "us_rows s' = us_rows s @ [v]" "u_TokenVersion v = wrap64 now" using insert_user_shape [OF 2(2)] by blast
    with 2(1) assms(2) show ?thesis by (simp add: find_user_append split: if_splits)
  qed
qed

text \<open>A version the clock has passed and that no row of the name is below stays below the name's rows.\<close>

lemma user_reach_floor:
  assumes "user_reach t s t' s'" "v \<le> t" "min_int64 \<le> t" "t' \<le> max_int64"
    and "\<forall>u. find_user n (us_rows s) = Some u \<longrightarrow> v < u_TokenVersion u"
  shows "t \<le> t' \<and> (\<forall>u. find_user n (us_rows s') = Some u \<longrightarrow> v < u_TokenVersion u)"
  using assms
proof (induction rule: user_reach.induct)
  case (step t s t1 s1 t2 s2)
  then have le: "t \<le> t1" and IH: "\<forall>u. find_user n (us_rows s1) = Some u \<longrightarrow> v < u_TokenVersion u" by auto
  have w: "wrap64 t2 = t2" using le step by (intro wrap64_id) auto
  have "v < u_TokenVersion u2" if "find_user n (us_rows s2) = Some u2" for u2
    using user_step_row [OF step(3) that] IH le step(2,5) w by (fastforce simp: version_step_def)
  with le step(2) show ?case by auto
qed simp

text \<open>Once an account's credentials were changed in a run, its row, if it has one, is past every version it had before.\<close>

lemma changed_credentials_pass_version:
  assumes "user_reach t s ta sa" "ta < tb" "credential_change tb n sa sb" "user_reach tb sb t' s'"
    and "versions_by t s" "min_int64 \<le> t" "t' \<le> max_int64" "find_user n (us_rows s) = Some u" "find_user n (us_rows s') = Some u'"
  shows "u_TokenVersion u < u_TokenVersion u'"
proof -
  have tb: "tb \<le> t'" using assms(4) by (induction rule: user_reach.induct) auto
  note before = user_reach_row [OF assms(1,5,8,6)]
  have ta: "ta \<le> max_int64" using assms(2,7) tb by simp
  have v: "u_TokenVersion u \<le> t" using assms(5,8) by (auto simp: versions_by_def)
  have w: "wrap64 tb = tb" using before [OF ta] assms(2,6,7) tb by (intro wrap64_id) auto
  have "\<forall>x. find_user n (us_rows sb) = Some x \<longrightarrow> u_TokenVersion u < u_TokenVersion x"
    using credential_change_bumps [OF assms(3)] before [OF ta] v w assms(2) by fastforce
  from user_reach_floor [OF assms(4) _ _ assms(7) this] before [OF ta] v assms(2,6,9) show ?thesis by auto
qed

end
