(* ===== verification/Login_Limiter.thy ===== *)
theory Login_Limiter
  imports Users "HOL-Library.AList"
begin

text \<open>
  The login limiter, \<^verbatim>\<open>internal/auth/ratelimit.go\<close>: failures per user and address and per
  address inside a fixed window. The map of windows is an association list with distinct keys
  and the clock is an argument of \<open>Allow\<close>. An abstract limiter that never forgets a window
  says what the sweeping implementation promises.
\<close>

section \<open>Windows and keys\<close>

definition LoginPairLimit :: int where "LoginPairLimit = 5"
definition LoginIPLimit :: int where "LoginIPLimit = 20"
definition LoginWindow :: duration where "LoginWindow = 15 * Minute"
definition sweepThreshold :: int where "sweepThreshold = 10000"
definition sweepInterval :: duration where "sweepInterval = go_div LoginWindow 15"

record window =
  w_start :: gotime
  w_count :: int

record login_limiter =
  ll_entries :: "(string \<times> window) list"
  ll_nextSweep :: gotime

definition NewLoginLimiter :: login_limiter where
  "NewLoginLimiter = \<lparr>ll_entries = [], ll_nextSweep = zero_time\<rparr>"

definition pairKey :: "string \<Rightarrow> string \<Rightarrow> string" where
  "pairKey username ip =
     (if ValidateUsername username \<noteq> None then [] else ''p'' @ [CHR 0x00] @ to_lower username @ [CHR 0x00] @ ip)"

definition ipKey :: "string \<Rightarrow> string" where
  "ipKey ip = ''i'' @ [CHR 0x00] @ ip"

section \<open>Operations\<close>

definition blocked :: "login_limiter \<Rightarrow> string \<Rightarrow> int \<Rightarrow> gotime \<Rightarrow> duration \<times> login_limiter" where
  "blocked l key limit now =
     (case map_of (ll_entries l) key of
        None \<Rightarrow> (0, l)
      | Some w \<Rightarrow>
          let end_time = time_add (w_start w) LoginWindow in
          if \<not> now < end_time then (0, l\<lparr>ll_entries := AList.delete key (ll_entries l)\<rparr>)
          else if limit \<le> w_count w then (time_sub end_time now, l)
          else (0, l))"

definition bump :: "login_limiter \<Rightarrow> string \<Rightarrow> gotime \<Rightarrow> login_limiter" where
  "bump l key now =
     l\<lparr>ll_entries := AList.update key
        (case map_of (ll_entries l) key of
           None \<Rightarrow> \<lparr>w_start = now, w_count = 1\<rparr>
         | Some w \<Rightarrow> if \<not> now < time_add (w_start w) LoginWindow then \<lparr>w_start = now, w_count = 1\<rparr>
                     else w\<lparr>w_count := w_count w + 1\<rparr>)
        (ll_entries l)\<rparr>"

definition sweep :: "login_limiter \<Rightarrow> gotime \<Rightarrow> login_limiter" where
  "sweep l now = l\<lparr>ll_entries := filter (\<lambda>(k, w). now < time_add (w_start w) LoginWindow) (ll_entries l)\<rparr>"

definition maybe_sweep :: "login_limiter \<Rightarrow> gotime \<Rightarrow> login_limiter" where
  "maybe_sweep l now =
     (if sweepThreshold < int (length (ll_entries l)) \<and> \<not> now < ll_nextSweep l
      then (sweep l now)\<lparr>ll_nextSweep := time_add now sweepInterval\<rparr> else l)"

definition Allow :: "login_limiter \<Rightarrow> string \<Rightarrow> string \<Rightarrow> gotime \<Rightarrow> (duration \<times> bool) \<times> login_limiter" where
  "Allow l username ip now =
     (let l1 = maybe_sweep l now;
          pk = pairKey username ip;
          (retry, l2) = (if pk \<noteq> [] then blocked l1 pk LoginPairLimit now else (0, l1));
          (d, l3) = blocked l2 (ipKey ip) LoginIPLimit now;
          retry' = (if retry < d then d else retry)
      in if 0 < retry' then ((retry', False), l3)
         else let l4 = (if pk \<noteq> [] then bump l3 pk now else l3) in ((0, True), bump l4 (ipKey ip) now))"

definition Success :: "login_limiter \<Rightarrow> string \<Rightarrow> string \<Rightarrow> login_limiter" where
  "Success l username ip =
     (let pk = pairKey username ip;
          l1 = (if pk \<noteq> [] then l\<lparr>ll_entries := AList.delete pk (ll_entries l)\<rparr> else l)
      in case map_of (ll_entries l1) (ipKey ip) of
           None \<Rightarrow> l1
         | Some w \<Rightarrow> if 0 < w_count w
             then l1\<lparr>ll_entries := AList.update (ipKey ip) (w\<lparr>w_count := w_count w - 1\<rparr>) (ll_entries l1)\<rparr> else l1)"

section \<open>Keys are told apart\<close>

lemma username_char_not_nul: "username_char c \<Longrightarrow> c \<noteq> CHR 0x00"
  by (auto simp: username_char_def is_upper_def is_lower_def is_digit_def)

lemma ipKey_not_pairKey [simp]: "ipKey ip \<noteq> pairKey u ip'" "pairKey u ip' \<noteq> ipKey ip" "ipKey ip \<noteq> []"
  by (simp_all add: ipKey_def pairKey_def)

lemma ipKey_inj [simp]: "ipKey a = ipKey b \<longleftrightarrow> a = b"
  by (simp add: ipKey_def)

lemma pairKey_valid [simp]: "pairKey u ip \<noteq> [] \<longleftrightarrow> ValidateUsername u = None"
  by (simp add: pairKey_def)

section \<open>The abstract limiter\<close>

text \<open>What a key's window means at a given time: an expired one is no window.\<close>

type_synonym windows = "string \<Rightarrow> window option"

definition live :: "gotime \<Rightarrow> window option \<Rightarrow> window option" where
  "live now ow = (case ow of None \<Rightarrow> None | Some w \<Rightarrow> if now < w_start w + LoginWindow then Some w else None)"

definition spec_wait :: "windows \<Rightarrow> string \<Rightarrow> int \<Rightarrow> gotime \<Rightarrow> duration" where
  "spec_wait m key limit now =
     (case live now (m key) of
        None \<Rightarrow> 0
      | Some w \<Rightarrow> if limit \<le> w_count w then time_sub (w_start w + LoginWindow) now else 0)"

definition spec_count :: "windows \<Rightarrow> string \<Rightarrow> gotime \<Rightarrow> windows" where
  "spec_count m key now =
     m(key \<mapsto> (case live now (m key) of
                  None \<Rightarrow> \<lparr>w_start = now, w_count = 1\<rparr>
                | Some w \<Rightarrow> w\<lparr>w_count := w_count w + 1\<rparr>))"

definition spec_allow :: "windows \<Rightarrow> string \<Rightarrow> string \<Rightarrow> gotime \<Rightarrow> (duration \<times> bool) \<times> windows" where
  "spec_allow m username ip now =
     (let valid = (ValidateUsername username = None);
          wait = max (if valid then spec_wait m (pairKey username ip) LoginPairLimit now else 0)
                     (spec_wait m (ipKey ip) LoginIPLimit now)
      in if 0 < wait then ((wait, False), m)
         else ((0, True), spec_count (if valid then spec_count m (pairKey username ip) now else m) (ipKey ip) now))"

definition take_back :: "window \<Rightarrow> window" where
  "take_back w = (if 0 < w_count w then w\<lparr>w_count := w_count w - 1\<rparr> else w)"

definition spec_success :: "windows \<Rightarrow> string \<Rightarrow> string \<Rightarrow> windows" where
  "spec_success m username ip =
     (let m1 = (if ValidateUsername username = None then m(pairKey username ip := None) else m)
      in m1(ipKey ip := map_option take_back (m1 (ipKey ip))))"

text \<open>The implementation agrees with the abstract limiter on every window that is live from now on.\<close>

definition ll_refines :: "gotime \<Rightarrow> login_limiter \<Rightarrow> windows \<Rightarrow> bool" where
  "ll_refines now l m \<longleftrightarrow> distinct (map fst (ll_entries l)) \<and> (\<forall>k. live now (map_of (ll_entries l) k) = live now (m k))"


lemma live_later: "live now a = live now b \<Longrightarrow> now \<le> now' \<Longrightarrow> live now' a = live now' b"
  by (auto simp: live_def split: option.splits if_splits)

lemma live_Some: "live now a = Some w \<longleftrightarrow> a = Some w \<and> now < w_start w + LoginWindow"
  by (auto simp: live_def split: option.splits if_splits)

lemma live_idem [simp]: "live now (live now a) = live now a"
  by (auto simp: live_def split: option.splits)

lemma ll_refines_later: "ll_refines now l m \<Longrightarrow> now \<le> now' \<Longrightarrow> ll_refines now' l m"
  by (auto simp: ll_refines_def intro: live_later)

lemma map_of_kept_windows:
  assumes "distinct (map fst ws)"
  shows "map_of (filter keep ws) k = Option.bind (map_of ws k) (\<lambda>w. if keep (k, w) then Some w else None)"
  using assms by (induction ws) (auto dest!: map_of_SomeD intro: rev_image_eqI split: bind_splits)

text \<open>Dropping expired windows changes no live view.\<close>

lemma live_maybe_sweep:
  "distinct (map fst (ll_entries l)) \<Longrightarrow>
   live now (map_of (ll_entries (maybe_sweep l now)) k) = live now (map_of (ll_entries l) k)"
  by (auto simp: maybe_sweep_def sweep_def map_of_kept_windows live_def time_add_def split: option.split)

lemma maybe_sweep_refines: "ll_refines now l m \<Longrightarrow> ll_refines now (maybe_sweep l now) m"
  unfolding ll_refines_def by (simp add: live_maybe_sweep) (simp add: maybe_sweep_def sweep_def distinct_map_filter)

lemma live_blocked:
  "live now (map_of (ll_entries (snd (blocked l key limit now))) k) = live now (map_of (ll_entries l) k)"
  by (auto simp: blocked_def delete_conv Let_def time_add_def live_def split: option.split)

lemma blocked_wait: "fst (blocked l key limit now) = spec_wait (map_of (ll_entries l)) key limit now"
  by (auto simp: blocked_def spec_wait_def Let_def time_add_def live_def split: option.split)

lemma spec_wait_cong: "live now (m key) = live now (m' key) \<Longrightarrow> spec_wait m key limit now = spec_wait m' key limit now"
  by (simp add: spec_wait_def)

lemma blocked_distinct:
  "distinct (map fst (ll_entries l)) \<Longrightarrow> distinct (map fst (ll_entries (snd (blocked l key limit now))))"
  by (auto simp: blocked_def Let_def distinct_delete split: option.split)

lemma blocked_refines:
  assumes "ll_refines now l m" "blocked l key limit now = (d, l')"
  shows "d = spec_wait m key limit now \<and> ll_refines now l' m"
proof -
  have v: "live now (map_of (ll_entries l) k) = live now (m k)" for k using assms(1) by (simp add: ll_refines_def)
  have "d = spec_wait m key limit now"
    using assms(2) blocked_wait [of l key limit now] spec_wait_cong [where m = "map_of (ll_entries l)" and m' = m and key = key, OF v] by simp
  moreover have "ll_refines now l' m"
    using assms live_blocked [of now l key limit] blocked_distinct [of l key limit now] by (simp add: ll_refines_def)
  ultimately show ?thesis ..
qed

lemma bump_lookup:
  "map_of (ll_entries (bump l key now)) = spec_count (map_of (ll_entries l)) key now"
  by (auto simp: bump_def spec_count_def update_conv live_def time_add_def split: option.split)

lemma live_spec_count:
  assumes "\<And>k. live now (m k) = live now (m' k)"
  shows "live now (spec_count m key now k) = live now (spec_count m' key now k)"
  using assms by (simp add: spec_count_def)

lemma bump_refines: "ll_refines now l m \<Longrightarrow> ll_refines now (bump l key now) (spec_count m key now)"
  unfolding ll_refines_def bump_lookup using live_spec_count [of now "map_of (ll_entries l)" m]
  by (simp add: bump_def distinct_update)

lemma Allow_refines:
  assumes "ll_refines now l m"
  shows "fst (Allow l u ip now) = fst (spec_allow m u ip now) \<and>
    ll_refines now (snd (Allow l u ip now)) (snd (spec_allow m u ip now))"
proof -
  let ?l1 = "maybe_sweep l now" and ?pk = "pairKey u ip"
  obtain r l2 where 2: "(if ?pk \<noteq> [] then blocked ?l1 ?pk LoginPairLimit now else (0, ?l1)) = (r, l2)"
    by (metis surj_pair)
  obtain d l3 where 3: "blocked l2 (ipKey ip) LoginIPLimit now = (d, l3)" by (metis surj_pair)
  have r: "r = (if ValidateUsername u = None then spec_wait m ?pk LoginPairLimit now else 0)" and l2: "ll_refines now l2 m"
    using 2 maybe_sweep_refines [OF assms] blocked_refines [of now ?l1 m ?pk LoginPairLimit r l2]
    by (auto split: if_splits)
  from blocked_refines [OF l2 3] have d: "d = spec_wait m (ipKey ip) LoginIPLimit now" and l3: "ll_refines now l3 m" by auto
  have w: "(if r < d then d else r) = max r d" by simp
  have a: "Allow l u ip now = (if 0 < max r d then ((max r d, False), l3)
      else ((0, True), bump (if ValidateUsername u = None then bump l3 ?pk now else l3) (ipKey ip) now))"
    unfolding Allow_def Let_def 2 split 3 w by simp
  have "ll_refines now (bump (if ValidateUsername u = None then bump l3 ?pk now else l3) (ipKey ip) now)
      (spec_count (if ValidateUsername u = None then spec_count m ?pk now else m) (ipKey ip) now)"
    using l3 by (intro bump_refines) (simp add: bump_refines)
  with l3 show ?thesis by (simp add: a spec_allow_def r d Let_def)
qed

lemma Success_refines:
  assumes "ll_refines now l m"
  shows "ll_refines now (Success l u ip) (spec_success m u ip)"
proof -
  let ?l = "if ValidateUsername u = None then l\<lparr>ll_entries := AList.delete (pairKey u ip) (ll_entries l)\<rparr> else l"
  let ?m = "if ValidateUsername u = None then m(pairKey u ip := None) else m"
  have r: "ll_refines now ?l ?m" using assms by (auto simp: ll_refines_def delete_conv distinct_delete)
  have s: "map_of (ll_entries (Success l u ip)) = (map_of (ll_entries ?l))(ipKey ip := map_option take_back (map_of (ll_entries ?l) (ipKey ip)))"
  proof (cases "map_of (ll_entries ?l) (ipKey ip)")
    case None
    then show ?thesis unfolding Success_def Let_def pairKey_valid by (simp add: fun_upd_idem)
  next
    case (Some w)
    then show ?thesis unfolding Success_def Let_def pairKey_valid by (simp add: update_conv' fun_upd_idem take_back_def)
  qed
  have f: "live now a = live now b \<Longrightarrow> live now (map_option take_back a) = live now (map_option take_back b)" for a b
    by (auto simp: live_def take_back_def split: option.splits if_splits)
  have "distinct (map fst (ll_entries ?l))" using r by (simp add: ll_refines_def)
  then have "distinct (map fst (ll_entries (Success l u ip)))"
    unfolding Success_def Let_def pairKey_valid by (cases "map_of (ll_entries ?l) (ipKey ip)") (simp_all add: distinct_update)
  moreover have "live now (map_of (ll_entries (Success l u ip)) k) = live now (spec_success m u ip k)" for k
  proof (cases "k = ipKey ip")
    case True
    have "live now (map_of (ll_entries ?l) (ipKey ip)) = live now (?m (ipKey ip))" using r by (simp add: ll_refines_def)
    from f [OF this] True show ?thesis by (simp add: s spec_success_def Let_def del: option.map_cong0)
  next
    case False
    have "live now (map_of (ll_entries ?l) k) = live now (?m k)" using r unfolding ll_refines_def by blast
    with False show ?thesis by (simp add: s spec_success_def Let_def)
  qed
  ultimately show ?thesis by (simp add: ll_refines_def)
qed

section \<open>Runs\<close>

text \<open>Attempts, each with the time \<open>Allow\<close> reads, and reports of success, in the order they take the lock.\<close>

datatype login_event = LoginAttempt string string gotime | Succeeded string string

fun login_run ::
  "('s \<Rightarrow> string \<Rightarrow> string \<Rightarrow> gotime \<Rightarrow> (duration \<times> bool) \<times> 's) \<Rightarrow> ('s \<Rightarrow> string \<Rightarrow> string \<Rightarrow> 's) \<Rightarrow> 's \<Rightarrow>
   login_event list \<Rightarrow> (login_event \<times> duration \<times> bool) list" where
  "login_run allow success s [] = []"
| "login_run allow success s (LoginAttempt u ip now # es) =
     (LoginAttempt u ip now, fst (allow s u ip now)) # login_run allow success (snd (allow s u ip now)) es"
| "login_run allow success s (Succeeded u ip # es) =
     (Succeeded u ip, 0, True) # login_run allow success (success s u ip) es"

fun clock_ok :: "gotime \<Rightarrow> login_event list \<Rightarrow> bool" where
  "clock_ok t [] \<longleftrightarrow> True"
| "clock_ok t (LoginAttempt u ip now # es) \<longleftrightarrow> t \<le> now \<and> clock_ok now es"
| "clock_ok t (Succeeded u ip # es) \<longleftrightarrow> clock_ok t es"

fun all_before :: "gotime \<Rightarrow> login_event list \<Rightarrow> bool" where
  "all_before T [] \<longleftrightarrow> True"
| "all_before T (LoginAttempt u ip now # es) \<longleftrightarrow> now < T \<and> all_before T es"
| "all_before T (Succeeded u ip # es) \<longleftrightarrow> all_before T es"

fun pair_attempt :: "string \<Rightarrow> login_event \<times> duration \<times> bool \<Rightarrow> int" where
  "pair_attempt k (LoginAttempt u ip now, d, ok) = (if ok \<and> pairKey u ip = k then 1 else 0)"
| "pair_attempt k (Succeeded u ip, _) = 0"

text \<open>Admitted attempts from an address count one, reported successes take one back.\<close>

fun ip_failure :: "string \<Rightarrow> login_event \<times> duration \<times> bool \<Rightarrow> int" where
  "ip_failure ip (LoginAttempt u ip' now, d, ok) = (if ok \<and> ip' = ip then 1 else 0)"
| "ip_failure ip (Succeeded u ip', _) = (if ip' = ip then - 1 else 0)"

lemma event_counts:
  "pair_attempt k (LoginAttempt u ip now, a) = (if snd a \<and> pairKey u ip = k then 1 else 0)"
  "ip_failure ip' (LoginAttempt u ip now, a) = (if snd a \<and> ip = ip' then 1 else 0)"
  by (cases a; simp)+

fun pair_succeeds :: "string \<Rightarrow> login_event \<Rightarrow> bool" where
  "pair_succeeds k (LoginAttempt u ip now) \<longleftrightarrow> False"
| "pair_succeeds k (Succeeded u ip) \<longleftrightarrow> pairKey u ip = k"

section \<open>Bounds on the abstract limiter\<close>

lemma LoginWindow_pos: "0 < LoginWindow"
  by (simp add: LoginWindow_def Minute_def)

lemma spec_wait_open:
  assumes "\<not> 0 < spec_wait m key limit now" "live now (m key) = Some w"
  shows "w_count w < limit"
  using assms time_sub_pos [of "w_start w + LoginWindow" now] by (auto simp: spec_wait_def live_Some split: if_splits)

lemma spec_allow_refused: "\<not> snd (fst (spec_allow m u ip now)) \<Longrightarrow> snd (spec_allow m u ip now) = m"
  by (auto simp: spec_allow_def Let_def split: if_splits)

lemma spec_allow_admitted:
  assumes "snd (fst (spec_allow m u ip now))"
  shows "snd (spec_allow m u ip now) k =
      (if k = ipKey ip \<or> ValidateUsername u = None \<and> k = pairKey u ip then spec_count m k now k else m k)"
    and "\<not> 0 < spec_wait m (ipKey ip) LoginIPLimit now"
    and "ValidateUsername u = None \<Longrightarrow> \<not> 0 < spec_wait m (pairKey u ip) LoginPairLimit now"
  using assms by (auto simp: spec_allow_def spec_count_def Let_def max_def split: if_splits)

text \<open>A key counts what it admitted since its window opened.\<close>

definition counts_up :: "gotime \<Rightarrow> gotime \<Rightarrow> windows \<Rightarrow> string \<Rightarrow> int \<Rightarrow> int \<Rightarrow> bool" where
  "counts_up t now m k limit c \<longleftrightarrow> live now (m k) = None \<and> c \<le> 0
     \<or> (\<exists>w. m k = Some w \<and> t \<le> w_start w \<and> c \<le> w_count w \<and> w_count w \<le> limit)"

lemma counts_up_bound: "counts_up t now m k limit c \<Longrightarrow> 0 \<le> limit \<Longrightarrow> c \<le> limit"
  by (auto simp: counts_up_def)

lemma counts_up_later:
  "counts_up t now m k limit c \<Longrightarrow> now \<le> now' \<Longrightarrow> counts_up t now' m k limit c"
  by (auto simp: counts_up_def live_def split: option.splits if_splits)

lemma counts_up_count:
  assumes "counts_up t now m k limit c" "t \<le> now" "now < t + LoginWindow" "\<not> 0 < spec_wait m k limit now" "1 \<le> limit"
    and "m' k = spec_count m k now k"
  shows "counts_up t now m' k limit (c + 1)"
proof (cases "live now (m k)")
  case None
  with assms show ?thesis by (auto simp: counts_up_def spec_count_def live_def split: option.splits if_splits)
next
  case (Some w)
  with spec_wait_open [OF assms(4)] have "w_count w < limit" by simp
  moreover have "m' k = Some (w\<lparr>w_count := w_count w + 1\<rparr>)" using Some assms(6) by (simp add: spec_count_def)
  moreover have "m k = Some w" using Some by (simp add: live_Some)
  ultimately show ?thesis using Some assms(1) by (auto simp: counts_up_def)
qed

lemma counts_up_cong: "m' k = m k \<Longrightarrow> counts_up t now m' k limit c = counts_up t now m k limit c"
  by (simp add: counts_up_def)

lemma counts_up_take_back:
  "counts_up t now m k limit c \<Longrightarrow> m' k = map_option take_back (m k) \<Longrightarrow> 0 \<le> limit \<Longrightarrow> counts_up t now m' k limit (c - 1)"
  by (cases "m k") (auto simp: counts_up_def live_def take_back_def split: if_splits)

lemma spec_pair_bound:
  assumes "clock_ok now es" "all_before (t + LoginWindow) es" "t \<le> now" "ValidateUsername u = None"
    and "\<forall>e\<in>set es. \<not> pair_succeeds (pairKey u ip) e" "counts_up t now m (pairKey u ip) LoginPairLimit c"
  shows "c + sum_list (map (pair_attempt (pairKey u ip)) (login_run spec_allow spec_success m es)) \<le> LoginPairLimit"
  using assms
proof (induction es arbitrary: now m c)
  case Nil
  then show ?case using counts_up_bound by (simp add: LoginPairLimit_def)
next
  case (Cons e es)
  let ?k = "pairKey u ip"
  have ne: "?k \<noteq> []" using Cons.prems(4) by simp
  show ?case
  proof (cases e)
    case (LoginAttempt u' ip' now')
    let ?m' = "snd (spec_allow m u' ip' now')" and ?ok = "snd (fst (spec_allow m u' ip' now'))"
    have cu: "counts_up t now' m ?k LoginPairLimit c" using Cons.prems LoginAttempt by (auto intro: counts_up_later)
    have cu': "counts_up t now' ?m' ?k LoginPairLimit (c + (if ?ok \<and> pairKey u' ip' = ?k then 1 else 0))"
    proof (cases ?ok)
      case True
      note adm = spec_allow_admitted [OF True]
      show ?thesis
      proof (cases "pairKey u' ip' = ?k")
        case eq: True
        with ne have v: "ValidateUsername u' = None" by (metis pairKey_valid)
        show ?thesis
          using counts_up_count [OF cu, of ?m'] Cons.prems LoginAttempt adm(1) [of ?k] adm(3) [OF v] eq v True
          by (simp add: LoginPairLimit_def)
      next
        case False
        with adm(1) [of ?k] cu counts_up_cong [of ?m' ?k m] show ?thesis by simp
      qed
    qed (use cu spec_allow_refused in auto)
    have "(c + (if ?ok \<and> pairKey u' ip' = ?k then 1 else 0))
        + sum_list (map (pair_attempt ?k) (login_run spec_allow spec_success ?m' es)) \<le> LoginPairLimit"
      by (rule Cons.IH [OF _ _ _ Cons.prems(4) _ cu']) (use Cons.prems LoginAttempt in auto)
    then show ?thesis by (simp add: LoginAttempt event_counts)
  next
    case (Succeeded u' ip')
    then have "pairKey u' ip' \<noteq> ?k" using Cons.prems(5) by simp
    then have "spec_success m u' ip' ?k = m ?k" by (simp add: spec_success_def Let_def)
    with counts_up_cong [of "spec_success m u' ip'" ?k m] Cons Succeeded show ?thesis by simp
  qed
qed

lemma spec_ip_bound:
  assumes "clock_ok now es" "all_before (t + LoginWindow) es" "t \<le> now" "counts_up t now m (ipKey ip) LoginIPLimit c"
  shows "c + sum_list (map (ip_failure ip) (login_run spec_allow spec_success m es)) \<le> LoginIPLimit"
  using assms
proof (induction es arbitrary: now m c)
  case Nil
  then show ?case using counts_up_bound by (simp add: LoginIPLimit_def)
next
  case (Cons e es)
  let ?k = "ipKey ip"
  show ?case
  proof (cases e)
    case (LoginAttempt u' ip' now')
    let ?m' = "snd (spec_allow m u' ip' now')" and ?ok = "snd (fst (spec_allow m u' ip' now'))"
    have cu: "counts_up t now' m ?k LoginIPLimit c" using Cons.prems LoginAttempt by (auto intro: counts_up_later)
    have cu': "counts_up t now' ?m' ?k LoginIPLimit (c + (if ?ok \<and> ip' = ip then 1 else 0))"
    proof (cases ?ok)
      case True
      note adm = spec_allow_admitted [OF True]
      show ?thesis
      proof (cases "ip' = ip")
        case True
        then show ?thesis
          using counts_up_count [OF cu, of ?m'] Cons.prems LoginAttempt adm(1) [of ?k] adm(2) \<open>?ok\<close> by (simp add: LoginIPLimit_def)
      next
        case False
        with adm(1) [of ?k] cu counts_up_cong [of ?m' ?k m] show ?thesis by simp
      qed
    qed (use cu spec_allow_refused in auto)
    have "(c + (if ?ok \<and> ip' = ip then 1 else 0))
        + sum_list (map (ip_failure ip) (login_run spec_allow spec_success ?m' es)) \<le> LoginIPLimit"
      by (rule Cons.IH [OF _ _ _ cu']) (use Cons.prems LoginAttempt in auto)
    then show ?thesis by (simp add: LoginAttempt event_counts)
  next
    case (Succeeded u' ip')
    have cu': "counts_up t now (spec_success m u' ip') ?k LoginIPLimit (c + (if ip' = ip then - 1 else 0))"
    proof (cases "ip' = ip")
      case True
      then have "spec_success m u' ip' ?k = map_option take_back (m ?k)" by (simp add: spec_success_def Let_def)
      with counts_up_take_back [OF Cons.prems(4)] True show ?thesis by (simp add: LoginIPLimit_def)
    next
      case False
      then have "spec_success m u' ip' ?k = m ?k" by (simp add: spec_success_def Let_def)
      with counts_up_cong [of "spec_success m u' ip'" ?k m] Cons.prems(4) False show ?thesis by simp
    qed
    have "(c + (if ip' = ip then - 1 else 0))
        + sum_list (map (ip_failure ip) (login_run spec_allow spec_success (spec_success m u' ip') es)) \<le> LoginIPLimit"
      by (rule Cons.IH [OF _ _ _ cu']) (use Cons.prems Succeeded in auto)
    then show ?thesis by (simp add: Succeeded)
  qed
qed

section \<open>The contract, and the implementation under it\<close>

text \<open>
  What a caller relies on: the answers are those of the abstract limiter, which remembers
  every window, whenever the clock does not run backwards.
\<close>

locale login_throttle =
  fixes allow :: "'s \<Rightarrow> string \<Rightarrow> string \<Rightarrow> gotime \<Rightarrow> (duration \<times> bool) \<times> 's"
    and success :: "'s \<Rightarrow> string \<Rightarrow> string \<Rightarrow> 's"
    and refines :: "gotime \<Rightarrow> 's \<Rightarrow> windows \<Rightarrow> bool"
  assumes allow_refines: "refines now s m \<Longrightarrow> fst (allow s u ip now) = fst (spec_allow m u ip now) \<and>
      refines now (snd (allow s u ip now)) (snd (spec_allow m u ip now))"
    and success_refines: "refines now s m \<Longrightarrow> refines now (success s u ip) (spec_success m u ip)"
    and refines_later: "refines now s m \<Longrightarrow> now \<le> now' \<Longrightarrow> refines now' s m"
begin

lemma same_answers:
  "clock_ok now es \<Longrightarrow> refines now s m \<Longrightarrow> login_run allow success s es = login_run spec_allow spec_success m es"
proof (induction es arbitrary: now s m)
  case (Cons e es)
  show ?case
  proof (cases e)
    case (LoginAttempt u ip now')
    with Cons.prems have "refines now' s m" by (auto intro: refines_later)
    from allow_refines [OF this] Cons LoginAttempt show ?thesis by auto
  next
    case (Succeeded u ip)
    with Cons success_refines show ?thesis by auto
  qed
qed simp

lemma pair_bound:
  assumes "clock_ok t es" "all_before (t + LoginWindow) es" "refines t s m" "live t (m (pairKey u ip)) = None"
    and "ValidateUsername u = None" "\<forall>e\<in>set es. \<not> pair_succeeds (pairKey u ip) e"
  shows "sum_list (map (pair_attempt (pairKey u ip)) (login_run allow success s es)) \<le> LoginPairLimit"
  using spec_pair_bound [OF assms(1,2) order_refl assms(5,6), of m 0] assms(4)
  by (simp add: same_answers [OF assms(1,3)] counts_up_def)

lemma ip_bound:
  assumes "clock_ok t es" "all_before (t + LoginWindow) es" "refines t s m" "live t (m (ipKey ip)) = None"
  shows "sum_list (map (ip_failure ip) (login_run allow success s es)) \<le> LoginIPLimit"
  using spec_ip_bound [OF assms(1,2) order_refl, of m ip 0] assms(4)
  by (simp add: same_answers [OF assms(1,3)] counts_up_def)

end

interpretation limiter: login_throttle Allow Success ll_refines
  by unfold_locales (simp_all add: Allow_refines Success_refines ll_refines_later)

lemma ll_refines_self: "distinct (map fst (ll_entries l)) \<Longrightarrow> ll_refines t l (map_of (ll_entries l))"
  by (simp add: ll_refines_def)

text \<open>C32: Guessing is bounded. From a moment at which a pair of user and address has no open window,
  within the next fifteen minutes at most five attempts on the pair are admitted while none
  succeeds, whatever happens on other pairs; and the attempts admitted from an address exceed
  the reported successes from it by at most twenty.
\<close>

theorem login_guesses_bounded:
  assumes "distinct (map fst (ll_entries l))" "clock_ok t es" "all_before (t + LoginWindow) es"
    and "ValidateUsername u = None" "\<forall>e\<in>set es. \<not> pair_succeeds (pairKey u ip) e"
    and "live t (map_of (ll_entries l) (pairKey u ip)) = None" "live t (map_of (ll_entries l) (ipKey ip)) = None"
  shows "sum_list (map (pair_attempt (pairKey u ip)) (login_run Allow Success l es)) \<le> LoginPairLimit
    \<and> sum_list (map (ip_failure ip) (login_run Allow Success l es)) \<le> LoginIPLimit"
  using limiter.pair_bound [OF assms(2,3) ll_refines_self [OF assms(1)] assms(6,4,5)]
    limiter.ip_bound [OF assms(2,3) ll_refines_self [OF assms(1)] assms(7)] by simp

text \<open>Six wrong passwords within a second: five are looked at.\<close>

theorem login_guesses_bounded_witness:
  "sum_list (map (pair_attempt (pairKey ''bob'' ''10.0.0.7''))
     (login_run Allow Success NewLoginLimiter (replicate 6 (LoginAttempt ''Bob'' ''10.0.0.7'' 5)))) = 5
   \<and> sum_list (map (pair_attempt (pairKey ''bob'' ''10.0.0.7''))
       (login_run Allow Success NewLoginLimiter (replicate 6 (LoginAttempt ''Bob'' ''10.0.0.7'' 5)))) \<le> LoginPairLimit"
proof -
  let ?es = "replicate 6 (LoginAttempt ''Bob'' ''10.0.0.7'' 5)"
  have "sum_list (map (pair_attempt (pairKey ''bob'' ''10.0.0.7'')) (login_run Allow Success NewLoginLimiter ?es)) = 5"
    by code_simp
  moreover have "clock_ok 0 ?es" "all_before (0 + LoginWindow) ?es" "ValidateUsername ''bob'' = None"
    "\<forall>e\<in>set ?es. \<not> pair_succeeds (pairKey ''bob'' ''10.0.0.7'') e"
    by code_simp+
  moreover have "distinct (map fst (ll_entries NewLoginLimiter))"
    "live 0 (map_of (ll_entries NewLoginLimiter) (pairKey ''bob'' ''10.0.0.7'')) = None"
    "live 0 (map_of (ll_entries NewLoginLimiter) (ipKey ''10.0.0.7'')) = None"
    by (simp_all add: NewLoginLimiter_def live_def)
  ultimately show ?thesis
    using login_guesses_bounded [of NewLoginLimiter 0 ?es "''bob''" "''10.0.0.7''"] by blast
qed

text \<open>
  The limiter answers every run as one that never forgets a window would: dropping expired
  windows, one by one or in a sweep of a crowded table, is invisible.
\<close>

theorem login_limiter_sweeps_invisibly:
  assumes "clock_ok t es"
  shows "login_run Allow Success NewLoginLimiter es = login_run spec_allow spec_success Map.empty es"
  using limiter.same_answers [OF assms ll_refines_self [of NewLoginLimiter]] by (simp add: NewLoginLimiter_def)

theorem login_limiter_sweeps_invisibly_witness:
  "login_run Allow Success NewLoginLimiter [LoginAttempt ''eve'' ''10.0.0.7'' 5, Succeeded ''eve'' ''10.0.0.7'', LoginAttempt ''eve'' ''10.0.0.7'' 900000000005]
   = login_run spec_allow spec_success Map.empty [LoginAttempt ''eve'' ''10.0.0.7'' 5, Succeeded ''eve'' ''10.0.0.7'', LoginAttempt ''eve'' ''10.0.0.7'' 900000000005]"
  by (rule login_limiter_sweeps_invisibly [where t = 0]) simp

section \<open>Waiting is enough\<close>

definition starts_by :: "gotime \<Rightarrow> login_limiter \<Rightarrow> bool" where
  "starts_by now l \<longleftrightarrow> (\<forall>k w. map_of (ll_entries l) k = Some w \<longrightarrow> w_start w \<le> now)"

lemma spec_wait_over:
  assumes "\<And>w. m key = Some w \<Longrightarrow> w_start w \<le> now" "now + max 0 (spec_wait m key limit now) \<le> now'"
  shows "spec_wait m key limit now' = 0"
  using assms LoginWindow_pos
  by (auto simp: spec_wait_def live_def time_sub_def max_int64_def min_int64_def LoginWindow_def Minute_def
      split: option.splits if_splits)

lemma spec_wait_bounds:
  assumes "\<And>w. m key = Some w \<Longrightarrow> w_start w \<le> now"
  shows "0 \<le> spec_wait m key limit now \<and> spec_wait m key limit now \<le> LoginWindow"
  using assms by (auto simp: spec_wait_def live_def time_sub_def max_int64_def min_int64_def LoginWindow_def Minute_def
      split: option.splits if_splits)

text \<open>C33: A refused attempt is told to wait a positive time, at most the window, and is not counted:
  the same attempt made when that time has passed is admitted.
\<close>

theorem waiting_out_the_window_is_enough:
  assumes "distinct (map fst (ll_entries l))" "starts_by now l" "Allow l u ip now = ((retry, False), l')" "now + retry \<le> now'"
  shows "0 < retry \<and> retry \<le> LoginWindow \<and> fst (Allow l' u ip now') = (0, True)"
proof -
  let ?m = "map_of (ll_entries l)"
  note r = Allow_refines [OF ll_refines_self [OF assms(1)], of u ip now]
  have s: "w_start w \<le> now" if "?m k = Some w" for k w using that assms(2) by (auto simp: starts_by_def)
  let ?wp = "if ValidateUsername u = None then spec_wait ?m (pairKey u ip) LoginPairLimit now else 0"
  let ?wi = "spec_wait ?m (ipKey ip) LoginIPLimit now"
  have f: "fst (spec_allow ?m u ip now) = (retry, False)" and l': "ll_refines now l' (snd (spec_allow ?m u ip now))"
    using r assms(3) by auto
  from f have m: "snd (spec_allow ?m u ip now) = ?m" and w: "retry = max ?wp ?wi" "0 < retry"
    by (auto simp: spec_allow_def Let_def split: if_splits)
  have b: "0 \<le> spec_wait ?m k lim now \<and> spec_wait ?m k lim now \<le> LoginWindow" for k lim
    by (rule spec_wait_bounds) (rule s)
  have "retry \<le> LoginWindow" using w b [of "pairKey u ip" LoginPairLimit] b [of "ipKey ip" LoginIPLimit]
    by (auto simp: max_def split: if_splits)
  moreover have "spec_wait ?m (ipKey ip) LoginIPLimit now' = 0"
    "ValidateUsername u = None \<Longrightarrow> spec_wait ?m (pairKey u ip) LoginPairLimit now' = 0"
    using w assms(4) by (auto intro!: spec_wait_over [where now = now] dest: s simp: max_def split: if_splits)
  then have "fst (spec_allow ?m u ip now') = (0, True)" by (simp add: spec_allow_def Let_def)
  moreover have "ll_refines now' l' ?m" using l' m w assms(4) by (auto intro: ll_refines_later)
  then have "fst (Allow l' u ip now') = fst (spec_allow ?m u ip now')" using Allow_refines by blast
  ultimately show ?thesis using w(2) by simp
qed

definition demo_full :: login_limiter where
  "demo_full = \<lparr>ll_entries = [(pairKey ''bob'' ''10.0.0.7'', \<lparr>w_start = 5, w_count = 5\<rparr>),
     (ipKey ''10.0.0.7'', \<lparr>w_start = 5, w_count = 5\<rparr>)], ll_nextSweep = 0\<rparr>"

theorem waiting_out_the_window_is_enough_witness:
  "Allow demo_full ''bob'' ''10.0.0.7'' 6 = ((899999999999, False), demo_full)
   \<and> fst (Allow demo_full ''bob'' ''10.0.0.7'' 900000000005) = (0, True)"
proof -
  have a: "Allow demo_full ''bob'' ''10.0.0.7'' 6 = ((899999999999, False), demo_full)" by code_simp
  have "distinct (map fst (ll_entries demo_full))" by (simp add: demo_full_def)
  moreover have "starts_by 6 demo_full" by (auto simp: starts_by_def demo_full_def split: if_splits)
  ultimately show ?thesis using waiting_out_the_window_is_enough [OF _ _ a, of 900000000005] a by simp
qed

end
