(* ===== verification/Auth_Token.thy ===== *)
theory Auth_Token
  imports Go_HTTP
begin

text \<open>
  Session tokens, \<^verbatim>\<open>internal/auth/token.go\<close>. Base64 without padding and the hexadecimal
  token id are modelled; the JSON encoding of the two structures and HMAC-SHA256 are fields
  of a codec, about which the theorems assume only that decoding inverts encoding.
\<close>

section \<open>Base64 and hexadecimal\<close>

definition b64_alphabet :: string where
  "b64_alphabet = ''ABCDEFGHIJKLMNOPQRSTUVWXYZabcdefghijklmnopqrstuvwxyz0123456789-_''"

definition b64_char :: "nat \<Rightarrow> char" where
  "b64_char n = b64_alphabet ! n"

definition b64_val :: "char \<Rightarrow> nat option" where
  "b64_val c = map_of (zip b64_alphabet [0..<64]) c"

text \<open>The six-bit groups of a byte string, and the bytes of a list of groups.\<close>

fun b64_groups :: "nat list \<Rightarrow> nat list" where
  "b64_groups [] = []"
| "b64_groups [x] = [x div 4, x mod 4 * 16]"
| "b64_groups [x, y] = [x div 4, x mod 4 * 16 + y div 16, y mod 16 * 4]"
| "b64_groups (x # y # z # r) = x div 4 # (x mod 4 * 16 + y div 16) # (y mod 16 * 4 + z div 64) # z mod 64 # b64_groups r"

fun b64_bytes :: "nat list \<Rightarrow> nat list option" where
  "b64_bytes [] = Some []"
| "b64_bytes [a] = None"
| "b64_bytes [a, b] = Some [a * 4 + b div 16]"
| "b64_bytes [a, b, c] = Some [a * 4 + b div 16, b mod 16 * 16 + c div 4]"
| "b64_bytes (a # b # c # d # r) =
     map_option (\<lambda>bs. (a * 4 + b div 16) # (b mod 16 * 16 + c div 4) # (c mod 4 * 64 + d) # bs) (b64_bytes r)"

definition b64_encode :: "string \<Rightarrow> string" where
  "b64_encode s = map b64_char (b64_groups (map of_char s))"

text \<open>The decoder skips line breaks and refuses every other character outside the alphabet.\<close>

definition b64_decode :: "string \<Rightarrow> string option" where
  "b64_decode s =
     (case those (map b64_val (filter (\<lambda>c. c \<notin> {CHR 0x0A, CHR 0x0D}) s)) of
        None \<Rightarrow> None
      | Some vs \<Rightarrow> map_option (map char_of) (b64_bytes vs))"

definition hex_digits :: string where "hex_digits = ''0123456789abcdef''"

definition hex_encode :: "string \<Rightarrow> string" where
  "hex_encode s = concat (map (\<lambda>c. [hex_digits ! (of_char c div 16), hex_digits ! (of_char c mod 16)]) s)"

section \<open>Tokens\<close>

definition TypeAccess :: string where "TypeAccess = ''access''"
definition TypeRefresh :: string where "TypeRefresh = ''refresh''"
definition MinSecretLen :: nat where "MinSecretLen = 32"
definition algHS256 :: string where "algHS256 = ''HS256''"

datatype token_error = ErrMalformedToken | ErrBadSignature | ErrExpiredToken | ErrWrongTokenType

record claims =
  cl_Sub :: string
  cl_Ver :: int64
  cl_Typ :: string
  cl_IAT :: int64
  cl_Exp :: int64
  cl_JTI :: string

record jwt_header =
  jh_Alg :: string
  jh_Typ :: string

record token_codec =
  tc_MarshalHeader :: "jwt_header \<Rightarrow> string"
  tc_MarshalClaims :: "claims \<Rightarrow> string"
  tc_UnmarshalHeader :: "string \<Rightarrow> jwt_header option"
  tc_UnmarshalClaims :: "string \<Rightarrow> claims option"
  tc_HMAC :: "string \<Rightarrow> string \<Rightarrow> string"

record signer =
  sg_secret :: string

definition NewSigner :: "string \<Rightarrow> signer option" where
  "NewSigner secret = (if length secret < MinSecretLen then None else Some \<lparr>sg_secret = secret\<rparr>)"

definition sign :: "token_codec \<Rightarrow> signer \<Rightarrow> string \<Rightarrow> string" where
  "sign tc s signingInput = tc_HMAC tc (sg_secret s) signingInput"

text \<open>The sixteen random bytes of the token id are an argument, absent when the random source fails.\<close>

definition issued_claims :: "string \<Rightarrow> gotime \<Rightarrow> string \<Rightarrow> int64 \<Rightarrow> string \<Rightarrow> duration \<Rightarrow> claims" where
  "issued_claims raw now username ver typ ttl =
     \<lparr>cl_Sub = username, cl_Ver = ver, cl_Typ = typ, cl_IAT = time_unix now, cl_Exp = time_unix (time_add now ttl),
      cl_JTI = hex_encode raw\<rparr>"

definition Issue ::
  "token_codec \<Rightarrow> signer \<Rightarrow> string option \<Rightarrow> gotime \<Rightarrow> string \<Rightarrow> int64 \<Rightarrow> string \<Rightarrow> duration \<Rightarrow> string option" where
  "Issue tc s random now username ver typ ttl =
     (case random of
        None \<Rightarrow> None
      | Some raw \<Rightarrow>
          let header = tc_MarshalHeader tc \<lparr>jh_Alg = algHS256, jh_Typ = ''JWT''\<rparr>;
              payload = tc_MarshalClaims tc (issued_claims raw now username ver typ ttl);
              signing = b64_encode header @ ''.'' @ b64_encode payload
          in Some (signing @ ''.'' @ b64_encode (sign tc s signing)))"

definition verify_payload :: "gotime \<Rightarrow> string \<Rightarrow> claims \<Rightarrow> token_error + claims" where
  "verify_payload now wantType c =
     (if cl_Sub c = [] then Inl ErrMalformedToken
      else if cl_Typ c \<noteq> wantType then Inl ErrWrongTokenType
      else if cl_Exp c \<le> time_unix now then Inl ErrExpiredToken
      else Inr c)"

definition Verify :: "token_codec \<Rightarrow> signer \<Rightarrow> gotime \<Rightarrow> string \<Rightarrow> string \<Rightarrow> token_error + claims" where
  "Verify tc s now token wantType =
     (case split_on CHR ''.'' token of
        [p0, p1, p2] \<Rightarrow>
          (case b64_decode p2 of
             None \<Rightarrow> Inl ErrMalformedToken
           | Some sig \<Rightarrow>
               if sig \<noteq> sign tc s (p0 @ ''.'' @ p1) then Inl ErrBadSignature
               else case Option.bind (b64_decode p0) (tc_UnmarshalHeader tc) of
                 None \<Rightarrow> Inl ErrMalformedToken
               | Some h \<Rightarrow>
                   if jh_Alg h \<noteq> algHS256 then Inl ErrBadSignature
                   else case Option.bind (b64_decode p1) (tc_UnmarshalClaims tc) of
                     None \<Rightarrow> Inl ErrMalformedToken
                   | Some c \<Rightarrow> verify_payload now wantType c)
      | _ \<Rightarrow> Inl ErrMalformedToken)"

section \<open>Base64 round trip\<close>

lemma b64_val_char_all: "list_all (\<lambda>n. b64_val (b64_char n) = Some n) [0..<64]"
  by code_simp

lemma b64_val_char: "n < 64 \<Longrightarrow> b64_val (b64_char n) = Some n"
  using b64_val_char_all by (simp add: list_all_iff)

lemma b64_char_plain_all: "list_all (\<lambda>n. b64_char n \<noteq> CHR ''.'' \<and> b64_char n \<noteq> CHR 0x0A \<and> b64_char n \<noteq> CHR 0x0D) [0..<64]"
  by code_simp

lemma b64_char_plain: "n < 64 \<Longrightarrow> b64_char n \<noteq> CHR ''.'' \<and> b64_char n \<noteq> CHR 0x0A \<and> b64_char n \<noteq> CHR 0x0D"
  using b64_char_plain_all by (simp add: list_all_iff)

lemma b64_groups_small: "\<forall>x\<in>set xs. x < 256 \<Longrightarrow> \<forall>g\<in>set (b64_groups xs). g < 64"
proof (induction xs rule: b64_groups.induct)
  case (4 x y z r)
  then show ?case by auto
qed auto

lemma group_arith:
  fixes y z :: nat
  shows "y < 256 \<Longrightarrow> y div 16 div 16 = 0" "y < 256 \<Longrightarrow> y div 16 mod 16 = y div 16"
    "z < 256 \<Longrightarrow> z div 64 div 4 = 0" "z < 256 \<Longrightarrow> z div 64 mod 4 = z div 64"
  by simp_all

lemma b64_bytes_groups: "\<forall>x\<in>set xs. x < 256 \<Longrightarrow> b64_bytes (b64_groups xs) = Some xs"
  by (induction xs rule: b64_groups.induct) (simp_all add: group_arith)

lemma those_map_Some: "(\<And>x. x \<in> set xs \<Longrightarrow> f (g x) = Some x) \<Longrightarrow> those (map f (map g xs)) = Some xs"
  by (induction xs) auto

lemma byte_small: "\<forall>x\<in>set (map of_char s). x < (256 :: nat)"
  by (auto intro: nat_of_char_less_256)

lemma b64_encode_plain: "c \<in> set (b64_encode s) \<Longrightarrow> c \<noteq> CHR ''.'' \<and> c \<noteq> CHR 0x0A \<and> c \<noteq> CHR 0x0D"
  using b64_groups_small [OF byte_small [of s]] b64_char_plain by (auto simp: b64_encode_def)

lemma b64_round_trip: "b64_decode (b64_encode s) = Some s"
proof -
  let ?g = "b64_groups (map of_char s)"
  have "filter (\<lambda>c. c \<notin> {CHR 0x0A, CHR 0x0D}) (b64_encode s) = b64_encode s"
    using b64_encode_plain by (intro filter_True) auto
  moreover have "those (map b64_val (b64_encode s)) = Some ?g"
    unfolding b64_encode_def using b64_groups_small [OF byte_small [of s]] by (intro those_map_Some) (simp add: b64_val_char)
  ultimately show ?thesis
    by (simp add: b64_decode_def b64_bytes_groups [OF byte_small] comp_def)
qed

section \<open>What Verify accepts\<close>

text \<open>JSON gives back a structure whose strings are plain ASCII, as names, types and ids here are.\<close>

definition ascii_claims :: "claims \<Rightarrow> bool" where
  "ascii_claims c \<longleftrightarrow> ascii (cl_Sub c) \<and> ascii (cl_Typ c) \<and> ascii (cl_JTI c)"

definition codec_ok :: "token_codec \<Rightarrow> bool" where
  "codec_ok tc \<longleftrightarrow>
     (\<forall>h. ascii (jh_Alg h) \<and> ascii (jh_Typ h) \<longrightarrow> tc_UnmarshalHeader tc (tc_MarshalHeader tc h) = Some h)
     \<and> (\<forall>c. ascii_claims c \<longrightarrow> tc_UnmarshalClaims tc (tc_MarshalClaims tc c) = Some c)"

lemma ascii_append [simp]: "ascii (a @ b) \<longleftrightarrow> ascii a \<and> ascii b"
  by (induction a) auto

lemma hex_digit_ascii_all: "list_all (\<lambda>n. (of_char (hex_digits ! n) :: nat) < 128) [0..<16]"
  by code_simp

lemma hex_digit_ascii: "n < 16 \<Longrightarrow> (of_char (hex_digits ! n) :: nat) < 128"
  using hex_digit_ascii_all by (simp add: list_all_iff)

lemma ascii_hex_encode [simp]: "ascii (hex_encode s)"
proof (induction s)
  case (Cons c s)
  have "of_char c div 16 < (16 :: nat)" "of_char c mod 16 < (16 :: nat)" using nat_of_char_less_256 [of c] by (simp_all add: less_mult_imp_div_less)
  with Cons show ?case by (simp add: hex_encode_def hex_digit_ascii)
qed (simp add: hex_encode_def)

lemma codec_header: "codec_ok tc \<Longrightarrow>
    tc_UnmarshalHeader tc (tc_MarshalHeader tc \<lparr>jh_Alg = algHS256, jh_Typ = ''JWT''\<rparr>) = Some \<lparr>jh_Alg = algHS256, jh_Typ = ''JWT''\<rparr>"
  by (simp add: codec_ok_def algHS256_def)

lemma codec_issued: "codec_ok tc \<Longrightarrow> ascii u \<Longrightarrow> ascii typ \<Longrightarrow>
    tc_UnmarshalClaims tc (tc_MarshalClaims tc (issued_claims raw t u ver typ ttl)) = Some (issued_claims raw t u ver typ ttl)"
  by (simp add: codec_ok_def ascii_claims_def issued_claims_def)

lemma split_on_three:
  assumes "c \<notin> set a" "c \<notin> set b" "c \<notin> set d"
  shows "split_on c (a @ c # b @ c # d) = [a, b, d]"
  using assms by (simp add: split_on_append split_on_plain)

lemma issued_token_reads_back:
  assumes "codec_ok tc" "Issue tc s (Some raw) t username ver typ ttl = Some token"
    and "username \<noteq> []" "ascii username" "ascii typ"
  shows "Verify tc s now token wantType =
    (if typ \<noteq> wantType then Inl ErrWrongTokenType
     else if time_unix (time_add t ttl) \<le> time_unix now then Inl ErrExpiredToken
     else Inr (issued_claims raw t username ver typ ttl))"
proof -
  let ?h = "b64_encode (tc_MarshalHeader tc \<lparr>jh_Alg = algHS256, jh_Typ = ''JWT''\<rparr>)"
  let ?c = "issued_claims raw t username ver typ ttl"
  let ?p = "b64_encode (tc_MarshalClaims tc ?c)"
  have plain: "CHR ''.'' \<notin> set (b64_encode x)" for x using b64_encode_plain by blast
  have "token = ?h @ CHR ''.'' # ?p @ CHR ''.'' # b64_encode (sign tc s (?h @ ''.'' @ ?p))"
    using assms(2) by (simp add: Issue_def Let_def)
  then have "split_on CHR ''.'' token = [?h, ?p, b64_encode (sign tc s (?h @ ''.'' @ ?p))]"
    by (simp only: split_on_three [OF plain plain plain])
  then have "Verify tc s now token wantType = verify_payload now wantType ?c"
    using assms(1,4,5) by (simp add: Verify_def b64_round_trip codec_header codec_issued)
  then show ?thesis using assms(3) by (simp add: verify_payload_def issued_claims_def)
qed

text \<open>C34: A token reads back as it was written: with the secret it was signed with, an issued token
  is refused for the wrong type, then for being expired at the second of its end, and
  otherwise gives exactly the claims it was issued for.
\<close>

theorem issued_token_verifies:
  assumes "codec_ok tc" "Issue tc s (Some raw) t username ver typ ttl = Some token"
    and "username \<noteq> []" "ascii username" "ascii typ"
  shows "Verify tc s now token wantType =
    (if typ \<noteq> wantType then Inl ErrWrongTokenType
     else if time_unix (time_add t ttl) \<le> time_unix now then Inl ErrExpiredToken
     else Inr (issued_claims raw t username ver typ ttl))"
  using assms by (rule issued_token_reads_back)

text \<open>The other way: what an accepted token must have been.\<close>

lemma Verify_accepts:
  assumes "Verify tc s now token wantType = Inr c"
  obtains p0 p1 p2 where "split_on CHR ''.'' token = [p0, p1, p2]" "token = p0 @ ''.'' @ p1 @ ''.'' @ p2" "b64_decode p2 = Some (sign tc s (p0 @ ''.'' @ p1))"
    and "Option.bind (b64_decode p1) (tc_UnmarshalClaims tc) = Some c"
    and "cl_Sub c \<noteq> []" "cl_Typ c = wantType" "time_unix now < cl_Exp c"
proof -
  from assms obtain p0 p1 p2 where sp: "split_on CHR ''.'' token = [p0, p1, p2]"
    by (auto simp: Verify_def split: list.splits)
  have "token = p0 @ ''.'' @ p1 @ ''.'' @ p2"
    using join_split [of "CHR ''.''" token] by (simp add: sp join_on_def)
  with assms sp show thesis
    by (auto simp: Verify_def verify_payload_def not_le intro!: that split: option.splits if_splits)
qed


text \<open>
  The tokens a server has issued, and a presented token that was not forged: if its signature
  holds, what it signs is the signing input of one of them.
\<close>

record issuance =
  is_raw :: string
  is_time :: gotime
  is_user :: string
  is_ver :: int64
  is_typ :: string
  is_ttl :: duration

definition issuance_claims :: "issuance \<Rightarrow> claims" where
  "issuance_claims i = issued_claims (is_raw i) (is_time i) (is_user i) (is_ver i) (is_typ i) (is_ttl i)"

definition signing_input :: "token_codec \<Rightarrow> issuance \<Rightarrow> string" where
  "signing_input tc i = b64_encode (tc_MarshalHeader tc \<lparr>jh_Alg = algHS256, jh_Typ = ''JWT''\<rparr>) @ ''.''
     @ b64_encode (tc_MarshalClaims tc (issuance_claims i))"

definition ascii_issuance :: "issuance \<Rightarrow> bool" where
  "ascii_issuance i \<longleftrightarrow> ascii (is_user i) \<and> ascii (is_typ i)"

definition unforged :: "token_codec \<Rightarrow> signer \<Rightarrow> issuance list \<Rightarrow> string \<Rightarrow> bool" where
  "unforged tc s issued token \<longleftrightarrow>
     (\<forall>p0 p1 p2. token = p0 @ ''.'' @ p1 @ ''.'' @ p2 \<and> b64_decode p2 = Some (sign tc s (p0 @ ''.'' @ p1)) \<longrightarrow>
        p0 @ ''.'' @ p1 \<in> signing_input tc ` set issued)"

lemma dot_split_unique:
  fixes c :: char
  assumes "c \<notin> set a" "c \<notin> set a'" "a @ c # b = a' @ c # b'"
  shows "a = a' \<and> b = b'"
proof -
  have "(a, b, True) = cut c (a' @ c # b')" using cut_found [OF assms(1), of b] unfolding assms(3) by (rule sym)
  then show ?thesis unfolding cut_found [OF assms(2)] by blast
qed

lemma accepted_token_was_issued:
  assumes "codec_ok tc" "unforged tc s issued token" "Verify tc s now token wantType = Inr c"
    and "\<forall>i\<in>set issued. ascii_issuance i"
  shows "\<exists>i\<in>set issued. c = issuance_claims i \<and> is_typ i = wantType \<and> time_unix now < cl_Exp c"
proof -
  from Verify_accepts [OF assms(3)] obtain p0 p1 p2
    where t: "token = p0 @ ''.'' @ p1 @ ''.'' @ p2" "b64_decode p2 = Some (sign tc s (p0 @ ''.'' @ p1))"
      and c: "Option.bind (b64_decode p1) (tc_UnmarshalClaims tc) = Some c"
      and k: "cl_Typ c = wantType" "time_unix now < cl_Exp c" and sp: "split_on CHR ''.'' token = [p0, p1, p2]" by (metis that)
  from t assms(2) obtain i where i: "i \<in> set issued" "p0 @ ''.'' @ p1 = signing_input tc i"
    by (auto simp: unforged_def)
  have "CHR ''.'' \<notin> set p0" using sp split_on_parts [of p0 "CHR ''.''" token] by simp
  moreover have "CHR ''.'' \<notin> set (b64_encode x)" for x using b64_encode_plain by blast
  moreover have "p0 @ CHR ''.'' # p1 = b64_encode (tc_MarshalHeader tc \<lparr>jh_Alg = algHS256, jh_Typ = ''JWT''\<rparr>) @
      CHR ''.'' # b64_encode (tc_MarshalClaims tc (issuance_claims i))"
    using i(2) by (simp add: signing_input_def)
  ultimately have "p1 = b64_encode (tc_MarshalClaims tc (issuance_claims i))" using dot_split_unique by blast
  then have "c = issuance_claims i"
    using c codec_issued [OF assms(1)] assms(4) i(1) by (simp add: b64_round_trip issuance_claims_def ascii_issuance_def)
  with i k show ?thesis by (auto simp: issuance_claims_def issued_claims_def)
qed

section \<open>A concrete codec\<close>

text \<open>Fields in base64 and integers in unary, separated by dots; the tag is the message under the key.\<close>

definition unary :: "int \<Rightarrow> string" where
  "unary i = (if i < 0 then CHR ''-'' else CHR ''+'') # replicate (nat \<bar>i\<bar>) CHR ''I''"

definition of_unary :: "string \<Rightarrow> int" where
  "of_unary s = (if hd s = CHR ''-'' then - int (length (tl s)) else int (length (tl s)))"

lemma of_unary [simp]: "of_unary (unary i) = i" "CHR ''.'' \<notin> set (unary i)"
  by (auto simp: of_unary_def unary_def)

definition demo_codec :: token_codec where
  "demo_codec = \<lparr>
     tc_MarshalHeader = (\<lambda>h. join_on CHR ''.'' [b64_encode (jh_Alg h), b64_encode (jh_Typ h)]),
     tc_MarshalClaims = (\<lambda>c. join_on CHR ''.'' [b64_encode (cl_Sub c), unary (cl_Ver c), b64_encode (cl_Typ c),
        unary (cl_IAT c), unary (cl_Exp c), b64_encode (cl_JTI c)]),
     tc_UnmarshalHeader = (\<lambda>s. case split_on CHR ''.'' s of [a, t] \<Rightarrow>
        Option.bind (b64_decode a) (\<lambda>a. map_option (\<lambda>t. \<lparr>jh_Alg = a, jh_Typ = t\<rparr>) (b64_decode t)) | _ \<Rightarrow> None),
     tc_UnmarshalClaims = (\<lambda>s. case split_on CHR ''.'' s of [u, v, t, i, e, j] \<Rightarrow>
        Option.bind (b64_decode u) (\<lambda>u. Option.bind (b64_decode t) (\<lambda>t. map_option
          (\<lambda>j. \<lparr>cl_Sub = u, cl_Ver = of_unary v, cl_Typ = t, cl_IAT = of_unary i, cl_Exp = of_unary e, cl_JTI = j\<rparr>)
          (b64_decode j))) | _ \<Rightarrow> None),
     tc_HMAC = (\<lambda>k m. k @ m)\<rparr>"

lemma b64_no_dot [simp]: "CHR ''.'' \<notin> set (b64_encode s)"
  using b64_encode_plain by blast

lemma demo_codec_ok: "codec_ok demo_codec"
  by (simp add: codec_ok_def demo_codec_def join_on_def split_on_append split_on_plain b64_round_trip)

definition demo_signer :: signer where
  "demo_signer = \<lparr>sg_secret = replicate 32 CHR ''k''\<rparr>"

text \<open>A token that lives for fifteen seconds: good in its tenth second, expired in its fifteenth, no refresh token.\<close>

theorem issued_token_verifies_witness:
  "Verify demo_codec demo_signer (10 * Second) (the (Issue demo_codec demo_signer (Some ''id'') 0 ''bob'' 7 TypeAccess (15 * Second))) TypeAccess
     = Inr \<lparr>cl_Sub = ''bob'', cl_Ver = 7, cl_Typ = ''access'', cl_IAT = 0, cl_Exp = 15, cl_JTI = ''6964''\<rparr>
   \<and> Verify demo_codec demo_signer (15 * Second) (the (Issue demo_codec demo_signer (Some ''id'') 0 ''bob'' 7 TypeAccess (15 * Second))) TypeAccess
     = Inl ErrExpiredToken
   \<and> Verify demo_codec demo_signer (10 * Second) (the (Issue demo_codec demo_signer (Some ''id'') 0 ''bob'' 7 TypeAccess (15 * Second))) TypeRefresh
     = Inl ErrWrongTokenType"
proof -
  let ?t = "the (Issue demo_codec demo_signer (Some ''id'') 0 ''bob'' 7 TypeAccess (15 * Second))"
  have i: "Issue demo_codec demo_signer (Some ''id'') 0 ''bob'' 7 TypeAccess (15 * Second) = Some ?t"
    by (simp add: Issue_def Let_def)
  have v: "Verify demo_codec demo_signer now ?t want =
      (if TypeAccess \<noteq> want then Inl ErrWrongTokenType
       else if time_unix (time_add 0 (15 * Second)) \<le> time_unix now then Inl ErrExpiredToken
       else Inr (issued_claims ''id'' 0 ''bob'' 7 TypeAccess (15 * Second)))" for now want
    by (rule issued_token_verifies [OF demo_codec_ok i]) (simp_all add: TypeAccess_def)
  have h: "hex_encode ''id'' = ''6964''" by code_simp
  show ?thesis unfolding v
    by (simp add: h issued_claims_def TypeAccess_def TypeRefresh_def time_unix_def time_add_def Second_def)
qed

text \<open>A token the server issued is not a forgery, whichever way its dots are read.\<close>

lemma issued_is_unforged:
  assumes "i \<in> set issued"
  shows "unforged tc s issued (signing_input tc i @ ''.'' @ b64_encode sig)"
  unfolding unforged_def
proof (intro allI impI)
  fix p0 p1 p2
  let ?h = "b64_encode (tc_MarshalHeader tc \<lparr>jh_Alg = algHS256, jh_Typ = ''JWT''\<rparr>)"
  let ?p = "b64_encode (tc_MarshalClaims tc (issuance_claims i))"
  let ?dots = "\<lambda>x. filter (\<lambda>c. c = CHR ''.'') x"
  assume a: "signing_input tc i @ ''.'' @ b64_encode sig = p0 @ ''.'' @ p1 @ ''.'' @ p2 \<and>
    b64_decode p2 = Some (sign tc s (p0 @ ''.'' @ p1))"
  then have e: "?h @ CHR ''.'' # (?p @ CHR ''.'' # b64_encode sig) = p0 @ CHR ''.'' # (p1 @ CHR ''.'' # p2)"
    by (simp add: signing_input_def)
  have d: "?dots (b64_encode x) = []" for x using b64_encode_plain by (auto simp: filter_empty_conv)
  have "length (?dots (?h @ CHR ''.'' # (?p @ CHR ''.'' # b64_encode sig))) = 2" by (simp add: d)
  then have "length (?dots p0) = 0" "length (?dots p1) = 0" unfolding e by simp_all
  then have n: "CHR ''.'' \<notin> set p0" "CHR ''.'' \<notin> set p1" by (auto simp: filter_empty_conv)
  have "p0 = ?h" "p1 @ CHR ''.'' # p2 = ?p @ CHR ''.'' # b64_encode sig" using dot_split_unique [OF b64_no_dot n(1) e] by auto
  moreover from dot_split_unique [OF n(2) b64_no_dot this(2)] have "p1 = ?p" by simp
  ultimately have "p0 @ ''.'' @ p1 = signing_input tc i" by (simp add: signing_input_def)
  with assms show "p0 @ ''.'' @ p1 \<in> signing_input tc ` set issued" by blast
qed

end
