(* ===== verification/Client_IP.thy ===== *)
theory Client_IP
  imports Go_HTTP "HOL-Library.Word"
begin

unbundle bit_operations_syntax

text \<open>
  Who is on the other end and what address they used: \<^verbatim>\<open>internal/httpx/trusted.go\<close>,
  \<^verbatim>\<open>clientip.go\<close> and \<^verbatim>\<open>publicbase.go\<close>. Addresses and prefixes are machine words; the text
  syntax of \<^verbatim>\<open>net/netip\<close> and \<open>url.Parse\<close> are fields of a record. The flags that make a
  warning appear once only affect the log and are left out.
\<close>

section \<open>Addresses\<close>

datatype addr = V4 "32 word" | V6 "128 word" string

definition Unmap :: "addr \<Rightarrow> addr" where
  "Unmap a = (case a of V6 w z \<Rightarrow> if drop_bit 32 w = 0xFFFF then V4 (ucast w) else a | V4 w \<Rightarrow> a)"

definition BitLen :: "addr \<Rightarrow> nat" where
  "BitLen a = (case a of V4 _ \<Rightarrow> 32 | V6 _ _ \<Rightarrow> 128)"

record ip_prefix =
  px_Addr :: addr
  px_Bits :: nat

text \<open>A prefix compares the leading bits of addresses of its own family and never one with a zone.\<close>

definition prefix_Contains :: "ip_prefix \<Rightarrow> addr \<Rightarrow> bool" where
  "prefix_Contains p a =
     (case (px_Addr p, a) of
        (V4 n, V4 w) \<Rightarrow> drop_bit (32 - px_Bits p) n = drop_bit (32 - px_Bits p) w
      | (V6 n _, V6 w z) \<Rightarrow> z = [] \<and> drop_bit (128 - px_Bits p) n = drop_bit (128 - px_Bits p) w
      | _ \<Rightarrow> False)"

definition Masked :: "ip_prefix \<Rightarrow> ip_prefix" where
  "Masked p = p\<lparr>px_Addr := (case px_Addr p of
     V4 n \<Rightarrow> V4 (push_bit (32 - px_Bits p) (drop_bit (32 - px_Bits p) n))
   | V6 n z \<Rightarrow> V6 (push_bit (128 - px_Bits p) (drop_bit (128 - px_Bits p) n)) [])\<rparr>"

record base_url =
  bu_Scheme :: string
  bu_Host :: string
  bu_Path :: string
  bu_HasUser :: bool
  bu_RawQuery :: string
  bu_Fragment :: string
  bu_Opaque :: string

record net_syntax =
  ns_ParseAddr :: "string \<Rightarrow> addr option"
  ns_ParseAddrPort :: "string \<Rightarrow> addr option"
  ns_ParsePrefix :: "string \<Rightarrow> ip_prefix option"
  ns_String :: "addr \<Rightarrow> string"
  ns_url_Parse :: "string \<Rightarrow> base_url option"

text \<open>The part of a server request these functions read.\<close>

record inbound =
  ib_RemoteAddr :: string
  ib_Header :: header
  ib_Host :: string
  ib_TLS :: bool

text \<open>\<open>net.SplitHostPort\<close>: the port follows the last colon; brackets enclose a host with colons.\<close>

definition last_cut :: "char \<Rightarrow> string \<Rightarrow> (string \<times> string) option" where
  "last_cut c s = (if c \<in> set s
     then Some (rev (tl (dropWhile (\<lambda>x. x \<noteq> c) (rev s))), rev (takeWhile (\<lambda>x. x \<noteq> c) (rev s))) else None)"

definition SplitHostPort :: "string \<Rightarrow> (string \<times> string) option" where
  "SplitHostPort hp =
     (case last_cut CHR '':'' hp of
        None \<Rightarrow> None
      | Some (before, port) \<Rightarrow>
          if has_prefix hp ''['' then
            (case cut CHR '']'' hp of
               (inner, rest, found) \<Rightarrow>
                 if found \<and> before = inner @ '']'' \<and> \<not> str_contains (tl hp) CHR ''['' \<and> \<not> str_contains rest CHR '']''
                 then Some (tl inner, port) else None)
          else if str_contains before CHR '':'' \<or> str_contains hp CHR ''['' \<or> str_contains hp CHR '']'' then None
          else Some (before, port))"

definition JoinHostPort :: "string \<Rightarrow> string \<Rightarrow> string" where
  "JoinHostPort host port =
     (if str_contains host CHR '':'' then ''['' @ host @ '']:'' @ port else host @ '':'' @ port)"

section \<open>Trusted peers\<close>

type_synonym trusted_peers = "ip_prefix list"

definition parseTrusted :: "net_syntax \<Rightarrow> string \<Rightarrow> ip_prefix option" where
  "parseTrusted ns entry0 =
     (let entry = trim_space entry0 in
      if str_contains entry CHR ''/'' then map_option Masked (ns_ParsePrefix ns entry)
      else map_option (\<lambda>a. let u = Unmap a in \<lparr>px_Addr = u, px_Bits = BitLen u\<rparr>) (ns_ParseAddr ns entry))"

definition ParseTrustedPeers :: "net_syntax \<Rightarrow> string list \<Rightarrow> trusted_peers option" where
  "ParseTrustedPeers ns entries = those (map (parseTrusted ns) entries)"

definition Trusted_Contains :: "trusted_peers \<Rightarrow> addr \<Rightarrow> bool" where
  "Trusted_Contains t a = list_ex (\<lambda>p. prefix_Contains p a) t"

text \<open>The peer's address, or what stood there when it is not one.\<close>

definition peerAddr :: "net_syntax \<Rightarrow> inbound \<Rightarrow> string + addr" where
  "peerAddr ns r =
     (let host = (case SplitHostPort (ib_RemoteAddr r) of None \<Rightarrow> ib_RemoteAddr r | Some (h, _) \<Rightarrow> h) in
      case ns_ParseAddr ns host of None \<Rightarrow> Inl host | Some a \<Rightarrow> Inr (Unmap a))"

definition PeerTrusted :: "net_syntax \<Rightarrow> trusted_peers \<Rightarrow> inbound \<Rightarrow> bool" where
  "PeerTrusted ns t r = (case peerAddr ns r of Inl _ \<Rightarrow> False | Inr a \<Rightarrow> Trusted_Contains t a)"

section \<open>The client's address\<close>

definition HeaderXForwardedFor :: string where "HeaderXForwardedFor = ''X-Forwarded-For''"
definition HeaderXRealIP :: string where "HeaderXRealIP = ''X-Real-IP''"
definition HeaderForwarded :: string where "HeaderForwarded = ''Forwarded''"

record client_ip_resolver =
  cr_trusted :: trusted_peers
  cr_header :: string

definition NewClientIPResolver :: "net_syntax \<Rightarrow> string list \<Rightarrow> string \<Rightarrow> client_ip_resolver option" where
  "NewClientIPResolver ns trusted header =
     (let h = (if header = [] then Some HeaderXForwardedFor
               else if equal_fold header HeaderXForwardedFor then Some HeaderXForwardedFor
               else if equal_fold header HeaderXRealIP then Some HeaderXRealIP
               else if equal_fold header HeaderForwarded then Some HeaderForwarded
               else None)
      in Option.bind h (\<lambda>h. map_option (\<lambda>peers. \<lparr>cr_trusted = peers, cr_header = h\<rparr>) (ParseTrustedPeers ns trusted)))"

definition for_param :: "string \<Rightarrow> string option" where
  "for_param param =
     (case cut CHR ''='' (trim_space param) of
        (k, v, found) \<Rightarrow> if found \<and> equal_fold (trim_space k) ''for'' then Some v else None)"

definition hasForParam :: "string \<Rightarrow> bool" where
  "hasForParam element = list_ex (\<lambda>p. for_param p \<noteq> None) (split_on CHR '';'' element)"

definition forwardedFor :: "string \<Rightarrow> string" where
  "forwardedFor element =
     (case List.map_filter for_param (split_on CHR '';'' element) of
        [] \<Rightarrow> []
      | v # _ \<Rightarrow> trim_set [CHR 0x22] (trim_space v))"

text \<open>A hop is an address, or \<open>None\<close> when the entry is not one.\<close>

definition parseHop :: "net_syntax \<Rightarrow> string \<Rightarrow> addr option" where
  "parseHop ns s =
     (case ns_ParseAddr ns s of
        Some a \<Rightarrow> Some (Unmap a)
      | None \<Rightarrow>
          (case ns_ParseAddrPort ns s of
             Some a \<Rightarrow> Some (Unmap a)
           | None \<Rightarrow>
               if has_prefix s ''['' \<and> has_suffix s '']''
               then map_option Unmap (ns_ParseAddr ns (take (length s - 2) (tl s))) else None))"

definition line_hops :: "net_syntax \<Rightarrow> string \<Rightarrow> string \<Rightarrow> addr option list" where
  "line_hops ns header v =
     concat (map (\<lambda>part0.
       let part = trim_space part0 in
       if header = HeaderForwarded
       then if part = [] \<or> \<not> hasForParam part then [] else [parseHop ns (forwardedFor part)]
       else [parseHop ns part]) (split_on CHR '','' v))"

definition hops :: "net_syntax \<Rightarrow> client_ip_resolver \<Rightarrow> inbound \<Rightarrow> addr option list option" where
  "hops ns c r =
     (let values = hdr_Values (ib_Header r) (cr_header c) in
      if values = [] then None
      else let out = concat (map (line_hops ns (cr_header c)) values) in
        if cr_header c = HeaderXRealIP \<and> length out \<noteq> 1 then None else Some out)"

text \<open>The walk from the right, over the reversed hops; \<open>last\<close> is the last one passed.\<close>

fun walk :: "trusted_peers \<Rightarrow> addr \<Rightarrow> addr \<Rightarrow> addr option list \<Rightarrow> addr" where
  "walk t peer passed [] = passed"
| "walk t peer passed (None # hs) = peer"
| "walk t peer passed (Some a # hs) = (if \<not> Trusted_Contains t a then a else walk t peer a hs)"

definition ClientIP :: "net_syntax \<Rightarrow> client_ip_resolver \<Rightarrow> inbound \<Rightarrow> string" where
  "ClientIP ns c r =
     (case peerAddr ns r of
        Inl raw \<Rightarrow> raw
      | Inr peer \<Rightarrow>
          if \<not> Trusted_Contains (cr_trusted c) peer then ns_String ns peer
          else case hops ns c r of
            None \<Rightarrow> ns_String ns peer
          | Some hs \<Rightarrow> if hs = [] then ns_String ns peer else ns_String ns (walk (cr_trusted c) peer peer (rev hs)))"

section \<open>The public base of links\<close>

record public_base_resolver =
  pb_fixed :: "base_url option"
  pb_trusted :: trusted_peers

definition ParsePublicURL :: "net_syntax \<Rightarrow> string \<Rightarrow> base_url option" where
  "ParsePublicURL ns raw =
     (case ns_url_Parse ns raw of
        None \<Rightarrow> None
      | Some u \<Rightarrow>
          if bu_Scheme u \<noteq> ''http'' \<and> bu_Scheme u \<noteq> ''https'' then None
          else if bu_Host u = [] \<or> bu_HasUser u \<or> bu_RawQuery u \<noteq> [] \<or> bu_Fragment u \<noteq> [] \<or> bu_Opaque u \<noteq> [] then None
          else Some (u\<lparr>bu_Path := trim_right_set ''/'' (bu_Path u)\<rparr>))"

definition NewPublicBaseResolver :: "net_syntax \<Rightarrow> string \<Rightarrow> trusted_peers \<Rightarrow> public_base_resolver option" where
  "NewPublicBaseResolver ns publicURL trusted =
     (if publicURL = [] then Some \<lparr>pb_fixed = None, pb_trusted = trusted\<rparr>
      else map_option (\<lambda>u. \<lparr>pb_fixed = Some u, pb_trusted = trusted\<rparr>) (ParsePublicURL ns publicURL))"

definition lastValue :: "inbound \<Rightarrow> string \<Rightarrow> string" where
  "lastValue r name =
     (case hdr_Values (ib_Header r) name of
        [] \<Rightarrow> []
      | vs \<Rightarrow> (case last_cut CHR '','' (last vs) of None \<Rightarrow> trim_space (last vs) | Some (_, v) \<Rightarrow> trim_space v))"

fun proto_host :: "string list \<Rightarrow> string \<times> string \<Rightarrow> string \<times> string" where
  "proto_host [] acc = acc"
| "proto_host (param # ps) (proto, host) =
     (case cut CHR ''='' (trim_space param) of
        (k, v0, found) \<Rightarrow>
          if \<not> found then proto_host ps (proto, host)
          else let v = trim_set [CHR 0x22] (trim_space v0); key = to_lower (trim_space k) in
            if key = ''proto'' then proto_host ps (v, host)
            else if key = ''host'' then proto_host ps (proto, v)
            else proto_host ps (proto, host))"

definition forwardedProtoHost :: "inbound \<Rightarrow> string \<times> string" where
  "forwardedProtoHost r = proto_host (split_on CHR '';'' (lastValue r HeaderForwarded)) ([], [])"

definition validAuthority :: "net_syntax \<Rightarrow> string \<Rightarrow> bool" where
  "validAuthority ns host \<longleftrightarrow>
     host \<noteq> [] \<and> \<not> contains_any host (CHR 0x5C # '' /?#@'') \<and>
     (case ns_url_Parse ns (''http://'' @ host) of None \<Rightarrow> False | Some u \<Rightarrow> bu_Host u = host \<and> bu_Path u = [])"

text \<open>What the request says of scheme, host, port and prefix; only a trusted peer's headers count.\<close>

definition base_parts :: "net_syntax \<Rightarrow> public_base_resolver option \<Rightarrow> inbound \<Rightarrow> string \<times> string \<times> string \<times> string" where
  "base_parts ns p r =
     (let scheme = (if ib_TLS r then ''https'' else ''http'') in
      case p of
        None \<Rightarrow> (scheme, ib_Host r, [], [])
      | Some pb \<Rightarrow>
          if PeerTrusted ns (pb_trusted pb) r then
            (let proto0 = lastValue r ''X-Forwarded-Proto''; host0 = lastValue r ''X-Forwarded-Host'';
                 (proto, fwdHost) = (if proto0 = [] \<and> host0 = [] then forwardedProtoHost r else (proto0, host0))
             in (if proto \<noteq> [] then to_lower proto else scheme, if fwdHost \<noteq> [] then fwdHost else ib_Host r,
                 lastValue r ''X-Forwarded-Port'', lastValue r ''X-Forwarded-Prefix''))
          else (scheme, ib_Host r, [], []))"

definition plain_base :: "string \<Rightarrow> string \<Rightarrow> string \<Rightarrow> base_url" where
  "plain_base scheme host path =
     \<lparr>bu_Scheme = scheme, bu_Host = host, bu_Path = path, bu_HasUser = False, bu_RawQuery = [], bu_Fragment = [], bu_Opaque = []\<rparr>"

definition with_port :: "net_syntax \<Rightarrow> string \<Rightarrow> string \<Rightarrow> string option" where
  "with_port ns host port =
     (if port \<noteq> [] \<and> SplitHostPort host = None
      then let host' = JoinHostPort (trim_set ''[]'' host) port in if validAuthority ns host' then Some host' else None
      else Some host)"

definition Base :: "net_syntax \<Rightarrow> public_base_resolver option \<Rightarrow> inbound \<Rightarrow> base_url option" where
  "Base ns p r =
     (case Option.bind p pb_fixed of
        Some u \<Rightarrow> Some u
      | None \<Rightarrow>
          (case base_parts ns p r of
             (scheme, host, port, pfx) \<Rightarrow>
               if scheme \<noteq> ''http'' \<and> scheme \<noteq> ''https'' then None
               else if \<not> validAuthority ns host then None
               else case with_port ns host port of
                 None \<Rightarrow> None
               | Some host' \<Rightarrow>
                   if pfx \<noteq> [] \<and> (\<not> has_prefix pfx ''/'' \<or> contains_any pfx ''?#'') then None
                   else Some (plain_base scheme host' (trim_right_set ''/'' pfx))))"

section \<open>Forged headers\<close>

lemma peerAddr_cong:
  assumes "ib_RemoteAddr r' = ib_RemoteAddr r"
  shows "peerAddr ns r' = peerAddr ns r"
  unfolding peerAddr_def assms ..

text \<open>
  Headers of an untrusted peer count for nothing: neither the address the login limiter and
  the logs use nor, without a configured public URL, the base of the links written into
  documents depends on any header of a request whose peer is not a trusted proxy.
\<close>

theorem untrusted_headers_ignored:
  assumes "\<not> PeerTrusted ns (cr_trusted c) r" "\<not> PeerTrusted ns (pb_trusted pb) r"
    and "ib_RemoteAddr r' = ib_RemoteAddr r" "ib_Host r' = ib_Host r" "ib_TLS r' = ib_TLS r"
  shows "ClientIP ns c r' = ClientIP ns c r \<and> Base ns (Some pb) r' = Base ns (Some pb) r"
proof -
  note pa = peerAddr_cong [OF assms(3), of ns]
  have "ClientIP ns c r' = ClientIP ns c r"
    using assms(1) by (auto simp: ClientIP_def PeerTrusted_def pa split: sum.splits)
  moreover have "base_parts ns (Some pb) r' = base_parts ns (Some pb) r"
    using assms(2,4,5) by (simp add: base_parts_def PeerTrusted_def pa Let_def)
  then have "Base ns (Some pb) r' = Base ns (Some pb) r" unfolding Base_def by (elim ssubst) (rule refl)
  ultimately show ?thesis ..
qed

lemma walk_prepend:
  assumes "Some a \<in> set hs" "\<not> Trusted_Contains t a"
  shows "walk t peer passed (hs @ pre) = walk t peer passed hs"
  using assms
proof (induction hs arbitrary: passed)
  case (Cons h hs)
  then show ?case by (cases h) auto
qed simp

lemma split_on_append_all: "split_on c (a @ c # b) = split_on c a @ split_on c b"
  by (induction a) (auto split: list.splits)

lemma line_hops_append: "line_hops ns h (v @ CHR '','' # w) = line_hops ns h v @ line_hops ns h w"
  by (simp add: line_hops_def split_on_append_all)

text \<open>
  What the client wrote to the left of a trusted proxy's own entry changes nothing: a header
  with more lines in front, or with more entries in front of its first line, names the same
  client as long as the entries that were there name an address that is not a trusted proxy.
\<close>

theorem client_prefix_ignored:
  assumes "cr_header c \<noteq> HeaderXRealIP" "hdr_Values (ib_Header r) (cr_header c) = v # vs"
    and "hdr_Values (ib_Header r') (cr_header c) = extra @ [junk @ CHR '','' # v] @ vs"
    and "ib_RemoteAddr r' = ib_RemoteAddr r"
    and "Some a \<in> set (concat (map (line_hops ns (cr_header c)) (v # vs)))" "\<not> Trusted_Contains (cr_trusted c) a"
  shows "ClientIP ns c r' = ClientIP ns c r"
proof -
  let ?hs = "concat (map (line_hops ns (cr_header c)) (v # vs))"
  let ?pre = "concat (map (line_hops ns (cr_header c)) extra) @ line_hops ns (cr_header c) junk"
  have h: "hops ns c r = Some ?hs" using assms(1,2) by (simp add: hops_def Let_def)
  have h': "hops ns c r' = Some (?pre @ ?hs)" using assms(1,3) by (simp add: hops_def Let_def line_hops_append)
  have ne: "?hs \<noteq> []" using assms(5) by (metis empty_iff empty_set)
  have "walk t peer peer (rev (?pre @ ?hs)) = walk t peer peer (rev ?hs)" if "t = cr_trusted c" for t peer
    unfolding rev_append [of ?pre] that by (rule walk_prepend) (use assms(5,6) in \<open>simp_all only: set_rev\<close>)
  then show ?thesis
    using ne by (auto simp: ClientIP_def h h' peerAddr_cong [OF assms(4)] split: sum.splits)
qed

section \<open>What Base promises\<close>

lemma trim_right_set_suffix: "\<not> has_suffix (trim_right_set [c] s) [c]"
proof -
  have "\<not> has_prefix (dropWhile (\<lambda>x. x = c) t) [c]" for t
    by (induction t) (auto simp: has_prefix_def)
  from this [of "rev s"] show ?thesis by (simp add: trim_right_set_def has_suffix_def)
qed

lemma trim_right_set_prefix: "prefix (trim_right_set cs s) s"
  unfolding trim_right_set_def prefix_def by (metis rev_append rev_rev_ident takeWhile_dropWhile_id)

lemma trim_right_set_head: "trim_right_set cs s \<noteq> [] \<Longrightarrow> has_prefix s [c] \<Longrightarrow> has_prefix (trim_right_set cs s) [c]"
  using trim_right_set_prefix [of cs s]
  by (cases "trim_right_set cs s") (auto simp: has_prefix_def prefix_def)

text \<open>
  A base taken from a request is http or https, has a usable authority, no query, fragment or
  user part, and a path that is empty or starts with a slash and does not end with one.
\<close>

theorem request_base_is_wellformed:
  assumes "Base ns p r = Some u" "Option.bind p pb_fixed = None"
  shows "(bu_Scheme u = ''http'' \<or> bu_Scheme u = ''https'') \<and> validAuthority ns (bu_Host u)
    \<and> bu_RawQuery u = [] \<and> bu_Fragment u = [] \<and> \<not> bu_HasUser u \<and> bu_Opaque u = []
    \<and> (bu_Path u = [] \<or> has_prefix (bu_Path u) ''/'') \<and> \<not> has_suffix (bu_Path u) ''/''"
proof -
  obtain scheme host port pfx where b: "base_parts ns p r = (scheme, host, port, pfx)" by (metis prod_cases4)
  have s: "scheme = ''http'' \<or> scheme = ''https''" "validAuthority ns host"
    using assms by (auto simp: Base_def b split: if_splits)
  from s assms obtain host' where h: "with_port ns host port = Some host'"
    and pf: "pfx = [] \<or> has_prefix pfx ''/''" and u: "u = plain_base scheme host' (trim_right_set ''/'' pfx)"
    by (auto simp: Base_def b split: if_splits option.splits)
  have "validAuthority ns host'" using h s(2) by (auto simp: with_port_def Let_def split: if_splits)
  moreover have "trim_right_set ''/'' pfx = [] \<or> has_prefix (trim_right_set ''/'' pfx) ''/''"
    using pf trim_right_set_head [of "''/''" pfx] by (auto simp: trim_right_set_def)
  ultimately show ?thesis using s u trim_right_set_suffix [of "CHR ''/''" pfx] by (simp add: plain_base_def)
qed

section \<open>A sample network\<close>

text \<open>Addresses written as one digit; 7 is the reverse proxy.\<close>

definition demo_digit :: "string \<Rightarrow> addr option" where
  "demo_digit s = (case s of [c] \<Rightarrow> if is_digit c then Some (V4 (of_nat (of_char c - 48))) else None | _ \<Rightarrow> None)"

definition demo_net :: net_syntax where
  "demo_net = \<lparr>ns_ParseAddr = demo_digit, ns_ParseAddrPort = (\<lambda>_. None), ns_ParsePrefix = (\<lambda>_. None),
     ns_String = (\<lambda>a. case a of V4 w \<Rightarrow> nat_string (unat w) | V6 _ _ \<Rightarrow> ''?''),
     ns_url_Parse = (\<lambda>s. Some (plain_base ''http'' (drop 7 s) []))\<rparr>"

definition demo_resolver :: client_ip_resolver where
  "demo_resolver = \<lparr>cr_trusted = [\<lparr>px_Addr = V4 7, px_Bits = 32\<rparr>], cr_header = HeaderXForwardedFor\<rparr>"

definition demo_public_base :: public_base_resolver where
  "demo_public_base = \<lparr>pb_fixed = None, pb_trusted = cr_trusted demo_resolver\<rparr>"

definition demo_inbound :: "string \<Rightarrow> string \<Rightarrow> inbound" where
  "demo_inbound remote xff = \<lparr>ib_RemoteAddr = remote, ib_Header = no_header(''X-Forwarded-For'' := [xff]), ib_Host = ''h'', ib_TLS = False\<rparr>"

theorem untrusted_headers_ignored_witness:
  "ClientIP demo_net demo_resolver (demo_inbound ''5:80'' ''1'') = ClientIP demo_net demo_resolver (demo_inbound ''5:80'' ''2'')
   \<and> ClientIP demo_net demo_resolver (demo_inbound ''5:80'' ''2'') = ''5''"
proof -
  have "\<not> PeerTrusted demo_net (cr_trusted demo_resolver) (demo_inbound ''5:80'' ''2'')" by code_simp
  then have "ClientIP demo_net demo_resolver (demo_inbound ''5:80'' ''1'') = ClientIP demo_net demo_resolver (demo_inbound ''5:80'' ''2'')"
    using untrusted_headers_ignored [of demo_net demo_resolver "demo_inbound ''5:80'' ''2''" demo_public_base "demo_inbound ''5:80'' ''1''"]
    by (simp add: demo_public_base_def demo_inbound_def)
  moreover have "ClientIP demo_net demo_resolver (demo_inbound ''5:80'' ''2'') = ''5''" by code_simp
  ultimately show ?thesis by simp
qed

theorem client_prefix_ignored_witness:
  "ClientIP demo_net demo_resolver (demo_inbound ''7:80'' ''1, 9,3, 7'') = ClientIP demo_net demo_resolver (demo_inbound ''7:80'' ''3, 7'')
   \<and> ClientIP demo_net demo_resolver (demo_inbound ''7:80'' ''3, 7'') = ''3''"
proof -
  have "Some (V4 3) \<in> set (concat (map (line_hops demo_net (cr_header demo_resolver)) [''3, 7'']))"
    "\<not> Trusted_Contains (cr_trusted demo_resolver) (V4 3)" "cr_header demo_resolver \<noteq> HeaderXRealIP"
    by code_simp+
  moreover have "hdr_Values (ib_Header (demo_inbound ''7:80'' x)) (cr_header demo_resolver) = [x]" for x
    by (simp add: hdr_Values_def demo_inbound_def demo_resolver_def HeaderXForwardedFor_def) code_simp
  ultimately have "ClientIP demo_net demo_resolver (demo_inbound ''7:80'' ''1, 9,3, 7'') = ClientIP demo_net demo_resolver (demo_inbound ''7:80'' ''3, 7'')"
    using client_prefix_ignored [of demo_resolver "demo_inbound ''7:80'' ''3, 7''" "''3, 7''" "[]"
        "demo_inbound ''7:80'' ''1, 9,3, 7''" "[]" "''1, 9''" "V4 3" demo_net]
    by (simp add: demo_inbound_def)
  moreover have "ClientIP demo_net demo_resolver (demo_inbound ''7:80'' ''3, 7'') = ''3''" by code_simp
  ultimately show ?thesis by simp
qed

theorem request_base_is_wellformed_witness:
  "Base demo_net (Some demo_public_base) (demo_inbound ''5:80'' ''1'') = Some (plain_base ''http'' ''h'' [])
   \<and> validAuthority demo_net ''h''"
proof -
  have b: "Base demo_net (Some demo_public_base) (demo_inbound ''5:80'' ''1'') = Some (plain_base ''http'' ''h'' [])" by code_simp
  have "Option.bind (Some demo_public_base) pb_fixed = None" by (simp add: demo_public_base_def)
  from request_base_is_wellformed [OF b this] b show ?thesis by (simp add: plain_base_def)
qed

end
