(* ===== verification/Sessions.thy ===== *)
theory Sessions
  imports Login_Limiter Auth_Token Http_Reply Client_IP
begin

text \<open>
  Console sessions, \<^verbatim>\<open>internal/auth/session.go\<close> and \<^verbatim>\<open>internal/auth/handlers.go\<close>. The user
  store is the interface the code declares, a record of its four operations over any state;
  theory \<open>Users\<close> provides the one the server runs on. The request carries its parsed
  cookies; bcrypt, \<open>url.Parse\<close>, the body decoders and the rune count are fields of an
  environment; a request's clock readings and random bytes are an argument.
\<close>

section \<open>Requests, replies, environment\<close>

definition AccessCookie :: string where "AccessCookie = ''joei_at''"
definition RefreshCookie :: string where "RefreshCookie = ''joei_rt''"
definition RefreshCookiePath :: string where "RefreshCookiePath = ''/api/auth''"

record 's user_ops =
  uo_Get :: "'s \<Rightarrow> string \<Rightarrow> user_error + user"
  uo_HasEnabledUsers :: "'s \<Rightarrow> user_error + bool"
  uo_TouchLogin :: "'s \<Rightarrow> string \<Rightarrow> gotime \<Rightarrow> user_error option \<times> 's"
  uo_SetPassword :: "'s \<Rightarrow> string \<Rightarrow> string \<Rightarrow> bool \<Rightarrow> user_error option \<times> 's"

definition sqlite_users :: "user_store user_ops" where
  "sqlite_users = \<lparr>uo_Get = Users_Get, uo_HasEnabledUsers = HasEnabledUsers, uo_TouchLogin = TouchLogin,
     uo_SetPassword = SetPassword\<rparr>"

record identity =
  id_Username :: string
  id_Role :: string
  id_MustChangePassword :: bool

record auth_request = inbound +
  ar_Method :: string
  ar_Cookie :: "string \<Rightarrow> string option"
  ar_Body :: string

record cookie =
  ck_Name :: string
  ck_Value :: string
  ck_Path :: string
  ck_MaxAge :: int
  ck_HttpOnly :: bool
  ck_Secure :: bool
  ck_SameSiteStrict :: bool

record auth_reply = reply +
  ay_Cookies :: "cookie list"

record parsed_origin =
  po_Scheme :: string
  po_Host :: string

record auth_env =
  ae_codec :: token_codec
  ae_CheckPassword :: "string \<Rightarrow> string \<Rightarrow> bool"
  ae_HashPassword :: "string \<Rightarrow> string option"
  ae_RuneCount :: "string \<Rightarrow> nat"
  ae_url_Parse :: "string \<Rightarrow> parsed_origin option"
  ae_DecodeLogin :: "string \<Rightarrow> (string \<times> string) option"
  ae_DecodePassword :: "string \<Rightarrow> (string \<times> string) option"

record sessions =
  se_signer :: signer
  se_accessTTL :: duration
  se_refreshTTL :: duration
  se_clientIP :: "auth_request \<Rightarrow> string"

text \<open>The clock readings and random bytes of one request, in the order the code takes them.\<close>

record auth_io =
  io_Verify :: gotime
  io_Allow :: gotime
  io_Touch :: gotime
  io_AccessID :: "string option"
  io_Access :: gotime
  io_RefreshID :: "string option"
  io_Refresh :: gotime

record 's auth_state =
  as_store :: 's
  as_limiter :: login_limiter

section \<open>Replies and cookies\<close>

definition auth_writeJSON :: "header \<Rightarrow> cookie list \<Rightarrow> int \<Rightarrow> (string \<times> json) list \<Rightarrow> auth_reply" where
  "auth_writeJSON h cookies status v =
     \<lparr>rp_Status = status, rp_Header = hdr_Set h ''Content-Type'' ''application/json'', rp_Body = Json (JObject v), ay_Cookies = cookies\<rparr>"

definition auth_writeJSONError :: "header \<Rightarrow> int \<Rightarrow> string \<Rightarrow> auth_reply" where
  "auth_writeJSONError h status code = auth_writeJSON h [] status [(''error'', JString code)]"

definition no_store :: header where
  "no_store = hdr_Set no_header ''Cache-Control'' ''no-store''"

definition rateLimited :: "header \<Rightarrow> duration \<Rightarrow> auth_reply" where
  "rateLimited h retry =
     (let secs = go_div (wrap64 (retry + Second - 1)) Second;
          secs' = (if secs < 1 then 1 else secs)
      in auth_writeJSONError (hdr_Set h ''Retry-After'' (FormatInt secs')) StatusTooManyRequests ''too_many_attempts'')"

definition isTLS :: "auth_request \<Rightarrow> bool" where
  "isTLS r \<longleftrightarrow> ib_TLS r \<or> equal_fold (hdr_Get (ib_Header r) ''X-Forwarded-Proto'') ''https''"

definition sessionCookie :: "string \<Rightarrow> string \<Rightarrow> string \<Rightarrow> int \<Rightarrow> bool \<Rightarrow> cookie" where
  "sessionCookie name path v maxAge secure =
     \<lparr>ck_Name = name, ck_Value = v, ck_Path = path, ck_MaxAge = maxAge, ck_HttpOnly = True, ck_Secure = secure,
      ck_SameSiteStrict = True\<rparr>"

definition whole_seconds :: "duration \<Rightarrow> int" where
  "whole_seconds d = go_div d Second"

definition issueSession ::
  "auth_env \<Rightarrow> sessions \<Rightarrow> auth_io \<Rightarrow> auth_request \<Rightarrow> string \<Rightarrow> int64 \<Rightarrow> (string \<times> cookie list) option" where
  "issueSession ae se io r username ver =
     (case Issue (ae_codec ae) (se_signer se) (io_AccessID io) (io_Access io) username ver TypeAccess (se_accessTTL se) of
        None \<Rightarrow> None
      | Some access \<Rightarrow>
          (case Issue (ae_codec ae) (se_signer se) (io_RefreshID io) (io_Refresh io) username ver TypeRefresh (se_refreshTTL se) of
             None \<Rightarrow> None
           | Some refresh \<Rightarrow>
               let secure = isTLS r in
               Some (access,
                 [sessionCookie AccessCookie ''/'' access (whole_seconds (se_accessTTL se)) secure,
                  sessionCookie RefreshCookie RefreshCookiePath refresh (whole_seconds (se_refreshTTL se)) secure])))"

definition clearSession :: "auth_request \<Rightarrow> cookie list" where
  "clearSession r =
     map (\<lambda>(name, path). sessionCookie name path [] (- 1) (isTLS r)) [(AccessCookie, ''/''), (RefreshCookie, RefreshCookiePath)]"

section \<open>Who is asking\<close>

definition Locked :: "'s user_ops \<Rightarrow> 's \<Rightarrow> bool" where
  "Locked uo st = (case uo_HasEnabledUsers uo st of Inl _ \<Rightarrow> True | Inr ok \<Rightarrow> \<not> ok)"

definition userForToken ::
  "'s user_ops \<Rightarrow> auth_env \<Rightarrow> sessions \<Rightarrow> 's \<Rightarrow> gotime \<Rightarrow> string \<Rightarrow> string \<Rightarrow> user option" where
  "userForToken uo ae se st now token wantType =
     (case Verify (ae_codec ae) (se_signer se) now token wantType of
        Inl _ \<Rightarrow> None
      | Inr c \<Rightarrow>
          (case uo_Get uo st (cl_Sub c) of
             Inl _ \<Rightarrow> None
           | Inr u \<Rightarrow> if u_Disabled u \<or> cl_Ver c \<noteq> u_TokenVersion u then None else Some u))"

text \<open>The presented token, whether it came in a header, and whether there was one.\<close>

definition accessCredential :: "auth_request \<Rightarrow> string \<times> bool \<times> bool" where
  "accessCredential r =
     (let h = hdr_Get (ib_Header r) ''Authorization'' in
      if h \<noteq> [] then
        (let (scheme, rest, hasSpace) = cut CHR '' '' h in
         if \<not> equal_fold scheme ''Bearer'' \<or> \<not> hasSpace then ([], True, False)
         else let v = trim_space rest in (v, True, v \<noteq> []))
      else case ar_Cookie r AccessCookie of
        Some v \<Rightarrow> if v \<noteq> [] then (v, False, True) else ([], False, False)
      | None \<Rightarrow> ([], False, False))"

definition authenticate ::
  "'s user_ops \<Rightarrow> auth_env \<Rightarrow> sessions \<Rightarrow> 's \<Rightarrow> gotime \<Rightarrow> auth_request \<Rightarrow> bool \<times> user option" where
  "authenticate uo ae se st now r =
     (let (token, bearer, found) = accessCredential r in
      if \<not> found then (bearer, None) else (bearer, userForToken uo ae se st now token TypeAccess))"

definition identityOf :: "user \<Rightarrow> identity" where
  "identityOf u = \<lparr>id_Username = u_Username u, id_Role = u_Role u, id_MustChangePassword = u_MustChangePassword u\<rparr>"

definition Authenticate ::
  "'s user_ops \<Rightarrow> auth_env \<Rightarrow> sessions \<Rightarrow> 's \<Rightarrow> gotime \<Rightarrow> auth_request \<Rightarrow> identity option" where
  "Authenticate uo ae se st now r = map_option identityOf (snd (authenticate uo ae se st now r))"

definition isMutating :: "string \<Rightarrow> bool" where
  "isMutating m \<longleftrightarrow> m \<in> {''POST'', ''PUT'', ''PATCH'', ''DELETE''}"

definition sameOrigin :: "auth_env \<Rightarrow> auth_request \<Rightarrow> bool" where
  "sameOrigin ae r =
     (let site = hdr_Get (ib_Header r) ''Sec-Fetch-Site'' in
      if site = ''same-origin'' \<or> site = ''none'' then True
      else if site = ''cross-site'' \<or> site = ''same-site'' then False
      else let origin = hdr_Get (ib_Header r) ''Origin'' in
        if origin = [] then True
        else case ae_url_Parse ae origin of
          None \<Rightarrow> False
        | Some u \<Rightarrow> po_Host u = ib_Host r \<and> po_Scheme u = (if isTLS r then ''https'' else ''http''))"

text \<open>The re-validator a long-lived handler calls on the store of a later moment.\<close>

definition recheckFor :: "'s user_ops \<Rightarrow> user \<Rightarrow> 's \<Rightarrow> bool" where
  "recheckFor uo u later =
     (case uo_Get uo later (u_Username u) of
        Inl _ \<Rightarrow> False
      | Inr cur \<Rightarrow> \<not> u_Disabled cur \<and> \<not> u_MustChangePassword cur \<and> u_TokenVersion cur = u_TokenVersion u)"

text \<open>The gate in front of the console's handlers: a reply, or the identity and re-validator the handler runs with.\<close>

definition Middleware ::
  "'s user_ops \<Rightarrow> auth_env \<Rightarrow> sessions \<Rightarrow> 's \<Rightarrow> gotime \<Rightarrow> auth_request \<Rightarrow> auth_reply + identity \<times> ('s \<Rightarrow> bool)" where
  "Middleware uo ae se st now r =
     (if Locked uo st then Inl (auth_writeJSONError no_header StatusServiceUnavailable ''auth_not_configured'')
      else case authenticate uo ae se st now r of
        (_, None) \<Rightarrow> Inl (auth_writeJSONError no_header StatusUnauthorized ''unauthorized'')
      | (bearer, Some u) \<Rightarrow>
          if \<not> bearer \<and> isMutating (ar_Method r) \<and> \<not> sameOrigin ae r
          then Inl (auth_writeJSONError no_header StatusForbidden ''cross_origin'')
          else if u_MustChangePassword u then Inl (auth_writeJSONError no_header StatusForbidden ''password_change_required'')
          else Inr (identityOf u, recheckFor uo u))"

section \<open>The session endpoints\<close>

definition maxLoginBody :: nat where "maxLoginBody = 4096"

definition login ::
  "'s user_ops \<Rightarrow> auth_env \<Rightarrow> sessions \<Rightarrow> auth_io \<Rightarrow> 's auth_state \<Rightarrow> auth_request \<Rightarrow> auth_reply \<times> 's auth_state" where
  "login uo ae se io st r =
     (if Locked uo (as_store st) then (auth_writeJSONError no_store StatusServiceUnavailable ''auth_not_configured'', st)
      else if \<not> sameOrigin ae r then (auth_writeJSONError no_store StatusForbidden ''cross_origin'', st)
      else case ae_DecodeLogin ae (take maxLoginBody (ar_Body r)) of
        None \<Rightarrow> (auth_writeJSONError no_store StatusBadRequest ''invalid_request'', st)
      | Some (username, password) \<Rightarrow>
          (let ip = se_clientIP se r in
           case Allow (as_limiter st) username ip (io_Allow io) of
             ((retry, False), l) \<Rightarrow> (rateLimited no_store retry, st\<lparr>as_limiter := l\<rparr>)
           | ((_, True), l) \<Rightarrow>
               let st1 = st\<lparr>as_limiter := l\<rparr> in
               (case uo_Get uo (as_store st) username of
                  Inl _ \<Rightarrow> (auth_writeJSONError no_store StatusUnauthorized ''invalid_credentials'', st1)
                | Inr u \<Rightarrow>
                    if \<not> (ae_CheckPassword ae (u_PasswordHash u) password \<and> \<not> u_Disabled u)
                    then (auth_writeJSONError no_store StatusUnauthorized ''invalid_credentials'', st1)
                    else
                      let st2 = st1\<lparr>as_limiter := Success l username ip,
                                    as_store := snd (uo_TouchLogin uo (as_store st) (u_Username u) (io_Touch io))\<rparr> in
                      (case issueSession ae se io r (u_Username u) (u_TokenVersion u) of
                         None \<Rightarrow> (auth_writeJSONError no_store StatusInternalServerError ''token_issue_failed'', st2)
                       | Some (access, cookies) \<Rightarrow>
                           (auth_writeJSON no_store cookies StatusOK
                              [(''username'', JString (u_Username u)), (''role'', JString (u_Role u)),
                               (''must_change_password'', JBool (u_MustChangePassword u)), (''access_token'', JString access),
                               (''expires_in'', JNumber (of_int (whole_seconds (se_accessTTL se))))], st2)))))"

definition refresh ::
  "'s user_ops \<Rightarrow> auth_env \<Rightarrow> sessions \<Rightarrow> auth_io \<Rightarrow> 's \<Rightarrow> auth_request \<Rightarrow> auth_reply" where
  "refresh uo ae se io st r =
     (if Locked uo st then auth_writeJSONError no_store StatusServiceUnavailable ''auth_not_configured''
      else if \<not> sameOrigin ae r then auth_writeJSONError no_store StatusForbidden ''cross_origin''
      else case ar_Cookie r RefreshCookie of
        None \<Rightarrow> auth_writeJSONError no_store StatusUnauthorized ''unauthorized''
      | Some v \<Rightarrow>
          if v = [] then auth_writeJSONError no_store StatusUnauthorized ''unauthorized''
          else case userForToken uo ae se st (io_Verify io) v TypeRefresh of
            None \<Rightarrow> auth_writeJSONError no_store StatusUnauthorized ''unauthorized''
          | Some u \<Rightarrow>
              (case issueSession ae se io r (u_Username u) (u_TokenVersion u) of
                 None \<Rightarrow> auth_writeJSONError no_store StatusInternalServerError ''token_issue_failed''
               | Some (access, cookies) \<Rightarrow>
                   auth_writeJSON no_store cookies StatusOK
                     [(''username'', JString (u_Username u)), (''expires_in'', JNumber (of_int (whole_seconds (se_accessTTL se))))]))"

definition logout :: "auth_env \<Rightarrow> auth_request \<Rightarrow> auth_reply" where
  "logout ae r =
     (if \<not> sameOrigin ae r then auth_writeJSONError no_store StatusForbidden ''cross_origin''
      else \<lparr>rp_Status = 204, rp_Header = no_store, rp_Body = NoBody, ay_Cookies = clearSession r\<rparr>)"

definition me :: "'s user_ops \<Rightarrow> auth_env \<Rightarrow> sessions \<Rightarrow> auth_io \<Rightarrow> 's \<Rightarrow> auth_request \<Rightarrow> auth_reply" where
  "me uo ae se io st r =
     (if Locked uo st then auth_writeJSONError no_store StatusServiceUnavailable ''auth_not_configured''
      else case Authenticate uo ae se st (io_Verify io) r of
        None \<Rightarrow> auth_writeJSONError no_store StatusUnauthorized ''unauthorized''
      | Some i \<Rightarrow> auth_writeJSON no_store [] StatusOK
          [(''username'', JString (id_Username i)), (''role'', JString (id_Role i)),
           (''must_change_password'', JBool (id_MustChangePassword i))])"

definition user_error_message :: "user_error \<Rightarrow> string" where
  "user_error_message e =
     (case e of ErrNotFound \<Rightarrow> ''user not found'' | ErrExists \<Rightarrow> ''user already exists''
      | ErrLastAdmin \<Rightarrow> ''operation would leave no enabled admin'' | UserInvalid f m \<Rightarrow> ''password '' @ m
      | UserStoreFailed \<Rightarrow> ''store error'')"

definition replacePassword ::
  "'s user_ops \<Rightarrow> auth_env \<Rightarrow> sessions \<Rightarrow> auth_io \<Rightarrow> 's auth_state \<Rightarrow> auth_request \<Rightarrow> user \<Rightarrow> string \<Rightarrow> auth_reply \<times> 's auth_state" where
  "replacePassword uo ae se io st r u new =
     (case ae_HashPassword ae new of
        None \<Rightarrow> (auth_writeJSONError no_store StatusInternalServerError ''internal_error'', st)
      | Some h \<Rightarrow>
          (case uo_SetPassword uo (as_store st) (u_Username u) h False of
             (Some e, s1) \<Rightarrow>
               (if e = ErrNotFound then auth_writeJSONError no_store StatusUnauthorized ''unauthorized''
                else auth_writeJSONError no_store StatusInternalServerError ''internal_error'', st\<lparr>as_store := s1\<rparr>)
           | (None, s1) \<Rightarrow>
               (case uo_Get uo s1 (u_Username u) of
                  Inl _ \<Rightarrow> (auth_writeJSONError no_store StatusInternalServerError ''internal_error'', st\<lparr>as_store := s1\<rparr>)
                | Inr fresh \<Rightarrow>
                    (case issueSession ae se io r (u_Username fresh) (u_TokenVersion fresh) of
                       None \<Rightarrow> (auth_writeJSONError no_store StatusInternalServerError ''token_issue_failed'', st\<lparr>as_store := s1\<rparr>)
                     | Some (access, cookies) \<Rightarrow>
                         (auth_writeJSON no_store cookies StatusOK
                            [(''username'', JString (u_Username fresh)), (''role'', JString (u_Role fresh)),
                             (''must_change_password'', JBool (u_MustChangePassword fresh)), (''access_token'', JString access),
                             (''expires_in'', JNumber (of_int (whole_seconds (se_accessTTL se))))], st\<lparr>as_store := s1\<rparr>)))))"

definition changePassword ::
  "'s user_ops \<Rightarrow> auth_env \<Rightarrow> sessions \<Rightarrow> auth_io \<Rightarrow> 's auth_state \<Rightarrow> auth_request \<Rightarrow> auth_reply \<times> 's auth_state" where
  "changePassword uo ae se io st r =
     (if Locked uo (as_store st) then (auth_writeJSONError no_store StatusServiceUnavailable ''auth_not_configured'', st)
      else if \<not> sameOrigin ae r then (auth_writeJSONError no_store StatusForbidden ''cross_origin'', st)
      else case snd (authenticate uo ae se (as_store st) (io_Verify io) r) of
        None \<Rightarrow> (auth_writeJSONError no_store StatusUnauthorized ''unauthorized'', st)
      | Some u \<Rightarrow>
          (case ae_DecodePassword ae (take maxLoginBody (ar_Body r)) of
             None \<Rightarrow> (auth_writeJSONError no_store StatusBadRequest ''invalid_request'', st)
           | Some (current, new) \<Rightarrow>
               (let ip = se_clientIP se r in
                case Allow (as_limiter st) (u_Username u) ip (io_Allow io) of
                  ((retry, False), l) \<Rightarrow> (rateLimited no_store retry, st\<lparr>as_limiter := l\<rparr>)
                | ((_, True), l) \<Rightarrow>
                    if \<not> ae_CheckPassword ae (u_PasswordHash u) current
                    then (auth_writeJSONError no_store StatusUnauthorized ''invalid_credentials'', st\<lparr>as_limiter := l\<rparr>)
                    else
                      let st1 = st\<lparr>as_limiter := Success l (u_Username u) ip\<rparr> in
                      (case ValidatePassword (ae_RuneCount ae) (u_Username u) new of
                         Some e \<Rightarrow> (auth_writeJSON no_store [] StatusBadRequest
                             [(''error'', JString ''invalid_password''), (''message'', JString (user_error_message e))], st1)
                       | None \<Rightarrow>
                           if new = current
                           then (auth_writeJSON no_store [] StatusBadRequest
                             [(''error'', JString ''invalid_password''),
                              (''message'', JString ''new password must differ from the current one'')], st1)
                           else replacePassword uo ae se io st1 r u new))))"

end
