(* ===== verification/Sessions_Correct.thy ===== *)
theory Sessions_Correct
  imports Sessions
begin

text \<open>
  What sessions promise. The laws sessions rely on of a user store are a locale, interpreted
  on the SQLite store of theory \<open>Users\<close>; the results on requests are proved from the laws.
\<close>

section \<open>What a session needs of the user store\<close>

locale user_directory =
  fixes uo :: "'s user_ops"
  assumes get_by_stored_name: "uo_Get uo s n = Inr u \<Longrightarrow> uo_Get uo s' n = uo_Get uo s' (u_Username u)"
    and password_set: "uo_SetPassword uo s n h m = (None, s') \<Longrightarrow>
      \<exists>u. uo_Get uo s n = Inr u \<and>
        uo_Get uo s' n = Inr (u\<lparr>u_PasswordHash := h, u_MustChangePassword := m, u_TokenVersion := u_TokenVersion u + 1\<rparr>)"
    and password_failed: "uo_SetPassword uo s n h m = (Some e, s') \<Longrightarrow> s' = s"
    and login_touched: "uo_TouchLogin uo s n t = (err, s') \<Longrightarrow> uo_Get uo s k = Inr u \<Longrightarrow>
      \<exists>l. uo_Get uo s' k = Inr (u\<lparr>u_LastLoginAt := l\<rparr>)"
    and enabled_not_locked: "uo_Get uo s n = Inr u \<Longrightarrow> \<not> u_Disabled u \<Longrightarrow> \<not> Locked uo s"

lemma userForToken_Some:
  "userForToken uo ae se st now token typ = Some u \<longleftrightarrow>
     (\<exists>c. Verify (ae_codec ae) (se_signer se) now token typ = Inr c \<and> uo_Get uo st (cl_Sub c) = Inr u \<and>
        \<not> u_Disabled u \<and> cl_Ver c = u_TokenVersion u)"
  by (auto simp: userForToken_def split: sum.splits if_splits)

text \<open>The claims of a token do not depend on when it is looked at.\<close>

lemma Verify_time_indep:
  assumes "Verify tc s now token typ = Inr c" "Verify tc s now' token typ = Inr c'"
  shows "c' = c"
proof -
  obtain p0 p1 p2 where "split_on CHR ''.'' token = [p0, p1, p2]"
      "Option.bind (b64_decode p1) (tc_UnmarshalClaims tc) = Some c" using Verify_accepts [OF assms(1)] by metis
  moreover obtain q0 q1 q2 where "split_on CHR ''.'' token = [q0, q1, q2]"
      "Option.bind (b64_decode q1) (tc_UnmarshalClaims tc) = Some c'" using Verify_accepts [OF assms(2)] by metis
  ultimately show ?thesis by simp
qed

lemma userForToken_twice:
  assumes "userForToken uo ae se s t token ty = Some u" "userForToken uo ae se s' t' token ty = Some v"
  shows "\<exists>n. uo_Get uo s n = Inr u \<and> uo_Get uo s' n = Inr v \<and> u_TokenVersion v = u_TokenVersion u \<and> \<not> u_Disabled v"
proof -
  obtain c where c: "Verify (ae_codec ae) (se_signer se) t token ty = Inr c" "uo_Get uo s (cl_Sub c) = Inr u"
      "cl_Ver c = u_TokenVersion u" using assms(1) by (auto simp: userForToken_Some)
  obtain d where d: "Verify (ae_codec ae) (se_signer se) t' token ty = Inr d" "uo_Get uo s' (cl_Sub d) = Inr v"
      "cl_Ver d = u_TokenVersion v" "\<not> u_Disabled v" using assms(2) by (auto simp: userForToken_Some)
  have "d = c" by (rule Verify_time_indep [OF c(1) d(1)])
  with c d show ?thesis by auto
qed

lemma Middleware_Inr:
  assumes "Middleware uo ae se st now r = Inr (i, rc)"
  obtains token bearer u where "accessCredential r = (token, bearer, True)"
    and "userForToken uo ae se st now token TypeAccess = Some u" "\<not> Locked uo st"
    and "bearer \<or> \<not> isMutating (ar_Method r) \<or> sameOrigin ae r"
    and "\<not> u_MustChangePassword u" "i = identityOf u" "rc = recheckFor uo u"
proof -
  obtain token bearer found where c: "accessCredential r = (token, bearer, found)" by (metis prod_cases3)
  show thesis
    using assms that [of token bearer] c
    by (auto simp: Middleware_def authenticate_def split: if_splits option.splits)
qed

text \<open>C15: The console's handlers run only for a live session: the request carries an access token the
  server issued that has not expired, whose user exists now under that name, is enabled,
  needs no password change and is still at the version the token was issued at; and a change
  asked for with a cookie comes from the console's own origin.
\<close>

theorem middleware_admits_only_current_sessions:
  assumes "Middleware uo ae se st now r = Inr (i, rc)"
    and "codec_ok (ae_codec ae)" "\<forall>j\<in>set issued. ascii_issuance j"
    and "unforged (ae_codec ae) (se_signer se) issued (fst (accessCredential r))"
  shows "\<exists>j\<in>set issued. is_typ j = TypeAccess \<and> time_unix now < time_unix (time_add (is_time j) (is_ttl j)) \<and>
    (\<exists>u. uo_Get uo st (is_user j) = Inr u \<and> u_TokenVersion u = is_ver j \<and> \<not> u_Disabled u \<and> \<not> u_MustChangePassword u
       \<and> i = identityOf u) \<and>
    (fst (snd (accessCredential r)) \<or> \<not> isMutating (ar_Method r) \<or> sameOrigin ae r)"
proof -
  obtain token bearer u where m: "accessCredential r = (token, bearer, True)"
      "userForToken uo ae se st now token TypeAccess = Some u"
      "bearer \<or> \<not> isMutating (ar_Method r) \<or> sameOrigin ae r" "\<not> u_MustChangePassword u" "i = identityOf u"
    using Middleware_Inr [OF assms(1)] by metis
  from m(2) obtain c where c: "Verify (ae_codec ae) (se_signer se) now token TypeAccess = Inr c"
      "uo_Get uo st (cl_Sub c) = Inr u" "\<not> u_Disabled u" "cl_Ver c = u_TokenVersion u"
    by (auto simp: userForToken_Some)
  have "unforged (ae_codec ae) (se_signer se) issued token" using assms(4) m(1) by simp
  from accepted_token_was_issued [OF assms(2) this c(1) assms(3)] obtain j
    where j: "j \<in> set issued" "c = issuance_claims j" "is_typ j = TypeAccess" "time_unix now < cl_Exp c" by blast
  then have "cl_Sub c = is_user j" "cl_Ver c = is_ver j" "cl_Exp c = time_unix (time_add (is_time j) (is_ttl j))"
    by (simp_all add: issuance_claims_def issued_claims_def)
  with j(1,3,4) c m show ?thesis by (intro bexI [of _ j]) auto
qed

section \<open>From login to the gate\<close>

lemma issueSession_Some:
  assumes "issueSession ae se io r n v = Some (access, cookies)"
  obtains raw refresh where "io_AccessID io = Some raw"
    and "Issue (ae_codec ae) (se_signer se) (Some raw) (io_Access io) n v TypeAccess (se_accessTTL se) = Some access"
    and "cookies = [sessionCookie AccessCookie ''/'' access (whole_seconds (se_accessTTL se)) (isTLS r),
        sessionCookie RefreshCookie RefreshCookiePath refresh (whole_seconds (se_refreshTTL se)) (isTLS r)]"
proof -
  obtain refresh where "Issue (ae_codec ae) (se_signer se) (io_AccessID io) (io_Access io) n v TypeAccess (se_accessTTL se) = Some access"
    "cookies = [sessionCookie AccessCookie ''/'' access (whole_seconds (se_accessTTL se)) (isTLS r),
        sessionCookie RefreshCookie RefreshCookiePath refresh (whole_seconds (se_refreshTTL se)) (isTLS r)]"
    using assms by (auto simp: issueSession_def Let_def split: option.splits)
  moreover from this(1) obtain raw where "io_AccessID io = Some raw" by (auto simp: Issue_def split: option.splits)
  ultimately show thesis using that by simp
qed

text \<open>A fresh access token is a session of its user as long as the store keeps the version.\<close>

lemma issued_access_authenticates:
  assumes "codec_ok (ae_codec ae)" "issueSession ae se io r n v = Some (access, cookies)"
    and "n \<noteq> []" "ascii n" "time_unix now < time_unix (time_add (io_Access io) (se_accessTTL se))"
    and "uo_Get uo st n = Inr u" "u_TokenVersion u = v" "\<not> u_Disabled u"
  shows "userForToken uo ae se st now access TypeAccess = Some u"
proof -
  obtain raw where i: "Issue (ae_codec ae) (se_signer se) (Some raw) (io_Access io) n v TypeAccess (se_accessTTL se) = Some access"
    using issueSession_Some [OF assms(2)] by metis
  have "ascii TypeAccess" by (simp add: TypeAccess_def)
  from issued_token_reads_back [OF assms(1) i assms(3,4) this, of now TypeAccess] assms(5-8) show ?thesis
    by (simp add: userForToken_Some issued_claims_def)
qed


text \<open>What a successful login has done.\<close>

lemma login_200:
  assumes "login uo ae se io st r = (rep, st')" "rp_Status rep = StatusOK"
  obtains username password u retry l access where
    "ae_DecodeLogin ae (take maxLoginBody (ar_Body r)) = Some (username, password)"
    "Allow (as_limiter st) username (se_clientIP se r) (io_Allow io) = ((retry, True), l)"
    "\<not> Locked uo (as_store st)" "sameOrigin ae r"
    "uo_Get uo (as_store st) username = Inr u" "ae_CheckPassword ae (u_PasswordHash u) password" "\<not> u_Disabled u"
    "as_limiter st' = Success l username (se_clientIP se r)"
    "as_store st' = snd (uo_TouchLogin uo (as_store st) (u_Username u) (io_Touch io))"
    "issueSession ae se io r (u_Username u) (u_TokenVersion u) = Some (access, ay_Cookies rep)"
proof -
  have "\<not> Locked uo (as_store st)" "sameOrigin ae r"
    using assms by (auto simp: login_def auth_writeJSONError_def auth_writeJSON_def split: if_splits)
  moreover from this obtain username password where d: "ae_DecodeLogin ae (take maxLoginBody (ar_Body r)) = Some (username, password)"
    using assms by (auto simp: login_def auth_writeJSONError_def auth_writeJSON_def split: option.splits)
  moreover obtain retry ok l where al: "Allow (as_limiter st) username (se_clientIP se r) (io_Allow io) = ((retry, ok), l)"
    by (metis surj_pair)
  ultimately show thesis
    using assms that [of username password retry l]
    by (auto simp: login_def Let_def rateLimited_def auth_writeJSONError_def auth_writeJSON_def
        split: if_splits sum.splits option.splits bool.splits)
qed

context user_directory
begin

lemma get_stored_name: "uo_Get uo s n = Inr u \<Longrightarrow> uo_Get uo s (u_Username u) = Inr u"
  using get_by_stored_name by metis

lemma login_session:
  assumes "login uo ae se io st r = (rep, st')" "rp_Status rep = StatusOK" "codec_ok (ae_codec ae)"
    and "\<And>n u. uo_Get uo (as_store st) n = Inr u \<Longrightarrow> u_Username u \<noteq> [] \<and> ascii (u_Username u)"
  shows "\<exists>username password u access refresh.
    ae_DecodeLogin ae (take maxLoginBody (ar_Body r)) = Some (username, password) \<and>
    uo_Get uo (as_store st) username = Inr u \<and> ae_CheckPassword ae (u_PasswordHash u) password \<and> \<not> u_Disabled u \<and>
    snd (fst (Allow (as_limiter st) username (se_clientIP se r) (io_Allow io))) \<and>
    ay_Cookies rep = [access, refresh] \<and> ck_Name access = AccessCookie \<and>
    (\<forall>r' now. ar_Cookie r' AccessCookie = Some (ck_Value access) \<and> hdr_Get (ib_Header r') ''Authorization'' = [] \<and>
       time_unix now < time_unix (time_add (io_Access io) (se_accessTTL se)) \<longrightarrow>
       (\<exists>l. authenticate uo ae se (as_store st') now r' = (False, Some (u\<lparr>u_LastLoginAt := l\<rparr>))))"
proof -
  obtain username password u retry l access where h:
    "ae_DecodeLogin ae (take maxLoginBody (ar_Body r)) = Some (username, password)"
    "Allow (as_limiter st) username (se_clientIP se r) (io_Allow io) = ((retry, True), l)"
    "uo_Get uo (as_store st) username = Inr u" "ae_CheckPassword ae (u_PasswordHash u) password" "\<not> u_Disabled u"
    "as_store st' = snd (uo_TouchLogin uo (as_store st) (u_Username u) (io_Touch io))"
    "issueSession ae se io r (u_Username u) (u_TokenVersion u) = Some (access, ay_Cookies rep)"
    using login_200 [OF assms(1,2)] by metis
  obtain refresh where ck: "ay_Cookies rep = [sessionCookie AccessCookie ''/'' access (whole_seconds (se_accessTTL se)) (isTLS r), refresh]"
    using issueSession_Some [OF h(7)] by metis
  have n: "u_Username u \<noteq> []" "ascii (u_Username u)" using assms(4) [OF h(3)] by auto
  have g: "uo_Get uo (as_store st) (u_Username u) = Inr u" by (rule get_stored_name [OF h(3)])
  obtain lt where g': "uo_Get uo (as_store st') (u_Username u) = Inr (u\<lparr>u_LastLoginAt := lt\<rparr>)"
    using login_touched [OF _ g] h(6) by (metis surjective_pairing)
  have ne: "access \<noteq> []" using issueSession_Some [OF h(7)] by (auto simp: Issue_def Let_def)
  have "authenticate uo ae se (as_store st') now r' = (False, Some (u\<lparr>u_LastLoginAt := lt\<rparr>))"
    if "ar_Cookie r' AccessCookie = Some access" "hdr_Get (ib_Header r') ''Authorization'' = []"
      "time_unix now < time_unix (time_add (io_Access io) (se_accessTTL se))" for r' now
    using issued_access_authenticates [OF assms(3) h(7) n that(3) g'] h(5) that(1,2) ne
    by (simp add: authenticate_def accessCredential_def)
  with h ck show ?thesis
    by (intro exI [of _ username] exI [of _ password] exI [of _ u] exI) (auto simp: sessionCookie_def)
qed

lemma replacePassword_200:
  assumes "replacePassword uo ae se io st r u new = (rep, st')" "rp_Status rep = StatusOK" "uo_Get uo (as_store st) n = Inr u"
  obtains h access where
    "uo_Get uo (as_store st') (u_Username u) =
       Inr (u\<lparr>u_PasswordHash := h, u_MustChangePassword := False, u_TokenVersion := u_TokenVersion u + 1\<rparr>)"
    "ae_HashPassword ae new = Some h"
    "issueSession ae se io r (u_Username u) (u_TokenVersion u + 1) = Some (access, ay_Cookies rep)"
proof -
  obtain h where h: "ae_HashPassword ae new = Some h"
    using assms(1,2) by (auto simp: replacePassword_def auth_writeJSONError_def auth_writeJSON_def split: option.splits)
  obtain err s1 where sp: "uo_SetPassword uo (as_store st) (u_Username u) h False = (err, s1)" by (metis surj_pair)
  have err: "err = None"
    using assms(1,2) h sp by (auto simp: replacePassword_def auth_writeJSONError_def auth_writeJSON_def split: option.splits if_splits)
  let ?v = "u\<lparr>u_PasswordHash := h, u_MustChangePassword := False, u_TokenVersion := u_TokenVersion u + 1\<rparr>"
  have g: "uo_Get uo s1 (u_Username u) = Inr ?v"
    using password_set [OF sp [unfolded err]] get_stored_name [OF assms(3)] by auto
  have "as_store st' = s1 \<and> (\<exists>access. issueSession ae se io r (u_Username u) (u_TokenVersion u + 1) = Some (access, ay_Cookies rep))"
    using assms(1,2) h sp err g
    by (auto simp: replacePassword_def auth_writeJSONError_def auth_writeJSON_def split: option.splits)
  with g h show thesis using that by blast
qed

lemma changePassword_200:
  assumes "changePassword uo ae se io st r = (rep, st')" "rp_Status rep = StatusOK"
  obtains u current new st1 where
    "snd (authenticate uo ae se (as_store st) (io_Verify io) r) = Some u"
    "ae_DecodePassword ae (take maxLoginBody (ar_Body r)) = Some (current, new)"
    "ae_CheckPassword ae (u_PasswordHash u) current" "new \<noteq> current"
    "ValidatePassword (ae_RuneCount ae) (u_Username u) new = None"
    "as_store st1 = as_store st" "replacePassword uo ae se io st1 r u new = (rep, st')"
proof -
  have c: "\<not> Locked uo (as_store st)" "sameOrigin ae r"
    using assms by (auto simp: changePassword_def auth_writeJSONError_def auth_writeJSON_def split: if_splits)
  obtain u where u: "snd (authenticate uo ae se (as_store st) (io_Verify io) r) = Some u"
    using assms c by (auto simp: changePassword_def auth_writeJSONError_def auth_writeJSON_def split: option.splits)
  obtain current new where d: "ae_DecodePassword ae (take maxLoginBody (ar_Body r)) = Some (current, new)"
    using assms c u by (auto simp: changePassword_def auth_writeJSONError_def auth_writeJSON_def split: option.splits)
  obtain retry ok l where al: "Allow (as_limiter st) (u_Username u) (se_clientIP se r) (io_Allow io) = ((retry, ok), l)"
    by (metis surj_pair)
  show thesis
    using assms c u d al that [of u current new "st\<lparr>as_limiter := Success l (u_Username u) (se_clientIP se r)\<rparr>"]
    by (auto simp: changePassword_def Let_def rateLimited_def auth_writeJSONError_def auth_writeJSON_def
        split: if_splits option.splits bool.splits)
qed

lemma password_change:
  assumes "changePassword uo ae se io st r = (rep, st')" "rp_Status rep = StatusOK" "codec_ok (ae_codec ae)"
    and "\<And>n u. uo_Get uo (as_store st) n = Inr u \<Longrightarrow> u_Username u \<noteq> [] \<and> ascii (u_Username u)"
  shows "\<exists>u access refresh. snd (authenticate uo ae se (as_store st) (io_Verify io) r) = Some u \<and>
    (\<forall>token typ t now. userForToken uo ae se (as_store st) t token typ = Some u \<longrightarrow>
       userForToken uo ae se (as_store st') now token typ = None) \<and>
    ay_Cookies rep = [access, refresh] \<and>
    (\<forall>now. time_unix now < time_unix (time_add (io_Access io) (se_accessTTL se)) \<longrightarrow>
       (\<exists>u'. userForToken uo ae se (as_store st') now (ck_Value access) TypeAccess = Some u' \<and>
          u_Username u' = u_Username u \<and> \<not> u_MustChangePassword u'))"
proof -
  obtain u new st1 where u: "snd (authenticate uo ae se (as_store st) (io_Verify io) r) = Some u"
    and st1: "as_store st1 = as_store st" and rp: "replacePassword uo ae se io st1 r u new = (rep, st')"
    using changePassword_200 [OF assms(1,2)] by metis
  obtain n where n: "uo_Get uo (as_store st) n = Inr u" and en: "\<not> u_Disabled u"
    using u by (auto simp: authenticate_def userForToken_Some split: prod.splits if_splits)
  obtain h access where g: "uo_Get uo (as_store st') (u_Username u) =
       Inr (u\<lparr>u_PasswordHash := h, u_MustChangePassword := False, u_TokenVersion := u_TokenVersion u + 1\<rparr>)"
    and i: "issueSession ae se io r (u_Username u) (u_TokenVersion u + 1) = Some (access, ay_Cookies rep)"
    using replacePassword_200 [OF rp assms(2)] n st1 by metis
  obtain refresh where ck: "ay_Cookies rep = [sessionCookie AccessCookie ''/'' access (whole_seconds (se_accessTTL se)) (isTLS r), refresh]"
    using issueSession_Some [OF i] by metis
  have "userForToken uo ae se (as_store st') now token ty = None"
    if old: "userForToken uo ae se (as_store st) t token ty = Some u" for token ty t now
  proof (rule ccontr)
    assume "userForToken uo ae se (as_store st') now token ty \<noteq> None"
    then obtain v where "userForToken uo ae se (as_store st') now token ty = Some v" by auto
    from userForToken_twice [OF old this] obtain k where k: "uo_Get uo (as_store st) k = Inr u"
      "uo_Get uo (as_store st') k = Inr v" "u_TokenVersion v = u_TokenVersion u" by blast
    with g get_by_stored_name [OF k(1), of "as_store st'"] show False by auto
  qed
  moreover have "userForToken uo ae se (as_store st') now access TypeAccess =
      Some (u\<lparr>u_PasswordHash := h, u_MustChangePassword := False, u_TokenVersion := u_TokenVersion u + 1\<rparr>)"
    if "time_unix now < time_unix (time_add (io_Access io) (se_accessTTL se))" for now
    using issued_access_authenticates [OF assms(3) i _ _ that g] assms(4) [OF n] en by simp
  ultimately show ?thesis using u ck
    by (intro exI [of _ u] exI [of _ "sessionCookie AccessCookie ''/'' access (whole_seconds (se_accessTTL se)) (isTLS r)"] exI [of _ refresh])
      (simp add: sessionCookie_def)
qed

end

section \<open>On the SQLite store\<close>

lemma find_user_readable: "Users_Get s n = Inr u \<longleftrightarrow> us_readable s \<and> find_user n (us_rows s) = Some u"
  by (auto simp: Users_Get_def split: option.splits)

lemma SetPassword_row:
  assumes "SetPassword s n h m = (None, s')"
  shows "\<exists>u. Users_Get s n = Inr u \<and>
    Users_Get s' n = Inr (u\<lparr>u_PasswordHash := h, u_MustChangePassword := m, u_TokenVersion := u_TokenVersion u + 1\<rparr>)"
  using assms [unfolded SetPassword_def]
proof (cases rule: mutate_cases)
  case (changed cur ch)
  let ?f = "\<lambda>u. bump_version (u\<lparr>u_PasswordHash := h, u_MustChangePassword := m\<rparr>)"
  have ch: "ch = UpdateRow ?f" using changed(3) by simp
  have "nocase n = nocase (u_Username cur)" using find_user_Some [OF changed(2)] by simp
  with changed ch show ?thesis
    by (simp add: find_user_readable find_user_update [of ?f] keeps_name_def) (simp add: bump_version_def)
qed simp_all

lemma mutate_failed: "mutate s n f = (Some e, s') \<Longrightarrow> s' = s"
  by (erule mutate_cases) simp_all

lemma TouchLogin_row:
  assumes "TouchLogin s n t = (err, s')" "Users_Get s k = Inr u"
  shows "\<exists>l. Users_Get s' k = Inr (u\<lparr>u_LastLoginAt := l\<rparr>)"
proof -
  let ?f = "\<lambda>u. u\<lparr>u_LastLoginAt := Some (of_unix (time_unix t))\<rparr>"
  have same: "\<exists>l. u = u\<lparr>u_LastLoginAt := l\<rparr>" by (intro exI [of _ "u_LastLoginAt u"]) simp
  show ?thesis
  proof (cases "us_writable s \<and> find_user n (us_rows s) \<noteq> None")
    case True
    then have s': "s' = s\<lparr>us_rows := apply_change (UpdateRow ?f) n (us_rows s)\<rparr>" using assms(1) by (auto simp: TouchLogin_def)
    have "keeps_name ?f" by (simp add: keeps_name_def)
    note up = find_user_update [OF this, of k n "us_rows s"]
    show ?thesis
    proof (cases "nocase k = nocase n")
      case True
      with assms(2) show ?thesis by (auto simp: find_user_readable s' up)
    next
      case False
      with assms(2) have "Users_Get s' k = Inr u" by (simp add: find_user_readable s' up)
      with same show ?thesis by metis
    qed
  next
    case False
    then have "s' = s" using assms(1) by (auto simp: TouchLogin_def split: if_splits)
    with assms(2) same show ?thesis by metis
  qed
qed

interpretation sqlite: user_directory sqlite_users
proof
  fix s s' :: user_store and n u
  assume "uo_Get sqlite_users s n = Inr u"
  then have "nocase n = nocase (u_Username u)" by (auto simp: sqlite_users_def find_user_readable dest: find_user_Some)
  then show "uo_Get sqlite_users s' n = uo_Get sqlite_users s' (u_Username u)"
    using find_user_cong [of n "u_Username u" "us_rows s'"] by (simp add: sqlite_users_def Users_Get_def)
next
  fix s s' :: user_store and n u h m
  assume "uo_SetPassword sqlite_users s n h m = (None, s')"
  then show "\<exists>u. uo_Get sqlite_users s n = Inr u \<and>
      uo_Get sqlite_users s' n = Inr (u\<lparr>u_PasswordHash := h, u_MustChangePassword := m, u_TokenVersion := u_TokenVersion u + 1\<rparr>)"
    by (simp add: sqlite_users_def SetPassword_row)
next
  fix s s' :: user_store and n h m e
  assume "uo_SetPassword sqlite_users s n h m = (Some e, s')"
  then show "s' = s" by (auto simp: sqlite_users_def SetPassword_def dest: mutate_failed)
next
  fix s s' :: user_store and n t err k u
  assume "uo_TouchLogin sqlite_users s n t = (err, s')" "uo_Get sqlite_users s k = Inr u"
  then show "\<exists>l. uo_Get sqlite_users s' k = Inr (u\<lparr>u_LastLoginAt := l\<rparr>)"
    by (simp add: sqlite_users_def TouchLogin_row)
next
  fix s :: user_store and n u
  assume "uo_Get sqlite_users s n = Inr u" "\<not> u_Disabled u"
  then show "\<not> Locked sqlite_users s"
    by (auto simp: sqlite_users_def find_user_readable Locked_def HasEnabledUsers_def filter_empty_conv dest: find_user_Some)
qed

text \<open>
  A login answered 200 was admitted by the limiter, named an enabled user of the store and
  gave its password; the access cookie it sets then authenticates requests as that user until
  it expires.
\<close>

theorem login_opens_a_session:
  assumes "login sqlite_users ae se io st r = (rep, st')" "rp_Status rep = StatusOK" "codec_ok (ae_codec ae)"
    and "\<forall>u\<in>set (us_rows (as_store st)). u_Username u \<noteq> [] \<and> ascii (u_Username u)"
  shows "\<exists>username password u access refresh.
    ae_DecodeLogin ae (take maxLoginBody (ar_Body r)) = Some (username, password) \<and>
    Users_Get (as_store st) username = Inr u \<and> ae_CheckPassword ae (u_PasswordHash u) password \<and> \<not> u_Disabled u \<and>
    snd (fst (Allow (as_limiter st) username (se_clientIP se r) (io_Allow io))) \<and>
    ay_Cookies rep = [access, refresh] \<and> ck_Name access = AccessCookie \<and>
    (\<forall>r' now. ar_Cookie r' AccessCookie = Some (ck_Value access) \<and> hdr_Get (ib_Header r') ''Authorization'' = [] \<and>
       time_unix now < time_unix (time_add (io_Access io) (se_accessTTL se)) \<longrightarrow>
       (\<exists>l. authenticate sqlite_users ae se (as_store st') now r' = (False, Some (u\<lparr>u_LastLoginAt := l\<rparr>))))"
proof -
  have "u_Username u \<noteq> [] \<and> ascii (u_Username u)" if "uo_Get sqlite_users (as_store st) n = Inr u" for n u
    using that assms(4) by (auto simp: sqlite_users_def find_user_readable dest: find_user_Some)
  from sqlite.login_session [OF assms(1-3) this] show ?thesis by (simp add: sqlite_users_def)
qed

text \<open>
  A password change answered 200 ends every session its user had, access and refresh tokens
  alike, and the access cookie it sets opens a new one without the change still pending.
\<close>

theorem password_change_revokes_and_renews:
  assumes "changePassword sqlite_users ae se io st r = (rep, st')" "rp_Status rep = StatusOK" "codec_ok (ae_codec ae)"
    and "\<forall>u\<in>set (us_rows (as_store st)). u_Username u \<noteq> [] \<and> ascii (u_Username u)"
  shows "\<exists>u access refresh. snd (authenticate sqlite_users ae se (as_store st) (io_Verify io) r) = Some u \<and>
    (\<forall>token typ t now. userForToken sqlite_users ae se (as_store st) t token typ = Some u \<longrightarrow>
       userForToken sqlite_users ae se (as_store st') now token typ = None) \<and>
    ay_Cookies rep = [access, refresh] \<and>
    (\<forall>now. time_unix now < time_unix (time_add (io_Access io) (se_accessTTL se)) \<longrightarrow>
       (\<exists>u'. userForToken sqlite_users ae se (as_store st') now (ck_Value access) TypeAccess = Some u' \<and>
          u_Username u' = u_Username u \<and> \<not> u_MustChangePassword u'))"
proof -
  have "u_Username u \<noteq> [] \<and> ascii (u_Username u)" if "uo_Get sqlite_users (as_store st) n = Inr u" for n u
    using that assms(4) by (auto simp: sqlite_users_def find_user_readable dest: find_user_Some)
  from sqlite.password_change [OF assms(1-3) this] show ?thesis .
qed

text \<open>C16: Revocation reaches every request. Take a state of the store in which a token was accepted, any run of operations from it,
  then one that sets the user's password, changes the role or the status, deletes the account or resets it, and again any run: the token is
  refused, also when the change was undone, or the account created anew under the name.
\<close>

theorem credential_change_ends_sessions:
  assumes "userForToken sqlite_users ae se s t1 token ty = Some u"
    and "user_reach t s ta sa" "ta < tb" "credential_change tb (u_Username u) sa sb" "user_reach tb sb t' s'"
    and "versions_by t s" "min_int64 \<le> t" "t' \<le> max_int64"
  shows "userForToken sqlite_users ae se s' t2 token ty = None"
proof (rule ccontr)
  assume "userForToken sqlite_users ae se s' t2 token ty \<noteq> None"
  then obtain v where "userForToken sqlite_users ae se s' t2 token ty = Some v" by auto
  from userForToken_twice [OF assms(1) this] obtain n where
    n: "Users_Get s n = Inr u" "Users_Get s' n = Inr v" "u_TokenVersion v = u_TokenVersion u" by (auto simp: sqlite_users_def)
  then have f: "find_user n (us_rows s) = Some u" "find_user n (us_rows s') = Some v" by (simp_all add: find_user_readable)
  with find_user_Some [OF f(1)] have "find_user (u_Username u) (us_rows s) = Some u" "find_user (u_Username u) (us_rows s') = Some v"
    using find_user_cong [of "u_Username u" n] by simp_all
  from changed_credentials_pass_version [OF assms(2-8) this] n(3) show False by simp
qed

section \<open>A sample console\<close>

text \<open>One administrator, a toy hash, and access tokens that live fifteen seconds.\<close>

definition demo_auth_env :: auth_env where
  "demo_auth_env = \<lparr>ae_codec = demo_codec, ae_CheckPassword = (\<lambda>h p. h = p), ae_HashPassword = Some, ae_RuneCount = length,
     ae_url_Parse = (\<lambda>_. None), ae_DecodeLogin = (\<lambda>b. Some (''admin'', b)), ae_DecodePassword = (\<lambda>b. Some (''g'', b))\<rparr>"

definition demo_sessions :: sessions where
  "demo_sessions = \<lparr>se_signer = demo_signer, se_accessTTL = 15 * Second, se_refreshTTL = 60 * Second,
     se_clientIP = (\<lambda>_. ''10.0.0.7'')\<rparr>"

definition demo_io :: auth_io where
  "demo_io = \<lparr>io_Verify = 0, io_Allow = 0, io_Touch = 0, io_AccessID = Some ''a'', io_Access = 0,
     io_RefreshID = Some ''b'', io_Refresh = 0\<rparr>"

definition demo_store :: user_store where
  "demo_store = demo_started\<lparr>us_rows := [demo_reset_admin]\<rparr>"

definition demo_state :: "user_store auth_state" where
  "demo_state = \<lparr>as_store = demo_store, as_limiter = NewLoginLimiter\<rparr>"

definition demo_issuance :: issuance where
  "demo_issuance = \<lparr>is_raw = ''a'', is_time = 0, is_user = ''admin'', is_ver = 1001, is_typ = TypeAccess, is_ttl = 15 * Second\<rparr>"

definition demo_token :: string where
  "demo_token = the (Issue demo_codec demo_signer (Some ''a'') 0 ''admin'' 1001 TypeAccess (15 * Second))"

definition demo_auth_request :: "string \<Rightarrow> auth_request" where
  "demo_auth_request body = \<lparr>ib_RemoteAddr = [], ib_Header = no_header, ib_Host = ''console'', ib_TLS = True, ar_Method = ''POST'',
     ar_Cookie = (\<lambda>n. if n = AccessCookie then Some demo_token else None), ar_Body = body\<rparr>"

lemma demo_token_shape:
  "demo_token = signing_input demo_codec demo_issuance @ ''.'' @ b64_encode (sign demo_codec demo_signer (signing_input demo_codec demo_issuance))"
  by (simp add: demo_token_def Issue_def Let_def signing_input_def issuance_claims_def demo_issuance_def)

lemma demo_Get: "Users_Get demo_store ''admin'' = Inr demo_reset_admin"
  by code_simp

lemma demo_user: "userForToken sqlite_users demo_auth_env demo_sessions demo_store 0 demo_token TypeAccess = Some demo_reset_admin"
proof -
  have i: "Issue demo_codec demo_signer (Some ''a'') 0 ''admin'' 1001 TypeAccess (15 * Second) = Some demo_token"
    by (simp add: demo_token_def Issue_def Let_def)
  have "ascii TypeAccess" by (simp add: TypeAccess_def)
  from issued_token_reads_back [OF demo_codec_ok i _ _ this, of 0 TypeAccess] show ?thesis
    using demo_Get by (simp add: userForToken_Some demo_auth_env_def demo_sessions_def sqlite_users_def issued_claims_def
        demo_reset_admin_def demo_admin_def time_unix_def time_add_def Second_def)
qed

lemma demo_origin: "sameOrigin demo_auth_env (demo_auth_request b)"
  by (simp add: sameOrigin_def demo_auth_request_def hdr_Get_def no_header_def)

lemma demo_unlocked: "\<not> Locked sqlite_users demo_store"
  by (simp add: Locked_def sqlite_users_def HasEnabledUsers_def demo_store_def demo_started_def demo_empty_def
      demo_reset_admin_def demo_admin_def)

lemma demo_credential: "accessCredential (demo_auth_request b) = (demo_token, False, True)"
  by (simp add: accessCredential_def demo_auth_request_def hdr_Get_def no_header_def demo_token_shape)

theorem middleware_admits_only_current_sessions_witness:
  "\<exists>rc. Middleware sqlite_users demo_auth_env demo_sessions demo_store 0 (demo_auth_request []) = Inr (identityOf demo_reset_admin, rc)
     \<and> (\<exists>u. uo_Get sqlite_users demo_store (is_user demo_issuance) = Inr u \<and> u_TokenVersion u = is_ver demo_issuance
          \<and> \<not> u_Disabled u \<and> \<not> u_MustChangePassword u)"
proof -
  have m: "Middleware sqlite_users demo_auth_env demo_sessions demo_store 0 (demo_auth_request [])
      = Inr (identityOf demo_reset_admin, recheckFor sqlite_users demo_reset_admin)"
    by (simp add: Middleware_def authenticate_def demo_unlocked demo_credential demo_user demo_origin)
      (simp add: demo_reset_admin_def)
  have "codec_ok (ae_codec demo_auth_env)" by (simp add: demo_auth_env_def demo_codec_ok)
  moreover have "\<forall>j\<in>set [demo_issuance]. ascii_issuance j" by (simp add: ascii_issuance_def demo_issuance_def TypeAccess_def)
  moreover have "unforged (ae_codec demo_auth_env) (se_signer demo_sessions) [demo_issuance] (fst (accessCredential (demo_auth_request [])))"
    by (simp add: demo_credential demo_auth_env_def demo_sessions_def)
      (subst demo_token_shape, rule issued_is_unforged, simp)
  ultimately show ?thesis using m middleware_admits_only_current_sessions [OF m, of "[demo_issuance]"] by auto
qed

lemma demo_names: "\<forall>u\<in>set (us_rows (as_store demo_state)). u_Username u \<noteq> [] \<and> ascii (u_Username u)"
  by (simp add: demo_state_def demo_store_def demo_reset_admin_def demo_admin_def)

lemma demo_allow: "fst (Allow NewLoginLimiter ''admin'' ''10.0.0.7'' 0) = (0, True)"
  by code_simp

lemma demo_issue: "\<exists>access cookies. issueSession demo_auth_env demo_sessions demo_io r n v = Some (access, cookies)"
  by (simp add: issueSession_def Issue_def Let_def demo_io_def)

lemma demo_codec_env: "codec_ok (ae_codec demo_auth_env)"
  by (simp add: demo_auth_env_def demo_codec_ok)

theorem login_opens_a_session_witness:
  "\<exists>rep st' access refresh. login sqlite_users demo_auth_env demo_sessions demo_io demo_state (demo_auth_request ''g'') = (rep, st')
     \<and> rp_Status rep = StatusOK \<and> ay_Cookies rep = [access, refresh] \<and> ck_Name access = AccessCookie"
proof -
  obtain l where l: "Allow (as_limiter demo_state) ''admin'' ''10.0.0.7'' 0 = ((0, True), l)"
    using demo_allow by (metis demo_state_def auth_state.select_convs(2) prod.collapse)
  obtain a ck where i: "issueSession demo_auth_env demo_sessions demo_io (demo_auth_request ''g'') (u_Username demo_reset_admin)
      (u_TokenVersion demo_reset_admin) = Some (a, ck)" using demo_issue by metis
  have d: "ae_DecodeLogin demo_auth_env (take maxLoginBody (ar_Body (demo_auth_request ''g''))) = Some (''admin'', ''g'')"
    by (simp add: demo_auth_env_def demo_auth_request_def maxLoginBody_def)
  have k: "ae_CheckPassword demo_auth_env (u_PasswordHash demo_reset_admin) ''g'' \<and> \<not> u_Disabled demo_reset_admin"
    by (simp add: demo_auth_env_def demo_reset_admin_def demo_admin_def)
  have s: "as_store demo_state = demo_store" by (simp add: demo_state_def)
  have g: "uo_Get sqlite_users demo_store ''admin'' = Inr demo_reset_admin" using demo_Get by (simp add: sqlite_users_def)
  have c: "se_clientIP demo_sessions (demo_auth_request ''g'') = ''10.0.0.7''" "io_Allow demo_io = 0"
    by (simp_all add: demo_sessions_def demo_io_def)
  obtain rep st' where e: "login sqlite_users demo_auth_env demo_sessions demo_io demo_state (demo_auth_request ''g'') = (rep, st')"
    by (metis surj_pair)
  then have st: "rp_Status rep = StatusOK"
    using l i k g unfolding login_def s d c Let_def by (auto simp: demo_unlocked demo_origin auth_writeJSON_def)
  from login_opens_a_session [OF e st demo_codec_env demo_names] e st show ?thesis by blast
qed

text \<open>The administrator moves to a longer password; the token in hand is refused afterwards.\<close>

definition demo_new_password :: string where
  "demo_new_password = ''correct-horse''"

definition demo_store2 :: user_store where
  "demo_store2 = demo_store\<lparr>us_rows := [demo_reset_admin\<lparr>u_PasswordHash := demo_new_password, u_TokenVersion := 1002\<rparr>]\<rparr>"

lemma demo_set: "SetPassword demo_store ''admin'' demo_new_password False = (None, demo_store2)"
  by code_simp

theorem password_change_revokes_and_renews_witness:
  "\<exists>rep st'. changePassword sqlite_users demo_auth_env demo_sessions demo_io demo_state (demo_auth_request demo_new_password) = (rep, st')
     \<and> rp_Status rep = StatusOK \<and> userForToken sqlite_users demo_auth_env demo_sessions (as_store st') 0 demo_token TypeAccess = None"
proof -
  let ?r = "demo_auth_request demo_new_password"
  obtain l where l: "Allow (as_limiter demo_state) ''admin'' ''10.0.0.7'' 0 = ((0, True), l)"
    using demo_allow by (metis demo_state_def auth_state.select_convs(2) prod.collapse)
  have s: "as_store demo_state = demo_store" by (simp add: demo_state_def)
  have au: "authenticate sqlite_users demo_auth_env demo_sessions demo_store (io_Verify demo_io) ?r = (False, Some demo_reset_admin)"
    by (simp add: authenticate_def demo_credential demo_io_def demo_user)
  have d: "ae_DecodePassword demo_auth_env (take maxLoginBody (ar_Body ?r)) = Some (''g'', demo_new_password)"
    by (simp add: demo_auth_env_def demo_auth_request_def maxLoginBody_def demo_new_password_def)
  have n: "u_Username demo_reset_admin = ''admin''" by (simp add: demo_reset_admin_def demo_admin_def)
  have k: "ae_CheckPassword demo_auth_env (u_PasswordHash demo_reset_admin) ''g''"
    by (simp add: demo_auth_env_def demo_reset_admin_def)
  have hp: "ae_HashPassword demo_auth_env x = Some x" for x by (simp add: demo_auth_env_def)
  have v: "ValidatePassword (ae_RuneCount demo_auth_env) ''admin'' demo_new_password = None \<and> demo_new_password \<noteq> ''g''"
    unfolding demo_auth_env_def by code_simp
  have c: "se_clientIP demo_sessions ?r = ''10.0.0.7''" "io_Allow demo_io = 0"
    by (simp_all add: demo_sessions_def demo_io_def)
  have g: "Users_Get demo_store2 ''admin'' = Inr (demo_reset_admin\<lparr>u_PasswordHash := demo_new_password, u_TokenVersion := 1002\<rparr>)"
    by code_simp
  obtain rep st' where e: "changePassword sqlite_users demo_auth_env demo_sessions demo_io demo_state ?r = (rep, st')"
    by (metis surj_pair)
  have rp: "rp_Status (fst (replacePassword sqlite_users demo_auth_env demo_sessions demo_io (demo_state\<lparr>as_limiter := x\<rparr>) ?r
      demo_reset_admin demo_new_password)) = StatusOK" for x
  proof -
    obtain a ck where "issueSession demo_auth_env demo_sessions demo_io ?r ''admin'' 1002 = Some (a, ck)" using demo_issue by metis
    then show ?thesis using demo_set g
      by (simp add: replacePassword_def hp n s sqlite_users_def auth_writeJSON_def)
  qed
  have st: "rp_Status rep = StatusOK"
    using e l k v rp [of "Success l ''admin'' ''10.0.0.7''"] unfolding changePassword_def s au snd_conv d c Let_def
    by (auto simp: demo_unlocked demo_origin n)
  from password_change_revokes_and_renews [OF e st demo_codec_env demo_names] demo_user
  have "userForToken sqlite_users demo_auth_env demo_sessions (as_store st') 0 demo_token TypeAccess = None"
    unfolding s au by auto
  with e st show ?thesis by blast
qed

text \<open>An operator is disabled and enabled again: the row is as before but for its version, and the token of before stays refused.\<close>

definition demo_op :: user where
  "demo_op = demo_reset_admin\<lparr>u_Username := ''op'', u_Role := RoleOperator, u_TokenVersion := 1001\<rparr>"

definition demo_op_store :: "user \<Rightarrow> user_store" where
  "demo_op_store u = demo_started\<lparr>us_rows := [demo_reset_admin, u]\<rparr>"

definition demo_op_token :: string where
  "demo_op_token = the (Issue demo_codec demo_signer (Some ''a'') 0 ''op'' 1001 TypeAccess (15 * Second))"

lemma demo_op_user:
  "userForToken sqlite_users demo_auth_env demo_sessions (demo_op_store demo_op) 0 demo_op_token TypeAccess = Some demo_op"
proof -
  have i: "Issue demo_codec demo_signer (Some ''a'') 0 ''op'' 1001 TypeAccess (15 * Second) = Some demo_op_token"
    by (simp add: demo_op_token_def Issue_def Let_def)
  have a: "ascii TypeAccess" by (simp add: TypeAccess_def)
  have g: "Users_Get (demo_op_store demo_op) ''op'' = Inr demo_op" by code_simp
  have "Verify (ae_codec demo_auth_env) (se_signer demo_sessions) 0 demo_op_token TypeAccess = Inr (issued_claims ''a'' 0 ''op'' 1001 TypeAccess (15 * Second))"
    using issued_token_reads_back [OF demo_codec_ok i _ _ a, of 0 TypeAccess]
    by (simp add: demo_auth_env_def demo_sessions_def time_unix_def time_add_def Second_def)
  then show ?thesis
    using g by (simp add: userForToken_Some sqlite_users_def issued_claims_def demo_op_def demo_reset_admin_def demo_admin_def)
qed

theorem credential_change_ends_sessions_witness:
  "let off = demo_op\<lparr>u_Disabled := True, u_TokenVersion := 1002\<rparr>; on = demo_op\<lparr>u_TokenVersion := 1003\<rparr>
   in SetDisabled (demo_op_store demo_op) ''op'' True = (None, demo_op_store off) \<and> SetDisabled (demo_op_store off) ''op'' False = (None, demo_op_store on)
      \<and> userForToken sqlite_users demo_auth_env demo_sessions (demo_op_store demo_op) 0 demo_op_token TypeAccess = Some demo_op
      \<and> userForToken sqlite_users demo_auth_env demo_sessions (demo_op_store on) 0 demo_op_token TypeAccess = None"
proof -
  let ?off = "demo_op\<lparr>u_Disabled := True, u_TokenVersion := 1002\<rparr>" and ?on = "demo_op\<lparr>u_TokenVersion := 1003\<rparr>"
  have off: "SetDisabled (demo_op_store demo_op) ''op'' True = (None, demo_op_store ?off)" by code_simp
  have on: "SetDisabled (demo_op_store ?off) ''op'' False = (None, demo_op_store ?on)" by code_simp
  have n: "u_Username demo_op = ''op''" by code_simp
  have "find_user ''op'' (us_rows (demo_op_store demo_op)) = Some demo_op" "\<not> u_Disabled demo_op" by code_simp+
  then have c: "credential_change 1002 (u_Username demo_op) (demo_op_store demo_op) (demo_op_store ?off)"
    unfolding n using off by (intro credential_change.disabled [where u = demo_op and d = True]) simp_all
  have r: "user_reach 1002 (demo_op_store ?off) 1003 (demo_op_store ?on)"
    using user_step.disabled [OF on] by (intro user_reach.step [OF user_reach.start]) simp_all
  have v: "versions_by 1001 (demo_op_store demo_op)"
    by (auto simp: versions_by_def demo_op_store_def demo_op_def demo_reset_admin_def demo_admin_def dest!: find_user_Some)
  from credential_change_ends_sessions [OF demo_op_user user_reach.start [of 1001] _ c r v] off on demo_op_user show ?thesis
    by (simp add: min_int64_def max_int64_def Let_def)
qed

end
