(* ===== verification/Console_Users.thy ===== *)
theory Console_Users
  imports Sessions_Correct
begin

text \<open>
  The user management API of the console, \<^verbatim>\<open>internal/console/users.go\<close>, on the store of
  theory \<open>Users\<close>. A request body arrives decoded: the JSON decoder is the caller's. The
  actor is the name the session middleware put into the request's context, empty when there
  is none.
\<close>

section \<open>Bodies, replies, errors\<close>

datatype 'a body = BodyTooLarge | BodyInvalid string | BodyOk 'a

definition console_writeJSON :: "int \<Rightarrow> json \<Rightarrow> reply" where
  "console_writeJSON status v =
     \<lparr>rp_Status = status, rp_Header = hdr_Set no_header ''Content-Type'' ''application/json'', rp_Body = Json v\<rparr>"

definition console_noContent :: reply where
  "console_noContent = \<lparr>rp_Status = 204, rp_Header = no_header, rp_Body = NoBody\<rparr>"

definition toUserJSON :: "user \<Rightarrow> json" where
  "toUserJSON u = JObject
     [(''username'', JString (u_Username u)), (''role'', JString (u_Role u)), (''disabled'', JBool (u_Disabled u)),
      (''must_change_password'', JBool (u_MustChangePassword u)), (''created_at'', JTime (u_CreatedAt u)),
      (''last_login_at'', case u_LastLoginAt u of None \<Rightarrow> JNull | Some t \<Rightarrow> JTime t)]"

definition error_field :: "string \<Rightarrow> string \<Rightarrow> string \<Rightarrow> json" where
  "error_field code field msg =
     JObject [(''error'', JString code), (''field'', JString field), (''message'', JString msg)]"

definition error_only :: "string \<Rightarrow> json" where
  "error_only code = JObject [(''error'', JString code)]"

definition invalidUser :: "string \<Rightarrow> string \<Rightarrow> reply" where
  "invalidUser field msg = console_writeJSON StatusBadRequest (error_field ''invalid_user'' field msg)"

definition decodeUserBody :: "'a body \<Rightarrow> reply + 'a" where
  "decodeUserBody b =
     (case b of
        BodyTooLarge \<Rightarrow> Inl (console_writeJSON 413 (error_field ''invalid_user'' ''body'' ''request body too large''))
      | BodyInvalid msg \<Rightarrow> Inl (invalidUser ''body'' msg)
      | BodyOk v \<Rightarrow> Inr v)"

definition users_unavailable :: reply where
  "users_unavailable = console_writeJSON StatusServiceUnavailable (error_only ''users_unavailable'')"

definition writeUserError :: "user_error \<Rightarrow> reply" where
  "writeUserError err =
     (case err of
        UserInvalid field msg \<Rightarrow> invalidUser field msg
      | ErrExists \<Rightarrow> console_writeJSON 409 (error_only ''user_exists'')
      | ErrNotFound \<Rightarrow> console_writeJSON StatusNotFound (error_only ''user_not_found'')
      | ErrLastAdmin \<Rightarrow> console_writeJSON 409 (error_only ''last_admin'')
      | UserStoreFailed \<Rightarrow> console_writeJSON StatusInternalServerError (error_only ''users_failed''))"

definition self_conflict :: reply where
  "self_conflict = console_writeJSON 409 (error_only ''self'')"

definition isSelf :: "string \<Rightarrow> string \<Rightarrow> bool" where
  "isSelf actor target \<longleftrightarrow> actor \<noteq> [] \<and> equal_fold actor target"

section \<open>Handlers\<close>

record user_env =
  ue_HashPassword :: "string \<Rightarrow> string option"
  ue_RuneCount :: "string \<Rightarrow> nat"

definition show_user :: "user_store \<Rightarrow> string \<Rightarrow> int \<Rightarrow> reply" where
  "show_user s name status =
     (case Users_Get s name of Inl e \<Rightarrow> writeUserError e | Inr u \<Rightarrow> console_writeJSON status (toUserJSON u))"

definition listUsers :: "user_store \<Rightarrow> reply" where
  "listUsers s = (case Users_List s of Inl e \<Rightarrow> writeUserError e | Inr us \<Rightarrow> console_writeJSON StatusOK (JArray (map toUserJSON us)))"

definition createUser :: "user_env \<Rightarrow> gotime \<Rightarrow> user_store \<Rightarrow> (string \<times> string \<times> string) body \<Rightarrow> reply \<times> user_store" where
  "createUser ue now s b =
     (case decodeUserBody b of
        Inl rp \<Rightarrow> (rp, s)
      | Inr (username, role, password) \<Rightarrow>
          (case ValidateUsername username of
             Some e \<Rightarrow> (writeUserError e, s)
           | None \<Rightarrow>
               if \<not> Role_Valid role then (invalidUser ''role'' ''must be admin or operator'', s)
               else case ValidatePassword (ue_RuneCount ue) username password of
                 Some e \<Rightarrow> (writeUserError e, s)
               | None \<Rightarrow>
                   (case ue_HashPassword ue password of
                      None \<Rightarrow> (writeUserError UserStoreFailed, s)
                    | Some hash \<Rightarrow>
                        (case Users_Create s \<lparr>u_Username = username, u_PasswordHash = hash, u_Role = role, u_Disabled = False,
                                u_MustChangePassword = True, u_TokenVersion = 0, u_CreatedAt = zero_time, u_LastLoginAt = None\<rparr> now of
                           (Some e, s1) \<Rightarrow> (writeUserError e, s1)
                         | (None, s1) \<Rightarrow> (show_user s1 username 201, s1)))))"

definition patch_role :: "user_store \<Rightarrow> user \<Rightarrow> string option \<Rightarrow> user_error option \<times> user_store" where
  "patch_role s cur role =
     (case role of
        Some r \<Rightarrow> if u_Role cur \<noteq> r then SetRole s (u_Username cur) r else (None, s)
      | None \<Rightarrow> (None, s))"

definition patch_disabled :: "user_store \<Rightarrow> user \<Rightarrow> bool option \<Rightarrow> user_error option \<times> user_store" where
  "patch_disabled s cur disabled =
     (case disabled of
        Some d \<Rightarrow> if u_Disabled cur \<noteq> d then SetDisabled s (u_Username cur) d else (None, s)
      | None \<Rightarrow> (None, s))"

definition patchUser :: "string \<Rightarrow> user_store \<Rightarrow> string \<Rightarrow> (string option \<times> bool option) body \<Rightarrow> reply \<times> user_store" where
  "patchUser actor s name b =
     (case decodeUserBody b of
        Inl rp \<Rightarrow> (rp, s)
      | Inr (role, disabled) \<Rightarrow>
          if role = None \<and> disabled = None then (invalidUser ''body'' ''role or disabled is required'', s)
          else if (case role of None \<Rightarrow> False | Some r \<Rightarrow> \<not> Role_Valid r)
          then (invalidUser ''role'' ''must be admin or operator'', s)
          else case Users_Get s name of
            Inl e \<Rightarrow> (writeUserError e, s)
          | Inr cur \<Rightarrow>
              (let demote = (case role of None \<Rightarrow> False | Some r \<Rightarrow> u_Role cur \<noteq> r \<and> r = RoleOperator);
                   disable = (disabled = Some True)
               in if isSelf actor (u_Username cur) \<and> (demote \<or> disable) then (self_conflict, s)
                  else case patch_role s cur role of
                    (Some e, s1) \<Rightarrow> (writeUserError e, s1)
                  | (None, s1) \<Rightarrow>
                      (case patch_disabled s1 cur disabled of
                         (Some e, s2) \<Rightarrow> (writeUserError e, s2)
                       | (None, s2) \<Rightarrow> (show_user s2 (u_Username cur) StatusOK, s2))))"

definition resetUserPassword :: "user_env \<Rightarrow> user_store \<Rightarrow> string \<Rightarrow> string body \<Rightarrow> reply \<times> user_store" where
  "resetUserPassword ue s name b =
     (case decodeUserBody b of
        Inl rp \<Rightarrow> (rp, s)
      | Inr password \<Rightarrow>
          (case Users_Get s name of
             Inl e \<Rightarrow> (writeUserError e, s)
           | Inr cur \<Rightarrow>
               (case ValidatePassword (ue_RuneCount ue) (u_Username cur) password of
                  Some e \<Rightarrow> (writeUserError e, s)
                | None \<Rightarrow>
                    (case ue_HashPassword ue password of
                       None \<Rightarrow> (writeUserError UserStoreFailed, s)
                     | Some hash \<Rightarrow>
                         (case SetPassword s (u_Username cur) hash True of
                            (Some e, s1) \<Rightarrow> (writeUserError e, s1)
                          | (None, s1) \<Rightarrow> (console_noContent, s1))))))"

definition deleteUser :: "string \<Rightarrow> user_store \<Rightarrow> string \<Rightarrow> reply \<times> user_store" where
  "deleteUser actor s name =
     (if isSelf actor name then (self_conflict, s)
      else case Users_Get s name of
        Inl e \<Rightarrow> (writeUserError e, s)
      | Inr cur \<Rightarrow>
          (case Users_Delete s (u_Username cur) of
             (Some e, s1) \<Rightarrow> (writeUserError e, s1)
           | (None, s1) \<Rightarrow> (console_noContent, s1)))"

text \<open>The five routes; without a store each answers 503.\<close>

datatype users_request =
    ListUsers
  | CreateUser "(string \<times> string \<times> string) body"
  | PatchUser string "(string option \<times> bool option) body"
  | ResetUserPassword string "string body"
  | DeleteUser string

fun users_api :: "user_env \<Rightarrow> string \<Rightarrow> gotime \<Rightarrow> user_store \<Rightarrow> users_request \<Rightarrow> reply \<times> user_store" where
  "users_api ue actor now s ListUsers = (listUsers s, s)"
| "users_api ue actor now s (CreateUser b) = createUser ue now s b"
| "users_api ue actor now s (PatchUser name b) = patchUser actor s name b"
| "users_api ue actor now s (ResetUserPassword name b) = resetUserPassword ue s name b"
| "users_api ue actor now s (DeleteUser name) = deleteUser actor s name"

definition userStore :: "user_store option \<Rightarrow> (user_store \<Rightarrow> reply \<times> user_store) \<Rightarrow> reply \<times> user_store option" where
  "userStore st h = (case st of None \<Rightarrow> (users_unavailable, None) | Some s \<Rightarrow> (case h s of (rp, s') \<Rightarrow> (rp, Some s')))"

section \<open>The account table under the API\<close>

lemma patch_role_step: "patch_role s cur role = (err, s') \<Longrightarrow> user_step now s s'"
  by (cases role) (auto simp: patch_role_def intro: user_step.role user_step.database split: if_splits)

lemma patch_disabled_step: "patch_disabled s cur disabled = (err, s') \<Longrightarrow> user_step now s s'"
  by (cases disabled) (auto simp: patch_disabled_def intro: user_step.disabled user_step.database split: if_splits)

text \<open>What a request does to the table: nothing, one operation, or two in a row.\<close>

lemma createUser_step: "createUser ue now s b = (rp, s') \<Longrightarrow> user_step now s s'"
  by (auto simp: createUser_def intro: user_step.create user_step.database split: sum.splits option.splits if_splits prod.splits)

lemma patchUser_steps:
  assumes "patchUser actor s name b = (rp, s')"
  shows "\<exists>s1. user_step now s s1 \<and> user_step now s1 s'"
proof -
  have refl: "user_step now x x" for x by (rule user_step.database) simp
  show ?thesis using assms
    by (auto simp: patchUser_def Let_def intro: refl dest!: patch_role_step [where now = now] patch_disabled_step [where now = now]
        split: sum.splits option.splits if_splits prod.splits)
qed

lemma resetUserPassword_step: "resetUserPassword ue s name b = (rp, s') \<Longrightarrow> user_step now s s'"
  by (auto simp: resetUserPassword_def intro: user_step.password user_step.database split: sum.splits option.splits prod.splits)

lemma deleteUser_step: "deleteUser actor s name = (rp, s') \<Longrightarrow> user_step now s s'"
  by (auto simp: deleteUser_def intro: user_step.delete user_step.database split: sum.splits option.splits prod.splits if_splits)

lemma users_api_inv:
  assumes "users_inv s" "users_api ue actor now s q = (rp, s')"
  shows "users_inv s'"
proof (cases q)
  case (PatchUser name b)
  with assms patchUser_steps [of actor s name b rp s' now] show ?thesis by (auto intro: user_step_inv)
qed (use assms in \<open>auto intro: user_step_inv createUser_step resetUserPassword_step deleteUser_step\<close>)

section \<open>The caller's own account\<close>

lemma fold_case_ascii: "ascii s \<Longrightarrow> fold_case s = nocase s"
  by (induction s rule: fold_case.induct) (auto simp: nocase_def)

lemma ascii_nocase: "ascii (nocase s) \<longleftrightarrow> ascii s"
  by (induction s) (auto simp: nocase_def of_char_lower_byte is_upper_def)

lemma isSelf_nocase: "ascii actor \<Longrightarrow> actor \<noteq> [] \<Longrightarrow> nocase name = nocase actor \<Longrightarrow> isSelf actor name"
  using ascii_nocase [of name] ascii_nocase [of actor] by (simp add: isSelf_def equal_fold_def fold_case_ascii)

lemma mutate_other_row:
  assumes "mutate s name fn = (err, s')" "nocase n \<noteq> nocase name"
    and "\<And>cur f. fn s cur = Inr (UpdateRow f) \<Longrightarrow> keeps_name f"
  shows "find_user n (us_rows s') = find_user n (us_rows s)"
  using assms(1)
proof (cases rule: mutate_cases)
  case (changed cur ch)
  have ne: "nocase n \<noteq> nocase (u_Username cur)" using find_user_Some [OF changed(2)] assms(2) by simp
  show ?thesis
  proof (cases ch)
    case (UpdateRow f)
    with assms(3) changed ne show ?thesis by (simp add: find_user_update)
  qed (use changed ne in \<open>simp_all add: find_user_delete\<close>)
qed simp_all

lemma SetRole_other: "SetRole s name r = (err, s') \<Longrightarrow> nocase n \<noteq> nocase name \<Longrightarrow> find_user n (us_rows s') = find_user n (us_rows s)"
  by (auto simp: SetRole_def keeps_name_def elim!: mutate_other_row split: if_splits option.splits)

lemma SetDisabled_other:
  "SetDisabled s name d = (err, s') \<Longrightarrow> nocase n \<noteq> nocase name \<Longrightarrow> find_user n (us_rows s') = find_user n (us_rows s)"
  by (auto simp: SetDisabled_def keeps_name_def elim!: mutate_other_row split: if_splits option.splits)

lemma Users_Delete_other:
  "Users_Delete s name = (err, s') \<Longrightarrow> nocase n \<noteq> nocase name \<Longrightarrow> find_user n (us_rows s') = find_user n (us_rows s)"
  by (auto simp: Users_Delete_def elim!: mutate_other_row split: option.splits)

lemma SetPassword_enabled_admin:
  assumes "SetPassword s name h m = (err, s')" "find_user n (us_rows s) = Some a"
  shows "\<exists>a'. find_user n (us_rows s') = Some a' \<and> u_Role a' = u_Role a \<and> u_Disabled a' = u_Disabled a"
  using assms(1) [unfolded SetPassword_def]
proof (cases rule: mutate_cases)
  case (changed cur ch)
  then show ?thesis using assms(2)
    by (auto simp: find_user_update keeps_name_def)
qed (use assms(2) in simp_all)

lemma create_keeps_row:
  assumes "Users_Create s u now = (err, s')" "find_user n (us_rows s) = Some a"
  shows "find_user n (us_rows s') = Some a"
  using assms by (auto simp: Users_Create_def insert_user_def find_user_append split: option.splits if_splits)

text \<open>A patch that gets past its checks edits the role and then the disabled flag of one row.\<close>

lemma patchUser_cases [consumes 1, case_names same edited]:
  assumes "patchUser actor s name b = (rp, s')"
  obtains "s' = s"
    | role disabled cur e1 s1 e2 where "Users_Get s name = Inr cur"
      "case role of None \<Rightarrow> True | Some r \<Rightarrow> Role_Valid r"
      "\<not> (isSelf actor (u_Username cur) \<and> ((\<exists>r. role = Some r \<and> u_Role cur \<noteq> r \<and> r = RoleOperator) \<or> disabled = Some True))"
      "patch_role s cur role = (e1, s1)" "s' = s1 \<or> patch_disabled s1 cur disabled = (e2, s')"
proof (cases "s' = s")
  case False
  with assms obtain role disabled where "decodeUserBody b = Inr (role, disabled)"
    by (auto simp: patchUser_def split: sum.splits)
  moreover from this assms False obtain cur where "Users_Get s name = Inr cur"
    by (auto simp: patchUser_def split: sum.splits if_splits)
  moreover obtain e1 s1 where "patch_role s cur role = (e1, s1)" by (meson surj_pair)
  moreover obtain e2 s2 where "patch_disabled s1 cur disabled = (e2, s2)" by (meson surj_pair)
  ultimately show thesis
    using assms False that(2) [of cur role disabled e1 s1 e2]
    by (auto simp: patchUser_def Let_def split: option.splits if_splits)
qed (rule that(1))

text \<open>A patch of the caller's own account changes nothing that would take the console away.\<close>

lemma patch_self:
  assumes "patchUser actor s name b = (rp, s')" "find_user actor (us_rows s) = Some a" "enabled_admin a"
    and "ascii actor" "actor \<noteq> []" "names_unique (us_rows s)"
  shows "find_user actor (us_rows s') = Some a"
  using assms(1)
proof (cases rule: patchUser_cases)
  case same
  with assms(2) show ?thesis by simp
next
  case (edited role disabled cur e1 s1 e2)
  note 2 = edited
  have cur: "find_user name (us_rows s) = Some cur" using 2(1) by (simp add: find_user_readable)
  show ?thesis
  proof (cases "nocase (u_Username cur) = nocase actor")
    case True
    then have "cur = a" using find_user_Some [OF cur] assms(2) find_user_cong [of name actor "us_rows s"] cur by simp
    moreover have "isSelf actor (u_Username cur)" using isSelf_nocase [OF assms(4,5)] True by simp
    ultimately have "s1 = s" "s' = s1"
      using 2 assms(3) by (auto simp: patch_role_def patch_disabled_def enabled_admin_def Role_Valid_def split: option.splits if_splits)
    with assms(2) show ?thesis by simp
  next
    case False
    have "find_user actor (us_rows s1) = find_user actor (us_rows s)"
      using 2(4) False SetRole_other [of s "u_Username cur" _ e1 s1 actor] by (auto simp: patch_role_def split: option.splits if_splits)
    moreover have "s' = s1 \<or> find_user actor (us_rows s') = find_user actor (us_rows s1)"
      using 2(5) False SetDisabled_other [of s1 "u_Username cur" _ e2 s' actor] by (auto simp: patch_disabled_def split: option.splits if_splits)
    ultimately show ?thesis using assms(2) by auto
  qed
qed

text \<open>
  User management never takes the console away: whatever request an enabled administrator
  makes, they are an enabled administrator afterwards, and the table still has unique names
  and known roles.
\<close>

theorem user_management_keeps_the_caller:
  assumes "users_api ue actor now s q = (rp, s')" "users_inv s"
    and "find_user actor (us_rows s) = Some a" "enabled_admin a" "ascii actor" "actor \<noteq> []"
  shows "users_inv s' \<and> (\<exists>a'. find_user actor (us_rows s') = Some a' \<and> enabled_admin a')"
proof -
  have u: "names_unique (us_rows s)" using assms(2) by (simp add: users_inv_def)
  have "\<exists>a'. find_user actor (us_rows s') = Some a' \<and> enabled_admin a'"
  proof (cases q)
    case (CreateUser b)
    with assms(1,3,4) create_keeps_row show ?thesis
      by (auto simp: createUser_def split: sum.splits option.splits if_splits prod.splits)
  next
    case (PatchUser name b)
    with assms patch_self [of actor s name b rp s' a] u show ?thesis by auto
  next
    case (ResetUserPassword name b)
    with assms(1) have "s' = s \<or> (\<exists>n h err. SetPassword s n h True = (err, s'))"
      by (auto simp: resetUserPassword_def split: sum.splits option.splits prod.splits)
    with assms(3,4) SetPassword_enabled_admin show ?thesis by (fastforce simp: enabled_admin_def)
  next
    case (DeleteUser name)
    then consider "s' = s" | cur err where "\<not> isSelf actor name" "Users_Get s name = Inr cur" "Users_Delete s (u_Username cur) = (err, s')"
      using assms(1) by (auto simp: deleteUser_def split: sum.splits option.splits prod.splits if_splits)
    then show ?thesis
    proof cases
      case 2
      have "nocase actor \<noteq> nocase (u_Username cur)"
        using 2(1,2) isSelf_nocase [OF assms(5,6), of name] find_user_Some [of name "us_rows s" cur] by (auto simp: find_user_readable)
      from Users_Delete_other [OF 2(3) this] assms(3,4) show ?thesis by simp
    qed (use assms(3,4) in simp)
  qed (use assms in simp)
  with users_api_inv [OF assms(2,1)] show ?thesis by blast
qed

definition demo_user_env :: user_env where
  "demo_user_env = \<lparr>ue_HashPassword = Some, ue_RuneCount = length\<rparr>"

lemma demo_get: "Users_Get demo_started ''ADMIN'' = Inr demo_admin"
  by code_simp

lemma demo_self: "isSelf ''admin'' ''admin''"
  by code_simp

text \<open>The last administrator asks for an operator's role, under another spelling of the name.\<close>

lemma demo_demote:
  "users_api demo_user_env ''admin'' 1002 demo_started (PatchUser ''ADMIN'' (BodyOk (Some ''operator'', None))) = (self_conflict, demo_started)"
  by (simp add: patchUser_def decodeUserBody_def demo_get demo_admin_def RoleOperator_def Role_Valid_def Let_def demo_self)

theorem user_management_keeps_the_caller_witness:
  "users_inv demo_started \<and> (\<exists>a'. find_user ''admin'' (us_rows demo_started) = Some a' \<and> enabled_admin a')"
  by (rule user_management_keeps_the_caller [OF demo_demote, where a = demo_admin])
    (code_simp | simp add: demo_started_def demo_admin_def users_inv_def names_unique_def)+

end
