(* ===== verification/Console_Registries.thy ===== *)
theory Console_Registries
  imports Console_Users Policy_Runtime
begin

text \<open>
  The registry screen of the console (\<^verbatim>\<open>internal/console/server.go\<close>), the adapter that keeps
  the registry set in the settings table and the overlay a boot makes from it
  (\<^verbatim>\<open>cmd/jo-ei/settings_adapters.go\<close>). A Go slice is an optional list: \<^term>\<open>None\<close> is the nil
  slice, which renders as null. \<open>url.Parse\<close> and the quoting of \<open>%q\<close> are arguments.
\<close>

section \<open>Registries\<close>

record registry_info =
  ri_Ecosystem :: string
  ri_Enabled :: bool
  ri_Upstreams :: "string list option"

definition knownEcos :: "string list" where
  "knownEcos = [''pypi'', ''npm'', ''maven'', ''rubygems'', ''go'', ''docker'']"

definition slice :: "'a list option \<Rightarrow> 'a list" where
  "slice x = (case x of None \<Rightarrow> [] | Some xs \<Rightarrow> xs)"

definition non_nil :: "registry_info \<Rightarrow> registry_info" where
  "non_nil r = r\<lparr>ri_Upstreams := Some (slice (ri_Upstreams r))\<rparr>"

section \<open>Credential masks\<close>

definition credentialMask :: string where "credentialMask = ''***''"

text \<open>The authority of what follows \<open>://\<close>: everything up to the first slash, question mark or hash.\<close>

definition authority :: "string \<Rightarrow> string" where
  "authority s = takeWhile (\<lambda>c. c \<notin> set ''/?#'') s"

definition mask_userinfo :: "string \<Rightarrow> string" where
  "mask_userinfo ui =
     (case cut CHR '':'' ui of (name, _, hasPassword) \<Rightarrow> if hasPassword then name @ '':'' @ credentialMask else credentialMask)"

definition maskUpstream :: "string \<Rightarrow> string" where
  "maskUpstream raw =
     (case str_index ''://'' raw of
        None \<Rightarrow> raw
      | Some i \<Rightarrow>
          (let start = i + 3 in
           case last_cut CHR ''@'' (authority (drop start raw)) of
             None \<Rightarrow> raw
           | Some (ui, _) \<Rightarrow> take start raw @ mask_userinfo ui @ drop (start + length ui) raw))"

definition maskUpstreams :: "string list \<Rightarrow> string list" where
  "maskUpstreams us = map maskUpstream us"

section \<open>Unmasking and validation\<close>

datatype registry_fault =
    UnknownEcosystem string
  | DuplicateEcosystem string
  | MustListAll
  | NeedsUpstream
  | NotHttpURL string
  | MaskMatchesNothing string

record console_env =
  ce_Quote :: "string \<Rightarrow> string"
  ce_url_Parse :: "string \<Rightarrow> parsed_origin option"

definition fault_message :: "console_env \<Rightarrow> registry_fault \<Rightarrow> string" where
  "fault_message ce f =
     (case f of
        UnknownEcosystem e \<Rightarrow> ''unknown ecosystem '' @ ce_Quote ce e
      | DuplicateEcosystem e \<Rightarrow> ''duplicate ecosystem '' @ ce_Quote ce e
      | MustListAll \<Rightarrow> ''must list all '' @ FormatInt (int (length knownEcos)) @ '' ecosystems''
      | NeedsUpstream \<Rightarrow> ''an enabled registry needs at least one upstream''
      | NotHttpURL u \<Rightarrow> ''upstream '' @ ce_Quote ce u @ '' must be an http(s) URL''
      | MaskMatchesNothing u \<Rightarrow>
          ''upstream '' @ ce_Quote ce u @ '' has masked credentials that match no stored upstream; enter the full URL'')"

definition masked_to_stored :: "string list \<Rightarrow> string \<rightharpoonup> string" where
  "masked_to_stored us = fold (\<lambda>u m. m(maskUpstream u \<mapsto> u)) us (\<lambda>_. None)"

definition originals :: "registry_info list \<Rightarrow> string \<Rightarrow> string \<rightharpoonup> string" where
  "originals stored =
     fold (\<lambda>reg m. m(ri_Ecosystem reg := masked_to_stored (slice (ri_Upstreams reg)))) stored (\<lambda>_ _. None)"

text \<open>
  The input is rewritten in place: on a fault the upstreams before it are restored and the rest
  stays as it came. A fault in a registry whose ecosystem is the empty string goes unreported,
  since an empty field means success to the caller; validation rejects that registry afterwards.
\<close>

fun unmask_upstreams :: "(string \<rightharpoonup> string) \<Rightarrow> string list \<Rightarrow> registry_fault option \<times> string list" where
  "unmask_upstreams m [] = (None, [])"
| "unmask_upstreams m (u # us) =
     (case m u of
        Some orig \<Rightarrow> apsnd ((#) orig) (unmask_upstreams m us)
      | None \<Rightarrow>
          if contains_str u (credentialMask @ ''@'') then (Some (MaskMatchesNothing u), u # us)
          else apsnd ((#) u) (unmask_upstreams m us))"

definition unmask_registry :: "(string \<Rightarrow> string \<rightharpoonup> string) \<Rightarrow> registry_info \<Rightarrow> registry_fault option \<times> registry_info" where
  "unmask_registry m reg =
     (case ri_Upstreams reg of
        None \<Rightarrow> (None, reg)
      | Some us \<Rightarrow> apsnd (\<lambda>us'. reg\<lparr>ri_Upstreams := Some us'\<rparr>) (unmask_upstreams (m (ri_Ecosystem reg)) us))"

fun unmask_all ::
  "(string \<Rightarrow> string \<rightharpoonup> string) \<Rightarrow> registry_info list \<Rightarrow> (string \<times> registry_fault) option \<times> registry_info list" where
  "unmask_all m [] = (None, [])"
| "unmask_all m (reg # regs) =
     (case unmask_registry m reg of
        (Some f, reg') \<Rightarrow> (Some (ri_Ecosystem reg, f), reg' # regs)
      | (None, reg') \<Rightarrow> apsnd ((#) reg') (unmask_all m regs))"

definition unmaskRegistries ::
  "registry_info list \<Rightarrow> registry_info list \<Rightarrow> (string \<times> registry_fault) option \<times> registry_info list" where
  "unmaskRegistries inp stored = unmask_all (originals stored) inp"

definition reported :: "(string \<times> registry_fault) option \<Rightarrow> (string \<times> registry_fault) option" where
  "reported e = (case e of Some (field, f) \<Rightarrow> if field \<noteq> [] then Some (field, f) else None | None \<Rightarrow> None)"

fun check_ecosystems :: "string list \<Rightarrow> registry_info list \<Rightarrow> registry_fault + string list" where
  "check_ecosystems seen [] = Inr seen"
| "check_ecosystems seen (r # rs) =
     (if ri_Ecosystem r \<notin> set knownEcos then Inl (UnknownEcosystem (ri_Ecosystem r))
      else if ri_Ecosystem r \<in> set seen then Inl (DuplicateEcosystem (ri_Ecosystem r))
      else check_ecosystems (ri_Ecosystem r # seen) rs)"

definition http_url :: "console_env \<Rightarrow> string \<Rightarrow> bool" where
  "http_url ce u \<longleftrightarrow>
     u \<noteq> [] \<and> (case ce_url_Parse ce u of None \<Rightarrow> False | Some p \<Rightarrow> po_Scheme p \<in> {''http'', ''https''} \<and> po_Host p \<noteq> [])"

definition check_registry :: "console_env \<Rightarrow> registry_info \<Rightarrow> registry_fault option" where
  "check_registry ce r =
     (if \<not> ri_Enabled r then None
      else if slice (ri_Upstreams r) = [] then Some NeedsUpstream
      else map_option NotHttpURL (find (\<lambda>u. \<not> http_url ce u) (slice (ri_Upstreams r))))"

fun check_registries :: "console_env \<Rightarrow> registry_info list \<Rightarrow> (string \<times> registry_fault) option" where
  "check_registries ce [] = None"
| "check_registries ce (r # rs) =
     (case check_registry ce r of Some f \<Rightarrow> Some (ri_Ecosystem r, f) | None \<Rightarrow> check_registries ce rs)"

definition validateRegistries :: "console_env \<Rightarrow> registry_info list \<Rightarrow> (string \<times> registry_fault) option" where
  "validateRegistries ce inp =
     (case check_ecosystems [] inp of
        Inl f \<Rightarrow> Some (''registries'', f)
      | Inr seen \<Rightarrow> if length seen \<noteq> length knownEcos then Some (''registries'', MustListAll) else check_registries ce inp)"

section \<open>Comparison, warnings\<close>

definition by_ecosystem :: "registry_info list \<Rightarrow> string \<rightharpoonup> registry_info" where
  "by_ecosystem l = fold (\<lambda>r m. m(ri_Ecosystem r \<mapsto> r)) l (\<lambda>_. None)"

definition same_registry :: "registry_info \<Rightarrow> registry_info \<Rightarrow> bool" where
  "same_registry ra rb \<longleftrightarrow> ri_Enabled ra = ri_Enabled rb \<and> slice (ri_Upstreams ra) = slice (ri_Upstreams rb)"

definition registriesEqual :: "registry_info list \<Rightarrow> registry_info list \<Rightarrow> bool" where
  "registriesEqual a b \<longleftrightarrow>
     length a = length b \<and>
     list_all (\<lambda>eco. case (by_ecosystem a eco, by_ecosystem b eco) of
         (Some ra, Some rb) \<Rightarrow> same_registry ra rb
       | _ \<Rightarrow> False) (map ri_Ecosystem a)"

definition docker_warning :: string where
  "docker_warning = ''docker is enabled but image_scan is not configured in config.yaml; /v2/ will not serve after restart''"

definition registryWarnings :: "registry_info list \<Rightarrow> bool \<Rightarrow> string list" where
  "registryWarnings regs imageScan =
     map (\<lambda>_. docker_warning) (filter (\<lambda>r. ri_Ecosystem r = ''docker'' \<and> ri_Enabled r \<and> \<not> imageScan) regs)"

section \<open>The settings table\<close>

fun to_row :: "registry_info \<Rightarrow> string \<times> bool \<times> string list option" where
  "to_row r = (ri_Ecosystem r, ri_Enabled r, ri_Upstreams r)"

fun of_row :: "string \<times> bool \<times> string list option \<Rightarrow> registry_info" where
  "of_row (eco, on, us) = \<lparr>ri_Ecosystem = eco, ri_Enabled = on, ri_Upstreams = us\<rparr>"

definition registry_row :: "registry_info list \<Rightarrow> json_row" where
  "registry_row regs = RegistriesRow (map to_row regs)"

definition LoadRegistries :: "settings_store \<Rightarrow> store_error + registry_info list option" where
  "LoadRegistries s =
     (case settings_Get s ''registries'' of
        Inl e \<Rightarrow> Inl e
      | Inr None \<Rightarrow> Inr None
      | Inr (Some (RegistriesRow rows)) \<Rightarrow> Inr (Some (map of_row rows))
      | Inr (Some _) \<Rightarrow> Inl DecodeFailed)"

definition SaveRegistries :: "settings_store \<Rightarrow> registry_info list \<Rightarrow> store_error + settings_store" where
  "SaveRegistries s regs = settings_Put s ''registries'' (registry_row regs)"

section \<open>Handlers\<close>

record registry_config =
  gc_Registries :: "registry_info list"
  gc_Running :: "registry_info list option"
  gc_ImageScan :: bool

text \<open>\<open>NewHandler\<close> replaces nil upstream lists of the static set.\<close>

definition NewHandler_registries :: "registry_config \<Rightarrow> registry_config" where
  "NewHandler_registries cfg = cfg\<lparr>gc_Registries := map non_nil (gc_Registries cfg)\<rparr>"

definition registry_json :: "registry_info \<Rightarrow> json" where
  "registry_json r = JObject
     [(''eco'', JString (ri_Ecosystem r)), (''enabled'', JBool (ri_Enabled r)),
      (''upstreams'', case ri_Upstreams r of None \<Rightarrow> JNull | Some us \<Rightarrow> JArray (map JString us))]"

definition storedRegistries :: "registry_config \<Rightarrow> settings_store option \<Rightarrow> store_error + registry_info list" where
  "storedRegistries cfg st =
     (case st of
        None \<Rightarrow> Inr (gc_Registries cfg)
      | Some s \<Rightarrow>
          (case LoadRegistries s of Inl e \<Rightarrow> Inl e | Inr (Some regs) \<Rightarrow> Inr regs | Inr None \<Rightarrow> Inr (gc_Registries cfg)))"

definition mask_registry :: "registry_info \<Rightarrow> registry_info" where
  "mask_registry r = r\<lparr>ri_Upstreams := Some (maskUpstreams (slice (ri_Upstreams r)))\<rparr>"

definition pending_restart :: "registry_config \<Rightarrow> settings_store option \<Rightarrow> registry_info list \<Rightarrow> bool" where
  "pending_restart cfg st out \<longleftrightarrow>
     st \<noteq> None \<and> (case gc_Running cfg of None \<Rightarrow> False | Some running \<Rightarrow> \<not> registriesEqual out running)"

definition writeRegistries :: "registry_config \<Rightarrow> settings_store option \<Rightarrow> int \<Rightarrow> registry_info list \<Rightarrow> reply" where
  "writeRegistries cfg st status regs =
     (let out = map non_nil regs in
      console_writeJSON status (JObject
        [(''registries'', JArray (map (registry_json \<circ> mask_registry) out)),
         (''pending_restart'', JBool (pending_restart cfg st out)),
         (''warnings'', JArray (map JString (registryWarnings out (gc_ImageScan cfg))))]))"

definition registries_unavailable :: reply where
  "registries_unavailable = console_writeJSON StatusInternalServerError (error_only ''registries_unavailable'')"

definition registries :: "registry_config \<Rightarrow> settings_store option \<Rightarrow> reply" where
  "registries cfg st =
     (case storedRegistries cfg st of Inl _ \<Rightarrow> registries_unavailable | Inr regs \<Rightarrow> writeRegistries cfg st StatusOK regs)"

definition invalid_registries :: "console_env \<Rightarrow> string \<times> registry_fault \<Rightarrow> reply" where
  "invalid_registries ce e =
     console_writeJSON StatusBadRequest (error_field ''invalid_registries'' (fst e) (fault_message ce (snd e)))"

definition putRegistries ::
  "console_env \<Rightarrow> registry_config \<Rightarrow> settings_store option \<Rightarrow> registry_info list body \<Rightarrow> reply \<times> settings_store option" where
  "putRegistries ce cfg st b =
     (case st of
        None \<Rightarrow> (console_writeJSON StatusServiceUnavailable (error_only ''registries_read_only''), st)
      | Some s \<Rightarrow>
          (case b of
             BodyTooLarge \<Rightarrow> (console_writeJSON 413 (error_field ''invalid_registries'' ''body'' ''request body too large''), st)
           | BodyInvalid msg \<Rightarrow> (console_writeJSON StatusBadRequest (error_field ''invalid_registries'' ''body'' msg), st)
           | BodyOk inp \<Rightarrow>
               (case storedRegistries cfg st of
                  Inl _ \<Rightarrow> (registries_unavailable, st)
                | Inr stored \<Rightarrow>
                    (case unmaskRegistries inp stored of
                       (fault, regs) \<Rightarrow>
                         (case reported fault of
                            Some e \<Rightarrow> (invalid_registries ce e, st)
                          | None \<Rightarrow>
                              (case reported (validateRegistries ce regs) of
                                 Some e \<Rightarrow> (invalid_registries ce e, st)
                               | None \<Rightarrow>
                                   (let regs' = map non_nil regs in
                                    case SaveRegistries s regs' of
                                      Inl _ \<Rightarrow> (console_writeJSON StatusInternalServerError (error_only ''persist_failed''), st)
                                    | Inr s' \<Rightarrow> (writeRegistries cfg (Some s') StatusOK regs', Some s'))))))))"

section \<open>The overlay at boot\<close>

record registry_cfg =
  rc_Upstreams :: "string list option"
  rc_Enabled :: bool

record registries_cfg =
  rg_PyPI :: registry_cfg
  rg_NPM :: registry_cfg
  rg_Maven :: registry_cfg
  rg_RubyGems :: registry_cfg
  rg_Go :: registry_cfg
  rg_Docker :: registry_cfg

definition registry_entry :: "string \<Rightarrow> registry_cfg \<Rightarrow> registry_info" where
  "registry_entry eco c = \<lparr>ri_Ecosystem = eco, ri_Enabled = rc_Enabled c, ri_Upstreams = rc_Upstreams c\<rparr>"

definition registryInfo :: "registries_cfg \<Rightarrow> registry_info list" where
  "registryInfo cfg =
     [registry_entry ''pypi'' (rg_PyPI cfg), registry_entry ''npm'' (rg_NPM cfg), registry_entry ''maven'' (rg_Maven cfg),
      registry_entry ''rubygems'' (rg_RubyGems cfg), registry_entry ''go'' (rg_Go cfg), registry_entry ''docker'' (rg_Docker cfg)]"

definition overlay_one :: "registry_info \<Rightarrow> registries_cfg \<Rightarrow> registries_cfg option" where
  "overlay_one ri cfg =
     (let rc = \<lparr>rc_Upstreams = ri_Upstreams ri, rc_Enabled = ri_Enabled ri\<rparr>; eco = ri_Ecosystem ri in
      if eco = ''pypi'' then Some (cfg\<lparr>rg_PyPI := rc\<rparr>)
      else if eco = ''npm'' then Some (cfg\<lparr>rg_NPM := rc\<rparr>)
      else if eco = ''maven'' then Some (cfg\<lparr>rg_Maven := rc\<rparr>)
      else if eco = ''rubygems'' then Some (cfg\<lparr>rg_RubyGems := rc\<rparr>)
      else if eco = ''go'' then Some (cfg\<lparr>rg_Go := rc\<rparr>)
      else if eco = ''docker'' then Some (cfg\<lparr>rg_Docker := rc\<rparr>)
      else None)"

fun overlay :: "registry_info list \<Rightarrow> registries_cfg \<Rightarrow> registries_cfg option" where
  "overlay [] cfg = Some cfg"
| "overlay (ri # ris) cfg = (case overlay_one ri cfg of None \<Rightarrow> None | Some cfg' \<Rightarrow> overlay ris cfg')"

datatype overlay_error = StoredUnusable store_error | UnknownStored

definition applyStoredRegistries :: "registries_cfg \<Rightarrow> settings_store \<Rightarrow> overlay_error + registries_cfg \<times> settings_store" where
  "applyStoredRegistries cfg s =
     (case LoadRegistries s of
        Inl e \<Rightarrow> Inl (StoredUnusable e)
      | Inr None \<Rightarrow>
          (case SaveRegistries s (registryInfo cfg) of Inl e \<Rightarrow> Inl (StoredUnusable e) | Inr s' \<Rightarrow> Inr (cfg, s'))
      | Inr (Some stored) \<Rightarrow>
          (case overlay stored cfg of None \<Rightarrow> Inl UnknownStored | Some cfg' \<Rightarrow> Inr (cfg', s)))"

end
