(* ===== verification/Telemetry.thy ===== *)
theory Telemetry
  imports Gate Go_HTTP "HOL-Library.Product_Lexorder" "HOL-Library.AList"
begin

text \<open>
  Telemetry: the tallies (\<^verbatim>\<open>internal/telemetry/aggregate.go\<close>), the SQLite repository
  (\<^verbatim>\<open>sqlite.go\<close>) and the store in front of it (\<^verbatim>\<open>store.go\<close>, \<^verbatim>\<open>repo.go\<close>).

  The three tables are values: the event rows in insertion order with the last
  \<open>AUTOINCREMENT\<close> id given out, the single row of counters, and one row of tallies per UTC day. A day
  is its number since the epoch; the text \<open>YYYY-MM-DD\<close> the code stores sorts the same way. A
  tally is a natural number: it counts events one at a time and does not come near 2^63. A
  transaction that fails changes nothing, so one flag says whether the database takes writes;
  another whether it answers reads. A stored JSON document decodes to what was encoded, unless the
  row was damaged: then the flag of an event row is off, and the gates of a tally row are absent.
\<close>

section \<open>Tallies\<close>

record gate_counts =
  gc_Pass :: nat
  gc_Block :: nat

type_synonym gate_map = "gate_id \<rightharpoonup> gate_counts"

record aggregate =
  ag_requests :: nat
  ag_cacheHits :: nat
  ag_blocked :: nat
  ag_errors :: nat
  ag_supplyBlocked :: nat
  ag_cveBlocked :: nat
  ag_malwareBlocked :: nat
  ag_denylisted :: nat
  ag_gates :: gate_map

definition no_counts :: gate_counts where "no_counts = \<lparr>gc_Pass = 0, gc_Block = 0\<rparr>"

definition four_gates :: gate_map where
  "four_gates = [GateCache \<mapsto> no_counts, GateSupply \<mapsto> no_counts, GateCVE \<mapsto> no_counts, GateMalware \<mapsto> no_counts]"

definition newAggregate :: aggregate where
  "newAggregate = \<lparr>ag_requests = 0, ag_cacheHits = 0, ag_blocked = 0, ag_errors = 0, ag_supplyBlocked = 0,
     ag_cveBlocked = 0, ag_malwareBlocked = 0, ag_denylisted = 0, ag_gates = four_gates\<rparr>"

definition gatePipeline :: "gate_id list" where
  "gatePipeline = [GateSupply, GateCVE, GateMalware]"

fun index_from :: "int \<Rightarrow> 'a \<Rightarrow> 'a list \<Rightarrow> int" where
  "index_from i x [] = - 1"
| "index_from i x (y # ys) = (if y = x then i else index_from (i + 1) x ys)"

definition pipelineIndex :: "gate_id \<Rightarrow> int" where
  "pipelineIndex g = index_from 0 g gatePipeline"

text \<open>\<open>a.gates[g].Pass++\<close>: the entry exists, since only a new aggregate records an event.\<close>

definition pass_gate :: "gate_id \<Rightarrow> gate_map \<Rightarrow> gate_map" where
  "pass_gate g m = m(g := map_option (gc_Pass_update Suc) (m g))"

definition block_gate :: "gate_id \<Rightarrow> gate_map \<Rightarrow> gate_map" where
  "block_gate g m = m(g := map_option (gc_Block_update Suc) (m g))"

definition pass_gates :: "gate_id list \<Rightarrow> gate_map \<Rightarrow> gate_map" where
  "pass_gates gs m = fold pass_gate gs m"

definition aggregate_record :: "aggregate \<Rightarrow> event \<Rightarrow> aggregate" where
  "aggregate_record a0 ev =
     (let a = a0\<lparr>ag_requests := Suc (ag_requests a0)\<rparr>; idx = pipelineIndex (ev_Gate ev) in
      case ev_Verdict ev of
        VerdictCache \<Rightarrow> a\<lparr>ag_cacheHits := Suc (ag_cacheHits a), ag_gates := pass_gate GateCache (ag_gates a)\<rparr>
      | VerdictPass \<Rightarrow>
          (let i = (if idx < 0 then int (length gatePipeline) - 1 else idx)
           in a\<lparr>ag_gates := pass_gates (take (nat (i + 1)) gatePipeline) (ag_gates a)\<rparr>)
      | VerdictBlock \<Rightarrow>
          (let b = a\<lparr>ag_blocked := Suc (ag_blocked a),
                     ag_gates := pass_gates (if idx > 0 then take (nat idx) gatePipeline else []) (block_gate (ev_Gate ev) (ag_gates a))\<rparr>
           in if ev_Reason ev = ReasonDenylisted then b\<lparr>ag_denylisted := Suc (ag_denylisted b)\<rparr>
              else if ev_Gate ev = GateSupply then b\<lparr>ag_supplyBlocked := Suc (ag_supplyBlocked b)\<rparr>
              else if ev_Gate ev = GateCVE then b\<lparr>ag_cveBlocked := Suc (ag_cveBlocked b)\<rparr>
              else if ev_Gate ev = GateMalware then b\<lparr>ag_malwareBlocked := Suc (ag_malwareBlocked b)\<rparr>
              else b)
      | VerdictError \<Rightarrow> a\<lparr>ag_errors := Suc (ag_errors a)\<rparr>)"

definition add_counts :: "gate_counts \<Rightarrow> gate_counts \<Rightarrow> gate_counts" where
  "add_counts c v = \<lparr>gc_Pass = gc_Pass c + gc_Pass v, gc_Block = gc_Block c + gc_Block v\<rparr>"

definition add_gates :: "gate_map \<Rightarrow> gate_map \<Rightarrow> gate_map" where
  "add_gates m n = (\<lambda>g. case n g of None \<Rightarrow> m g | Some v \<Rightarrow> Some (add_counts (case m g of None \<Rightarrow> no_counts | Some c \<Rightarrow> c) v))"

definition aggregate_add :: "aggregate \<Rightarrow> aggregate \<Rightarrow> aggregate" where
  "aggregate_add a b =
     \<lparr>ag_requests = ag_requests a + ag_requests b, ag_cacheHits = ag_cacheHits a + ag_cacheHits b,
      ag_blocked = ag_blocked a + ag_blocked b, ag_errors = ag_errors a + ag_errors b,
      ag_supplyBlocked = ag_supplyBlocked a + ag_supplyBlocked b, ag_cveBlocked = ag_cveBlocked a + ag_cveBlocked b,
      ag_malwareBlocked = ag_malwareBlocked a + ag_malwareBlocked b, ag_denylisted = ag_denylisted a + ag_denylisted b,
      ag_gates = add_gates (ag_gates a) (ag_gates b)\<rparr>"

definition gatesToPtr :: "gate_map \<Rightarrow> gate_map" where
  "gatesToPtr src = four_gates ++ src"

section \<open>Tables\<close>

record event_row =
  er_id :: int64
  er_ts :: int64
  er_event :: event
  er_decodes :: bool

text \<open>A row of tallies: \<^term>\<open>None\<close> for gates that do not decode.\<close>

record tally_row =
  tr_tallies :: aggregate
  tr_gates :: "gate_map option"

record telemetry =
  te_events :: "event_row list"
  te_seq :: int64
  te_counters :: "tally_row option"
  te_daily :: "(int \<times> tally_row) list"
  te_readable :: bool
  te_writable :: bool

record retention =
  rn_event :: duration
  rn_daily :: duration

definition defaultEventRetentionDays :: int64 where "defaultEventRetentionDays = 30"
definition defaultDailyRetentionDays :: int64 where "defaultDailyRetentionDays = 365"

definition NewSQLiteRepo :: "int64 \<Rightarrow> int64 \<Rightarrow> retention" where
  "NewSQLiteRepo eventDays dailyDays =
     (let e = (if eventDays \<le> 0 then defaultEventRetentionDays else eventDays);
          d = (if dailyDays \<le> 0 then defaultDailyRetentionDays else dailyDays)
      in \<lparr>rn_event = wrap64 (wrap64 (e * 24) * Hour), rn_daily = wrap64 (wrap64 (d * 24) * Hour)\<rparr>)"

definition unixNanoOrZero :: "gotime \<Rightarrow> int64" where
  "unixNanoOrZero t = (if t = zero_time then 0 else wrap64 t)"

definition utc_day :: "gotime \<Rightarrow> int" where
  "utc_day t = t div (24 * Hour)"

definition dayKey :: "gotime \<Rightarrow> event \<Rightarrow> int" where
  "dayKey now ev = utc_day (if ev_Time ev = zero_time then now else ev_Time ev)"

definition parseGates :: "gate_map option \<Rightarrow> gate_map" where
  "parseGates blob = (case blob of None \<Rightarrow> (\<lambda>_. None) | Some g \<Rightarrow> g)"

definition read_tally :: "tally_row option \<Rightarrow> aggregate" where
  "read_tally row =
     (case row of None \<Rightarrow> newAggregate | Some r \<Rightarrow> (tr_tallies r)\<lparr>ag_gates := gatesToPtr (parseGates (tr_gates r))\<rparr>)"

definition write_tally :: "aggregate \<Rightarrow> tally_row" where
  "write_tally a = \<lparr>tr_tallies = a, tr_gates = Some (ag_gates a)\<rparr>"

definition readCounters :: "telemetry \<Rightarrow> aggregate" where
  "readCounters t = read_tally (te_counters t)"

definition readDaily :: "telemetry \<Rightarrow> int \<Rightarrow> aggregate" where
  "readDaily t day = read_tally (map_of (te_daily t) day)"

definition upsertCounters :: "telemetry \<Rightarrow> aggregate \<Rightarrow> telemetry" where
  "upsertCounters t a = t\<lparr>te_counters := Some (write_tally a)\<rparr>"

definition upsertDaily :: "telemetry \<Rightarrow> int \<Rightarrow> aggregate \<Rightarrow> telemetry" where
  "upsertDaily t day a = t\<lparr>te_daily := AList.update day (write_tally a) (te_daily t)\<rparr>"

definition insert_event :: "telemetry \<Rightarrow> event \<Rightarrow> telemetry" where
  "insert_event t ev =
     t\<lparr>te_seq := te_seq t + 1,
       te_events := te_events t @ [\<lparr>er_id = te_seq t + 1, er_ts = unixNanoOrZero (ev_Time ev), er_event = ev, er_decodes = True\<rparr>]\<rparr>"

text \<open>The event, the counters and the day's row in one transaction; \<^term>\<open>False\<close> is an error.\<close>

definition RecordEvent :: "telemetry \<Rightarrow> gotime \<Rightarrow> event \<Rightarrow> bool \<times> telemetry" where
  "RecordEvent t now ev =
     (if \<not> te_writable t then (False, t)
      else let delta = aggregate_record newAggregate ev;
               t1 = insert_event t ev;
               t2 = upsertCounters t1 (aggregate_add (readCounters t1) delta);
               day = dayKey now ev
           in (True, upsertDaily t2 day (aggregate_add (readDaily t2 day) delta)))"

definition Snapshot :: "telemetry \<Rightarrow> aggregate option" where
  "Snapshot t = (if te_readable t then Some (readCounters t) else None)"

section \<open>Event queries\<close>

definition newest_first :: "event_row list \<Rightarrow> event_row list" where
  "newest_first rows = rev (sort_key (\<lambda>r. (er_ts r, er_id r)) rows)"

text \<open>\<open>LIMIT n\<close>; a negative limit is none.\<close>

definition sql_limit :: "int64 \<Rightarrow> 'a list \<Rightarrow> 'a list" where
  "sql_limit n xs = (if n < 0 then xs else take (nat n) xs)"

definition decoded :: "event_row list \<Rightarrow> event list" where
  "decoded rows = map er_event (filter er_decodes rows)"

definition Recent :: "telemetry \<Rightarrow> int64 \<Rightarrow> event list option" where
  "Recent t limit =
     (if \<not> te_readable t then None
      else Some (decoded (if limit > 0 then sql_limit limit (newest_first (te_events t)) else newest_first (te_events t))))"

record cursor =
  cu_TS :: gotime
  cu_ID :: int64

definition zero_cursor :: cursor where "zero_cursor = \<lparr>cu_TS = zero_time, cu_ID = 0\<rparr>"

definition cursor_Zero :: "cursor \<Rightarrow> bool" where "cursor_Zero c \<longleftrightarrow> cu_ID c = 0"

definition likeEscape :: "string \<Rightarrow> string" where
  "likeEscape text = concat (map (\<lambda>c. if c \<in> {CHR 0x5C, CHR ''%'', CHR ''_''} then [CHR 0x5C, c] else [c]) text)"

text \<open>
  SQL's \<open>LIKE\<close> with the backslash as its escape character: a percent sign matches any sequence,
  an underscore any single character, an escaped character itself, and ASCII letters match in
  either case. A pattern the code builds never ends in an escape character.
\<close>

datatype like_token = AnySequence | AnyOne | Exactly char

definition like_token_of :: "char \<Rightarrow> like_token" where
  "like_token_of c = (if c = CHR ''%'' then AnySequence else if c = CHR ''_'' then AnyOne else Exactly c)"

fun like_tokens :: "string \<Rightarrow> like_token list" where
  "like_tokens [] = []"
| "like_tokens [c] = [like_token_of c]"
| "like_tokens (c # d # p) =
     (if c = CHR 0x5C then Exactly d # like_tokens p else like_token_of c # like_tokens (d # p))"

fun like_match :: "like_token list \<Rightarrow> string \<Rightarrow> bool" where
  "like_match [] s \<longleftrightarrow> s = []"
| "like_match (AnySequence # p) [] \<longleftrightarrow> like_match p []"
| "like_match (AnySequence # p) (x # s) \<longleftrightarrow> like_match p (x # s) \<or> like_match (AnySequence # p) s"
| "like_match (AnyOne # p) s \<longleftrightarrow> s \<noteq> [] \<and> like_match p (tl s)"
| "like_match (Exactly c # p) s \<longleftrightarrow> s \<noteq> [] \<and> lower_byte c = lower_byte (hd s) \<and> like_match p (tl s)"

definition like :: "string \<Rightarrow> string \<Rightarrow> bool" where
  "like pat s = like_match (like_tokens pat) s"

definition matches_text :: "string \<Rightarrow> event \<Rightarrow> bool" where
  "matches_text text ev \<longleftrightarrow>
     text = [] \<or> (let pat = ''%'' @ likeEscape text @ ''%'' in
       like pat (ev_Package ev @ ''@'' @ ev_Version ev) \<or> like pat (ev_RequestID ev))"

definition older_than :: "cursor \<Rightarrow> event_row \<Rightarrow> bool" where
  "older_than c r \<longleftrightarrow>
     cursor_Zero c \<or> (let n = wrap64 (cu_TS c) in er_ts r < n \<or> (er_ts r = n \<and> er_id r < cu_ID c))"

definition page_cond :: "verdict option \<Rightarrow> string \<Rightarrow> event_row \<Rightarrow> bool" where
  "page_cond verdict text r \<longleftrightarrow>
     (case verdict of None \<Rightarrow> True | Some v \<Rightarrow> ev_Verdict (er_event r) = v) \<and> matches_text text (er_event r)"

text \<open>The loop over the result rows: collected events, the cursor of the last one, rows scanned.\<close>

fun page_loop :: "int64 \<Rightarrow> event_row list \<Rightarrow> event list \<Rightarrow> cursor \<Rightarrow> int64 \<Rightarrow> event list \<times> cursor \<times> int64" where
  "page_loop limit [] out nxt scanned = (out, nxt, scanned)"
| "page_loop limit (r # rs) out nxt scanned =
     (if limit > 0 \<and> scanned + 1 > limit then (out, nxt, scanned + 1)
      else page_loop limit rs (if er_decodes r then out @ [er_event r] else out) \<lparr>cu_TS = er_ts r, cu_ID = er_id r\<rparr> (scanned + 1))"

definition Page :: "telemetry \<Rightarrow> verdict option \<Rightarrow> string \<Rightarrow> cursor \<Rightarrow> int64 \<Rightarrow> (event list \<times> cursor) option" where
  "Page t verdict text c limit =
     (if \<not> te_readable t then None
      else let rows0 = newest_first (filter (\<lambda>r. page_cond verdict text r \<and> older_than c r) (te_events t));
               rows = (if limit > 0 then sql_limit (wrap64 (limit + 1)) rows0 else rows0)
           in case page_loop limit rows [] zero_cursor 0 of
                (out, nxt, scanned) \<Rightarrow> Some (out, if limit > 0 \<and> scanned \<le> limit then zero_cursor else nxt))"

definition hold_key :: "event \<Rightarrow> string" where
  "hold_key ev = ev_Ecosystem ev @ ''/'' @ ev_Package ev @ ''@'' @ ev_Version ev"

fun quarantine_loop :: "gotime \<Rightarrow> event list \<Rightarrow> string list \<Rightarrow> event list" where
  "quarantine_loop now [] seen = []"
| "quarantine_loop now (ev # evs) seen =
     (if hold_key ev \<in> set seen then quarantine_loop now evs seen
      else (if ev_BlockUntil ev > now then [ev] else []) @ quarantine_loop now evs (hold_key ev # seen))"

definition supply_block :: "event \<Rightarrow> bool" where
  "supply_block ev \<longleftrightarrow> ev_Verdict ev = VerdictBlock \<and> ev_Gate ev = GateSupply"

definition Quarantine :: "telemetry \<Rightarrow> gotime \<Rightarrow> event list option" where
  "Quarantine t now =
     (if \<not> te_readable t then None
      else Some (quarantine_loop now (decoded (newest_first (filter (\<lambda>r. supply_block (er_event r)) (te_events t)))) []))"

definition daily_newest :: "(int \<times> tally_row) list \<Rightarrow> (int \<times> tally_row) list" where
  "daily_newest rows = rev (sort_key fst rows)"

definition DailyMetrics :: "telemetry \<Rightarrow> int64 \<Rightarrow> (int \<times> aggregate) list option" where
  "DailyMetrics t days =
     (if \<not> te_readable t then None
      else Some (map (\<lambda>(d, r). (d, (tr_tallies r)\<lparr>ag_gates := parseGates (tr_gates r)\<rparr>))
        (if days > 0 then sql_limit days (daily_newest (te_daily t)) else daily_newest (te_daily t))))"

section \<open>Retention\<close>

definition prune_events :: "retention \<Rightarrow> gotime \<Rightarrow> telemetry \<Rightarrow> telemetry" where
  "prune_events rn now t =
     t\<lparr>te_events := filter (\<lambda>r. \<not> er_ts r < wrap64 (time_add now (wrap64 (- rn_event rn)))) (te_events t)\<rparr>"

definition prune_days :: "retention \<Rightarrow> gotime \<Rightarrow> telemetry \<Rightarrow> telemetry" where
  "prune_days rn now t = t\<lparr>te_daily := filter (\<lambda>(d, _). \<not> d < utc_day (time_add now (wrap64 (- rn_daily rn)))) (te_daily t)\<rparr>"

text \<open>Two statements with two readings of the clock; the second may fail after the first.\<close>

definition Prune :: "retention \<Rightarrow> gotime \<Rightarrow> gotime \<Rightarrow> bool \<Rightarrow> telemetry \<Rightarrow> bool \<times> telemetry" where
  "Prune rn now1 now2 second_ok t =
     (if \<not> te_writable t then (False, t)
      else let t1 = prune_events rn now1 t in if second_ok then (True, prune_days rn now2 t1) else (False, t1))"

section \<open>The store\<close>

text \<open>Reads that fail yield empty results; a record that fails loses that event only.\<close>

definition Store_Record :: "gotime \<Rightarrow> event \<Rightarrow> telemetry \<Rightarrow> telemetry" where
  "Store_Record now ev t = snd (RecordEvent t now ev)"

definition zero_aggregate :: aggregate where
  "zero_aggregate = newAggregate\<lparr>ag_gates := \<lambda>_. None\<rparr>"

definition Store_Snapshot :: "telemetry \<Rightarrow> aggregate" where
  "Store_Snapshot t = (case Snapshot t of None \<Rightarrow> zero_aggregate | Some a \<Rightarrow> a)"

definition Store_Recent :: "telemetry \<Rightarrow> int64 \<Rightarrow> event list" where
  "Store_Recent t limit = (case Recent t limit of None \<Rightarrow> [] | Some evs \<Rightarrow> evs)"

definition Store_Page :: "telemetry \<Rightarrow> verdict option \<Rightarrow> string \<Rightarrow> cursor \<Rightarrow> int64 \<Rightarrow> event list \<times> cursor" where
  "Store_Page t verdict text c limit = (case Page t verdict text c limit of None \<Rightarrow> ([], zero_cursor) | Some r \<Rightarrow> r)"

definition Store_Quarantine :: "telemetry \<Rightarrow> gotime \<Rightarrow> event list" where
  "Store_Quarantine t now = (case Quarantine t now of None \<Rightarrow> [] | Some evs \<Rightarrow> evs)"

end
