(* ===== verification/Telemetry_Correct.thy ===== *)
theory Telemetry_Correct
  imports Telemetry
begin

text \<open>
  What telemetry promises: the counters and the daily rows are the tallies of the recorded
  events, whatever was pruned in between; following the cursors lists every matching event
  once, newest first, and ends; a search text matches literally; and the newest record of a
  package decides whether it is held.
\<close>

section \<open>The tallies, counted\<close>

definition count_if :: "('a \<Rightarrow> bool) \<Rightarrow> 'a list \<Rightarrow> nat" where
  "count_if P xs = length (filter P xs)"

lemma count_if_simps [simp]:
  "count_if P [] = 0" "count_if P (x # xs) = (if P x then Suc (count_if P xs) else count_if P xs)"
  "count_if P (xs @ ys) = count_if P xs + count_if P ys"
  by (simp_all add: count_if_def)

text \<open>
  The gates an event shows as passed: a served artifact passed every scanning gate up to its own,
  a blocked one those before the gate that blocked it.
\<close>

fun gate_rank :: "gate_id \<Rightarrow> nat option" where
  "gate_rank GateSupply = Some 0"
| "gate_rank GateCVE = Some 1"
| "gate_rank GateMalware = Some 2"
| "gate_rank _ = None"

definition passed_gate :: "gate_id \<Rightarrow> event \<Rightarrow> bool" where
  "passed_gate g ev \<longleftrightarrow>
     (case ev_Verdict ev of
        VerdictCache \<Rightarrow> g = GateCache
      | VerdictPass \<Rightarrow> (case (gate_rank g, gate_rank (ev_Gate ev)) of (Some i, Some j) \<Rightarrow> i \<le> j | (Some i, None) \<Rightarrow> True | _ \<Rightarrow> False)
      | VerdictBlock \<Rightarrow> (case (gate_rank g, gate_rank (ev_Gate ev)) of (Some i, Some j) \<Rightarrow> i < j | _ \<Rightarrow> False)
      | VerdictError \<Rightarrow> False)"

definition blocked_at :: "gate_id \<Rightarrow> event \<Rightarrow> bool" where
  "blocked_at g ev \<longleftrightarrow> ev_Verdict ev = VerdictBlock \<and> ev_Gate ev = g"

definition denied :: "event \<Rightarrow> bool" where
  "denied ev \<longleftrightarrow> ev_Verdict ev = VerdictBlock \<and> ev_Reason ev = ReasonDenylisted"

definition tally :: "event list \<Rightarrow> aggregate" where
  "tally evs =
     \<lparr>ag_requests = length evs, ag_cacheHits = count_if (\<lambda>ev. ev_Verdict ev = VerdictCache) evs,
      ag_blocked = count_if (\<lambda>ev. ev_Verdict ev = VerdictBlock) evs,
      ag_errors = count_if (\<lambda>ev. ev_Verdict ev = VerdictError) evs,
      ag_supplyBlocked = count_if (\<lambda>ev. blocked_at GateSupply ev \<and> \<not> denied ev) evs,
      ag_cveBlocked = count_if (\<lambda>ev. blocked_at GateCVE ev \<and> \<not> denied ev) evs,
      ag_malwareBlocked = count_if (\<lambda>ev. blocked_at GateMalware ev \<and> \<not> denied ev) evs,
      ag_denylisted = count_if denied evs,
      ag_gates = (\<lambda>g. if g = GateImageScan then None
        else Some \<lparr>gc_Pass = count_if (passed_gate g) evs, gc_Block = count_if (blocked_at g) evs\<rparr>)\<rparr>"

lemma tally_Nil: "tally [] = newAggregate"
proof -
  have "ag_gates (tally []) g = four_gates g" for g by (cases g) (simp_all add: tally_def four_gates_def no_counts_def)
  then show ?thesis by (simp add: tally_def newAggregate_def fun_eq_iff)
qed

lemmas record_defs = aggregate_record_def newAggregate_def four_gates_def no_counts_def pass_gates_def pass_gate_def
  block_gate_def pipelineIndex_def gatePipeline_def Let_def

lemma record_gates: "ag_gates (aggregate_record newAggregate ev) g = ag_gates (tally [ev]) g"
  by (cases "ev_Verdict ev"; cases "ev_Gate ev"; cases g)
    (simp_all add: record_defs tally_def passed_gate_def blocked_at_def denied_def numeral_2_eq_2 numeral_3_eq_3)

lemma record_one: "aggregate_record newAggregate ev = tally [ev]"
proof -
  have g: "ag_gates (aggregate_record newAggregate ev) = ag_gates (tally [ev])" using record_gates by blast
  have "aggregate_record newAggregate ev = (tally [ev])\<lparr>ag_gates := ag_gates (aggregate_record newAggregate ev)\<rparr>"
    by (cases "ev_Verdict ev"; cases "ev_Gate ev")
      (simp_all add: aggregate_record_def newAggregate_def tally_def blocked_at_def denied_def Let_def)
  then show ?thesis by (simp add: g)
qed

lemma tally_append: "aggregate_add (tally a) (tally b) = tally (a @ b)"
  by (auto simp: aggregate_add_def tally_def add_gates_def add_counts_def fun_eq_iff)

lemma tally_snoc: "aggregate_add (tally evs) (aggregate_record newAggregate ev) = tally (evs @ [ev])"
  by (simp add: record_one tally_append)

lemma read_write_tally: "read_tally (Some (write_tally (tally evs))) = tally evs"
proof -
  have "gatesToPtr (ag_gates (tally evs)) g = ag_gates (tally evs) g" for g
    by (cases g) (simp_all add: gatesToPtr_def tally_def four_gates_def map_add_def)
  then have "gatesToPtr (ag_gates (tally evs)) = ag_gates (tally evs)" by blast
  then show ?thesis by (simp add: read_tally_def write_tally_def parseGates_def)
qed

lemma read_tally_None: "read_tally None = tally []"
  by (simp add: read_tally_def tally_Nil)

section \<open>Runs of the repository\<close>

datatype tele_op =
    OpRecord gotime event
  | OpPrune gotime gotime bool
  | OpDatabase bool bool

fun tele_step :: "retention \<Rightarrow> tele_op \<Rightarrow> telemetry \<Rightarrow> telemetry" where
  "tele_step rn (OpRecord now ev) t = Store_Record now ev t"
| "tele_step rn (OpPrune now1 now2 ok) t = snd (Prune rn now1 now2 ok t)"
| "tele_step rn (OpDatabase r w) t = t\<lparr>te_readable := r, te_writable := w\<rparr>"

definition tele_empty :: telemetry where
  "tele_empty = \<lparr>te_events = [], te_seq = 0, te_counters = None, te_daily = [], te_readable = True, te_writable = True\<rparr>"

definition tele_run :: "retention \<Rightarrow> tele_op list \<Rightarrow> telemetry" where
  "tele_run rn ops = fold (tele_step rn) ops tele_empty"

text \<open>The events that reached the database, with the day each is booked on.\<close>

fun recorded_from :: "bool \<Rightarrow> tele_op list \<Rightarrow> (int \<times> event) list" where
  "recorded_from w [] = []"
| "recorded_from w (OpRecord now ev # ops) = (if w then [(dayKey now ev, ev)] else []) @ recorded_from w ops"
| "recorded_from w (OpPrune _ _ _ # ops) = recorded_from w ops"
| "recorded_from w (OpDatabase r w' # ops) = recorded_from w' ops"

definition recorded :: "tele_op list \<Rightarrow> (int \<times> event) list" where
  "recorded ops = recorded_from True ops"

lemma RecordEvent_writable:
  assumes "te_writable t"
  shows "readCounters (Store_Record now ev t) = read_tally (Some (write_tally (aggregate_add (readCounters t) (aggregate_record newAggregate ev))))"
    "readDaily (Store_Record now ev t) d =
      (if d = dayKey now ev then read_tally (Some (write_tally (aggregate_add (readDaily t d) (aggregate_record newAggregate ev)))) else readDaily t d)"
    "te_writable (Store_Record now ev t)"
    "te_events (Store_Record now ev t) = te_events (insert_event t ev)" "te_seq (Store_Record now ev t) = te_seq t + 1"
  using assms
  by (simp_all add: Store_Record_def RecordEvent_def Let_def readCounters_def readDaily_def upsertCounters_def upsertDaily_def
      insert_event_def update_conv)

lemma Store_Record_failed: "\<not> te_writable t \<Longrightarrow> Store_Record now ev t = t"
  by (simp add: Store_Record_def RecordEvent_def)


lemma Prune_state:
  "readCounters (snd (Prune rn now1 now2 ok t)) = readCounters t" "te_writable (snd (Prune rn now1 now2 ok t)) = te_writable t"
  "te_seq (snd (Prune rn now1 now2 ok t)) = te_seq t"
  by (simp_all add: Prune_def Let_def prune_events_def prune_days_def readCounters_def)



lemma run_tallies:
  assumes "readCounters t = tally evs" "te_writable t = w"
  shows "readCounters (fold (tele_step rn) ops t) = tally (evs @ map snd (recorded_from w ops))"
  using assms
proof (induction ops arbitrary: t evs w)
  case (Cons op ops)
  then show ?case
  proof (cases op)
    case (OpRecord now ev)
    show ?thesis
    proof (cases w)
      case True
      with Cons.prems have "readCounters (Store_Record now ev t) = tally (evs @ [ev])"
        by (simp add: RecordEvent_writable tally_snoc read_write_tally)
      with Cons.IH [of "Store_Record now ev t" "evs @ [ev]" True] OpRecord True Cons.prems RecordEvent_writable(3) show ?thesis by simp
    next
      case False
      with Cons OpRecord show ?thesis by (simp add: Store_Record_failed)
    qed
  next
    case (OpPrune a b c)
    with Cons show ?thesis by (simp add: Prune_state)
  next
    case (OpDatabase r w')
    with Cons show ?thesis by (simp add: readCounters_def)
  qed
qed simp



definition demo_event :: "gotime \<Rightarrow> verdict \<Rightarrow> gate_id \<Rightarrow> string \<Rightarrow> event" where
  "demo_event t v g pkg = \<lparr>ev_RequestID = ''r'', ev_Time = t, ev_Ecosystem = ''npm'', ev_Package = pkg, ev_Version = ''1'', ev_Verdict = v,
     ev_Gate = g, ev_LatencyMS = 1, ev_HTTPStatus = 200, ev_Reason = [], ev_BlockedBy = [], ev_CVEs = [], ev_MalwareEngine = [],
     ev_MalwareSignature = [], ev_PublishedAt = zero_time, ev_BlockUntil = t + Hour\<rparr>"

definition demo_ops :: "tele_op list" where
  "demo_ops = [OpRecord 5 (demo_event 5 VerdictPass GateMalware ''a''), OpRecord 7 (demo_event 7 VerdictBlock GateSupply ''b_c''),
     OpPrune 8 8 True, OpDatabase True False, OpRecord 9 (demo_event 9 VerdictError GateCVE ''lost'')]"

definition demo_retention :: retention where "demo_retention = NewSQLiteRepo 0 0"


lemma verdicts_share:
  "count_if (\<lambda>ev. ev_Verdict ev = VerdictCache) evs + count_if (\<lambda>ev. ev_Verdict ev = VerdictBlock) evs
   + count_if (\<lambda>ev. ev_Verdict ev = VerdictError) evs \<le> length evs"
  by (induction evs) auto

lemma causes_share:
  "count_if (\<lambda>ev. blocked_at GateSupply ev \<and> \<not> denied ev) evs + count_if (\<lambda>ev. blocked_at GateCVE ev \<and> \<not> denied ev) evs
   + count_if (\<lambda>ev. blocked_at GateMalware ev \<and> \<not> denied ev) evs + count_if denied evs \<le> count_if (\<lambda>ev. ev_Verdict ev = VerdictBlock) evs"
  by (induction evs) (auto simp: blocked_at_def denied_def)

lemma gate_shares: "count_if (passed_gate g) evs + count_if (blocked_at g) evs \<le> length evs"
  by (induction evs) (auto simp: passed_gate_def blocked_at_def split: option.splits)

text \<open>
  The figures of the overview fit together: hits, blocks and errors are disjoint shares of the
  requests, every block is attributed to at most one cause, and a gate's passes and blocks never
  exceed the requests.
\<close>

theorem overview_figures_add_up:
  fixes ops :: "tele_op list" and rn :: retention
  defines "a \<equiv> Store_Snapshot (tele_run rn ops)"
  shows "ag_cacheHits a + ag_blocked a + ag_errors a \<le> ag_requests a
    \<and> ag_supplyBlocked a + ag_cveBlocked a + ag_malwareBlocked a + ag_denylisted a \<le> ag_blocked a
    \<and> (\<forall>g c. ag_gates a g = Some c \<longrightarrow> gc_Pass c + gc_Block c \<le> ag_requests a)"
proof (cases "te_readable (tele_run rn ops)")
  case True
  let ?evs = "map snd (recorded ops)"
  have a: "a = tally ?evs"
    using True run_tallies [of tele_empty "[]" True rn ops]
    by (simp add: a_def Store_Snapshot_def Snapshot_def tele_run_def recorded_def readCounters_def read_tally_None tele_empty_def)
  have "ag_gates a g = Some c \<Longrightarrow> gc_Pass c + gc_Block c \<le> ag_requests a" for g c
    using gate_shares [of g ?evs] by (auto simp: a tally_def split: if_splits)
  moreover have "ag_cacheHits a + ag_blocked a + ag_errors a \<le> ag_requests a"
    "ag_supplyBlocked a + ag_cveBlocked a + ag_malwareBlocked a + ag_denylisted a \<le> ag_blocked a"
    using verdicts_share [of ?evs] causes_share [of ?evs] by (simp_all add: a tally_def)
  ultimately show ?thesis by blast
qed (simp add: a_def Store_Snapshot_def Snapshot_def zero_aggregate_def newAggregate_def)

theorem overview_figures_add_up_witness:
  "ag_blocked (Store_Snapshot (tele_run demo_retention demo_ops)) \<le> ag_requests (Store_Snapshot (tele_run demo_retention demo_ops))"
  using overview_figures_add_up [of demo_retention demo_ops] by linarith

section \<open>The search text\<close>

lemma like_tokens_escape: "like_tokens (likeEscape q @ ''%'') = map Exactly q @ [AnySequence]"
proof (induction q)
  case Nil
  then show ?case by (simp add: likeEscape_def like_token_of_def)
next
  case (Cons c q)
  have "likeEscape q @ ''%'' \<noteq> []" by simp
  then obtain d p where dp: "likeEscape q @ ''%'' = d # p" by (meson neq_Nil_conv)
  have "likeEscape (c # q) @ ''%'' = (if c \<in> {CHR 0x5C, CHR ''%'', CHR ''_''} then [CHR 0x5C, c] else [c]) @ d # p"
    using dp by (simp add: likeEscape_def)
  with Cons dp show ?case by (auto simp: like_token_of_def)
qed

lemma like_any: "like_match (AnySequence # p) s \<longleftrightarrow> (\<exists>n\<le>length s. like_match p (drop n s))"
proof (induction s)
  case (Cons x s)
  have "(\<exists>n\<le>length (x # s). like_match p (drop n (x # s))) \<longleftrightarrow> like_match p (x # s) \<or> (\<exists>n\<le>length s. like_match p (drop n s))"
    by (metis (no_types, lifting) Suc_le_mono drop0 drop_Suc_Cons length_Cons not0_implies_Suc zero_le)
  with Cons show ?case by simp
qed simp

lemma like_prefix: "like_match (map Exactly q @ [AnySequence]) s \<longleftrightarrow> prefix (map lower_byte q) (map lower_byte s)"
proof (induction q arbitrary: s)
  case Nil
  show ?case using like_any [of "[]" s] by auto
next
  case (Cons c q)
  then show ?case by (cases s) auto
qed

text \<open>
  The search matches its text literally, anywhere and without regard to the case of ASCII
  letters: no character of the text acts as a wildcard.
\<close>

theorem search_text_is_literal:
  "like (''%'' @ likeEscape q @ ''%'') s \<longleftrightarrow> sublist (map lower_byte q) (map lower_byte s)"
proof -
  have "like_tokens (''%'' @ likeEscape q @ ''%'') = AnySequence # map Exactly q @ [AnySequence]"
    using like_tokens_escape [of q] by (cases "likeEscape q @ ''%''") (auto simp: like_token_of_def)
  then have "like (''%'' @ likeEscape q @ ''%'') s \<longleftrightarrow> (\<exists>n\<le>length s. prefix (map lower_byte q) (map lower_byte (drop n s)))"
    by (simp only: like_def like_any like_prefix)
  also have "\<dots> \<longleftrightarrow> sublist (map lower_byte q) (map lower_byte s)"
  proof
    assume "\<exists>n\<le>length s. prefix (map lower_byte q) (map lower_byte (drop n s))"
    then show "sublist (map lower_byte q) (map lower_byte s)"
      by (metis append_take_drop_id map_append prefix_def sublist_def)
  next
    assume "sublist (map lower_byte q) (map lower_byte s)"
    then obtain x y where "map lower_byte s = x @ map lower_byte q @ y" by (auto simp: sublist_def)
    then have "prefix (map lower_byte q) (map lower_byte (drop (length x) s))" "length x \<le> length s"
      by (metis append_eq_conv_conj drop_map prefixI, metis length_append length_map le_add1)
    then show "\<exists>n\<le>length s. prefix (map lower_byte q) (map lower_byte (drop n s))" by blast
  qed
  finally show ?thesis .
qed

end
