(* ===== verification/Telemetry_Paging.thy ===== *)
theory Telemetry_Paging
  imports Telemetry_Correct
begin

text \<open>
  Reading the event log: keyset paging over \<open>(ts, id)\<close> and the quarantine list.
\<close>

section \<open>The event table\<close>

definition row_key :: "event_row \<Rightarrow> int \<times> int" where
  "row_key r = (er_ts r, er_id r)"

definition events_ok :: "telemetry \<Rightarrow> bool" where
  "events_ok t \<longleftrightarrow>
     distinct (map er_id (te_events t)) \<and> 0 \<le> te_seq t \<and>
     (\<forall>r\<in>set (te_events t). 1 \<le> er_id r \<and> er_id r \<le> te_seq t \<and> min_int64 \<le> er_ts r \<and> er_ts r \<le> max_int64)"

lemma unixNanoOrZero_range: "min_int64 \<le> unixNanoOrZero t \<and> unixNanoOrZero t \<le> max_int64"
  using wrap64_bounds [of t] by (auto simp: unixNanoOrZero_def min_int64_def max_int64_def)

lemma insert_event_ok: "events_ok t \<Longrightarrow> events_ok (insert_event t ev)"
  using unixNanoOrZero_range [of "ev_Time ev"] by (force simp: events_ok_def insert_event_def)

lemma events_ok_cong: "te_events t' = te_events t \<Longrightarrow> te_seq t' = te_seq t \<Longrightarrow> events_ok t' \<longleftrightarrow> events_ok t"
  by (simp add: events_ok_def)

lemma filter_events_ok: "events_ok t \<Longrightarrow> te_events t' = filter P (te_events t) \<Longrightarrow> te_seq t' = te_seq t \<Longrightarrow> events_ok t'"
  by (auto simp: events_ok_def distinct_map inj_on_def)

lemma tele_step_ok: "events_ok t \<Longrightarrow> events_ok (tele_step rn op t)"
proof (cases op)
  case (OpRecord now ev)
  assume "events_ok t"
  then show ?thesis
  proof (cases "te_writable t")
    case True
    have "events_ok (Store_Record now ev t) \<longleftrightarrow> events_ok (insert_event t ev)"
      using RecordEvent_writable [OF True] by (intro events_ok_cong) (simp_all add: insert_event_def)
    with \<open>events_ok t\<close> OpRecord insert_event_ok show ?thesis by simp
  qed (simp add: OpRecord Store_Record_failed)
next
  case (OpPrune n1 n2 ok)
  assume "events_ok t"
  have "\<exists>P. te_events (snd (Prune rn n1 n2 ok t)) = filter P (te_events t)"
    by (auto simp: Prune_def Let_def prune_events_def prune_days_def intro: exI [of _ "\<lambda>_. True"])
  with \<open>events_ok t\<close> OpPrune Prune_state(3) filter_events_ok show ?thesis by (metis tele_step.simps(2))
qed (simp add: events_ok_def)

lemma tele_fold_ok: "events_ok t \<Longrightarrow> events_ok (fold (tele_step rn) ops t)"
  by (induction ops arbitrary: t) (auto intro: tele_step_ok)

lemma tele_run_ok: "events_ok (tele_run rn ops)"
  unfolding tele_run_def by (rule tele_fold_ok) (simp add: events_ok_def tele_empty_def)

section \<open>Order\<close>

lemma newest_first_filter: "newest_first (filter P rows) = filter P (newest_first rows)"
  by (simp add: newest_first_def rev_filter [symmetric] filter_sort)

lemma newest_first_set [simp]: "set (newest_first rows) = set rows" "length (newest_first rows) = length rows"
  by (simp_all add: newest_first_def)

lemma newest_first_strict:
  assumes "distinct (map er_id rows)"
  shows "sorted_wrt (\<lambda>a b. row_key b < row_key a) (newest_first rows)"
proof -
  let ?s = "sort_key (\<lambda>r. (er_ts r, er_id r)) rows"
  have "inj_on row_key (set rows)" using assms by (auto simp: inj_on_def row_key_def distinct_map)
  then have "distinct (map row_key ?s)" using assms by (simp add: distinct_map)
  moreover have "sorted (map row_key ?s)" using sorted_sort_key [of row_key rows] by (simp add: row_key_def [abs_def])
  ultimately have "sorted_wrt (<) (map row_key ?s)" by (simp add: strict_sorted_iff)
  then show ?thesis by (simp add: newest_first_def sorted_wrt_rev sorted_wrt_map)
qed

lemma strictly_older_drop:
  assumes "sorted_wrt (\<lambda>a b. row_key b < row_key a) (xs @ r # ys)"
  shows "filter (\<lambda>x. row_key x < row_key r) (xs @ r # ys) = ys"
proof -
  have "filter (\<lambda>x. row_key x < row_key r) xs = []" "filter (\<lambda>x. row_key x < row_key r) ys = ys"
    using assms by (auto simp: sorted_wrt_append filter_empty_conv filter_id_conv dest: order.asym)
  then show ?thesis by simp
qed

definition row_cursor :: "event_row \<Rightarrow> cursor" where
  "row_cursor r = \<lparr>cu_TS = er_ts r, cu_ID = er_id r\<rparr>"

lemma older_than_row:
  assumes "er_id r \<noteq> 0" "min_int64 \<le> er_ts r" "er_ts r \<le> max_int64"
  shows "older_than (row_cursor r) x \<longleftrightarrow> row_key x < row_key r"
  using assms by (auto simp: older_than_def row_cursor_def cursor_Zero_def wrap64_id row_key_def Let_def)

section \<open>One page\<close>

lemma page_loop_result:
  assumes "0 \<le> scanned" "scanned \<le> limit" "0 < limit" "k = nat (limit - scanned)"
  shows "page_loop limit rs out nxt scanned =
    (out @ decoded (take k rs), if take k rs = [] then nxt else row_cursor (last (take k rs)),
     if length rs \<le> k then scanned + int (length rs) else limit + 1)"
  using assms
proof (induction rs arbitrary: out nxt scanned k)
  case (Cons r rs)
  show ?case
  proof (cases "scanned = limit")
    case False
    define m where "m = nat (limit - (scanned + 1))"
    have k: "k = Suc m" using Cons.prems False by (simp add: m_def)
    have "page_loop limit (r # rs) out nxt scanned =
      page_loop limit rs (if er_decodes r then out @ [er_event r] else out) (row_cursor r) (scanned + 1)"
      using False Cons.prems by (simp add: row_cursor_def)
    moreover have "page_loop limit rs out' (row_cursor r) (scanned + 1) =
      (out' @ decoded (take m rs), if take m rs = [] then row_cursor r else row_cursor (last (take m rs)),
       if length rs \<le> m then scanned + 1 + int (length rs) else limit + 1)" for out'
      using Cons.IH [of "scanned + 1" m] Cons.prems(1-3) False m_def by simp
    ultimately show ?thesis unfolding k by (auto simp: decoded_def)
  qed (use Cons.prems in \<open>simp add: decoded_def\<close>)
qed (simp add: decoded_def)

text \<open>The rows a cursor selects, newest first.\<close>

definition selected :: "telemetry \<Rightarrow> verdict option \<Rightarrow> string \<Rightarrow> cursor \<Rightarrow> event_row list" where
  "selected t v q c = newest_first (filter (\<lambda>r. page_cond v q r \<and> older_than c r) (te_events t))"

lemma Page_result:
  assumes "te_readable t" "0 < limit" "limit < max_int64"
  shows "Page t v q c limit =
    Some (decoded (take (nat limit) (selected t v q c)),
      if length (selected t v q c) \<le> nat limit then zero_cursor else row_cursor (selected t v q c ! (nat limit - 1)))"
proof -
  let ?R = "selected t v q c"
  have w: "wrap64 (limit + 1) = limit + 1" using assms by (intro wrap64_id) (simp_all add: min_int64_def max_int64_def)
  have tk: "take (nat limit) (take (nat (limit + 1)) ?R) = take (nat limit) ?R" by (simp add: min_def)
  have "take (nat limit) ?R \<noteq> [] \<and> last (take (nat limit) ?R) = ?R ! (nat limit - 1)" if "\<not> length ?R \<le> nat limit"
  proof -
    have "length (take (nat limit) ?R) = nat limit" "take (nat limit) ?R \<noteq> []" using that assms(2) by auto
    with assms(2) show ?thesis by (simp add: last_conv_nth del: length_take)
  qed
  then show ?thesis
    using assms page_loop_result [of 0 limit "nat limit" "take (nat (limit + 1)) ?R" "[]" zero_cursor]
    by (auto simp: Page_def selected_def [symmetric] sql_limit_def w tk Let_def)
qed

lemma selected_zero: "cursor_Zero c \<Longrightarrow> selected t v q c = newest_first (filter (page_cond v q) (te_events t))"
  by (simp add: selected_def older_than_def)

text \<open>The next page starts right after the last row of this one.\<close>

lemma selected_next:
  assumes "events_ok t" "k < length (selected t v q c)"
  shows "selected t v q (row_cursor (selected t v q c ! k)) = drop (Suc k) (selected t v q c)"
proof -
  let ?M = "newest_first (filter (page_cond v q) (te_events t))" and ?R = "selected t v q c"
  define r0 where "r0 = ?R ! k"
  have r: "r0 \<in> set (te_events t)" "page_cond v q r0" "older_than c r0"
    using nth_mem [OF assms(2)] by (auto simp: selected_def r0_def)
  then have key: "older_than (row_cursor r0) x \<longleftrightarrow> row_key x < row_key r0" for x
    using assms(1) by (intro older_than_row) (auto simp: events_ok_def)
  have split: "?R = filter (older_than c) ?M"
    by (simp add: selected_def newest_first_filter conj_commute)
  have down: "older_than c x" if "row_key x < row_key r0" for x
    using r(3) that by (auto simp: older_than_def row_key_def Let_def)
  have "distinct (map er_id (filter (page_cond v q) (te_events t)))"
    using assms(1) by (simp add: events_ok_def distinct_map inj_on_def)
  then have "sorted_wrt (\<lambda>a b. row_key b < row_key a) ?R"
    unfolding split by (intro sorted_wrt_filter newest_first_strict)
  then have "filter (\<lambda>x. row_key x < row_key r0) ?R = drop (Suc k) ?R"
    using strictly_older_drop [of "take k ?R" r0 "drop (Suc k) ?R"] id_take_nth_drop [OF assms(2)] by (simp add: r0_def)
  moreover have "selected t v q (row_cursor r0) = filter (\<lambda>x. row_key x < row_key r0) ?M"
    by (simp add: selected_def newest_first_filter key conj_commute)
  moreover have "filter (\<lambda>x. row_key x < row_key r0) ?R = filter (\<lambda>x. row_key x < row_key r0) ?M"
    unfolding split by (auto intro!: filter_cong dest: down)
  ultimately show ?thesis by (simp add: r0_def)
qed

section \<open>Following the cursors\<close>

text \<open>A client reads pages until the cursor comes back empty; fuel bounds the number of pages.\<close>

fun walk_pages :: "nat \<Rightarrow> (cursor \<Rightarrow> event list \<times> cursor) \<Rightarrow> cursor \<Rightarrow> event list option" where
  "walk_pages 0 page c = None"
| "walk_pages (Suc n) page c =
     (case page c of (evs, nxt) \<Rightarrow> if cursor_Zero nxt then Some evs else map_option ((@) evs) (walk_pages n page nxt))"

lemma decoded_append: "decoded (xs @ ys) = decoded xs @ decoded ys"
  by (simp add: decoded_def)

lemma walk_pages_selected:
  assumes "events_ok t" "te_readable t" "0 < limit" "limit < max_int64" "length (selected t v q c) < n"
  shows "walk_pages n (\<lambda>c. Store_Page t v q c limit) c = Some (decoded (selected t v q c))"
  using assms(5)
proof (induction n arbitrary: c)
  case (Suc n)
  let ?R = "selected t v q c" let ?k = "nat limit - 1"
  show ?case
  proof (cases "length ?R \<le> nat limit")
    case True
    then show ?thesis using Page_result [OF assms(2-4), of v q c] by (simp add: Store_Page_def zero_cursor_def cursor_Zero_def)
  next
    case False
    then have k: "?k < length ?R" "Suc ?k = nat limit" using assms(3) by auto
    have nxt: "selected t v q (row_cursor (?R ! ?k)) = drop (nat limit) ?R" using selected_next [OF assms(1) k(1)] k(2) by simp
    have "?R ! ?k \<in> set (te_events t)" using nth_mem [OF k(1)] by (auto simp: selected_def)
    then have "\<not> cursor_Zero (row_cursor (?R ! ?k))" using assms(1) by (auto simp: events_ok_def cursor_Zero_def row_cursor_def)
    moreover have "walk_pages n (\<lambda>c. Store_Page t v q c limit) (row_cursor (?R ! ?k)) = Some (decoded (drop (nat limit) ?R))"
      using Suc.IH [of "row_cursor (?R ! ?k)"] Suc.prems nxt k by simp
    ultimately show ?thesis using False Page_result [OF assms(2-4), of v q c]
      by (simp add: Store_Page_def decoded_append [symmetric])
  qed
qed simp

text \<open>
  Following the cursors from the start lists every stored event that matches the filters exactly
  once, newest first, and comes to an end, whatever the page size and whatever was recorded and
  pruned before.
\<close>

theorem paging_lists_every_event_once:
  assumes "te_readable (tele_run rn ops)" "0 < limit" "limit < max_int64" "length (te_events (tele_run rn ops)) < n"
  shows "walk_pages n (\<lambda>c. Store_Page (tele_run rn ops) v q c limit) zero_cursor =
    Some (decoded (newest_first (filter (page_cond v q) (te_events (tele_run rn ops)))))"
proof -
  have z: "cursor_Zero zero_cursor" by (simp add: cursor_Zero_def zero_cursor_def)
  have "length (selected (tele_run rn ops) v q zero_cursor) < n"
    using le_less_trans [OF length_filter_le assms(4)] by (simp add: selected_zero [OF z])
  from walk_pages_selected [OF tele_run_ok assms(1-3) this] show ?thesis by (simp add: selected_zero [OF z])
qed

definition demo_log :: "tele_op list" where
  "demo_log = [OpRecord 5 (demo_event 5 VerdictPass GateMalware ''a''), OpRecord 7 (demo_event 7 VerdictPass GateMalware ''b''),
     OpRecord 7 (demo_event 7 VerdictBlock GateSupply ''c''), OpRecord 7 (demo_event 7 VerdictPass GateMalware ''d'')]"

theorem paging_lists_every_event_once_witness:
  "walk_pages 5 (\<lambda>c. Store_Page (tele_run demo_retention demo_log) (Some VerdictPass) [] c 1) zero_cursor =
     Some (decoded (newest_first (filter (page_cond (Some VerdictPass) []) (te_events (tele_run demo_retention demo_log)))))
   \<and> length (decoded (newest_first (filter (page_cond (Some VerdictPass) []) (te_events (tele_run demo_retention demo_log))))) = 3"
proof -
  have "te_readable (tele_run demo_retention demo_log)" "length (te_events (tele_run demo_retention demo_log)) < 5" by code_simp+
  moreover have "length (decoded (newest_first (filter (page_cond (Some VerdictPass) []) (te_events (tele_run demo_retention demo_log))))) = 3"
    by code_simp
  ultimately show ?thesis
    using paging_lists_every_event_once [of demo_retention demo_log 1 5 "Some VerdictPass" "[]"] by (simp add: max_int64_def)
qed

section \<open>Quarantine\<close>

lemma quarantine_loop_iff:
  "ev \<in> set (quarantine_loop now evs seen) \<longleftrightarrow>
   hold_key ev \<notin> set seen \<and> ev_BlockUntil ev > now \<and> find (\<lambda>e. hold_key e = hold_key ev) evs = Some ev"
  by (induction evs arbitrary: seen) auto

lemma quarantine_loop_distinct: "distinct (map hold_key (quarantine_loop now evs seen))"
proof (induction evs arbitrary: seen)
  case (Cons e evs)
  then show ?case using quarantine_loop_iff [of _ now evs "hold_key e # seen"] by auto
qed simp

text \<open>
  A package is listed as held exactly when its newest supply-chain block has not expired, and it
  is listed once: a newer record whose hold has passed releases it whatever older records say.
\<close>

theorem newest_block_decides_quarantine:
  assumes "Quarantine t now = Some held"
  shows "distinct (map hold_key held)
    \<and> (\<forall>ev. ev \<in> set held \<longleftrightarrow> ev_BlockUntil ev > now \<and>
          find (\<lambda>e. hold_key e = hold_key ev) (decoded (newest_first (filter (\<lambda>r. supply_block (er_event r)) (te_events t)))) = Some ev)"
  using assms by (auto simp: Quarantine_def quarantine_loop_iff quarantine_loop_distinct split: if_splits)

theorem newest_block_decides_quarantine_witness:
  "demo_event 7 VerdictBlock GateSupply ''c'' \<in> set (quarantine_loop 8 [demo_event 7 VerdictBlock GateSupply ''c''] [])"
proof -
  have q: "Quarantine (tele_run demo_retention demo_log) 8 = Some (quarantine_loop 8 [demo_event 7 VerdictBlock GateSupply ''c''] [])"
    by code_simp
  have "find (\<lambda>e. hold_key e = hold_key (demo_event 7 VerdictBlock GateSupply ''c''))
      (decoded (newest_first (filter (\<lambda>r. supply_block (er_event r)) (te_events (tele_run demo_retention demo_log))))) =
    Some (demo_event 7 VerdictBlock GateSupply ''c'')" "ev_BlockUntil (demo_event 7 VerdictBlock GateSupply ''c'') > 8" by code_simp+
  with newest_block_decides_quarantine [OF q] show ?thesis by blast
qed

end
