(* ===== verification/Console_API.thy ===== *)
theory Console_API
  imports Console_Registries_Correct Telemetry_Paging Local_Cache
begin

text \<open>
  The console API as a whole (\<^verbatim>\<open>internal/console/server.go\<close>, \<^verbatim>\<open>cursor.go\<close>, \<^verbatim>\<open>events.go\<close>): the
  route table with its roles, the policy, telemetry and cache handlers, and the session middleware
  in front of them. Request bodies arrive decoded, the query parameters as a function from names to
  values. The text of a policy validation error, the scanners' health and the cache behind the
  interfaces are arguments.
\<close>

section \<open>Cursors\<close>

definition maxRequestQuery :: nat where "maxRequestQuery = 256"
definition maxRequestsLimit :: int64 where "maxRequestsLimit = 500"

definition verdict_string :: "verdict \<Rightarrow> string" where
  "verdict_string v = (case v of VerdictPass \<Rightarrow> ''PASS'' | VerdictCache \<Rightarrow> ''CACHE'' | VerdictBlock \<Rightarrow> ''BLOCK'' | VerdictError \<Rightarrow> ''ERROR'')"

definition gate_string :: "gate_id \<Rightarrow> string" where
  "gate_string g = (case g of GateCache \<Rightarrow> ''cache'' | GateSupply \<Rightarrow> ''supply'' | GateCVE \<Rightarrow> ''cve'' | GateMalware \<Rightarrow> ''malware''
     | GateImageScan \<Rightarrow> ''image_scan'')"

text \<open>The verdict a parameter names; \<^term>\<open>None\<close> when it names none.\<close>

definition validVerdict :: "string \<Rightarrow> verdict option" where
  "validVerdict v = find (\<lambda>x. verdict_string x = v) [VerdictPass, VerdictCache, VerdictBlock, VerdictError]"

definition encodeCursor :: "cursor \<Rightarrow> string" where
  "encodeCursor c = (if cursor_Zero c then [] else FormatInt (wrap64 (cu_TS c)) @ '':'' @ FormatInt (cu_ID c))"

definition parseCursor :: "string \<Rightarrow> cursor option" where
  "parseCursor s =
     (case cut CHR '':'' s of
        (a, b, found) \<Rightarrow>
          if \<not> found then None
          else case (Atoi a, Atoi b) of
            (Some ts, Some i) \<Rightarrow> if i < 1 \<or> ts < 1 then None else Some \<lparr>cu_TS = ts, cu_ID = i\<rparr>
          | _ \<Rightarrow> None)"

section \<open>Wire shapes\<close>

definition omit_empty :: "string \<Rightarrow> json \<Rightarrow> bool \<Rightarrow> (string \<times> json) list" where
  "omit_empty name v absent = (if absent then [] else [(name, v)])"

definition cve_json :: "cve_finding \<Rightarrow> json" where
  "cve_json f = JObject [(''id'', JString (cf_ID f)), (''severity'', JString (severity_String (cf_Severity f))),
     (''cvss'', JNumber (cf_Score f)), (''summary'', JString (cf_Summary f))]"

definition toEventJSON :: "event \<Rightarrow> json" where
  "toEventJSON ev = JObject
     ([(''request_id'', JString (ev_RequestID ev)), (''ts'', JTime (ev_Time ev)), (''eco'', JString (ev_Ecosystem ev)),
       (''pkg'', JString (ev_Package ev)), (''ver'', JString (ev_Version ev)), (''verdict'', JString (verdict_string (ev_Verdict ev))),
       (''gate'', JString (gate_string (ev_Gate ev))), (''lat'', JNumber (of_int (ev_LatencyMS ev)))]
      @ omit_empty ''http'' (JNumber (of_int (ev_HTTPStatus ev))) (ev_HTTPStatus ev = 0)
      @ omit_empty ''reason'' (JString (ev_Reason ev)) (ev_Reason ev = [])
      @ omit_empty ''blocked_by'' (JArray (map JString (ev_BlockedBy ev))) (ev_BlockedBy ev = [])
      @ omit_empty ''cves'' (JArray (map cve_json (ev_CVEs ev))) (ev_CVEs ev = [])
      @ omit_empty ''malware'' (JObject [(''engine'', JString (ev_MalwareEngine ev)), (''signature'', JString (ev_MalwareSignature ev))])
          (ev_MalwareEngine ev = [] \<and> ev_MalwareSignature ev = [])
      @ omit_empty ''supply''
          (JObject ((''published_at'', JTime (ev_PublishedAt ev))
             # omit_empty ''block_until'' (JTime (ev_BlockUntil ev)) (ev_BlockUntil ev = zero_time)))
          (ev_PublishedAt ev = zero_time))"

definition quarantine_json :: "event \<Rightarrow> json" where
  "quarantine_json ev = JObject [(''eco'', JString (ev_Ecosystem ev)), (''pkg'', JString (ev_Package ev)), (''ver'', JString (ev_Version ev)),
     (''published_at'', JTime (ev_PublishedAt ev)), (''block_until'', JTime (ev_BlockUntil ev)), (''request_id'', JString (ev_RequestID ev))]"

section \<open>Telemetry handlers\<close>

type_synonym query = "string \<Rightarrow> string"

definition bad_request :: "string \<Rightarrow> reply" where
  "bad_request code = console_writeJSON StatusBadRequest (error_only code)"

definition requests_limit :: "query \<Rightarrow> int64 option" where
  "requests_limit q =
     (if q ''limit'' = [] then Some 100
      else case Atoi (q ''limit'') of None \<Rightarrow> None | Some n \<Rightarrow> if n < 1 then None else Some (min n maxRequestsLimit))"

definition requests_cursor :: "query \<Rightarrow> cursor option" where
  "requests_cursor q = (if q ''cursor'' = [] then Some zero_cursor else parseCursor (q ''cursor''))"

definition requests_reply :: "event list \<times> cursor \<Rightarrow> reply" where
  "requests_reply page = console_writeJSON StatusOK (JObject
     [(''requests'', JArray (map toEventJSON (fst page))), (''next_cursor'', JString (encodeCursor (snd page)))])"

definition requests :: "telemetry \<Rightarrow> query \<Rightarrow> reply" where
  "requests t q =
     (case requests_limit q of
        None \<Rightarrow> bad_request ''invalid_limit''
      | Some limit \<Rightarrow>
          if q ''verdict'' \<noteq> [] \<and> validVerdict (q ''verdict'') = None then bad_request ''invalid_verdict''
          else let txt = trim_space (q ''q'') in
               if length txt > maxRequestQuery then bad_request ''invalid_query''
               else case requests_cursor q of
                 None \<Rightarrow> bad_request ''invalid_cursor''
               | Some c \<Rightarrow> requests_reply (Store_Page t (if q ''verdict'' = [] then None else validVerdict (q ''verdict'')) txt c limit))"

definition daily_days :: "query \<Rightarrow> int64 option" where
  "daily_days q =
     (if q ''days'' = [] then Some 30
      else case Atoi (q ''days'') of None \<Rightarrow> None | Some n \<Rightarrow> if n < 1 then None else Some (if n > 365 then 365 else n))"

definition all_gates :: "gate_id list" where
  "all_gates = [GateCache, GateSupply, GateCVE, GateMalware, GateImageScan]"

definition gates_json :: "gate_map \<Rightarrow> json" where
  "gates_json m = JObject (concat (map (\<lambda>g. case m g of None \<Rightarrow> []
     | Some c \<Rightarrow> [(gate_string g, JObject [(''pass'', JNumber (of_nat (gc_Pass c))), (''block'', JNumber (of_nat (gc_Block c)))])]) all_gates))"

definition daily_json :: "(int \<Rightarrow> string) \<Rightarrow> int \<times> aggregate \<Rightarrow> json" where
  "daily_json format_day da = (case da of (d, a) \<Rightarrow> JObject
     [(''day'', JString (format_day d)), (''requests'', JNumber (of_nat (ag_requests a))), (''cache_hits'', JNumber (of_nat (ag_cacheHits a))),
      (''blocked'', JNumber (of_nat (ag_blocked a))), (''errors'', JNumber (of_nat (ag_errors a))),
      (''supply_blocked'', JNumber (of_nat (ag_supplyBlocked a))), (''cve_blocked'', JNumber (of_nat (ag_cveBlocked a))),
      (''malware_blocked'', JNumber (of_nat (ag_malwareBlocked a))), (''denylisted'', JNumber (of_nat (ag_denylisted a))),
      (''gates'', gates_json (ag_gates a))])"

text \<open>A client that left gets no answer: the reply is then \<^term>\<open>None\<close>.\<close>

definition dailyMetrics :: "(int \<Rightarrow> string) \<Rightarrow> telemetry \<Rightarrow> bool \<Rightarrow> query \<Rightarrow> reply option" where
  "dailyMetrics format_day t client_gone q =
     (case daily_days q of
        None \<Rightarrow> Some (bad_request ''invalid_days'')
      | Some days \<Rightarrow>
          (case DailyMetrics t days of
             None \<Rightarrow> if client_gone then None else Some (console_writeJSON StatusInternalServerError (error_only ''metrics_unavailable''))
           | Some rows \<Rightarrow> Some (console_writeJSON StatusOK (JObject [(''daily'', JArray (map (daily_json format_day) rows))]))))"

definition quarantine :: "telemetry \<Rightarrow> gotime \<Rightarrow> reply" where
  "quarantine t now = console_writeJSON StatusOK (JObject [(''quarantine'', JArray (map quarantine_json (Store_Quarantine t now)))])"

definition hit_rate :: "aggregate \<Rightarrow> rat" where
  "hit_rate a = (if ag_requests a > 0 then of_nat (ag_cacheHits a) / of_nat (ag_requests a) else 0)"

text \<open>The cache statistics are \<^term>\<open>None\<close> without a cache and after a failed read.\<close>

definition overview :: "telemetry \<Rightarrow> gotime \<Rightarrow> gotime \<Rightarrow> cache_stats option \<Rightarrow> int64 \<Rightarrow> int64 \<Rightarrow> json list \<Rightarrow> reply" where
  "overview t started now stats maxBytes staleDays scanners =
     (let a = Store_Snapshot t;
          cs = (case stats of None \<Rightarrow> \<lparr>cs_Entries = 0, cs_SizeBytes = 0, cs_Evictions = 0, cs_StaleBytes = 0\<rparr> | Some c \<Rightarrow> c)
      in console_writeJSON StatusOK (JObject
        [(''started_at'', JTime started), (''uptime_seconds'', JNumber (of_int (go_div (time_sub now started) Second))),
         (''kpis'', JObject
           [(''requests_total'', JNumber (of_nat (ag_requests a))), (''cache_hits'', JNumber (of_nat (ag_cacheHits a))),
            (''hit_rate'', JNumber (hit_rate a)), (''blocked_total'', JNumber (of_nat (ag_blocked a))), (''errors'', JNumber (of_nat (ag_errors a))),
            (''supply_blocked'', JNumber (of_nat (ag_supplyBlocked a))), (''cve_blocked'', JNumber (of_nat (ag_cveBlocked a))),
            (''malware_blocked'', JNumber (of_nat (ag_malwareBlocked a))), (''denylisted'', JNumber (of_nat (ag_denylisted a)))]),
         (''gates'', gates_json (ag_gates a)),
         (''cache'', JObject
           [(''objects'', JNumber (of_nat (cs_Entries cs))), (''size_bytes'', JNumber (of_int (cs_SizeBytes cs))), (''max_bytes'', JNumber (of_int maxBytes)),
            (''hit_rate'', JNumber (hit_rate a)), (''evictions'', JNumber (of_int (cs_Evictions cs))),
            (''stale_bytes'', JNumber (of_int (cs_StaleBytes cs))), (''stale_after_days'', JNumber (of_int staleDays))]),
         (''scanners'', JArray scanners)]))"

section \<open>The cache\<close>

text \<open>What \<open>PurgeStale\<close> returned: entries removed, bytes freed, and whether it failed.\<close>

definition cacheCleanup :: "('c \<Rightarrow> (int64 \<times> int64 \<times> bool) \<times> 'c) option \<Rightarrow> bool \<Rightarrow> 'c \<Rightarrow> reply option \<times> 'c" where
  "cacheCleanup purger client_gone c =
     (case purger of
        None \<Rightarrow> (Some (console_writeJSON StatusNotFound (error_only ''no_cache'')), c)
      | Some purge \<Rightarrow>
          (case purge c of
             ((removed, freed, failed), c') \<Rightarrow>
               if failed \<and> client_gone then (None, c')
               else if failed then (Some (console_writeJSON StatusInternalServerError (error_only ''purge_failed'')), c')
               else (Some (console_writeJSON StatusOK (JObject
                 [(''removed'', JNumber (of_int removed)), (''freed_bytes'', JNumber (of_int freed))])), c')))"

section \<open>The policy\<close>

record policy_patch =
  pt_Mode :: "string option"
  pt_MinAgeHours :: "int64 option"
  pt_CVEBlockOn :: "string option"
  pt_AllowlistSupply :: "string list option"
  pt_AllowlistCVE :: "string list option"
  pt_Denylist :: "string list option"

definition or_else :: "'a option \<Rightarrow> 'a \<Rightarrow> 'a" where
  "or_else x d = (case x of None \<Rightarrow> d | Some v \<Rightarrow> v)"

definition apply_patch :: "policy_patch \<Rightarrow> runtime_params \<Rightarrow> runtime_params" where
  "apply_patch pt cur =
     \<lparr>p_Mode = or_else (pt_Mode pt) (p_Mode cur), p_MinAgeHours = or_else (pt_MinAgeHours pt) (p_MinAgeHours cur),
      p_CVEBlockOn = or_else (pt_CVEBlockOn pt) (p_CVEBlockOn cur), p_AllowlistSupply = or_else (pt_AllowlistSupply pt) (p_AllowlistSupply cur),
      p_AllowlistCVE = or_else (pt_AllowlistCVE pt) (p_AllowlistCVE cur), p_Denylist = or_else (pt_Denylist pt) (p_Denylist cur)\<rparr>"

type_synonym policy_text = "field \<Rightarrow> message \<Rightarrow> string \<times> string"

definition writePolicy :: "runtime \<Rightarrow> int \<Rightarrow> reply" where
  "writePolicy rt status =
     (let p = Current rt in console_writeJSON status (JObject
        [(''mode'', JString (p_Mode p)), (''min_age_hours'', JNumber (of_int (p_MinAgeHours p))), (''cve_block_on'', JString (p_CVEBlockOn p)),
         (''allowlist_supply'', JArray (map JString (p_AllowlistSupply p))), (''allowlist_cve'', JArray (map JString (p_AllowlistCVE p))),
         (''denylist'', JArray (map JString (p_Denylist p))), (''persistence'', JString (if Persistent rt then ''database'' else ''runtime''))]))"

definition writePolicyError :: "policy_text \<Rightarrow> policy_error \<Rightarrow> reply" where
  "writePolicyError pt e =
     (case e of
        ValidationError f m \<Rightarrow> console_writeJSON StatusBadRequest (error_field ''invalid_policy'' (fst (pt f m)) (snd (pt f m)))
      | PersistError \<Rightarrow> console_writeJSON StatusInternalServerError (error_only ''persist_failed'')
      | _ \<Rightarrow> console_writeJSON StatusInternalServerError (error_only ''apply_failed''))"

definition decodePolicyBody :: "'a body \<Rightarrow> reply + 'a" where
  "decodePolicyBody b =
     (case b of
        BodyTooLarge \<Rightarrow> Inl (console_writeJSON 413 (error_field ''invalid_policy'' ''body'' ''request body too large''))
      | BodyInvalid msg \<Rightarrow> Inl (console_writeJSON StatusBadRequest (error_field ''invalid_policy'' ''body'' msg))
      | BodyOk v \<Rightarrow> Inr v)"

definition putPolicy :: "policy_text \<Rightarrow> runtime \<Rightarrow> policy_patch body \<Rightarrow> reply \<times> runtime" where
  "putPolicy pt rt b =
     (case decodePolicyBody b of
        Inl rp \<Rightarrow> (rp, rt)
      | Inr patch \<Rightarrow>
          (case Runtime_Update rt (apply_patch patch) of
             (Some e, rt') \<Rightarrow> (writePolicyError pt e, rt')
           | (None, rt') \<Rightarrow> (writePolicy rt' StatusOK, rt')))"

definition editList :: "policy_text \<Rightarrow> bool \<Rightarrow> runtime \<Rightarrow> string \<Rightarrow> string body \<Rightarrow> reply \<times> runtime" where
  "editList pt add rt lst b =
     (case decodePolicyBody b of
        Inl rp \<Rightarrow> (rp, rt)
      | Inr entry \<Rightarrow>
          (case EditList rt lst entry add of
             (Some e, _, rt') \<Rightarrow> (writePolicyError pt e, rt')
           | (None, _, rt') \<Rightarrow> (writePolicy rt' StatusOK, rt')))"

section \<open>Routes and roles\<close>

datatype console_request =
    GetOverview
  | GetRequests query
  | GetEvents
  | GetQuarantine
  | GetPolicy
  | PutPolicy "policy_patch body"
  | AddToList string "string body"
  | RemoveFromList string "string body"
  | GetRegistries
  | PutRegistries "registry_info list body"
  | CacheCleanup
  | GetDaily query
  | ManageUsers users_request

fun allowed_roles :: "console_request \<Rightarrow> string list" where
  "allowed_roles (PutPolicy _) = [RoleAdmin]"
| "allowed_roles (PutRegistries _) = [RoleAdmin]"
| "allowed_roles CacheCleanup = [RoleAdmin]"
| "allowed_roles (ManageUsers _) = [RoleAdmin]"
| "allowed_roles _ = [RoleAdmin, RoleOperator]"

text \<open>
  What the handlers work on. The policy and the registries are rows of one settings table, that of the policy's
  runtime (\<^verbatim>\<open>settings_adapters.go\<close>).
\<close>

record 'c console_state =
  cn_policy :: runtime
  cn_users :: "user_store option"
  cn_telemetry :: telemetry
  cn_cache :: 'c

record 'c api_env =
  an_console :: console_env
  an_users :: user_env
  an_policy_text :: policy_text
  an_registries :: registry_config
  an_purger :: "('c \<Rightarrow> (int64 \<times> int64 \<times> bool) \<times> 'c) option"
  an_stats :: "'c \<Rightarrow> cache_stats option"
  an_maxBytes :: int64
  an_staleDays :: int64
  an_scanners :: "json list"
  an_started :: gotime
  an_format_day :: "int \<Rightarrow> string"

text \<open>
  The handlers; an event stream begins with its header, and its frames are those of
  \<^theory_text>\<open>Broadcaster\<close>. \<open>client_gone\<close> tells whether the request's context has ended.
\<close>

definition stream_header :: reply where
  "stream_header = \<lparr>rp_Status = StatusOK,
     rp_Header = hdr_Set (hdr_Set (hdr_Set no_header ''Content-Type'' ''text/event-stream'') ''Cache-Control'' ''no-cache'') ''X-Accel-Buffering'' ''no'',
     rp_Body = NoBody\<rparr>"

fun console_handler :: "'c api_env \<Rightarrow> string \<Rightarrow> gotime \<Rightarrow> bool \<Rightarrow> 'c console_state \<Rightarrow> console_request \<Rightarrow> reply option \<times> 'c console_state" where
  "console_handler an actor now gone st GetOverview =
     (Some (overview (cn_telemetry st) (an_started an) now (an_stats an (cn_cache st)) (an_maxBytes an) (an_staleDays an) (an_scanners an)), st)"
| "console_handler an actor now gone st (GetRequests q) = (Some (requests (cn_telemetry st) q), st)"
| "console_handler an actor now gone st GetEvents = (Some stream_header, st)"
| "console_handler an actor now gone st GetQuarantine = (Some (quarantine (cn_telemetry st) now), st)"
| "console_handler an actor now gone st GetPolicy = (Some (writePolicy (cn_policy st) StatusOK), st)"
| "console_handler an actor now gone st (PutPolicy b) =
     (case putPolicy (an_policy_text an) (cn_policy st) b of (rp, rt) \<Rightarrow> (Some rp, st\<lparr>cn_policy := rt\<rparr>))"
| "console_handler an actor now gone st (AddToList l b) =
     (case editList (an_policy_text an) True (cn_policy st) l b of (rp, rt) \<Rightarrow> (Some rp, st\<lparr>cn_policy := rt\<rparr>))"
| "console_handler an actor now gone st (RemoveFromList l b) =
     (case editList (an_policy_text an) False (cn_policy st) l b of (rp, rt) \<Rightarrow> (Some rp, st\<lparr>cn_policy := rt\<rparr>))"
| "console_handler an actor now gone st GetRegistries = (Some (registries (an_registries an) (rt_store (cn_policy st))), st)"
| "console_handler an actor now gone st (PutRegistries b) =
     (case putRegistries (an_console an) (an_registries an) (rt_store (cn_policy st)) b of
        (rp, s) \<Rightarrow> (Some rp, st\<lparr>cn_policy := (cn_policy st)\<lparr>rt_store := s\<rparr>\<rparr>))"
| "console_handler an actor now gone st CacheCleanup =
     (case cacheCleanup (an_purger an) gone (cn_cache st) of (rp, c) \<Rightarrow> (rp, st\<lparr>cn_cache := c\<rparr>))"
| "console_handler an actor now gone st (GetDaily q) = (dailyMetrics (an_format_day an) (cn_telemetry st) gone q, st)"
| "console_handler an actor now gone st (ManageUsers u) =
     (case userStore (cn_users st) (\<lambda>s. users_api (an_users an) actor now s u) of (rp, us) \<Rightarrow> (Some rp, st\<lparr>cn_users := us\<rparr>))"

definition forbidden :: reply where
  "forbidden = console_writeJSON StatusForbidden (error_only ''forbidden'')"

definition requireRole :: "identity option \<Rightarrow> string list \<Rightarrow> 's \<Rightarrow> reply option \<times> 's \<Rightarrow> reply option \<times> 's" where
  "requireRole ident allowed st served =
     (case ident of None \<Rightarrow> (Some forbidden, st) | Some i \<Rightarrow> if id_Role i \<in> set allowed then served else (Some forbidden, st))"

definition console_serve ::
  "'c api_env \<Rightarrow> identity option \<Rightarrow> gotime \<Rightarrow> bool \<Rightarrow> 'c console_state \<Rightarrow> console_request \<Rightarrow> reply option \<times> 'c console_state" where
  "console_serve an ident now gone st q =
     requireRole ident (allowed_roles q) st
       (console_handler an (case ident of None \<Rightarrow> [] | Some i \<Rightarrow> id_Username i) now gone st q)"

section \<open>The route table\<close>

text \<open>
  The patterns \<open>NewHandler\<close> registers, each with its method: a segment is literal or a wildcard, which takes any one
  segment but the empty one a trailing slash leaves. A pattern for GET answers HEAD as well. What a handler reads of the request beyond its path is
  the payload: the query, and the body as that handler decodes it.
\<close>

record console_payload =
  py_query :: query
  py_patch :: "policy_patch body"
  py_entry :: "string body"
  py_registries :: "registry_info list body"
  py_create :: "(string \<times> string \<times> string) body"
  py_user_patch :: "(string option \<times> bool option) body"
  py_password :: "string body"

datatype route_segment = Literal string | Wildcard

type_synonym console_pattern = "string \<times> route_segment list \<times> (console_payload \<Rightarrow> string \<Rightarrow> console_request)"

definition console_patterns :: "console_pattern list" where
  "console_patterns =
     [(''GET'', [Literal ''api'', Literal ''overview''], \<lambda>py w. GetOverview),
      (''GET'', [Literal ''api'', Literal ''requests''], \<lambda>py w. GetRequests (py_query py)),
      (''GET'', [Literal ''api'', Literal ''events''], \<lambda>py w. GetEvents),
      (''GET'', [Literal ''api'', Literal ''quarantine''], \<lambda>py w. GetQuarantine),
      (''GET'', [Literal ''api'', Literal ''policy''], \<lambda>py w. GetPolicy),
      (''PUT'', [Literal ''api'', Literal ''policy''], \<lambda>py w. PutPolicy (py_patch py)),
      (''POST'', [Literal ''api'', Literal ''policy'', Literal ''lists'', Wildcard], \<lambda>py w. AddToList w (py_entry py)),
      (''DELETE'', [Literal ''api'', Literal ''policy'', Literal ''lists'', Wildcard], \<lambda>py w. RemoveFromList w (py_entry py)),
      (''GET'', [Literal ''api'', Literal ''registries''], \<lambda>py w. GetRegistries),
      (''PUT'', [Literal ''api'', Literal ''registries''], \<lambda>py w. PutRegistries (py_registries py)),
      (''POST'', [Literal ''api'', Literal ''cache'', Literal ''cleanup''], \<lambda>py w. CacheCleanup),
      (''GET'', [Literal ''api'', Literal ''metrics'', Literal ''daily''], \<lambda>py w. GetDaily (py_query py)),
      (''GET'', [Literal ''api'', Literal ''users''], \<lambda>py w. ManageUsers ListUsers),
      (''POST'', [Literal ''api'', Literal ''users''], \<lambda>py w. ManageUsers (CreateUser (py_create py))),
      (''PATCH'', [Literal ''api'', Literal ''users'', Wildcard], \<lambda>py w. ManageUsers (PatchUser w (py_user_patch py))),
      (''POST'', [Literal ''api'', Literal ''users'', Wildcard, Literal ''password''], \<lambda>py w. ManageUsers (ResetUserPassword w (py_password py))),
      (''DELETE'', [Literal ''api'', Literal ''users'', Wildcard], \<lambda>py w. ManageUsers (DeleteUser w))]"

fun segment_matches :: "route_segment \<Rightarrow> string \<Rightarrow> bool" where
  "segment_matches (Literal s) t = (s = t)"
| "segment_matches Wildcard t = (t \<noteq> [])"

definition method_matches :: "string \<Rightarrow> string \<Rightarrow> bool" where
  "method_matches pm m \<longleftrightarrow> pm = m \<or> pm = ''GET'' \<and> m = ''HEAD''"

text \<open>The value of the wildcard: no pattern has two.\<close>

fun path_value :: "route_segment list \<Rightarrow> string list \<Rightarrow> string" where
  "path_value (Wildcard # _) (t # _) = t"
| "path_value (_ # ps) (_ # ts) = path_value ps ts"
| "path_value _ _ = []"

text \<open>A path none of the patterns has is not found; a path with patterns for other methods only is answered with those.\<close>

definition comma_list :: "string list \<Rightarrow> string" where
  "comma_list xs = (case xs of [] \<Rightarrow> [] | x # ys \<Rightarrow> x @ concat (map (\<lambda>y. '', '' @ y) ys))"

definition mux_refusal :: "console_pattern list \<Rightarrow> reply" where
  "mux_refusal ps =
     (if ps = [] then http_Error no_header ''404 page not found'' 404
      else http_Error (hdr_Set no_header ''Allow'' (comma_list
             (filter (\<lambda>x. list_ex (\<lambda>p. method_matches (fst p) x) ps) [''DELETE'', ''GET'', ''HEAD'', ''PATCH'', ''POST'', ''PUT''])))
             ''Method Not Allowed'' 405)"

definition console_route :: "string \<Rightarrow> string list \<Rightarrow> console_payload \<Rightarrow> reply + console_request" where
  "console_route m segs py =
     (let ps = filter (\<lambda>p. list_all2 segment_matches (fst (snd p)) segs) console_patterns in
      case find (\<lambda>p. method_matches (fst p) m) ps of
        None \<Rightarrow> Inl (mux_refusal ps)
      | Some (_, pat, mk) \<Rightarrow> Inr (mk py (path_value pat segs)))"

definition console_mux ::
  "'c api_env \<Rightarrow> identity option \<Rightarrow> gotime \<Rightarrow> bool \<Rightarrow> 'c console_state \<Rightarrow> string \<Rightarrow> string list \<Rightarrow> console_payload
   \<Rightarrow> reply option \<times> 'c console_state" where
  "console_mux an ident now gone st m segs py =
     (case console_route m segs py of Inl rp \<Rightarrow> (Some rp, st) | Inr q \<Rightarrow> console_serve an ident now gone st q)"

end
