(* ===== verification/Console_API_Correct.thy ===== *)
theory Console_API_Correct
  imports Console_API
begin

text \<open>
  What the console API guarantees: a cursor it hands out is a cursor it takes back, an operator
  changes nothing but the policy's lists, nothing changes without a live session whose account
  has the role, and the policy screen can be sent back unchanged.
\<close>

section \<open>Cursors\<close>

lemma nat_string_no_colon: "CHR '':'' \<notin> set (nat_string n)"
  using nat_string_digits [of n] by (auto simp: list_all_iff is_digit_def)

lemma FormatInt_no_colon: "CHR '':'' \<notin> set (FormatInt i)"
  using nat_string_no_colon by (simp add: FormatInt_def)

lemma parse_encode:
  assumes "1 \<le> cu_TS c" "cu_TS c \<le> max_int64" "1 \<le> cu_ID c" "cu_ID c \<le> max_int64"
  shows "parseCursor (encodeCursor c) = Some c"
proof -
  have "wrap64 (cu_TS c) = cu_TS c" using assms by (intro wrap64_id) (simp_all add: min_int64_def)
  with assms show ?thesis
    by (simp add: parseCursor_def encodeCursor_def cursor_Zero_def cut_found FormatInt_no_colon Atoi_FormatInt)
qed

lemma Atoi_range: "Atoi s = Some n \<Longrightarrow> min_int64 \<le> n \<and> n \<le> max_int64"
  by (auto simp: Atoi_def Let_def split: if_splits)

lemma parseCursor_range:
  "parseCursor s = Some c \<Longrightarrow> 1 \<le> cu_TS c \<and> cu_TS c \<le> max_int64 \<and> 1 \<le> cu_ID c \<and> cu_ID c \<le> max_int64"
  by (auto simp: parseCursor_def split: prod.splits if_splits option.splits dest: Atoi_range)

text \<open>
  Whatever text a client sends as a cursor, what is accepted names a position with positive
  coordinates, and its canonical rendering is accepted as the same position.
\<close>

theorem accepted_cursors_round_trip:
  assumes "parseCursor s = Some c"
  shows "1 \<le> cu_TS c \<and> 1 \<le> cu_ID c \<and> \<not> cursor_Zero c \<and> parseCursor (encodeCursor c) = Some c"
  using parseCursor_range [OF assms] parse_encode [of c] by (auto simp: cursor_Zero_def)

theorem accepted_cursors_round_trip_witness:
  "parseCursor (encodeCursor \<lparr>cu_TS = 7, cu_ID = 3\<rparr>) = Some \<lparr>cu_TS = 7, cu_ID = 3\<rparr>"
proof -
  have "parseCursor ''+007:3'' = Some \<lparr>cu_TS = 7, cu_ID = 3\<rparr>" by code_simp
  from accepted_cursors_round_trip [OF this] show ?thesis by simp
qed

text \<open>The cursor a page hands out.\<close>

lemma Store_Page_cursor:
  assumes "events_ok t" "te_readable t" "0 < limit" "limit < max_int64" "Store_Page t v q c limit = (evs, nxt)"
  shows "nxt = zero_cursor \<or> (\<exists>r\<in>set (te_events t). nxt = row_cursor r)"
proof (cases "length (selected t v q c) \<le> nat limit")
  case True
  with Page_result [OF assms(2-4), of v q c] assms(5) show ?thesis by (simp add: Store_Page_def)
next
  case False
  then have "nat limit - 1 < length (selected t v q c)" by simp
  from nth_mem [OF this] have "selected t v q c ! (nat limit - 1) \<in> set (te_events t)" by (auto simp: selected_def)
  with False Page_result [OF assms(2-4), of v q c] assms(5) show ?thesis by (auto simp: Store_Page_def)
qed

lemma requests_limit_range: "requests_limit q = Some limit \<Longrightarrow> 1 \<le> limit \<and> limit \<le> maxRequestsLimit"
  by (auto simp: requests_limit_def maxRequestsLimit_def split: if_splits option.splits)

text \<open>
  Paging works through the API: the cursor printed in an answer, sent back with the next request,
  is read as the position the store gave out, as long as the events carry times after 1970.
\<close>

theorem answered_cursor_is_accepted:
  assumes "te_readable (tele_run rn ops)" "requests_limit q = Some limit"
    and "Store_Page (tele_run rn ops) v txt c limit = (evs, nxt)"
    and "\<forall>r\<in>set (te_events (tele_run rn ops)). 1 \<le> er_ts r" "te_seq (tele_run rn ops) \<le> max_int64"
  shows "requests_cursor (q(''cursor'' := encodeCursor nxt)) = Some nxt"
proof -
  have ok: "events_ok (tele_run rn ops)" by (rule tele_run_ok)
  have lim: "0 < limit" "limit < max_int64" using requests_limit_range [OF assms(2)] by (auto simp: maxRequestsLimit_def max_int64_def)
  consider "nxt = zero_cursor" | r where "r \<in> set (te_events (tele_run rn ops))" "nxt = row_cursor r"
    using Store_Page_cursor [OF ok assms(1) lim assms(3)] by blast
  then show ?thesis
  proof cases
    case 1
    then show ?thesis by (simp add: requests_cursor_def encodeCursor_def cursor_Zero_def zero_cursor_def)
  next
    case 2
    then have "1 \<le> cu_TS nxt" "cu_TS nxt \<le> max_int64" "1 \<le> cu_ID nxt" "cu_ID nxt \<le> max_int64"
      using ok assms(4,5) by (auto simp: events_ok_def row_cursor_def)
    moreover have "encodeCursor nxt \<noteq> []" using calculation by (simp add: encodeCursor_def cursor_Zero_def)
    ultimately show ?thesis using parse_encode [of nxt] by (simp add: requests_cursor_def)
  qed
qed

theorem answered_cursor_is_accepted_witness:
  "requests_cursor ((\<lambda>k. if k = ''limit'' then ''1'' else [])(''cursor'' :=
      encodeCursor (snd (Store_Page (tele_run demo_retention demo_log) None [] zero_cursor 1)))) =
    Some (snd (Store_Page (tele_run demo_retention demo_log) None [] zero_cursor 1))"
proof (rule answered_cursor_is_accepted)
  show "te_readable (tele_run demo_retention demo_log)" "te_seq (tele_run demo_retention demo_log) \<le> max_int64"
    "\<forall>r\<in>set (te_events (tele_run demo_retention demo_log)). 1 \<le> er_ts r" by code_simp+
  show "requests_limit (\<lambda>k. if k = ''limit'' then ''1'' else []) = Some 1" by code_simp
qed (rule prod.collapse [symmetric])

section \<open>The policy screen\<close>

lemma updateLocked_params:
  "updateLocked r p = (err, r') \<Longrightarrow> Current r' = (if err = None then trimmed_params p else Current r) \<and> (err \<noteq> None \<longrightarrow> r' = r)"
  using updateLocked_ok [of r p r'] updateLocked_error [of r p _ r'] by (cases err) auto

definition full_patch :: "runtime_params \<Rightarrow> policy_patch" where
  "full_patch p = \<lparr>pt_Mode = Some (p_Mode p), pt_MinAgeHours = Some (p_MinAgeHours p), pt_CVEBlockOn = Some (p_CVEBlockOn p),
     pt_AllowlistSupply = Some (p_AllowlistSupply p), pt_AllowlistCVE = Some (p_AllowlistCVE p), pt_Denylist = Some (p_Denylist p)\<rparr>"

lemma apply_full_patch: "apply_patch (full_patch p) cur = p"
  by (simp add: apply_patch_def full_patch_def or_else_def)

text \<open>
  A policy update changes the fields it names and no other, trims the lists it installs, and an
  update that is refused leaves the policy alone; sending back what the screen showed keeps a
  valid policy as it is.
\<close>

theorem putPolicy_changes_named_fields_only:
  assumes "putPolicy pt rt (BodyOk patch) = (rp, rt')"
  shows "(rp_Status rp = StatusOK \<and> Current rt' = trimmed_params (apply_patch patch (Current rt))
      \<and> (pt_Mode patch = None \<longrightarrow> p_Mode (Current rt') = p_Mode (Current rt))
      \<and> (pt_MinAgeHours patch = None \<longrightarrow> p_MinAgeHours (Current rt') = p_MinAgeHours (Current rt))
      \<and> (pt_CVEBlockOn patch = None \<longrightarrow> p_CVEBlockOn (Current rt') = p_CVEBlockOn (Current rt)))
    \<or> (rp_Status rp \<noteq> StatusOK \<and> rt' = rt)"
proof -
  obtain err r1 where u: "updateLocked rt (apply_patch patch (Current rt)) = (err, r1)" by (meson surj_pair)
  show ?thesis
  proof (cases err)
    case None
    then have "rp = writePolicy rt' StatusOK" "rt' = r1" using assms u by (auto simp: putPolicy_def decodePolicyBody_def Runtime_Update_def)
    with updateLocked_params [OF u] None show ?thesis
      by (simp add: writePolicy_def console_writeJSON_def Let_def trimmed_params_def apply_patch_def or_else_def)
  next
    case (Some e)
    then have "rp = writePolicyError pt e" "rt' = r1" using assms u by (auto simp: putPolicy_def decodePolicyBody_def Runtime_Update_def)
    with updateLocked_params [OF u] Some show ?thesis
      by (simp add: writePolicyError_def console_writeJSON_def split: policy_error.splits)
  qed
qed

definition demo_runtime :: runtime where
  "demo_runtime = NewRuntime sample_sc sample_cve sample_profile []"

definition mode_patch :: "string \<Rightarrow> policy_patch" where
  "mode_patch m = \<lparr>pt_Mode = Some m, pt_MinAgeHours = None, pt_CVEBlockOn = None, pt_AllowlistSupply = None, pt_AllowlistCVE = None, pt_Denylist = None\<rparr>"

definition demo_text :: policy_text where "demo_text f m = (''f'', ''m'')"

theorem putPolicy_changes_named_fields_only_witness:
  "p_CVEBlockOn (Current (snd (putPolicy demo_text demo_runtime (BodyOk (mode_patch ''dry_run''))))) = p_CVEBlockOn (Current demo_runtime)"
proof -
  from putPolicy_changes_named_fields_only [OF prod.collapse [symmetric], of demo_text demo_runtime "mode_patch ''dry_run''"]
  show ?thesis by (auto simp: mode_patch_def)
qed

section \<open>Roles\<close>

text \<open>
  A runtime whose lists were edited, or which was left alone: mode, minimum age and severity are as before, and everything else of it
  (the rebuilt engine and filter, the policy row of the settings table, the profile, the other rows) follows from the new lists.
\<close>

definition same_settings :: "runtime \<Rightarrow> runtime \<Rightarrow> bool" where
  "same_settings r r' \<longleftrightarrow> r' = r \<or> r' = after_edit r (Current r') \<and> p_Mode (Current r') = p_Mode (Current r)
     \<and> p_MinAgeHours (Current r') = p_MinAgeHours (Current r) \<and> p_CVEBlockOn (Current r') = p_CVEBlockOn (Current r)"

lemma editList_settings:
  assumes "editList pt add rt l b = (rp, rt')"
  shows "same_settings rt rt' \<and> (rt' \<noteq> rt \<longrightarrow> (\<exists>e. b = BodyOk e))"
proof (cases b)
  case (BodyOk entry)
  obtain err changed r1 where e: "EditList rt l entry add = (err, changed, r1)" by (metis prod_cases3)
  with assms BodyOk have "rt' = r1" by (auto simp: editList_def decodePolicyBody_def split: option.splits)
  from e have "same_settings rt rt'"
  proof (cases rule: EditList_cases)
    case (updated xs)
    show ?thesis
    proof (cases err)
      case None
      with updateLocked_installs [of rt "set_list l xs (Current rt)" r1] updated \<open>rt' = r1\<close>
      have "rt' = after_edit rt (trimmed_params (set_list l xs (Current rt)))" by simp
      then show ?thesis by (auto simp: same_settings_def trimmed_params_def set_list_def)
    next
      case (Some e)
      with updateLocked_error [of rt "set_list l xs (Current rt)" e r1] updated \<open>rt' = r1\<close> show ?thesis by (simp add: same_settings_def)
    qed
  qed (simp_all add: \<open>rt' = r1\<close> same_settings_def)
  with BodyOk show ?thesis by blast
qed (use assms in \<open>auto simp: editList_def decodePolicyBody_def same_settings_def\<close>)

lemma console_serve_refused:
  "(case ident of None \<Rightarrow> True | Some i \<Rightarrow> id_Role i \<notin> set (allowed_roles q)) \<Longrightarrow> console_serve an ident now gone st q = (Some forbidden, st)"
  by (auto simp: console_serve_def requireRole_def split: option.splits)

text \<open>C19: An operator, like any session that is not an administrator's, cannot touch accounts,
  registries or the cache, and of the policy only the three lists, by a request that adds or removes an entry: the mode, the minimum age and the
  severity stay, and the settings table, engine and filter change to what the new lists give and in nothing else. A request without an
  identity changes nothing at all.
\<close>

theorem operators_edit_lists_only:
  assumes "console_serve an ident now gone st q = (rp, st')"
    and "\<forall>i. ident = Some i \<longrightarrow> id_Role i \<noteq> RoleAdmin"
  shows "st' = st\<lparr>cn_policy := cn_policy st'\<rparr> \<and> same_settings (cn_policy st) (cn_policy st') \<and> (ident = None \<longrightarrow> st' = st)
    \<and> (st' \<noteq> st \<longrightarrow> (\<exists>l e. q = AddToList l (BodyOk e) \<or> q = RemoveFromList l (BodyOk e)))"
proof (cases "case ident of None \<Rightarrow> True | Some i \<Rightarrow> id_Role i \<notin> set (allowed_roles q)")
  case True
  with assms(1) console_serve_refused have "st' = st" by (metis prod.inject)
  then show ?thesis by (simp add: same_settings_def)
next
  case False
  then obtain i where i: "ident = Some i" "id_Role i \<in> set (allowed_roles q)" by (auto split: option.splits)
  with assms(2) have q: "RoleOperator \<in> set (allowed_roles q)" by (cases q) auto
  have "console_handler an (id_Username i) now gone st q = (rp, st')"
    using assms(1) i by (simp add: console_serve_def requireRole_def)
  moreover have "RoleOperator \<noteq> RoleAdmin" by (simp add: RoleOperator_def RoleAdmin_def)
  ultimately show ?thesis using q i
    by (cases q) (auto simp: same_settings_def [of r r for r] split: prod.splits dest!: editList_settings)
qed

section \<open>Behind the sessions\<close>

text \<open>\<open>buildRootHandler\<close> mounts the API behind the session middleware, on the same accounts.\<close>

text \<open>A missing account store would end the request in a panic; \<open>buildRootHandler\<close> always passes one.\<close>

definition console_api ::
  "auth_env \<Rightarrow> sessions \<Rightarrow> 'c api_env \<Rightarrow> gotime \<Rightarrow> bool \<Rightarrow> 'c console_state \<Rightarrow> auth_request \<Rightarrow> string list \<Rightarrow> console_payload
   \<Rightarrow> reply option \<times> 'c console_state" where
  "console_api ae se an now gone st r segs py =
     (case cn_users st of
        None \<Rightarrow> (None, st)
      | Some us \<Rightarrow>
          (case Middleware sqlite_users ae se us now r of
             Inl rp \<Rightarrow> (Some (reply.truncate rp), st)
           | Inr (ident, _) \<Rightarrow> console_mux an (Some ident) now gone st (ar_Method r) segs py))"

text \<open>The requests that only read: every pattern for another method than a mutating one leads to one of them.\<close>

fun only_reads :: "console_request \<Rightarrow> bool" where
  "only_reads (PutPolicy _) = False"
| "only_reads (AddToList _ _) = False"
| "only_reads (RemoveFromList _ _) = False"
| "only_reads (PutRegistries _) = False"
| "only_reads CacheCleanup = False"
| "only_reads (ManageUsers u) = (u = ListUsers)"
| "only_reads _ = True"

lemma only_reads_keeps: "only_reads q \<Longrightarrow> console_handler an actor now gone st q = (rp, st') \<Longrightarrow> st' = st"
  by (cases q rule: only_reads.cases) (auto simp: userStore_def split: option.splits)

lemma console_patterns_methods:
  "list_all (\<lambda>p. isMutating (fst p) \<and> fst p \<noteq> ''GET'' \<or> (\<forall>py w. only_reads (snd (snd p) py w))) console_patterns"
  by (simp add: console_patterns_def isMutating_def)

lemma console_route_mutating:
  assumes "console_route m segs py = Inr q" "\<not> only_reads q"
  shows "isMutating m"
proof -
  let ?ps = "filter (\<lambda>p. list_all2 segment_matches (fst (snd p)) segs) console_patterns"
  obtain p where p: "find (\<lambda>p. method_matches (fst p) m) ?ps = Some p" "q = snd (snd p) py (path_value (fst (snd p)) segs)"
    using assms(1) by (auto simp: console_route_def Let_def split: option.splits prod.splits)
  then have "p \<in> set console_patterns" "method_matches (fst p) m" using find_Some_mem [OF p(1)] by auto
  with console_patterns_methods assms(2) p(2) show ?thesis unfolding list_all_iff method_matches_def by blast
qed

text \<open>C17: Nothing behind the console changes unless the request reaches one of the changing routes by a mutating method and
  carries a token of this server for an
  account that is enabled now, whose version it names, whose password is not due for a change,
  and whose role the route allows; and when the token came in a cookie the request must be of the same origin.
\<close>

theorem console_changes_need_a_live_session:
  assumes "console_api ae se an now gone st r segs py = (rp, st')" "st' \<noteq> st"
  shows "\<exists>us u c q. cn_users st = Some us \<and> console_route (ar_Method r) segs py = Inr q \<and> isMutating (ar_Method r)
    \<and> Verify (ae_codec ae) (se_signer se) now (fst (accessCredential r)) TypeAccess = Inr c
    \<and> Users_Get us (cl_Sub c) = Inr u \<and> cl_Ver c = u_TokenVersion u \<and> \<not> u_Disabled u \<and> \<not> u_MustChangePassword u
    \<and> u_Role u \<in> set (allowed_roles q)
    \<and> (fst (snd (accessCredential r)) \<or> sameOrigin ae r)"
proof -
  obtain us i rc where m: "cn_users st = Some us" "Middleware sqlite_users ae se us now r = Inr (i, rc)"
    "console_mux an (Some i) now gone st (ar_Method r) segs py = (rp, st')"
    using assms by (auto simp: console_api_def split: option.splits sum.splits)
  then obtain q where q: "console_route (ar_Method r) segs py = Inr q" "console_serve an (Some i) now gone st q = (rp, st')"
    using assms(2) by (auto simp: console_mux_def split: sum.splits)
  have role: "id_Role i \<in> set (allowed_roles q)"
    using console_serve_refused [where ident = "Some i" and q = q and an = an and now = now and gone = gone and st = st] q(2) assms(2) by fastforce
  then have "\<not> only_reads q" using only_reads_keeps q(2) assms(2) by (fastforce simp: console_serve_def requireRole_def)
  then have mut: "isMutating (ar_Method r)" by (rule console_route_mutating [OF q(1)])
  obtain token bearer u where u: "accessCredential r = (token, bearer, True)"
    "userForToken sqlite_users ae se us now token TypeAccess = Some u"
    "bearer \<or> \<not> isMutating (ar_Method r) \<or> sameOrigin ae r" "\<not> u_MustChangePassword u" "i = identityOf u"
    using Middleware_Inr [OF m(2)] by metis
  then obtain c where "Verify (ae_codec ae) (se_signer se) now token TypeAccess = Inr c" "Users_Get us (cl_Sub c) = Inr u"
    "\<not> u_Disabled u" "cl_Ver c = u_TokenVersion u"
    by (auto simp: userForToken_def sqlite_users_def split: sum.splits if_splits)
  with u role m(1) q(1) mut show ?thesis by (auto simp: identityOf_def)
qed

text \<open>An administrator's request that empties a cache of five entries, and an operator's.\<close>

definition demo_api :: "nat api_env" where
  "demo_api = \<lparr>an_console = demo_ce, an_users = demo_user_env, an_policy_text = demo_text, an_registries = demo_registry_config,
     an_purger = Some (\<lambda>c. ((int c, 0, False), 0)), an_stats = (\<lambda>_. None), an_maxBytes = 0, an_staleDays = 30, an_scanners = [],
     an_started = 0, an_format_day = (\<lambda>_. [])\<rparr>"

definition demo_console :: "nat \<Rightarrow> nat console_state" where
  "demo_console c = \<lparr>cn_policy = demo_runtime, cn_users = Some demo_store, cn_telemetry = tele_empty, cn_cache = c\<rparr>"

definition demo_operator :: identity where
  "demo_operator = \<lparr>id_Username = ''op'', id_Role = RoleOperator, id_MustChangePassword = False\<rparr>"

text \<open>An operator's entry for the denylist is installed, and what the screen shows is otherwise as before.\<close>

theorem operators_edit_lists_only_witness:
  "console_serve demo_api (Some demo_operator) 0 False (demo_console 5) CacheCleanup = (Some forbidden, demo_console 5)
   \<and> (let st' = snd (console_serve demo_api (Some demo_operator) 0 False (demo_console 5) (AddToList ListDenylist (BodyOk ''npm/x'')))
      in p_Denylist (Current (cn_policy st')) = [''npm/x''] \<and> cn_policy st' = after_edit demo_runtime (Current (cn_policy st'))
         \<and> p_Mode (Current (cn_policy st')) = p_Mode (Current demo_runtime))"
proof -
  let ?q = "AddToList ListDenylist (BodyOk ''npm/x'')"
  have r: "\<forall>i. Some demo_operator = Some i \<longrightarrow> id_Role i \<noteq> RoleAdmin" by (simp add: demo_operator_def RoleOperator_def RoleAdmin_def)
  then have 1: "console_serve demo_api (Some demo_operator) 0 False (demo_console 5) CacheCleanup = (Some forbidden, demo_console 5)"
    by (simp add: console_serve_refused)
  have d: "p_Denylist (Current (cn_policy (snd (console_serve demo_api (Some demo_operator) 0 False (demo_console 5) ?q)))) = [''npm/x'']"
    "p_Denylist (Current demo_runtime) = []"
    by code_simp+
  have p: "cn_policy (demo_console 5) = demo_runtime" by (simp add: demo_console_def)
  from operators_edit_lists_only [OF prod.collapse [symmetric] r, of demo_api 0 False "demo_console 5" ?q] d 1
  show ?thesis unfolding p same_settings_def Let_def by auto
qed

definition demo_payload :: console_payload where
  "demo_payload = \<lparr>py_query = (\<lambda>_. []), py_patch = BodyInvalid [], py_entry = BodyInvalid [], py_registries = BodyInvalid [],
     py_create = BodyInvalid [], py_user_patch = BodyInvalid [], py_password = BodyInvalid []\<rparr>"

theorem console_changes_need_a_live_session_witness:
  "console_route ''POST'' [''api'', ''cache'', ''cleanup''] demo_payload = Inr CacheCleanup
   \<and> (\<exists>us u c. cn_users (demo_console 5) = Some us
    \<and> Verify (ae_codec demo_auth_env) (se_signer demo_sessions) 0 (fst (accessCredential (demo_auth_request []))) TypeAccess = Inr c
    \<and> Users_Get us (cl_Sub c) = Inr u \<and> u_Role u \<in> set (allowed_roles CacheCleanup))"
proof -
  let ?segs = "[''api'', ''cache'', ''cleanup'']"
  have m: "Middleware sqlite_users demo_auth_env demo_sessions demo_store 0 (demo_auth_request []) = Inr (identityOf demo_reset_admin, recheckFor sqlite_users demo_reset_admin)"
    by (simp add: Middleware_def authenticate_def demo_unlocked demo_credential demo_user demo_origin) (simp add: demo_reset_admin_def)
  have role: "id_Role (identityOf demo_reset_admin) \<in> set (allowed_roles CacheCleanup)"
    by (simp add: identityOf_def demo_reset_admin_def demo_admin_def RoleAdmin_def)
  have route: "console_route ''POST'' ?segs demo_payload = Inr CacheCleanup"
    by (simp add: console_route_def console_patterns_def method_matches_def)
  have meth: "ar_Method (demo_auth_request []) = ''POST''" by (simp add: demo_auth_request_def)
  obtain rp where "console_api demo_auth_env demo_sessions demo_api 0 False (demo_console 5) (demo_auth_request []) ?segs demo_payload = (rp, demo_console 0)"
    using m role unfolding console_api_def meth console_mux_def route
    by (auto simp: console_serve_def requireRole_def cacheCleanup_def demo_api_def demo_console_def)
  moreover have "demo_console 0 \<noteq> demo_console 5" by (simp add: demo_console_def)
  ultimately obtain us u c q where *: "cn_users (demo_console 5) = Some us" "console_route ''POST'' ?segs demo_payload = Inr q"
    "Verify (ae_codec demo_auth_env) (se_signer demo_sessions) 0 (fst (accessCredential (demo_auth_request []))) TypeAccess = Inr c"
    "Users_Get us (cl_Sub c) = Inr u" "u_Role u \<in> set (allowed_roles q)"
    using console_changes_need_a_live_session meth by metis
  from *(2) route have "q = CacheCleanup" by simp
  with * route show ?thesis by blast
qed

end
