(* ===== verification/Broadcaster.thy ===== *)
theory Broadcaster
  imports Telemetry
begin

text \<open>
  The fan-out of events to the open console tabs: \<^verbatim>\<open>internal/telemetry/broadcaster.go\<close> and the
  stream of \<open>GET /api/events\<close> (\<^verbatim>\<open>internal/console/server.go\<close>).

  A channel is its buffer and whether it was closed; channels are named by number, in the order
  they were made. The subscriber set is the list of the names it holds; ranging over it delivers to
  each channel on its own, so the order does not matter. Closing a closed channel and sending on
  one panics in Go: the model has a value for that, and it is shown never to occur.
\<close>

section \<open>Channels and subscribers\<close>

definition subscriberBuffer :: nat where "subscriberBuffer = 16"

record channel =
  ch_buffer :: "event list"
  ch_closed :: bool

record broadcaster =
  bc_channels :: "channel list"
  bc_subs :: "nat list"
  bc_closed :: bool

definition NewBroadcaster :: broadcaster where
  "NewBroadcaster = \<lparr>bc_channels = [], bc_subs = [], bc_closed = False\<rparr>"

definition Subscribe :: "broadcaster \<Rightarrow> nat \<times> broadcaster" where
  "Subscribe b =
     (let ch = length (bc_channels b) in
      if bc_closed b then (ch, b\<lparr>bc_channels := bc_channels b @ [\<lparr>ch_buffer = [], ch_closed = True\<rparr>]\<rparr>)
      else (ch, b\<lparr>bc_channels := bc_channels b @ [\<lparr>ch_buffer = [], ch_closed = False\<rparr>], bc_subs := ch # bc_subs b\<rparr>))"

text \<open>\<open>close(ch)\<close>: \<^term>\<open>None\<close> is the panic of a second close.\<close>

definition close_channel :: "nat \<Rightarrow> channel list \<Rightarrow> channel list option" where
  "close_channel i chs = (if ch_closed (chs ! i) then None else Some (chs[i := (chs ! i)\<lparr>ch_closed := True\<rparr>]))"

definition Cancel :: "nat \<Rightarrow> broadcaster \<Rightarrow> broadcaster option" where
  "Cancel i b =
     (if i \<in> set (bc_subs b)
      then map_option (\<lambda>chs. b\<lparr>bc_channels := chs, bc_subs := filter (\<lambda>j. j \<noteq> i) (bc_subs b)\<rparr>) (close_channel i (bc_channels b))
      else Some b)"

fun close_all :: "nat list \<Rightarrow> channel list \<Rightarrow> channel list option" where
  "close_all [] chs = Some chs"
| "close_all (i # is) chs = (case close_channel i chs of None \<Rightarrow> None | Some chs' \<Rightarrow> close_all is chs')"

definition Broadcaster_Close :: "broadcaster \<Rightarrow> broadcaster option" where
  "Broadcaster_Close b =
     map_option (\<lambda>chs. b\<lparr>bc_channels := chs, bc_subs := [], bc_closed := True\<rparr>) (close_all (bc_subs b) (bc_channels b))"

text \<open>The send of a \<open>select\<close> with a default: dropped when the buffer is full, a panic when closed.\<close>

definition try_send :: "event \<Rightarrow> nat \<Rightarrow> channel list \<Rightarrow> channel list option" where
  "try_send ev i chs =
     (let c = chs ! i in
      if ch_closed c then None
      else if length (ch_buffer c) < subscriberBuffer then Some (chs[i := c\<lparr>ch_buffer := ch_buffer c @ [ev]\<rparr>])
      else Some chs)"

fun send_all :: "event \<Rightarrow> nat list \<Rightarrow> channel list \<Rightarrow> channel list option" where
  "send_all ev [] chs = Some chs"
| "send_all ev (i # is) chs = (case try_send ev i chs of None \<Rightarrow> None | Some chs' \<Rightarrow> send_all ev is chs')"

definition Publish :: "event \<Rightarrow> broadcaster \<Rightarrow> broadcaster option" where
  "Publish ev b = map_option (\<lambda>chs. b\<lparr>bc_channels := chs\<rparr>) (send_all ev (bc_subs b) (bc_channels b))"

text \<open>A receive: an event, the end of a closed and drained channel, or nothing yet.\<close>

datatype received = Received event | ChannelClosed | WouldBlock

definition receive :: "nat \<Rightarrow> broadcaster \<Rightarrow> received \<times> broadcaster" where
  "receive i b =
     (let c = bc_channels b ! i in
      case ch_buffer c of
        ev # evs \<Rightarrow> (Received ev, b\<lparr>bc_channels := (bc_channels b)[i := c\<lparr>ch_buffer := evs\<rparr>]\<rparr>)
      | [] \<Rightarrow> (if ch_closed c then ChannelClosed else WouldBlock, b))"

text \<open>\<open>Hub.Record\<close>: to the store, then to the subscribers.\<close>

definition Hub_Record :: "gotime \<Rightarrow> event \<Rightarrow> telemetry \<times> broadcaster \<Rightarrow> (telemetry \<times> broadcaster) option" where
  "Hub_Record now ev tb = map_option (Pair (Store_Record now ev (fst tb))) (Publish ev (snd tb))"

section \<open>The stream of a tab\<close>

text \<open>
  What the loop of the handler meets: the client or the server ends the request, the heartbeat
  fires with the verdict of \<open>auth.Recheck\<close>, or the subscription yields an event or ends. A write
  may fail.
\<close>

datatype stream_input =
    ContextDone
  | Heartbeat bool bool
  | FromChannel received bool

datatype frame = Connected | Ping | Data event

fun stream_loop :: "stream_input list \<Rightarrow> frame list" where
  "stream_loop [] = []"
| "stream_loop (ContextDone # _) = []"
| "stream_loop (Heartbeat valid written # ins) =
     (if \<not> valid then [] else if written then Ping # stream_loop ins else [])"
| "stream_loop (FromChannel (Received ev) written # ins) = (if written then Data ev # stream_loop ins else [])"
| "stream_loop (FromChannel ChannelClosed _ # _) = []"
| "stream_loop (FromChannel WouldBlock _ # ins) = stream_loop ins"

definition events_stream :: "bool \<Rightarrow> stream_input list \<Rightarrow> frame list" where
  "events_stream greeted ins = (if greeted then Connected # stream_loop ins else [])"

definition SSE_heartbeat :: "duration \<Rightarrow> duration" where
  "SSE_heartbeat d = (if d \<le> 0 then 25 * Second else d)"

section \<open>The invariant\<close>

definition bc_inv :: "broadcaster \<Rightarrow> bool" where
  "bc_inv b \<longleftrightarrow>
     distinct (bc_subs b) \<and> (bc_closed b \<longrightarrow> bc_subs b = []) \<and>
     (\<forall>i < length (bc_channels b). ch_closed (bc_channels b ! i) \<longleftrightarrow> i \<notin> set (bc_subs b)) \<and>
     (\<forall>i\<in>set (bc_subs b). i < length (bc_channels b)) \<and>
     (\<forall>i < length (bc_channels b). length (ch_buffer (bc_channels b ! i)) \<le> subscriberBuffer)"

text \<open>Runs: what subscribers, the proxy and the server do, in any order. A log keeps who received what.\<close>

datatype bc_op = DoSubscribe | DoCancel nat | DoClose | DoPublish event | DoReceive nat

fun bc_exec :: "bc_op \<Rightarrow> broadcaster \<Rightarrow> (broadcaster \<times> (nat \<times> event) list) option" where
  "bc_exec DoSubscribe b = Some (snd (Subscribe b), [])"
| "bc_exec (DoCancel i) b = map_option (\<lambda>b'. (b', [])) (Cancel i b)"
| "bc_exec DoClose b = map_option (\<lambda>b'. (b', [])) (Broadcaster_Close b)"
| "bc_exec (DoPublish ev) b = map_option (\<lambda>b'. (b', [])) (Publish ev b)"
| "bc_exec (DoReceive i) b =
     (if i < length (bc_channels b)
      then (case receive i b of (Received ev, b') \<Rightarrow> Some (b', [(i, ev)]) | (_, b') \<Rightarrow> Some (b', []))
      else Some (b, []))"

fun bc_run :: "bc_op list \<Rightarrow> broadcaster \<Rightarrow> (broadcaster \<times> (nat \<times> event) list) option" where
  "bc_run [] b = Some (b, [])"
| "bc_run (op # ops) b =
     (case bc_exec op b of None \<Rightarrow> None | Some (b1, l1) \<Rightarrow> map_option (\<lambda>(b2, l2). (b2, l1 @ l2)) (bc_run ops b1))"

fun published :: "bc_op list \<Rightarrow> event list" where
  "published [] = []"
| "published (DoPublish ev # ops) = ev # published ops"
| "published (_ # ops) = published ops"

definition got :: "nat \<Rightarrow> (nat \<times> event) list \<Rightarrow> event list" where
  "got i l = map snd (filter (\<lambda>(j, _). j = i) l)"

lemma close_all_spec:
  assumes "distinct is" "\<forall>i\<in>set is. i < length chs \<and> \<not> ch_closed (chs ! i)"
  shows "\<exists>chs'. close_all is chs = Some chs' \<and> length chs' = length chs \<and>
    (\<forall>j < length chs. chs' ! j = (if j \<in> set is then (chs ! j)\<lparr>ch_closed := True\<rparr> else chs ! j))"
  using assms
proof (induction "is" arbitrary: chs)
  case (Cons i "is")
  let ?c = "chs[i := (chs ! i)\<lparr>ch_closed := True\<rparr>]"
  have "close_channel i chs = Some ?c" using Cons.prems by (simp add: close_channel_def)
  moreover have "\<forall>j\<in>set is. j < length ?c \<and> \<not> ch_closed (?c ! j)" using Cons.prems by (auto simp: nth_list_update)
  ultimately show ?case using Cons.IH [of ?c] Cons.prems by (fastforce simp: nth_list_update)
qed simp

lemma send_all_spec:
  assumes "distinct is" "\<forall>i\<in>set is. i < length chs \<and> \<not> ch_closed (chs ! i)"
  shows "\<exists>chs'. send_all ev is chs = Some chs' \<and> length chs' = length chs \<and>
    (\<forall>j < length chs. chs' ! j = (if j \<in> set is \<and> length (ch_buffer (chs ! j)) < subscriberBuffer
       then (chs ! j)\<lparr>ch_buffer := ch_buffer (chs ! j) @ [ev]\<rparr> else chs ! j))"
  using assms
proof (induction "is" arbitrary: chs)
  case (Cons i "is")
  let ?c = "if length (ch_buffer (chs ! i)) < subscriberBuffer then chs[i := (chs ! i)\<lparr>ch_buffer := ch_buffer (chs ! i) @ [ev]\<rparr>] else chs"
  have s: "try_send ev i chs = Some ?c" using Cons.prems by (simp add: try_send_def Let_def)
  have "\<forall>j\<in>set is. j < length ?c \<and> \<not> ch_closed (?c ! j)" using Cons.prems by (auto simp: nth_list_update)
  from Cons.IH [OF _ this] Cons.prems obtain chs' where "send_all ev is ?c = Some chs'" "length chs' = length ?c"
    "\<forall>j < length ?c. chs' ! j = (if j \<in> set is \<and> length (ch_buffer (?c ! j)) < subscriberBuffer
       then (?c ! j)\<lparr>ch_buffer := ch_buffer (?c ! j) @ [ev]\<rparr> else ?c ! j)" by auto
  with s Cons.prems show ?case by (intro exI [of _ chs']) (auto simp: nth_list_update)
qed simp

text \<open>What an operation does to channel \<open>i\<close>: nothing to its contents, a delivery, or a receive.\<close>

definition buf :: "broadcaster \<Rightarrow> nat \<Rightarrow> event list" where
  "buf b i = ch_buffer (bc_channels b ! i)"

lemma subscribe_inv:
  assumes "bc_inv b"
  shows "bc_inv (snd (Subscribe b))"
proof -
  have "length (bc_channels b) \<notin> set (bc_subs b)" using assms by (auto simp: bc_inv_def)
  with assms show ?thesis by (auto simp: bc_inv_def Subscribe_def Let_def nth_append less_Suc_eq)
qed

lemma publish_spec:
  assumes "bc_inv b"
  obtains chs where "Publish ev b = Some (b\<lparr>bc_channels := chs\<rparr>)" "length chs = length (bc_channels b)"
    "\<And>j. j < length chs \<Longrightarrow> chs ! j = (let c = bc_channels b ! j in if j \<in> set (bc_subs b) \<and> length (ch_buffer c) < subscriberBuffer
       then c\<lparr>ch_buffer := ch_buffer c @ [ev]\<rparr> else c)"
  using send_all_spec [of "bc_subs b" "bc_channels b" ev] assms that by (auto simp: bc_inv_def Publish_def Let_def)

lemma publish_inv:
  assumes "bc_inv b" "Publish ev b = Some b'"
  shows "bc_inv b'"
proof -
  obtain chs where c: "b' = b\<lparr>bc_channels := chs\<rparr>" "length chs = length (bc_channels b)"
    "\<And>j. j < length chs \<Longrightarrow> chs ! j = (let c = bc_channels b ! j in if j \<in> set (bc_subs b) \<and> length (ch_buffer c) < subscriberBuffer
       then c\<lparr>ch_buffer := ch_buffer c @ [ev]\<rparr> else c)"
    using publish_spec [OF assms(1), of ev] assms(2) by (metis option.inject)
  have "j < length chs \<Longrightarrow> ch_closed (chs ! j) = ch_closed (bc_channels b ! j) \<and> length (ch_buffer (chs ! j)) \<le> subscriberBuffer" for j
    using c(2,3) assms(1) by (auto simp: bc_inv_def Let_def Suc_le_eq)
  with c(1,2) assms(1) show ?thesis by (simp add: bc_inv_def)
qed

lemma close_spec:
  assumes "bc_inv b"
  obtains chs where "Broadcaster_Close b = Some (b\<lparr>bc_channels := chs, bc_subs := [], bc_closed := True\<rparr>)"
    "length chs = length (bc_channels b)" "\<And>j. j < length chs \<Longrightarrow> ch_closed (chs ! j) \<and> ch_buffer (chs ! j) = buf b j"
proof -
  obtain chs where c: "close_all (bc_subs b) (bc_channels b) = Some chs" "length chs = length (bc_channels b)"
    "\<forall>j < length (bc_channels b). chs ! j = (if j \<in> set (bc_subs b) then (bc_channels b ! j)\<lparr>ch_closed := True\<rparr> else bc_channels b ! j)"
    using close_all_spec [of "bc_subs b" "bc_channels b"] assms by (auto simp: bc_inv_def)
  show thesis
  proof (rule that)
    show "Broadcaster_Close b = Some (b\<lparr>bc_channels := chs, bc_subs := [], bc_closed := True\<rparr>)" using c(1) by (simp add: Broadcaster_Close_def)
    show "ch_closed (chs ! j) \<and> ch_buffer (chs ! j) = buf b j" if "j < length chs" for j
      using c(2,3) that assms by (simp add: buf_def bc_inv_def)
  qed (rule c(2))
qed

lemma close_inv: "bc_inv b \<Longrightarrow> Broadcaster_Close b = Some b' \<Longrightarrow> bc_inv b'"
proof -
  assume a: "bc_inv b" "Broadcaster_Close b = Some b'"
  obtain chs where c: "b' = b\<lparr>bc_channels := chs, bc_subs := [], bc_closed := True\<rparr>"
    "length chs = length (bc_channels b)" "\<And>j. j < length chs \<Longrightarrow> ch_closed (chs ! j) \<and> ch_buffer (chs ! j) = buf b j"
    using close_spec [OF a(1)] a(2) by (metis option.inject)
  with a(1) show ?thesis by (simp add: bc_inv_def buf_def)
qed

lemma cancel_spec:
  assumes "bc_inv b"
  shows "\<exists>b'. Cancel i b = Some b' \<and> bc_inv b' \<and> length (bc_channels b') = length (bc_channels b)
    \<and> (\<forall>j < length (bc_channels b). buf b' j = buf b j) \<and> set (bc_subs b') \<subseteq> set (bc_subs b)"
proof (cases "i \<in> set (bc_subs b)")
  case True
  then have i: "i < length (bc_channels b)" "\<not> ch_closed (bc_channels b ! i)" using assms by (auto simp: bc_inv_def)
  let ?b = "b\<lparr>bc_channels := (bc_channels b)[i := (bc_channels b ! i)\<lparr>ch_closed := True\<rparr>], bc_subs := filter (\<lambda>j. j \<noteq> i) (bc_subs b)\<rparr>"
  have "Cancel i b = Some ?b" using True i by (simp add: Cancel_def close_channel_def)
  moreover have "bc_inv ?b" using assms i by (auto simp: bc_inv_def nth_list_update)
  ultimately show ?thesis using i by (auto simp: buf_def nth_list_update)
qed (use assms in \<open>auto simp: Cancel_def\<close>)

lemma receive_inv:
  assumes "bc_inv b" "i < length (bc_channels b)" "receive i b = (r, b')"
  shows "bc_inv b'"
proof (cases "ch_buffer (bc_channels b ! i)")
  case Nil
  with assms show ?thesis by (simp add: receive_def)
next
  case (Cons ev evs)
  then have b': "b' = b\<lparr>bc_channels := (bc_channels b)[i := (bc_channels b ! i)\<lparr>ch_buffer := evs\<rparr>]\<rparr>"
    using assms(3) by (simp add: receive_def Let_def)
  have "Suc (length evs) \<le> subscriberBuffer" using assms(1,2) Cons by (metis bc_inv_def length_Cons)
  then have "length (ch_buffer ((bc_channels b)[i := (bc_channels b ! i)\<lparr>ch_buffer := evs\<rparr>] ! j)) \<le> subscriberBuffer"
    if "j < length (bc_channels b)" for j using that assms(1) by (cases "j = i") (simp_all add: bc_inv_def)
  moreover have "ch_closed ((bc_channels b)[i := (bc_channels b ! i)\<lparr>ch_buffer := evs\<rparr>] ! j) = ch_closed (bc_channels b ! j)" for j
    using assms(2) by (cases "j = i") simp_all
  ultimately show ?thesis using assms(1) by (simp add: b' bc_inv_def)
qed

lemma receive_buf:
  assumes "i < length (bc_channels b)" "receive i b = (r, b')"
  shows "length (bc_channels b') = length (bc_channels b)" "bc_subs b' = bc_subs b"
    "j \<noteq> i \<Longrightarrow> buf b' j = buf b j" "buf b i = (case r of Received ev \<Rightarrow> [ev] | _ \<Rightarrow> []) @ buf b' i"
  using assms by (auto simp: receive_def buf_def Let_def split: list.splits if_splits)

text \<open>One operation: it never panics, keeps the invariant, and changes channel \<open>i\<close> by at most a delivery at its end.\<close>

lemma bc_exec_spec:
  assumes "bc_inv b"
  obtains b' l where "bc_exec op b = Some (b', l)" "bc_inv b'" "length (bc_channels b) \<le> length (bc_channels b')"
    "\<And>i. i < length (bc_channels b) \<Longrightarrow> i \<in> set (bc_subs b') \<Longrightarrow> i \<in> set (bc_subs b)"
    "\<And>i. i < length (bc_channels b) \<Longrightarrow> got i l @ buf b' i = buf b i @ (if i \<in> set (bc_subs b) \<and> length (buf b i) < subscriberBuffer then published [op] else [])"
proof (cases op)
  case DoSubscribe
  let ?b = "snd (Subscribe b)"
  have "buf ?b i = buf b i" "i \<in> set (bc_subs ?b) \<longleftrightarrow> i \<in> set (bc_subs b)" if "i < length (bc_channels b)" for i
    using that by (simp_all add: Subscribe_def Let_def buf_def nth_append)
  moreover have "length (bc_channels b) \<le> length (bc_channels ?b)" by (simp add: Subscribe_def Let_def)
  ultimately show ?thesis using subscribe_inv [OF assms] DoSubscribe by (intro that [of ?b "[]"]) (simp_all add: got_def)
next
  case (DoCancel i)
  obtain b' where "Cancel i b = Some b'" "bc_inv b'" "length (bc_channels b') = length (bc_channels b)"
    "\<forall>j < length (bc_channels b). buf b' j = buf b j" "set (bc_subs b') \<subseteq> set (bc_subs b)" using cancel_spec [OF assms, of i] by blast
  with DoCancel show ?thesis by (intro that [of b' "[]"]) (auto simp: got_def)
next
  case DoClose
  obtain chs where c: "Broadcaster_Close b = Some (b\<lparr>bc_channels := chs, bc_subs := [], bc_closed := True\<rparr>)"
    "length chs = length (bc_channels b)" "\<And>j. j < length chs \<Longrightarrow> ch_closed (chs ! j) \<and> ch_buffer (chs ! j) = buf b j"
    using close_spec [OF assms] by blast
  with DoClose close_inv [OF assms c(1)] show ?thesis
    by (intro that [of "b\<lparr>bc_channels := chs, bc_subs := [], bc_closed := True\<rparr>" "[]"]) (auto simp: got_def buf_def)
next
  case (DoPublish ev)
  obtain chs where c: "Publish ev b = Some (b\<lparr>bc_channels := chs\<rparr>)" "length chs = length (bc_channels b)"
    "\<And>j. j < length chs \<Longrightarrow> chs ! j = (let c = bc_channels b ! j in if j \<in> set (bc_subs b) \<and> length (ch_buffer c) < subscriberBuffer
       then c\<lparr>ch_buffer := ch_buffer c @ [ev]\<rparr> else c)"
    using publish_spec [OF assms] by blast
  with DoPublish publish_inv [OF assms c(1)] show ?thesis
    by (intro that [of "b\<lparr>bc_channels := chs\<rparr>" "[]"]) (auto simp: got_def buf_def Let_def)
next
  case (DoReceive i)
  show ?thesis
  proof (cases "i < length (bc_channels b)")
    case True
    obtain r b' where r: "receive i b = (r, b')" by (meson surj_pair)
    let ?l = "case r of Received ev \<Rightarrow> [(i, ev)] | _ \<Rightarrow> []"
    have "bc_exec op b = Some (b', ?l)" using DoReceive True r by (cases r) auto
    moreover have "got j ?l @ buf b' j = buf b j" for j
      using receive_buf [OF True r] by (cases "j = i"; cases r) (auto simp: got_def)
    ultimately show ?thesis
      using receive_inv [OF assms True r] receive_buf(1,2) [OF True r] DoReceive by (intro that [of b' ?l]) auto
  next
    case False
    with DoReceive assms show ?thesis by (intro that [of b "[]"]) (auto simp: got_def)
  qed
qed

lemma published_Cons: "published (op # ops) = published [op] @ published ops"
  by (cases op) auto

lemma got_append: "got i (l @ m) = got i l @ got i m"
  by (simp add: got_def)

lemma published_one: "length (published [op]) \<le> 1"
  by (cases op) auto

definition delivers :: "nat \<Rightarrow> event list \<Rightarrow> broadcaster \<Rightarrow> broadcaster \<Rightarrow> (nat \<times> event) list \<Rightarrow> bool" where
  "delivers i evs b b' l \<longleftrightarrow>
     length (bc_channels b) \<le> length (bc_channels b') \<and> (i \<in> set (bc_subs b') \<longrightarrow> i \<in> set (bc_subs b)) \<and>
     subseq (got i l @ buf b' i) (buf b i @ evs) \<and>
     (i \<in> set (bc_subs b') \<and> length (buf b i) + length evs \<le> subscriberBuffer \<longrightarrow> got i l @ buf b' i = buf b i @ evs)"

lemma bc_run_total:
  assumes "bc_inv b"
  shows "\<exists>b' l. bc_run ops b = Some (b', l) \<and> bc_inv b'"
  using assms
proof (induction ops arbitrary: b)
  case (Cons op ops)
  obtain b1 l1 where 1: "bc_exec op b = Some (b1, l1)" "bc_inv b1" using bc_exec_spec [OF Cons.prems, of op] by metis
  with Cons.IH [OF 1(2)] show ?case by auto
qed simp

lemma bc_run_spec:
  assumes "bc_inv b" "i < length (bc_channels b)" "bc_run ops b = Some (b', l)"
  shows "delivers i (published ops) b b' l"
  using assms
proof (induction ops arbitrary: b l)
  case Nil
  then show ?case by (simp add: delivers_def got_def)
next
  case (Cons op ops)
  obtain b1 l1 where 1: "bc_exec op b = Some (b1, l1)" "bc_inv b1" "length (bc_channels b) \<le> length (bc_channels b1)"
    "i \<in> set (bc_subs b1) \<Longrightarrow> i \<in> set (bc_subs b)"
    "got i l1 @ buf b1 i = buf b i @ (if i \<in> set (bc_subs b) \<and> length (buf b i) < subscriberBuffer then published [op] else [])"
    using bc_exec_spec [OF Cons.prems(1), of op] Cons.prems(2) by metis
  obtain l2 where l2: "bc_run ops b1 = Some (b', l2)" "l = l1 @ l2" using Cons.prems(3) 1(1) by auto
  have IH: "delivers i (published ops) b1 b' l2" using Cons.IH [OF 1(2) _ l2(1)] Cons.prems(2) 1(3) by simp
  note 2 = IH [unfolded delivers_def]
  have "subseq (got i l1 @ got i l2 @ buf b' i) (got i l1 @ buf b1 i @ published ops)" 
    using 2 by (intro list_emb_append_mono [OF subseq_order.order_refl]) simp
  also have "got i l1 @ buf b1 i @ published ops =
    buf b i @ (if i \<in> set (bc_subs b) \<and> length (buf b i) < subscriberBuffer then published [op] else []) @ published ops"
    using 1(5) by (metis append.assoc)
  also have "subseq \<dots> (buf b i @ published (op # ops))"
    unfolding published_Cons [of op ops]
    by (intro list_emb_append_mono [OF subseq_order.order_refl]) (auto intro: list_emb_append2)
  finally have sub: "subseq (got i (l1 @ l2) @ buf b' i) (buf b i @ published (op # ops))" by (simp add: got_append)
  have "got i (l1 @ l2) @ buf b' i = buf b i @ published (op # ops)"
    if i2: "i \<in> set (bc_subs b')" and room: "length (buf b i) + length (published (op # ops)) \<le> subscriberBuffer"
  proof -
    have i: "i \<in> set (bc_subs b)" using i2 1(4) 2 by blast
    have len: "length (buf b i) + length (published [op]) + length (published ops) \<le> subscriberBuffer"
      using room published_Cons [of op ops] by simp
    have e: "got i l1 @ buf b1 i = buf b i @ published [op]"
      using 1(5) i len by (cases "published [op]") (auto split: if_splits)
    then have "length (got i l1) + length (buf b1 i) = length (buf b i) + length (published [op])" by (metis length_append)
    with 2 i2 len have "got i l2 @ buf b' i = buf b1 i @ published ops" by simp
    with e show ?thesis using published_Cons [of op ops] by (simp add: got_append)
  qed
  with 1(3,4) 2 sub show ?case unfolding delivers_def l2(2) by auto
qed

lemma NewBroadcaster_inv: "bc_inv NewBroadcaster"
  by (simp add: bc_inv_def NewBroadcaster_def)

text \<open>
  Publishing to the open tabs never blocks and never panics, in whatever order tabs subscribe, leave,
  read and the server shuts down: no channel is closed twice or sent to after it was closed, and
  none holds more than its buffer.
\<close>

theorem broadcaster_never_panics:
  "\<exists>b l. bc_run ops NewBroadcaster = Some (b, l) \<and> bc_inv b"
  by (rule bc_run_total [OF NewBroadcaster_inv])

text \<open>
  A tab sees events it was subscribed for in the order they were published, each at most once; as
  long as no more than sixteen are published and the subscription is alive, it misses none.
\<close>

theorem tab_sees_events_in_order:
  assumes "bc_run before NewBroadcaster = Some (b1, l1)" "Subscribe b1 = (i, b2)" "bc_run after b2 = Some (b3, l3)"
  shows "subseq (got i l3 @ buf b3 i) (published after)
    \<and> (i \<in> set (bc_subs b3) \<and> length (published after) \<le> subscriberBuffer \<longrightarrow> got i l3 @ buf b3 i = published after)"
proof -
  have inv: "bc_inv b2" using bc_run_total [OF NewBroadcaster_inv, of before] assms(1,2) subscribe_inv [of b1] by auto
  have i: "i < length (bc_channels b2)" "buf b2 i = []" using assms(2) by (auto simp: Subscribe_def Let_def buf_def split: if_splits)
  with bc_run_spec [OF inv i(1) assms(3)] show ?thesis by (simp add: delivers_def)
qed

definition demo_published :: event where
  "demo_published = \<lparr>ev_RequestID = ''r'', ev_Time = 0, ev_Ecosystem = ''npm'', ev_Package = ''p'', ev_Version = ''1'', ev_Verdict = VerdictPass,
     ev_Gate = GateMalware, ev_LatencyMS = 1, ev_HTTPStatus = 200, ev_Reason = [], ev_BlockedBy = [], ev_CVEs = [], ev_MalwareEngine = [],
     ev_MalwareSignature = [], ev_PublishedAt = zero_time, ev_BlockUntil = zero_time\<rparr>"

definition demo_subscribed :: broadcaster where
  "demo_subscribed = \<lparr>bc_channels = [\<lparr>ch_buffer = [], ch_closed = False\<rparr>], bc_subs = [0], bc_closed = False\<rparr>"

lemma demo_stream_run: "bc_run [DoPublish demo_published, DoReceive 0, DoPublish demo_published] demo_subscribed =
   Some (demo_subscribed\<lparr>bc_channels := [\<lparr>ch_buffer = [demo_published], ch_closed = False\<rparr>]\<rparr>, [(0, demo_published)])"
  by (simp add: demo_subscribed_def Publish_def try_send_def receive_def subscriberBuffer_def Let_def)

theorem tab_sees_events_in_order_witness:
  "subseq [demo_published, demo_published] [demo_published, demo_published]"
proof -
  have "bc_run [] NewBroadcaster = Some (NewBroadcaster, [])" "Subscribe NewBroadcaster = (0, demo_subscribed)"
    by (simp_all add: Subscribe_def NewBroadcaster_def demo_subscribed_def)
  from tab_sees_events_in_order [OF this demo_stream_run] show ?thesis by (simp add: got_def buf_def demo_subscribed_def)
qed

section \<open>The stream\<close>

text \<open>Once a heartbeat finds the session revoked, the stream carries nothing more.\<close>

theorem revoked_stream_ends:
  "stream_loop (ins @ Heartbeat False w # later) = stream_loop (ins @ [Heartbeat False w])"
  by (induction ins rule: stream_loop.induct) auto

end
