(* ===== verification/Upstream_Limits.thy ===== *)
theory Upstream_Limits
  imports Go_HTTP Complex_Main "HOL-Library.AList"
begin

text \<open>
  The two limits on outbound traffic, \<^verbatim>\<open>internal/httpx/limiter.go\<close> and
  \<^verbatim>\<open>internal/httpx/ratelimit.go\<close>. The concurrency limiter is a step relation over the
  per-host semaphores and the requests in flight; the rate limiter is its token bucket, with
  the code's float64 tokens as exact rationals and the final conversion to nanoseconds
  truncating as the code's does.
\<close>

section \<open>Concurrency\<close>

text \<open>A semaphore is the number of values in its channel; a request in flight holds one.\<close>

record concurrency_limiter =
  cl_max :: int
  cl_hosts :: "(string \<times> nat) list"

record limiter_state =
  ls_limiter :: concurrency_limiter
  ls_inflight :: "(nat \<times> string) list"

definition NewConcurrencyLimiter :: "int \<Rightarrow> concurrency_limiter" where
  "NewConcurrencyLimiter maxPerHost = \<lparr>cl_max = maxPerHost, cl_hosts = []\<rparr>"

definition sem :: "concurrency_limiter \<Rightarrow> string \<Rightarrow> nat \<times> concurrency_limiter" where
  "sem l host =
     (case map_of (cl_hosts l) host of
        Some n \<Rightarrow> (n, l)
      | None \<Rightarrow> (0, l\<lparr>cl_hosts := AList.update host 0 (cl_hosts l)\<rparr>))"

definition try_acquire :: "concurrency_limiter \<Rightarrow> string \<Rightarrow> concurrency_limiter option" where
  "try_acquire l host =
     (case sem l host of (n, l1) \<Rightarrow>
        if int n < cl_max l then Some (l1\<lparr>cl_hosts := AList.update host (n + 1) (cl_hosts l1)\<rparr>) else None)"

definition release :: "concurrency_limiter \<Rightarrow> string \<Rightarrow> concurrency_limiter" where
  "release l host =
     (case sem l host of (n, l1) \<Rightarrow> l1\<lparr>cl_hosts := AList.update host (n - 1) (cl_hosts l1)\<rparr>)"

text \<open>
  A request \<open>q\<close> is a number of its own. With the limit off it goes straight through; otherwise
  it waits until its send on the channel succeeds or its context ends.
\<close>

inductive cl_step :: "limiter_state \<Rightarrow> limiter_state \<Rightarrow> bool" where
  bypass: "cl_max (ls_limiter s) \<le> 0 \<Longrightarrow> cl_step s s"
| acquire: "0 < cl_max (ls_limiter s) \<Longrightarrow> q \<notin> fst ` set (ls_inflight s) \<Longrightarrow> try_acquire (ls_limiter s) host = Some l \<Longrightarrow>
    cl_step s (s\<lparr>ls_limiter := l, ls_inflight := (q, host) # ls_inflight s\<rparr>)"
| cancelled: "cl_step s (s\<lparr>ls_limiter := snd (sem (ls_limiter s) host)\<rparr>)"
| finish: "(q, host) \<in> set (ls_inflight s) \<Longrightarrow>
    cl_step s (s\<lparr>ls_limiter := release (ls_limiter s) host, ls_inflight := remove1 (q, host) (ls_inflight s)\<rparr>)"

inductive cl_reach :: "int \<Rightarrow> limiter_state \<Rightarrow> bool" where
  start: "cl_reach m \<lparr>ls_limiter = NewConcurrencyLimiter m, ls_inflight = []\<rparr>"
| step: "cl_reach m s \<Longrightarrow> cl_step s s' \<Longrightarrow> cl_reach m s'"

inductive_cases cl_stepE: "cl_step s s'"

definition slots :: "concurrency_limiter \<Rightarrow> string \<Rightarrow> nat" where
  "slots l host = (case map_of (cl_hosts l) host of None \<Rightarrow> 0 | Some n \<Rightarrow> n)"

definition in_flight :: "limiter_state \<Rightarrow> string \<Rightarrow> nat" where
  "in_flight s host = length (filter (\<lambda>(q, h). h = host) (ls_inflight s))"

lemma sem_slots: "fst (sem l host) = slots l host" "slots (snd (sem l host)) h = slots l h" "cl_max (snd (sem l host)) = cl_max l"
  by (auto simp: sem_def slots_def update_conv split: option.splits)

lemma try_acquire_slots:
  assumes "try_acquire l host = Some l'"
  shows "slots l' h = (if h = host then slots l h + 1 else slots l h)" "int (slots l host) < cl_max l" "cl_max l' = cl_max l"
proof -
  obtain n l1 where s: "sem l host = (n, l1)" by (metis surj_pair)
  note f = sem_slots [of l host, unfolded s, simplified]
  have l': "l' = l1\<lparr>cl_hosts := AList.update host (n + 1) (cl_hosts l1)\<rparr>" "int n < cl_max l"
    using assms by (auto simp: try_acquire_def s split: if_splits)
  show "slots l' h = (if h = host then slots l h + 1 else slots l h)"
    using f(1) f(2) [of h] by (auto simp: l' slots_def update_conv)
  show "int (slots l host) < cl_max l" "cl_max l' = cl_max l" using f l' by simp_all
qed

lemma release_slots: "slots (release l host) h = (if h = host then slots l h - 1 else slots l h)" "cl_max (release l host) = cl_max l"
proof -
  obtain n l1 where s: "sem l host = (n, l1)" by (metis surj_pair)
  note f = sem_slots [of l host, unfolded s, simplified]
  show "slots (release l host) h = (if h = host then slots l h - 1 else slots l h)"
    using f(1) f(2) [of h] by (auto simp: release_def s slots_def update_conv)
  show "cl_max (release l host) = cl_max l" using f by (simp add: release_def s)
qed

lemma in_flight_finish:
  "(q, host) \<in> set xs \<Longrightarrow> length (filter (\<lambda>(q, h). h = k) (remove1 (q, host) xs)) =
     (if k = host then length (filter (\<lambda>(q, h). h = k) xs) - 1 else length (filter (\<lambda>(q, h). h = k) xs))"
  by (simp add: filter_remove1 length_remove1)

definition cl_inv :: "int \<Rightarrow> limiter_state \<Rightarrow> bool" where
  "cl_inv m s \<longleftrightarrow> cl_max (ls_limiter s) = m \<and> (\<forall>h. slots (ls_limiter s) h = in_flight s h \<and> int (in_flight s h) \<le> max 0 m)"

lemma cl_step_inv: "cl_step s s' \<Longrightarrow> cl_inv m s \<Longrightarrow> cl_inv m s'"
proof (induction rule: cl_step.induct)
  case (acquire s q host l)
  with try_acquire_slots [OF acquire(3)] show ?case by (auto simp: cl_inv_def in_flight_def)
next
  case (cancelled s host)
  then show ?case by (simp add: cl_inv_def in_flight_def sem_slots)
next
  case (finish q host s)
  have "int (n - 1) \<le> max 0 m" if "int n \<le> max 0 m" for n using that by linarith
  with finish(2) show ?case
    by (auto simp: cl_inv_def in_flight_def release_slots in_flight_finish [OF finish(1)])
qed simp

text \<open>C35: With a limit, every reachable state has at most that many requests in flight to each host,
  and a semaphore counts exactly the requests in flight: no slot is leaked by a finished or
  cancelled request, so a host with none in flight has every slot free.
\<close>

theorem concurrency_bounded_and_no_slot_leaks:
  assumes "cl_reach m s" "0 < m"
  shows "int (in_flight s host) \<le> m \<and> slots (ls_limiter s) host = in_flight s host
    \<and> (in_flight s host = 0 \<longrightarrow> try_acquire (ls_limiter s) host \<noteq> None)"
proof -
  have "cl_inv m s" using assms(1)
  proof (induction rule: cl_reach.induct)
    case (start m)
    then show ?case by (simp add: cl_inv_def in_flight_def slots_def NewConcurrencyLimiter_def)
  qed (rule cl_step_inv)
  then have i: "cl_max (ls_limiter s) = m" "slots (ls_limiter s) host = in_flight s host" "int (in_flight s host) \<le> m"
    using assms(2) by (auto simp: cl_inv_def)
  moreover have "try_acquire (ls_limiter s) host \<noteq> None" if "in_flight s host = 0"
    using that i assms(2) sem_slots(1) [of "ls_limiter s" host] by (auto simp: try_acquire_def split: prod.splits)
  ultimately show ?thesis by blast
qed

text \<open>Two requests to one host under a limit of two, then one finishes.\<close>

theorem concurrency_bounded_and_no_slot_leaks_witness:
  "\<exists>s. cl_reach 2 s \<and> in_flight s ''h'' = 1 \<and> int (in_flight s ''h'') \<le> 2 \<and> slots (ls_limiter s) ''h'' = 1"
proof -
  let ?l = "\<lambda>n. \<lparr>cl_max = 2, cl_hosts = [(''h'', n)]\<rparr>"
  let ?s0 = "\<lparr>ls_limiter = NewConcurrencyLimiter 2, ls_inflight = []\<rparr>"
  let ?s1 = "\<lparr>ls_limiter = ?l 1, ls_inflight = [(1, ''h'')]\<rparr>"
  let ?s2 = "\<lparr>ls_limiter = ?l 2, ls_inflight = [(2, ''h''), (1, ''h'')]\<rparr>"
  let ?s3 = "\<lparr>ls_limiter = ?l 1, ls_inflight = [(2, ''h'')]\<rparr>"
  have "cl_step ?s0 ?s1" using cl_step.acquire [of ?s0 1 "''h''" "?l 1"]
    by (simp add: try_acquire_def sem_def NewConcurrencyLimiter_def)
  moreover have "cl_step ?s1 ?s2" using cl_step.acquire [of ?s1 2 "''h''" "?l 2"]
    by (simp add: try_acquire_def sem_def)
  moreover have "cl_step ?s2 ?s3" using cl_step.finish [of 1 "''h''" ?s2] by (simp add: release_def sem_def)
  ultimately have r: "cl_reach 2 ?s3" by (blast intro: cl_reach.intros)
  have "in_flight ?s3 ''h'' = 1" by (simp add: in_flight_def)
  with r concurrency_bounded_and_no_slot_leaks [OF r, of "''h''"] show ?thesis by auto
qed

section \<open>Rate\<close>

record token_bucket =
  tb_tokens :: rat
  tb_last :: gotime

record rate_limiter =
  rl_rate :: rat
  rl_burst :: rat
  rl_buckets :: "(string \<times> token_bucket) list"

definition NewRateLimiter :: "rat \<Rightarrow> int \<Rightarrow> rate_limiter" where
  "NewRateLimiter perSecond burst =
     (let b = of_int burst in \<lparr>rl_rate = perSecond, rl_burst = (if b < 1 then 1 else b), rl_buckets = []\<rparr>)"

definition refill :: "rate_limiter \<Rightarrow> token_bucket \<Rightarrow> gotime \<Rightarrow> rat" where
  "refill l b now =
     (let tokens = tb_tokens b + of_int (time_sub now (tb_last b)) / of_int Second * rl_rate l
      in if rl_burst l < tokens then rl_burst l else tokens)"

definition reserve :: "rate_limiter \<Rightarrow> string \<Rightarrow> gotime \<Rightarrow> duration \<times> rate_limiter" where
  "reserve l host now =
     (let b = (case map_of (rl_buckets l) host of None \<Rightarrow> \<lparr>tb_tokens = rl_burst l, tb_last = now\<rparr> | Some b \<Rightarrow> b);
          tokens = refill l b now - 1;
          l' = l\<lparr>rl_buckets := AList.update host \<lparr>tb_tokens = tokens, tb_last = now\<rparr> (rl_buckets l)\<rparr>
      in if 0 \<le> tokens then (0, l') else (\<lfloor>- tokens / rl_rate l * of_int Second\<rfloor>, l'))"

text \<open>
  Whether a request is sent: with no rate it always is; otherwise a request that has to wait
  and whose context ends first is not, and its token stays taken.
\<close>

definition rl_RoundTrip :: "rate_limiter \<Rightarrow> string \<Rightarrow> gotime \<Rightarrow> bool \<Rightarrow> bool \<times> rate_limiter" where
  "rl_RoundTrip l host now cancelled =
     (if rl_rate l \<le> 0 then (True, l)
      else case reserve l host now of (wait, l') \<Rightarrow> (\<not> (0 < wait \<and> cancelled), l'))"

text \<open>The times at which a sequence of calls for one host, made at the given times, may go out.\<close>

fun releases :: "rate_limiter \<Rightarrow> string \<Rightarrow> gotime list \<Rightarrow> gotime list" where
  "releases l host [] = []"
| "releases l host (t # ts) = (case reserve l host t of (wait, l') \<Rightarrow> (t + wait) # releases l' host ts)"

text \<open>The bucket after a call: never above what the refill since the first call allows.\<close>

definition tokens_of :: "rate_limiter \<Rightarrow> string \<Rightarrow> rat" where
  "tokens_of l host = (case map_of (rl_buckets l) host of None \<Rightarrow> rl_burst l | Some b \<Rightarrow> tb_tokens b)"

definition last_of :: "rate_limiter \<Rightarrow> string \<Rightarrow> gotime \<Rightarrow> gotime" where
  "last_of l host now = (case map_of (rl_buckets l) host of None \<Rightarrow> now | Some b \<Rightarrow> tb_last b)"

lemma reserve_tokens:
  assumes "reserve l host now = (wait, l')"
  shows "rl_rate l' = rl_rate l" "rl_burst l' = rl_burst l" "last_of l' host n = now"
    and "tokens_of l' host = min (rl_burst l) (tokens_of l host + of_int (time_sub now (last_of l host now)) / of_int Second * rl_rate l) - 1"
    and "wait = (if 0 \<le> tokens_of l' host then 0 else \<lfloor>- tokens_of l' host / rl_rate l * of_int Second\<rfloor>)"
proof -
  define b where "b = (case map_of (rl_buckets l) host of None \<Rightarrow> \<lparr>tb_tokens = rl_burst l, tb_last = now\<rparr> | Some b \<Rightarrow> b)"
  have w: "wait = (if 0 \<le> refill l b now - 1 then 0 else \<lfloor>- (refill l b now - 1) / rl_rate l * of_int Second\<rfloor>)"
    and l': "l' = l\<lparr>rl_buckets := AList.update host \<lparr>tb_tokens = refill l b now - 1, tb_last = now\<rparr> (rl_buckets l)\<rparr>"
    using assms unfolding reserve_def b_def [symmetric] Let_def by (metis prod.inject)+
  show "rl_rate l' = rl_rate l" "rl_burst l' = rl_burst l" "last_of l' host n = now"
    by (simp_all add: l' last_of_def update_conv)
  have t: "tokens_of l' host = refill l b now - 1" by (simp add: l' tokens_of_def update_conv)
  have "tb_tokens b = tokens_of l host" "tb_last b = last_of l host now"
    by (auto simp: b_def tokens_of_def last_of_def split: option.splits)
  then show "tokens_of l' host = min (rl_burst l) (tokens_of l host + of_int (time_sub now (last_of l host now)) / of_int Second * rl_rate l) - 1"
    by (simp add: t refill_def Let_def)
  show "wait = (if 0 \<le> tokens_of l' host then 0 else \<lfloor>- tokens_of l' host / rl_rate l * of_int Second\<rfloor>)"
    unfolding t by (rule w)
qed


text \<open>
  The moment at which a bucket's debt is paid: it moves on by one token's time with every
  call, and a call goes out no earlier, to the nanosecond.
\<close>

definition debt_time :: "rate_limiter \<Rightarrow> string \<Rightarrow> gotime \<Rightarrow> rat" where
  "debt_time l host now = of_int (last_of l host now) - tokens_of l host * of_int Second / rl_rate l"

lemma reserve_debt:
  assumes r: "reserve l host now = (wait, l')" and rate: "0 < rl_rate l" and le: "last_of l host now \<le> now"
  shows "debt_time l host now + of_int Second / rl_rate l \<le> debt_time l' host n"
    and "of_int now - (rl_burst l - 1) * of_int Second / rl_rate l \<le> debt_time l' host n"
    and "debt_time l' host n - 1 < of_int (now + wait)"
    and "of_int (now + wait) \<le> max (of_int now) (debt_time l' host n)"
proof -
  let ?S = "of_int Second :: rat"
  have S: "0 < ?S" by (simp add: Second_def)
  note f = reserve_tokens [OF r]
  define k where "k = ?S / rl_rate l"
  have k: "0 < k" using S rate by (simp add: k_def)
  have d: "debt_time l' host n = of_int now - tokens_of l' host * k" by (simp add: debt_time_def f(1,3) k_def)
  have "of_int (time_sub now (last_of l host now)) \<le> (of_int (now - last_of l host now) :: rat)"
    using le by (simp only: of_int_le_iff) (simp add: time_sub_def min_int64_def max_int64_def)
  then have "of_int (time_sub now (last_of l host now)) / ?S * rl_rate l \<le> of_int (now - last_of l host now) / ?S * rl_rate l"
    using S rate by (intro mult_right_mono divide_right_mono) auto
  then have "tokens_of l' host \<le> tokens_of l host + of_int (now - last_of l host now) / ?S * rl_rate l - 1"
    using f(4) by simp
  then have "tokens_of l' host * k \<le> (tokens_of l host + of_int (now - last_of l host now) / ?S * rl_rate l - 1) * k"
    using k by (intro mult_right_mono) auto
  also have "\<dots> = tokens_of l host * k + of_int (now - last_of l host now) / ?S * rl_rate l * k - k"
    by (simp add: distrib_right left_diff_distrib)
  also have "of_int (now - last_of l host now) / ?S * rl_rate l * k = of_int (now - last_of l host now)"
    using S rate by (simp add: k_def)
  finally have "tokens_of l' host * k \<le> tokens_of l host * k + of_int (now - last_of l host now) - k" .
  then show "debt_time l host now + of_int Second / rl_rate l \<le> debt_time l' host n"
    unfolding d by (simp add: debt_time_def k_def [symmetric] algebra_simps) (simp add: k_def)
  have "tokens_of l' host \<le> rl_burst l - 1" using f(4) by simp
  from mult_right_mono [OF this, of k] k
  show "of_int now - (rl_burst l - 1) * of_int Second / rl_rate l \<le> debt_time l' host n"
    unfolding d by (simp add: k_def)
  have w: "wait = (if 0 \<le> tokens_of l' host then 0 else \<lfloor>- (tokens_of l' host * k)\<rfloor>)"
    using f(5) by (simp add: k_def)
  have p: "0 \<le> tokens_of l' host \<Longrightarrow> 0 \<le> tokens_of l' host * k" using k by simp
  show "debt_time l' host n - 1 < of_int (now + wait)" unfolding d w using p by (auto) linarith
  show "of_int (now + wait) \<le> max (of_int now) (debt_time l' host n)" unfolding d w by (auto) linarith
qed

lemma releases_after_debt:
  assumes "sorted ts" "0 < rl_rate l" "map_of (rl_buckets l) host \<noteq> None" "\<forall>t\<in>set ts. last_of l host 0 \<le> t" "j < length ts"
  shows "debt_time l host 0 + of_int (int (j + 1)) * (of_int Second / rl_rate l) - 1 < of_int (releases l host ts ! j)"
  using assms
proof (induction ts arbitrary: l j)
  case (Cons t ts)
  obtain wait l' where r: "reserve l host t = (wait, l')" by (metis surj_pair)
  have lo: "last_of l host n = last_of l host 0" for n using Cons.prems(3) by (auto simp: last_of_def)
  have dt: "debt_time l host n = debt_time l host 0" for n by (simp add: debt_time_def lo [of n])
  have le: "last_of l host t \<le> t" using Cons.prems(4) unfolding lo [of t] by simp
  note f = reserve_tokens [OF r] and d = reserve_debt [OF r Cons.prems(2) le, of 0]
  show ?case
  proof (cases j)
    case 0
    with d(1,3) r dt [of t] show ?thesis by simp
  next
    case (Suc i)
    have b: "map_of (rl_buckets l') host \<noteq> None"
      using r by (auto simp: reserve_def Let_def update_conv split: if_splits)
    have "debt_time l' host 0 + of_int (int (i + 1)) * (of_int Second / rl_rate l') - 1 < of_int (releases l' host ts ! i)"
      by (rule Cons.IH) (use Cons.prems Suc b f in auto)
    moreover define k where "k = of_int Second / rl_rate l"
    ultimately show ?thesis using d(1) r dt [of t] unfolding Suc f(1) k_def [symmetric] by (simp add: algebra_simps)
  qed
qed simp

lemma releases_from_first:
  assumes "sorted (t # ts)" "0 < rl_rate l" "1 \<le> rl_burst l" "last_of l host t \<le> t" "j < length (t # ts)"
  shows "(of_int (int j + 1) - rl_burst l) * (of_int Second / rl_rate l) <
    of_int (releases l host (t # ts) ! j) - of_int (releases l host (t # ts) ! 0) + (1 :: rat)"
proof -
  obtain wait l' where r: "reserve l host t = (wait, l')" by (metis surj_pair)
  note f = reserve_tokens [OF r] and d = reserve_debt [OF r assms(2,4), of 0]
  define k where "k = of_int Second / rl_rate l"
  have k: "0 < k" using assms(2) by (simp add: k_def Second_def)
  have "0 \<le> (rl_burst l - 1) * k" using k assms(3) by simp
  then have first: "of_int (t + wait) - (rl_burst l - 1) * k \<le> debt_time l' host 0"
    using d(2,4) by (auto simp: k_def)
  show ?thesis
  proof (cases j)
    case 0
    have "(1 - rl_burst l) * k \<le> 0" using k assms(3) by (simp add: mult_nonpos_nonneg)
    then have "(1 - rl_burst l) * k < 1" by linarith
    with 0 show ?thesis by (simp add: k_def)
  next
    case (Suc i)
    have b: "map_of (rl_buckets l') host \<noteq> None"
      using r by (auto simp: reserve_def Let_def update_conv split: if_splits)
    have "debt_time l' host 0 + of_int (int (i + 1)) * (of_int Second / rl_rate l') - 1 < of_int (releases l' host ts ! i)"
      by (rule releases_after_debt) (use assms f b Suc in auto)
    with first r show ?thesis unfolding Suc f(1) k_def [symmetric] by (simp add: algebra_simps)
  qed
qed

text \<open>
  The rate limiter does what it is for: of the calls for a host, made in order, any number
  n that go out within a span of time T satisfies n \<open>\<le>\<close> burst + rate * T, up to the
  nanosecond the conversion of the wait truncates.
\<close>

theorem rate_is_bounded:
  assumes "sorted ts" "0 < rl_rate l" "1 \<le> rl_burst l" "\<forall>t\<in>set ts. last_of l host t \<le> t" "i \<le> j" "j < length ts"
  shows "(of_int (int (j - i) + 1) - rl_burst l) * (of_int Second / rl_rate l) <
    of_int (releases l host ts ! j) - of_int (releases l host ts ! i) + (1 :: rat)"
  using assms
proof (induction ts arbitrary: l i j)
  case (Cons t ts)
  show ?case
  proof (cases i)
    case 0
    with releases_from_first [of t ts l host j] Cons.prems show ?thesis by simp
  next
    case (Suc i')
    obtain wait l' where r: "reserve l host t = (wait, l')" by (metis surj_pair)
    note f = reserve_tokens [OF r]
    obtain j' where j: "j = Suc j'" using Cons.prems(5) Suc by (cases j) auto
    have "(of_int (int (j' - i') + 1) - rl_burst l') * (of_int Second / rl_rate l') <
      of_int (releases l' host ts ! j') - of_int (releases l' host ts ! i') + (1 :: rat)"
      by (rule Cons.IH) (use Cons.prems Suc j f in auto)
    with r f(1,2) show ?thesis by (simp add: Suc j)
  qed
qed simp

text \<open>Two per second with a burst of one: the third of three calls made at once waits a second.\<close>

theorem rate_is_bounded_witness:
  "releases (NewRateLimiter 2 1) ''h'' [0, 0, 0] = [0, 500000000, 1000000000] \<and> (3 - 1) * (1000000000 / 2) < (1000000000 :: rat) - 0 + 1"
proof -
  have r: "releases (NewRateLimiter 2 1) ''h'' [0, 0, 0] = [0, 500000000, 1000000000]" by code_simp
  have "(of_int (int (2 - 0) + 1) - rl_burst (NewRateLimiter 2 1)) * (of_int Second / rl_rate (NewRateLimiter 2 1)) <
    of_int (releases (NewRateLimiter 2 1) ''h'' [0, 0, 0] ! 2) - of_int (releases (NewRateLimiter 2 1) ''h'' [0, 0, 0] ! 0) + (1 :: rat)"
    by (rule rate_is_bounded) (simp_all add: NewRateLimiter_def last_of_def)
  with r show ?thesis by (simp add: NewRateLimiter_def Second_def)
qed

end
