(* ===== verification/Docker_Registry.thy ===== *)
theory Docker_Registry
  imports Proxy_Upstream Local_Cache
begin

text \<open>
  The parts of the Docker registry proxy below its gate, \<^verbatim>\<open>internal/proxy/dockerproxy\<close>: the
  request paths (\<^verbatim>\<open>path.go\<close>), the verdict store over the shared cache (\<^verbatim>\<open>blobcache.go\<close>), the memory of
  tags (\<^verbatim>\<open>tagindex.go\<close>), attestation manifests (\<^verbatim>\<open>attestation.go\<close>), the registry client
  (\<^verbatim>\<open>adapter.go\<close>) and the image scanner (\<^verbatim>\<open>trivy.go\<close>). JSON decoding, SHA-256 and the
  parsing of times are a record of codecs; each anonymous struct the code decodes into has a decoder of its own.
\<close>

section \<open>Paths\<close>

datatype request_kind = KindUnknown | KindPing | KindManifest | KindBlob | KindTagList

record parsed_path =
  pp_Kind :: request_kind
  pp_Repo :: string
  pp_Reference :: string

definition splitRepoVerb :: "string \<Rightarrow> string \<Rightarrow> (string \<times> string) option" where
  "splitRepoVerb path verb =
     (let sep = ''/'' @ verb @ ''/'' in
      case str_last_index sep path of
        None \<Rightarrow> None
      | Some idx \<Rightarrow>
          (let repo = take idx path; ref = drop (idx + length sep) path in
           if repo = [] \<or> ref = [] \<or> contains_str ref ''/'' then None else Some (repo, ref)))"

definition ParsePath :: "string \<Rightarrow> parsed_path" where
  "ParsePath p =
     (let trimmed = trim_set ''/'' p in
      if trimmed = [] then \<lparr>pp_Kind = KindPing, pp_Repo = [], pp_Reference = []\<rparr>
      else case splitRepoVerb trimmed ''manifests'' of
        Some (repo, ref) \<Rightarrow> \<lparr>pp_Kind = KindManifest, pp_Repo = repo, pp_Reference = ref\<rparr>
      | None \<Rightarrow>
          (case splitRepoVerb trimmed ''blobs'' of
             Some (repo, ref) \<Rightarrow> \<lparr>pp_Kind = KindBlob, pp_Repo = repo, pp_Reference = ref\<rparr>
           | None \<Rightarrow>
               if has_suffix trimmed ''/tags/list''
               then \<lparr>pp_Kind = KindTagList, pp_Repo = trim_suffix trimmed ''/tags/list'', pp_Reference = []\<rparr>
               else \<lparr>pp_Kind = KindUnknown, pp_Repo = [], pp_Reference = []\<rparr>))"

section \<open>The verdict store\<close>

text \<open>
  The shared cache as the store uses it: the port of the package handlers, with the whole entry of a
  lookup (\<open>cache.Cache.Get\<close>).
\<close>

record 'c image_cache = "'c cache_ops" +
  c_lookup :: "'c \<Rightarrow> package_ref \<Rightarrow> gotime \<Rightarrow> cache_entry option \<times> 'c"

definition blobRef :: "string \<Rightarrow> package_ref" where
  "blobRef digest = \<lparr>Ecosystem = ''docker'', Name = ''blobs'', Version = digest, Classifier = []\<rparr>"

definition imageRefKey :: "string \<Rightarrow> string \<Rightarrow> package_ref" where
  "imageRefKey repo digest = \<lparr>Ecosystem = ''docker'', Name = repo, Version = digest, Classifier = []\<rparr>"

definition GetBlob :: "'c image_cache \<Rightarrow> 'c \<Rightarrow> string \<Rightarrow> gotime \<Rightarrow> (string \<times> bool) option \<times> 'c" where
  "GetBlob ops c digest now =
     (case c_lookup ops c (blobRef digest) now of
        (None, c') \<Rightarrow> (None, c') | (Some e, c') \<Rightarrow> (Some (ce_ArtifactPath e, ce_ScanClean e), c'))"

definition PutBlob :: "'c image_cache \<Rightarrow> 'c \<Rightarrow> string \<Rightarrow> string \<Rightarrow> bool \<Rightarrow> gotime \<Rightarrow> bool \<times> 'c" where
  "PutBlob ops c digest tmpPath clean now = c_put ops c (blobRef digest) tmpPath clean [] now"

definition GetImageVerdict :: "'c image_cache \<Rightarrow> 'c \<Rightarrow> string \<Rightarrow> string \<Rightarrow> gotime \<Rightarrow> (bool \<times> string \<times> gotime) option \<times> 'c" where
  "GetImageVerdict ops c repo digest now =
     (case c_lookup ops c (imageRefKey repo digest) now of
        (None, c') \<Rightarrow> (None, c')
      | (Some e, c') \<Rightarrow>
          (Some (ce_ScanClean e, ce_ScanJSON e,
             if ce_LastMalwareCheck e < ce_LastCVECheck e then ce_LastMalwareCheck e else ce_LastCVECheck e), c'))"

definition PutImageVerdict :: "'c image_cache \<Rightarrow> 'c \<Rightarrow> string \<Rightarrow> string \<Rightarrow> string \<Rightarrow> bool \<Rightarrow> string \<Rightarrow> gotime \<Rightarrow> bool \<times> 'c" where
  "PutImageVerdict ops c repo digest tmpPath clean reason now = c_put ops c (imageRefKey repo digest) tmpPath clean reason now"

definition InvalidateBlob :: "'c image_cache \<Rightarrow> 'c \<Rightarrow> string \<Rightarrow> bool \<times> 'c" where
  "InvalidateBlob ops c digest = c_invalidate ops c (blobRef digest)"

definition GetManifestBody :: "'c image_cache \<Rightarrow> 'c \<Rightarrow> string \<Rightarrow> string \<Rightarrow> gotime \<Rightarrow> string option \<times> 'c" where
  "GetManifestBody ops c repo digest now =
     (case c_lookup ops c (imageRefKey repo digest) now of
        (None, c') \<Rightarrow> (None, c') | (Some e, c') \<Rightarrow> (Some (ce_ArtifactPath e), c'))"

section \<open>Codecs\<close>

record docker_codecs =
  dc_children :: "string \<Rightarrow> string list option"
  dc_layerTypes :: "string \<Rightarrow> string list option"
  dc_attestation :: "string \<Rightarrow> (string \<times> (string \<times> string) list) option"
  dc_image :: "string \<Rightarrow> (string \<times> string list) option"
  dc_mediaType :: "string \<Rightarrow> string option"
  dc_created :: "string \<Rightarrow> bool \<Rightarrow> string option"
  dc_token :: "string \<Rightarrow> bool \<Rightarrow> (string \<times> string) option"
  dc_RFC3339 :: "string \<Rightarrow> gotime option"
  dc_sha256 :: "string \<Rightarrow> string"

section \<open>Remembered tags\<close>

record tag_index =
  ti_max :: int
  ti_entries :: "string \<rightharpoonup> string"
  ti_order :: "string list"

definition defaultTagIndexMax :: int where "defaultTagIndexMax = 4096"

definition newTagIndex :: "int \<Rightarrow> tag_index" where
  "newTagIndex m = \<lparr>ti_max = (if m \<le> 0 then defaultTagIndexMax else m), ti_entries = Map.empty, ti_order = []\<rparr>"

definition tagIndexKey :: "string \<Rightarrow> string \<Rightarrow> string" where
  "tagIndexKey repo digest = repo @ ''@'' @ digest"

definition isDigestRef :: "string \<Rightarrow> bool" where
  "isDigestRef ref = contains_str ref '':''"

definition ti_put :: "string \<Rightarrow> string \<Rightarrow> tag_index \<Rightarrow> tag_index" where
  "ti_put key tag ti =
     (let ti1 =
        (if ti_entries ti key \<noteq> None then ti
         else let ti0 =
           (if 0 < ti_max ti \<and> ti_max ti \<le> int (length (ti_order ti))
            then ti\<lparr>ti_order := tl (ti_order ti), ti_entries := (ti_entries ti)(hd (ti_order ti) := None)\<rparr> else ti)
           in ti0\<lparr>ti_order := ti_order ti0 @ [key]\<rparr>)
      in ti1\<lparr>ti_entries := (ti_entries ti1)(key \<mapsto> tag)\<rparr>)"

definition rememberChildren :: "docker_codecs \<Rightarrow> string \<Rightarrow> string \<Rightarrow> string \<Rightarrow> tag_index \<Rightarrow> tag_index" where
  "rememberChildren dc repo tag indexBody ti =
     (case dc_children dc indexBody of
        None \<Rightarrow> ti
      | Some digests \<Rightarrow> fold (\<lambda>d. ti_put (tagIndexKey repo d) tag) (filter (\<lambda>d. d \<noteq> []) digests) ti)"

definition ti_tag :: "tag_index \<Rightarrow> string \<Rightarrow> string \<Rightarrow> string option" where
  "ti_tag ti repo digest = ti_entries ti (tagIndexKey repo digest)"

section \<open>Attestations\<close>

definition maxAttestationBlobBytes :: int where "maxAttestationBlobBytes = 4194304"

definition defaultAttestationBlobsMax :: int where "defaultAttestationBlobsMax = 4096"

definition maxAttestationLayers :: nat where "maxAttestationLayers = 64"

definition inTotoMediaType :: string where "inTotoMediaType = ''application/vnd.in-toto+json''"

definition isInTotoLayer :: "string \<Rightarrow> bool" where
  "isInTotoLayer mediaType =
     (let mt = to_lower (trim_space (fst (cut CHR '';'' mediaType))) in
      mt = inTotoMediaType \<or> has_prefix mt ''application/vnd.in-toto.'')"

definition isAttestationManifest :: "docker_codecs \<Rightarrow> string \<Rightarrow> bool" where
  "isAttestationManifest dc body =
     (case dc_layerTypes dc body of
        None \<Rightarrow> False
      | Some layers \<Rightarrow> \<not> (layers = [] \<or> maxAttestationLayers < length layers) \<and> list_all isInTotoLayer layers)"

record attestation_blobs =
  ab_max :: int
  ab_entries :: "string set"
  ab_order :: "string list"

definition newAttestationBlobs :: "int \<Rightarrow> attestation_blobs" where
  "newAttestationBlobs m = \<lparr>ab_max = (if m \<le> 0 then defaultAttestationBlobsMax else m), ab_entries = {}, ab_order = []\<rparr>"

definition ab_add :: "string \<Rightarrow> string \<Rightarrow> attestation_blobs \<Rightarrow> attestation_blobs" where
  "ab_add repo digest a =
     (let key = repo @ ''@'' @ digest in
      if key \<in> ab_entries a then a
      else let a0 =
        (if ab_max a \<le> int (length (ab_order a))
         then a\<lparr>ab_entries := ab_entries a - {hd (ab_order a)}, ab_order := tl (ab_order a)\<rparr> else a)
        in a0\<lparr>ab_order := ab_order a0 @ [key], ab_entries := insert key (ab_entries a0)\<rparr>)"

definition ab_remember :: "docker_codecs \<Rightarrow> string \<Rightarrow> string \<Rightarrow> attestation_blobs \<Rightarrow> attestation_blobs" where
  "ab_remember dc repo manifestBody a =
     (if \<not> isAttestationManifest dc manifestBody then a
      else case dc_attestation dc manifestBody of
        None \<Rightarrow> a
      | Some (cfg, layers) \<Rightarrow>
          fold (ab_add repo)
            ((if cfg \<noteq> [] then [cfg] else []) @
             map snd (filter (\<lambda>(mediaType, digest). digest \<noteq> [] \<and> isInTotoLayer mediaType) layers)) a)"

definition ab_has :: "attestation_blobs \<Rightarrow> string \<Rightarrow> string \<Rightarrow> bool" where
  "ab_has a repo digest \<longleftrightarrow> repo @ ''@'' @ digest \<in> ab_entries a"

section \<open>The registry client\<close>

definition mediaTypeSchema2Manifest :: string where
  "mediaTypeSchema2Manifest = ''application/vnd.docker.distribution.manifest.v2+json''"

definition mediaTypeSchema2List :: string where
  "mediaTypeSchema2List = ''application/vnd.docker.distribution.manifest.list.v2+json''"

definition mediaTypeOCIManifest :: string where
  "mediaTypeOCIManifest = ''application/vnd.oci.image.manifest.v1+json''"

definition mediaTypeOCIIndex :: string where
  "mediaTypeOCIIndex = ''application/vnd.oci.image.index.v1+json''"

definition manifestAccept :: string where
  "manifestAccept = join_with '', '' [mediaTypeSchema2Manifest, mediaTypeSchema2List, mediaTypeOCIManifest, mediaTypeOCIIndex]"

definition NewAdapter :: "string list \<Rightarrow> string list" where
  "NewAdapter upstreams = map (trim_right_set ''/'') upstreams"

definition isIndexMediaType :: "string \<Rightarrow> bool" where
  "isIndexMediaType ct \<longleftrightarrow> ct = mediaTypeOCIIndex \<or> ct = mediaTypeSchema2List"

text \<open>The parameters of a challenge; a later one of the same name counts.\<close>

definition challenge_params :: "string \<Rightarrow> string \<Rightarrow> string" where
  "challenge_params challenge =
     foldl (\<lambda>params part.
         case cut CHR ''='' (trim_space part) of
           (k, v, True) \<Rightarrow> params(k := trim_set [CHR 0x22] v)
         | _ \<Rightarrow> params)
       (\<lambda>_. []) (split_on CHR '','' (trim_prefix challenge ''Bearer ''))"

definition fetchToken :: "docker_codecs \<Rightarrow> services \<Rightarrow> string \<Rightarrow> go_error + string" where
  "fetchToken dc sv challenge =
     (if \<not> has_prefix challenge ''Bearer '' then Inl (Plain ''unsupported auth challenge'')
      else
        let params = challenge_params challenge; realm = params ''realm'' in
        if realm = [] then Inl (Plain ''auth challenge missing realm'')
        else
          let u = realm @ ''?service='' @ params ''service'' @ ''&scope='' @ params ''scope'' in
          case sv_NewRequest sv u of
            Some e \<Rightarrow> Inl e
          | None \<Rightarrow>
              (case sv_Do sv ''GET'' u no_header [] of
                 Inl e \<Rightarrow> Inl e
               | Inr resp \<Rightarrow>
                   if rs_StatusCode resp \<noteq> StatusOK then Inl (Plain ''token endpoint returned HTTP'')
                   else case dc_token dc (rs_Body resp) (rs_BodyErr resp) of
                     None \<Rightarrow> Inl (Plain ''decoding token'')
                   | Some (token, accessToken) \<Rightarrow> Inr (if token \<noteq> [] then token else accessToken)))"

definition registry_request :: "services \<Rightarrow> string \<Rightarrow> string \<Rightarrow> string \<Rightarrow> string \<Rightarrow> go_error + http_response" where
  "registry_request sv meth u accept token =
     (case sv_NewRequest sv u of
        Some e \<Rightarrow> Inl e
      | None \<Rightarrow>
          (let h1 = (if accept \<noteq> [] then hdr_Set no_header ''Accept'' accept else no_header);
               h2 = (if token \<noteq> [] then hdr_Set h1 ''Authorization'' (''Bearer '' @ token) else h1)
           in sv_Do sv meth u h2 []))"

definition registry_do :: "docker_codecs \<Rightarrow> services \<Rightarrow> string \<Rightarrow> string \<Rightarrow> string \<Rightarrow> string \<Rightarrow> go_error + http_response" where
  "registry_do dc sv meth base path accept =
     (case registry_request sv meth (base @ path) accept [] of
        Inl e \<Rightarrow> Inl e
      | Inr resp \<Rightarrow>
          if rs_StatusCode resp \<noteq> StatusUnauthorized then Inr resp
          else case fetchToken dc sv (hdr_Get (rs_Header resp) ''Www-Authenticate'') of
            Inl e \<Rightarrow> Inl e
          | Inr token \<Rightarrow> registry_request sv meth (base @ path) accept token)"

definition manifest_path :: "string \<Rightarrow> string \<Rightarrow> string" where
  "manifest_path repo ref = ''/v2/'' @ repo @ ''/manifests/'' @ ref"

definition blob_path :: "string \<Rightarrow> string \<Rightarrow> string" where
  "blob_path repo digest = ''/v2/'' @ repo @ ''/blobs/'' @ digest"

definition http_status_error :: "string \<Rightarrow> string \<Rightarrow> string \<Rightarrow> int \<Rightarrow> go_error" where
  "http_status_error what repo ref status = Plain (what @ repo @ ''/'' @ ref @ '': HTTP '' @ FormatInt status)"

fun resolve_loop :: "docker_codecs \<Rightarrow> services \<Rightarrow> string \<Rightarrow> string \<Rightarrow> string list \<Rightarrow> attempts \<Rightarrow> go_error + string" where
  "resolve_loop dc sv repo ref [] atts = Inl (AttemptsError atts)"
| "resolve_loop dc sv repo ref (base # bases) atts =
     (let path = manifest_path repo ref; u = base @ path in
      case registry_do dc sv ''HEAD'' base path manifestAccept of
        Inl e \<Rightarrow> resolve_loop dc sv repo ref bases (atts_Add sv atts u 0 e)
      | Inr resp \<Rightarrow>
          if rs_StatusCode resp = StatusOK then
            (let dg = hdr_Get (rs_Header resp) ''Docker-Content-Digest'' in
             if dg \<noteq> [] then Inr dg
             else resolve_loop dc sv repo ref bases
               (atts_Add sv atts u (rs_StatusCode resp) (Plain (''upstream omitted Docker-Content-Digest for '' @ repo @ ''/'' @ ref))))
          else resolve_loop dc sv repo ref bases
            (atts_Add sv atts u (rs_StatusCode resp) (http_status_error ''HEAD manifest '' repo ref (rs_StatusCode resp))))"

definition ResolveDigest :: "docker_codecs \<Rightarrow> services \<Rightarrow> string list \<Rightarrow> string \<Rightarrow> string \<Rightarrow> go_error + string" where
  "ResolveDigest dc sv upstreams repo ref = resolve_loop dc sv repo ref upstreams []"

text \<open>Body, content type and digest of the first mirror that delivers.\<close>

fun manifest_loop ::
  "docker_codecs \<Rightarrow> services \<Rightarrow> string \<Rightarrow> string \<Rightarrow> string list \<Rightarrow> attempts \<Rightarrow> go_error + (string \<times> string \<times> string)" where
  "manifest_loop dc sv repo ref [] atts = Inl (AttemptsError atts)"
| "manifest_loop dc sv repo ref (base # bases) atts =
     (let path = manifest_path repo ref; u = base @ path in
      case registry_do dc sv ''GET'' base path manifestAccept of
        Inl e \<Rightarrow> manifest_loop dc sv repo ref bases (atts_Add sv atts u 0 e)
      | Inr resp \<Rightarrow>
          if rs_StatusCode resp \<noteq> StatusOK
          then manifest_loop dc sv repo ref bases
            (atts_Add sv atts u (rs_StatusCode resp) (http_status_error ''GET manifest '' repo ref (rs_StatusCode resp)))
          else if rs_BodyErr resp
          then manifest_loop dc sv repo ref bases (atts_Add sv atts u (rs_StatusCode resp) (Plain ''unexpected EOF''))
          else
            let dg = hdr_Get (rs_Header resp) ''Docker-Content-Digest'' in
            Inr (rs_Body resp, hdr_Get (rs_Header resp) ''Content-Type'', if dg = [] then ref else dg))"

definition FetchManifest ::
  "docker_codecs \<Rightarrow> services \<Rightarrow> string list \<Rightarrow> string \<Rightarrow> string \<Rightarrow> go_error + (string \<times> string \<times> string)" where
  "FetchManifest dc sv upstreams repo ref = manifest_loop dc sv repo ref upstreams []"

text \<open>The open stream of a blob is the response it reads.\<close>

fun blob_loop :: "docker_codecs \<Rightarrow> services \<Rightarrow> string \<Rightarrow> string \<Rightarrow> string list \<Rightarrow> attempts \<Rightarrow> go_error + http_response" where
  "blob_loop dc sv repo digest [] atts = Inl (AttemptsError atts)"
| "blob_loop dc sv repo digest (base # bases) atts =
     (let path = blob_path repo digest; u = base @ path in
      case registry_do dc sv ''GET'' base path [] of
        Inl e \<Rightarrow> blob_loop dc sv repo digest bases (atts_Add sv atts u 0 e)
      | Inr resp \<Rightarrow>
          if rs_StatusCode resp \<noteq> StatusOK
          then blob_loop dc sv repo digest bases
            (atts_Add sv atts u (rs_StatusCode resp) (http_status_error ''GET blob '' repo digest (rs_StatusCode resp)))
          else Inr resp)"

definition FetchBlob :: "docker_codecs \<Rightarrow> services \<Rightarrow> string list \<Rightarrow> string \<Rightarrow> string \<Rightarrow> go_error + http_response" where
  "FetchBlob dc sv upstreams repo digest = blob_loop dc sv repo digest upstreams []"

definition hostFromUpstream :: "string list \<Rightarrow> string" where
  "hostFromUpstream upstreams =
     (case upstreams of
        [] \<Rightarrow> []
      | u # _ \<Rightarrow>
          (let h = trim_right_set ''/'' (trim_prefix (trim_prefix u ''https://'') ''http://'') in
           if h = ''registry-1.docker.io'' \<or> h = ''index.docker.io'' then ''docker.io'' else h))"

definition ImageConfig ::
  "docker_codecs \<Rightarrow> services \<Rightarrow> string list \<Rightarrow> string \<Rightarrow> string \<Rightarrow> go_error + (gotime \<times> string \<times> string list)" where
  "ImageConfig dc sv upstreams repo manifestBody =
     (case dc_image dc manifestBody of
        None \<Rightarrow> Inl (Plain ''decoding manifest'')
      | Some (configDigest, layers) \<Rightarrow>
          if configDigest = [] then Inr (zero_time, configDigest, layers)
          else case FetchBlob dc sv upstreams repo configDigest of
            Inl e \<Rightarrow> Inl (Wrapped ''fetching config blob: '' e [])
          | Inr resp \<Rightarrow>
              (case dc_created dc (rs_Body resp) (rs_BodyErr resp) of
                 None \<Rightarrow> Inl (Plain ''decoding config blob'')
               | Some created \<Rightarrow>
                   if created = [] then Inr (zero_time, configDigest, layers)
                   else case dc_RFC3339 dc created of
                     None \<Rightarrow> Inl (Plain ''parsing config.created'')
                   | Some t \<Rightarrow> Inr (t, configDigest, layers)))"

text \<open>
  An attestation blob for a client: capped and checked against its digest. At most one byte more than the
  cap is read.
\<close>

definition fetchAttestationBlob ::
  "docker_codecs \<Rightarrow> services \<Rightarrow> string list \<Rightarrow> string \<Rightarrow> string \<Rightarrow> go_error + string" where
  "fetchAttestationBlob dc sv upstreams repo digest =
     (if \<not> has_prefix digest ''sha256:'' then Inl (Wrapped [] (Sentinel ErrAttestationBlobRejected) '': unsupported digest'')
      else case FetchBlob dc sv upstreams repo digest of
        Inl e \<Rightarrow> Inl e
      | Inr resp \<Rightarrow>
          if maxAttestationBlobBytes < rs_ContentLength resp then Inl (Wrapped [] (Sentinel ErrAttestationBlobRejected) '': bytes'')
          else
            let limit = nat (maxAttestationBlobBytes + 1); buf = take limit (rs_Body resp) in
            if rs_BodyErr resp \<and> length (rs_Body resp) < limit then Inl (Plain ''unexpected EOF'')
            else if maxAttestationBlobBytes < int (length buf) then Inl (Wrapped [] (Sentinel ErrAttestationBlobRejected) '': over'')
            else if dc_sha256 dc buf \<noteq> drop (length ''sha256:'') digest
            then Inl (Wrapped [] (Sentinel ErrAttestationBlobRejected) '': digest mismatch'')
            else Inr buf)"

section \<open>The image scanner\<close>

record trivy_scanner =
  ts_serverURL :: string
  ts_scanners :: string
  ts_timeout :: duration
  ts_health :: "(bool \<times> duration) option"

definition NewTrivyScanner :: "string \<Rightarrow> string \<Rightarrow> duration \<Rightarrow> trivy_scanner" where
  "NewTrivyScanner serverURL scanners timeout =
     \<lparr>ts_serverURL = serverURL, ts_scanners = (if scanners = [] then ''vuln,secret'' else scanners),
      ts_timeout = (if timeout \<le> 0 then 120 * Second else timeout), ts_health = None\<rparr>"

record trivy_vulnerability =
  tv_VulnerabilityID :: string
  tv_Severity :: string
  tv_Title :: string

definition trivy_args :: "trivy_scanner \<Rightarrow> string \<Rightarrow> string list" where
  "trivy_args s imageRef =
     [''image'', ''--server'', ts_serverURL s, ''--format'', ''json'', ''--quiet'', ''--scanners'', ts_scanners s, imageRef]"

text \<open>Running the command and decoding its report are arguments, with the time it took.\<close>

definition ScanImage ::
  "(string list \<Rightarrow> go_error + string) \<Rightarrow> (string \<Rightarrow> trivy_vulnerability list list option) \<Rightarrow> duration \<Rightarrow> trivy_scanner \<Rightarrow> string
   \<Rightarrow> (go_error + cve_finding list) \<times> trivy_scanner" where
  "ScanImage run decode latency s imageRef =
     (case run (trivy_args s imageRef) of
        Inl e \<Rightarrow> (Inl (Wrapped (''running trivy for '' @ imageRef @ '': '') e []), s\<lparr>ts_health := Some (False, latency)\<rparr>)
      | Inr out \<Rightarrow>
          (case decode out of
             None \<Rightarrow> Inl (Plain ''decoding trivy output'')
           | Some results \<Rightarrow>
               Inr (map (\<lambda>v. \<lparr>cf_ID = tv_VulnerabilityID v, cf_Aliases = [], cf_Severity = ParseSeverity (tv_Severity v),
                              cf_Summary = tv_Title v, cf_Score = 0\<rparr>) (concat results)),
           s\<lparr>ts_health := Some (True, latency)\<rparr>))"

definition trivy_healthy :: "(string \<Rightarrow> go_error + int) \<Rightarrow> trivy_scanner \<Rightarrow> bool" where
  "trivy_healthy httpGet s =
     (case httpGet (trim_right_set ''/'' (ts_serverURL s) @ ''/healthz'') of
        Inl _ \<Rightarrow> False | Inr status \<Rightarrow> 200 \<le> status \<and> status < 300)"

end
