(* ===== verification/Docker_Gate.thy ===== *)
theory Docker_Gate
  imports Docker_Registry
begin

text \<open>
  The gate of image manifests, \<^verbatim>\<open>internal/proxy/dockerproxy/gate.go\<close>: \<open>Evaluate\<close> with the cached
  verdicts, the passthrough of indexes and attestations, and the pipeline of supply-chain filter,
  image scan, policy and malware scan of every blob. The cache is threaded through as a state; the clock is
  read at named moments, the upstreams may answer each stage of an evaluation differently, and a
  coalesced pipeline's outcome is an argument of the waiters.
\<close>

section \<open>Verdicts\<close>

definition reasonIndexPassthrough :: string where "reasonIndexPassthrough = ''index_passthrough''"

definition reasonAttestationPassthrough :: string where "reasonAttestationPassthrough = ''attestation_passthrough''"

definition isPassthroughReason :: "string \<Rightarrow> bool" where
  "isPassthroughReason reason \<longleftrightarrow> reason = reasonIndexPassthrough \<or> reason = reasonAttestationPassthrough"

record gate_verdict =
  gv_Allowed :: bool
  gv_Reason :: string
  gv_BlockedBy :: string
  gv_Findings :: "cve_finding list"
  gv_ManifestPath :: string
  gv_ContentType :: string
  gv_PublishedAt :: gotime
  gv_BlockUntil :: gotime
  gv_Passthrough :: bool
  gv_FromCache :: bool

definition zero_verdict :: gate_verdict where
  "zero_verdict = \<lparr>gv_Allowed = False, gv_Reason = [], gv_BlockedBy = [], gv_Findings = [], gv_ManifestPath = [],
     gv_ContentType = [], gv_PublishedAt = zero_time, gv_BlockUntil = zero_time, gv_Passthrough = False, gv_FromCache = False\<rparr>"

definition blockedByForReason :: "string \<Rightarrow> string" where
  "blockedByForReason reason =
     (if reason = ''malware_found'' then ''malware''
      else if reason = ReasonDenylisted then ''denylist''
      else if reason = ''cve_found'' then ''cve''
      else ''supply_chain'')"

definition isStaleSupplyBlock :: "bool \<Rightarrow> string \<Rightarrow> bool" where
  "isStaleSupplyBlock clean reason \<longleftrightarrow> \<not> clean \<and> blockedByForReason reason = ''supply_chain''"

section \<open>The gate and one evaluation's surroundings\<close>

record 'c image_gate =
  ig_upstreams :: "string list"
  ig_scanner :: "string \<Rightarrow> go_error + cve_finding list"
  ig_av :: "(string \<Rightarrow> string option \<Rightarrow> go_error + av_result) option"
  ig_filter :: "gotime \<Rightarrow> package_ref \<Rightarrow> package_metadata \<Rightarrow> filter_result"
  ig_policy :: "(package_ref \<Rightarrow> scan_result \<Rightarrow> policy_decision) option"
  ig_store :: "'c image_cache"
  ig_codecs :: docker_codecs
  ig_maxLayerBytes :: int64
  ig_recheckTTL :: duration

datatype moment =
    FastLookup | FastBody | FastAge | Lookup | LookupBody | Age | FilterTime | StoreTime | ServeTime
  | LayerLookup nat | LayerStore nat

record gate_env =
  ge_time :: "moment \<Rightarrow> gotime"
  ge_manifestNet :: services
  ge_configNet :: services
  ge_layerNet :: "nat \<Rightarrow> services"
  ge_manifestTemp :: "go_error + string"
  ge_manifestWrite :: "go_error option"
  ge_flight :: "(go_error + gate_verdict) option"

definition imageRef :: "'c image_gate \<Rightarrow> string \<Rightarrow> string \<Rightarrow> string" where
  "imageRef g repo digest = hostFromUpstream (ig_upstreams g) @ ''/'' @ repo @ ''@'' @ digest"

text \<open>The media type a stored manifest names, empty when it cannot be read.\<close>

definition manifestMediaType :: "'c image_gate \<Rightarrow> 'c \<Rightarrow> string \<Rightarrow> string" where
  "manifestMediaType g c path =
     (case c_open (ig_store g) c path of
        None \<Rightarrow> []
      | Some body \<Rightarrow> (case dc_mediaType (ig_codecs g) body of None \<Rightarrow> [] | Some mt \<Rightarrow> mt))"

section \<open>Storing\<close>

definition cacheVerdict ::
  "'c image_gate \<Rightarrow> gate_env \<Rightarrow> string \<Rightarrow> string \<Rightarrow> string \<Rightarrow> gate_verdict \<Rightarrow> 'c \<Rightarrow> go_error option \<times> 'c" where
  "cacheVerdict g en repo digest manifestBody v c =
     (case ge_manifestTemp en of
        Inl e \<Rightarrow> (Some e, c)
      | Inr tmp \<Rightarrow>
          (let c1 = c_writeTemp (ig_store g) c tmp manifestBody in
           case ge_manifestWrite en of
             Some e \<Rightarrow> (Some e, c_remove (ig_store g) c1 tmp)
           | None \<Rightarrow>
               (case PutImageVerdict (ig_store g) c1 repo digest tmp (gv_Allowed v) (gv_Reason v) (ge_time en StoreTime) of
                  (failed, c2) \<Rightarrow> (if failed then Some (Plain ''caching verdict'') else None, c_remove (ig_store g) c2 tmp))))"

definition evict_digests :: "docker_codecs \<Rightarrow> string \<Rightarrow> string list" where
  "evict_digests dc manifestBody =
     (case dc_image dc manifestBody of
        None \<Rightarrow> []
      | Some (configDigest, layers) \<Rightarrow> (if configDigest \<noteq> [] then [configDigest] else []) @ filter (\<lambda>d. d \<noteq> []) layers)"

definition evictBlobs :: "'c image_gate \<Rightarrow> string \<Rightarrow> 'c \<Rightarrow> 'c" where
  "evictBlobs g manifestBody c =
     fold (\<lambda>d c. snd (InvalidateBlob (ig_store g) c d)) (evict_digests (ig_codecs g) manifestBody) c"

section \<open>Layers\<close>

datatype layer_outcome = layerClean | layerInfected | layerIncomplete

definition devnull :: string where "devnull = ''/dev/null''"

definition buffer_layer :: "int64 \<Rightarrow> http_response \<Rightarrow> string \<times> bool" where
  "buffer_layer maxLayerBytes resp =
     (if 0 < maxLayerBytes then
        (let limit = nat (wrap64 (maxLayerBytes + 1)) in
         (take limit (rs_Body resp), rs_BodyErr resp \<and> length (rs_Body resp) < limit))
      else (rs_Body resp, rs_BodyErr resp))"

text \<open>The scan of a buffered layer and the storing of its verdict.\<close>

definition scan_buffered ::
  "'c image_gate \<Rightarrow> string \<Rightarrow> string \<Rightarrow> gotime \<Rightarrow> 'c \<Rightarrow> (go_error + layer_outcome) \<times> 'c" where
  "scan_buffered g digest tmp now c =
     (case ig_av g of
        None \<Rightarrow> (Inl (Plain ''nil scanner''), c)
      | Some scan \<Rightarrow>
          (case scan tmp (c_open (ig_store g) c tmp) of
             Inl e \<Rightarrow> (Inl (Wrapped (''AV scanning layer '' @ digest @ '': '') e []), c)
           | Inr res \<Rightarrow>
               if av_Incomplete res then (Inr layerIncomplete, c)
               else case PutBlob (ig_store g) c digest tmp (av_Clean res) now of
                 (True, c1) \<Rightarrow> (Inl (Plain (''caching layer '' @ digest)), c1)
               | (False, c1) \<Rightarrow> (Inr (if av_Clean res then layerClean else layerInfected), c1)))"

text \<open>From the open stream: the temporary file is removed whatever happens.\<close>

definition scan_stream ::
  "'c image_gate \<Rightarrow> services \<Rightarrow> string \<Rightarrow> http_response \<Rightarrow> gotime \<Rightarrow> 'c \<Rightarrow> (go_error + layer_outcome) \<times> 'c" where
  "scan_stream g sv digest resp now c =
     (let ops = ig_store g; maxB = ig_maxLayerBytes g in
      case sv_CreateTemp sv digest of
        Inl e \<Rightarrow> (Inl (Wrapped ''creating temp layer file: '' e []), c)
      | Inr tmp \<Rightarrow>
          (let (written, readErr) = buffer_layer maxB resp; c1 = c_writeTemp ops c tmp written;
               (out, c2) =
                 (if readErr \<or> sv_WriteErr sv digest \<noteq> None
                  then (Inl (Wrapped (''buffering layer '' @ digest @ '': '')
                          (case sv_WriteErr sv digest of Some e \<Rightarrow> e | None \<Rightarrow> Plain ''unexpected EOF'') []), c1)
                  else if 0 < maxB \<and> maxB < int (length written)
                  then (Inr layerInfected, snd (PutBlob ops c1 digest devnull False now))
                  else scan_buffered g digest tmp now c1)
           in (out, c_remove ops c2 tmp)))"

definition scanLayer ::
  "'c image_gate \<Rightarrow> gate_env \<Rightarrow> string \<Rightarrow> nat \<Rightarrow> string \<Rightarrow> 'c \<Rightarrow> (go_error + layer_outcome) \<times> 'c" where
  "scanLayer g en repo i digest c =
     (let ops = ig_store g; maxB = ig_maxLayerBytes g; sv = ge_layerNet en i; now = ge_time en (LayerStore i) in
      case GetBlob ops c digest (ge_time en (LayerLookup i)) of
        (Some (_, clean), c1) \<Rightarrow> (Inr (if clean then layerClean else layerInfected), c1)
      | (None, c1) \<Rightarrow>
          (case FetchBlob (ig_codecs g) sv (ig_upstreams g) repo digest of
             Inl e \<Rightarrow> (Inl (Wrapped (''fetching layer '' @ digest @ '': '') e []), c1)
           | Inr resp \<Rightarrow>
               if 0 < maxB \<and> maxB < rs_ContentLength resp
               then (Inr layerInfected, snd (PutBlob ops c1 digest devnull False now))
               else scan_stream g sv digest resp now c1))"

text \<open>The blobs in order, up to the first that is not clean.\<close>

fun scan_blobs ::
  "'c image_gate \<Rightarrow> gate_env \<Rightarrow> string \<Rightarrow> nat \<Rightarrow> string list \<Rightarrow> 'c \<Rightarrow> (go_error + layer_outcome) \<times> 'c" where
  "scan_blobs g en repo i [] c = (Inr layerClean, c)"
| "scan_blobs g en repo i (b # bs) c =
     (case scanLayer g en repo i b c of
        (Inl e, c1) \<Rightarrow> (Inl e, c1)
      | (Inr layerClean, c1) \<Rightarrow> scan_blobs g en repo (Suc i) bs c1
      | (Inr out, c1) \<Rightarrow> (Inr out, c1))"

section \<open>The pipeline\<close>

definition image_blobs :: "string \<Rightarrow> string list \<Rightarrow> string list" where
  "image_blobs configDigest layers = (if configDigest \<noteq> [] then configDigest # layers else layers)"

definition store_block ::
  "'c image_gate \<Rightarrow> gate_env \<Rightarrow> string \<Rightarrow> string \<Rightarrow> string \<Rightarrow> bool \<Rightarrow> gate_verdict \<Rightarrow> 'c \<Rightarrow> 'c" where
  "store_block g en repo digest manifestBody cascadeOnBlock v c =
     (let c1 = snd (cacheVerdict g en repo digest manifestBody v c) in
      if cascadeOnBlock then evictBlobs g manifestBody c1 else c1)"

text \<open>Scan and policy: the verdict of a block, if any.\<close>

definition image_policy ::
  "'c image_gate \<Rightarrow> package_ref \<Rightarrow> cve_finding list \<Rightarrow> gate_verdict option" where
  "image_policy g pkgRef findings =
     (case ig_policy g of
        None \<Rightarrow> None
      | Some evaluate \<Rightarrow>
          (let decision = evaluate pkgRef \<lparr>sr_Clean = (findings = []), sr_Findings = findings, sr_ScanJSON = []\<rparr> in
           if pd_Allowed decision then None
           else Some (zero_verdict\<lparr>gv_Reason := pd_Reason decision,
                  gv_BlockedBy := (if pd_Reason decision = ReasonDenylisted then ''denylist'' else ''cve''),
                  gv_Findings := pd_Findings decision\<rparr>)))"

definition finish_clean ::
  "'c image_gate \<Rightarrow> gate_env \<Rightarrow> string \<Rightarrow> string \<Rightarrow> string \<Rightarrow> gate_verdict \<Rightarrow> 'c \<Rightarrow> (go_error + gate_verdict) \<times> 'c" where
  "finish_clean g en repo digest manifestBody v c =
     (case cacheVerdict g en repo digest manifestBody v c of
        (Some e, c1) \<Rightarrow> (Inl e, c1)
      | (None, c1) \<Rightarrow>
          (case GetManifestBody (ig_store g) c1 repo digest (ge_time en ServeTime) of
             (Some path, c2) \<Rightarrow> (Inr (v\<lparr>gv_ManifestPath := path\<rparr>), c2)
           | (None, c2) \<Rightarrow> (Inr v, c2)))"

text \<open>The malware scan of the blobs, skipped without engines, and what follows from it.\<close>

definition scan_and_finish ::
  "'c image_gate \<Rightarrow> gate_env \<Rightarrow> string \<Rightarrow> string \<Rightarrow> string \<Rightarrow> bool \<Rightarrow> string list \<Rightarrow> gate_verdict \<Rightarrow> 'c \<Rightarrow> (go_error + gate_verdict) \<times> 'c" where
  "scan_and_finish g en repo digest manifestBody cascadeOnBlock blobs clean_v c =
     (case (if ig_av g = None then (Inr layerClean, c) else scan_blobs g en repo 0 blobs c) of
        (Inl e, c1) \<Rightarrow> (Inl e, c1)
      | (Inr layerIncomplete, c1) \<Rightarrow>
          (Inr (zero_verdict\<lparr>gv_Reason := ReasonScanIncomplete, gv_BlockedBy := ReasonScanIncomplete\<rparr>), c1)
      | (Inr layerInfected, c1) \<Rightarrow>
          (let v = zero_verdict\<lparr>gv_Reason := ''malware_found'', gv_BlockedBy := ''malware''\<rparr> in
           (Inr v, store_block g en repo digest manifestBody cascadeOnBlock v c1))
      | (Inr layerClean, c1) \<Rightarrow> finish_clean g en repo digest manifestBody clean_v c1)"

definition runPipeline ::
  "'c image_gate \<Rightarrow> gate_env \<Rightarrow> string \<Rightarrow> string \<Rightarrow> string \<Rightarrow> string \<Rightarrow> string \<Rightarrow> bool \<Rightarrow> 'c \<Rightarrow> (go_error + gate_verdict) \<times> 'c" where
  "runPipeline g en repo ref digest manifestBody contentType cascadeOnBlock c =
     (let pkgRef = \<lparr>Ecosystem = ''docker'', Name = repo, Version = ref, Classifier = []\<rparr> in
      case ImageConfig (ig_codecs g) (ge_configNet en) (ig_upstreams g) repo manifestBody of
        Inl e \<Rightarrow> (Inl e, c)
      | Inr (created, configDigest, layers) \<Rightarrow>
     (let fr = ig_filter g (ge_time en FilterTime) pkgRef \<lparr>pm_PublishedAt = created, pm_Maintainer = [], pm_License = []\<rparr> in
      if \<not> fr_Allowed fr
      then (Inr (zero_verdict\<lparr>gv_Reason := fr_Reason fr, gv_BlockedBy := ''supply_chain'', gv_PublishedAt := fr_PublishedAt fr,
              gv_BlockUntil := fr_BlockUntil fr\<rparr>), c)
      else case ig_scanner g (imageRef g repo digest) of
        Inl e \<Rightarrow> (Inl e, c)
      | Inr findings \<Rightarrow>
     (case image_policy g pkgRef findings of
        Some v \<Rightarrow> (Inr v, store_block g en repo digest manifestBody cascadeOnBlock v c)
      | None \<Rightarrow>
          scan_and_finish g en repo digest manifestBody cascadeOnBlock (image_blobs configDigest layers)
            (zero_verdict\<lparr>gv_Allowed := True, gv_Reason := ''ok'', gv_PublishedAt := created, gv_ContentType := contentType\<rparr>) c)))"

definition passthrough ::
  "'c image_gate \<Rightarrow> gate_env \<Rightarrow> string \<Rightarrow> string \<Rightarrow> string \<Rightarrow> string \<Rightarrow> string \<Rightarrow> 'c \<Rightarrow> (go_error + string \<times> gate_verdict) \<times> 'c" where
  "passthrough g en repo digest manifestBody contentType reason c =
     (case finish_clean g en repo digest manifestBody
             (zero_verdict\<lparr>gv_Allowed := True, gv_Reason := reason, gv_ContentType := contentType, gv_Passthrough := True\<rparr>) c of
        (Inl e, c1) \<Rightarrow> (Inl e, c1)
      | (Inr v, c1) \<Rightarrow> (Inr (digest, v), c1))"

section \<open>Evaluate\<close>

definition verdict_fresh :: "'c image_gate \<Rightarrow> gotime \<Rightarrow> gotime \<Rightarrow> bool" where
  "verdict_fresh g now checkedAt \<longleftrightarrow> ig_recheckTTL g \<le> 0 \<or> time_sub now checkedAt \<le> ig_recheckTTL g"

definition cached_verdict :: "bool \<Rightarrow> string \<Rightarrow> gate_verdict" where
  "cached_verdict clean reason =
     zero_verdict\<lparr>gv_Allowed := clean, gv_Reason := reason, gv_Passthrough := isPassthroughReason reason, gv_FromCache := True,
       gv_BlockedBy := (if clean then [] else blockedByForReason reason)\<rparr>"

text \<open>
  The lookup by digest before any upstream is asked: \<open>Inr\<close> answers the request, \<open>Inl\<close> goes on with
  the expired verdict to fall back on, if any.
\<close>

definition fast_path ::
  "'c image_gate \<Rightarrow> gate_env \<Rightarrow> string \<Rightarrow> string \<Rightarrow> 'c \<Rightarrow> (gate_verdict option + gate_verdict) \<times> 'c" where
  "fast_path g en repo ref c =
     (if \<not> isDigestRef ref then (Inl None, c)
      else case GetImageVerdict (ig_store g) c repo ref (ge_time en FastLookup) of
        (None, c1) \<Rightarrow> (Inl None, c1)
      | (Some (clean, reason, checkedAt), c1) \<Rightarrow>
          if isStaleSupplyBlock clean reason then (Inl None, c1)
          else
            let v0 = cached_verdict clean reason;
                (v, c2) =
                  (if \<not> clean then (v0, c1)
                   else case GetManifestBody (ig_store g) c1 repo ref (ge_time en FastBody) of
                     (None, c2) \<Rightarrow> (v0, c2)
                   | (Some path, c2) \<Rightarrow>
                       (let ct = manifestMediaType g c2 path in
                        (if ct \<noteq> [] then v0\<lparr>gv_ManifestPath := path, gv_ContentType := ct\<rparr> else v0, c2)));
                fresh = verdict_fresh g (ge_time en FastAge) checkedAt;
                servable = (\<not> gv_Allowed v \<or> gv_ManifestPath v \<noteq> [])
            in (if fresh \<and> servable then Inr v else if \<not> fresh \<and> servable then Inl (Some v) else Inl None, c2))"

text \<open>The lookup after the fetch, in the same form; the verdict is stale when it is in \<open>Inl\<close>.\<close>

definition second_look ::
  "'c image_gate \<Rightarrow> gate_env \<Rightarrow> string \<Rightarrow> string \<Rightarrow> string \<Rightarrow> 'c \<Rightarrow> (gate_verdict option + gate_verdict) \<times> 'c" where
  "second_look g en repo digest contentType c =
     (case GetImageVerdict (ig_store g) c repo digest (ge_time en Lookup) of
        (None, c1) \<Rightarrow> (Inl None, c1)
      | (Some (clean, reason, checkedAt), c1) \<Rightarrow>
          if isStaleSupplyBlock clean reason then (Inl None, c1)
          else
            let v0 = cached_verdict clean reason;
                (v, c2) =
                  (if \<not> clean then (v0, c1)
                   else case GetManifestBody (ig_store g) c1 repo digest (ge_time en LookupBody) of
                     (None, c2) \<Rightarrow> (v0, c2)
                   | (Some path, c2) \<Rightarrow> (v0\<lparr>gv_ManifestPath := path, gv_ContentType := contentType\<rparr>, c2))
            in (if verdict_fresh g (ge_time en Age) checkedAt then Inr v else Inl (Some v), c2))"

definition staleOr :: "string \<Rightarrow> gate_verdict option \<Rightarrow> go_error \<Rightarrow> go_error + string \<times> gate_verdict" where
  "staleOr digest stale err = (case stale of Some v \<Rightarrow> Inr (digest, v) | None \<Rightarrow> Inl err)"

text \<open>The cache and the remembered tags.\<close>

record 'c gate_state =
  gs_cache :: 'c
  gs_tags :: "tag_index option"

definition gate_fetched ::
  "'c image_gate \<Rightarrow> gate_env \<Rightarrow> string \<Rightarrow> string \<Rightarrow> string \<Rightarrow> string \<Rightarrow> string \<Rightarrow> 'c \<Rightarrow> (go_error + string \<times> gate_verdict) \<times> 'c" where
  "gate_fetched g en repo ref manifestBody contentType digest c =
     (case second_look g en repo digest contentType c of
        (Inr v, c1) \<Rightarrow> (Inr (digest, v), c1)
      | (Inl stale, c1) \<Rightarrow>
          if isIndexMediaType contentType then passthrough g en repo digest manifestBody contentType reasonIndexPassthrough c1
          else if isAttestationManifest (ig_codecs g) manifestBody
          then passthrough g en repo digest manifestBody contentType reasonAttestationPassthrough c1
          else
            (case (case ge_flight en of
                     Some out \<Rightarrow> (out, c1)
                   | None \<Rightarrow> runPipeline g en repo ref digest manifestBody contentType (stale \<noteq> None) c1) of
               (Inl e, c2) \<Rightarrow> (staleOr digest stale e, c2)
             | (Inr v, c2) \<Rightarrow> (Inr (digest, v), c2)))"

definition Evaluate ::
  "'c image_gate \<Rightarrow> gate_env \<Rightarrow> string \<Rightarrow> string \<Rightarrow> 'c gate_state \<Rightarrow> (go_error + string \<times> gate_verdict) \<times> 'c gate_state" where
  "Evaluate g en repo ref s =
     (case fast_path g en repo ref (gs_cache s) of
        (Inr v, c1) \<Rightarrow> (Inr (ref, v), s\<lparr>gs_cache := c1\<rparr>)
      | (Inl offlineStale, c1) \<Rightarrow>
          (case FetchManifest (ig_codecs g) (ge_manifestNet en) (ig_upstreams g) repo ref of
             Inl err \<Rightarrow>
               ((case offlineStale of
                   Some v \<Rightarrow> Inr (ref, v)
                 | None \<Rightarrow>
                     (let what = ''resolving manifest '' @ repo @ '':'' @ ref @ '': '' in
                      Inl (if (case AttemptsFrom err of None \<Rightarrow> False | Some atts \<Rightarrow> AllNotFound atts)
                           then Joined what (Sentinel ErrManifestNotFound) '': '' err else Wrapped what err []))),
                s\<lparr>gs_cache := c1\<rparr>)
           | Inr (manifestBody, contentType, digest) \<Rightarrow>
               (let tags = (if isIndexMediaType contentType \<and> \<not> isDigestRef ref
                            then map_option (rememberChildren (ig_codecs g) repo ref manifestBody) (gs_tags s) else gs_tags s) in
                case gate_fetched g en repo ref manifestBody contentType digest c1 of
                  (out, c2) \<Rightarrow> (out, \<lparr>gs_cache = c2, gs_tags = tags\<rparr>))))"

end
