(* ===== verification/Docker_Handler.thy ===== *)
theory Docker_Handler
  imports Docker_Gate
begin

text \<open>
  The request handler of the Docker registry proxy, \<^verbatim>\<open>internal/proxy/dockerproxy/handler.go\<close>. A
  request gives the reply, the telemetry events in the order they are recorded and the state it leaves;
  for a request answered while its scan still runs, that is the state, and the events, once the
  detached scan has landed.
\<close>

section \<open>State and surroundings\<close>

record 'c docker_state = "'c gate_state" +
  ds_attest :: "attestation_blobs option"

record 'c docker_config =
  dk_gate :: "'c image_gate"
  dk_Recorder :: bool
  dk_Throttles :: "throttle_lookup option"
  dk_ClientWait :: duration

text \<open>
  Whether the gate answers before the client's wait is over, how much of a body the client takes
  (\<open>None\<close>: all of it), the outcome of another client's fetch this one waited for.
\<close>

record docker_env =
  de_RequestID :: string
  de_gate :: gate_env
  de_inTime :: bool
  de_eventTime :: gotime
  de_latencyMS :: int64
  de_lateTime :: gotime
  de_lateLatencyMS :: int64
  de_taken :: "nat option"
  de_statOK :: bool
  de_blobTime :: gotime
  de_attestNet :: services
  de_attestFlight :: "(go_error + string) option"

definition scanInProgressRetryAfter :: duration where "scanInProgressRetryAfter = 30 * Second"

section \<open>Replies and events\<close>

definition docker_error :: "header \<Rightarrow> int \<Rightarrow> string \<Rightarrow> string \<Rightarrow> reply" where
  "docker_error w status code msg =
     \<lparr>rp_Status = status, rp_Header = hdr_Set w ''Content-Type'' ''application/json'',
      rp_Body = Json (JObject [(''errors'', JArray [JObject [(''code'', JString code), (''message'', JString msg)]])])\<rparr>"

definition docker_event :: "docker_env \<Rightarrow> parsed_path \<Rightarrow> verdict \<Rightarrow> gate_id \<Rightarrow> string \<Rightarrow> int \<Rightarrow> event" where
  "docker_event en pp v gt reason status =
     \<lparr>ev_RequestID = de_RequestID en, ev_Time = de_eventTime en, ev_Ecosystem = ''docker'', ev_Package = pp_Repo pp,
      ev_Version = pp_Reference pp, ev_Verdict = v, ev_Gate = gt, ev_LatencyMS = de_latencyMS en, ev_HTTPStatus = status,
      ev_Reason = reason, ev_BlockedBy = [], ev_CVEs = [], ev_MalwareEngine = [], ev_MalwareSignature = [],
      ev_PublishedAt = zero_time, ev_BlockUntil = zero_time\<rparr>"

definition record_event :: "'c docker_config \<Rightarrow> event \<Rightarrow> event list" where
  "record_event cfg ev = (if dk_Recorder cfg then [ev] else [])"

definition gateForBlockedBy :: "string \<Rightarrow> gate_id" where
  "gateForBlockedBy by' =
     (if by' = ''malware'' \<or> by' = ReasonScanIncomplete then GateMalware
      else if by' = ''supply_chain'' then GateSupply else GateImageScan)"

definition block_event :: "docker_env \<Rightarrow> parsed_path \<Rightarrow> string \<Rightarrow> gate_verdict \<Rightarrow> event" where
  "block_event en pp displayVer v =
     (docker_event en pp VerdictBlock (gateForBlockedBy (gv_BlockedBy v)) (gv_Reason v) StatusForbidden)
       \<lparr>ev_BlockedBy := [gv_BlockedBy v], ev_CVEs := gv_Findings v, ev_Version := displayVer,
        ev_PublishedAt := gv_PublishedAt v, ev_BlockUntil := gv_BlockUntil v\<rparr>"

definition displayVersion :: "tag_index option \<Rightarrow> parsed_path \<Rightarrow> string \<Rightarrow> string" where
  "displayVersion tags pp digest =
     (if \<not> isDigestRef (pp_Reference pp) then pp_Reference pp
      else case tags of
        None \<Rightarrow> digest
      | Some ti \<Rightarrow> (case ti_tag ti (pp_Repo pp) digest of Some tag \<Rightarrow> tag | None \<Rightarrow> digest))"

record gate_outcome =
  go_status :: int
  go_reason :: string
  go_code :: string
  go_msg :: string
  go_retry :: duration

definition gateFailure :: "'c docker_config \<Rightarrow> docker_env \<Rightarrow> go_error \<Rightarrow> gate_outcome" where
  "gateFailure cfg en err =
     (if errors_Is err ErrManifestNotFound
      then \<lparr>go_status = StatusNotFound, go_reason = ''manifest_not_found'', go_code = ''MANIFEST_UNKNOWN'', go_msg = ''manifest unknown'',
            go_retry = 0\<rparr>
      else case (case AttemptsFrom err of
                   None \<Rightarrow> None
                 | Some atts \<Rightarrow> Throttled (sv_url_Parse (ge_manifestNet (de_gate en))) (dk_Throttles cfg) atts) of
        Some (status, retry) \<Rightarrow>
          \<lparr>go_status = status, go_reason = ''upstream_throttled'',
           go_code = (if status = StatusTooManyRequests then ''TOOMANYREQUESTS'' else ''UNAVAILABLE''),
           go_msg = ''upstream registry throttled'', go_retry = retry\<rparr>
      | None \<Rightarrow>
          \<lparr>go_status = StatusBadGateway, go_reason = ''gate_error'', go_code = ''UNAVAILABLE'', go_msg = ''upstream or scan failure'',
           go_retry = 0\<rparr>)"

section \<open>Manifests\<close>

definition gate_run ::
  "'c docker_config \<Rightarrow> docker_env \<Rightarrow> parsed_path \<Rightarrow> 'c docker_state \<Rightarrow> (go_error + string \<times> gate_verdict) \<times> 'c docker_state" where
  "gate_run cfg en pp s =
     (case Evaluate (dk_gate cfg) (de_gate en) (pp_Repo pp) (pp_Reference pp) (gate_state.truncate s) of
        (out, s1) \<Rightarrow> (out, gate_state.extend s1 \<lparr>ds_attest = ds_attest s\<rparr>))"

text \<open>The event a scan leaves whose client was answered before it ended.\<close>

definition recordWhenDone ::
  "'c docker_config \<Rightarrow> docker_env \<Rightarrow> parsed_path \<Rightarrow> (go_error + string \<times> gate_verdict) \<Rightarrow> 'c docker_state \<Rightarrow> event list" where
  "recordWhenDone cfg en0 pp out s =
     (let en = en0\<lparr>de_eventTime := de_lateTime en0, de_latencyMS := de_lateLatencyMS en0\<rparr> in
      case out of
        Inl err \<Rightarrow>
          (let f = gateFailure cfg en err in
           record_event cfg (docker_event en pp VerdictError GateImageScan (go_reason f) (go_status f)))
      | Inr (digest, v) \<Rightarrow>
          (let displayVer = displayVersion (gs_tags s) pp digest in
           if \<not> gv_Allowed v then record_event cfg (block_event en pp displayVer v)
           else if \<not> gv_Passthrough v
           then record_event cfg ((docker_event en pp VerdictPass GateImageScan (gv_Reason v) StatusOK)\<lparr>ev_Version := displayVer\<rparr>)
           else []))"

definition remember_attestation :: "'c docker_config \<Rightarrow> string \<Rightarrow> gate_verdict \<Rightarrow> 'c docker_state \<Rightarrow> 'c docker_state" where
  "remember_attestation cfg repo v s =
     (case ds_attest s of
        None \<Rightarrow> s
      | Some a \<Rightarrow>
          if gv_Reason v \<noteq> reasonAttestationPassthrough then s
          else case c_open (ig_store (dk_gate cfg)) (gs_cache s) (gv_ManifestPath v) of
            None \<Rightarrow> s
          | Some body \<Rightarrow> s\<lparr>ds_attest := Some (ab_remember (ig_codecs (dk_gate cfg)) repo body a)\<rparr>)"

definition serve_allowed ::
  "'c docker_config \<Rightarrow> docker_env \<Rightarrow> header \<Rightarrow> http_request \<Rightarrow> parsed_path \<Rightarrow> string \<Rightarrow> gate_verdict \<Rightarrow> 'c docker_state
   \<Rightarrow> reply \<times> event list \<times> 'c docker_state" where
  "serve_allowed cfg en w r pp digest v s =
     (let displayVer = displayVersion (gs_tags s) pp digest;
          w1 = hdr_Set w ''Docker-Content-Digest'' digest;
          w2 = (if gv_ContentType v \<noteq> [] then hdr_Set w1 ''Content-Type'' (gv_ContentType v) else w1);
          pass = (if gv_FromCache v then docker_event en pp VerdictCache GateCache ''cache_hit'' StatusOK
                  else docker_event en pp VerdictPass GateImageScan (gv_Reason v) StatusOK)\<lparr>ev_Version := displayVer\<rparr>;
          passed = (if gv_Passthrough v then [] else record_event cfg pass);
          s1 = remember_attestation cfg (pp_Repo pp) v s
      in if rq_Method r = ''HEAD'' then (\<lparr>rp_Status = StatusOK, rp_Header = w2, rp_Body = NoBody\<rparr>, passed, s1)
         else case c_open (ig_store (dk_gate cfg)) (gs_cache s1) (gv_ManifestPath v) of
           None \<Rightarrow>
             (docker_error w2 StatusInternalServerError ''UNAVAILABLE'' ''cache read error'',
              record_event cfg ((docker_event en pp VerdictError GateImageScan ''cache_read_error'' StatusInternalServerError)\<lparr>ev_Version := displayVer\<rparr>), s1)
         | Some body \<Rightarrow>
             (case de_taken en of
                Some n \<Rightarrow> (\<lparr>rp_Status = StatusOK, rp_Header = w2, rp_Body = Bytes (take n body)\<rparr>, [], s1)
              | None \<Rightarrow> (\<lparr>rp_Status = StatusOK, rp_Header = w2, rp_Body = Bytes body\<rparr>, passed, s1)))"

definition serveManifest ::
  "'c docker_config \<Rightarrow> docker_env \<Rightarrow> header \<Rightarrow> http_request \<Rightarrow> parsed_path \<Rightarrow> 'c docker_state \<Rightarrow> reply \<times> event list \<times> 'c docker_state" where
  "serveManifest cfg en w r pp s =
     (case gate_run cfg en pp s of
        (out, s1) \<Rightarrow>
          if 0 < dk_ClientWait cfg \<and> \<not> de_inTime en then
            (docker_error (SetRetryAfter w scanInProgressRetryAfter) StatusServiceUnavailable ''UNAVAILABLE''
               ''image scan in progress; retry shortly'',
             record_event cfg (docker_event en pp VerdictError GateImageScan ''scan_in_progress'' StatusServiceUnavailable)
               @ recordWhenDone cfg en pp out s1, s1)
          else case out of
            Inl err \<Rightarrow>
              (let f = gateFailure cfg en err in
               (docker_error (if 0 < go_retry f then SetRetryAfter w (go_retry f) else w) (go_status f) (go_code f) (go_msg f),
                record_event cfg (docker_event en pp VerdictError GateImageScan (go_reason f) (go_status f)), s1))
          | Inr (digest, v) \<Rightarrow>
              if \<not> gv_Allowed v then
                (docker_error w StatusForbidden ''DENIED'' (''image blocked by policy: '' @ gv_Reason v),
                 record_event cfg (block_event en pp (displayVersion (gs_tags s1) pp digest) v), s1)
              else serve_allowed cfg en w r pp digest v s1)"

section \<open>Blobs\<close>

definition serveAttestationBlob :: "'c docker_config \<Rightarrow> docker_env \<Rightarrow> header \<Rightarrow> http_request \<Rightarrow> parsed_path \<Rightarrow> reply" where
  "serveAttestationBlob cfg en w r pp =
     (case (case de_attestFlight en of
              Some out \<Rightarrow> out
            | None \<Rightarrow> fetchAttestationBlob (ig_codecs (dk_gate cfg)) (de_attestNet en) (ig_upstreams (dk_gate cfg)) (pp_Repo pp) (pp_Reference pp)) of
        Inl err \<Rightarrow>
          if errors_Is err ErrAttestationBlobRejected then docker_error w StatusNotFound ''BLOB_UNKNOWN'' ''blob not available''
          else docker_error w StatusBadGateway ''UNAVAILABLE'' ''upstream failure''
      | Inr body \<Rightarrow>
          \<lparr>rp_Status = StatusOK,
           rp_Header = hdr_Set (hdr_Set (hdr_Set w ''Docker-Content-Digest'' (pp_Reference pp)) ''Content-Type'' ''application/octet-stream'')
             ''Content-Length'' (FormatInt (int (length body))),
           rp_Body = (if rq_Method r = ''HEAD'' then NoBody else Bytes body)\<rparr>)"

definition serveBlob ::
  "'c docker_config \<Rightarrow> docker_env \<Rightarrow> header \<Rightarrow> http_request \<Rightarrow> parsed_path \<Rightarrow> 'c docker_state \<Rightarrow> reply \<times> 'c docker_state" where
  "serveBlob cfg en w r pp s =
     (let ops = ig_store (dk_gate cfg) in
      case GetBlob ops (gs_cache s) (pp_Reference pp) (de_blobTime en) of
        (found, c1) \<Rightarrow>
          (let s1 = s\<lparr>gs_cache := c1\<rparr>; unknown = docker_error w StatusNotFound ''BLOB_UNKNOWN'' ''blob not available'' in
           case found of
             None \<Rightarrow>
               (if (case ds_attest s of None \<Rightarrow> False | Some a \<Rightarrow> ab_has a (pp_Repo pp) (pp_Reference pp))
                then serveAttestationBlob cfg en w r pp else unknown, s1)
           | Some (path, clean) \<Rightarrow>
               (if \<not> clean then unknown
                else case c_open ops c1 path of
                  None \<Rightarrow> docker_error w StatusInternalServerError ''UNAVAILABLE'' ''cache read error''
                | Some body \<Rightarrow>
                    (let w1 = hdr_Set (hdr_Set w ''Docker-Content-Digest'' (pp_Reference pp)) ''Content-Type'' ''application/octet-stream'' in
                     \<lparr>rp_Status = StatusOK,
                      rp_Header = (if de_statOK en then hdr_Set w1 ''Content-Length'' (FormatInt (int (length body))) else w1),
                      rp_Body = Bytes (case de_taken en of Some n \<Rightarrow> take n body | None \<Rightarrow> body)\<rparr>), s1)))"

section \<open>The handler\<close>

definition docker_ServeHTTP ::
  "'c docker_config \<Rightarrow> docker_env \<Rightarrow> header \<Rightarrow> http_request \<Rightarrow> 'c docker_state \<Rightarrow> reply \<times> event list \<times> 'c docker_state" where
  "docker_ServeHTTP cfg en w r s =
     (let pp = ParsePath (rq_Path r) in
      case pp_Kind pp of
        KindPing \<Rightarrow> (\<lparr>rp_Status = StatusOK, rp_Header = hdr_Set w ''Docker-Distribution-API-Version'' ''registry/2.0'', rp_Body = NoBody\<rparr>, [], s)
      | KindManifest \<Rightarrow> serveManifest cfg en w r pp s
      | KindBlob \<Rightarrow> (case serveBlob cfg en w r pp s of (rp, s1) \<Rightarrow> (rp, [], s1))
      | _ \<Rightarrow> (docker_error w StatusNotFound ''NOT_FOUND'' ''unsupported registry path'', [], s))"

text \<open>\<open>New\<close>: the state a handler starts with.\<close>

definition docker_New :: "'c \<Rightarrow> 'c docker_state" where
  "docker_New c = \<lparr>gs_cache = c, gs_tags = Some (newTagIndex 0), ds_attest = Some (newAttestationBlobs 0)\<rparr>"

end
