(* ===== verification/Docker_Correct.thy ===== *)
theory Docker_Correct
  imports Docker_Handler Proxy_Handler_Correct
begin

text \<open>
  What the Docker proxy guarantees, proved against the contract of the shared cache: the locale
  \<open>image_store\<close> extends \<open>artifact_cache\<close> by the full lookup the verdict store uses, and is
  interpreted on the local cache.
\<close>

section \<open>The store\<close>

locale image_store =
  artifact_cache "cache_ops.truncate ops" inv known contents is_temp
  for ops :: "'c image_cache" and inv :: "'c \<Rightarrow> bool" and known :: "package_ref set"
    and contents :: "'c \<Rightarrow> contents" and is_temp :: "string \<Rightarrow> bool" +
  assumes lookup_view:
    "c_get ops c ref now = (case c_lookup ops c ref now of (e, c') \<Rightarrow> (map_option artifact_view e, c'))"
begin

lemma lookup_hit:
  assumes "inv c" "c_lookup ops c ref now = (Some e, c')"
  shows "inv c' \<and> contents c' = contents c \<and>
    (\<exists>b. contents c ref = Some (b, ce_ScanClean e) \<and> c_open ops c' (ce_ArtifactPath e) = Some b)"
proof -
  have "c_get (cache_ops.truncate ops) c ref now = (Some (artifact_view e), c')"
    using lookup_view [of c ref now] assms(2) by (simp add: cache_ops.defs)
  from get_keeps [OF assms(1) this] get_hit [OF assms(1) this] show ?thesis
    by (auto simp: artifact_view_def cache_ops.defs)
qed

lemma lookup_miss:
  assumes "inv c" "c_lookup ops c ref now = (None, c')"
  shows "inv c' \<and> contents c' = contents c \<and> contents c ref = None"
proof -
  have "c_get (cache_ops.truncate ops) c ref now = (None, c')"
    using lookup_view [of c ref now] assms(2) by (simp add: cache_ops.defs)
  from get_keeps [OF assms(1) this] get_miss [OF assms(1) this] show ?thesis by simp
qed

lemma lookup_keeps: "inv c \<Longrightarrow> c_lookup ops c ref now = (x, c') \<Longrightarrow> inv c' \<and> contents c' = contents c"
  using lookup_hit lookup_miss by (cases x) blast+

lemma store_put:
  assumes "inv c" "ref \<in> known" "c_put ops c ref tmp clean json now = (failed, c')"
  shows "inv c' \<and> (if failed then contents c' \<subseteq>\<^sub>m contents c
      else \<exists>b. c_open ops c tmp = Some b \<and> contents c' = (contents c)(ref \<mapsto> (b, clean)))"
  using put_stores [OF assms(1,2), of tmp clean json now c'] put_fails [OF assms(1,2), of tmp clean json now c'] assms(3)
  by (auto simp: cache_ops.defs)

lemma store_invalidate: "inv c \<Longrightarrow> ref \<in> known \<Longrightarrow> inv (snd (c_invalidate ops c ref)) \<and> contents (snd (c_invalidate ops c ref)) = (contents c)(ref := None)"
  using invalidate_drops [of c ref "fst (c_invalidate ops c ref)" "snd (c_invalidate ops c ref)"] by (simp add: cache_ops.defs)

lemma store_temp:
  "inv c \<Longrightarrow> is_temp p \<Longrightarrow> inv (c_writeTemp ops c p b) \<and> contents (c_writeTemp ops c p b) = contents c \<and> c_open ops (c_writeTemp ops c p b) p = Some b"
  "inv c \<Longrightarrow> is_temp p \<Longrightarrow> inv (c_remove ops c p) \<and> contents (c_remove ops c p) = contents c"
  using temp_keeps [of c p b] remove_keeps [of c p] by (simp_all add: cache_ops.defs)

end

definition lc_image_ops :: "(string \<Rightarrow> string) \<Rightarrow> put_io \<Rightarrow> local_cache image_cache" where
  "lc_image_ops digest io = cache_ops.extend (lc_ops digest io) \<lparr>c_lookup = lc_Get\<rparr>"

lemma lc_image_ops_truncate: "cache_ops.truncate (lc_image_ops digest io) = lc_ops digest io"
  by (simp add: lc_image_ops_def cache_ops.defs)

interpretation lstore: image_store "lc_image_ops digest io" "lc_inv digest rootdir known" known stored "outside rootdir"
  for digest io rootdir known
proof (rule image_store.intro)
  show "artifact_cache (cache_ops.truncate (lc_image_ops digest io)) (lc_inv digest rootdir known) known stored (outside rootdir)"
    by (simp only: lc_image_ops_truncate) (rule lcache.artifact_cache_axioms)
  show "image_store_axioms (lc_image_ops digest io)"
    by (rule image_store_axioms.intro) (simp add: lc_image_ops_def cache_ops.defs lc_ops_def ac_Get_def split: prod.split option.split)
qed

section \<open>Vetted images\<close>

text \<open>
  What it takes for an image to pass: the supply-chain filter lets it through on the creation time in its
  configuration, the image scan succeeds, the policy allows its findings, and with malware engines
  every blob, the configuration included, is stored as clean and was scanned.
\<close>

definition scanned :: "'c image_gate \<Rightarrow> string \<Rightarrow> bool" where
  "scanned g b \<longleftrightarrow> (\<exists>scan tmp res. ig_av g = Some scan \<and> scan tmp (Some b) = Inr res \<and> av_Clean res \<and> \<not> av_Incomplete res)"

definition docker_pkg :: "string \<Rightarrow> string \<Rightarrow> package_ref" where
  "docker_pkg repo ref = \<lparr>Ecosystem = ''docker'', Name = repo, Version = ref, Classifier = []\<rparr>"

definition image_vetted :: "'c image_gate \<Rightarrow> gate_env \<Rightarrow> string \<Rightarrow> string \<Rightarrow> string \<Rightarrow> string \<Rightarrow> contents \<Rightarrow> bool" where
  "image_vetted g en repo ref digest body held \<longleftrightarrow>
     (\<exists>created configDigest layers findings.
        ImageConfig (ig_codecs g) (ge_configNet en) (ig_upstreams g) repo body = Inr (created, configDigest, layers)
        \<and> fr_Allowed (ig_filter g (ge_time en FilterTime) (docker_pkg repo ref) \<lparr>pm_PublishedAt = created, pm_Maintainer = [], pm_License = []\<rparr>)
        \<and> ig_scanner g (imageRef g repo digest) = Inr findings
        \<and> (\<forall>evaluate. ig_policy g = Some evaluate \<longrightarrow>
             pd_Allowed (evaluate (docker_pkg repo ref) \<lparr>sr_Clean = (findings = []), sr_Findings = findings, sr_ScanJSON = []\<rparr>))
        \<and> (ig_av g \<noteq> None \<longrightarrow> (\<forall>d\<in>set (image_blobs configDigest layers). \<exists>b. held (blobRef d) = Some (b, True) \<and> scanned g b)))"

text \<open>
  What an allowed verdict rests on: an approval in the store, or a manifest just fetched that is an
  index or an attestation, or is a vetted image.
\<close>

definition allowed_rightly ::
  "'c image_gate \<Rightarrow> gate_env \<Rightarrow> string \<Rightarrow> string \<Rightarrow> contents \<Rightarrow> contents \<Rightarrow> string \<Rightarrow> gate_verdict \<Rightarrow> string \<Rightarrow> bool" where
  "allowed_rightly g en repo ref held held' digest v body \<longleftrightarrow>
     (if gv_FromCache v then held (imageRefKey repo digest) = Some (body, True)
      else held' (imageRefKey repo digest) = Some (body, True)
        \<and> (\<exists>ct. FetchManifest (ig_codecs g) (ge_manifestNet en) (ig_upstreams g) repo ref = Inr (body, ct, digest)
             \<and> (if gv_Passthrough v then isIndexMediaType ct \<or> isAttestationManifest (ig_codecs g) body
                 else \<not> isIndexMediaType ct \<and> \<not> isAttestationManifest (ig_codecs g) body \<and> image_vetted g en repo ref digest body held')))"

section \<open>Blobs\<close>

text \<open>Temporary files lie outside the cache.\<close>

definition genv_ok :: "(string \<Rightarrow> bool) \<Rightarrow> gate_env \<Rightarrow> bool" where
  "genv_ok is_temp en \<longleftrightarrow> (\<forall>i. temps_ok (ge_layerNet en i) is_temp) \<and> (\<forall>p. ge_manifestTemp en = Inr p \<longrightarrow> is_temp p)"

lemma blobRef_inj [simp]: "blobRef d = blobRef d' \<longleftrightarrow> d = d'"
  by (simp add: blobRef_def)

lemma image_not_blob [simp]: "repo \<noteq> ''blobs'' \<Longrightarrow> imageRefKey repo d \<noteq> blobRef d'" "repo \<noteq> ''blobs'' \<Longrightarrow> blobRef d' \<noteq> imageRefKey repo d"
  by (simp_all add: blobRef_def imageRefKey_def)

definition docker_refs :: "package_ref set \<Rightarrow> string \<Rightarrow> bool" where
  "docker_refs known repo \<longleftrightarrow> repo \<noteq> ''blobs'' \<and> (\<forall>d. blobRef d \<in> known) \<and> (\<forall>d. imageRefKey repo d \<in> known)"

context image_store
begin

text \<open>The invariant: a blob stored as clean was scanned.\<close>

definition blobs_ok :: "'c image_gate \<Rightarrow> 'c \<Rightarrow> bool" where
  "blobs_ok g c \<longleftrightarrow> inv c \<and> (\<forall>d b. contents c (blobRef d) = Some (b, True) \<longrightarrow> scanned g b)"

lemma blobs_ok_le: "blobs_ok g c \<Longrightarrow> inv c' \<Longrightarrow> contents c' \<subseteq>\<^sub>m contents c \<Longrightarrow> blobs_ok g c'"
  unfolding blobs_ok_def map_le_def by (metis domI)

lemma blobs_ok_eq: "blobs_ok g c \<Longrightarrow> inv c' \<Longrightarrow> contents c' = contents c \<Longrightarrow> blobs_ok g c'"
  by (simp add: blobs_ok_def)

lemma blobs_ok_temp:
  "blobs_ok g c \<Longrightarrow> is_temp p \<Longrightarrow> blobs_ok g (c_writeTemp ops c p b)"
  "blobs_ok g c \<Longrightarrow> is_temp p \<Longrightarrow> blobs_ok g (c_remove ops c p)"
  using store_temp by (auto simp: blobs_ok_def)

lemma blobs_ok_lookup: "blobs_ok g c \<Longrightarrow> c_lookup ops c ref now = (x, c') \<Longrightarrow> blobs_ok g c'"
  using lookup_keeps [of c ref now x c'] by (auto simp: blobs_ok_def)

lemma blobs_ok_put:
  assumes "blobs_ok g c" "ref \<in> known" "c_put ops c ref tmp clean json now = (failed, c')"
    and "\<And>d b. ref = blobRef d \<Longrightarrow> clean \<Longrightarrow> c_open ops c tmp = Some b \<Longrightarrow> scanned g b"
  shows "blobs_ok g c'"
  using store_put [OF _ assms(2,3)] assms(1,4) blobs_ok_le [OF assms(1), of c']
  by (cases failed) (auto simp: blobs_ok_def split: if_splits)

lemma GetBlob_cases:
  assumes "inv c" "GetBlob ops c digest now = (x, c')"
  shows "inv c' \<and> contents c' = contents c \<and>
    (case x of None \<Rightarrow> contents c (blobRef digest) = None
     | Some (path, clean) \<Rightarrow> \<exists>b. contents c (blobRef digest) = Some (b, clean) \<and> c_open ops c' path = Some b)"
proof -
  obtain e c1 where l: "c_lookup ops c (blobRef digest) now = (e, c1)" by force
  show ?thesis
  proof (cases e)
    case None
    with l lookup_miss [OF assms(1)] assms(2) show ?thesis by (auto simp: GetBlob_def)
  next
    case (Some y)
    with l lookup_hit [OF assms(1)] assms(2) show ?thesis by (fastforce simp: GetBlob_def)
  qed
qed

text \<open>What a step over a blob does: it keeps the invariant, and a clean outcome leaves the blob stored as clean.\<close>

definition layer_step :: "'c image_gate \<Rightarrow> string \<Rightarrow> 'c \<Rightarrow> (go_error + layer_outcome) \<times> 'c \<Rightarrow> bool" where
  "layer_step g digest c r \<longleftrightarrow> blobs_ok g (snd r)
     \<and> (fst r = Inr layerClean \<longrightarrow> (\<exists>b. contents (snd r) = (contents c)(blobRef digest \<mapsto> (b, True))))"

lemma layer_step_dirty:
  assumes "blobs_ok g c" "blobRef digest \<in> known"
  shows "layer_step g digest c0 (Inr layerInfected, snd (PutBlob ops c digest devnull False now))"
proof -
  obtain f c2 where p: "c_put ops c (blobRef digest) devnull False [] now = (f, c2)" by force
  from blobs_ok_put [OF assms p] show ?thesis by (simp add: layer_step_def PutBlob_def p)
qed

lemma layer_step_remove: "layer_step g digest c (out, c') \<Longrightarrow> is_temp tmp \<Longrightarrow> layer_step g digest c (out, c_remove ops c' tmp)"
  using blobs_ok_temp(2) [of g c' tmp] store_temp(2) [of c' tmp] by (auto simp: layer_step_def blobs_ok_def)

lemma scan_buffered_step:
  assumes "ig_store g = ops" "blobs_ok g c" "blobRef digest \<in> known" "c_open ops c tmp = Some b"
  shows "layer_step g digest c (scan_buffered g digest tmp now c)"
proof (cases "\<exists>scan res. ig_av g = Some scan \<and> scan tmp (Some b) = Inr res \<and> \<not> av_Incomplete res")
  case True
  then obtain scan res where av: "ig_av g = Some scan" "scan tmp (Some b) = Inr res" "\<not> av_Incomplete res" by blast
  obtain f c1 where p: "c_put ops c (blobRef digest) tmp (av_Clean res) [] now = (f, c1)" by force
  have "blobs_ok g c1"
    by (rule blobs_ok_put [OF assms(2,3) p]) (use av assms(4) in \<open>auto simp: scanned_def\<close>)
  moreover have "\<not> f \<Longrightarrow> contents c1 = (contents c)(blobRef digest \<mapsto> (b, av_Clean res))"
    using store_put [OF _ assms(3) p] assms(2,4) by (auto simp: blobs_ok_def)
  ultimately show ?thesis using av assms(1,4) p by (auto simp: scan_buffered_def PutBlob_def layer_step_def split: bool.split)
next
  case False
  with assms show ?thesis by (auto simp: scan_buffered_def layer_step_def split: option.split sum.split)
qed

lemma scan_stream_step:
  assumes "ig_store g = ops" "blobs_ok g c" "blobRef digest \<in> known" "temps_ok sv is_temp"
  shows "layer_step g digest c (scan_stream g sv digest resp now c)"
proof (cases "sv_CreateTemp sv digest")
  case (Inl e)
  with assms(2) show ?thesis by (simp add: scan_stream_def layer_step_def)
next
  case (Inr tmp)
  obtain written rerr where bl: "buffer_layer (ig_maxLayerBytes g) resp = (written, rerr)" by force
  let ?c1 = "c_writeTemp ops c tmp written"
  have it: "is_temp tmp" using assms(4) Inr by (simp add: temps_ok_def)
  have c1: "blobs_ok g ?c1" "contents ?c1 = contents c" "c_open ops ?c1 tmp = Some written"
    using blobs_ok_temp(1) [OF assms(2) it] store_temp(1) [OF _ it, of c written] assms(2) by (auto simp: blobs_ok_def)
  have "layer_step g digest c (scan_buffered g digest tmp now ?c1)"
    using scan_buffered_step [OF assms(1) c1(1) assms(3) c1(3), of now] c1(2) by (simp add: layer_step_def)
  moreover have "layer_step g digest c (Inr layerInfected, snd (PutBlob ops ?c1 digest devnull False now))"
    by (rule layer_step_dirty [OF c1(1) assms(3)])
  moreover have "layer_step g digest c (Inl e, ?c1)" for e using c1(1) by (simp add: layer_step_def)
  ultimately show ?thesis
    using layer_step_remove [OF _ it] by (auto simp: scan_stream_def Let_def Inr bl assms(1) split: prod.split)
qed

lemma scanLayer_step:
  assumes "ig_store g = ops" "blobs_ok g c" "blobRef digest \<in> known" "genv_ok is_temp en"
  shows "layer_step g digest c (scanLayer g en repo i digest c)"
proof -
  obtain x c1 where gb: "GetBlob ops c digest (ge_time en (LayerLookup i)) = (x, c1)" by force
  have inv: "inv c" using assms(2) by (simp add: blobs_ok_def)
  note gc = GetBlob_cases [OF inv gb]
  have ok1: "blobs_ok g c1" using gc assms(2) by (auto simp: blobs_ok_def)
  have t: "temps_ok (ge_layerNet en i) is_temp" using assms(4) by (simp add: genv_ok_def)
  show ?thesis
  proof (cases x)
    case (Some y)
    then obtain path clean where y: "x = Some (path, clean)" by (cases y) auto
    moreover from gc y obtain b where "contents c (blobRef digest) = Some (b, clean)" by auto
    then have "contents c = (contents c)(blobRef digest \<mapsto> (b, clean))" by (simp add: fun_upd_idem)
    ultimately show ?thesis using assms(1) gb gc ok1 by (auto simp: scanLayer_def layer_step_def)
  next
    case None
    have "layer_step g digest c (scan_stream g (ge_layerNet en i) digest resp (ge_time en (LayerStore i)) c1)" for resp
      using scan_stream_step [OF assms(1) ok1 assms(3) t] gc by (simp add: layer_step_def)
    moreover have "layer_step g digest c (Inl e, c1)" for e using ok1 by (simp add: layer_step_def)
    ultimately show ?thesis
      using layer_step_dirty [OF ok1 assms(3)] by (auto simp: scanLayer_def Let_def gb None assms(1) split: sum.split)
  qed
qed

text \<open>A run over the blobs that ends clean has left every one of them stored as clean and touched nothing else.\<close>

lemma scan_blobs_step:
  assumes "ig_store g = ops" "blobs_ok g c" "\<forall>d. blobRef d \<in> known" "genv_ok is_temp en"
    and "scan_blobs g en repo i bs c = (out, c')"
  shows "blobs_ok g c' \<and> (out = Inr layerClean \<longrightarrow>
      (\<forall>d\<in>set bs. \<exists>b. contents c' (blobRef d) = Some (b, True))
      \<and> (\<forall>r. r \<notin> blobRef ` set bs \<longrightarrow> contents c' r = contents c r)
      \<and> (\<forall>d b. contents c (blobRef d) = Some (b, True) \<longrightarrow> (\<exists>b'. contents c' (blobRef d) = Some (b', True))))"
  using assms(2,5)
proof (induction bs arbitrary: i c)
  case (Cons d bs)
  obtain o1 c1 where l: "scanLayer g en repo i d c = (o1, c1)" by force
  have st: "blobs_ok g c1" "o1 = Inr layerClean \<Longrightarrow> \<exists>b. contents c1 = (contents c)(blobRef d \<mapsto> (b, True))"
    using scanLayer_step [OF assms(1) Cons.prems(1) _ assms(4), of d repo i] assms(3) l by (auto simp: layer_step_def)
  show ?case
  proof (cases "o1 = Inr layerClean")
    case True
    with st(2) obtain b where c1: "contents c1 = (contents c)(blobRef d \<mapsto> (b, True))" by blast
    have "scan_blobs g en repo (Suc i) bs c1 = (out, c')" using Cons.prems(2) l True by simp
    from Cons.IH [OF st(1) this] c1 show ?thesis by (auto split: if_splits)
  next
    case False
    with Cons.prems(2) l st(1) show ?thesis by (auto split: sum.splits layer_outcome.splits)
  qed
qed simp

section \<open>Verdicts\<close>

lemma cacheVerdict_step:
  assumes "ig_store g = ops" "blobs_ok g c" "docker_refs known repo" "genv_ok is_temp en"
    and "cacheVerdict g en repo digest body v c = (err, c')"
  shows "blobs_ok g c' \<and> (if err = None then contents c' = (contents c)(imageRefKey repo digest \<mapsto> (body, gv_Allowed v))
    else contents c' \<subseteq>\<^sub>m contents c)"
proof (cases "ge_manifestTemp en")
  case (Inl e)
  then show ?thesis using assms(2,5) by (auto simp: cacheVerdict_def)
next
  case (Inr tmp)
  let ?c1 = "c_writeTemp ops c tmp body"
  have it: "is_temp tmp" using assms(4) Inr by (simp add: genv_ok_def)
  have c1: "blobs_ok g ?c1" "contents ?c1 = contents c" "c_open ops ?c1 tmp = Some body" "inv ?c1"
    using blobs_ok_temp(1) [OF assms(2) it] store_temp(1) [OF _ it, of c body] assms(2) by (auto simp: blobs_ok_def)
  have removed: "blobs_ok g (c_remove ops cc tmp) \<and> contents (c_remove ops cc tmp) = contents cc" if "blobs_ok g cc" for cc
    using blobs_ok_temp(2) [OF that it] store_temp(2) [OF _ it, of cc] that by (auto simp: blobs_ok_def)
  have kn: "imageRefKey repo digest \<in> known" using assms(3) by (simp add: docker_refs_def)
  obtain f c2 where p: "c_put ops ?c1 (imageRefKey repo digest) tmp (gv_Allowed v) (gv_Reason v) (ge_time en StoreTime) = (f, c2)" by force
  have ok2: "blobs_ok g c2"
    by (rule blobs_ok_put [OF c1(1) kn p]) (use assms(3) in \<open>simp add: docker_refs_def\<close>)
  show ?thesis
    using assms(1,5) Inr p removed [OF c1(1)] removed [OF ok2] store_put [OF c1(4) kn p] c1(2,3)
    by (auto simp: cacheVerdict_def Let_def PutImageVerdict_def split: option.splits if_splits)
qed

lemma evict_step:
  assumes "blobs_ok g c" "\<forall>d. blobRef d \<in> known"
  shows "blobs_ok g (fold (\<lambda>d c. snd (InvalidateBlob ops c d)) ds c)
    \<and> contents (fold (\<lambda>d c. snd (InvalidateBlob ops c d)) ds c) = (\<lambda>r. if r \<in> blobRef ` set ds then None else contents c r)"
  using assms(1)
proof (induction ds arbitrary: c)
  case (Cons d ds)
  have "inv c" using Cons.prems by (simp add: blobs_ok_def)
  from store_invalidate [OF this, of "blobRef d"] assms(2)
  have "inv (snd (InvalidateBlob ops c d))" "contents (snd (InvalidateBlob ops c d)) = (contents c)(blobRef d := None)"
    by (auto simp: InvalidateBlob_def)
  moreover from this Cons.prems have "blobs_ok g (snd (InvalidateBlob ops c d))" by (auto simp: blobs_ok_def)
  ultimately show ?case using Cons.IH [of "snd (InvalidateBlob ops c d)"] by (auto simp: fun_eq_iff)
qed simp

lemma store_block_step:
  assumes "ig_store g = ops" "blobs_ok g c" "docker_refs known repo" "genv_ok is_temp en"
  shows "blobs_ok g (store_block g en repo digest body cascade v c)
    \<and> (cascade \<longrightarrow> (\<forall>d\<in>set (evict_digests (ig_codecs g) body). contents (store_block g en repo digest body cascade v c) (blobRef d) = None))"
proof -
  obtain err c1 where cv: "cacheVerdict g en repo digest body v c = (err, c1)" by force
  have ok: "blobs_ok g c1" using cacheVerdict_step [OF assms cv] by simp
  have kn: "\<forall>d. blobRef d \<in> known" using assms(3) by (simp add: docker_refs_def)
  show ?thesis
    using evict_step [OF ok kn, of "evict_digests (ig_codecs g) body"] ok assms(1)
    by (auto simp: store_block_def evictBlobs_def cv Let_def)
qed

lemma finish_clean_step:
  assumes "ig_store g = ops" "blobs_ok g c" "docker_refs known repo" "genv_ok is_temp en" "gv_Allowed v"
    and "finish_clean g en repo digest body v c = (out, c')"
  shows "blobs_ok g c' \<and> (\<forall>v'. out = Inr v' \<longrightarrow> contents c' = (contents c)(imageRefKey repo digest \<mapsto> (body, True))
    \<and> v' = v\<lparr>gv_ManifestPath := gv_ManifestPath v'\<rparr> \<and> c_open ops c' (gv_ManifestPath v') = Some body)"
proof -
  obtain err c1 where cv: "cacheVerdict g en repo digest body v c = (err, c1)" by force
  note st = cacheVerdict_step [OF assms(1-4) cv]
  show ?thesis
  proof (cases err)
    case (Some e)
    then show ?thesis using assms(6) cv st by (auto simp: finish_clean_def)
  next
    case None
    then have c1: "contents c1 = (contents c)(imageRefKey repo digest \<mapsto> (body, True))" "inv c1"
      using st assms(5) by (auto simp: blobs_ok_def)
    obtain e c2 where l: "c_lookup ops c1 (imageRefKey repo digest) (ge_time en ServeTime) = (e, c2)" by force
    have ok2: "blobs_ok g c2" using blobs_ok_lookup [OF _ l] st by simp
    show ?thesis
    proof (cases e)
      case None
      with lookup_miss [OF c1(2) l [unfolded None]] c1(1) show ?thesis by simp
    next
      case (Some x)
      with lookup_hit [OF c1(2) l [unfolded Some]] c1(1)
      have "contents c2 = contents c1" "c_open ops c2 (ce_ArtifactPath x) = Some body" by auto
      then show ?thesis
        using assms(1,6) cv None l Some ok2 c1(1) by (auto simp: finish_clean_def GetManifestBody_def)
    qed
  qed
qed

section \<open>The pipeline\<close>

definition pipeline_ok ::
  "'c image_gate \<Rightarrow> gate_env \<Rightarrow> string \<Rightarrow> string \<Rightarrow> string \<Rightarrow> string \<Rightarrow> bool \<Rightarrow> (go_error + gate_verdict) \<times> 'c \<Rightarrow> bool" where
  "pipeline_ok g en repo ref digest body cascade r \<longleftrightarrow> blobs_ok g (snd r)
     \<and> (\<forall>v. fst r = Inr v \<and> gv_Allowed v \<longrightarrow> image_vetted g en repo ref digest body (contents (snd r))
          \<and> contents (snd r) (imageRefKey repo digest) = Some (body, True) \<and> c_open ops (snd r) (gv_ManifestPath v) = Some body
          \<and> \<not> gv_Passthrough v \<and> \<not> gv_FromCache v)
     \<and> (\<forall>v. fst r = Inr v \<and> cascade \<and> gv_BlockedBy v \<in> {''cve'', ''denylist'', ''malware''} \<longrightarrow>
          (\<forall>d\<in>set (evict_digests (ig_codecs g) body). contents (snd r) (blobRef d) = None))"

lemma pipeline_ok_block:
  assumes "ig_store g = ops" "blobs_ok g c" "docker_refs known repo" "genv_ok is_temp en" "\<not> gv_Allowed v"
  shows "pipeline_ok g en repo ref digest body cascade (Inr v, store_block g en repo digest body cascade v c)"
  using store_block_step [OF assms(1-4), of digest body cascade v] assms(5) by (simp add: pipeline_ok_def)

lemma image_policy_blocks: "image_policy g pkg findings = Some v \<Longrightarrow> \<not> gv_Allowed v"
  by (auto simp: image_policy_def zero_verdict_def Let_def split: option.splits if_splits)

lemma pipeline_ok_stop:
  "blobs_ok g c \<Longrightarrow> pipeline_ok g en repo ref digest body cascade (Inl e, c)"
  "blobs_ok g c \<Longrightarrow> \<not> gv_Allowed v \<Longrightarrow> gv_BlockedBy v \<notin> {''cve'', ''denylist'', ''malware''} \<Longrightarrow>
     pipeline_ok g en repo ref digest body cascade (Inr v, c)"
  by (auto simp: pipeline_ok_def)

lemma pipeline_ok_clean:
  assumes "ig_store g = ops" "blobs_ok g c" "docker_refs known repo" "genv_ok is_temp en"
    and "gv_Allowed v" "gv_BlockedBy v = []" "\<not> gv_Passthrough v" "\<not> gv_FromCache v"
    and "image_vetted g en repo ref digest body (contents c)"
  shows "pipeline_ok g en repo ref digest body cascade (finish_clean g en repo digest body v c)"
proof -
  obtain out c' where f: "finish_clean g en repo digest body v c = (out, c')" by force
  note st = finish_clean_step [OF assms(1-5) f]
  have "image_vetted g en repo ref digest body ((contents c)(imageRefKey repo digest \<mapsto> (body, True)))"
    using assms(3,9) by (simp add: image_vetted_def docker_refs_def)
  moreover have "out = Inr v' \<Longrightarrow> gv_BlockedBy v' = [] \<and> \<not> gv_Passthrough v' \<and> \<not> gv_FromCache v'" for v'
    using st assms(6-8) by (metis gate_verdict.select_convs(3,9,10) gate_verdict.surjective gate_verdict.update_convs(5))
  ultimately show ?thesis using st by (auto simp: f pipeline_ok_def)
qed

lemma scan_and_finish_ok:
  assumes "ig_store g = ops" "blobs_ok g c" "docker_refs known repo" "genv_ok is_temp en"
    and "gv_Allowed v" "gv_BlockedBy v = []" "\<not> gv_Passthrough v" "\<not> gv_FromCache v"
    and "\<And>held. ig_av g \<noteq> None \<longrightarrow> (\<forall>d\<in>set blobs. \<exists>b. held (blobRef d) = Some (b, True) \<and> scanned g b) \<Longrightarrow>
           image_vetted g en repo ref digest body held"
  shows "pipeline_ok g en repo ref digest body cascade (scan_and_finish g en repo digest body cascade blobs v c)"
proof -
  obtain out c1 where bl: "(if ig_av g = None then (Inr layerClean, c) else scan_blobs g en repo 0 blobs c) = (out, c1)" by force
  have st: "blobs_ok g c1" "out = Inr layerClean \<Longrightarrow> ig_av g \<noteq> None \<longrightarrow> (\<forall>d\<in>set blobs. \<exists>b. contents c1 (blobRef d) = Some (b, True))"
    using scan_blobs_step [OF assms(1,2) _ assms(4), of repo 0 blobs out c1] assms(2,3) bl
    by (auto simp: docker_refs_def split: if_splits)
  then have "out = Inr layerClean \<Longrightarrow> image_vetted g en repo ref digest body (contents c1)"
    by (intro assms(9)) (fastforce simp: blobs_ok_def)
  then have clean: "out = Inr layerClean \<Longrightarrow> pipeline_ok g en repo ref digest body cascade (finish_clean g en repo digest body v c1)"
    by (rule pipeline_ok_clean [OF assms(1) st(1) assms(3-8)])
  show ?thesis
    using clean pipeline_ok_stop(1) [OF st(1)] pipeline_ok_block [OF assms(1) st(1) assms(3,4)]
    by (auto simp: scan_and_finish_def bl zero_verdict_def ReasonScanIncomplete_def Let_def split: sum.split layer_outcome.split
        intro!: pipeline_ok_stop(2) [OF st(1)])
qed

lemma runPipeline_ok:
  assumes "ig_store g = ops" "blobs_ok g c" "docker_refs known repo" "genv_ok is_temp en"
  shows "pipeline_ok g en repo ref digest body cascade (runPipeline g en repo ref digest body ct cascade c)"
proof (cases "ImageConfig (ig_codecs g) (ge_configNet en) (ig_upstreams g) repo body")
  case (Inl e)
  then show ?thesis using pipeline_ok_stop(1) [OF assms(2)] by (simp add: runPipeline_def)
next
  case (Inr im)
  then obtain created cfgd layers where im: "ImageConfig (ig_codecs g) (ge_configNet en) (ig_upstreams g) repo body = Inr (created, cfgd, layers)"
    by (cases im) auto
  let ?fr = "ig_filter g (ge_time en FilterTime) (docker_pkg repo ref) \<lparr>pm_PublishedAt = created, pm_Maintainer = [], pm_License = []\<rparr>"
  let ?v = "zero_verdict\<lparr>gv_Allowed := True, gv_Reason := ''ok'', gv_PublishedAt := created, gv_ContentType := ct\<rparr>"
  show ?thesis
  proof (cases "fr_Allowed ?fr \<and> (\<exists>findings. ig_scanner g (imageRef g repo digest) = Inr findings)")
    case False
    then show ?thesis
      using pipeline_ok_stop [OF assms(2)]
      by (auto simp: runPipeline_def im docker_pkg_def Let_def zero_verdict_def split: sum.split)
  next
    case True
    then obtain findings where sc: "fr_Allowed ?fr" "ig_scanner g (imageRef g repo digest) = Inr findings" by blast
    show ?thesis
    proof (cases "image_policy g (docker_pkg repo ref) findings")
      case (Some v)
      with pipeline_ok_block [OF assms image_policy_blocks [OF Some]] im sc show ?thesis
        by (simp add: runPipeline_def docker_pkg_def Let_def)
    next
      case None
      then have "\<forall>evaluate. ig_policy g = Some evaluate \<longrightarrow>
          pd_Allowed (evaluate (docker_pkg repo ref) \<lparr>sr_Clean = (findings = []), sr_Findings = findings, sr_ScanJSON = []\<rparr>)"
        by (auto simp: image_policy_def Let_def split: option.splits if_splits)
      with im sc have "pipeline_ok g en repo ref digest body cascade (scan_and_finish g en repo digest body cascade (image_blobs cfgd layers) ?v c)"
        by (intro scan_and_finish_ok [OF assms]) (auto simp: zero_verdict_def image_vetted_def)
      with im sc None show ?thesis by (simp add: runPipeline_def docker_pkg_def Let_def)
    qed
  qed
qed

section \<open>Evaluate\<close>

lemma GetImageVerdict_cases:
  assumes "inv c" "GetImageVerdict ops c repo digest now = (x, c')"
  shows "inv c' \<and> contents c' = contents c \<and>
    (case x of None \<Rightarrow> True | Some (clean, reason, t) \<Rightarrow> \<exists>b. contents c (imageRefKey repo digest) = Some (b, clean))"
proof -
  obtain e c1 where l: "c_lookup ops c (imageRefKey repo digest) now = (e, c1)" by force
  show ?thesis
  proof (cases e)
    case None
    with lookup_miss [OF assms(1) l [unfolded None]] l assms(2) show ?thesis by (auto simp: GetImageVerdict_def)
  next
    case (Some y)
    with lookup_hit [OF assms(1) l [unfolded Some]] l assms(2) show ?thesis by (auto simp: GetImageVerdict_def)
  qed
qed

lemma GetManifestBody_keeps:
  assumes "inv c" "GetManifestBody ops c repo digest now = (x, c')"
  shows "inv c' \<and> contents c' = contents c"
proof -
  obtain e c1 where l: "c_lookup ops c (imageRefKey repo digest) now = (e, c1)" by force
  with lookup_keeps [OF assms(1) l] assms(2) show ?thesis by (cases e) (auto simp: GetManifestBody_def)
qed

text \<open>What a lookup of a verdict returns: one of the store, marked as such.\<close>

definition look_ok :: "string \<Rightarrow> string \<Rightarrow> 'c \<Rightarrow> (gate_verdict option + gate_verdict) \<times> 'c \<Rightarrow> bool" where
  "look_ok repo digest c r \<longleftrightarrow> inv (snd r) \<and> contents (snd r) = contents c
     \<and> (\<forall>v. fst r = Inr v \<or> fst r = Inl (Some v) \<longrightarrow> gv_FromCache v
          \<and> (gv_Allowed v \<longrightarrow> (\<exists>b. contents c (imageRefKey repo digest) = Some (b, True))))"

lemma cached_verdict_fields [simp]: "gv_FromCache (cached_verdict cl re)" "gv_Allowed (cached_verdict cl re) = cl"
  by (simp_all add: cached_verdict_def)

lemma second_look_ok:
  assumes "ig_store g = ops" "inv c"
  shows "look_ok repo digest c (second_look g en repo digest ct c)"
proof -
  obtain x c1 where gi: "GetImageVerdict ops c repo digest (ge_time en Lookup) = (x, c1)" by force
  note gc = GetImageVerdict_cases [OF assms(2) gi]
  show ?thesis
  proof (cases x)
    case None
    with gi gc assms(1) show ?thesis by (simp add: second_look_def look_ok_def)
  next
    case (Some y)
    obtain clean re t where y: "y = (clean, re, t)" by (cases y)
    obtain pth c2 where gm: "GetManifestBody ops c1 repo digest (ge_time en LookupBody) = (pth, c2)" by force
    have "inv c2 \<and> contents c2 = contents c1" using GetManifestBody_keeps [OF _ gm] gc by simp
    with gc Some y show ?thesis
      by (cases pth) (auto simp: second_look_def look_ok_def Let_def gi gm assms(1))
  qed
qed

lemma fast_path_ok:
  assumes "ig_store g = ops" "inv c"
  shows "look_ok repo ref c (fast_path g en repo ref c)"
proof -
  obtain x c1 where gi: "GetImageVerdict ops c repo ref (ge_time en FastLookup) = (x, c1)" by force
  note gc = GetImageVerdict_cases [OF assms(2) gi]
  show ?thesis
  proof (cases "x = None \<or> \<not> isDigestRef ref")
    case True
    with gi gc assms show ?thesis by (auto simp: fast_path_def look_ok_def split: option.splits)
  next
    case False
    then obtain clean re t where y: "x = Some (clean, re, t)" by (cases x) auto
    obtain pth c2 where gm: "GetManifestBody ops c1 repo ref (ge_time en FastBody) = (pth, c2)" by force
    have "inv c2 \<and> contents c2 = contents c1" using GetManifestBody_keeps [OF _ gm] gc by simp
    with gc y False show ?thesis
      by (cases pth) (auto simp: fast_path_def look_ok_def Let_def gi gm assms(1))
  qed
qed

text \<open>The outcome of an evaluation that runs its own pipeline.\<close>

definition evaluated ::
  "'c image_gate \<Rightarrow> gate_env \<Rightarrow> string \<Rightarrow> string \<Rightarrow> 'c \<Rightarrow> (go_error + string \<times> gate_verdict) \<times> 'c \<Rightarrow> bool" where
  "evaluated g en repo ref c r \<longleftrightarrow> blobs_ok g (snd r)
     \<and> (\<forall>digest v. ge_flight en = None \<and> fst r = Inr (digest, v) \<and> gv_Allowed v \<longrightarrow>
          (\<exists>body. allowed_rightly g en repo ref (contents c) (contents (snd r)) digest v body
             \<and> (\<not> gv_FromCache v \<longrightarrow> c_open ops (snd r) (gv_ManifestPath v) = Some body)))"

lemma evaluated_stored:
  assumes "blobs_ok g c'" "out = Inl e \<or> (\<exists>v. out = Inr (digest, v) \<and> gv_FromCache v
      \<and> (gv_Allowed v \<longrightarrow> (\<exists>b. contents c (imageRefKey repo digest) = Some (b, True))))"
  shows "evaluated g en repo ref c (out, c')"
  using assms by (auto simp: evaluated_def allowed_rightly_def)

lemma passthrough_ok:
  assumes "ig_store g = ops" "blobs_ok g c" "docker_refs known repo" "genv_ok is_temp en"
    and "FetchManifest (ig_codecs g) (ge_manifestNet en) (ig_upstreams g) repo ref = Inr (body, ct, digest)"
    and "isIndexMediaType ct \<or> isAttestationManifest (ig_codecs g) body"
  shows "evaluated g en repo ref c0 (passthrough g en repo digest body ct reason c)"
proof -
  let ?v = "zero_verdict\<lparr>gv_Allowed := True, gv_Reason := reason, gv_ContentType := ct, gv_Passthrough := True\<rparr>"
  obtain out c' where f: "finish_clean g en repo digest body ?v c = (out, c')" by force
  have st: "blobs_ok g c'" "\<And>v'. out = Inr v' \<Longrightarrow> contents c' = (contents c)(imageRefKey repo digest \<mapsto> (body, True))
      \<and> v' = ?v\<lparr>gv_ManifestPath := gv_ManifestPath v'\<rparr> \<and> c_open ops c' (gv_ManifestPath v') = Some body"
    using finish_clean_step [OF assms(1-4) _ f] by simp_all
  show ?thesis
  proof (cases out)
    case (Inl e)
    with f st(1) show ?thesis by (simp add: passthrough_def evaluated_def)
  next
    case (Inr v')
    have v': "v' = ?v\<lparr>gv_ManifestPath := gv_ManifestPath v'\<rparr>" using st(2) [OF Inr] by blast
    have "\<not> gv_FromCache v'" "gv_Passthrough v'"
      using arg_cong [OF v', of gv_FromCache] arg_cong [OF v', of gv_Passthrough] by (simp_all add: zero_verdict_def)
    with Inr f st assms(5,6) show ?thesis
      by (auto simp: passthrough_def evaluated_def allowed_rightly_def)
  qed
qed

lemma gate_fetched_ok:
  assumes "ig_store g = ops" "blobs_ok g c" "docker_refs known repo" "genv_ok is_temp en"
    and fm: "FetchManifest (ig_codecs g) (ge_manifestNet en) (ig_upstreams g) repo ref = Inr (body, ct, digest)"
  shows "evaluated g en repo ref c (gate_fetched g en repo ref body ct digest c)"
proof -
  have "inv c" using assms(2) by (simp add: blobs_ok_def)
  obtain x c1 where sl: "second_look g en repo digest ct c = (x, c1)" by force
  have lk: "look_ok repo digest c (x, c1)" using second_look_ok [OF assms(1) \<open>inv c\<close>, of repo digest en ct] sl by simp
  have ok1: "blobs_ok g c1" using lk blobs_ok_eq [OF assms(2), of c1] by (simp add: look_ok_def)
  have same: "evaluated g en repo ref c1 r \<Longrightarrow> evaluated g en repo ref c r" for r
    using lk by (simp add: evaluated_def look_ok_def)
  show ?thesis
  proof (cases x)
    case (Inr v)
    with lk ok1 sl show ?thesis by (auto simp: gate_fetched_def look_ok_def intro!: evaluated_stored)
  next
    case (Inl stale)
    show ?thesis
    proof (cases "isIndexMediaType ct \<or> isAttestationManifest (ig_codecs g) body")
      case True
      from passthrough_ok [OF assms(1) ok1 assms(3,4) fm True] True sl Inl show ?thesis by (auto simp: gate_fetched_def)
    next
      case False
      show ?thesis
      proof (cases "ge_flight en")
        case (Some out)
        with ok1 False sl Inl show ?thesis by (auto simp: gate_fetched_def evaluated_def split: sum.split)
      next
        case None
        obtain out c2 where rp: "runPipeline g en repo ref digest body ct (stale \<noteq> None) c1 = (out, c2)" by force
        have po: "pipeline_ok g en repo ref digest body (stale \<noteq> None) (out, c2)"
          using runPipeline_ok [OF assms(1) ok1 assms(3,4), of ref digest body "stale \<noteq> None" ct] rp by simp
        show ?thesis
        proof (cases out)
          case (Inr v)
          with po False fm sl Inl None rp show ?thesis
            by (auto simp: gate_fetched_def evaluated_def pipeline_ok_def allowed_rightly_def)
        next
          case (Inl e)
          with po lk \<open>x = Inl stale\<close> have "evaluated g en repo ref c (staleOr digest stale e, c2)"
            by (intro evaluated_stored [of g c2 "staleOr digest stale e" e digest])
               (auto simp: pipeline_ok_def staleOr_def look_ok_def split: option.splits)
          with False sl \<open>x = Inl stale\<close> None rp Inl show ?thesis by (simp add: gate_fetched_def)
        qed
      qed
    qed
  qed
qed

lemma Evaluate_ok:
  assumes "ig_store g = ops" "blobs_ok g (gs_cache s)" "docker_refs known repo" "genv_ok is_temp en"
    and "Evaluate g en repo ref s = (out, s')"
  shows "evaluated g en repo ref (gs_cache s) (out, gs_cache s')"
proof -
  have "inv (gs_cache s)" using assms(2) by (simp add: blobs_ok_def)
  obtain x c1 where fp: "fast_path g en repo ref (gs_cache s) = (x, c1)" by force
  have lk: "look_ok repo ref (gs_cache s) (x, c1)" using fast_path_ok [OF assms(1) \<open>inv (gs_cache s)\<close>, of repo ref en] fp by simp
  have ok1: "blobs_ok g c1" using lk blobs_ok_eq [OF assms(2), of c1] by (simp add: look_ok_def)
  show ?thesis
  proof (cases x)
    case (Inr v)
    with lk ok1 fp assms(5) show ?thesis by (auto simp: Evaluate_def look_ok_def intro!: evaluated_stored)
  next
    case (Inl stale)
    show ?thesis
    proof (cases "FetchManifest (ig_codecs g) (ge_manifestNet en) (ig_upstreams g) repo ref")
      case e: (Inl e)
      have s': "gs_cache s' = c1" "out = (case stale of Some v \<Rightarrow> Inr (ref, v) | None \<Rightarrow> out)" "stale = None \<Longrightarrow> \<exists>e. out = Inl e"
        using assms(5) fp Inl e by (auto simp: Evaluate_def Let_def split: option.splits)
      show ?thesis
      proof (cases stale)
        case None
        with s' ok1 show ?thesis by (auto simp: evaluated_def)
      next
        case (Some v)
        with s' ok1 lk Inl show ?thesis by (auto simp: look_ok_def intro!: evaluated_stored)
      qed
    next
      case m: (Inr m)
      obtain body ct digest where fm: "m = (body, ct, digest)" by (cases m)
      obtain out2 c2 where gf: "gate_fetched g en repo ref body ct digest c1 = (out2, c2)" by force
      have "out = out2" "gs_cache s' = c2" using assms(5) fp Inl m fm gf by (auto simp: Evaluate_def Let_def)
      with gate_fetched_ok [OF assms(1) ok1 assms(3,4) m [unfolded fm]] gf lk show ?thesis
        by (simp add: evaluated_def look_ok_def)
    qed
  qed
qed

section \<open>Requests\<close>

lemma gate_run_ok:
  assumes "ig_store (dk_gate cfg) = ops" "blobs_ok (dk_gate cfg) (gs_cache s)" "docker_refs known (pp_Repo pp)"
    and "genv_ok is_temp (de_gate en)" "gate_run cfg en pp s = (out, s')"
  shows "evaluated (dk_gate cfg) (de_gate en) (pp_Repo pp) (pp_Reference pp) (gs_cache s) (out, gs_cache s')"
proof -
  obtain s1 where e: "Evaluate (dk_gate cfg) (de_gate en) (pp_Repo pp) (pp_Reference pp) (gate_state.truncate s) = (out, s1)"
    "gs_cache s' = gs_cache s1"
    using assms(5) by (auto simp: gate_run_def gate_state.defs split: prod.splits)
  with Evaluate_ok [OF assms(1) _ assms(3,4) e(1)] assms(2) show ?thesis by (simp add: gate_state.defs)
qed

lemma remember_attestation_cache [simp]: "gs_cache (remember_attestation cfg repo v s) = gs_cache s"
  by (simp add: remember_attestation_def split: option.split)

lemma serve_allowed_parts:
  "gs_cache (snd (snd (serve_allowed cfg en w r pp digest v s))) = gs_cache s"
  "rp_Body (fst (serve_allowed cfg en w r pp digest v s)) = Bytes b \<Longrightarrow>
     rp_Status (fst (serve_allowed cfg en w r pp digest v s)) = 200
     \<and> (\<exists>body. c_open (ig_store (dk_gate cfg)) (gs_cache s) (gv_ManifestPath v) = Some body \<and> prefix b body)"
  by (cases "rq_Method r = ''HEAD''"; auto simp: serve_allowed_def docker_error_def Let_def take_is_prefix split: option.splits)+

lemma serveManifest_ok:
  assumes "ig_store (dk_gate cfg) = ops" "blobs_ok (dk_gate cfg) (gs_cache s)" "docker_refs known (pp_Repo pp)"
    and "genv_ok is_temp (de_gate en)" "serveManifest cfg en w r pp s = (rp, evs, s')"
  shows "blobs_ok (dk_gate cfg) (gs_cache s') \<and>
    (\<forall>b. rp_Body rp = Bytes b \<and> ge_flight (de_gate en) = None \<longrightarrow> rp_Status rp = 200 \<and>
       (\<exists>digest v body. gv_Allowed v \<and> (\<not> gv_FromCache v \<longrightarrow> prefix b body)
          \<and> allowed_rightly (dk_gate cfg) (de_gate en) (pp_Repo pp) (pp_Reference pp) (contents (gs_cache s)) (contents (gs_cache s')) digest v body))"
proof -
  obtain out s1 where g: "gate_run cfg en pp s = (out, s1)" by force
  note ev = gate_run_ok [OF assms(1-4) g]
  have nb: "rp_Body (docker_error w' st code msg) \<noteq> Bytes b" for w' st code msg b by (simp add: docker_error_def)
  show ?thesis
  proof (cases "(0 < dk_ClientWait cfg \<and> \<not> de_inTime en) \<or> (\<nexists>digest v. out = Inr (digest, v) \<and> gv_Allowed v)")
    case True
    then have "gs_cache s' = gs_cache s1" "\<nexists>b. rp_Body rp = Bytes b"
      using assms(5) nb by (auto simp: serveManifest_def g Let_def split: sum.splits if_splits prod.splits)
    with ev show ?thesis by (auto simp: evaluated_def)
  next
    case False
    then obtain digest v where v: "out = Inr (digest, v)" "gv_Allowed v" by blast
    with False assms(5) g have sa: "serve_allowed cfg en w r pp digest v s1 = (rp, evs, s')" by (auto simp: serveManifest_def)
    note parts = serve_allowed_parts [of cfg en w r pp digest v s1, unfolded sa fst_conv snd_conv]
    have "rp_Status rp = 200 \<and> (\<exists>digest v body. gv_Allowed v \<and> (\<not> gv_FromCache v \<longrightarrow> prefix b body)
        \<and> allowed_rightly (dk_gate cfg) (de_gate en) (pp_Repo pp) (pp_Reference pp) (contents (gs_cache s)) (contents (gs_cache s')) digest v body)"
      if b: "rp_Body rp = Bytes b" "ge_flight (de_gate en) = None" for b
    proof -
      from ev v b(2) obtain body where body:
        "allowed_rightly (dk_gate cfg) (de_gate en) (pp_Repo pp) (pp_Reference pp) (contents (gs_cache s)) (contents (gs_cache s1)) digest v body"
        "\<not> gv_FromCache v \<longrightarrow> c_open ops (gs_cache s1) (gv_ManifestPath v) = Some body"
        by (auto simp: evaluated_def)
      moreover have "\<not> gv_FromCache v \<longrightarrow> prefix b body" using parts(2) [OF b(1)] body(2) assms(1) by auto
      ultimately show ?thesis using parts(1) parts(2) [OF b(1)] v(2) by metis
    qed
    with parts(1) ev show ?thesis by (simp add: evaluated_def)
  qed
qed

text \<open>Bytes of an attestation: within the cap and with the digest asked for.\<close>

lemma serveBlob_ok:
  assumes "ig_store (dk_gate cfg) = ops" "blobs_ok (dk_gate cfg) (gs_cache s)" "serveBlob cfg en w r pp s = (rp, s')"
  shows "blobs_ok (dk_gate cfg) (gs_cache s') \<and>
    (\<forall>b. rp_Body rp = Bytes b \<longrightarrow>
       (\<exists>full. contents (gs_cache s) (blobRef (pp_Reference pp)) = Some (full, True) \<and> prefix b full)
       \<or> rp = serveAttestationBlob cfg en w r pp \<and> (\<exists>a. ds_attest s = Some a \<and> ab_has a (pp_Repo pp) (pp_Reference pp)))"
proof -
  have "inv (gs_cache s)" using assms(2) by (simp add: blobs_ok_def)
  obtain x c1 where gb: "GetBlob ops (gs_cache s) (pp_Reference pp) (de_blobTime en) = (x, c1)" by force
  note gc = GetBlob_cases [OF \<open>inv (gs_cache s)\<close> gb]
  have ok1: "blobs_ok (dk_gate cfg) c1" using gc assms(2) by (auto simp: blobs_ok_def)
  have nb: "rp_Body (docker_error w' st code msg) \<noteq> Bytes b" for w' st code msg b by (simp add: docker_error_def)
  show ?thesis
  proof (cases x)
    case None
    with gb ok1 assms(1,3) nb show ?thesis by (auto simp: serveBlob_def Let_def split: option.splits if_splits)
  next
    case (Some y)
    then obtain path clean where y: "x = Some (path, clean)" by (cases y) auto
    with gc obtain full where "contents (gs_cache s) (blobRef (pp_Reference pp)) = Some (full, clean)" "c_open ops c1 path = Some full" by auto
    with y gb ok1 assms(1,3) nb show ?thesis
      by (auto simp: serveBlob_def Let_def take_is_prefix split: option.splits if_splits)
  qed
qed

end

definition attestation_bytes :: "'c image_gate \<Rightarrow> string \<Rightarrow> string \<Rightarrow> bool" where
  "attestation_bytes g digest b \<longleftrightarrow> int (length b) \<le> maxAttestationBlobBytes \<and> digest = ''sha256:'' @ dc_sha256 (ig_codecs g) b"

lemma fetchAttestationBlob_verified:
  assumes "fetchAttestationBlob dc sv ups repo digest = Inr b"
  shows "int (length b) \<le> maxAttestationBlobBytes \<and> digest = ''sha256:'' @ dc_sha256 dc b"
proof -
  have p: "has_prefix digest ''sha256:''" using assms by (auto simp: fetchAttestationBlob_def split: if_splits)
  then have "digest = ''sha256:'' @ drop (length ''sha256:'') digest" by (metis append_take_drop_id has_prefix_def)
  moreover have "dc_sha256 dc b = drop (length ''sha256:'') digest" "int (length b) \<le> maxAttestationBlobBytes"
    using assms p by (auto simp: fetchAttestationBlob_def Let_def split: if_splits sum.splits)
  ultimately show ?thesis by simp
qed

text \<open>A client that waited for another one's fetch got what some such fetch returned.\<close>

definition attest_flight_ok :: "'c docker_config \<Rightarrow> docker_env \<Rightarrow> parsed_path \<Rightarrow> bool" where
  "attest_flight_ok cfg en pp \<longleftrightarrow> (\<forall>out. de_attestFlight en = Some out \<longrightarrow>
     (\<exists>sv. out = fetchAttestationBlob (ig_codecs (dk_gate cfg)) sv (ig_upstreams (dk_gate cfg)) (pp_Repo pp) (pp_Reference pp)))"

lemma serveAttestationBlob_verified:
  assumes "attest_flight_ok cfg en pp" "rp_Body (serveAttestationBlob cfg en w r pp) = Bytes b"
  shows "attestation_bytes (dk_gate cfg) (pp_Reference pp) b"
proof -
  obtain sv where "fetchAttestationBlob (ig_codecs (dk_gate cfg)) sv (ig_upstreams (dk_gate cfg)) (pp_Repo pp) (pp_Reference pp) = Inr b"
  proof (cases "de_attestFlight en")
    case None
    with assms(2) that [of "de_attestNet en"] show ?thesis
      by (auto simp: serveAttestationBlob_def docker_error_def split: sum.splits if_splits)
  next
    case (Some out)
    with assms that show ?thesis
      by (auto simp: serveAttestationBlob_def attest_flight_ok_def docker_error_def split: sum.splits if_splits)
  qed
  from fetchAttestationBlob_verified [OF this] show ?thesis by (simp add: attestation_bytes_def)
qed

text \<open>A run of requests to one handler.\<close>

type_synonym docker_request = "docker_env \<times> header \<times> http_request"

fun docker_serve_all :: "'c docker_config \<Rightarrow> docker_request list \<Rightarrow> 'c docker_state \<Rightarrow> reply list \<times> 'c docker_state" where
  "docker_serve_all cfg [] s = ([], s)"
| "docker_serve_all cfg ((en, w, r) # qs) s =
     (case docker_ServeHTTP cfg en w r s of
        (rp, evs, s1) \<Rightarrow> (case docker_serve_all cfg qs s1 of (rps, s2) \<Rightarrow> (rp # rps, s2)))"

definition docker_request_ok :: "'c docker_config \<Rightarrow> package_ref set \<Rightarrow> (string \<Rightarrow> bool) \<Rightarrow> docker_request \<Rightarrow> bool" where
  "docker_request_ok cfg known is_temp q \<longleftrightarrow>
     (case q of (en, w, r) \<Rightarrow>
        genv_ok is_temp (de_gate en) \<and> attest_flight_ok cfg en (ParsePath (rq_Path r))
        \<and> (pp_Kind (ParsePath (rq_Path r)) = KindManifest \<longrightarrow> docker_refs known (pp_Repo (ParsePath (rq_Path r)))))"

context image_store
begin

lemma docker_ServeHTTP_ok:
  assumes "ig_store (dk_gate cfg) = ops" "blobs_ok (dk_gate cfg) (gs_cache s)" "docker_request_ok cfg known is_temp (en, w, r)"
    and "docker_ServeHTTP cfg en w r s = (rp, evs, s')"
  shows "blobs_ok (dk_gate cfg) (gs_cache s') \<and>
    (\<forall>b. pp_Kind (ParsePath (rq_Path r)) = KindBlob \<and> rp_Body rp = Bytes b \<longrightarrow>
       (\<exists>full. scanned (dk_gate cfg) full \<and> prefix b full) \<or> attestation_bytes (dk_gate cfg) (pp_Reference (ParsePath (rq_Path r))) b)"
proof (cases "pp_Kind (ParsePath (rq_Path r))")
  case KindManifest
  with assms serveManifest_ok [OF assms(1,2), of "ParsePath (rq_Path r)" en w r rp evs s'] show ?thesis
    by (simp add: docker_ServeHTTP_def Let_def docker_request_ok_def)
next
  case KindBlob
  let ?pp = "ParsePath (rq_Path r)"
  have sb: "serveBlob cfg en w r ?pp s = (rp, s')"
    using assms(4) KindBlob by (auto simp: docker_ServeHTTP_def Let_def split: prod.splits)
  have "attest_flight_ok cfg en ?pp" using assms(3) by (simp add: docker_request_ok_def)
  note at = serveAttestationBlob_verified [OF this, of w r]
  from serveBlob_ok [OF assms(1,2) sb] at assms(2) show ?thesis by (fastforce simp: blobs_ok_def)
qed (use assms in \<open>auto simp: docker_ServeHTTP_def Let_def\<close>)

lemma docker_serve_all_ok:
  assumes "ig_store (dk_gate cfg) = ops" "blobs_ok (dk_gate cfg) (gs_cache s)" "\<forall>q\<in>set qs. docker_request_ok cfg known is_temp q"
    and "docker_serve_all cfg qs s = (rps, s')"
  shows "length rps = length qs \<and> (\<forall>i b. i < length qs \<and> pp_Kind (ParsePath (rq_Path (snd (snd (qs ! i))))) = KindBlob \<and> rp_Body (rps ! i) = Bytes b \<longrightarrow>
       (\<exists>full. scanned (dk_gate cfg) full \<and> prefix b full)
       \<or> attestation_bytes (dk_gate cfg) (pp_Reference (ParsePath (rq_Path (snd (snd (qs ! i)))))) b)"
  using assms(2-4)
proof (induction qs arbitrary: s rps)
  case (Cons q qs)
  obtain en w r where q: "q = (en, w, r)" by (cases q)
  obtain rp evs s1 where h: "docker_ServeHTTP cfg en w r s = (rp, evs, s1)" by (metis prod_cases3)
  obtain rps' s2 where t: "docker_serve_all cfg qs s1 = (rps', s2)" by force
  have ok: "docker_request_ok cfg known is_temp (en, w, r)" using Cons.prems(2) q by simp
  note one = docker_ServeHTTP_ok [OF assms(1) Cons.prems(1) ok h]
  have "rps = rp # rps'" "s' = s2" using Cons.prems(3) q h t by auto
  moreover have "\<forall>q\<in>set qs. docker_request_ok cfg known is_temp q" using Cons.prems(2) by simp
  moreover note Cons.IH [of s1 rps'] t one q
  ultimately show ?case by (auto simp: nth_Cons split: nat.splits)
qed simp

end

end
