(* ===== verification/Proxy_Mux.thy ===== *)
theory Proxy_Mux
  imports Proxy_Upstream
begin

text \<open>
  The route table of the proxy, \<^verbatim>\<open>internal/proxy/mux.go\<close>: the first path segment selects the
  handler of a registry, which sees the rest of the path. Handlers are functions of the
  request; a plain handler (Docker's) takes precedence over a package handler of the same prefix.
\<close>

definition splitPrefix :: "string \<Rightarrow> string \<times> string" where
  "splitPrefix path =
     (let trimmed = trim_prefix path ''/'' in
      case str_index ''/'' trimmed of
        None \<Rightarrow> (trimmed, ''/'')
      | Some idx \<Rightarrow> (take idx trimmed, drop idx trimmed))"

definition isBrowserNoise :: "string \<Rightarrow> bool" where
  "isBrowserNoise path = has_prefix path ''/.well-known/''"

text \<open>
  The handlers and their state \<open>'s\<close>, which a request may change. \<open>rq_URI\<close> is the request's
  \<open>RequestURI()\<close>; clearing \<open>RawPath\<close> makes it the encoding of the new path, which is an argument.
\<close>

record 's route_table =
  mx_handlers :: "string \<rightharpoonup> (http_request \<Rightarrow> 's \<Rightarrow> reply \<times> 's)"
  mx_raw :: "string \<rightharpoonup> (http_request \<Rightarrow> 's \<Rightarrow> reply \<times> 's)"
  mx_encode :: "http_request \<Rightarrow> string \<Rightarrow> string"

definition RoutePrefix :: "http_request \<Rightarrow> string" where
  "RoutePrefix r = rq_RoutePrefix r"

definition strip_route :: "'s route_table \<Rightarrow> http_request \<Rightarrow> http_request" where
  "strip_route m r =
     (case splitPrefix (rq_Path r) of (prfx, rest) \<Rightarrow>
        r\<lparr>rq_Path := rest, rq_URI := mx_encode m r rest, rq_RoutePrefix := prfx\<rparr>)"

definition Mux_ServeHTTP :: "'s route_table \<Rightarrow> header \<Rightarrow> http_request \<Rightarrow> 's \<Rightarrow> reply \<times> 's" where
  "Mux_ServeHTTP m w r s =
     (if rq_Path r = ''/health'' then
        (\<lparr>rp_Status = StatusOK, rp_Header = hdr_Set w ''Content-Type'' ''application/json'',
          rp_Body = Json (JObject [(''status'', JString ''ok'')])\<rparr>, s)
      else if isBrowserNoise (rq_Path r) then (\<lparr>rp_Status = StatusNotFound, rp_Header = w, rp_Body = NoBody\<rparr>, s)
      else
        (let prfx = fst (splitPrefix (rq_Path r)); r' = strip_route m r in
         case mx_raw m prfx of
           Some rh \<Rightarrow> rh r' s
         | None \<Rightarrow>
             (case mx_handlers m prfx of
                None \<Rightarrow> (\<lparr>rp_Status = StatusNotFound, rp_Header = hdr_Set w ''Content-Type'' ''application/json'',
                         rp_Body = Json (JObject [(''error'', JString ''unknown_registry'')])\<rparr>, s)
              | Some h \<Rightarrow> h r' s)))"

section \<open>Routing\<close>

lemma splitPrefix_seg:
  assumes "CHR ''/'' \<notin> set p"
  shows "splitPrefix (CHR ''/'' # p) = (p, ''/'')" "splitPrefix (CHR ''/'' # p @ CHR ''/'' # rest) = (p, CHR ''/'' # rest)"
proof -
  have "takeWhile (\<lambda>x. x \<noteq> CHR ''/'') (p @ CHR ''/'' # rest) = p" using assms by (induction p) auto
  then show "splitPrefix (CHR ''/'' # p) = (p, ''/'')" "splitPrefix (CHR ''/'' # p @ CHR ''/'' # rest) = (p, CHR ''/'' # rest)"
    using assms by (auto simp: splitPrefix_def trim_prefix_def has_prefix_def str_index_char)
qed

text \<open>
  A request reaches the handler registered for its first path segment and no other, with that segment
  as its route prefix and the remaining path, so a link the handler writes back under
  \<open>RoutePrefix\<close> comes back to the same handler with the same path; a request that has no handler
  changes nothing and gets a 404.
\<close>

theorem requests_reach_their_registry:
  assumes "CHR ''/'' \<notin> set p" "p \<noteq> ''health''" "p \<noteq> ''.well-known''" "rq_Path r = ''/'' @ p @ ''/'' @ rest"
  shows "Mux_ServeHTTP m w r s =
      (case (case mx_raw m p of Some h \<Rightarrow> Some h | None \<Rightarrow> mx_handlers m p) of
         Some h \<Rightarrow> h (r\<lparr>rq_Path := ''/'' @ rest, rq_URI := mx_encode m r (''/'' @ rest), rq_RoutePrefix := p\<rparr>) s
       | None \<Rightarrow> (\<lparr>rp_Status = 404, rp_Header = hdr_Set w ''Content-Type'' ''application/json'',
           rp_Body = Json (JObject [(''error'', JString ''unknown_registry'')])\<rparr>, s))
    \<and> RoutePrefix (strip_route m r) = p
    \<and> rq_Path (strip_route m (r'\<lparr>rq_Path := ''/'' @ RoutePrefix (strip_route m r) @ rq_Path (strip_route m r)\<rparr>)) = rq_Path (strip_route m r)"
proof -
  have seg: "splitPrefix (rq_Path r) = (p, ''/'' @ rest)" using splitPrefix_seg(2) [OF assms(1)] assms(4) by simp
  have noise: "\<not> isBrowserNoise (rq_Path r)"
  proof
    assume "isBrowserNoise (rq_Path r)"
    then have "prefix ''.well-known/'' (p @ ''/'' @ rest)" by (simp add: isBrowserNoise_def has_prefix_iff assms(4))
    then obtain t where "p @ ''/'' @ rest = ''.well-known/'' @ t" by (auto simp: prefix_def)
    then have "takeWhile (\<lambda>x. x \<noteq> CHR ''/'') (p @ ''/'' @ rest) = ''.well-known''" by simp
    moreover have "takeWhile (\<lambda>x. x \<noteq> CHR ''/'') (p @ ''/'' @ rest) = p" using assms(1) by (induction p) auto
    ultimately show False using assms(3) by simp
  qed
  have health: "rq_Path r \<noteq> ''/health''"
    using seg splitPrefix_seg(1) [of "''health''"] assms(2) by auto
  have strip: "strip_route m r = r\<lparr>rq_Path := ''/'' @ rest, rq_URI := mx_encode m r (''/'' @ rest), rq_RoutePrefix := p\<rparr>"
    by (simp add: strip_route_def seg)
  have again: "splitPrefix (''/'' @ p @ ''/'' @ rest) = (p, ''/'' @ rest)" using seg assms(4) by simp
  show ?thesis
    using noise health seg strip again
    by (auto simp: Mux_ServeHTTP_def RoutePrefix_def strip_route_def Let_def split: option.splits)
qed

definition demo_routes :: "unit route_table" where
  "demo_routes = \<lparr>mx_handlers = [''npm'' \<mapsto> (\<lambda>r s. (http_Error no_header (rq_Path r) 200, s))], mx_raw = Map.empty, mx_encode = (\<lambda>_ p. p)\<rparr>"

definition demo_npm :: http_request where
  "demo_npm = \<lparr>rq_Method = ''GET'', rq_Path = ''/npm/left-pad'', rq_URI = ''/npm/left-pad'', rq_Header = no_header, rq_Body = None,
     rq_BodyErr = False, rq_RoutePrefix = []\<rparr>"

theorem requests_reach_their_registry_witness:
  "fst (Mux_ServeHTTP demo_routes no_header demo_npm ()) = http_Error no_header ''/left-pad'' 200"
proof -
  have "rq_Path demo_npm = ''/'' @ ''npm'' @ ''/'' @ ''left-pad''" by (simp add: demo_npm_def)
  from requests_reach_their_registry [OF _ _ _ this, of demo_routes no_header "()"] show ?thesis
    by (simp add: demo_routes_def)
qed

end
