(* ===== verification/Scanners.thy ===== *)
theory Scanners
  imports Gate Go_HTTP
begin

text \<open>
  The scanners, \<^verbatim>\<open>internal/scanner\<close>: the concurrent composition of malware engines (\<^verbatim>\<open>multi.go\<close>),
  the clamd and ICAP clients (\<^verbatim>\<open>clamav.go\<close>, \<^verbatim>\<open>icap.go\<close>, \<^verbatim>\<open>probe.go\<close>, \<^verbatim>\<open>factory.go\<close>) and the OSV client
  with its cache (\<^verbatim>\<open>osv.go\<close>). What a connection does is an argument: whether it opened, the pieces the
  file was read in, whether every write went through, the reply. An OSV answer arrives decoded.
\<close>

section \<open>Several engines\<close>

text \<open>What an engine returns: the result it points to, if any, and the error, if any.\<close>

type_synonym engine_outcome = "av_result option \<times> string option"

definition isDetection :: "av_result option \<Rightarrow> bool" where
  "isDetection res = (case res of None \<Rightarrow> False | Some r \<Rightarrow> \<not> av_Clean r \<and> \<not> av_Incomplete r)"

definition clean_result :: av_result where
  "clean_result = \<lparr>av_Clean = True, av_Signature = [], av_Engine = [], av_Incomplete = False\<rparr>"

definition multi_verdict :: "engine_outcome list \<Rightarrow> string + av_result" where
  "multi_verdict outs =
     (case find isDetection (map fst outs) of
        Some (Some r) \<Rightarrow> Inr r
      | _ \<Rightarrow>
          (case find (\<lambda>e. e \<noteq> None) (map snd outs) of
             Some (Some e) \<Rightarrow> Inl e
           | _ \<Rightarrow>
               (case find (\<lambda>res. case res of None \<Rightarrow> False | Some r \<Rightarrow> av_Incomplete r) (map fst outs) of
                  Some (Some r) \<Rightarrow> Inr r
                | _ \<Rightarrow> Inr clean_result)))"

text \<open>
  An engine: what it returns when left alone and what it returns when it notices that its context
  was cancelled. A schedule lists the engines in the order they finish, with whether each
  notices a cancellation that has happened by then; the first detection cancels.
\<close>

record engine_run =
  en_plain :: engine_outcome
  en_cancelled :: engine_outcome

fun multi_run :: "engine_run list \<Rightarrow> (nat \<times> bool) list \<Rightarrow> bool \<Rightarrow> (nat \<rightharpoonup> engine_outcome) \<Rightarrow> (nat \<rightharpoonup> engine_outcome)" where
  "multi_run engines [] cancelled outs = outs"
| "multi_run engines ((i, notices) # sched) cancelled outs =
     (let out = (if cancelled \<and> notices then en_cancelled (engines ! i) else en_plain (engines ! i));
          detects = (snd out = None \<and> isDetection (fst out))
      in multi_run engines sched (cancelled \<or> detects) (outs(i \<mapsto> out)))"

definition Multi_Scan :: "engine_run list \<Rightarrow> (nat \<times> bool) list \<Rightarrow> string + av_result" where
  "Multi_Scan engines sched =
     multi_verdict (map (\<lambda>i. the (multi_run engines sched False (\<lambda>_. None) i)) [0..<length engines])"

section \<open>Addresses and construction\<close>

definition parseScannerAddress :: "string \<Rightarrow> (string \<times> string) option" where
  "parseScannerAddress address =
     (if has_prefix address ''unix://'' then Some (''unix'', trim_prefix address ''unix://'')
      else if has_prefix address ''tcp:'' then Some (''tcp'', trim_prefix address ''tcp:'')
      else None)"

record socket_scanner =
  ss_network :: string
  ss_addr :: string
  ss_timeout :: duration
  ss_name :: string

definition scan_timeout :: "duration \<Rightarrow> duration" where
  "scan_timeout t = (if t \<le> 0 then 30 * Second else t)"

definition NewClamAVScanner :: "string \<Rightarrow> duration \<Rightarrow> socket_scanner option" where
  "NewClamAVScanner address timeout =
     (case parseScannerAddress address of
        None \<Rightarrow> None
      | Some (network, addr) \<Rightarrow> Some \<lparr>ss_network = network, ss_addr = addr, ss_timeout = scan_timeout timeout, ss_name = ''clamav''\<rparr>)"

record icap_scanner = socket_scanner +
  is_service :: string

definition NewICAPScanner :: "string \<Rightarrow> string \<Rightarrow> duration \<Rightarrow> icap_scanner option" where
  "NewICAPScanner address service timeout =
     (case parseScannerAddress address of
        None \<Rightarrow> None
      | Some (network, addr) \<Rightarrow>
          if service = [] then None
          else Some \<lparr>ss_network = network, ss_addr = addr, ss_timeout = scan_timeout timeout, ss_name = ''icap'', is_service = service\<rparr>)"

text \<open>A configured engine and the scanner built from it.\<close>

record scanner_config =
  scc_Type :: string
  scc_Name :: string
  scc_Address :: string
  scc_TimeoutSeconds :: int64
  scc_Service :: string

definition DisplayName :: "scanner_config \<Rightarrow> string" where
  "DisplayName sc =
     (if trim_space (scc_Name sc) \<noteq> [] then trim_space (scc_Name sc)
      else if scc_Type sc = ''icap'' \<and> scc_Service sc \<noteq> [] then ''icap:'' @ scc_Service sc
      else scc_Type sc)"

datatype av_scanner = ClamAVScanner socket_scanner | ICAPScanner icap_scanner

definition New_scanner :: "scanner_config \<Rightarrow> av_scanner option" where
  "New_scanner cfg =
     (let timeout = wrap64 (scc_TimeoutSeconds cfg * Second) in
      if scc_Type cfg = ''clamav'' then
        map_option (\<lambda>s. ClamAVScanner (s\<lparr>ss_name := DisplayName cfg\<rparr>)) (NewClamAVScanner (scc_Address cfg) timeout)
      else if scc_Type cfg = ''icap'' then
        map_option (\<lambda>s. ICAPScanner (s\<lparr>ss_name := DisplayName cfg\<rparr>)) (NewICAPScanner (scc_Address cfg) (scc_Service cfg) timeout)
      else None)"

section \<open>Limiting concurrent scans\<close>

text \<open>The semaphore's capacity and content, and the scans that hold a slot.\<close>

record limited_scanner =
  lim_cap :: int
  lim_sem :: nat
  lim_running :: "nat list"

definition NewLimitedScanner :: "int \<Rightarrow> limited_scanner option" where
  "NewLimitedScanner limit = (if limit \<le> 0 then None else Some \<lparr>lim_cap = limit, lim_sem = 0, lim_running = []\<rparr>)"

inductive lim_step :: "limited_scanner \<Rightarrow> limited_scanner \<Rightarrow> bool" where
  lim_start: "q \<notin> set (lim_running l) \<Longrightarrow> int (lim_sem l) < lim_cap l \<Longrightarrow>
    lim_step l (l\<lparr>lim_sem := lim_sem l + 1, lim_running := q # lim_running l\<rparr>)"
| lim_cancelled: "lim_step l l"
| lim_end: "q \<in> set (lim_running l) \<Longrightarrow>
    lim_step l (l\<lparr>lim_sem := lim_sem l - 1, lim_running := remove1 q (lim_running l)\<rparr>)"

section \<open>clamd\<close>

definition clamavChunkSize :: nat where "clamavChunkSize = 8192"

text \<open>\<open>binary.BigEndian.PutUint32\<close>.\<close>

definition be32 :: "nat \<Rightarrow> string" where
  "be32 n = map (\<lambda>k. char_of (n div 256 ^ k)) [3, 2, 1, 0]"

definition instream_frames :: "string list \<Rightarrow> string" where
  "instream_frames pieces = concat (map (\<lambda>p. be32 (length p) @ p) (filter (\<lambda>p. p \<noteq> []) pieces)) @ be32 0"

definition instream_request :: "string list \<Rightarrow> string" where
  "instream_request pieces = ''zINSTREAM'' @ [CHR 0x00] @ instream_frames pieces"

definition parseClamAVResponse :: "string \<Rightarrow> string + av_result" where
  "parseClamAVResponse resp =
     (let trimmed = trim_right_set [CHR 0x00, CHR 0x0A, CHR 0x20] resp in
      if has_suffix trimmed ''OK'' then Inr \<lparr>av_Clean = True, av_Signature = [], av_Engine = ''clamav'', av_Incomplete = False\<rparr>
      else if has_suffix trimmed ''FOUND'' then
        (let sig0 = trim_suffix trimmed '' FOUND'';
             sig1 = (case str_index '': '' sig0 of None \<Rightarrow> sig0 | Some i \<Rightarrow> drop (i + 2) sig0);
             sig = trim_space sig1
         in Inr \<lparr>av_Clean = False, av_Signature = sig, av_Engine = ''clamav'',
                 av_Incomplete = has_prefix sig ''Heuristics.Limits.Exceeded''\<rparr>)
      else Inl ''clamd error response'')"

text \<open>
  One connection: whether the file and the socket opened, the pieces the file was read in and
  whether a read failed, whether every write went through, and the reply if it arrived.
\<close>

record scan_io =
  si_opened :: bool
  si_dialled :: bool
  si_pieces :: "string list"
  si_read_failed :: bool
  si_written :: bool
  si_reply :: "string option"

definition ClamAV_Scan :: "socket_scanner \<Rightarrow> scan_io \<Rightarrow> engine_outcome" where
  "ClamAV_Scan s io =
     (if \<not> si_opened io then (None, Some ''opening artifact for scan'')
      else if \<not> si_dialled io then (None, Some ''connecting to clamd'')
      else if \<not> si_written io then (None, Some ''sending to clamd'')
      else if si_read_failed io then (None, Some ''reading artifact'')
      else case si_reply io of
        None \<Rightarrow> (None, Some ''reading clamd response'')
      | Some resp \<Rightarrow>
          (case parseClamAVResponse resp of
             Inl e \<Rightarrow> (None, Some e)
           | Inr res \<Rightarrow> (Some (res\<lparr>av_Engine := ss_name s\<rparr>), None)))"

definition clamav_pong :: "string option \<Rightarrow> bool" where
  "clamav_pong resp = (case resp of None \<Rightarrow> False | Some r \<Rightarrow> contains_str r ''PONG'')"

section \<open>ICAP\<close>

definition icapStatusCode :: "string \<Rightarrow> int64 option" where
  "icapStatusCode line =
     (case split_on CHR '' '' line of
        proto # code # _ \<Rightarrow> if has_prefix proto ''ICAP/'' then Atoi code else None
      | _ \<Rightarrow> None)"

definition threatFromInfectionHeader :: "string \<Rightarrow> string" where
  "threatFromInfectionHeader v =
     (case find (\<lambda>p. has_prefix p ''Threat='') (map trim_space (split_on CHR '';'' v)) of
        None \<Rightarrow> []
      | Some p \<Rightarrow> trim_space (drop (length ''Threat='') p))"

definition infectionSignature :: "header \<Rightarrow> string" where
  "infectionSignature h =
     (if hdr_Get h ''X-Virus-ID'' \<noteq> [] then hdr_Get h ''X-Virus-ID''
      else if hdr_Get h ''X-Infection-Found'' \<noteq> [] then
        (let v = hdr_Get h ''X-Infection-Found''; t = threatFromInfectionHeader v in if t \<noteq> [] then t else v)
      else hdr_Get h ''X-Violations-Found'')"

record icap_reply =
  ir_line :: "string option"
  ir_header :: "header option"

definition parseICAPResponse :: "icap_reply \<Rightarrow> string + av_result" where
  "parseICAPResponse r =
     (case ir_line r of
        None \<Rightarrow> Inl ''reading icap status line''
      | Some line \<Rightarrow>
          (case icapStatusCode line of
             None \<Rightarrow> Inl ''malformed icap status''
           | Some code \<Rightarrow>
               (case ir_header r of
                  None \<Rightarrow> Inl ''reading icap headers''
                | Some h \<Rightarrow>
                    if code = 204 then Inr \<lparr>av_Clean = True, av_Signature = [], av_Engine = ''icap'', av_Incomplete = False\<rparr>
                    else if code = 200 then
                      (let sig = infectionSignature h in
                       Inr \<lparr>av_Clean = False, av_Signature = (if sig = [] then ''icap.infected'' else sig), av_Engine = ''icap'',
                            av_Incomplete = False\<rparr>)
                    else Inl ''icap server returned status'')))"

definition CRLF :: string where "CRLF = [CHR 0x0D, CHR 0x0A]"

definition hex_digit :: "nat \<Rightarrow> char" where
  "hex_digit d = ''0123456789abcdef'' ! d"

fun hex_string :: "nat \<Rightarrow> string" where
  "hex_string n = (if n < 16 then [hex_digit n] else hex_string (n div 16) @ [hex_digit (n mod 16)])"

declare hex_string.simps [simp del]

definition icap_chunks :: "string list \<Rightarrow> string" where
  "icap_chunks pieces =
     concat (map (\<lambda>p. hex_string (length p) @ CRLF @ p @ CRLF) (filter (\<lambda>p. p \<noteq> []) pieces)) @ ''0'' @ CRLF @ CRLF"

definition respmod_header :: "icap_scanner \<Rightarrow> string" where
  "respmod_header s =
     ''RESPMOD icap://'' @ ss_addr s @ ''/'' @ is_service s @ '' ICAP/1.0'' @ CRLF @ ''Host: '' @ ss_addr s @ CRLF @ ''Allow: 204'' @ CRLF
     @ ''Encapsulated: res-hdr=0, res-body='' @ FormatInt (int (length (''HTTP/1.1 200 OK'' @ CRLF @ CRLF))) @ CRLF @ CRLF
     @ ''HTTP/1.1 200 OK'' @ CRLF @ CRLF"

definition ICAP_Scan :: "icap_scanner \<Rightarrow> scan_io \<Rightarrow> icap_reply \<Rightarrow> engine_outcome" where
  "ICAP_Scan s io reply =
     (if \<not> si_opened io then (None, Some ''opening artifact for scan'')
      else if \<not> si_dialled io then (None, Some ''connecting to icap server'')
      else if \<not> si_written io then (None, Some ''sending to icap server'')
      else if si_read_failed io then (None, Some ''reading artifact'')
      else case parseICAPResponse reply of
        Inl e \<Rightarrow> (None, Some e)
      | Inr res \<Rightarrow> (Some (res\<lparr>av_Engine := ss_name s\<rparr>), None))"

definition icap_request :: "icap_scanner \<Rightarrow> string list \<Rightarrow> string" where
  "icap_request s pieces = respmod_header s @ icap_chunks pieces"

definition icap_ready :: "string option \<Rightarrow> bool" where
  "icap_ready line =
     (case line of None \<Rightarrow> False | Some l \<Rightarrow> (case icapStatusCode l of None \<Rightarrow> False | Some code \<Rightarrow> 200 \<le> code \<and> code < 300))"

section \<open>OSV\<close>

definition ecosystemMap :: "(string \<times> string) list" where
  "ecosystemMap = [(''pypi'', ''PyPI''), (''npm'', ''npm''), (''maven'', ''Maven''), (''go'', ''Go''), (''rubygems'', ''RubyGems'')]"

record osv_query =
  oq_Name :: string
  oq_Ecosystem :: string
  oq_Version :: string

record osv_vulnerability =
  ov_ID :: string
  ov_Aliases :: "string list"
  ov_Summary :: string
  ov_Severity :: string

datatype osv_answer = OsvUnreachable | OsvStatus int | OsvUndecodable | OsvVulns "osv_vulnerability list"

definition osv_request :: "package_ref \<Rightarrow> osv_query" where
  "osv_request ref =
     (let eco = to_lower (Ecosystem ref) in
      \<lparr>oq_Name = Name ref,
       oq_Ecosystem = (case map_of ecosystemMap eco of None \<Rightarrow> Ecosystem ref | Some e \<Rightarrow> e),
       oq_Version = (if eco = ''rubygems'' then fst (cut CHR ''-'' (Version ref)) else Version ref)\<rparr>)"

definition canonicalID :: "string \<Rightarrow> string list \<Rightarrow> string" where
  "canonicalID primaryID aliases = (case find (\<lambda>a. has_prefix a ''CVE-'') aliases of None \<Rightarrow> primaryID | Some a \<Rightarrow> a)"

definition aliasesWithout :: "string \<Rightarrow> string list \<Rightarrow> string \<Rightarrow> string list" where
  "aliasesWithout primaryID aliases canonical = filter (\<lambda>a. a \<noteq> canonical) (primaryID # aliases)"

definition osv_finding :: "osv_vulnerability \<Rightarrow> cve_finding" where
  "osv_finding v =
     (let i = canonicalID (ov_ID v) (ov_Aliases v) in
      \<lparr>cf_ID = i, cf_Aliases = aliasesWithout (ov_ID v) (ov_Aliases v) i, cf_Severity = ParseSeverity (ov_Severity v),
       cf_Summary = ov_Summary v, cf_Score = 0\<rparr>)"

text \<open>The JSON rendering of the findings is an argument.\<close>

definition toScanResult :: "(cve_finding list \<Rightarrow> string) \<Rightarrow> osv_vulnerability list \<Rightarrow> scan_result" where
  "toScanResult marshal vulns =
     (let fs = map osv_finding vulns in \<lparr>sr_Clean = (fs = []), sr_Findings = fs, sr_ScanJSON = marshal fs\<rparr>)"

definition queryOSV :: "(cve_finding list \<Rightarrow> string) \<Rightarrow> (osv_query \<Rightarrow> osv_answer) \<Rightarrow> package_ref \<Rightarrow> string + scan_result" where
  "queryOSV marshal post ref =
     (case post (osv_request ref) of
        OsvUnreachable \<Rightarrow> Inl ''OSV request failed''
      | OsvStatus code \<Rightarrow> Inl ''OSV returned HTTP status''
      | OsvUndecodable \<Rightarrow> Inl ''decoding OSV response''
      | OsvVulns vulns \<Rightarrow> Inr (toScanResult marshal vulns))"

record osv_scanner =
  os_ttl :: duration
  os_cache :: "string \<rightharpoonup> scan_result \<times> gotime"
  os_health :: "(bool \<times> duration) option"

text \<open>The four readings of the clock: the lookup, the start and the end of the query, the store.\<close>

record osv_times =
  ot_lookup :: gotime
  ot_start :: gotime
  ot_done :: gotime
  ot_store :: gotime

definition osv_live ::
  "(cve_finding list \<Rightarrow> string) \<Rightarrow> (osv_query \<Rightarrow> osv_answer) \<Rightarrow> osv_times \<Rightarrow> osv_scanner \<Rightarrow> package_ref \<Rightarrow> (string + scan_result) \<times> osv_scanner" where
  "osv_live marshal post ot s ref =
     (let latency = time_sub (ot_done ot) (ot_start ot) in
      case queryOSV marshal post ref of
        Inl e \<Rightarrow> (Inl e, s\<lparr>os_health := Some (False, latency)\<rparr>)
      | Inr r \<Rightarrow> (Inr r, s\<lparr>os_health := Some (True, latency),
                           os_cache := (os_cache s)(Key ref \<mapsto> (r, time_add (ot_store ot) (os_ttl s)))\<rparr>))"

definition OSV_Scan ::
  "(cve_finding list \<Rightarrow> string) \<Rightarrow> (osv_query \<Rightarrow> osv_answer) \<Rightarrow> osv_times \<Rightarrow> osv_scanner \<Rightarrow> package_ref \<Rightarrow> (string + scan_result) \<times> osv_scanner" where
  "OSV_Scan marshal post ot s ref =
     (case os_cache s (Key ref) of
        Some (res, expires) \<Rightarrow> if ot_lookup ot < expires then (Inr res, s) else osv_live marshal post ot s ref
      | None \<Rightarrow> osv_live marshal post ot s ref)"

definition janitor_sweep :: "gotime \<Rightarrow> osv_scanner \<Rightarrow> osv_scanner" where
  "janitor_sweep now s =
     s\<lparr>os_cache := (\<lambda>k. case os_cache s k of None \<Rightarrow> None | Some (r, e) \<Rightarrow> if e < now then None else Some (r, e))\<rparr>"

text \<open>The passive health sample: nothing before the first query.\<close>

definition OSV_Health :: "osv_scanner \<Rightarrow> (bool \<times> duration) option" where
  "OSV_Health s = os_health s"

end
