(* ===== verification/Scanners_Correct.thy ===== *)
theory Scanners_Correct
  imports Scanners
begin

text \<open>
  What the scanners guarantee: running several engines at once fails closed whatever the
  schedule, clamd receives the bytes of the file, its verdicts are read as it wrote them, and the
  OSV cache neither invents nor outlives an answer.
\<close>

section \<open>Several engines\<close>

definition valid_schedule :: "engine_run list \<Rightarrow> (nat \<times> bool) list \<Rightarrow> bool" where
  "valid_schedule engines sched \<longleftrightarrow> distinct (map fst sched) \<and> set (map fst sched) = {0..<length engines}"

definition detects :: "engine_outcome \<Rightarrow> bool" where
  "detects out \<longleftrightarrow> snd out = None \<and> isDetection (fst out)"

lemma multi_run_other: "i \<notin> fst ` set sched \<Longrightarrow> multi_run engines sched c outs i = outs i"
  by (induction engines sched c outs rule: multi_run.induct) (auto simp: Let_def)

lemma multi_run_Cons:
  "multi_run engines ((k, n) # sched) False outs =
     multi_run engines sched (detects (en_plain (engines ! k))) (outs(k \<mapsto> en_plain (engines ! k)))"
  by (simp add: detects_def Let_def)

lemma multi_run_detects:
  assumes "distinct (map fst sched)" "i \<in> fst ` set sched" "detects (en_plain (engines ! i))"
  shows "\<exists>j\<in>fst ` set sched. \<exists>out. multi_run engines sched False outs j = Some out \<and> detects out"
  using assms
proof (induction sched arbitrary: outs)
  case (Cons p sched)
  obtain k n where p: "p = (k, n)" by (cases p)
  let ?out = "en_plain (engines ! k)"
  have run: "multi_run engines (p # sched) False outs = multi_run engines sched (detects ?out) (outs(k \<mapsto> ?out))"
    by (simp only: p multi_run_Cons)
  show ?case
  proof (cases "detects ?out")
    case True
    have "multi_run engines (p # sched) False outs k = Some ?out"
      unfolding run using Cons.prems(1) p by (subst multi_run_other) auto
    with True p show ?thesis by (intro bexI [of _ k] exI [of _ ?out]) (auto simp del: multi_run.simps)
  next
    case False
    with Cons.prems p have "i \<in> fst ` set sched" by auto
    moreover have "distinct (map fst sched)" using Cons.prems(1) by simp
    ultimately obtain j out where "j \<in> fst ` set sched" "multi_run engines sched False (outs(k \<mapsto> ?out)) j = Some out" "detects out"
      using Cons.IH [of "outs(k \<mapsto> ?out)"] Cons.prems(3) by blast
    then show ?thesis unfolding run using False by (intro bexI [of _ j] exI [of _ out]) auto
  qed
qed simp

lemma multi_run_undisturbed:
  assumes "distinct (map fst sched)" "\<forall>i\<in>fst ` set sched. \<not> detects (en_plain (engines ! i))" "i \<in> fst ` set sched"
  shows "multi_run engines sched False outs i = Some (en_plain (engines ! i))"
  using assms
proof (induction sched arbitrary: outs)
  case (Cons p sched)
  obtain k n where p: "p = (k, n)" by (cases p)
  let ?out = "en_plain (engines ! k)"
  have run: "multi_run engines (p # sched) False outs = multi_run engines sched False (outs(k \<mapsto> ?out))"
    using Cons.prems(2) unfolding p multi_run_Cons by simp
  show ?case
  proof (cases "i \<in> fst ` set sched")
    case True
    have "multi_run engines sched False (outs(k \<mapsto> ?out)) i = Some (en_plain (engines ! i))"
      by (rule Cons.IH) (use Cons.prems True in auto)
    then show ?thesis by (simp only: run)
  next
    case False
    with Cons.prems p have "i = k" by auto
    then show ?thesis unfolding run using False by (subst multi_run_other) auto
  qed
qed simp

lemma multi_verdict_detection:
  assumes "out \<in> set outs" "isDetection (fst out)"
  shows "\<exists>r. multi_verdict outs = Inr r \<and> isDetection (Some r)"
proof -
  obtain d where d: "find isDetection (map fst outs) = Some d"
    using assms by (cases "find isDetection (map fst outs)") (auto simp: find_None_iff)
  with find_Some_mem [OF d] obtain r where "d = Some r" "isDetection (Some r)" by (cases d) (auto simp: isDetection_def)
  with d show ?thesis by (simp add: multi_verdict_def)
qed

lemma multi_verdict_clean:
  assumes "multi_verdict outs = Inr r" "av_Clean r" "\<not> av_Incomplete r" "out \<in> set outs"
  shows "snd out = None \<and> (\<forall>res. fst out = Some res \<longrightarrow> av_Clean res \<and> \<not> av_Incomplete res)"
proof -
  have nd: "\<not> isDetection (fst o')" if "o' \<in> set outs" for o'
    using multi_verdict_detection [OF that] assms(1,2) by (auto simp: isDetection_def)
  then have 1: "find isDetection (map fst outs) = None" by (auto simp: find_None_iff)
  have 2: "find (\<lambda>e. e \<noteq> None) (map snd outs) = None"
  proof (rule ccontr)
    assume "\<not> ?thesis"
    then obtain e where "find (\<lambda>e. e \<noteq> None) (map snd outs) = Some (Some e)" using find_Some_mem by fastforce
    with 1 assms(1) show False by (simp add: multi_verdict_def)
  qed
  have 3: "find (\<lambda>res. case res of None \<Rightarrow> False | Some r \<Rightarrow> av_Incomplete r) (map fst outs) = None"
  proof (rule ccontr)
    assume "\<not> ?thesis"
    then obtain d where d: "find (\<lambda>res. case res of None \<Rightarrow> False | Some r \<Rightarrow> av_Incomplete r) (map fst outs) = Some d" by blast
    then obtain x where "d = Some x" "av_Incomplete x" using find_Some_mem [OF d] by (cases d) auto
    with 1 2 d assms(1,3) show False by (simp add: multi_verdict_def)
  qed
  from 2 3 nd [OF assms(4)] assms(4) show ?thesis by (fastforce simp: find_None_iff isDetection_def)
qed

lemma find_nth_first:
  assumes "i < length xs" "P (xs ! i)" "\<forall>j<i. \<not> P (xs ! j)"
  shows "find P xs = Some (xs ! i)"
  using assms by (auto simp: find_Some_iff)

lemma multi_verdict_error:
  assumes "\<forall>out\<in>set outs. \<not> isDetection (fst out)" "i < length outs" "snd (outs ! i) = Some err" "\<forall>j<i. snd (outs ! j) = None"
  shows "multi_verdict outs = Inl err"
proof -
  have "find isDetection (map fst outs) = None" using assms(1) by (auto simp: find_None_iff)
  moreover have "find (\<lambda>e. e \<noteq> None) (map snd outs) = Some (map snd outs ! i)"
    by (rule find_nth_first) (use assms(2-4) in auto)
  ultimately show ?thesis using assms(2,3) by (simp add: multi_verdict_def)
qed

lemma multi_verdict_incomplete:
  assumes "\<forall>out\<in>set outs. \<not> isDetection (fst out) \<and> snd out = None" "i < length outs" "fst (outs ! i) = Some r" "av_Incomplete r"
    and "\<forall>j<i. \<forall>r'. fst (outs ! j) = Some r' \<longrightarrow> \<not> av_Incomplete r'"
  shows "multi_verdict outs = Inr r"
proof -
  have "find isDetection (map fst outs) = None" "find (\<lambda>e. e \<noteq> None) (map snd outs) = None"
    using assms(1) by (auto simp: find_None_iff)
  moreover have "find (\<lambda>res. case res of None \<Rightarrow> False | Some r \<Rightarrow> av_Incomplete r) (map fst outs) = Some (map fst outs ! i)"
    by (rule find_nth_first) (use assms(2-5) in \<open>auto split: option.splits\<close>)
  ultimately show ?thesis using assms(2,3) by (simp add: multi_verdict_def)
qed

lemma multi_scan_detection:
  assumes "valid_schedule engines sched" "\<exists>e\<in>set engines. detects (en_plain e)"
  shows "\<exists>r. Multi_Scan engines sched = Inr r \<and> isDetection (Some r)"
proof -
  let ?run = "multi_run engines sched False (\<lambda>_. None)"
  have s: "distinct (map fst sched)" "fst ` set sched = {0..<length engines}" using assms(1) by (auto simp: valid_schedule_def)
  from assms(2) obtain i where "i < length engines" "detects (en_plain (engines ! i))" by (metis in_set_conv_nth)
  with multi_run_detects [OF s(1), of i engines "\<lambda>_. None"] s(2) obtain j out where
    j: "j < length engines" "?run j = Some out" "detects out" by auto
  then have "out \<in> set (map (\<lambda>i. the (?run i)) [0..<length engines])" by force
  with multi_verdict_detection [OF this] j(3) show ?thesis by (simp add: Multi_Scan_def detects_def)
qed

lemma multi_scan_undisturbed:
  assumes "valid_schedule engines sched" "\<forall>e\<in>set engines. \<not> detects (en_plain e)"
  shows "Multi_Scan engines sched = multi_verdict (map en_plain engines)"
proof -
  let ?run = "multi_run engines sched False (\<lambda>_. None)"
  have s: "distinct (map fst sched)" "fst ` set sched = {0..<length engines}" using assms(1) by (auto simp: valid_schedule_def)
  have "map (\<lambda>i. the (?run i)) [0..<length engines] = map (\<lambda>i. en_plain (engines ! i)) [0..<length engines]"
    using multi_run_undisturbed [OF s(1), of engines _ "\<lambda>_. None"] assms(2) s(2) by (intro map_cong) auto
  also have "\<dots> = map en_plain engines" by (metis map_nth map_map comp_apply map_cong)
  finally show ?thesis by (simp add: Multi_Scan_def)
qed

definition undetected :: "engine_run list \<Rightarrow> bool" where
  "undetected engines \<longleftrightarrow> (\<forall>e\<in>set engines. \<not> isDetection (fst (en_plain e)))"

text \<open>C14: However the engines are scheduled and whichever of them give up when one detects: if some engine,
  left alone, detects malware, the verdict is a detection; if none does and some fail, the scan is the error of the first
  that fails; if none detects and none fails but some give up on the file, the verdict is the incomplete one
  of the first that does; and the verdict is clean and complete only if every engine, left alone, finds
  the file clean in full and none fails.
\<close>

theorem multi_scan_fails_closed:
  assumes "valid_schedule engines sched"
  shows "((\<exists>e\<in>set engines. detects (en_plain e)) \<longrightarrow> (\<exists>r. Multi_Scan engines sched = Inr r \<and> isDetection (Some r)))
    \<and> (\<forall>i err. undetected engines \<and> i < length engines \<and> snd (en_plain (engines ! i)) = Some err
         \<and> (\<forall>j<i. snd (en_plain (engines ! j)) = None) \<longrightarrow> Multi_Scan engines sched = Inl err)
    \<and> (\<forall>i r. undetected engines \<and> (\<forall>e\<in>set engines. snd (en_plain e) = None) \<and> i < length engines
         \<and> fst (en_plain (engines ! i)) = Some r \<and> av_Incomplete r
         \<and> (\<forall>j<i. \<forall>r'. fst (en_plain (engines ! j)) = Some r' \<longrightarrow> \<not> av_Incomplete r') \<longrightarrow> Multi_Scan engines sched = Inr r)
    \<and> (\<forall>r e. Multi_Scan engines sched = Inr r \<and> av_Clean r \<and> \<not> av_Incomplete r \<and> e \<in> set engines \<longrightarrow>
         snd (en_plain e) = None \<and> (\<forall>res. fst (en_plain e) = Some res \<longrightarrow> av_Clean res \<and> \<not> av_Incomplete res))"
proof (intro conjI allI impI)
  assume "\<exists>e\<in>set engines. detects (en_plain e)"
  then show "\<exists>r. Multi_Scan engines sched = Inr r \<and> isDetection (Some r)" by (rule multi_scan_detection [OF assms])
next
  fix i err
  assume a: "undetected engines \<and> i < length engines \<and> snd (en_plain (engines ! i)) = Some err \<and> (\<forall>j<i. snd (en_plain (engines ! j)) = None)"
  then have "Multi_Scan engines sched = multi_verdict (map en_plain engines)"
    by (intro multi_scan_undisturbed [OF assms]) (auto simp: undetected_def detects_def)
  with multi_verdict_error [of "map en_plain engines" i err] a show "Multi_Scan engines sched = Inl err" by (auto simp: undetected_def)
next
  fix i r
  assume a: "undetected engines \<and> (\<forall>e\<in>set engines. snd (en_plain e) = None) \<and> i < length engines
    \<and> fst (en_plain (engines ! i)) = Some r \<and> av_Incomplete r
    \<and> (\<forall>j<i. \<forall>r'. fst (en_plain (engines ! j)) = Some r' \<longrightarrow> \<not> av_Incomplete r')"
  then have "Multi_Scan engines sched = multi_verdict (map en_plain engines)"
    by (intro multi_scan_undisturbed [OF assms]) (auto simp: undetected_def detects_def)
  with multi_verdict_incomplete [of "map en_plain engines" i r] a show "Multi_Scan engines sched = Inr r" by (auto simp: undetected_def)
next
  fix r e
  assume a: "Multi_Scan engines sched = Inr r \<and> av_Clean r \<and> \<not> av_Incomplete r \<and> e \<in> set engines"
  then have "\<forall>e\<in>set engines. \<not> detects (en_plain e)" using multi_scan_detection [OF assms] by (auto simp: isDetection_def)
  with multi_scan_undisturbed [OF assms] a have "multi_verdict (map en_plain engines) = Inr r" by simp
  from multi_verdict_clean [OF this, of "en_plain e"] a
  show "snd (en_plain e) = None" "\<And>res. fst (en_plain e) = Some res \<Longrightarrow> av_Clean res"
    "\<And>res. fst (en_plain e) = Some res \<Longrightarrow> \<not> av_Incomplete res" by auto
qed

definition demo_engine :: "av_result \<Rightarrow> engine_run" where
  "demo_engine r = \<lparr>en_plain = (Some r, None), en_cancelled = (None, Some ''context canceled'')\<rparr>"

definition demo_infected :: av_result where
  "demo_infected = \<lparr>av_Clean = False, av_Signature = ''Eicar'', av_Engine = ''clamav'', av_Incomplete = False\<rparr>"

definition demo_failed :: engine_run where
  "demo_failed = \<lparr>en_plain = (None, Some ''refused''), en_cancelled = (None, Some ''refused'')\<rparr>"

text \<open>A detection by one of two engines; an engine that fails after one that gave up.\<close>

theorem multi_scan_fails_closed_witness:
  "(\<exists>r. Multi_Scan [demo_engine clean_result, demo_engine demo_infected] [(1, True), (0, True)] = Inr r \<and> isDetection (Some r))
   \<and> Multi_Scan [demo_engine (clean_result\<lparr>av_Incomplete := True\<rparr>), demo_failed] [(1, True), (0, True)] = Inl ''refused''"
proof
  have "valid_schedule [demo_engine clean_result, demo_engine demo_infected] [(1, True), (0, True)]"
    by (auto simp: valid_schedule_def)
  moreover have "detects (en_plain (demo_engine demo_infected))" by code_simp
  ultimately show "\<exists>r. Multi_Scan [demo_engine clean_result, demo_engine demo_infected] [(1, True), (0, True)] = Inr r \<and> isDetection (Some r)"
    using multi_scan_fails_closed [of "[demo_engine clean_result, demo_engine demo_infected]" "[(1, True), (0, True)]", THEN conjunct1]
    by (meson list.set_intros(1,2))
  let ?es = "[demo_engine (clean_result\<lparr>av_Incomplete := True\<rparr>), demo_failed]"
  have "valid_schedule ?es [(1, True), (0, True)]" by (auto simp: valid_schedule_def)
  moreover have "undetected ?es" by (simp add: undetected_def demo_engine_def demo_failed_def isDetection_def)
  ultimately show "Multi_Scan ?es [(1, True), (0, True)] = Inl ''refused''"
    using multi_scan_fails_closed [of ?es "[(1, True), (0, True)]", THEN conjunct2, THEN conjunct1, rule_format, of 1 "''refused''"]
    by (simp add: demo_failed_def demo_engine_def)
qed

section \<open>The limit on concurrent scans\<close>

text \<open>
  From a fresh limiter, however scans start, give up and end: never more than the limit run, each
  of them once, and the semaphore counts exactly the running ones, so a finished scan frees its
  slot and a waiter is admitted whenever fewer run.
\<close>

theorem scans_are_limited:
  assumes "NewLimitedScanner limit = Some l0" "lim_step\<^sup>*\<^sup>* l0 l"
  shows "int (length (lim_running l)) \<le> limit \<and> distinct (lim_running l) \<and> lim_sem l = length (lim_running l)
    \<and> (int (length (lim_running l)) < limit \<longrightarrow> (\<forall>q. q \<notin> set (lim_running l) \<longrightarrow> (\<exists>l'. lim_step l l' \<and> q \<in> set (lim_running l'))))"
proof -
  have "lim_cap l = limit \<and> 0 < limit \<and> int (length (lim_running l)) \<le> limit \<and> distinct (lim_running l) \<and> lim_sem l = length (lim_running l)"
    using assms(2)
  proof (induction rule: rtranclp_induct)
    case base
    then show ?case using assms(1) by (auto simp: NewLimitedScanner_def split: if_splits)
  next
    case (step y z)
    from step(2,3) show ?case
      by (cases rule: lim_step.cases) (auto simp: length_remove1 distinct_remove1 intro: le_trans)
  qed
  then show ?thesis using lim_start [of _ l] by fastforce
qed

theorem scans_are_limited_witness:
  "\<exists>l. lim_step\<^sup>*\<^sup>* \<lparr>lim_cap = 1, lim_sem = 0, lim_running = []\<rparr> l \<and> length (lim_running l) = 1 \<and> int (length (lim_running l)) \<le> 1"
proof -
  let ?start = "\<lparr>lim_cap = 1, lim_sem = 0, lim_running = []\<rparr>" and ?busy = "\<lparr>lim_cap = 1, lim_sem = 1, lim_running = [7]\<rparr>"
  have "lim_step ?start ?busy" using lim_start [of 7 ?start] by simp
  then have run: "lim_step\<^sup>*\<^sup>* ?start ?busy" by (rule r_into_rtranclp)
  have "NewLimitedScanner 1 = Some ?start" by (simp add: NewLimitedScanner_def)
  from run scans_are_limited [OF this run] show ?thesis by (intro exI [of _ ?busy] conjI) simp_all
qed

section \<open>The INSTREAM protocol\<close>

definition be32_value :: "string \<Rightarrow> nat" where
  "be32_value s = foldl (\<lambda>n c. 256 * n + of_char c) 0 s"

lemma be32_length [simp]: "length (be32 n) = 4"
  by (simp add: be32_def)

lemma be32_value_be32: "n < 65536 \<Longrightarrow> be32_value (be32 n) = n"
proof -
  assume n: "n < 65536"
  then have "n div 16777216 = 0" "n div 65536 = 0" "n div 256 < 256" by auto
  then have "be32_value (be32 n) = 256 * (n div 256) + n mod 256" by (simp add: be32_value_def be32_def of_char_of)
  then show ?thesis by simp
qed

text \<open>The protocol from clamd's side: chunks with their lengths up to one of length zero.\<close>

function instream_decode :: "string \<Rightarrow> string option" where
  "instream_decode s =
     (if length s < 4 then None
      else let n = be32_value (take 4 s); rest = drop 4 s in
           if n = 0 then (if rest = [] then Some [] else None)
           else if length rest < n then None
           else map_option ((@) (take n rest)) (instream_decode (drop n rest)))"
  by auto
termination by (relation "measure length") auto

declare instream_decode.simps [simp del]

lemma instream_decode_chunk:
  assumes "p \<noteq> []" "length p < 65536"
  shows "instream_decode (be32 (length p) @ p @ s) = map_option ((@) p) (instream_decode s)"
proof -
  have "be32_value (take 4 (be32 (length p) @ p @ s)) = length p"
    using assms(2) by (simp add: be32_value_be32)
  then show ?thesis using assms(1) by (subst instream_decode.simps) (simp add: Let_def del: instream_decode.simps)
qed

text \<open>clamd receives exactly the bytes of the file, however the reads divide it.\<close>

theorem clamd_receives_the_file:
  assumes "\<forall>p\<in>set pieces. length p \<le> clamavChunkSize"
  shows "instream_decode (instream_frames pieces) = Some (concat pieces)"
  using assms
proof (induction pieces)
  case Nil
  have "instream_decode (be32 0) = Some []"
    using be32_value_be32 [of 0] by (subst instream_decode.simps) simp
  then show ?case by (simp add: instream_frames_def)
next
  case (Cons p pieces)
  then have IH: "instream_decode (instream_frames pieces) = Some (concat pieces)" by simp
  show ?case
  proof (cases "p = []")
    case False
    have "length p < 65536" using Cons.prems by (simp add: clamavChunkSize_def)
    with False IH show ?thesis
      using instream_decode_chunk [of p "instream_frames pieces"] by (simp add: instream_frames_def)
  qed (use IH in \<open>simp add: instream_frames_def\<close>)
qed

theorem clamd_receives_the_file_witness: "instream_decode (instream_frames [''ab'', [], ''c'']) = Some ''abc''"
  using clamd_receives_the_file [of "[''ab'', [], ''c'']"] by (simp add: clamavChunkSize_def)

lemma trim_right_set_last: "c \<notin> set cutset \<Longrightarrow> trim_right_set cutset (s @ [c]) = s @ [c]"
  by (simp add: trim_right_set_def)

lemma trim_right_set_snoc: "c \<in> set cutset \<Longrightarrow> trim_right_set cutset (s @ [c]) = trim_right_set cutset s"
  by (simp add: trim_right_set_def)

text \<open>
  A reply that names a signature is an infection with that signature, or an incomplete scan when
  the signature reports exceeded limits; it is never read as clean.
\<close>

theorem clamd_detection_is_read:
  assumes "trim_space sig = sig"
  shows "parseClamAVResponse (''stream: '' @ sig @ '' FOUND'' @ [CHR 0x00]) =
    Inr \<lparr>av_Clean = False, av_Signature = sig, av_Engine = ''clamav'', av_Incomplete = has_prefix sig ''Heuristics.Limits.Exceeded''\<rparr>"
proof -
  let ?t = "''stream: '' @ sig @ '' FOUND''"
  have t: "trim_right_set [CHR 0x00, CHR 0x0A, CHR 0x20] (?t @ [CHR 0x00]) = ?t"
    using trim_right_set_snoc [of "CHR 0x00" "[CHR 0x00, CHR 0x0A, CHR 0x20]" ?t]
      trim_right_set_last [of "CHR ''D''" "[CHR 0x00, CHR 0x0A, CHR 0x20]" "''stream: '' @ sig @ '' FOUN''"] by simp
  have "\<not> has_suffix ?t ''OK''" "has_suffix ?t ''FOUND''" by (simp_all add: has_suffix_def has_prefix_def)
  moreover have "trim_suffix ?t '' FOUND'' = ''stream: '' @ sig" by (simp add: trim_suffix_def has_suffix_def has_prefix_def)
  moreover have "str_index '': '' (''stream: '' @ sig) = Some 6" by (simp add: has_prefix_def)
  ultimately show ?thesis using t assms unfolding parseClamAVResponse_def Let_def by simp
qed

theorem clamd_detection_is_read_witness:
  "parseClamAVResponse (''stream: '' @ ''Win.Test.EICAR_HDB-1'' @ '' FOUND'' @ [CHR 0x00]) =
    Inr \<lparr>av_Clean = False, av_Signature = ''Win.Test.EICAR_HDB-1'', av_Engine = ''clamav'', av_Incomplete = False\<rparr>"
proof -
  have "trim_space ''Win.Test.EICAR_HDB-1'' = ''Win.Test.EICAR_HDB-1''" by code_simp
  from clamd_detection_is_read [OF this] show ?thesis by (simp add: has_prefix_def)
qed

text \<open>Any reply that ends in OK counts as clean, not only the reply the protocol defines.\<close>

theorem clamd_ok_suffix_is_clean:
  "parseClamAVResponse ''INSTREAM: lookup NOT OK'' =
     Inr \<lparr>av_Clean = True, av_Signature = [], av_Engine = ''clamav'', av_Incomplete = False\<rparr>"
  by code_simp

section \<open>OSV\<close>

lemma canonicalID_mem: "canonicalID p aliases \<in> set (p # aliases)"
  using find_Some_mem [of "\<lambda>a. has_prefix a ''CVE-''" aliases] by (auto simp: canonicalID_def split: option.splits)

lemma osv_finding_ids: "set (cf_ID (osv_finding v) # cf_Aliases (osv_finding v)) = set (ov_ID v # ov_Aliases v)"
  using canonicalID_mem [of "ov_ID v" "ov_Aliases v"] by (auto simp: osv_finding_def aliasesWithout_def Let_def)

text \<open>
  A scan result keeps every advisory and every identifier OSV gave it, is clean exactly when
  there is none, and names an advisory by its CVE number when it has one.
\<close>

theorem osv_findings_complete:
  assumes "queryOSV marshal post ref = Inr r"
  shows "\<exists>vulns. post (osv_request ref) = OsvVulns vulns \<and> (sr_Clean r \<longleftrightarrow> vulns = []) \<and> length (sr_Findings r) = length vulns
    \<and> (\<forall>i < length vulns. let f = sr_Findings r ! i; v = vulns ! i in
         set (cf_ID f # cf_Aliases f) = set (ov_ID v # ov_Aliases v) \<and> cf_Severity f = ParseSeverity (ov_Severity v)
         \<and> ((\<exists>a\<in>set (ov_Aliases v). has_prefix a ''CVE-'') \<longrightarrow> has_prefix (cf_ID f) ''CVE-''))"
proof -
  obtain vulns where v: "post (osv_request ref) = OsvVulns vulns" "r = toScanResult marshal vulns"
    using assms by (auto simp: queryOSV_def split: osv_answer.splits)
  have cve: "has_prefix (cf_ID (osv_finding v)) ''CVE-''" if a: "a \<in> set (ov_Aliases v)" "has_prefix a ''CVE-''" for v a
  proof -
    obtain c where "find (\<lambda>a. has_prefix a ''CVE-'') (ov_Aliases v) = Some c"
      using a by (cases "find (\<lambda>a. has_prefix a ''CVE-'') (ov_Aliases v)") (auto simp: find_None_iff)
    with find_Some_mem [OF this] show ?thesis by (simp add: osv_finding_def canonicalID_def Let_def)
  qed
  have "cf_Severity (osv_finding v) = ParseSeverity (ov_Severity v)" for v by (simp add: osv_finding_def Let_def)
  with v osv_finding_ids cve show ?thesis by (intro exI [of _ vulns]) (auto simp: toScanResult_def Let_def)
qed

definition demo_vuln :: osv_vulnerability where
  "demo_vuln = \<lparr>ov_ID = ''GHSA-x'', ov_Aliases = [''PYSEC-1'', ''CVE-2024-1''], ov_Summary = ''s'', ov_Severity = ''HIGH''\<rparr>"

definition demo_package :: package_ref where
  "demo_package = \<lparr>Ecosystem = ''rubygems'', Name = ''nokogiri'', Version = ''1.15.0-x86_64-linux'', Classifier = []\<rparr>"

theorem osv_findings_complete_witness:
  "sr_Clean (toScanResult (\<lambda>_. []) [demo_vuln]) \<longleftrightarrow> [demo_vuln] = []"
proof -
  have "queryOSV (\<lambda>_. []) (\<lambda>q. if oq_Version q = ''1.15.0'' then OsvVulns [demo_vuln] else OsvUnreachable) demo_package = Inr (toScanResult (\<lambda>_. []) [demo_vuln])"
    by code_simp
  from osv_findings_complete [OF this] show ?thesis by (auto split: if_splits)
qed

text \<open>The answers in force at a time.\<close>

definition osv_view :: "osv_scanner \<Rightarrow> gotime \<Rightarrow> string \<Rightarrow> scan_result option" where
  "osv_view s t k = (case os_cache s k of None \<Rightarrow> None | Some (r, e) \<Rightarrow> if t < e then Some r else None)"

lemma OSV_Scan_view:
  "OSV_Scan marshal post ot s ref =
     (case osv_view s (ot_lookup ot) (Key ref) of Some r \<Rightarrow> (Inr r, s) | None \<Rightarrow> osv_live marshal post ot s ref)"
  by (auto simp: OSV_Scan_def osv_view_def split: option.splits)

lemma osv_view_sweep: "now \<le> t \<Longrightarrow> osv_view (janitor_sweep now s) t k = osv_view s t k"
  by (auto simp: osv_view_def janitor_sweep_def split: option.splits)

lemma osv_live_view:
  "fst (osv_live marshal post ot s ref) = queryOSV marshal post ref"
  "osv_view (snd (osv_live marshal post ot s ref)) t k =
     (case queryOSV marshal post ref of
        Inr r \<Rightarrow> if k = Key ref then (if t < time_add (ot_store ot) (os_ttl s) then Some r else None) else osv_view s t k
      | Inl _ \<Rightarrow> osv_view s t k)"
  by (auto simp: osv_live_def osv_view_def Let_def split: sum.splits)

text \<open>
  The cache of answers is transparent: a sweep of expired entries changes no later answer, an answer
  is reused for its time to live and not beyond, and a failed query is neither cached nor does it
  drop what is cached.
\<close>

theorem osv_cache_transparent:
  "(now \<le> ot_lookup ot \<longrightarrow> fst (OSV_Scan marshal post ot (janitor_sweep now s) ref) = fst (OSV_Scan marshal post ot s ref))
   \<and> (osv_view s (ot_lookup ot) (Key ref) = None \<and> queryOSV marshal post ref = Inr r \<longrightarrow>
        (\<forall>post' ot'. fst (OSV_Scan marshal post' ot' (snd (OSV_Scan marshal post ot s ref)) ref) =
           (if ot_lookup ot' < time_add (ot_store ot) (os_ttl s) then Inr r else queryOSV marshal post' ref)))
   \<and> (fst (OSV_Scan marshal post ot s ref) = Inl e \<longrightarrow> osv_view (snd (OSV_Scan marshal post ot s ref)) = osv_view s)"
proof (intro conjI impI allI)
  assume "now \<le> ot_lookup ot"
  then show "fst (OSV_Scan marshal post ot (janitor_sweep now s) ref) = fst (OSV_Scan marshal post ot s ref)"
    by (auto simp: OSV_Scan_view osv_view_sweep osv_live_view split: option.splits)
next
  fix post' ot'
  assume "osv_view s (ot_lookup ot) (Key ref) = None \<and> queryOSV marshal post ref = Inr r"
  then show "fst (OSV_Scan marshal post' ot' (snd (OSV_Scan marshal post ot s ref)) ref) =
      (if ot_lookup ot' < time_add (ot_store ot) (os_ttl s) then Inr r else queryOSV marshal post' ref)"
    by (simp add: OSV_Scan_view osv_live_view)
next
  assume "fst (OSV_Scan marshal post ot s ref) = Inl e"
  then show "osv_view (snd (OSV_Scan marshal post ot s ref)) = osv_view s"
    by (auto simp: OSV_Scan_view osv_live_view fun_eq_iff split: option.splits)
qed

definition demo_osv :: osv_scanner where
  "demo_osv = \<lparr>os_ttl = 10, os_cache = (\<lambda>_. None), os_health = None\<rparr>"

theorem osv_cache_transparent_witness:
  "fst (OSV_Scan (\<lambda>_. []) (\<lambda>_. OsvUnreachable) \<lparr>ot_lookup = 12, ot_start = 12, ot_done = 12, ot_store = 12\<rparr>
     (snd (OSV_Scan (\<lambda>_. []) (\<lambda>_. OsvVulns [demo_vuln]) \<lparr>ot_lookup = 0, ot_start = 0, ot_done = 3, ot_store = 3\<rparr> demo_osv demo_package)) demo_package)
   = Inr (toScanResult (\<lambda>_. []) [demo_vuln])"
proof -
  have "osv_view demo_osv 0 (Key demo_package) = None" by (simp add: osv_view_def demo_osv_def)
  moreover have "queryOSV (\<lambda>_. []) (\<lambda>_. OsvVulns [demo_vuln]) demo_package = Inr (toScanResult (\<lambda>_. []) [demo_vuln])" by (simp add: queryOSV_def)
  ultimately show ?thesis
    using osv_cache_transparent [of 0 "\<lparr>ot_lookup = 0, ot_start = 0, ot_done = 3, ot_store = 3\<rparr>" "\<lambda>_. []" "\<lambda>_. OsvVulns [demo_vuln]" demo_osv demo_package
        "toScanResult (\<lambda>_. []) [demo_vuln]"] by (simp add: time_add_def demo_osv_def)
qed

end
