(* ===== verification/Docker_Properties.thy ===== *)
theory Docker_Properties
  imports Docker_Correct Proxy_Mux Scanners_Correct
begin

text \<open>
  The guarantees of the Docker proxy on the local cache, with a small registry on which they are
  exercised, and the memories of the handler: both forget their oldest entries and never exceed their bound.
\<close>

section \<open>A small registry\<close>

text \<open>One image \<open>app:t\<close> with a configuration and a layer; the malware engine flags the layer \<open>bad\<close>.\<close>

definition demo_codecs :: docker_codecs where
  "demo_codecs = \<lparr>dc_children = (\<lambda>b. if b = ''INDEX'' then Some [''sha256:m''] else None),
     dc_layerTypes = (\<lambda>b. Some [''tar'']), dc_attestation = (\<lambda>_. None),
     dc_image = (\<lambda>b. Some (''sha256:c'', [''sha256:l''])), dc_mediaType = (\<lambda>_. None), dc_created = (\<lambda>_ _. Some []),
     dc_token = (\<lambda>_ _. None), dc_RFC3339 = (\<lambda>_. None), dc_sha256 = (\<lambda>b. b)\<rparr>"



definition demo_gate :: "local_cache image_gate" where
  "demo_gate = \<lparr>ig_upstreams = [''https://r''], ig_scanner = (\<lambda>_. Inr []),
     ig_av = Some (\<lambda>p b. Inr \<lparr>av_Clean = (b \<noteq> Some ''bad'' \<and> b \<noteq> Some ''INDEX''), av_Signature = [], av_Engine = [], av_Incomplete = False\<rparr>),
     ig_filter = (\<lambda>now ref meta. \<lparr>fr_Allowed = True, fr_Reason = [], fr_PublishedAt = 0, fr_BlockUntil = 0\<rparr>),
     ig_policy = None, ig_store = lc_image_ops (\<lambda>s. s) good_io, ig_codecs = demo_codecs, ig_maxLayerBytes = 100,
     ig_recheckTTL = Hour\<rparr>"

definition demo_genv :: "gotime \<Rightarrow> services \<Rightarrow> gate_env" where
  "demo_genv t sv = \<lparr>ge_time = (\<lambda>_. t), ge_manifestNet = sv, ge_configNet = sv, ge_layerNet = (\<lambda>_. sv),
     ge_manifestTemp = Inr ''/tmp/m'', ge_manifestWrite = None, ge_flight = None\<rparr>"

definition demo_docker :: "local_cache docker_config" where
  "demo_docker = \<lparr>dk_gate = demo_gate, dk_Recorder = True, dk_Throttles = None, dk_ClientWait = 0\<rparr>"

definition demo_denv :: "gotime \<Rightarrow> services \<Rightarrow> docker_env" where
  "demo_denv t sv = \<lparr>de_RequestID = ''id'', de_gate = demo_genv t sv, de_inTime = True, de_eventTime = t, de_latencyMS = 0,
     de_lateTime = t, de_lateLatencyMS = 0, de_taken = None, de_statOK = True, de_blobTime = t, de_attestNet = sv, de_attestFlight = None\<rparr>"

definition demo_get :: "string \<Rightarrow> http_request" where
  "demo_get path = \<lparr>rq_Method = ''GET'', rq_Path = path, rq_URI = path, rq_Header = no_header, rq_Body = None, rq_BodyErr = False,
     rq_RoutePrefix = ''v2''\<rparr>"

definition demo_state :: "local_cache docker_state" where
  "demo_state = docker_New sample_lc"






lemma demo_parts [simp]: "dk_gate demo_docker = demo_gate" "ig_store demo_gate = lc_image_ops (\<lambda>s. s) good_io"
  "gs_cache demo_state = sample_lc" "de_gate (demo_denv t sv) = demo_genv t sv" "rq_Path (demo_get path) = path"
  "ig_codecs demo_gate = demo_codecs" "ge_flight (demo_genv t sv) = None"
  by (simp_all add: demo_docker_def demo_gate_def demo_state_def docker_New_def demo_denv_def demo_get_def demo_genv_def)

section \<open>Blobs\<close>






section \<open>Images\<close>






section \<open>Bounded memories\<close>

text \<open>
  The contract of the handler's two memories: an invariant under which the remembered keys are distinct, a
  bound that stays, and what adding a key does: a known key changes nothing, a new one comes last and displaces the
  oldest key of a full memory.
\<close>

locale bounded_memory =
  fixes wf_mem :: "'m \<Rightarrow> bool" and bound :: "'m \<Rightarrow> int" and keys :: "'m \<Rightarrow> string list" and remember :: "string \<Rightarrow> 'm \<Rightarrow> 'm"
  assumes wf_distinct: "wf_mem m \<Longrightarrow> distinct (keys m)"
    and add_wf: "wf_mem m \<Longrightarrow> 0 < bound m \<Longrightarrow> wf_mem (remember k m)"
    and add_bound: "bound (remember k m) = bound m"
    and add_keys: "wf_mem m \<Longrightarrow> 0 < bound m \<Longrightarrow> keys (remember k m) =
      (if k \<in> set (keys m) then keys m else (if bound m \<le> int (length (keys m)) then tl (keys m) else keys m) @ [k])"
begin

definition in_bound :: "'m \<Rightarrow> bool" where
  "in_bound m \<longleftrightarrow> wf_mem m \<and> 0 < bound m \<and> int (length (keys m)) \<le> bound m"

lemma in_bound_step: "in_bound m \<Longrightarrow> in_bound (remember k m) \<and> k \<in> set (keys (remember k m))"
  using add_wf [of m k] add_keys [of m k] add_bound [of k m] by (auto simp: in_bound_def)

lemma in_bound_fold: "in_bound m \<Longrightarrow> in_bound (fold remember ks m) \<and> (ks \<noteq> [] \<longrightarrow> last ks \<in> set (keys (fold remember ks m)))"
proof (induction ks arbitrary: m)
  case (Cons k ks)
  with in_bound_step [OF Cons.prems, of k] show ?case by (cases "ks = []") auto
qed simp

end

definition ti_wf :: "tag_index \<Rightarrow> bool" where
  "ti_wf ti \<longleftrightarrow> distinct (ti_order ti) \<and> dom (ti_entries ti) = set (ti_order ti)"

lemma set_tl: "distinct xs \<Longrightarrow> xs \<noteq> [] \<Longrightarrow> set (tl xs) = set xs - {hd xs}"
  by (cases xs) auto

lemma ti_wf_entry: "ti_wf m \<Longrightarrow> ti_entries m k = None \<longleftrightarrow> k \<notin> set (ti_order m)"
  by (auto simp: ti_wf_def)

interpretation tags: bounded_memory ti_wf ti_max ti_order "\<lambda>k. ti_put k tag" for tag
proof (unfold_locales, goal_cases)
  case (2 m k)
  note e = ti_wf_entry [OF 2(1), of k]
  have d: "distinct (ti_order m)" "dom (ti_entries m) = set (ti_order m)" using 2(1) by (simp_all add: ti_wf_def)
  have "ti_order m \<noteq> []" if "ti_max m \<le> int (length (ti_order m))" using that 2(2) by auto
  then show ?case
    using e d by (auto simp: ti_wf_def ti_put_def Let_def set_tl distinct_tl)
next
  case (4 m k)
  then show ?case using ti_wf_entry [OF 4(1), of k] by (simp add: ti_put_def Let_def)
qed (auto simp: ti_wf_def ti_put_def Let_def)

definition ab_wf :: "attestation_blobs \<Rightarrow> bool" where
  "ab_wf a \<longleftrightarrow> distinct (ab_order a) \<and> ab_entries a = set (ab_order a)"

text \<open>Adding by key: the key of a repository's digest.\<close>

definition ab_key :: "string \<Rightarrow> attestation_blobs \<Rightarrow> attestation_blobs" where
  "ab_key key a =
     (if key \<in> ab_entries a then a
      else let a0 =
        (if ab_max a \<le> int (length (ab_order a))
         then a\<lparr>ab_entries := ab_entries a - {hd (ab_order a)}, ab_order := tl (ab_order a)\<rparr> else a)
        in a0\<lparr>ab_order := ab_order a0 @ [key], ab_entries := insert key (ab_entries a0)\<rparr>)"

lemma ab_add_key: "ab_add repo digest = ab_key (repo @ ''@'' @ digest)"
  by (simp add: fun_eq_iff ab_add_def ab_key_def Let_def)

interpretation attest: bounded_memory ab_wf ab_max ab_order ab_key
proof (unfold_locales, goal_cases)
  case (2 a k)
  have d: "distinct (ab_order a)" "ab_entries a = set (ab_order a)" using 2(1) by (simp_all add: ab_wf_def)
  have "ab_order a \<noteq> []" if "ab_max a \<le> int (length (ab_order a))" using that 2(2) by auto
  then show ?case using d by (auto simp: ab_wf_def ab_key_def Let_def set_tl distinct_tl)
qed (auto simp: ab_wf_def ab_key_def Let_def)

lemma ab_fold_entries: "k \<in> ab_entries (fold ab_key ks t) \<Longrightarrow> k \<in> ab_entries t \<or> k \<in> set ks"
proof (induction ks arbitrary: t)
  case (Cons x ks)
  have "k \<in> ab_entries (ab_key x t) \<Longrightarrow> k = x \<or> k \<in> ab_entries t" by (auto simp: ab_key_def Let_def split: if_splits)
  with Cons.IH [of "ab_key x t"] Cons.prems show ?case by auto
qed simp

lemma ti_put_tag: "ti_entries (ti_put k tag ti) k = Some tag"
  by (simp add: ti_put_def Let_def)

text \<open>
  Whatever indexes are served, the memory of tags holds at most its bound of entries, its eviction order
  lists exactly the remembered digests, once each, and the last child of the index just served is known under the tag it
  was asked for with.
\<close>

theorem tag_memory_is_bounded:
  assumes "ti_wf ti" "0 < ti_max ti" "int (length (ti_order ti)) \<le> ti_max ti"
    and "dc_children dc body = Some (digests @ [d])" "d \<noteq> []" "ti' = rememberChildren dc repo tag body ti"
  shows "ti_wf ti' \<and> int (length (ti_order ti')) \<le> ti_max ti' \<and> ti_max ti' = ti_max ti \<and> ti_tag ti' repo d = Some tag"
proof -
  let ?ks = "map (tagIndexKey repo) (filter (\<lambda>d. d \<noteq> []) digests)"
  let ?ti = "fold (\<lambda>k. ti_put k tag) ?ks ti"
  have ti': "ti' = ti_put (tagIndexKey repo d) tag ?ti"
    using assms(4-6) by (simp add: rememberChildren_def fold_map comp_def)
  have "tags.in_bound ti" using assms(1-3) by (simp add: tags.in_bound_def)
  then have b: "tags.in_bound ?ti" using tags.in_bound_fold by blast
  have "ti_max (fold (\<lambda>k. ti_put k tag) ks t) = ti_max t" for ks t
    by (induction ks arbitrary: t) (simp_all add: tags.add_bound)
  then have "ti_max ti' = ti_max ti" by (simp add: ti' tags.add_bound)
  with tags.in_bound_step [OF b, of "tagIndexKey repo d" tag] show ?thesis
    by (simp add: ti' tags.in_bound_def ti_tag_def ti_put_tag)
qed

theorem tag_memory_is_bounded_witness:
  "ti_tag (rememberChildren demo_codecs ''app'' ''t'' ''INDEX'' (newTagIndex 1)) ''app'' ''sha256:m'' = Some ''t''"
  using tag_memory_is_bounded [of "newTagIndex 1" demo_codecs "''INDEX''" "[]" "''sha256:m''" _ "''app''" "''t''"]
  by (simp add: ti_wf_def newTagIndex_def demo_codecs_def)

text \<open>
  Blobs are remembered for attestations only: every key an attestation manifest adds is its configuration or
  one of its in-toto layers, every layer of such a manifest is an in-toto statement and there are at most
  sixty-four; a manifest that is not one adds nothing, and the memory stays within its bound.
\<close>

theorem attestation_memory_is_bounded:
  assumes "ab_wf a" "0 < ab_max a" "int (length (ab_order a)) \<le> ab_max a" "a' = ab_remember dc repo body a"
  shows "ab_wf a' \<and> int (length (ab_order a')) \<le> ab_max a \<and>
    (\<forall>digest. ab_has a' repo digest \<and> \<not> ab_has a repo digest \<longrightarrow>
       (\<exists>types cfg layers. dc_layerTypes dc body = Some types \<and> types \<noteq> [] \<and> length types \<le> 64 \<and> (\<forall>t\<in>set types. isInTotoLayer t)
          \<and> dc_attestation dc body = Some (cfg, layers)
          \<and> (digest = cfg \<or> (\<exists>t. (t, digest) \<in> set layers \<and> isInTotoLayer t))))"
proof (cases "isAttestationManifest dc body \<and> dc_attestation dc body \<noteq> None")
  case False
  then have "a' = a" using assms(4) by (auto simp: ab_remember_def split: option.splits)
  with assms(1,3) show ?thesis by simp
next
  case True
  then obtain types cfg layers where m: "dc_layerTypes dc body = Some types" "dc_attestation dc body = Some (cfg, layers)"
    by (cases "dc_layerTypes dc body") (auto simp: isAttestationManifest_def)
  let ?ds = "(if cfg \<noteq> [] then [cfg] else []) @ map snd (filter (\<lambda>(t, d). d \<noteq> [] \<and> isInTotoLayer t) layers)"
  let ?ks = "map (\<lambda>d. repo @ ''@'' @ d) ?ds"
  have a': "a' = fold ab_key ?ks a"
    using assms(4) True m by (simp add: ab_remember_def ab_add_key fold_map comp_def)
  have "attest.in_bound a" using assms(1-3) by (simp add: attest.in_bound_def)
  then have b: "attest.in_bound a'" using attest.in_bound_fold a' by blast
  have mx: "ab_max (fold ab_key ks t) = ab_max t" for ks t
    by (induction ks arbitrary: t) (simp_all add: attest.add_bound)
  have new: "ab_has a' repo d \<Longrightarrow> \<not> ab_has a repo d \<Longrightarrow> d \<in> set ?ds" for d
    using a' ab_fold_entries [of "repo @ ''@'' @ d" ?ks a] by (force simp: ab_has_def)
  have t: "types \<noteq> [] \<and> length types \<le> 64 \<and> (\<forall>t\<in>set types. isInTotoLayer t)"
    using True m by (auto simp: isAttestationManifest_def maxAttestationLayers_def list_all_iff)
  have "d \<in> set ?ds \<Longrightarrow> d = cfg \<or> (\<exists>t. (t, d) \<in> set layers \<and> isInTotoLayer t)" for d
    by (auto split: if_splits)
  with new t m b a' mx show ?thesis by (auto simp: attest.in_bound_def)
qed

definition demo_attestation :: docker_codecs where
  "demo_attestation = demo_codecs\<lparr>dc_layerTypes := (\<lambda>_. Some [inTotoMediaType]), dc_attestation := (\<lambda>_. Some (''sha256:c'', [(inTotoMediaType, ''sha256:p'')]))\<rparr>"

theorem attestation_memory_is_bounded_witness:
  "let a = ab_remember demo_attestation ''app'' ''A'' (newAttestationBlobs 1)
   in ab_order a = [''app@sha256:p''] \<and> int (length (ab_order a)) \<le> 1"
proof -
  have "ab_order (ab_remember demo_attestation ''app'' ''A'' (newAttestationBlobs 1)) = [''app@sha256:p'']" by code_simp
  moreover have "int (length (ab_order (ab_remember demo_attestation ''app'' ''A'' (newAttestationBlobs 1)))) \<le> 1"
    using attestation_memory_is_bounded [of "newAttestationBlobs 1" _ demo_attestation "''app''" "''A''"]
    by (simp add: ab_wf_def newAttestationBlobs_def)
  ultimately show ?thesis by simp
qed

section \<open>Paths\<close>

lemma no_later_slash:
  assumes "CHR ''/'' \<notin> set verb" "CHR ''/'' \<notin> set ref" "0 < k"
  shows "\<not> has_prefix (drop k (CHR ''/'' # verb @ CHR ''/'' # ref)) (CHR ''/'' # verb @ CHR ''/'' # [])"
proof
  let ?sl = "\<lambda>s. length (filter (\<lambda>c. c = CHR ''/'') s)"
  assume "has_prefix (drop k (CHR ''/'' # verb @ CHR ''/'' # ref)) (CHR ''/'' # verb @ [CHR ''/''])"
  then obtain t where t: "drop k (CHR ''/'' # verb @ CHR ''/'' # ref) = (CHR ''/'' # verb @ [CHR ''/'']) @ t"
    by (auto simp: has_prefix_iff prefix_def)
  have z: "?sl verb = 0" "?sl ref = 0" using assms(1,2) by (auto simp: filter_empty_conv)
  obtain j where "k = Suc j" using assms(3) by (cases k) auto
  moreover have "?sl (drop j xs) \<le> ?sl xs" for xs
    by (metis append_take_drop_id filter_append le_add2 length_append)
  ultimately have "?sl (drop k (CHR ''/'' # verb @ CHR ''/'' # ref)) \<le> ?sl (verb @ CHR ''/'' # ref)"
    by (simp only: drop_Suc_Cons)
  with t z show False by simp
qed

lemma splitRepoVerb_at:
  assumes "CHR ''/'' \<notin> set verb" "CHR ''/'' \<notin> set ref" "repo \<noteq> []" "ref \<noteq> []"
  shows "splitRepoVerb (repo @ ''/'' @ verb @ ''/'' @ ref) verb = Some (repo, ref)"
proof -
  let ?p = "repo @ ''/'' @ verb @ ''/'' @ ref"
  have "str_last_index (''/'' @ verb @ ''/'') ?p = Some (length repo)"
  proof (rule str_last_index_at)
    fix j assume "length repo < j"
    then show "\<not> has_prefix (drop j ?p) (''/'' @ verb @ ''/'')" using no_later_slash [OF assms(1,2), of "j - length repo"] by simp
  qed (simp_all add: has_prefix_def)
  then show ?thesis using assms(2-4) by (simp add: splitRepoVerb_def contains_str_def str_index_char)
qed

lemma splitRepoVerb_other:
  assumes "CHR ''/'' \<notin> set verb" "CHR ''/'' \<notin> set other" "verb \<noteq> other" "CHR ''/'' \<notin> set ref"
  shows "splitRepoVerb (repo @ ''/'' @ other @ ''/'' @ ref) verb = None"
proof (rule ccontr)
  assume "\<not> ?thesis"
  then obtain i where i: "str_last_index (''/'' @ verb @ ''/'') (repo @ ''/'' @ other @ ''/'' @ ref) = Some i"
    and r: "CHR ''/'' \<notin> set (drop (i + length (''/'' @ verb @ ''/'')) (repo @ ''/'' @ other @ ''/'' @ ref))"
    by (auto simp: splitRepoVerb_def contains_str_def str_index_char Let_def split: option.splits if_splits)
  obtain a b where e: "repo @ ''/'' @ other @ ''/'' @ ref = a @ (''/'' @ verb @ ''/'') @ b" "CHR ''/'' \<notin> set b"
    using str_last_index_Some [OF i] r by blast
  then have "(repo @ ''/'' @ other) @ CHR ''/'' # ref = (a @ ''/'' @ verb) @ CHR ''/'' # b" by simp
  from append_last_sep_inject [OF assms(4) e(2) this] have "repo @ CHR ''/'' # other = a @ CHR ''/'' # verb" by simp
  from append_last_sep_inject [OF assms(2,1) this] assms(3) show False by simp
qed

lemma trim_slashes:
  assumes "repo \<noteq> []" "hd repo \<noteq> CHR ''/''" "CHR ''/'' \<notin> set ref" "ref \<noteq> []"
  shows "trim_set ''/'' (''/'' @ repo @ s @ ref) = repo @ s @ ref"
proof -
  obtain c r' where "ref = r' @ [c]" "c \<noteq> CHR ''/''" using assms(3,4) by (metis append_butlast_last_id last_in_set)
  moreover obtain d q where "repo = d # q" "d \<noteq> CHR ''/''" using assms(1,2) by (cases repo) auto
  ultimately show ?thesis by (simp add: trim_set_def trim_right_set_def)
qed

text \<open>
  The paths clients build are read as they were meant: whatever a repository is called, even when a segment of it is
  \<open>manifests\<close> or \<open>blobs\<close>, the manifest and the blob path of it give its name and the reference back.
\<close>

theorem registry_paths_parse:
  assumes "repo \<noteq> []" "hd repo \<noteq> CHR ''/''" "CHR ''/'' \<notin> set ref" "ref \<noteq> []"
  shows "ParsePath (''/'' @ repo @ ''/manifests/'' @ ref) = \<lparr>pp_Kind = KindManifest, pp_Repo = repo, pp_Reference = ref\<rparr>
    \<and> ParsePath (''/'' @ repo @ ''/blobs/'' @ ref) = \<lparr>pp_Kind = KindBlob, pp_Repo = repo, pp_Reference = ref\<rparr>"
proof -
  have m: "splitRepoVerb (repo @ ''/manifests/'' @ ref) ''manifests'' = Some (repo, ref)"
    using splitRepoVerb_at [of "''manifests''" ref repo] assms by simp
  have b: "splitRepoVerb (repo @ ''/blobs/'' @ ref) ''blobs'' = Some (repo, ref)"
    "splitRepoVerb (repo @ ''/blobs/'' @ ref) ''manifests'' = None"
    using splitRepoVerb_at [of "''blobs''" ref repo] splitRepoVerb_other [of "''manifests''" "''blobs''" ref repo] assms by simp_all
  show ?thesis
    unfolding ParsePath_def Let_def trim_slashes [OF assms] using m b assms(1) by simp
qed

theorem registry_paths_parse_witness:
  "ParsePath ''/a/manifests/blobs/sha256:d'' = \<lparr>pp_Kind = KindBlob, pp_Repo = ''a/manifests'', pp_Reference = ''sha256:d''\<rparr>"
  using registry_paths_parse [of "''a/manifests''" "''sha256:d''"] by simp

end
