(* ===== verification/Health_Monitor.thy ===== *)
theory Health_Monitor
  imports Go_HTTP
begin

text \<open>
  The health monitor of the scan engines, \<^verbatim>\<open>internal/health/health.go\<close>: registration, the probe
  rounds and the snapshot the console shows. A probe's outcome and its latency are arguments of the
  round; a passive engine's own sample is an argument of the snapshot.
\<close>

datatype health_status = HealthOK | HealthWarn | HealthDown | HealthUnknown | HealthOff

record sample =
  sm_OK :: bool
  sm_Latency :: duration
  sm_HasData :: bool

record scanner_health =
  sh_Name :: string
  sh_Detail :: string
  sh_Enabled :: bool
  sh_Status :: health_status
  sh_LatencyMS :: int64
  sh_Passive :: bool

definition classify :: "sample \<Rightarrow> duration \<Rightarrow> health_status \<times> int64" where
  "classify s slow =
     (if \<not> sm_HasData s then (HealthUnknown, 0)
      else if \<not> sm_OK s then (HealthDown, 0)
      else let ms = go_div (sm_Latency s) 1000000 in
        if 0 < slow \<and> slow < sm_Latency s then (HealthWarn, ms) else (HealthOK, ms))"

datatype entry_kind = kindActive | kindPassive | kindDisabled

record health_entry =
  he_meta :: scanner_health
  he_kind :: entry_kind
  he_sample :: "sample option"

record monitor =
  mo_interval :: duration
  mo_slow :: duration
  mo_entries :: "health_entry list"
  mo_started :: bool
  mo_stopped :: bool

definition NewMonitor :: "duration \<Rightarrow> duration \<Rightarrow> monitor" where
  "NewMonitor interval slow =
     \<lparr>mo_interval = (if interval \<le> 0 then 30 * Second else interval), mo_slow = (if slow < 0 then 0 else slow),
      mo_entries = [], mo_started = False, mo_stopped = False\<rparr>"

definition zero_health :: "string \<Rightarrow> string \<Rightarrow> bool \<Rightarrow> bool \<Rightarrow> scanner_health" where
  "zero_health name detail enabled passive =
     \<lparr>sh_Name = name, sh_Detail = detail, sh_Enabled = enabled, sh_Status = HealthUnknown, sh_LatencyMS = 0, sh_Passive = passive\<rparr>"

text \<open>Registration panics once the monitor runs: \<open>None\<close>.\<close>

definition add_entry :: "monitor \<Rightarrow> entry_kind \<Rightarrow> scanner_health \<Rightarrow> monitor option" where
  "add_entry m k meta =
     (if mo_started m then None
      else Some (m\<lparr>mo_entries := mo_entries m @ [\<lparr>he_meta = meta, he_kind = k, he_sample = None\<rparr>]\<rparr>))"

definition AddActive :: "monitor \<Rightarrow> string \<Rightarrow> string \<Rightarrow> bool \<Rightarrow> monitor option" where
  "AddActive m name detail enabled = add_entry m kindActive (zero_health name detail enabled False)"

definition AddPassive :: "monitor \<Rightarrow> string \<Rightarrow> string \<Rightarrow> bool \<Rightarrow> monitor option" where
  "AddPassive m name detail enabled = add_entry m kindPassive (zero_health name detail enabled True)"

definition AddDisabled :: "monitor \<Rightarrow> string \<Rightarrow> string \<Rightarrow> monitor option" where
  "AddDisabled m name detail = add_entry m kindDisabled (zero_health name detail False False)"

definition Monitor_Start :: "monitor \<Rightarrow> monitor" where
  "Monitor_Start m = m\<lparr>mo_started := True\<rparr>"

definition Monitor_Close :: "monitor \<Rightarrow> monitor" where
  "Monitor_Close m = m\<lparr>mo_stopped := True\<rparr>"

definition maxProbeTimeout :: duration where "maxProbeTimeout = 10 * Second"

definition probeTimeout :: "monitor \<Rightarrow> duration" where
  "probeTimeout m = (if mo_interval m < maxProbeTimeout then mo_interval m else maxProbeTimeout)"

text \<open>One round: entry \<open>i\<close> is probed with outcome \<open>fst (probe i)\<close> after \<open>snd (probe i)\<close>.\<close>

definition probe_entry :: "bool \<times> duration \<Rightarrow> health_entry \<Rightarrow> health_entry" where
  "probe_entry o' e =
     (if he_kind e = kindActive then e\<lparr>he_sample := Some \<lparr>sm_OK = fst o', sm_Latency = snd o', sm_HasData = True\<rparr>\<rparr> else e)"

definition probeAll :: "(nat \<Rightarrow> bool \<times> duration) \<Rightarrow> monitor \<Rightarrow> monitor" where
  "probeAll probe m = m\<lparr>mo_entries := map (\<lambda>(i, e). probe_entry (probe i) e) (enumerate 0 (mo_entries m))\<rparr>"

text \<open>The loop: a round at once and one per tick, until the monitor is closed.\<close>

fun monitor_loop :: "(nat \<Rightarrow> bool \<times> duration) list \<Rightarrow> monitor \<Rightarrow> monitor" where
  "monitor_loop [] m = m"
| "monitor_loop (probe # rounds) m = (if mo_stopped m then m else monitor_loop rounds (probeAll probe m))"

definition snapshot_entry :: "duration \<Rightarrow> sample \<Rightarrow> health_entry \<Rightarrow> scanner_health" where
  "snapshot_entry slow reported e =
     (let (st, ms) = (case he_kind e of
            kindDisabled \<Rightarrow> (HealthOff, 0)
          | kindPassive \<Rightarrow> classify reported slow
          | kindActive \<Rightarrow> (case he_sample e of None \<Rightarrow> (HealthUnknown, 0) | Some s \<Rightarrow> classify s slow))
      in (he_meta e)\<lparr>sh_Status := st, sh_LatencyMS := ms\<rparr>)"

definition Monitor_Snapshot :: "(nat \<Rightarrow> sample) \<Rightarrow> monitor \<Rightarrow> scanner_health list" where
  "Monitor_Snapshot report m = map (\<lambda>(i, e). snapshot_entry (mo_slow m) (report i) e) (enumerate 0 (mo_entries m))"

section \<open>What the console sees\<close>

lemma probeAll_entries:
  "length (mo_entries (probeAll p m)) = length (mo_entries m)"
  "i < length (mo_entries m) \<Longrightarrow> mo_entries (probeAll p m) ! i = probe_entry (p i) (mo_entries m ! i)"
  "mo_slow (probeAll p m) = mo_slow m" "mo_stopped (probeAll p m) = mo_stopped m"
  by (simp_all add: probeAll_def nth_enumerate_eq)

lemma probe_entry_fixed [simp]: "he_kind (probe_entry x e) = he_kind e" "he_meta (probe_entry x e) = he_meta e"
  by (simp_all add: probe_entry_def)

lemma monitor_loop_fixed:
  "\<not> mo_stopped m \<Longrightarrow> length (mo_entries (monitor_loop ps m)) = length (mo_entries m) \<and> mo_slow (monitor_loop ps m) = mo_slow m
     \<and> (\<forall>i < length (mo_entries m). he_kind (mo_entries (monitor_loop ps m) ! i) = he_kind (mo_entries m ! i)
         \<and> he_meta (mo_entries (monitor_loop ps m) ! i) = he_meta (mo_entries m ! i)
         \<and> he_sample (mo_entries (monitor_loop ps m) ! i) =
             (if he_kind (mo_entries m ! i) = kindActive \<and> ps \<noteq> []
              then Some \<lparr>sm_OK = fst (last ps i), sm_Latency = snd (last ps i), sm_HasData = True\<rparr> else he_sample (mo_entries m ! i)))"
proof (induction ps arbitrary: m)
  case (Cons p ps)
  then have "\<not> mo_stopped (probeAll p m)" by (simp add: probeAll_entries)
  from Cons.IH [OF this] Cons.prems show ?case by (auto simp: probeAll_entries probe_entry_def)
qed simp

text \<open>
  After any number of rounds the snapshot lists every registered engine in order under its own name:
  an attached engine as of its last probe, down exactly when that failed and slow exactly when
  it answered beyond the threshold; an engine not probed yet is unknown, a passive one is what it
  reports, a disabled one is off whatever happened.
\<close>

theorem snapshot_shows_the_last_round:
  assumes "\<not> mo_stopped m" "i < length (mo_entries m)" "he_sample (mo_entries m ! i) = None"
    and "e = mo_entries m ! i" "h = Monitor_Snapshot report (monitor_loop rounds m) ! i"
  shows "length (Monitor_Snapshot report (monitor_loop rounds m)) = length (mo_entries m)
    \<and> sh_Name h = sh_Name (he_meta e)
    \<and> (sh_Status h = HealthOff \<longleftrightarrow> he_kind e = kindDisabled)
    \<and> (he_kind e = kindActive \<and> rounds = [] \<longrightarrow> sh_Status h = HealthUnknown)
    \<and> (he_kind e = kindActive \<and> rounds \<noteq> [] \<longrightarrow>
         sh_Status h = (if \<not> fst (last rounds i) then HealthDown
                        else if 0 < mo_slow m \<and> mo_slow m < snd (last rounds i) then HealthWarn else HealthOK))
    \<and> (he_kind e = kindPassive \<longrightarrow> (sh_Status h, sh_LatencyMS h) = classify (report i) (mo_slow m))"
proof -
  note f = monitor_loop_fixed [OF assms(1), of rounds]
  let ?e = "mo_entries (monitor_loop rounds m) ! i"
  have h: "h = snapshot_entry (mo_slow m) (report i) ?e"
    using assms(2,5) f by (simp add: Monitor_Snapshot_def nth_enumerate_eq)
  have "length (Monitor_Snapshot report (monitor_loop rounds m)) = length (mo_entries m)"
    using f by (simp add: Monitor_Snapshot_def)
  moreover have "he_kind ?e = he_kind e" "he_meta ?e = he_meta e"
    "he_sample ?e = (if he_kind e = kindActive \<and> rounds \<noteq> []
       then Some \<lparr>sm_OK = fst (last rounds i), sm_Latency = snd (last rounds i), sm_HasData = True\<rparr> else None)"
    using f assms(2-4) by auto
  ultimately show ?thesis
    by (cases "he_kind e") (auto simp: h snapshot_entry_def classify_def Let_def split: prod.splits if_splits)
qed

definition demo_monitor :: monitor where
  "demo_monitor = (case AddActive (NewMonitor 0 5) ''clamav'' ''tcp'' True of None \<Rightarrow> NewMonitor 0 0 | Some m \<Rightarrow> Monitor_Start m)"

theorem snapshot_shows_the_last_round_witness:
  "sh_Status (Monitor_Snapshot (\<lambda>_. undefined) (monitor_loop [\<lambda>_. (True, 1), \<lambda>_. (False, 3)] demo_monitor) ! 0) = HealthDown"
proof -
  have "mo_entries demo_monitor = [\<lparr>he_meta = zero_health ''clamav'' ''tcp'' True False, he_kind = kindActive, he_sample = None\<rparr>]"
    "\<not> mo_stopped demo_monitor"
    by (simp_all add: demo_monitor_def AddActive_def add_entry_def NewMonitor_def Monitor_Start_def)
  then show ?thesis
    using snapshot_shows_the_last_round [of demo_monitor 0 _ _ "\<lambda>_. undefined" "[\<lambda>_. (True, 1), \<lambda>_. (False, 3)]"] by simp
qed

end
