(* ===== verification/Registry_Adapters.thy ===== *)
theory Registry_Adapters
  imports Proxy_Upstream
begin

text \<open>
  The registry adapters of \<^verbatim>\<open>internal/proxy/adapters\<close>: which requests of a registry are downloads and
  of which package (\<open>NormalizeRequest\<close>, \<open>IsArtifactPath\<close>), where they go (\<open>UpstreamURLs\<close>), and when a package
  was published (\<open>FetchMetadata\<close>, \<open>MetadataFromHeader\<close>). An adapter is its list of upstreams; its HTTP
  client is the record of services. JSON documents reach the code decoded: a decoder takes the
  bytes that arrived and whether the connection broke. The parsers of times are arguments too. Times are
  instants, so \<open>UTC\<close> is the identity.
\<close>

section \<open>What the adapters share\<close>

record registry_adapter =
  ra_upstreams :: "string list"

definition trimmed_upstreams :: "string list \<Rightarrow> string list" where
  "trimmed_upstreams us = map (trim_right_set ''/'') us"

text \<open>The verb \<^verbatim>\<open>%q\<close> for a text without characters that need an escape.\<close>

definition quoted :: "string \<Rightarrow> string" where
  "quoted s = CHR 0x22 # s @ [CHR 0x22]"

type_synonym 'd decoder = "string \<Rightarrow> bool \<Rightarrow> go_error + 'd"

type_synonym time_parser = "string \<Rightarrow> go_error + gotime"

text \<open>The mirrors in order: the first success, or every mirror's outcome.\<close>

fun metadata_loop ::
  "services \<Rightarrow> (string \<Rightarrow> (go_error + package_metadata) \<times> string \<times> int) \<Rightarrow> string list \<Rightarrow> attempts \<Rightarrow> go_error + package_metadata" where
  "metadata_loop sv fetch [] atts = Inl (AttemptsError atts)"
| "metadata_loop sv fetch (base # bases) atts =
     (case fetch base of
        (Inr meta, u, status) \<Rightarrow> Inr meta
      | (Inl err, u, status) \<Rightarrow> metadata_loop sv fetch bases (atts_Add sv atts u status err))"

text \<open>One GET: an error with its status, or the response of status 200.\<close>

definition adapter_get ::
  "services \<Rightarrow> string \<Rightarrow> string \<Rightarrow> string \<Rightarrow> (int \<Rightarrow> go_error) \<Rightarrow> (go_error \<times> int) + http_response" where
  "adapter_get sv building fetching apiURL bad =
     (case sv_NewRequest sv apiURL of
        Some err \<Rightarrow> Inl (Wrapped building err [], 0)
      | None \<Rightarrow>
          (case sv_Do sv ''GET'' apiURL no_header [] of
             Inl err \<Rightarrow> Inl (Wrapped fetching err [], 0)
           | Inr resp \<Rightarrow>
               if rs_StatusCode resp \<noteq> StatusOK then Inl (bad (rs_StatusCode resp), rs_StatusCode resp) else Inr resp))"

section \<open>npm\<close>

definition NewNPMAdapter :: "string list \<Rightarrow> registry_adapter" where
  "NewNPMAdapter upstreams = \<lparr>ra_upstreams = trimmed_upstreams upstreams\<rparr>"

text \<open>The part of a package name after its scope.\<close>

definition unscoped_name :: "string \<Rightarrow> string" where
  "unscoped_name name = (case str_last_index ''/'' name of None \<Rightarrow> name | Some idx \<Rightarrow> drop (idx + 1) name)"

definition parseNPMVersion :: "string \<Rightarrow> string \<Rightarrow> string option" where
  "parseNPMVersion name filename =
     (let base = trim_suffix filename ''.tgz'';
          pre = unscoped_name name @ ''-'';
          version = trim_prefix base pre
      in if \<not> has_prefix base pre then None else if version = [] then None else Some version)"

definition npm_NormalizeRequest :: "http_request \<Rightarrow> package_ref option" where
  "npm_NormalizeRequest r =
     (let path = rq_Path r in
      if \<not> has_suffix path ''.tgz'' then None
      else case str_index ''/-/'' path of
        None \<Rightarrow> None
      | Some idx \<Rightarrow>
          (let name = trim_prefix (take idx path) ''/''; filename = drop (idx + length ''/-/'') path in
           case parseNPMVersion name filename of
             None \<Rightarrow> None
           | Some version \<Rightarrow> Some \<lparr>Ecosystem = ''npm'', Name = name, Version = version, Classifier = []\<rparr>))"

definition npm_IsArtifactPath :: "http_request \<Rightarrow> bool" where
  "npm_IsArtifactPath r \<longleftrightarrow> has_suffix (rq_Path r) ''.tgz'' \<and> contains_str (rq_Path r) ''/-/''"

text \<open>
  The document as the adapter reads it: publish times, and the raw license of each version, absent
  when the version has none. A license is a string, an object with a type, or dropped.
\<close>

record npm_metadata =
  nm_Time :: "string \<rightharpoonup> string"
  nm_Versions :: "string \<rightharpoonup> string option"

definition npmLicense_UnmarshalJSON :: "(string \<Rightarrow> string option) \<Rightarrow> (string \<Rightarrow> string option) \<Rightarrow> string \<Rightarrow> string" where
  "npmLicense_UnmarshalJSON as_string as_type data =
     (case as_string data of
        Some s \<Rightarrow> s
      | None \<Rightarrow> (case as_type data of Some t \<Rightarrow> t | None \<Rightarrow> []))"

record npm_decoders =
  nd_metadata :: "npm_metadata decoder"
  nd_string :: "string \<Rightarrow> string option"
  nd_type :: "string \<Rightarrow> string option"
  nd_RFC3339 :: time_parser

definition npm_fetchMetadataFrom ::
  "services \<Rightarrow> npm_decoders \<Rightarrow> package_ref \<Rightarrow> string \<Rightarrow> (go_error + package_metadata) \<times> string \<times> int" where
  "npm_fetchMetadataFrom sv cd ref base =
     (let apiURL = base @ ''/'' @ Name ref in
      case adapter_get sv ''building npm metadata request: '' ''fetching npm metadata: '' apiURL
             (\<lambda>status. Plain (''npm returned HTTP '' @ FormatInt status @ '' for '' @ Name ref)) of
        Inl (err, status) \<Rightarrow> (Inl err, apiURL, status)
      | Inr resp \<Rightarrow>
          (case nd_metadata cd (rs_Body resp) (rs_BodyErr resp) of
             Inl err \<Rightarrow> Inl (Wrapped ''decoding npm response: '' err [])
           | Inr doc \<Rightarrow>
               (case nm_Time doc (Version ref) of
                  None \<Rightarrow> Inl (Plain (''version '' @ Version ref @ '' not found in npm metadata for '' @ Name ref))
                | Some publishedStr \<Rightarrow>
                    (case nd_RFC3339 cd publishedStr of
                       Inl err \<Rightarrow> Inl (Wrapped (''parsing npm publish time '' @ quoted publishedStr @ '': '') err [])
                     | Inr publishedAt \<Rightarrow>
                         (case nm_Versions doc (Version ref) of
                            None \<Rightarrow> Inl (Plain (''version '' @ Version ref @ '' missing from npm versions map for '' @ Name ref))
                          | Some lic \<Rightarrow>
                              Inr \<lparr>pm_PublishedAt = publishedAt, pm_Maintainer = [],
                                   pm_License = (case lic of None \<Rightarrow> []
                                     | Some raw \<Rightarrow> npmLicense_UnmarshalJSON (nd_string cd) (nd_type cd) raw)\<rparr>))),
           apiURL, rs_StatusCode resp))"

definition npm_FetchMetadata ::
  "registry_adapter \<Rightarrow> services \<Rightarrow> npm_decoders \<Rightarrow> package_ref \<Rightarrow> go_error + package_metadata" where
  "npm_FetchMetadata a sv cd ref =
     (if ra_upstreams a = [] then Inl (Plain ''no upstreams configured for npm'')
      else metadata_loop sv (npm_fetchMetadataFrom sv cd ref) (ra_upstreams a) [])"

definition npm_UpstreamURLs :: "registry_adapter \<Rightarrow> http_request \<Rightarrow> string list" where
  "npm_UpstreamURLs a r = map (\<lambda>base. base @ rq_URI r) (ra_upstreams a)"

section \<open>PyPI\<close>

definition NewPyPIAdapter :: "string list \<Rightarrow> registry_adapter" where
  "NewPyPIAdapter upstreams = \<lparr>ra_upstreams = trimmed_upstreams upstreams\<rparr>"

definition packagePathRe :: "string \<Rightarrow> bool" where
  "packagePathRe path \<longleftrightarrow> has_prefix path ''/packages/''"

definition sdistExts :: "string list" where
  "sdistExts = [''.tar.gz'', ''.tar.bz2'', ''.tar.xz'', ''.tar.lzma'', ''.tar.lz'', ''.tgz'', ''.tbz'', ''.txz'', ''.tlz'', ''.tar'', ''.zip'']"

definition pypi_separator :: "char \<Rightarrow> bool" where
  "pypi_separator c \<longleftrightarrow> c \<in> set ''-_.''"

text \<open>Every run of separators becomes one hyphen; the flag says that a run is being read.\<close>

fun fold_separators :: "bool \<Rightarrow> string \<Rightarrow> string" where
  "fold_separators run [] = []"
| "fold_separators run (c # s) =
     (if pypi_separator c then (if run then fold_separators True s else CHR ''-'' # fold_separators True s)
      else c # fold_separators False s)"

definition normalizePyPIName :: "string \<Rightarrow> string" where
  "normalizePyPIName name = fold_separators False (to_lower name)"

definition pypi_wheel :: "string \<Rightarrow> (string \<times> string) option" where
  "pypi_wheel base =
     (case split_on (CHR ''-'') base of
        p # q # _ \<Rightarrow> Some (normalizePyPIName p, q)
      | _ \<Rightarrow> None)"

definition pypi_sdist :: "string \<Rightarrow> (string \<times> string) option" where
  "pypi_sdist base =
     (case str_last_index ''-'' base of
        Some (Suc i) \<Rightarrow> Some (normalizePyPIName (take (Suc i) base), drop (Suc i + 1) base)
      | _ \<Rightarrow> None)"

definition parsePyPIFilename :: "string \<Rightarrow> (string \<times> string) option" where
  "parsePyPIFilename filename =
     (let lower = to_lower filename;
          cut_ext = (\<lambda>ext. take (length filename - length ext) filename)
      in case find (has_suffix lower) [''.whl'', ''.egg''] of
           Some ext \<Rightarrow> pypi_wheel (cut_ext ext)
         | None \<Rightarrow>
             (case find (has_suffix lower) sdistExts of
                Some ext \<Rightarrow> pypi_sdist (cut_ext ext)
              | None \<Rightarrow> None))"

definition pypi_NormalizeRequest :: "http_request \<Rightarrow> package_ref option" where
  "pypi_NormalizeRequest r =
     (if \<not> packagePathRe (rq_Path r) then None
      else let parts = split_on (CHR ''/'') (rq_Path r) in
        if length parts < 2 then None
        else let filename = fst (cut (CHR ''#'') (last parts)) in
          case parsePyPIFilename filename of
            None \<Rightarrow> None
          | Some (name, version) \<Rightarrow>
              Some \<lparr>Ecosystem = ''pypi'', Name = name, Version = version, Classifier = filename\<rparr>)"

definition path_base :: "string \<Rightarrow> string" where
  "path_base p = (case str_last_index ''/'' p of None \<Rightarrow> p | Some i \<Rightarrow> drop (i + 1) p)"

definition pypi_IsArtifactPath :: "http_request \<Rightarrow> bool" where
  "pypi_IsArtifactPath r =
     (if \<not> packagePathRe (rq_Path r) then False
      else \<not> (has_suffix (rq_Path r) ''.metadata''
        \<and> parsePyPIFilename (path_base (trim_suffix (rq_Path r) ''.metadata'')) \<noteq> None))"

record pypi_file =
  pf_Filename :: string
  pf_UploadTimeISO :: string

record pypi_response =
  pr_Author :: string
  pr_License :: string
  pr_URLs :: "pypi_file list"

record pypi_decoders =
  pd_response :: "pypi_response decoder"
  pd_RFC3339 :: time_parser
  pd_micros :: time_parser

definition parsePyPIUploadTime :: "pypi_decoders \<Rightarrow> string \<Rightarrow> go_error + gotime" where
  "parsePyPIUploadTime cd s =
     (case pd_RFC3339 cd s of
        Inr t \<Rightarrow> Inr t
      | Inl _ \<Rightarrow>
          (case pd_micros cd s of
             Inr t \<Rightarrow> Inr t
           | Inl err \<Rightarrow> Inl (Wrapped (''parsing upload_time_iso_8601 '' @ quoted s @ '': '') err [])))"

text \<open>The loop over the files of a release; \<open>None\<close> as long as none was found.\<close>

fun publish_loop ::
  "pypi_decoders \<Rightarrow> string \<Rightarrow> pypi_file list \<Rightarrow> gotime option \<Rightarrow> go_error + gotime option" where
  "publish_loop cd classifier [] acc = Inr acc"
| "publish_loop cd classifier (f # fs) acc =
     (if classifier \<noteq> [] \<and> pf_Filename f \<noteq> classifier then publish_loop cd classifier fs acc
      else case parsePyPIUploadTime cd (pf_UploadTimeISO f) of
        Inl err \<Rightarrow> Inl err
      | Inr t \<Rightarrow>
          publish_loop cd classifier fs
            (case acc of None \<Rightarrow> Some t | Some p \<Rightarrow> if p < t then Some t else Some p))"

definition pypi_fetchMetadataFrom ::
  "services \<Rightarrow> pypi_decoders \<Rightarrow> package_ref \<Rightarrow> string \<Rightarrow> (go_error + package_metadata) \<times> string \<times> int" where
  "pypi_fetchMetadataFrom sv cd ref base =
     (let apiURL = base @ ''/pypi/'' @ Name ref @ ''/'' @ Version ref @ ''/json'' in
      case adapter_get sv ''building metadata request: '' ''fetching pypi metadata: '' apiURL
             (\<lambda>status. if status = StatusNotFound
                then Plain (''package '' @ Name ref @ ''@'' @ Version ref @ '' not found on PyPI'')
                else Plain (''pypi returned HTTP '' @ FormatInt status)) of
        Inl (err, status) \<Rightarrow> (Inl err, apiURL, status)
      | Inr resp \<Rightarrow>
          (case pd_response cd (rs_Body resp) (rs_BodyErr resp) of
             Inl err \<Rightarrow> Inl (Wrapped ''decoding pypi response: '' err [])
           | Inr info \<Rightarrow>
               if pr_URLs info = []
               then Inl (Plain (''no download URLs in pypi response for '' @ Name ref @ ''@'' @ Version ref))
               else case publish_loop cd (Classifier ref) (pr_URLs info) None of
                 Inl err \<Rightarrow> Inl err
               | Inr None \<Rightarrow> Inl (Plain (''file '' @ Classifier ref @ '' not listed in pypi release '' @ Name ref @ ''@'' @ Version ref))
               | Inr (Some publishedAt) \<Rightarrow>
                   Inr \<lparr>pm_PublishedAt = publishedAt, pm_Maintainer = pr_Author info, pm_License = pr_License info\<rparr>,
           apiURL, rs_StatusCode resp))"

definition pypi_FetchMetadata ::
  "registry_adapter \<Rightarrow> services \<Rightarrow> pypi_decoders \<Rightarrow> package_ref \<Rightarrow> go_error + package_metadata" where
  "pypi_FetchMetadata a sv cd ref =
     (if ra_upstreams a = [] then Inl (Plain ''no upstreams configured for pypi'')
      else metadata_loop sv (pypi_fetchMetadataFrom sv cd ref) (ra_upstreams a) [])"

definition pypi_UpstreamURLs :: "registry_adapter \<Rightarrow> http_request \<Rightarrow> string list" where
  "pypi_UpstreamURLs a r = map (\<lambda>base. base @ rq_URI r) (ra_upstreams a)"

section \<open>Maven\<close>

definition mavenSidecarExts :: "string list" where
  "mavenSidecarExts = [''.pom'', ''.module'', ''.xml'', ''.md5'', ''.sha1'', ''.sha256'', ''.sha512'', ''.asc'', ''.sig'']"

definition NewMavenAdapter :: "string list \<Rightarrow> registry_adapter" where
  "NewMavenAdapter upstreams = \<lparr>ra_upstreams = trimmed_upstreams upstreams\<rparr>"

definition isMavenSidecar :: "string \<Rightarrow> bool" where
  "isMavenSidecar file = list_ex (has_suffix file) mavenSidecarExts"

definition mavenClassifier :: "string \<Rightarrow> string \<Rightarrow> string \<Rightarrow> string" where
  "mavenClassifier file artifact version =
     (let stem = artifact @ ''-'' @ version;
          rest = trim_prefix file stem;
          name_in = (\<lambda>cls ext. if ext = ''jar'' then cls else cls @ ''.'' @ ext)
      in if \<not> has_prefix file stem \<or> rest = [] then file
         else if has_prefix rest ''-''
         then case cut (CHR ''.'') (drop 1 rest) of (cls, ext, _) \<Rightarrow> name_in cls ext
         else if has_prefix rest ''.'' then name_in [] (drop 1 rest)
         else file)"

definition parseMavenPath :: "string \<Rightarrow> (string \<times> string \<times> string) option" where
  "parseMavenPath path =
     (let segs = split_on (CHR ''/'') (trim_prefix path ''/''); n = length segs in
      if n < 4 then None
      else let file = segs ! (n - 1); version = segs ! (n - 2); artifact = segs ! (n - 3);
               group = join_on (CHR ''.'') (take (n - 3) segs)
           in if group = [] \<or> artifact = [] \<or> version = [] then None
              else if \<not> has_prefix file (artifact @ ''-'') \<or> isMavenSidecar file then None
              else Some (group @ '':'' @ artifact, version, mavenClassifier file artifact version))"

definition maven_NormalizeRequest :: "http_request \<Rightarrow> package_ref option" where
  "maven_NormalizeRequest r =
     (case parseMavenPath (rq_Path r) of
        None \<Rightarrow> None
      | Some (name, version, classifier) \<Rightarrow>
          Some \<lparr>Ecosystem = ''maven'', Name = name, Version = version, Classifier = classifier\<rparr>)"

definition maven_IsArtifactPath :: "http_request \<Rightarrow> bool" where
  "maven_IsArtifactPath r \<longleftrightarrow> parseMavenPath (rq_Path r) \<noteq> None"

definition zero_metadata :: package_metadata where
  "zero_metadata = \<lparr>pm_PublishedAt = zero_time, pm_Maintainer = [], pm_License = []\<rparr>"

definition maven_FetchMetadata :: "package_ref \<Rightarrow> go_error + package_metadata" where
  "maven_FetchMetadata ref = Inr zero_metadata"

definition maven_MetadataFromHeader :: "(string \<Rightarrow> gotime option) \<Rightarrow> header \<Rightarrow> package_metadata" where
  "maven_MetadataFromHeader ParseTime h =
     (let lm = hdr_Get h ''Last-Modified'' in
      if lm = [] then zero_metadata
      else case ParseTime lm of None \<Rightarrow> zero_metadata | Some t \<Rightarrow> zero_metadata\<lparr>pm_PublishedAt := t\<rparr>)"

definition maven_UpstreamURLs :: "registry_adapter \<Rightarrow> http_request \<Rightarrow> string list" where
  "maven_UpstreamURLs a r = map (\<lambda>base. base @ rq_URI r) (ra_upstreams a)"

section \<open>Go modules\<close>

text \<open>An exclamation mark stands for the upper case of the letter behind it; anything else behind it is refused.\<close>

fun decodeGoPath :: "string \<Rightarrow> string option" where
  "decodeGoPath [] = Some []"
| "decodeGoPath (c # s) =
     (if c \<noteq> CHR ''!'' then map_option (Cons c) (decodeGoPath s)
      else case s of
        [] \<Rightarrow> None
      | n # t \<Rightarrow> if is_lower n then map_option (Cons (upper_byte n)) (decodeGoPath t) else None)"

fun encodeGoPath :: "string \<Rightarrow> string" where
  "encodeGoPath [] = []"
| "encodeGoPath (c # s) = (if is_upper c then CHR ''!'' # lower_byte c # encodeGoPath s else c # encodeGoPath s)"

definition NewGoAdapter :: "string list \<Rightarrow> registry_adapter" where
  "NewGoAdapter upstreams = \<lparr>ra_upstreams = trimmed_upstreams upstreams\<rparr>"

definition go_NormalizeRequest :: "http_request \<Rightarrow> package_ref option" where
  "go_NormalizeRequest r =
     (let path = rq_Path r in
      if \<not> has_suffix path ''.zip'' then None
      else case str_index ''/@v/'' path of
        None \<Rightarrow> None
      | Some idx \<Rightarrow>
          (let encModule = trim_prefix (take idx path) ''/'';
               encVersion = trim_suffix (drop (idx + length ''/@v/'') path) ''.zip''
           in if encModule = [] \<or> encVersion = [] then None
              else case decodeGoPath encModule of
                None \<Rightarrow> None
              | Some modpath \<Rightarrow>
                  (case decodeGoPath encVersion of
                     None \<Rightarrow> None
                   | Some version \<Rightarrow> Some \<lparr>Ecosystem = ''go'', Name = modpath, Version = version, Classifier = []\<rparr>)))"

definition go_IsArtifactPath :: "http_request \<Rightarrow> bool" where
  "go_IsArtifactPath r \<longleftrightarrow> has_suffix (rq_Path r) ''.zip'' \<and> contains_str (rq_Path r) ''/@v/''"

definition go_UpstreamURLs :: "registry_adapter \<Rightarrow> http_request \<Rightarrow> string list" where
  "go_UpstreamURLs a r = map (\<lambda>base. base @ rq_URI r) (ra_upstreams a)"

text \<open>The \<^verbatim>\<open>.info\<close> document; the decoder reads its time.\<close>

definition go_info_url :: "string \<Rightarrow> string \<Rightarrow> string \<Rightarrow> string" where
  "go_info_url base encModule encVersion = base @ ''/'' @ encModule @ ''/@v/'' @ encVersion @ ''.info''"

definition fetchInfoFrom ::
  "services \<Rightarrow> gotime decoder \<Rightarrow> string \<Rightarrow> string \<Rightarrow> string \<Rightarrow> (go_error + package_metadata) \<times> string \<times> int" where
  "fetchInfoFrom sv decode encModule encVersion base =
     (let apiURL = go_info_url base encModule encVersion in
      case adapter_get sv ''building go info request: '' ''fetching go info: '' apiURL
             (\<lambda>status. Plain (''go proxy returned HTTP '' @ FormatInt status @ '' for '' @
                 SanitizeURL (sv_url_Parse sv) (sv_url_String sv) apiURL)) of
        Inl (err, status) \<Rightarrow> (Inl err, apiURL, status)
      | Inr resp \<Rightarrow>
          (case decode (rs_Body resp) (rs_BodyErr resp) of
             Inl err \<Rightarrow> Inl (Wrapped ''decoding go info: '' err [])
           | Inr t \<Rightarrow>
               if t = zero_time then Inl (Plain (''go info for '' @ encModule @ ''@'' @ encVersion @ '' has no Time''))
               else Inr (zero_metadata\<lparr>pm_PublishedAt := t\<rparr>),
           apiURL, rs_StatusCode resp))"

definition go_FetchMetadata ::
  "registry_adapter \<Rightarrow> services \<Rightarrow> gotime decoder \<Rightarrow> package_ref \<Rightarrow> go_error + package_metadata" where
  "go_FetchMetadata a sv decode ref =
     (if ra_upstreams a = [] then Inl (Plain ''no upstreams configured for go'')
      else let encModule = encodeGoPath (Name ref); encVersion = encodeGoPath (Version ref)
           in metadata_loop sv (fetchInfoFrom sv decode encModule encVersion) (ra_upstreams a) [])"

section \<open>RubyGems\<close>

record rubygems_version =
  rv_Number :: string
  rv_Platform :: string
  rv_CreatedAt :: string
  rv_Licenses :: "string list"

definition NewRubyGemsAdapter :: "string list \<Rightarrow> registry_adapter" where
  "NewRubyGemsAdapter upstreams = \<lparr>ra_upstreams = trimmed_upstreams upstreams\<rparr>"

definition digit_led :: "string \<Rightarrow> bool" where
  "digit_led s \<longleftrightarrow> s \<noteq> [] \<and> is_digit (hd s)"

text \<open>The segments before the first one that begins with a digit are the name, those after it the platform.\<close>

definition parseGemFilename :: "string \<Rightarrow> (string \<times> string) option" where
  "parseGemFilename filename =
     (let segs = split_on (CHR ''-'') (trim_suffix filename ''.gem'');
          before = takeWhile (\<lambda>s. \<not> digit_led s) segs
      in case dropWhile (\<lambda>s. \<not> digit_led s) segs of
           [] \<Rightarrow> None
         | number # after \<Rightarrow>
             (let name = join_on (CHR ''-'') before; platform = join_on (CHR ''-'') after in
              if before = [] \<or> name = [] then None
              else if platform = [] then Some (name, number)
              else Some (name, number @ ''-'' @ platform)))"

definition gem_NormalizeRequest :: "http_request \<Rightarrow> package_ref option" where
  "gem_NormalizeRequest r =
     (let path = rq_Path r in
      if \<not> has_suffix path ''.gem'' then None
      else case str_last_index ''/gems/'' path of
        None \<Rightarrow> None
      | Some idx \<Rightarrow>
          (let filename = drop (idx + length ''/gems/'') path in
           if contains_str filename ''/'' then None
           else case parseGemFilename filename of
             None \<Rightarrow> None
           | Some (name, version) \<Rightarrow> Some \<lparr>Ecosystem = ''rubygems'', Name = name, Version = version, Classifier = []\<rparr>))"

definition gem_IsArtifactPath :: "http_request \<Rightarrow> bool" where
  "gem_IsArtifactPath r \<longleftrightarrow> has_suffix (rq_Path r) ''.gem''"

definition gem_UpstreamURLs :: "registry_adapter \<Rightarrow> http_request \<Rightarrow> string list" where
  "gem_UpstreamURLs a r = map (\<lambda>base. base @ rq_URI r) (ra_upstreams a)"

definition splitGemVersion :: "string \<Rightarrow> string \<times> string" where
  "splitGemVersion version =
     (case cut (CHR ''-'') version of (number, platform, found) \<Rightarrow> if found then (number, platform) else (number, ''ruby''))"

record gem_decoders =
  gd_versions :: "rubygems_version list decoder"
  gd_RFC3339 :: time_parser

fun gem_version_loop ::
  "gem_decoders \<Rightarrow> string \<Rightarrow> string \<Rightarrow> string \<Rightarrow> rubygems_version list \<Rightarrow> go_error + package_metadata" where
  "gem_version_loop cd name number platform [] =
     Inl (Plain (''version '' @ number @ '' (platform '' @ platform @ '') not found for rubygems gem '' @ name))"
| "gem_version_loop cd name number platform (v # vs) =
     (if rv_Number v = number \<and> rv_Platform v = platform
      then case gd_RFC3339 cd (rv_CreatedAt v) of
             Inl err \<Rightarrow> Inl (Wrapped (''parsing rubygems created_at '' @ quoted (rv_CreatedAt v) @ '': '') err [])
           | Inr t \<Rightarrow> Inr \<lparr>pm_PublishedAt = t, pm_Maintainer = [], pm_License = join_with '', '' (rv_Licenses v)\<rparr>
      else gem_version_loop cd name number platform vs)"

definition gem_fetchMetadataFrom ::
  "services \<Rightarrow> gem_decoders \<Rightarrow> package_ref \<Rightarrow> string \<Rightarrow> (go_error + package_metadata) \<times> string \<times> int" where
  "gem_fetchMetadataFrom sv cd ref base =
     (case splitGemVersion (Version ref) of (number, platform) \<Rightarrow>
      let apiURL = base @ ''/api/v1/versions/'' @ Name ref @ ''.json'' in
      case adapter_get sv ''building rubygems metadata request: '' ''fetching rubygems metadata: '' apiURL
             (\<lambda>status. Plain (''rubygems returned HTTP '' @ FormatInt status @ '' for '' @ Name ref)) of
        Inl (err, status) \<Rightarrow> (Inl err, apiURL, status)
      | Inr resp \<Rightarrow>
          (case gd_versions cd (rs_Body resp) (rs_BodyErr resp) of
             Inl err \<Rightarrow> Inl (Wrapped ''decoding rubygems response: '' err [])
           | Inr versions \<Rightarrow> gem_version_loop cd (Name ref) number platform versions,
           apiURL, rs_StatusCode resp))"

definition gem_FetchMetadata ::
  "registry_adapter \<Rightarrow> services \<Rightarrow> gem_decoders \<Rightarrow> package_ref \<Rightarrow> go_error + package_metadata" where
  "gem_FetchMetadata a sv cd ref =
     (if ra_upstreams a = [] then Inl (Plain ''no upstreams configured for rubygems'')
      else metadata_loop sv (gem_fetchMetadataFrom sv cd ref) (ra_upstreams a) [])"

end
