(* ===== verification/Npm_Metadata.thy ===== *)
theory Npm_Metadata
  imports Registry_Adapters
begin

text \<open>
  The metadata documents of npm (\<^verbatim>\<open>internal/proxy/adapters/npm.go\<close>): which requests ask for one, and
  how a packument or a manifest is rewritten. A \<^verbatim>\<open>json.RawMessage\<close> is its bytes. Decoding one
  level of an object gives its fields, or \<open>None\<close> for the nil map that \<^verbatim>\<open>null\<close> leaves; the value handed
  to \<^verbatim>\<open>json.Marshal\<close> is built from raw messages, strings and maps (\<open>jany\<close>). The codec itself is a parameter.
  A Go map is the list of its entries; the code sorts what it collects while ranging over one.
\<close>

section \<open>Requests for metadata\<close>

definition splitNPMMetadataPath :: "string \<Rightarrow> (string \<times> string) option" where
  "splitNPMMetadataPath s =
     (let parts = split_on (CHR ''/'') s; scoped = has_prefix s ''@''; nameParts = (if scoped then 2 else 1) in
      if s = [] then None
      else if parts ! 0 = ''-'' then None
      else if scoped \<and> (length parts < 2 \<or> length (parts ! 0) < 2 \<or> parts ! 1 = []) then None
      else if length parts = nameParts then Some (s, [])
      else if length parts = nameParts + 1
      then if parts ! nameParts = [] \<or> parts ! nameParts = ''-'' then None
           else Some (join_on (CHR ''/'') (take nameParts parts), parts ! nameParts)
      else None)"

text \<open>Whether the query has a key is an argument: \<^verbatim>\<open>r.URL.Query().Has\<close>.\<close>

definition npm_NormalizeMetadataRequest :: "(http_request \<Rightarrow> string \<Rightarrow> bool) \<Rightarrow> http_request \<Rightarrow> metadata_ref option" where
  "npm_NormalizeMetadataRequest query_has r =
     (if rq_Method r \<noteq> ''GET'' then None
      else if query_has r ''write'' then None
      else case splitNPMMetadataPath (trim_suffix (trim_prefix (rq_Path r) ''/'') ''/'') of
        None \<Rightarrow> None
      | Some (name, version) \<Rightarrow> Some \<lparr>mr_Ecosystem = ''npm'', mr_Name = name, mr_Version = version\<rparr>)"

section \<open>Links\<close>

definition npm_version_char :: "char \<Rightarrow> bool" where
  "npm_version_char c \<longleftrightarrow> is_digit c \<or> is_upper c \<or> is_lower c \<or> c \<in> set ''.+_-''"

definition npmVersionRe :: "string \<Rightarrow> bool" where
  "npmVersionRe v \<longleftrightarrow> v \<noteq> [] \<and> list_all npm_version_char v"

definition npm_filename :: "string \<Rightarrow> string \<Rightarrow> string" where
  "npm_filename name version = unscoped_name name @ ''-'' @ version @ ''.tgz''"

definition npmTarballURL :: "string \<Rightarrow> string \<Rightarrow> string \<Rightarrow> string option" where
  "npmTarballURL linkBase name version =
     (if \<not> npmVersionRe version then None
      else let filename = npm_filename name version in
        if parseNPMVersion name filename \<noteq> Some version then None
        else Some (linkBase @ ''/'' @ name @ ''/-/'' @ filename))"

section \<open>JSON values\<close>

datatype jany = Raw string | Str string | Obj "(string \<times> jany) list option"

type_synonym json_fields = "(string \<times> string) list option"

record npm_json =
  nj_object :: "string \<Rightarrow> go_error + json_fields"
  nj_strings :: "string \<Rightarrow> (string \<times> string) list option"
  nj_version :: "string \<Rightarrow> go_error + string"
  nj_Marshal :: "jany \<Rightarrow> go_error + string"
  nj_RFC3339 :: time_parser

definition entries :: "('k \<times> 'v) list option \<Rightarrow> ('k \<times> 'v) list" where
  "entries m = (case m of None \<Rightarrow> [] | Some es \<Rightarrow> es)"

definition npmJSONFields :: "json_fields \<Rightarrow> (string \<times> jany) list option" where
  "npmJSONFields m = map_option (map (\<lambda>(k, v). (k, Raw v))) m"

text \<open>Assigning to a key of a map that is not nil, and deleting keys.\<close>

definition set_key :: "string \<Rightarrow> jany \<Rightarrow> (string \<times> jany) list option \<Rightarrow> (string \<times> jany) list option" where
  "set_key k v m = map_option (AList.update k v) m"

definition delete_keys :: "string list \<Rightarrow> (string \<times> 'v) list option \<Rightarrow> (string \<times> 'v) list option" where
  "delete_keys ks m = map_option (filter (\<lambda>(k, _). k \<notin> set ks)) m"

section \<open>Rewriting\<close>

datatype npm_link = NoTarballLink | Unroutable go_error | Routed jany

definition npm_dist :: "npm_json \<Rightarrow> string \<Rightarrow> json_fields \<Rightarrow> go_error + json_fields" where
  "npm_dist cd version obj =
     (case map_of (entries obj) ''dist'' of
        None \<Rightarrow> Inr None
      | Some rawDist \<Rightarrow>
          (case nj_object cd rawDist of
             Inl err \<Rightarrow> Inl (Wrapped (''decoding dist of version '' @ version @ '': '') err [])
           | Inr distf \<Rightarrow> Inr distf))"

definition rewriteNPMTarball :: "npm_json \<Rightarrow> string \<Rightarrow> string \<Rightarrow> string \<Rightarrow> string \<Rightarrow> npm_link" where
  "rewriteNPMTarball cd raw linkBase name version =
     (case nj_object cd raw of
        Inl err \<Rightarrow> Unroutable (Wrapped (''decoding version '' @ version @ '': '') err [])
      | Inr obj \<Rightarrow>
          (case npm_dist cd version obj of
             Inl err \<Rightarrow> Unroutable err
           | Inr distf \<Rightarrow>
               if map_of (entries distf) ''tarball'' = None then NoTarballLink
               else case npmTarballURL linkBase name version of
                 None \<Rightarrow> Unroutable (Plain (''version '' @ quoted version @ '' cannot form a tarball path''))
               | Some link \<Rightarrow>
                   (let rewrittenDist = set_key ''tarball'' (Str link) (npmJSONFields distf)
                    in Routed (Obj (set_key ''dist'' (Obj rewrittenDist) (npmJSONFields obj))))))"

text \<open>One entry of the versions map after its link was looked at: kept raw, replaced or deleted.\<close>

definition npm_version_entry :: "npm_json \<Rightarrow> string \<Rightarrow> string \<Rightarrow> string \<times> string \<Rightarrow> (string \<times> jany) option" where
  "npm_version_entry cd linkBase name e =
     (case e of (version, raw) \<Rightarrow>
      case rewriteNPMTarball cd raw linkBase name version of
        NoTarballLink \<Rightarrow> Some (version, Raw raw)
      | Unroutable err \<Rightarrow> None
      | Routed obj \<Rightarrow> Some (version, obj))"

definition npmPublishDates :: "npm_json \<Rightarrow> string option \<Rightarrow> string \<Rightarrow> gotime option" where
  "npmPublishDates cd raw version =
     (case raw of
        None \<Rightarrow> None
      | Some s \<Rightarrow>
          if s = [] then None
          else case nj_strings cd s of
            None \<Rightarrow> None
          | Some stamps \<Rightarrow>
              (case map_of stamps version of
                 None \<Rightarrow> None
               | Some v \<Rightarrow> (case nj_RFC3339 cd v of Inl _ \<Rightarrow> None | Inr t \<Rightarrow> Some t)))"

definition plain_document :: "string \<Rightarrow> filtered_document" where
  "plain_document doc = \<lparr>fd_Body = doc, fd_Removed = [], fd_Unmappable = [], fd_AllRejected = False\<rparr>"

definition rewriteNPMManifest :: "npm_json \<Rightarrow> string \<Rightarrow> string \<Rightarrow> string \<Rightarrow> go_error + filtered_document" where
  "rewriteNPMManifest cd doc name linkBase =
     (case nj_version cd doc of
        Inl err \<Rightarrow> Inl (Wrapped ''decoding npm manifest: '' err [])
      | Inr version \<Rightarrow>
          (case rewriteNPMTarball cd doc linkBase name version of
             NoTarballLink \<Rightarrow> Inr (plain_document doc)
           | Unroutable err \<Rightarrow> Inl (Joined [] (Sentinel ErrNoServableVersions) '': '' err)
           | Routed rewritten \<Rightarrow>
               (case nj_Marshal cd rewritten of
                  Inl err \<Rightarrow> Inl (Wrapped ''encoding npm manifest: '' err [])
                | Inr body \<Rightarrow> Inr (plain_document body))))"

text \<open>The versions map of a packument: what is left of it, what was unmappable and what the decision removes.\<close>

definition npm_mapped :: "npm_json \<Rightarrow> string \<Rightarrow> string \<Rightarrow> json_fields \<Rightarrow> (string \<times> jany) list option" where
  "npm_mapped cd linkBase name versions = map_option (List.map_filter (npm_version_entry cd linkBase name)) versions"

definition npm_unmappable :: "npm_json \<Rightarrow> string \<Rightarrow> string \<Rightarrow> json_fields \<Rightarrow> string list" where
  "npm_unmappable cd linkBase name versions =
     sort (map fst (filter (\<lambda>e. npm_version_entry cd linkBase name e = None) (entries versions)))"

definition npm_removed :: "npm_json \<Rightarrow> version_decider \<Rightarrow> json_fields \<Rightarrow> (string \<times> jany) list option \<Rightarrow> string list" where
  "npm_removed cd decide topf versions =
     (let published = npmPublishDates cd (map_of (entries topf) ''time'') in
      sort (filter (\<lambda>v. \<not> decide v (case published v of None \<Rightarrow> zero_time | Some t \<Rightarrow> t)) (map fst (entries versions))))"

text \<open>The time map loses the entries of the versions that are gone; an undecodable one stays as it is.\<close>

definition npm_times :: "npm_json \<Rightarrow> json_fields \<Rightarrow> string list \<Rightarrow> (string \<times> jany) list option \<Rightarrow> (string \<times> jany) list option" where
  "npm_times cd topf gone doc =
     (case map_of (entries topf) ''time'' of
        None \<Rightarrow> doc
      | Some raw \<Rightarrow>
          (case nj_object cd raw of
             Inl _ \<Rightarrow> doc
           | Inr stamps \<Rightarrow> set_key ''time'' (Obj (npmJSONFields (delete_keys gone stamps))) doc))"

definition npm_FilterVersions ::
  "npm_json \<Rightarrow> string \<Rightarrow> metadata_ref \<Rightarrow> version_decider \<Rightarrow> string \<Rightarrow> go_error + filtered_document" where
  "npm_FilterVersions cd doc ref decide linkBase =
     (if mr_Version ref \<noteq> [] then rewriteNPMManifest cd doc (mr_Name ref) linkBase
      else case nj_object cd doc of
        Inl err \<Rightarrow> Inl (Wrapped ''decoding npm packument: '' err [])
      | Inr topf \<Rightarrow>
     (case map_of (entries topf) ''versions'' of
        None \<Rightarrow> Inr (plain_document doc)
      | Some rawVersions \<Rightarrow>
     (case nj_object cd rawVersions of
        Inl err \<Rightarrow> Inl (Wrapped ''decoding npm packument versions: '' err [])
      | Inr rawVersionMap \<Rightarrow>
          (let mapped = npm_mapped cd linkBase (mr_Name ref) rawVersionMap;
               unmappable = npm_unmappable cd linkBase (mr_Name ref) rawVersionMap
           in if entries rawVersionMap \<noteq> [] \<and> entries mapped = [] then Inl (Sentinel ErrNoServableVersions)
              else
                (let removed = npm_removed cd decide topf mapped;
                     allRejected = (removed \<noteq> [] \<and> length removed = length (entries mapped));
                     gone = unmappable @ (if allRejected then [] else removed);
                     versions = (if allRejected then mapped else delete_keys removed mapped);
                     rewrittenTop = npm_times cd topf gone (set_key ''versions'' (Obj versions) (npmJSONFields topf))
                 in case nj_Marshal cd (Obj rewrittenTop) of
                      Inl err \<Rightarrow> Inl (Wrapped ''encoding npm packument: '' err [])
                    | Inr body \<Rightarrow> Inr \<lparr>fd_Body = body, fd_Removed = removed, fd_Unmappable = unmappable,
                                       fd_AllRejected = allRejected\<rparr>)))))"

end
