(* ===== verification/Registry_Adapters_Correct.thy ===== *)
theory Registry_Adapters_Correct
  imports Npm_Metadata
begin

text \<open>
  What the adapters guarantee about the requests they read: a download request spells out its
  package, so that two of them share a cache slot only when they ask for the same file; names that
  are taken apart are put together again; and the publish date is that of the file requested.
\<close>


section \<open>Occurrences and suffixes\<close>

lemma str_index_Some: "str_index p s = Some i \<Longrightarrow> s = take i s @ p @ drop (i + length p) s"
proof (induction s arbitrary: i)
  case (Cons c s)
  show ?case
  proof (cases "has_prefix (c # s) p")
    case True
    with Cons.prems have "i = 0" "take (length p) (c # s) = p" by (simp_all add: has_prefix_def)
    then show ?thesis by (metis add_0 append_Nil append_take_drop_id take_0)
  next
    case False
    with Cons.prems obtain j where "i = Suc j" "str_index p s = Some j" by auto
    with Cons.IH [of j] show ?thesis by simp
  qed
qed (auto split: if_splits)

lemma trim_suffix_append [simp]: "trim_suffix (s @ p) p = s"
  by (simp add: trim_suffix_def has_suffix_iff suffix_def)

lemma trim_prefix_append [simp]: "trim_prefix (p @ s) p = s"
  by (simp add: trim_prefix_def has_prefix_iff)

lemma trim_prefix_Cons [simp]: "trim_prefix (c # s) [c] = s"
  by (simp add: trim_prefix_def has_prefix_def)

lemma has_suffix_append [simp]: "has_suffix (s @ p) p"
  by (simp add: has_suffix_iff suffix_def)

lemma has_suffixE:
  assumes "has_suffix s p"
  obtains t where "s = t @ p" "trim_suffix s p = t"
  using assms by (auto simp: has_suffix_iff suffix_def)

lemma has_prefix_drop_mem: "has_prefix (drop k s) [c] \<Longrightarrow> c \<in> set s"
  using in_set_dropD [of c k s] by (auto simp: has_prefix_iff prefix_def)

lemma str_last_index_char:
  assumes "c \<notin> set b"
  shows "str_last_index [c] (a @ c # b) = Some (length a)"
proof (rule str_last_index_at)
  fix j assume "length a < j"
  then obtain k where "j = length a + Suc k" using less_iff_Suc_add by auto
  then show "\<not> has_prefix (drop j (a @ c # b)) [c]" using has_prefix_drop_mem [of k b c] assms by auto
qed (auto simp: has_prefix_def)

lemma str_last_index_none: "c \<notin> set s \<Longrightarrow> str_last_index [c] s = None"
  unfolding str_last_index_def using has_prefix_drop_mem [of _ s c] by (auto simp: find_None_iff simp del: upt.simps)

lemma last_segment:
  obtains (plain) "CHR ''/'' \<notin> set s" "str_last_index ''/'' s = None"
  | (split) a b where "s = a @ CHR ''/'' # b" "CHR ''/'' \<notin> set b" "str_last_index ''/'' s = Some (length a)"
proof (cases "CHR ''/'' \<in> set s")
  case True
  then obtain a b where "s = a @ CHR ''/'' # b" "CHR ''/'' \<notin> set b" by (meson split_list_last)
  then show ?thesis using split str_last_index_char [of "CHR ''/''" b a] by simp
next
  case False
  then show ?thesis using plain str_last_index_none [of _ s] by simp
qed

lemma unscoped_name_plain: "CHR ''/'' \<notin> set n \<Longrightarrow> unscoped_name n = n"
  by (simp add: unscoped_name_def str_last_index_none)

lemma unscoped_name_scoped: "CHR ''/'' \<notin> set n \<Longrightarrow> unscoped_name (sc @ CHR ''/'' # n) = n"
  by (simp add: unscoped_name_def str_last_index_char)

section \<open>npm\<close>

lemma str_index_skip:
  "CHR ''/'' \<notin> set a \<Longrightarrow> str_index (CHR ''/'' # p) (a @ t) = map_option (\<lambda>i. i + length a) (str_index (CHR ''/'' # p) t)"
proof (induction a)
  case (Cons c a)
  then have "\<not> has_prefix (c # a @ t) (CHR ''/'' # p)" by (auto simp: has_prefix_def)
  with Cons show ?case by (simp add: option.map_comp comp_def)
qed (simp add: option.map_ident)

lemma str_index_dash:
  assumes "CHR ''/'' \<notin> set a" "a \<noteq> ''-''"
  shows "str_index ''/-/'' (CHR ''/'' # a @ CHR ''/'' # t) = map_option (\<lambda>i. i + length a + 1) (str_index ''/-/'' (CHR ''/'' # t))"
proof -
  have "\<not> has_prefix (CHR ''/'' # a @ CHR ''/'' # t) ''/-/''"
  proof
    assume "has_prefix (CHR ''/'' # a @ CHR ''/'' # t) ''/-/''"
    then have "take 2 (a @ CHR ''/'' # t) = ''-/''" by (simp add: has_prefix_def numeral_eq_Suc)
    then show False using assms by (cases a; cases "tl a") (auto simp: numeral_eq_Suc)
  qed
  then show ?thesis
    using str_index_skip [OF assms(1), of "''-/''" "CHR ''/'' # t"]
    by (simp only: str_index.simps if_False) (simp only: option.map_comp comp_def add_Suc_right add_0_right One_nat_def)
qed

text \<open>Names whose tarball path has no earlier \<^verbatim>\<open>/-/\<close>.\<close>

definition npm_name :: "string \<Rightarrow> bool" where
  "npm_name name \<longleftrightarrow> (CHR ''/'' \<notin> set name \<and> name \<noteq> ''-'') \<or>
     (\<exists>sc n. name = sc @ CHR ''/'' # n \<and> CHR ''/'' \<notin> set sc \<and> CHR ''/'' \<notin> set n \<and> sc \<noteq> ''-'' \<and> n \<noteq> ''-'')"

lemma npm_name_index:
  assumes "npm_name name"
  shows "str_index ''/-/'' (CHR ''/'' # name @ ''/-/'' @ f) = Some (length name + 1)"
  using assms unfolding npm_name_def
proof (elim disjE exE conjE)
  assume "CHR ''/'' \<notin> set name" "name \<noteq> ''-''"
  then show ?thesis using str_index_dash [of name "''-/'' @ f"] str_index_here [of "''/-/''" f] by simp
next
  fix sc n
  assume n: "name = sc @ CHR ''/'' # n" "CHR ''/'' \<notin> set sc" "CHR ''/'' \<notin> set n" "sc \<noteq> ''-''" "n \<noteq> ''-''"
  show ?thesis
    using str_index_dash [OF n(2,4), of "n @ ''/-/'' @ f"] str_index_dash [OF n(3,5), of "''-/'' @ f"]
      str_index_here [of "''/-/''" f] n(1) by simp
qed

text \<open>A canonical tarball path is read back as the package and version it was made for.\<close>

lemma npm_tarball_roundtrip:
  assumes "npmTarballURL linkBase name version = Some u" "npm_name name"
  shows "\<exists>p. u = linkBase @ p \<and> (\<forall>q. rq_Path q = p \<longrightarrow>
    npm_NormalizeRequest q = Some \<lparr>Ecosystem = ''npm'', Name = name, Version = version, Classifier = []\<rparr>)"
proof -
  let ?p = "CHR ''/'' # name @ ''/-/'' @ npm_filename name version"
  have u: "u = linkBase @ ?p" and v: "parseNPMVersion name (npm_filename name version) = Some version"
    using assms(1) by (auto simp: npmTarballURL_def Let_def split: if_splits)
  have "has_suffix ?p ''.tgz''"
    using has_suffix_append [of "CHR ''/'' # name @ ''/-/'' @ unscoped_name name @ ''-'' @ version" "''.tgz''"]
    by (simp add: npm_filename_def)
  then have "npm_NormalizeRequest q = Some \<lparr>Ecosystem = ''npm'', Name = name, Version = version, Classifier = []\<rparr>" if "rq_Path q = ?p" for q
    using npm_name_index [OF assms(2), of "npm_filename name version"] that v by (simp add: npm_NormalizeRequest_def Let_def)
  with u show ?thesis by blast
qed

lemma metadata_request_names:
  assumes "npm_NormalizeMetadataRequest qh r = Some ref" "unscoped_name (mr_Name ref) \<noteq> ''-''"
  shows "npm_name (mr_Name ref)"
proof -
  obtain s where s: "splitNPMMetadataPath s = Some (mr_Name ref, mr_Version ref)"
    using assms(1) by (auto simp: npm_NormalizeMetadataRequest_def split: if_splits option.splits)
  let ?parts = "split_on (CHR ''/'') s"
  have nos: "CHR ''/'' \<notin> set p" if "p \<in> set ?parts" for p using split_on_parts that by metis
  have j: "join_on (CHR ''/'') ?parts = s" by (rule join_split)
  obtain p ps where pp: "?parts = p # ps" by (cases ?parts) auto
  show ?thesis
  proof (cases "has_prefix s ''@''")
    case False
    then have "mr_Name ref = p" "p \<noteq> ''-''"
      using s pp j by (auto simp: splitNPMMetadataPath_def Let_def join_on_def split: if_splits)
    then show ?thesis using nos [of p] pp by (simp add: npm_name_def)
  next
    case True
    then obtain q qs where q: "ps = q # qs" and nm: "mr_Name ref = p @ CHR ''/'' # q" "p \<noteq> ''-''"
      using s pp j by (cases ps) (auto simp: splitNPMMetadataPath_def Let_def join_on_def split: if_splits)
    then have "CHR ''/'' \<notin> set p" "CHR ''/'' \<notin> set q" using nos pp by auto
    moreover from this have "q \<noteq> ''-''" using assms(2) nm by (simp add: unscoped_name_scoped)
    ultimately show ?thesis using nm unfolding npm_name_def by blast
  qed
qed

text \<open>A tarball request spells out its package and version, so each has one path.\<close>

lemma suffix_of_last_part:
  assumes "has_suffix (a @ CHR ''/'' # b) p" "CHR ''/'' \<notin> set p"
  shows "has_suffix b p"
proof -
  have "suffix p (a @ CHR ''/'' # b)" using assms(1) by (simp add: has_suffix_iff)
  then consider "suffix p b" | z where "p = z @ b" "suffix z (a @ ''/'')"
    using suffix_append [of p "a @ ''/''" b] by auto
  then show ?thesis
  proof cases
    case 2
    then have "z = []" using assms(2) by (cases z rule: rev_cases) auto
    with 2 show ?thesis by (simp add: has_suffix_iff)
  qed (simp add: has_suffix_iff)
qed

lemma npm_request_path:
  assumes "npm_NormalizeRequest q = Some ref" "has_prefix (rq_Path q) ''/''" "Name ref \<noteq> []"
  shows "rq_Path q = ''/'' @ Name ref @ ''/-/'' @ npm_filename (Name ref) (Version ref)"
proof -
  let ?p = "rq_Path q"
  obtain i where i: "str_index ''/-/'' ?p = Some i" "has_suffix ?p ''.tgz''"
    and nm: "Name ref = trim_prefix (take i ?p) ''/''" and v: "parseNPMVersion (Name ref) (drop (i + 3) ?p) = Some (Version ref)"
    using assms(1) by (auto simp: npm_NormalizeRequest_def Let_def numeral_eq_Suc split: if_splits option.splits)
  let ?f = "drop (i + 3) ?p"
  have p: "?p = take i ?p @ ''/-/'' @ ?f" using str_index_Some [OF i(1)] by (simp add: numeral_eq_Suc)
  have ti: "take i ?p = ''/'' @ Name ref"
    using assms(2,3) nm by (cases ?p; cases i) (auto simp: has_prefix_def trim_prefix_def)
  have "has_suffix ?f ''.tgz''"
    using suffix_of_last_part [of "take i ?p @ ''/-''" ?f "''.tgz''"] i(2) p by simp
  then obtain b where b: "?f = b @ ''.tgz''" by (rule has_suffixE)
  then have "b = unscoped_name (Name ref) @ ''-'' @ Version ref"
    using v by (auto simp: parseNPMVersion_def Let_def trim_prefix_def has_prefix_iff prefix_def split: if_splits)
  then show ?thesis using p ti b by (simp add: npm_filename_def)
qed

section \<open>Go modules\<close>

lemma case_bytes:
  "is_lower n \<Longrightarrow> is_upper (upper_byte n) \<and> lower_byte (upper_byte n) = n"
  "is_upper c \<Longrightarrow> is_lower (lower_byte c) \<and> upper_byte (lower_byte c) = c"
  by (auto simp: is_lower_def is_upper_def upper_byte_def lower_byte_def of_char_of)

lemma decode_encode: "CHR ''!'' \<notin> set s \<Longrightarrow> decodeGoPath (encodeGoPath s) = Some s"
  by (induction s) (auto simp: case_bytes)

lemma encode_decode:
  "decodeGoPath s = Some t \<Longrightarrow> list_all (\<lambda>c. \<not> is_upper c) s \<Longrightarrow> encodeGoPath t = s"
proof (induction s arbitrary: t rule: decodeGoPath.induct)
  case (2 c s)
  then show ?case by (auto simp: case_bytes split: if_splits list.splits)
qed simp

lemma go_request_path:
  assumes "go_NormalizeRequest q = Some ref" "has_prefix (rq_Path q) ''/''" "list_all (\<lambda>c. \<not> is_upper c) (rq_Path q)"
  shows "rq_Path q = ''/'' @ encodeGoPath (Name ref) @ ''/@v/'' @ encodeGoPath (Version ref) @ ''.zip''"
proof -
  let ?p = "rq_Path q"
  obtain i where i: "str_index ''/@v/'' ?p = Some i" "has_suffix ?p ''.zip''"
    and mo: "decodeGoPath (trim_prefix (take i ?p) ''/'') = Some (Name ref)" "trim_prefix (take i ?p) ''/'' \<noteq> []"
    and v: "decodeGoPath (trim_suffix (drop (i + 4) ?p) ''.zip'') = Some (Version ref)"
    using assms(1) by (auto simp: go_NormalizeRequest_def Let_def numeral_eq_Suc split: if_splits option.splits)
  let ?f = "drop (i + 4) ?p"
  define m where "m = trim_prefix (take i ?p) ''/''"
  have p: "?p = take i ?p @ ''/@v/'' @ ?f" using str_index_Some [OF i(1)] by (simp add: numeral_eq_Suc)
  have ti: "take i ?p = ''/'' @ m"
    using assms(2) mo(2) m_def by (cases ?p; cases i) (auto simp: has_prefix_def trim_prefix_def)
  have "has_suffix ?f ''.zip''"
    using suffix_of_last_part [of "take i ?p @ ''/@v''" ?f "''.zip''"] i(2) p by simp
  then obtain b where b: "?f = b @ ''.zip''" "trim_suffix ?f ''.zip'' = b" by (rule has_suffixE)
  have all: "?p = ''/'' @ m @ ''/@v/'' @ b @ ''.zip''" by (subst p) (simp add: ti b(1))
  then have "list_all (\<lambda>c. \<not> is_upper c) m" "list_all (\<lambda>c. \<not> is_upper c) b"
    using assms(3) by (metis list_all_append)+
  then have "encodeGoPath (Name ref) = m" "encodeGoPath (Version ref) = b"
    using encode_decode [OF mo(1) [folded m_def]] encode_decode [of b "Version ref"] v b(2) by simp_all
  with all show ?thesis by simp
qed

section \<open>Maven\<close>

lemma split_on_append_any: "split_on c (a @ c # b) = split_on c a @ split_on c b"
  by (induction a) (auto split: list.splits)

lemma join_on_Cons: "ps \<noteq> [] \<Longrightarrow> join_on c (p # ps) = p @ c # join_on c ps"
  by (cases ps) (auto simp: join_on_def)

lemma split_join: "ps \<noteq> [] \<Longrightarrow> (\<And>p. p \<in> set ps \<Longrightarrow> c \<notin> set p) \<Longrightarrow> split_on c (join_on c ps) = ps"
proof (induction ps)
  case (Cons p ps)
  then show ?case
    by (cases "ps = []") (auto simp: join_on_def [of c "[p]"] join_on_Cons split_on_append split_on_plain)
qed simp

lemma join_on_inject:
  assumes "join_on c ps = join_on c qs" "ps \<noteq> []" "qs \<noteq> []" "\<forall>p\<in>set ps \<union> set qs. c \<notin> set p"
  shows "ps = qs"
  using assms by (metis UnI1 UnI2 split_join)

text \<open>The standard layout of a repository.\<close>

definition maven_path :: "string list \<Rightarrow> string \<Rightarrow> string \<Rightarrow> string \<Rightarrow> string" where
  "maven_path dirs artifact version file =
     ''/'' @ join_on (CHR ''/'') (dirs @ [artifact, version, file])"

definition maven_file :: "string \<Rightarrow> string \<Rightarrow> string \<Rightarrow> string \<Rightarrow> string" where
  "maven_file artifact version cls ext =
     artifact @ ''-'' @ version @ (if cls = [] then [] else ''-'' @ cls) @ ''.'' @ ext"

definition maven_coordinates :: "string list \<Rightarrow> string \<Rightarrow> string \<Rightarrow> string \<Rightarrow> string \<Rightarrow> bool" where
  "maven_coordinates dirs artifact version cls ext \<longleftrightarrow>
     dirs \<noteq> [] \<and> list_all (\<lambda>d. d \<noteq> [] \<and> CHR ''/'' \<notin> set d \<and> CHR ''.'' \<notin> set d) dirs
     \<and> artifact \<noteq> [] \<and> CHR ''/'' \<notin> set artifact \<and> CHR '':'' \<notin> set artifact
     \<and> version \<noteq> [] \<and> CHR ''/'' \<notin> set version
     \<and> CHR ''/'' \<notin> set cls \<and> CHR ''.'' \<notin> set cls \<and> CHR ''/'' \<notin> set ext"

lemma mavenClassifier_file:
  "CHR ''.'' \<notin> set cls \<Longrightarrow>
   mavenClassifier (maven_file artifact version cls ext) artifact version = (if ext = ''jar'' then cls else cls @ ''.'' @ ext)"
proof -
  assume cls: "CHR ''.'' \<notin> set cls"
  have f: "maven_file artifact version cls ext = (artifact @ ''-'' @ version) @ (if cls = [] then [] else ''-'' @ cls) @ ''.'' @ ext"
    by (simp add: maven_file_def)
  show ?thesis
    unfolding mavenClassifier_def f trim_prefix_append Let_def
    using cut_found [OF cls, of ext] by (auto simp: has_prefix_iff)
qed

lemma parseMavenPath_layout:
  assumes "maven_coordinates dirs artifact version cls ext"
  shows "parseMavenPath (maven_path dirs artifact version (maven_file artifact version cls ext)) =
    (if isMavenSidecar (maven_file artifact version cls ext) then None
     else Some (join_on (CHR ''.'') dirs @ '':'' @ artifact, version, if ext = ''jar'' then cls else cls @ ''.'' @ ext))"
proof -
  let ?f = "maven_file artifact version cls ext"
  let ?segs = "dirs @ [artifact, version, ?f]"
  have c: "dirs \<noteq> []" "CHR ''.'' \<notin> set cls" "artifact \<noteq> []" "version \<noteq> []"
    "\<forall>p\<in>set ?segs. CHR ''/'' \<notin> set p" "\<forall>d\<in>set dirs. d \<noteq> []"
    using assms by (auto simp: maven_coordinates_def maven_file_def list_all_iff)
  have s: "split_on (CHR ''/'') (trim_prefix (maven_path dirs artifact version ?f) ''/'') = ?segs"
    using split_join [of ?segs "CHR ''/''"] c(5) by (simp add: maven_path_def)
  have n: "length ?segs = length dirs + 3" "\<not> length ?segs < 4" using c(1) by (simp_all add: Suc_le_eq numeral_eq_Suc)
  have nth: "?segs ! (length ?segs - 1) = ?f" "?segs ! (length ?segs - 2) = version" "?segs ! (length ?segs - 3) = artifact"
    "take (length ?segs - 3) ?segs = dirs"
    by (simp_all add: nth_append numeral_eq_Suc)
  have g: "join_on (CHR ''.'') dirs \<noteq> []" using c(1,6) by (cases dirs) (auto simp: join_on_def)
  have pre: "has_prefix ?f (artifact @ ''-'')" by (simp add: maven_file_def has_prefix_iff)
  show ?thesis
    unfolding parseMavenPath_def Let_def s nth
    using n g c(3,4) pre mavenClassifier_file [OF c(2)] by simp
qed

lemma same_before_first:
  assumes "a @ c # x = b @ (c :: char) # y" "c \<notin> set a" "c \<notin> set b"
  shows "a = b \<and> x = y"
proof -
  have "(a, x, True) = cut c (a @ c # x)" by (rule cut_found [OF assms(2), symmetric])
  also have "\<dots> = cut c (b @ c # y)" by (simp only: assms(1))
  also have "\<dots> = (b, y, True)" by (rule cut_found [OF assms(3)])
  finally show ?thesis by simp
qed

lemma same_after_last:
  assumes "x @ c # a = y @ (c :: char) # b" "c \<notin> set a" "c \<notin> set b"
  shows "x = y \<and> a = b"
proof -
  have "rev a @ c # rev x = rev b @ c # rev y" using arg_cong [OF assms(1), of rev] by simp
  from same_before_first [OF this] assms(2,3) show ?thesis by simp
qed

lemma classifier_inject:
  assumes "(if e = ''jar'' then c else c @ ''.'' @ e) = (if e' = ''jar'' then c' else c' @ ''.'' @ e')"
    and "CHR ''.'' \<notin> set c" "CHR ''.'' \<notin> set c'"
  shows "c = c' \<and> e = e'"
proof (cases "e = ''jar''"; cases "e' = ''jar''")
  assume "e \<noteq> ''jar''" "e' \<noteq> ''jar''"
  then have "c @ CHR ''.'' # e = c' @ CHR ''.'' # e'" using assms(1) by simp
  then show ?thesis using assms(2,3) by (rule same_before_first)
qed (use assms in auto)

lemma maven_slots:
  assumes "maven_coordinates ds a v c e" "maven_coordinates ds' a' v' c' e'"
    and "maven_NormalizeRequest q = Some ref" "rq_Path q = maven_path ds a v (maven_file a v c e)"
    and "maven_NormalizeRequest q' = Some ref" "rq_Path q' = maven_path ds' a' v' (maven_file a' v' c' e')"
  shows "rq_Path q = rq_Path q'"
proof -
  have ref: "ref = \<lparr>Ecosystem = ''maven'', Name = join_on (CHR ''.'') ds @ '':'' @ a, Version = v,
      Classifier = (if e = ''jar'' then c else c @ ''.'' @ e)\<rparr>"
    "ref = \<lparr>Ecosystem = ''maven'', Name = join_on (CHR ''.'') ds' @ '':'' @ a', Version = v',
      Classifier = (if e' = ''jar'' then c' else c' @ ''.'' @ e')\<rparr>"
    using assms(3-6) parseMavenPath_layout [OF assms(1)] parseMavenPath_layout [OF assms(2)]
    by (auto simp: maven_NormalizeRequest_def split: if_splits)
  have v: "v = v'" and nm: "join_on (CHR ''.'') ds @ '':'' @ a = join_on (CHR ''.'') ds' @ '':'' @ a'"
    and cl: "(if e = ''jar'' then c else c @ ''.'' @ e) = (if e' = ''jar'' then c' else c' @ ''.'' @ e')"
    using ref by auto
  have co: "CHR '':'' \<notin> set a" "CHR '':'' \<notin> set a'" "CHR ''.'' \<notin> set c" "CHR ''.'' \<notin> set c'"
    "ds \<noteq> []" "ds' \<noteq> []" "\<forall>d\<in>set ds \<union> set ds'. CHR ''.'' \<notin> set d"
    using assms(1,2) by (auto simp: maven_coordinates_def list_all_iff)
  have "join_on (CHR ''.'') ds = join_on (CHR ''.'') ds'" "a = a'"
    using same_after_last [OF nm [simplified] co(1,2)] by simp_all
  moreover from this have "ds = ds'" using join_on_inject [OF _ co(5,6,7)] by simp
  moreover have "c = c' \<and> e = e'" by (rule classifier_inject [OF cl co(3,4)])
  ultimately show ?thesis using assms(4,6) v by simp
qed

section \<open>RubyGems\<close>

lemma gem_parts:
  assumes "list_all (\<lambda>s. \<not> digit_led s) (split_on (CHR ''-'') name)" "digit_led number" "CHR ''-'' \<notin> set number"
  shows "takeWhile (\<lambda>s. \<not> digit_led s) (split_on (CHR ''-'') name @ number # after) = split_on (CHR ''-'') name"
    "dropWhile (\<lambda>s. \<not> digit_led s) (split_on (CHR ''-'') name @ number # after) = number # after"
  using assms by (auto simp: list_all_iff takeWhile_append dropWhile_append)

definition gem_file :: "string \<Rightarrow> string \<Rightarrow> string \<Rightarrow> string" where
  "gem_file name number platform = name @ ''-'' @ number @ (if platform = [] then [] else ''-'' @ platform) @ ''.gem''"

lemma gem_file_parsed:
  assumes "name \<noteq> []" "list_all (\<lambda>s. \<not> digit_led s) (split_on (CHR ''-'') name)"
    and "digit_led number" "CHR ''-'' \<notin> set number"
  shows "\<exists>version. parseGemFilename (gem_file name number platform) = Some (name, version)
    \<and> splitGemVersion version = (number, if platform = [] then ''ruby'' else platform)"
proof -
  have f: "gem_file name number platform = (name @ ''-'' @ number @ (if platform = [] then [] else ''-'' @ platform)) @ ''.gem''"
    by (simp add: gem_file_def)
  have t: "split_on (CHR ''-'') (trim_suffix (gem_file name number platform) ''.gem'') =
      split_on (CHR ''-'') name @ number # (if platform = [] then [] else split_on (CHR ''-'') platform)"
    unfolding f trim_suffix_append using split_on_plain [OF assms(4)] by (simp add: split_on_append_any)
  have j: "join_on (CHR ''-'') (split_on (CHR ''-'') name) = name" "join_on (CHR ''-'') (split_on (CHR ''-'') platform) = platform"
    by (rule join_split)+
  have "parseGemFilename (gem_file name number platform) = Some (name, if platform = [] then number else number @ ''-'' @ platform)"
    unfolding parseGemFilename_def Let_def t gem_parts [OF assms(2-4)]
    using assms(1) j by (auto simp: join_on_def [of _ "[]"])
  moreover have "splitGemVersion (if platform = [] then number else number @ ''-'' @ platform) = (number, if platform = [] then ''ruby'' else platform)"
    using cut_found [OF assms(4), of platform] cut_absent [OF assms(4)] by (simp add: splitGemVersion_def)
  ultimately show ?thesis by blast
qed

section \<open>PyPI\<close>

lemma publish_loop_newest:
  assumes "publish_loop cd cls fs acc = Inr (Some t)" "cls \<noteq> []"
  shows "(acc = Some t \<or> (\<exists>f\<in>set fs. pf_Filename f = cls \<and> parsePyPIUploadTime cd (pf_UploadTimeISO f) = Inr t))
    \<and> (\<forall>a. acc = Some a \<longrightarrow> a \<le> t)
    \<and> (\<forall>f\<in>set fs. pf_Filename f = cls \<longrightarrow> (\<exists>u. parsePyPIUploadTime cd (pf_UploadTimeISO f) = Inr u \<and> u \<le> t))"
  using assms
proof (induction cd cls fs acc rule: publish_loop.induct)
  case (2 cd cls f fs acc)
  show ?case
  proof (cases "pf_Filename f = cls")
    case False
    with 2 show ?thesis by auto
  next
    case True
    with 2(3,4) obtain u where u: "parsePyPIUploadTime cd (pf_UploadTimeISO f) = Inr u"
      by (auto split: sum.splits)
    let ?acc = "case acc of None \<Rightarrow> Some u | Some p \<Rightarrow> if p < u then Some u else Some p"
    have "publish_loop cd cls fs ?acc = Inr (Some t)" using 2(3) True u by simp
    from 2(2) [OF _ u this 2(4)] True u show ?thesis by (cases acc) (auto split: if_splits)
  qed
qed simp

lemma metadata_loop_success:
  "metadata_loop sv fetch bases atts = Inr meta \<Longrightarrow> \<exists>base\<in>set bases. fst (fetch base) = Inr meta"
  by (induction bases arbitrary: atts) (auto split: sum.splits prod.splits)

lemma adapter_get_ok:
  "adapter_get sv building fetching u bad = Inr resp \<Longrightarrow> sv_Do sv ''GET'' u no_header [] = Inr resp \<and> rs_StatusCode resp = StatusOK"
  by (auto simp: adapter_get_def split: option.splits sum.splits if_splits)

lemma pypi_request_file:
  assumes "pypi_NormalizeRequest r = Some ref"
  shows "Classifier ref = fst (cut (CHR ''#'') (last (split_on (CHR ''/'') (rq_Path r)))) \<and> Classifier ref \<noteq> []"
proof -
  have "parsePyPIFilename [] = None" by (simp add: parsePyPIFilename_def sdistExts_def has_suffix_def has_prefix_def)
  with assms show ?thesis by (auto simp: pypi_NormalizeRequest_def Let_def split: if_splits option.splits)
qed

section \<open>Cache slots\<close>

text \<open>C29: Two downloads that are read as the same package ask for the same path: for npm, for Go modules
  in the case encoding the protocol prescribes, and for Maven files in the standard layout.
\<close>

theorem downloads_have_their_own_slot:
  assumes "has_prefix (rq_Path q) ''/''" "has_prefix (rq_Path q') ''/''"
  shows "(npm_NormalizeRequest q = Some ref \<and> npm_NormalizeRequest q' = Some ref \<and> Name ref \<noteq> [] \<longrightarrow> rq_Path q = rq_Path q')
    \<and> (go_NormalizeRequest q = Some ref \<and> go_NormalizeRequest q' = Some ref
        \<and> list_all (\<lambda>c. \<not> is_upper c) (rq_Path q @ rq_Path q') \<longrightarrow> rq_Path q = rq_Path q')
    \<and> (maven_NormalizeRequest q = Some ref \<and> maven_NormalizeRequest q' = Some ref
        \<and> maven_coordinates ds a v c e \<and> rq_Path q = maven_path ds a v (maven_file a v c e)
        \<and> maven_coordinates ds' a' v' c' e' \<and> rq_Path q' = maven_path ds' a' v' (maven_file a' v' c' e')
        \<longrightarrow> rq_Path q = rq_Path q')"
proof (intro conjI impI; elim conjE)
  assume "npm_NormalizeRequest q = Some ref" "npm_NormalizeRequest q' = Some ref" "Name ref \<noteq> []"
  then show "rq_Path q = rq_Path q'"
    using npm_request_path [of q ref] npm_request_path [of q' ref] assms by simp
next
  assume "go_NormalizeRequest q = Some ref" "go_NormalizeRequest q' = Some ref"
    "list_all (\<lambda>c. \<not> is_upper c) (rq_Path q @ rq_Path q')"
  then show "rq_Path q = rq_Path q'"
    using go_request_path [of q ref] go_request_path [of q' ref] assms by simp
qed (rule maven_slots)

definition demo_path :: "string \<Rightarrow> http_request" where
  "demo_path p = \<lparr>rq_Method = ''GET'', rq_Path = p, rq_URI = p, rq_Header = no_header, rq_Body = None,
     rq_BodyErr = False, rq_RoutePrefix = []\<rparr>"

lemma demo_path_simps [simp]: "rq_Path (demo_path p) = p" "rq_Method (demo_path p) = ''GET''"
  by (simp_all add: demo_path_def)

theorem downloads_have_their_own_slot_witness:
  "\<exists>ref. npm_NormalizeRequest (demo_path ''/@a/b/-/b-1.tgz'') = Some ref \<and> Name ref \<noteq> []
    \<and> rq_Path (demo_path ''/@a/b/-/b-1.tgz'') = rq_Path ((demo_path ''/@a/b/-/b-1.tgz'')\<lparr>rq_URI := ''/@a%2fb/-/b-1.tgz''\<rparr>)"
proof -
  let ?q = "demo_path ''/@a/b/-/b-1.tgz''" and ?ref = "\<lparr>Ecosystem = ''npm'', Name = ''@a/b'', Version = ''1'', Classifier = []\<rparr>"
  have "npmTarballURL [] ''@a/b'' ''1'' = Some ''/@a/b/-/b-1.tgz''" by code_simp
  moreover have "npm_name ''@a/b''" unfolding npm_name_def by (rule disjI2) (rule exI [of _ "''@a''"], rule exI [of _ "''b''"], simp)
  ultimately have n: "rq_Path q = ''/@a/b/-/b-1.tgz'' \<Longrightarrow> npm_NormalizeRequest q = Some ?ref" for q
    using npm_tarball_roundtrip by fastforce
  have "has_prefix (rq_Path ?q) ''/''" "has_prefix (rq_Path (?q\<lparr>rq_URI := ''/@a%2fb/-/b-1.tgz''\<rparr>)) ''/''"
    by (simp_all add: has_prefix_def)
  from downloads_have_their_own_slot [OF this, of ?ref] show ?thesis
    using n [of ?q] n [of "?q\<lparr>rq_URI := ''/@a%2fb/-/b-1.tgz''\<rparr>"] by auto
qed

text \<open>
  Outside the layout the slots of siblings are not always apart: a classifier that is empty after
  its hyphen is stored like none.
\<close>

theorem maven_siblings_share_a_slot:
  "maven_NormalizeRequest (demo_path ''/g/app/1/app-1.zip'') = maven_NormalizeRequest (demo_path ''/g/app/1/app-1-.zip'')
   \<and> maven_NormalizeRequest (demo_path ''/g/app/1/app-1.zip'') \<noteq> None"
  by code_simp

section \<open>Names\<close>

text \<open>
  The case encoding of the Go protocol is inverted by its decoding, and for a download in that
  encoding the publish date is asked for beside the zip.
\<close>

theorem go_paths_round_trip:
  "(CHR ''!'' \<notin> set s \<longrightarrow> decodeGoPath (encodeGoPath s) = Some s)
   \<and> (go_NormalizeRequest q = Some ref \<and> has_prefix (rq_Path q) ''/'' \<and> list_all (\<lambda>c. \<not> is_upper c) (rq_Path q) \<longrightarrow>
        go_info_url base (encodeGoPath (Name ref)) (encodeGoPath (Version ref)) = base @ trim_suffix (rq_Path q) ''.zip'' @ ''.info'')"
proof (intro conjI impI; (elim conjE)?)
  assume "go_NormalizeRequest q = Some ref" "has_prefix (rq_Path q) ''/''" "list_all (\<lambda>c. \<not> is_upper c) (rq_Path q)"
  then have "rq_Path q = (''/'' @ encodeGoPath (Name ref) @ ''/@v/'' @ encodeGoPath (Version ref)) @ ''.zip''"
    using go_request_path [of q ref] by simp
  then show "go_info_url base (encodeGoPath (Name ref)) (encodeGoPath (Version ref)) = base @ trim_suffix (rq_Path q) ''.zip'' @ ''.info''"
    by (simp only: trim_suffix_append) (simp add: go_info_url_def)
qed (rule decode_encode)

theorem go_paths_round_trip_witness:
  "decodeGoPath (encodeGoPath ''a/B'') = Some ''a/B''
   \<and> go_info_url ''u'' (encodeGoPath ''a/B'') (encodeGoPath ''v1'') = ''u/a/!b/@v/v1.info''"
proof
  show "decodeGoPath (encodeGoPath ''a/B'') = Some ''a/B''" using go_paths_round_trip [of "''a/B''"] by simp
  have q: "go_NormalizeRequest (demo_path ''/a/!b/@v/v1.zip'') = Some \<lparr>Ecosystem = ''go'', Name = ''a/B'', Version = ''v1'', Classifier = []\<rparr>"
    "has_prefix ''/a/!b/@v/v1.zip'' ''/''" "list_all (\<lambda>c. \<not> is_upper c) ''/a/!b/@v/v1.zip''" "trim_suffix ''/a/!b/@v/v1.zip'' ''.zip'' = ''/a/!b/@v/v1''"
    by code_simp+
  show "go_info_url ''u'' (encodeGoPath ''a/B'') (encodeGoPath ''v1'') = ''u/a/!b/@v/v1.info''"
    using go_paths_round_trip [of "[]" "demo_path ''/a/!b/@v/v1.zip''" "\<lparr>Ecosystem = ''go'', Name = ''a/B'', Version = ''v1'', Classifier = []\<rparr>" "''u''"] q by simp
qed

text \<open>
  A gem's file name is taken apart into its name and a version that gives back number and
  platform, and the publish date is that of an entry with this number and platform.
\<close>

lemma gem_loop_entry:
  "gem_version_loop cd name number platform vs = Inr meta \<Longrightarrow>
    \<exists>v\<in>set vs. rv_Number v = number \<and> rv_Platform v = platform \<and> gd_RFC3339 cd (rv_CreatedAt v) = Inr (pm_PublishedAt meta)"
  by (induction vs) (auto split: if_splits sum.splits)

theorem gem_files_are_dated:
  assumes "name \<noteq> []" "list_all (\<lambda>s. \<not> digit_led s) (split_on (CHR ''-'') name)" "digit_led number" "CHR ''-'' \<notin> set number"
    and "parseGemFilename (gem_file name number platform) = Some (n, version)"
    and "gem_FetchMetadata a sv cd \<lparr>Ecosystem = ''rubygems'', Name = n, Version = version, Classifier = []\<rparr> = Inr meta"
  shows "\<exists>base\<in>set (ra_upstreams a). \<exists>resp vs v. sv_Do sv ''GET'' (base @ ''/api/v1/versions/'' @ name @ ''.json'') no_header [] = Inr resp
    \<and> gd_versions cd (rs_Body resp) (rs_BodyErr resp) = Inr vs \<and> v \<in> set vs \<and> rv_Number v = number
    \<and> rv_Platform v = (if platform = [] then ''ruby'' else platform) \<and> gd_RFC3339 cd (rv_CreatedAt v) = Inr (pm_PublishedAt meta)"
proof -
  let ?ref = "\<lparr>Ecosystem = ''rubygems'', Name = n, Version = version, Classifier = []\<rparr>"
  have n: "n = name" "splitGemVersion version = (number, if platform = [] then ''ruby'' else platform)"
    using gem_file_parsed [OF assms(1-4), of platform] assms(5) by auto
  obtain base where base: "base \<in> set (ra_upstreams a)" "fst (gem_fetchMetadataFrom sv cd ?ref base) = Inr meta"
    using metadata_loop_success [of sv "gem_fetchMetadataFrom sv cd ?ref" "ra_upstreams a" "[]" meta] assms(6)
    by (auto simp: gem_FetchMetadata_def split: if_splits)
  then obtain resp vs where "sv_Do sv ''GET'' (base @ ''/api/v1/versions/'' @ name @ ''.json'') no_header [] = Inr resp"
    "gd_versions cd (rs_Body resp) (rs_BodyErr resp) = Inr vs"
    "gem_version_loop cd name number (if platform = [] then ''ruby'' else platform) vs = Inr meta"
    using n by (auto simp: gem_fetchMetadataFrom_def Let_def split: sum.splits prod.splits dest!: adapter_get_ok)
  with base(1) gem_loop_entry show ?thesis by blast
qed

section \<open>Dates of PyPI files\<close>

text \<open>
  The age of a PyPI download is the age of the newest upload of the very file that was requested,
  as one of the mirrors lists it.
\<close>

theorem pypi_dates_the_requested_file:
  assumes "pypi_NormalizeRequest r = Some ref" "pypi_FetchMetadata a sv cd ref = Inr meta"
    and "file = fst (cut (CHR ''#'') (last (split_on (CHR ''/'') (rq_Path r))))"
  shows "\<exists>base\<in>set (ra_upstreams a). \<exists>resp info.
      sv_Do sv ''GET'' (base @ ''/pypi/'' @ Name ref @ ''/'' @ Version ref @ ''/json'') no_header [] = Inr resp \<and> rs_StatusCode resp = 200
    \<and> pd_response cd (rs_Body resp) (rs_BodyErr resp) = Inr info
    \<and> (\<exists>f\<in>set (pr_URLs info). pf_Filename f = file \<and> parsePyPIUploadTime cd (pf_UploadTimeISO f) = Inr (pm_PublishedAt meta))
    \<and> (\<forall>f\<in>set (pr_URLs info). pf_Filename f = file \<longrightarrow>
         (\<exists>t. parsePyPIUploadTime cd (pf_UploadTimeISO f) = Inr t \<and> t \<le> pm_PublishedAt meta))"
proof -
  have cl: "Classifier ref = file" "Classifier ref \<noteq> []" using pypi_request_file [OF assms(1)] assms(3) by auto
  obtain base where base: "base \<in> set (ra_upstreams a)" "fst (pypi_fetchMetadataFrom sv cd ref base) = Inr meta"
    using metadata_loop_success [of sv "pypi_fetchMetadataFrom sv cd ref" "ra_upstreams a" "[]" meta] assms(2)
    by (auto simp: pypi_FetchMetadata_def split: if_splits)
  then obtain resp info t where "sv_Do sv ''GET'' (base @ ''/pypi/'' @ Name ref @ ''/'' @ Version ref @ ''/json'') no_header [] = Inr resp \<and> rs_StatusCode resp = 200"
    "pd_response cd (rs_Body resp) (rs_BodyErr resp) = Inr info" and l: "publish_loop cd file (pr_URLs info) None = Inr (Some t)" "t = pm_PublishedAt meta"
    using cl by (auto simp: pypi_fetchMetadataFrom_def Let_def split: sum.splits prod.splits if_splits option.splits dest!: adapter_get_ok)
  with base(1) publish_loop_newest [OF l(1)] cl show ?thesis by auto
qed

text \<open>A mirror that answers every request with the same body, and decoders for one release.\<close>

definition one_answer :: "string \<Rightarrow> services" where
  "one_answer body = \<lparr>sv_NewRequest = (\<lambda>_. None),
     sv_Do = (\<lambda>_ _ _ _. Inr \<lparr>rs_StatusCode = 200, rs_Header = no_header, rs_ContentLength = 0, rs_Body = body, rs_BodyErr = False\<rparr>),
     sv_CreateTemp = (\<lambda>_. Inr ''t''), sv_WriteErr = (\<lambda>_. None), sv_Since = (\<lambda>_. 0), sv_url_Parse = (\<lambda>_. None), sv_url_String = (\<lambda>_. [])\<rparr>"

definition one_release :: pypi_decoders where
  "one_release = \<lparr>pd_response = (\<lambda>_ _. Inr \<lparr>pr_Author = [], pr_License = [],
       pr_URLs = [\<lparr>pf_Filename = ''a-1.zip'', pf_UploadTimeISO = ''old''\<rparr>, \<lparr>pf_Filename = ''a-1.whl'', pf_UploadTimeISO = ''new''\<rparr>]\<rparr>),
     pd_RFC3339 = (\<lambda>s. Inr (if s = ''new'' then 9 else 5)), pd_micros = (\<lambda>s. Inl (Plain s))\<rparr>"

theorem pypi_dates_the_requested_file_witness:
  "\<exists>ref meta. pypi_NormalizeRequest (demo_path ''/packages/a-1.whl'') = Some ref
    \<and> pypi_FetchMetadata (NewPyPIAdapter [''u/'']) (one_answer []) one_release ref = Inr meta \<and> pm_PublishedAt meta = 9"
proof -
  let ?ref = "\<lparr>Ecosystem = ''pypi'', Name = ''a'', Version = ''1'', Classifier = ''a-1.whl''\<rparr>"
  let ?meta = "\<lparr>pm_PublishedAt = 9, pm_Maintainer = [], pm_License = []\<rparr>"
  have n: "pypi_NormalizeRequest (demo_path ''/packages/a-1.whl'') = Some ?ref" by code_simp
  have m: "pypi_FetchMetadata (NewPyPIAdapter [''u/'']) (one_answer []) one_release ?ref = Inr ?meta" by code_simp
  have f: "fst (cut (CHR ''#'') (last (split_on (CHR ''/'') (rq_Path (demo_path ''/packages/a-1.whl''))))) = ''a-1.whl''" by code_simp
  have "\<exists>f\<in>set [\<lparr>pf_Filename = ''a-1.zip'', pf_UploadTimeISO = ''old''\<rparr>, \<lparr>pf_Filename = ''a-1.whl'', pf_UploadTimeISO = ''new''\<rparr>].
      pf_Filename f = ''a-1.whl'' \<and> parsePyPIUploadTime one_release (pf_UploadTimeISO f) = Inr (pm_PublishedAt ?meta)"
    using pypi_dates_the_requested_file [OF n m f [symmetric]] by (auto simp: one_release_def)
  then have "pm_PublishedAt ?meta = 9" by (auto simp: parsePyPIUploadTime_def one_release_def)
  with n m show ?thesis by blast
qed

definition one_gem :: gem_decoders where
  "one_gem = \<lparr>gd_versions = (\<lambda>_ _. Inr [\<lparr>rv_Number = ''1'', rv_Platform = ''ruby'', rv_CreatedAt = ''new'', rv_Licenses = []\<rparr>]),
     gd_RFC3339 = (\<lambda>s. Inr 9)\<rparr>"

theorem gem_files_are_dated_witness:
  "parseGemFilename (gem_file ''a-b'' ''1'' []) = Some (''a-b'', ''1'')
   \<and> (\<exists>base\<in>set (ra_upstreams (NewRubyGemsAdapter [''u''])). \<exists>resp vs v. sv_Do (one_answer []) ''GET'' (base @ ''/api/v1/versions/a-b.json'') no_header [] = Inr resp
    \<and> gd_versions one_gem (rs_Body resp) (rs_BodyErr resp) = Inr vs \<and> v \<in> set vs \<and> rv_Number v = ''1'' \<and> rv_Platform v = ''ruby'')"
proof -
  have a: "''a-b'' \<noteq> []" "list_all (\<lambda>s. \<not> digit_led s) (split_on (CHR ''-'') ''a-b'')" "digit_led ''1''" "CHR ''-'' \<notin> set ''1''"
    "parseGemFilename (gem_file ''a-b'' ''1'' []) = Some (''a-b'', ''1'')"
    "gem_FetchMetadata (NewRubyGemsAdapter [''u'']) (one_answer []) one_gem \<lparr>Ecosystem = ''rubygems'', Name = ''a-b'', Version = ''1'', Classifier = []\<rparr> =
       Inr \<lparr>pm_PublishedAt = 9, pm_Maintainer = [], pm_License = []\<rparr>"
    by code_simp+
  from gem_files_are_dated [OF a] a(5) show ?thesis by auto
qed

end
