(* ===== verification/Npm_Metadata_Correct.thy ===== *)
theory Npm_Metadata_Correct
  imports Registry_Adapters_Correct
begin

text \<open>
  What a client of the npm registry sees: a packument lists a version only with a link that this proxy
  takes for a download of exactly that version, or without any link, and hides exactly what the
  decision rejects or what cannot be linked.
\<close>

section \<open>Gated links\<close>








section \<open>Packuments\<close>










end
