(* ===== verification/Pypi_Index.thy ===== *)
theory Pypi_Index
  imports Registry_Adapters
begin

text \<open>
  Rewriting of the PyPI index, \<^verbatim>\<open>internal/proxy/adapters/pypi_index.go\<close>. The HTML tokenizer and the JSON
  codec are parameters, as are \<^verbatim>\<open>url.Parse\<close>, \<^verbatim>\<open>ResolveReference\<close> and \<^verbatim>\<open>mime.ParseMediaType\<close>; \<^verbatim>\<open>path.Clean\<close> of a rooted path and
  \<^verbatim>\<open>EscapedPath\<close> of a plain path are defined here. The link rewriter's tallies are its state.
\<close>

section \<open>Which requests and which parser\<close>

text \<open>\<^verbatim>\<open>^/pypi/[^/]+(/[^/]+)?/json/?$\<close>\<close>

definition pypiJSONAPIRe :: "string \<Rightarrow> bool" where
  "pypiJSONAPIRe path =
     (case split_on (CHR ''/'') path of
        [a, b, c, d] \<Rightarrow> a = [] \<and> b = ''pypi'' \<and> c \<noteq> [] \<and> d = ''json''
      | [a, b, c, d, e] \<Rightarrow> a = [] \<and> b = ''pypi'' \<and> c \<noteq> [] \<and> (d = ''json'' \<and> e = [] \<or> d \<noteq> [] \<and> e = ''json'')
      | [a, b, c, d, e, f] \<Rightarrow> a = [] \<and> b = ''pypi'' \<and> c \<noteq> [] \<and> d \<noteq> [] \<and> e = ''json'' \<and> f = []
      | _ \<Rightarrow> False)"

definition IsIndexRequest :: "http_request \<Rightarrow> bool" where
  "IsIndexRequest r \<longleftrightarrow> has_prefix (rq_Path r) ''/simple/'' \<or> pypiJSONAPIRe (rq_Path r)"

datatype docKind = kindHTML | kindJSONSimple | kindJSONAPI

definition indexKind :: "(string \<Rightarrow> go_error + string) \<Rightarrow> string \<Rightarrow> string \<Rightarrow> go_error + docKind" where
  "indexKind ParseMediaType contentType requestPath =
     (if pypiJSONAPIRe requestPath then Inr kindJSONAPI
      else case (if contentType = [] then Inr [] else
                   case ParseMediaType contentType of
                     Inl err \<Rightarrow> Inl (Wrapped (''parsing index content type '' @ quoted contentType @ '': '') err [])
                   | Inr parsed \<Rightarrow> Inr (to_lower parsed)) of
        Inl err \<Rightarrow> Inl err
      | Inr mt \<Rightarrow>
          if mt = [] \<or> mt = ''text/html'' \<or> mt = ''application/vnd.pypi.simple.v1+html'' then Inr kindHTML
          else if mt = ''application/json'' \<or> has_suffix mt ''+json'' then Inr kindJSONSimple
          else Inl (Plain (''unexpected index content type '' @ quoted contentType)))"

definition proxyHost :: string where "proxyHost = ''proxy.joei.invalid''"

text \<open>The directory of a path: everything up to its last slash.\<close>

definition path_dir :: "string \<Rightarrow> string" where
  "path_dir p =
     (if has_suffix p ''/'' then p
      else case str_last_index ''/'' p of None \<Rightarrow> [] | Some i \<Rightarrow> take (i + 1) p)"

definition dirDepth :: "string \<Rightarrow> nat" where
  "dirDepth requestPath =
     (let trimmed = trim_set ''/'' (path_dir requestPath) in
      if trimmed = [] then 0 else length (filter (\<lambda>c. c = CHR ''/'') trimmed) + 1)"

section \<open>Paths and links\<close>

text \<open>\<^verbatim>\<open>path.Clean\<close> of a path that begins with a slash: segments are kept on a stack.\<close>

definition clean_step :: "string list \<Rightarrow> string \<Rightarrow> string list" where
  "clean_step stack seg =
     (if seg = [] \<or> seg = ''.'' then stack
      else if seg = ''..'' then butlast stack
      else stack @ [seg])"

definition clean_segments :: "string list \<Rightarrow> string list" where
  "clean_segments segs = foldl clean_step [] segs"

definition path_Clean :: "string \<Rightarrow> string" where
  "path_Clean p = ''/'' @ join_on (CHR ''/'') (clean_segments (split_on (CHR ''/'') p))"

definition upper_hex :: "nat \<Rightarrow> char" where
  "upper_hex n = (if n < 10 then char_of (48 + n) else char_of (55 + n))"

definition path_char :: "char \<Rightarrow> bool" where
  "path_char c \<longleftrightarrow> is_digit c \<or> is_upper c \<or> is_lower c \<or> c \<in> set ''-_.~$&+,/:;=@''"

definition escape_byte :: "char \<Rightarrow> string" where
  "escape_byte c =
     (if path_char c then [c] else [CHR ''%'', upper_hex (of_char c div 16), upper_hex (of_char c mod 16)])"

definition EscapedPath :: "string \<Rightarrow> string" where
  "EscapedPath p = (if p = ''*'' then ''*'' else concat (map escape_byte p))"

definition normalizeLink :: "string \<Rightarrow> string" where
  "normalizeLink raw =
     (let low = (\<lambda>c. (of_char c :: nat) \<le> 32);
          s = rev (dropWhile low (rev (dropWhile low raw)))
      in map (\<lambda>c. if c = CHR 0x5C then CHR ''/'' else c)
           (filter (\<lambda>c. c \<noteq> CHR 0x09 \<and> c \<noteq> CHR 0x0D \<and> c \<noteq> CHR 0x0A) s))"

record link_url =
  lu_Scheme :: string
  lu_Opaque :: string
  lu_User :: "string option"
  lu_Host :: string
  lu_Path :: string
  lu_RawQuery :: string
  lu_Fragment :: string
  lu_EscapedFragment :: string

record link_codec =
  lk_Parse :: "string \<Rightarrow> link_url option"
  lk_ResolveReference :: "link_url \<Rightarrow> link_url \<Rightarrow> link_url"

record link_rewriter =
  lr_prefix :: string
  lr_base :: link_url
  lr_rewritten :: nat
  lr_dropped :: "string list"

definition resolve_link :: "link_codec \<Rightarrow> link_rewriter \<Rightarrow> string \<Rightarrow> string option" where
  "resolve_link lk l raw =
     (let norm = normalizeLink raw in
      case lk_Parse lk norm of
        None \<Rightarrow> None
      | Some u \<Rightarrow>
          if lu_Opaque u \<noteq> [] \<or> lu_User u \<noteq> None then None
          else if lu_Scheme u \<noteq> [] \<and>
            ((lu_Scheme u \<noteq> ''http'' \<and> lu_Scheme u \<noteq> ''https'') \<or> lu_Host u = [] \<or>
             \<not> has_prefix (to_lower norm) (lu_Scheme u @ ''://'')) then None
          else
            (let target = lk_ResolveReference lk (lr_base l) u; clean = path_Clean (lu_Path target) in
             if \<not> has_prefix clean ''/packages/'' then None
             else Some (lr_prefix l @ trim_prefix (EscapedPath clean) ''/''
               @ (if lu_RawQuery target \<noteq> [] then ''?'' @ lu_RawQuery target else [])
               @ (if lu_Fragment target \<noteq> [] then ''#'' @ lu_EscapedFragment target else []))))"

definition mapLink :: "link_codec \<Rightarrow> link_rewriter \<Rightarrow> string \<Rightarrow> string option \<times> link_rewriter" where
  "mapLink lk l raw =
     (case resolve_link lk l raw of
        None \<Rightarrow> (None, l\<lparr>lr_dropped := lr_dropped l @ [raw]\<rparr>)
      | Some mapped \<Rightarrow> (Some mapped, if mapped \<noteq> raw then l\<lparr>lr_rewritten := lr_rewritten l + 1\<rparr> else l))"

section \<open>HTML\<close>

text \<open>
  A token of the page: markup copied as it is, or a start tag with its raw text, its name and its
  attributes (namespace, key, value). The tokenizer ends with an error other than the end of the document, or none.
\<close>

record html_attr =
  ha_Namespace :: string
  ha_Key :: string
  ha_Val :: string

datatype html_token = OtherToken string | TagToken string string "html_attr list"

record html_codec =
  hx_tokens :: "string \<Rightarrow> html_token list \<times> go_error option"
  hx_String :: "string \<Rightarrow> html_attr list \<Rightarrow> html_token \<Rightarrow> string"

text \<open>The attributes of an anchor: whether all its links can be mapped, and the attributes with the mapped ones.\<close>

fun map_hrefs ::
  "link_codec \<Rightarrow> html_attr list \<Rightarrow> link_rewriter \<Rightarrow> bool \<times> html_attr list \<times> link_rewriter" where
  "map_hrefs lk [] l = (True, [], l)"
| "map_hrefs lk (a # as) l =
     (if ha_Namespace a \<noteq> [] \<or> ha_Key a \<noteq> ''href''
      then case map_hrefs lk as l of (keep, bs, l2) \<Rightarrow> (keep, a # bs, l2)
      else case mapLink lk l (ha_Val a) of
        (None, l1) \<Rightarrow> (case map_hrefs lk as l1 of (keep, bs, l2) \<Rightarrow> (False, a # bs, l2))
      | (Some mapped, l1) \<Rightarrow> (case map_hrefs lk as l1 of (keep, bs, l2) \<Rightarrow> (keep, a\<lparr>ha_Val := mapped\<rparr> # bs, l2)))"

text \<open>What is written for each token: its raw text, or an anchor rendered with its attributes.\<close>

datatype html_piece = Copied html_token | Anchor "html_attr list" html_token

definition html_step :: "link_codec \<Rightarrow> html_token \<Rightarrow> link_rewriter \<Rightarrow> html_piece list \<times> link_rewriter" where
  "html_step lk tok l =
     (case tok of
        OtherToken raw \<Rightarrow> ([Copied tok], l)
      | TagToken raw name attrs \<Rightarrow>
          if name = ''base'' then ([], l)
          else if name = ''a''
          then case map_hrefs lk attrs l of (keep, bs, l1) \<Rightarrow> (if keep then [Anchor bs tok] else [], l1)
          else ([Copied tok], l))"

fun html_loop :: "link_codec \<Rightarrow> html_token list \<Rightarrow> link_rewriter \<Rightarrow> html_piece list \<times> link_rewriter" where
  "html_loop lk [] l = ([], l)"
| "html_loop lk (t # ts) l =
     (case html_step lk t l of (ps, l1) \<Rightarrow> (case html_loop lk ts l1 of (qs, l2) \<Rightarrow> (ps @ qs, l2)))"

definition token_raw :: "html_token \<Rightarrow> string" where
  "token_raw t = (case t of OtherToken raw \<Rightarrow> raw | TagToken raw _ _ \<Rightarrow> raw)"

definition piece_text :: "html_codec \<Rightarrow> html_piece \<Rightarrow> string" where
  "piece_text hx p = (case p of Copied t \<Rightarrow> token_raw t | Anchor attrs t \<Rightarrow> hx_String hx ''a'' attrs t)"

definition rewrite_html :: "link_codec \<Rightarrow> html_codec \<Rightarrow> string \<Rightarrow> link_rewriter \<Rightarrow> (go_error + string) \<times> link_rewriter" where
  "rewrite_html lk hx doc l =
     (case hx_tokens hx doc of (toks, err) \<Rightarrow>
      case html_loop lk toks l of (pieces, l1) \<Rightarrow>
      (case err of
         None \<Rightarrow> Inr (concat (map (piece_text hx) pieces))
       | Some e \<Rightarrow> Inl (Wrapped ''tokenizing index: '' e []),
       l1))"

section \<open>JSON\<close>

text \<open>
  Raw messages are bytes. An object is the list of its entries, or \<open>None\<close> for the nil map; an array of objects decodes
  to a list of those. \<^verbatim>\<open>json.Marshal\<close> of a string, of an object and of an array of objects.
\<close>

type_synonym raw_object = "(string \<times> string) list option"

record index_json =
  ij_object :: "string \<Rightarrow> go_error + raw_object"
  ij_array :: "string \<Rightarrow> go_error + raw_object list option"
  ij_string :: "string \<Rightarrow> go_error + string"
  ij_MarshalString :: "string \<Rightarrow> go_error + string"
  ij_MarshalObject :: "raw_object \<Rightarrow> go_error + string"
  ij_MarshalArray :: "raw_object list option \<Rightarrow> go_error + string"

definition raw_fields :: "raw_object \<Rightarrow> (string \<times> string) list" where
  "raw_fields m = (case m of None \<Rightarrow> [] | Some es \<Rightarrow> es)"

definition put_field :: "string \<Rightarrow> string \<Rightarrow> raw_object \<Rightarrow> raw_object" where
  "put_field k v m = map_option (AList.update k v) m"

text \<open>One file: kept, dropped, or an error.\<close>

definition file_step ::
  "link_codec \<Rightarrow> index_json \<Rightarrow> raw_object \<Rightarrow> link_rewriter \<Rightarrow> (go_error + raw_object option) \<times> link_rewriter" where
  "file_step lk ij f l =
     (case map_of (raw_fields f) ''url'' of
        None \<Rightarrow> (Inr (Some f), l)
      | Some rawURL \<Rightarrow>
          (case ij_string ij rawURL of
             Inl err \<Rightarrow> (Inl (Wrapped ''file url: '' err []), l)
           | Inr link \<Rightarrow>
               (case mapLink lk l link of
                  (None, l1) \<Rightarrow> (Inr None, l1)
                | (Some mapped, l1) \<Rightarrow>
                    if mapped \<noteq> link
                    then (case ij_MarshalString ij mapped of
                            Inl err \<Rightarrow> (Inl err, l1)
                          | Inr b \<Rightarrow> (Inr (Some (put_field ''url'' b f)), l1))
                    else (Inr (Some f), l1))))"

fun file_loop ::
  "link_codec \<Rightarrow> index_json \<Rightarrow> raw_object list \<Rightarrow> link_rewriter \<Rightarrow> (go_error + raw_object list) \<times> link_rewriter" where
  "file_loop lk ij [] l = (Inr [], l)"
| "file_loop lk ij (f # fs) l =
     (case file_step lk ij f l of
        (Inl err, l1) \<Rightarrow> (Inl err, l1)
      | (Inr kept, l1) \<Rightarrow>
          (case file_loop lk ij fs l1 of
             (Inl err, l2) \<Rightarrow> (Inl err, l2)
           | (Inr rest, l2) \<Rightarrow> (Inr (case kept of None \<Rightarrow> rest | Some g \<Rightarrow> g # rest), l2)))"

definition fileList ::
  "link_codec \<Rightarrow> index_json \<Rightarrow> string \<Rightarrow> link_rewriter \<Rightarrow> (go_error + string) \<times> link_rewriter" where
  "fileList lk ij raw l =
     (case ij_array ij raw of
        Inl err \<Rightarrow> (Inl err, l)
      | Inr None \<Rightarrow> (ij_MarshalArray ij None, l)
      | Inr (Some files) \<Rightarrow>
          (case file_loop lk ij files l of
             (Inl err, l1) \<Rightarrow> (Inl err, l1)
           | (Inr kept, l1) \<Rightarrow> (ij_MarshalArray ij (Some kept), l1)))"

text \<open>A field of the document that holds files, rewritten in place when it is there.\<close>

definition rewrite_files ::
  "link_codec \<Rightarrow> index_json \<Rightarrow> string \<Rightarrow> string \<Rightarrow> raw_object \<Rightarrow> link_rewriter \<Rightarrow> (go_error + raw_object) \<times> link_rewriter" where
  "rewrite_files lk ij key ctx topf l =
     (case map_of (raw_fields topf) key of
        None \<Rightarrow> (Inr topf, l)
      | Some raw \<Rightarrow>
          (case fileList lk ij raw l of
             (Inl err, l1) \<Rightarrow> (Inl (Wrapped ctx err []), l1)
           | (Inr files, l1) \<Rightarrow> (Inr (put_field key files topf), l1)))"

definition jsonSimple :: "link_codec \<Rightarrow> index_json \<Rightarrow> string \<Rightarrow> link_rewriter \<Rightarrow> (go_error + string) \<times> link_rewriter" where
  "jsonSimple lk ij doc l =
     (case ij_object ij doc of
        Inl err \<Rightarrow> (Inl (Wrapped ''decoding simple index: '' err []), l)
      | Inr topf \<Rightarrow>
          (case rewrite_files lk ij ''files'' ''decoding simple index files: '' topf l of
             (Inl err, l1) \<Rightarrow> (Inl err, l1)
           | (Inr top1, l1) \<Rightarrow> (ij_MarshalObject ij top1, l1)))"

fun release_loop ::
  "link_codec \<Rightarrow> index_json \<Rightarrow> (string \<times> string) list \<Rightarrow> link_rewriter \<Rightarrow> (go_error + (string \<times> string) list) \<times> link_rewriter" where
  "release_loop lk ij [] l = (Inr [], l)"
| "release_loop lk ij ((v, files) # rs) l =
     (case fileList lk ij files l of
        (Inl err, l1) \<Rightarrow> (Inl (Wrapped (''decoding json api release '' @ quoted v @ '': '') err []), l1)
      | (Inr out, l1) \<Rightarrow>
          (case release_loop lk ij rs l1 of
             (Inl err, l2) \<Rightarrow> (Inl err, l2)
           | (Inr rest, l2) \<Rightarrow> (Inr ((v, out) # rest), l2)))"

definition rewrite_releases ::
  "link_codec \<Rightarrow> index_json \<Rightarrow> raw_object \<Rightarrow> link_rewriter \<Rightarrow> (go_error + raw_object) \<times> link_rewriter" where
  "rewrite_releases lk ij topf l =
     (case map_of (raw_fields topf) ''releases'' of
        None \<Rightarrow> (Inr topf, l)
      | Some raw \<Rightarrow>
          (case ij_object ij raw of
             Inl err \<Rightarrow> (Inl (Wrapped ''decoding json api releases: '' err []), l)
           | Inr releases \<Rightarrow>
               (case release_loop lk ij (raw_fields releases) l of
                  (Inl err, l1) \<Rightarrow> (Inl err, l1)
                | (Inr out, l1) \<Rightarrow>
                    (case ij_MarshalObject ij (map_option (\<lambda>_. out) releases) of
                       Inl err \<Rightarrow> (Inl err, l1)
                     | Inr b \<Rightarrow> (Inr (put_field ''releases'' b topf), l1)))))"

definition jsonAPI :: "link_codec \<Rightarrow> index_json \<Rightarrow> string \<Rightarrow> link_rewriter \<Rightarrow> (go_error + string) \<times> link_rewriter" where
  "jsonAPI lk ij doc l =
     (case ij_object ij doc of
        Inl err \<Rightarrow> (Inl (Wrapped ''decoding json api document: '' err []), l)
      | Inr topf \<Rightarrow>
          (case rewrite_files lk ij ''urls'' ''decoding json api urls: '' topf l of
             (Inl err, l1) \<Rightarrow> (Inl err, l1)
           | (Inr top1, l1) \<Rightarrow>
               (case rewrite_releases lk ij top1 l1 of
                  (Inl err, l2) \<Rightarrow> (Inl err, l2)
                | (Inr top2, l2) \<Rightarrow> (ij_MarshalObject ij top2, l2))))"

section \<open>The rewriter\<close>

record index_codecs =
  ic_links :: link_codec
  ic_html :: html_codec
  ic_json :: index_json
  ic_ParseMediaType :: "string \<Rightarrow> go_error + string"

definition new_rewriter :: "string \<Rightarrow> link_rewriter" where
  "new_rewriter requestPath =
     \<lparr>lr_prefix = concat (replicate (dirDepth requestPath) ''../''),
      lr_base = \<lparr>lu_Scheme = ''http'', lu_Opaque = [], lu_User = None, lu_Host = proxyHost, lu_Path = requestPath,
        lu_RawQuery = [], lu_Fragment = [], lu_EscapedFragment = []\<rparr>,
      lr_rewritten = 0, lr_dropped = []\<rparr>"

definition RewriteIndex :: "index_codecs \<Rightarrow> string \<Rightarrow> string \<Rightarrow> string \<Rightarrow> go_error + index_rewrite" where
  "RewriteIndex ic doc contentType requestPath =
     (let rw = new_rewriter requestPath in
      case indexKind (ic_ParseMediaType ic) contentType requestPath of
        Inl kerr \<Rightarrow> Inl kerr
      | Inr kind \<Rightarrow>
          (case (case kind of
                   kindJSONAPI \<Rightarrow> jsonAPI (ic_links ic) (ic_json ic) doc rw
                 | kindJSONSimple \<Rightarrow> jsonSimple (ic_links ic) (ic_json ic) doc rw
                 | kindHTML \<Rightarrow> rewrite_html (ic_links ic) (ic_html ic) doc rw) of
             (Inl err, l) \<Rightarrow> Inl err
           | (Inr body, l) \<Rightarrow> Inr \<lparr>ir_Body = body, ir_Rewritten = lr_rewritten l, ir_Dropped = lr_dropped l\<rparr>))"

end
