(* ===== verification/Pypi_Index_Correct.thy ===== *)
theory Pypi_Index_Correct
  imports Pypi_Index Registry_Adapters_Correct
begin

text \<open>
  What a client of the PyPI index sees: every link that is left in a page leads, from the place of the
  page, to the \<^verbatim>\<open>/packages/\<close> route of this proxy, whatever the upstream wrote, in HTML and in both JSON formats.
\<close>

section \<open>Clean paths\<close>

definition plain_segment :: "string \<Rightarrow> bool" where
  "plain_segment s \<longleftrightarrow> s \<noteq> [] \<and> s \<noteq> ''.'' \<and> s \<noteq> ''..'' \<and> CHR ''/'' \<notin> set s"

lemma clean_keeps: "list_all plain_segment segs \<Longrightarrow> foldl clean_step st segs = st @ segs"
  by (induction segs arbitrary: st) (auto simp: clean_step_def plain_segment_def)

lemma clean_up: "foldl clean_step st (replicate n ''..'') = take (length st - n) st"
  by (induction n arbitrary: st) (auto simp: clean_step_def butlast_conv_take min_def)

lemma clean_segments_plain:
  assumes "\<forall>s\<in>set segs. CHR ''/'' \<notin> set s" "list_all plain_segment st"
  shows "list_all plain_segment (foldl clean_step st segs)"
  using assms
proof (induction segs arbitrary: st)
  case (Cons s segs)
  have "list_all plain_segment (clean_step st s)"
    using Cons.prems by (auto simp: clean_step_def plain_segment_def list_all_iff dest: in_set_butlastD)
  with Cons show ?case by simp
qed simp

lemma path_Clean_shape:
  obtains segs where "list_all plain_segment segs" "path_Clean p = ''/'' @ join_on (CHR ''/'') segs"
  using clean_segments_plain [of "split_on (CHR ''/'') p" "[]"] that
  by (auto simp: path_Clean_def clean_segments_def dest: split_on_parts)

section \<open>Escaped paths\<close>

definition escape_segment :: "string \<Rightarrow> string" where
  "escape_segment s = concat (map escape_byte s)"

lemma upper_hex_path_char: "n < 16 \<Longrightarrow> path_char (upper_hex n) \<and> upper_hex n \<noteq> CHR ''/''"
  by (auto simp: upper_hex_def path_char_def is_digit_def is_upper_def of_char_of char_of_eq_iff take_bit_eq_mod)

lemma escape_byte_chars:
  "c' \<in> set (escape_byte c) \<Longrightarrow> (path_char c' \<or> c' = CHR ''%'') \<and> (c' = CHR ''/'' \<longrightarrow> c = CHR ''/'')"
proof -
  have "of_char c div 16 < (16 :: nat)" using nat_of_char_less_256 [of c] by (simp add: less_mult_imp_div_less)
  then show "c' \<in> set (escape_byte c) \<Longrightarrow> ?thesis"
    using upper_hex_path_char [of "of_char c div 16"] upper_hex_path_char [of "of_char c mod 16"]
    by (auto simp: escape_byte_def split: if_splits)
qed

lemma escape_segment_chars:
  "c' \<in> set (escape_segment s) \<Longrightarrow> (path_char c' \<or> c' = CHR ''%'') \<and> (c' = CHR ''/'' \<longrightarrow> CHR ''/'' \<in> set s)"
  unfolding escape_segment_def using escape_byte_chars by fastforce

lemma escape_segment_id: "CHR ''%'' \<notin> set t \<Longrightarrow> escape_segment s = t \<Longrightarrow> s = t"
proof (induction s arbitrary: t)
  case (Cons c s)
  then show ?case by (cases t) (auto simp: escape_segment_def escape_byte_def split: if_splits)
qed (simp add: escape_segment_def)

lemma escape_segment_plain: "plain_segment s \<Longrightarrow> plain_segment (escape_segment s)"
  using escape_segment_id [of "[]" s] escape_segment_id [of "''.''" s] escape_segment_id [of "''..''" s] escape_segment_chars [of "CHR ''/''" s]
  by (auto simp: plain_segment_def)

lemma escape_join: "escape_segment (join_on (CHR ''/'') segs) = join_on (CHR ''/'') (map escape_segment segs)"
proof (induction segs)
  case (Cons s segs)
  have "escape_byte (CHR ''/'') = ''/''" by (simp add: escape_byte_def path_char_def)
  with Cons show ?case
    by (cases "segs = []") (auto simp: join_on_Cons escape_segment_def join_on_def [of _ "[_]"])
qed (simp add: escape_segment_def join_on_def)

lemma escaped_clean:
  assumes "has_prefix (path_Clean p) ''/packages/''"
  obtains segs where "list_all plain_segment segs" "trim_prefix (EscapedPath (path_Clean p)) ''/'' = join_on (CHR ''/'') (''packages'' # segs)" "segs \<noteq> []"
    "\<And>c. c \<in> set (join_on (CHR ''/'') (''packages'' # segs)) \<Longrightarrow> path_char c \<or> c = CHR ''%''"
proof -
  obtain segs where s: "list_all plain_segment segs" "path_Clean p = ''/'' @ join_on (CHR ''/'') segs" by (rule path_Clean_shape)
  then obtain x where x: "join_on (CHR ''/'') segs = ''packages'' @ CHR ''/'' # x" using assms by (auto simp: has_prefix_iff prefix_def)
  then have ne: "segs \<noteq> []" by (auto simp: join_on_def)
  then have "segs = split_on (CHR ''/'') (''packages'' @ CHR ''/'' # x)"
    using split_join [of segs "CHR ''/''"] s(1) x by (auto simp: list_all_iff plain_segment_def)
  then have segs: "segs = ''packages'' # split_on (CHR ''/'') x" by simp
  let ?e = "map escape_segment (split_on (CHR ''/'') x)"
  have pk: "escape_segment ''packages'' = ''packages''" by code_simp
  have "EscapedPath (path_Clean p) = ''/'' @ escape_segment (join_on (CHR ''/'') segs)"
    unfolding EscapedPath_def s(2) escape_segment_def by (simp add: escape_byte_def path_char_def)
  then have e: "trim_prefix (EscapedPath (path_Clean p)) ''/'' = join_on (CHR ''/'') (''packages'' # ?e)"
    using segs pk by (simp only: escape_join) simp
  have "c \<in> set (join_on (CHR ''/'') (''packages'' # ?e)) \<Longrightarrow> path_char c \<or> c = CHR ''%''" for c
    using escape_segment_chars [of c "join_on (CHR ''/'') segs"] by (simp only: escape_join segs list.map pk)
  then show ?thesis using that [of ?e] e s(1) segs escape_segment_plain by (auto simp: list_all_iff)
qed

section \<open>From the document back to the root\<close>

text \<open>A request path with a file name \<open>f\<close> in the directory \<open>dirs\<close>.\<close>

definition request_path :: "string list \<Rightarrow> string \<Rightarrow> string" where
  "request_path dirs f = ''/'' @ concat (map (\<lambda>d. d @ ''/'') dirs) @ f"

lemma path_dir_request: "CHR ''/'' \<notin> set f \<Longrightarrow> path_dir (request_path dirs f) = request_path dirs []"
proof -
  assume f: "CHR ''/'' \<notin> set f"
  obtain a where a: "request_path dirs [] = a @ ''/''"
    by (cases dirs rule: rev_cases) (auto simp: request_path_def)
  have r: "request_path dirs f = a @ CHR ''/'' # f" using a by (simp add: request_path_def)
  show ?thesis
  proof (cases "f = []")
    case True
    then show ?thesis using r by (simp add: path_dir_def)
  next
    case False
    then have "\<not> has_suffix (a @ CHR ''/'' # f) ''/''"
      using f by (cases f rule: rev_cases) (auto simp: has_suffix_def has_prefix_def)
    then show ?thesis using r a str_last_index_char [OF f, of a] by (simp add: path_dir_def)
  qed
qed

lemma concat_dirs: "dirs \<noteq> [] \<Longrightarrow> concat (map (\<lambda>d. d @ ''/'') dirs) = join_on (CHR ''/'') dirs @ ''/''"
proof (induction dirs)
  case (Cons d dirs)
  then show ?case by (cases "dirs = []") (auto simp: join_on_Cons join_on_def [of _ "[_]"])
qed simp

lemma count_join:
  "dirs \<noteq> [] \<Longrightarrow> (\<forall>d\<in>set dirs. c \<notin> set d) \<Longrightarrow> length (filter (\<lambda>x. x = c) (join_on c dirs)) + 1 = length dirs"
proof (induction dirs)
  case (Cons d dirs)
  have "filter (\<lambda>x. x = c) d = []" using Cons.prems(2) by (auto simp: filter_empty_conv)
  with Cons show ?case by (cases "dirs = []") (auto simp: join_on_Cons join_on_def [of _ "[_]"])
qed simp

lemma trimmed_dir:
  assumes "list_all plain_segment dirs" "dirs \<noteq> []"
  shows "trim_set ''/'' (request_path dirs []) = join_on (CHR ''/'') dirs"
proof -
  obtain d ds where d: "dirs = d # ds" using assms(2) by (cases dirs) auto
  obtain es e where e: "dirs = es @ [e]" using assms(2) by (cases dirs rule: rev_cases) auto
  have "plain_segment d" "plain_segment e"
    using assms(1) by (simp add: d) (use assms(1) in \<open>simp add: e\<close>)
  then obtain c t c' t' where c: "d = c # t" "c \<noteq> CHR ''/''" "e = t' @ [c']" "c' \<noteq> CHR ''/''"
    by (cases d; cases e rule: rev_cases) (auto simp: plain_segment_def)
  obtain u where u: "join_on (CHR ''/'') dirs = c # u" using d c(1) by (auto simp: join_on_def)
  obtain w where w: "join_on (CHR ''/'') dirs = w @ [c']"
  proof -
    have "join_on (CHR ''/'') (es @ [e]) = (if es = [] then e else join_on (CHR ''/'') es @ CHR ''/'' # e)"
      by (cases es) (auto simp: join_on_def)
    then show ?thesis using that c(3) e by (auto split: if_splits)
  qed
  have "request_path dirs [] = ''/'' @ join_on (CHR ''/'') dirs @ ''/''"
    using assms(2) by (simp add: request_path_def concat_dirs)
  moreover have "dropWhile (\<lambda>x. x \<in> set ''/'') (''/'' @ (c # u) @ ''/'') = (c # u) @ ''/''" using c(2) by simp
  moreover have "trim_right_set ''/'' ((w @ [c']) @ ''/'') = w @ [c']" using c(4) by (simp add: trim_right_set_def)
  ultimately show ?thesis unfolding trim_set_def u using u w by metis
qed

lemma dirDepth_request:
  assumes "list_all plain_segment dirs" "CHR ''/'' \<notin> set f"
  shows "dirDepth (request_path dirs f) = length dirs"
proof (cases "dirs = []")
  case True
  then show ?thesis unfolding dirDepth_def path_dir_request [OF assms(2)] by (simp add: request_path_def trim_set_def trim_right_set_def)
next
  case False
  then have "join_on (CHR ''/'') dirs \<noteq> []" using assms(1) by (cases dirs) (auto simp: join_on_def plain_segment_def)
  then show ?thesis
    unfolding dirDepth_def path_dir_request [OF assms(2)] trimmed_dir [OF assms(1) False] Let_def
    using count_join [OF False, of "CHR ''/''"] assms(1) by (simp add: list_all_iff plain_segment_def)
qed

lemma split_up: "split_on (CHR ''/'') (concat (replicate n ''../'') @ e) = replicate n ''..'' @ split_on (CHR ''/'') e"
  by (induction n) (auto)

lemma split_request: "list_all plain_segment dirs \<Longrightarrow>
    split_on (CHR ''/'') (request_path dirs e) = [] # dirs @ split_on (CHR ''/'') e"
  by (induction dirs) (auto simp: request_path_def plain_segment_def split_on_append_any split_on_plain)

text \<open>Climbing from the directory of the document and descending along plain segments.\<close>

lemma climb_to_root:
  assumes "list_all plain_segment dirs" "CHR ''/'' \<notin> set f" "list_all plain_segment segs" "segs \<noteq> []"
  shows "path_Clean (path_dir (request_path dirs f) @ concat (replicate (dirDepth (request_path dirs f)) ''../'') @ join_on (CHR ''/'') segs)
    = ''/'' @ join_on (CHR ''/'') segs"
proof -
  have "split_on (CHR ''/'') (join_on (CHR ''/'') segs) = segs"
    using split_join [of segs "CHR ''/''"] assms(3,4) by (auto simp: list_all_iff plain_segment_def)
  then have "split_on (CHR ''/'') (request_path dirs [] @ concat (replicate (length dirs) ''../'') @ join_on (CHR ''/'') segs)
      = [] # dirs @ replicate (length dirs) ''..'' @ segs"
    using split_request [OF assms(1), of "concat (replicate (length dirs) ''../'') @ join_on (CHR ''/'') segs"]
    by (simp add: request_path_def split_up)
  moreover have "clean_segments ([] # dirs @ replicate (length dirs) ''..'' @ segs) = segs"
    using clean_keeps [OF assms(1), of "[]"] clean_keeps [OF assms(3), of "[]"]
    by (simp add: clean_segments_def clean_up clean_step_def [of "[]" "[]"])
  ultimately show ?thesis
    by (simp only: path_dir_request [OF assms(2)] dirDepth_request [OF assms(1,2)] path_Clean_def)
qed

section \<open>Links that stay on the proxy\<close>

text \<open>
  A relative path \<open>e\<close> below \<^verbatim>\<open>packages/\<close>, perhaps with a query or fragment behind it, that a client
  resolves against the page (with plain directories) to \<open>e\<close> at the root of the registry.
\<close>

definition proxied_link :: "string \<Rightarrow> string \<Rightarrow> bool" where
  "proxied_link requestPath h \<longleftrightarrow>
     (\<exists>e rest. h = concat (replicate (dirDepth requestPath) ''../'') @ e @ rest
        \<and> has_prefix e ''packages/'' \<and> CHR ''?'' \<notin> set e \<and> CHR ''#'' \<notin> set e \<and> (rest = [] \<or> hd rest = CHR ''?'' \<or> hd rest = CHR ''#'')
        \<and> (\<forall>dirs f. requestPath = request_path dirs f \<and> list_all plain_segment dirs \<and> CHR ''/'' \<notin> set f \<longrightarrow>
             path_Clean (path_dir requestPath @ concat (replicate (dirDepth requestPath) ''../'') @ e) = ''/'' @ e))"

text \<open>A rewriter of the page: its tallies may be anything.\<close>

definition rewriter_of :: "string \<Rightarrow> link_rewriter \<Rightarrow> bool" where
  "rewriter_of requestPath l \<longleftrightarrow> lr_prefix l = lr_prefix (new_rewriter requestPath) \<and> lr_base l = lr_base (new_rewriter requestPath)"

text \<open>Where a link of the page leads on the proxy; \<open>None\<close> when it leads elsewhere or cannot be told.\<close>

definition link_target :: "index_codecs \<Rightarrow> string \<Rightarrow> string \<Rightarrow> string option" where
  "link_target ic requestPath raw = resolve_link (ic_links ic) (new_rewriter requestPath) raw"

lemma resolve_link_target: "rewriter_of requestPath l \<Longrightarrow> resolve_link (ic_links ic) l raw = link_target ic requestPath raw"
  by (simp add: rewriter_of_def link_target_def resolve_link_def Let_def split: option.splits)

lemma resolve_link_proxied:
  assumes "resolve_link lk l raw = Some h" "rewriter_of requestPath l"
  shows "proxied_link requestPath h"
proof -
  obtain u where u: "lk_Parse lk (normalizeLink raw) = Some u"
    using assms(1) by (auto simp: resolve_link_def Let_def split: option.splits)
  define t where "t = lk_ResolveReference lk (lr_base l) u"
  define rest where "rest = (if lu_RawQuery t \<noteq> [] then ''?'' @ lu_RawQuery t else []) @ (if lu_Fragment t \<noteq> [] then ''#'' @ lu_EscapedFragment t else [])"
  have p: "has_prefix (path_Clean (lu_Path t)) ''/packages/''"
    and h: "h = lr_prefix l @ trim_prefix (EscapedPath (path_Clean (lu_Path t))) ''/'' @ rest"
    using assms(1) u by (simp_all add: resolve_link_def Let_def t_def rest_def split: if_splits)
  obtain segs where s: "list_all plain_segment segs" "trim_prefix (EscapedPath (path_Clean (lu_Path t))) ''/'' = join_on (CHR ''/'') (''packages'' # segs)"
    "segs \<noteq> []" "\<And>c. c \<in> set (join_on (CHR ''/'') (''packages'' # segs)) \<Longrightarrow> path_char c \<or> c = CHR ''%''"
    by (rule escaped_clean [OF p]) blast
  let ?e = "join_on (CHR ''/'') (''packages'' # segs)"
  have ps: "list_all plain_segment (''packages'' # segs)" "''packages'' # segs \<noteq> []" using s(1) by (simp_all add: plain_segment_def)
  have "has_prefix ?e ''packages/''" using s(3) by (simp add: join_on_Cons has_prefix_def)
  moreover have "CHR ''?'' \<notin> set ?e" "CHR ''#'' \<notin> set ?e"
    using s(4) [of "CHR ''?''"] s(4) [of "CHR ''#''"] by (auto simp: path_char_def is_digit_def is_upper_def is_lower_def)
  moreover have "rest = [] \<or> hd rest = CHR ''?'' \<or> hd rest = CHR ''#''" by (simp add: rest_def)
  moreover have "h = concat (replicate (dirDepth requestPath) ''../'') @ ?e @ rest" using h s(2) assms(2) by (simp add: rewriter_of_def new_rewriter_def)
  moreover have "path_Clean (path_dir requestPath @ concat (replicate (dirDepth requestPath) ''../'') @ ?e) = ''/'' @ ?e"
    if "requestPath = request_path dirs f" "list_all plain_segment dirs" "CHR ''/'' \<notin> set f" for dirs f
    using climb_to_root [OF that(2,3) ps] that(1) by simp
  ultimately show ?thesis unfolding proxied_link_def by blast
qed

lemma link_target_proxied: "link_target ic requestPath raw = Some h \<Longrightarrow> proxied_link requestPath h"
  unfolding link_target_def by (rule resolve_link_proxied) (simp_all add: rewriter_of_def)

lemma mapLink_target:
  assumes "rewriter_of requestPath l"
  shows "\<exists>l'. mapLink (ic_links ic) l raw = (link_target ic requestPath raw, l') \<and> rewriter_of requestPath l'"
  using assms by (auto simp: mapLink_def resolve_link_target rewriter_of_def split: option.splits)

section \<open>HTML\<close>

definition href_attr :: "html_attr \<Rightarrow> bool" where
  "href_attr a \<longleftrightarrow> ha_Namespace a = [] \<and> ha_Key a = ''href''"

definition leads_on :: "index_codecs \<Rightarrow> string \<Rightarrow> html_attr \<Rightarrow> bool" where
  "leads_on ic requestPath a \<longleftrightarrow> (href_attr a \<longrightarrow> link_target ic requestPath (ha_Val a) \<noteq> None)"

definition relinked :: "index_codecs \<Rightarrow> string \<Rightarrow> html_attr \<Rightarrow> html_attr" where
  "relinked ic requestPath a =
     (if href_attr a then (case link_target ic requestPath (ha_Val a) of None \<Rightarrow> a | Some h \<Rightarrow> a\<lparr>ha_Val := h\<rparr>) else a)"

text \<open>
  What stands in the served page for a token of the upstream's: nothing for a base element and for an anchor with a link that
  leads elsewhere, a re-rendered anchor for one whose links all lead to the proxy, and the token itself for anything else.
\<close>

definition served_token :: "index_codecs \<Rightarrow> string \<Rightarrow> html_token \<Rightarrow> string" where
  "served_token ic requestPath t =
     (case t of
        OtherToken raw \<Rightarrow> raw
      | TagToken raw name attrs \<Rightarrow>
          if name = ''base'' then []
          else if name = ''a''
          then (if list_all (leads_on ic requestPath) attrs
                then hx_String (ic_html ic) ''a'' (map (relinked ic requestPath) attrs) t else [])
          else raw)"

lemma relinked_proxied:
  "leads_on ic requestPath a \<Longrightarrow> href_attr (relinked ic requestPath a) \<Longrightarrow> proxied_link requestPath (ha_Val (relinked ic requestPath a))"
  by (auto simp: leads_on_def relinked_def href_attr_def intro: link_target_proxied split: if_splits option.splits)

lemma map_hrefs_relinked:
  "rewriter_of requestPath l \<Longrightarrow> \<exists>bs l'. map_hrefs (ic_links ic) as l = (list_all (leads_on ic requestPath) as, bs, l') \<and> rewriter_of requestPath l'
     \<and> (list_all (leads_on ic requestPath) as \<longrightarrow> bs = map (relinked ic requestPath) as)"
proof (induction as arbitrary: l)
  case (Cons a as)
  show ?case
  proof (cases "href_attr a")
    case False
    then show ?thesis using Cons.IH [OF Cons.prems] by (auto simp: href_attr_def leads_on_def relinked_def)
  next
    case True
    obtain l1 where m: "mapLink (ic_links ic) l (ha_Val a) = (link_target ic requestPath (ha_Val a), l1)" "rewriter_of requestPath l1"
      using mapLink_target [OF Cons.prems] by blast
    show ?thesis using True m Cons.IH [OF m(2)]
      by (cases "link_target ic requestPath (ha_Val a)") (auto simp: href_attr_def leads_on_def relinked_def)
  qed
qed simp

lemma html_step_served:
  assumes "rewriter_of requestPath l"
  shows "\<exists>ps l'. html_step (ic_links ic) t l = (ps, l') \<and> rewriter_of requestPath l'
     \<and> concat (map (piece_text (ic_html ic)) ps) = served_token ic requestPath t"
proof (cases t)
  case (TagToken raw name attrs)
  then show ?thesis using assms map_hrefs_relinked [OF assms, of ic attrs]
    by (auto simp: html_step_def served_token_def piece_text_def token_raw_def)
qed (use assms in \<open>simp add: html_step_def served_token_def piece_text_def token_raw_def\<close>)

lemma html_loop_served:
  "rewriter_of requestPath l \<Longrightarrow> \<exists>ps l'. html_loop (ic_links ic) ts l = (ps, l')
     \<and> concat (map (piece_text (ic_html ic)) ps) = concat (map (served_token ic requestPath) ts)"
proof (induction ts arbitrary: l)
  case (Cons t ts)
  obtain ps l1 where s: "html_step (ic_links ic) t l = (ps, l1)" "rewriter_of requestPath l1"
    "concat (map (piece_text (ic_html ic)) ps) = served_token ic requestPath t"
    using html_step_served [OF Cons.prems] by blast
  with Cons.IH [OF s(2)] show ?case by (fastforce split: prod.splits)
qed simp

section \<open>JSON\<close>

definition served_file :: "index_json \<Rightarrow> string \<Rightarrow> raw_object \<Rightarrow> bool" where
  "served_file ij requestPath g =
     (case map_of (raw_fields g) ''url'' of
        None \<Rightarrow> True
      | Some raw \<Rightarrow> (\<exists>link. proxied_link requestPath link \<and> (ij_string ij raw = Inr link \<or> ij_MarshalString ij link = Inr raw)))"

text \<open>What stands for a file entry of the upstream's: nothing when its URL leads elsewhere, else the entry with its URL rewritten.\<close>

definition kept_file :: "index_codecs \<Rightarrow> string \<Rightarrow> raw_object \<Rightarrow> raw_object option" where
  "kept_file ic requestPath f =
     (case map_of (raw_fields f) ''url'' of
        None \<Rightarrow> Some f
      | Some raw \<Rightarrow>
          (case ij_string (ic_json ic) raw of
             Inl _ \<Rightarrow> None
           | Inr link \<Rightarrow>
               (case link_target ic requestPath link of
                  None \<Rightarrow> None
                | Some mapped \<Rightarrow>
                    if mapped = link then Some f
                    else (case ij_MarshalString (ic_json ic) mapped of Inl _ \<Rightarrow> None | Inr b \<Rightarrow> Some (put_field ''url'' b f)))))"

definition served_list :: "index_codecs \<Rightarrow> string \<Rightarrow> string \<Rightarrow> string \<Rightarrow> bool" where
  "served_list ic requestPath raw out \<longleftrightarrow>
     (\<exists>fs. ij_array (ic_json ic) raw = Inr fs
        \<and> ij_MarshalArray (ic_json ic) (map_option (List.map_filter (kept_file ic requestPath)) fs) = Inr out
        \<and> (\<forall>gs. fs = Some gs \<longrightarrow> list_all (served_file (ic_json ic) requestPath) (List.map_filter (kept_file ic requestPath) gs)))"

text \<open>A field rewritten as \<open>P\<close> says where it is there.\<close>

definition served_field :: "(string \<Rightarrow> string \<Rightarrow> bool) \<Rightarrow> string \<Rightarrow> raw_object \<Rightarrow> raw_object \<Rightarrow> bool" where
  "served_field P key obj out =
     (case map_of (raw_fields obj) key of
        None \<Rightarrow> map_of (raw_fields out) key = None
      | Some raw \<Rightarrow> (\<exists>new. map_of (raw_fields out) key = Some new \<and> P raw new))"

definition same_release :: "index_codecs \<Rightarrow> string \<Rightarrow> string \<times> string \<Rightarrow> string \<times> string \<Rightarrow> bool" where
  "same_release ic requestPath r r' \<longleftrightarrow> fst r' = fst r \<and> served_list ic requestPath (snd r) (snd r')"

definition served_releases :: "index_codecs \<Rightarrow> string \<Rightarrow> string \<Rightarrow> string \<Rightarrow> bool" where
  "served_releases ic requestPath raw out \<longleftrightarrow>
     (\<exists>rs rs'. ij_object (ic_json ic) raw = Inr rs \<and> ij_MarshalObject (ic_json ic) rs' = Inr out
        \<and> list_all2 (same_release ic requestPath) (raw_fields rs) (raw_fields rs'))"

lemma raw_fields_found: "map_of (raw_fields m) k = Some v \<Longrightarrow> m \<noteq> None"
  by (cases m) (auto simp: raw_fields_def)

lemma map_of_put_field: "map_of (raw_fields (put_field k v m)) k' = (if m \<noteq> None \<and> k' = k then Some v else map_of (raw_fields m) k')"
  by (cases m) (simp_all add: put_field_def raw_fields_def update_conv')

lemma kept_file_served: "kept_file ic requestPath f = Some g \<Longrightarrow> served_file (ic_json ic) requestPath g"
  using raw_fields_found [of f "''url''"]
  by (auto simp: kept_file_def served_file_def map_of_put_field dest: link_target_proxied split: option.splits sum.splits if_splits)

lemma file_step_served:
  assumes "file_step (ic_links ic) (ic_json ic) f l = (res, l')" "rewriter_of requestPath l"
  shows "rewriter_of requestPath l' \<and> (\<forall>g. res = Inr g \<longrightarrow> g = kept_file ic requestPath f)"
proof (cases "map_of (raw_fields f) ''url''")
  case None
  then show ?thesis using assms by (auto simp: file_step_def kept_file_def)
next
  case (Some raw)
  show ?thesis
  proof (cases "ij_string (ic_json ic) raw")
    case (Inr link)
    obtain l1 where m: "mapLink (ic_links ic) l link = (link_target ic requestPath link, l1)" "rewriter_of requestPath l1"
      using mapLink_target [OF assms(2)] by blast
    show ?thesis using assms(1) Some Inr m
      by (auto simp: file_step_def kept_file_def split: option.splits if_splits sum.splits)
  qed (use assms Some in \<open>auto simp: file_step_def\<close>)
qed

lemma file_loop_served:
  "file_loop (ic_links ic) (ic_json ic) fs l = (res, l') \<Longrightarrow> rewriter_of requestPath l \<Longrightarrow>
    rewriter_of requestPath l' \<and> (\<forall>gs. res = Inr gs \<longrightarrow> gs = List.map_filter (kept_file ic requestPath) fs)"
proof (induction fs arbitrary: l res l')
  case (Cons f fs)
  obtain r l1 where s: "file_step (ic_links ic) (ic_json ic) f l = (r, l1)" by force
  obtain r2 l2 where t: "file_loop (ic_links ic) (ic_json ic) fs l1 = (r2, l2)" by force
  have p: "rewriter_of requestPath l1" "\<forall>g. r = Inr g \<longrightarrow> g = kept_file ic requestPath f"
    using file_step_served [OF s Cons.prems(2)] by auto
  show ?case
    using Cons.IH [OF t p(1)] Cons.prems(1) s t p by (auto simp: List.map_filter_simps split: sum.splits option.splits)
qed (simp add: List.map_filter_simps)

lemma fileList_served:
  assumes "fileList (ic_links ic) (ic_json ic) raw l = (res, l')" "rewriter_of requestPath l"
  shows "rewriter_of requestPath l' \<and> (\<forall>out. res = Inr out \<longrightarrow> served_list ic requestPath raw out)"
proof (cases "ij_array (ic_json ic) raw")
  case (Inr fs)
  have all: "list_all (served_file (ic_json ic) requestPath) (List.map_filter (kept_file ic requestPath) gs)" for gs
    by (auto simp: list_all_iff List.map_filter_def intro!: kept_file_served)
  show ?thesis
  proof (cases fs)
    case (Some files)
    obtain r l1 where f: "file_loop (ic_links ic) (ic_json ic) files l = (r, l1)" by force
    from file_loop_served [OF f assms(2)] show ?thesis
      using assms(1) Inr Some f all unfolding fileList_def served_list_def by (auto split: sum.splits)
  qed (use assms Inr in \<open>auto simp: fileList_def served_list_def\<close>)
qed (use assms in \<open>auto simp: fileList_def\<close>)

lemma rewrite_files_served:
  assumes "rewrite_files (ic_links ic) (ic_json ic) key ctx obj l = (res, l')" "rewriter_of requestPath l"
  shows "rewriter_of requestPath l' \<and> (\<forall>out. res = Inr out \<longrightarrow> served_field (served_list ic requestPath) key obj out
     \<and> (\<forall>k. k \<noteq> key \<longrightarrow> map_of (raw_fields out) k = map_of (raw_fields obj) k))"
proof (cases "map_of (raw_fields obj) key")
  case None
  then show ?thesis using assms by (auto simp: rewrite_files_def served_field_def)
next
  case (Some raw)
  then have "obj \<noteq> None" by (rule raw_fields_found)
  moreover obtain r l1 where f: "fileList (ic_links ic) (ic_json ic) raw l = (r, l1)" by force
  ultimately show ?thesis
    using assms(1) Some fileList_served [OF f assms(2)]
    by (auto simp: rewrite_files_def served_field_def map_of_put_field split: sum.splits)
qed

lemma release_loop_served:
  "release_loop (ic_links ic) (ic_json ic) rs l = (res, l') \<Longrightarrow> rewriter_of requestPath l \<Longrightarrow>
    rewriter_of requestPath l' \<and> (\<forall>out. res = Inr out \<longrightarrow> list_all2 (same_release ic requestPath) rs out)"
proof (induction rs arbitrary: l res l')
  case (Cons x rs)
  obtain v files where x: "x = (v, files)" by force
  obtain r l1 where s: "fileList (ic_links ic) (ic_json ic) files l = (r, l1)" by force
  obtain r2 l2 where t: "release_loop (ic_links ic) (ic_json ic) rs l1 = (r2, l2)" by force
  have p: "rewriter_of requestPath l1" "\<forall>g. r = Inr g \<longrightarrow> served_list ic requestPath files g"
    using fileList_served [OF s Cons.prems(2)] by auto
  show ?case
    using Cons.IH [OF t p(1)] Cons.prems(1) s t p x by (auto simp: same_release_def split: sum.splits)
qed simp

lemma rewrite_releases_served:
  assumes "rewrite_releases (ic_links ic) (ic_json ic) obj l = (Inr out, l')" "rewriter_of requestPath l"
  shows "served_field (served_releases ic requestPath) ''releases'' obj out
    \<and> (\<forall>k. k \<noteq> ''releases'' \<longrightarrow> map_of (raw_fields out) k = map_of (raw_fields obj) k)"
proof (cases "map_of (raw_fields obj) ''releases''")
  case None
  then show ?thesis using assms by (auto simp: rewrite_releases_def served_field_def)
next
  case (Some raw)
  then have o: "obj \<noteq> None" by (rule raw_fields_found)
  obtain rs r l1 b where s: "ij_object (ic_json ic) raw = Inr rs" "release_loop (ic_links ic) (ic_json ic) (raw_fields rs) l = (Inr r, l1)"
    "ij_MarshalObject (ic_json ic) (map_option (\<lambda>_. r) rs) = Inr b" "out = put_field ''releases'' b obj"
    using assms(1) Some by (auto simp: rewrite_releases_def split: sum.splits prod.splits)
  have "list_all2 (same_release ic requestPath) (raw_fields rs) (raw_fields (map_option (\<lambda>_. r) rs))"
    using release_loop_served [OF s(2) assms(2)] by (cases rs) (auto simp: raw_fields_def)
  then have "served_releases ic requestPath raw b" using s(1,3) unfolding served_releases_def by blast
  then show ?thesis using s(4) o Some by (auto simp: served_field_def map_of_put_field)
qed

section \<open>Index documents\<close>

text \<open>What the body served for a document of each kind is made of.\<close>

definition served_index :: "index_codecs \<Rightarrow> string \<Rightarrow> docKind \<Rightarrow> string \<Rightarrow> string \<Rightarrow> bool" where
  "served_index ic requestPath kind doc body =
     (case kind of
        kindHTML \<Rightarrow>
          (\<exists>toks. hx_tokens (ic_html ic) doc = (toks, None) \<and> body = concat (map (served_token ic requestPath) toks)
             \<and> (\<forall>raw attrs a. TagToken raw ''a'' attrs \<in> set toks \<and> a \<in> set attrs \<and> href_attr a \<and> leads_on ic requestPath a \<longrightarrow>
                  proxied_link requestPath (ha_Val (relinked ic requestPath a))))
      | kindJSONSimple \<Rightarrow>
          (\<exists>obj out. ij_object (ic_json ic) doc = Inr obj \<and> ij_MarshalObject (ic_json ic) out = Inr body
             \<and> served_field (served_list ic requestPath) ''files'' obj out
             \<and> (\<forall>k. k \<noteq> ''files'' \<longrightarrow> map_of (raw_fields out) k = map_of (raw_fields obj) k))
      | kindJSONAPI \<Rightarrow>
          (\<exists>obj out. ij_object (ic_json ic) doc = Inr obj \<and> ij_MarshalObject (ic_json ic) out = Inr body
             \<and> served_field (served_list ic requestPath) ''urls'' obj out
             \<and> served_field (served_releases ic requestPath) ''releases'' obj out
             \<and> (\<forall>k. k \<noteq> ''urls'' \<and> k \<noteq> ''releases'' \<longrightarrow> map_of (raw_fields out) k = map_of (raw_fields obj) k)))"

lemma jsonSimple_served:
  assumes "jsonSimple (ic_links ic) (ic_json ic) doc l = (Inr body, l')" "rewriter_of requestPath l"
  shows "served_index ic requestPath kindJSONSimple doc body"
  using assms by (auto simp: jsonSimple_def served_index_def split: sum.splits prod.splits dest!: rewrite_files_served)

lemma jsonAPI_served:
  assumes "jsonAPI (ic_links ic) (ic_json ic) doc l = (Inr body, l')" "rewriter_of requestPath l"
  shows "served_index ic requestPath kindJSONAPI doc body"
proof -
  obtain obj obj1 obj2 l1 l2 where s: "ij_object (ic_json ic) doc = Inr obj"
    "rewrite_files (ic_links ic) (ic_json ic) ''urls'' ''decoding json api urls: '' obj l = (Inr obj1, l1)"
    "rewrite_releases (ic_links ic) (ic_json ic) obj1 l1 = (Inr obj2, l2)" "ij_MarshalObject (ic_json ic) obj2 = Inr body"
    using assms(1) by (auto simp: jsonAPI_def split: sum.splits prod.splits)
  have u: "rewriter_of requestPath l1" "served_field (served_list ic requestPath) ''urls'' obj obj1"
    "\<forall>k. k \<noteq> ''urls'' \<longrightarrow> map_of (raw_fields obj1) k = map_of (raw_fields obj) k"
    using rewrite_files_served [OF s(2) assms(2)] by auto
  note r = rewrite_releases_served [OF s(3) u(1)]
  have "served_field (served_list ic requestPath) ''urls'' obj obj2" using u(2) r by (simp add: served_field_def split: option.splits)
  moreover have "served_field (served_releases ic requestPath) ''releases'' obj obj2" using u(3) r by (simp add: served_field_def)
  ultimately show ?thesis using s(1,4) u(3) r by (auto simp: served_index_def)
qed

lemma rewrite_html_served:
  assumes "rewrite_html (ic_links ic) (ic_html ic) doc l = (Inr body, l')" "rewriter_of requestPath l"
  shows "served_index ic requestPath kindHTML doc body"
proof -
  obtain toks where t: "hx_tokens (ic_html ic) doc = (toks, None)" "body = concat (map (piece_text (ic_html ic)) (fst (html_loop (ic_links ic) toks l)))"
    using assms(1) by (auto simp: rewrite_html_def split: prod.splits option.splits)
  with html_loop_served [OF assms(2), of ic toks] have "body = concat (map (served_token ic requestPath) toks)" by auto
  with t(1) show ?thesis by (auto simp: served_index_def relinked_proxied relinked_def href_attr_def leads_on_def split: option.splits intro: link_target_proxied)
qed

text \<open>C11: A rewritten index holds only links that stay on the proxy. Of an HTML page it is the upstream's tokens in their order, without the \<^verbatim>\<open>base\<close>
  elements and without each anchor one of whose \<^verbatim>\<open>href\<close>s leads elsewhere, the other anchors re-rendered with every \<^verbatim>\<open>href\<close> mapped; of a JSON document
  it is the same object with each file list reduced to the entries whose URL leads to the proxy, that URL mapped. Each mapped link leads from the
  requested page to a path under \<^verbatim>\<open>/packages/\<close> at the root of the registry.
\<close>

theorem index_links_stay_on_the_proxy:
  assumes "RewriteIndex ic doc contentType requestPath = Inr out"
  shows "\<exists>kind. indexKind (ic_ParseMediaType ic) contentType requestPath = Inr kind \<and> served_index ic requestPath kind doc (ir_Body out)"
proof -
  have r: "rewriter_of requestPath (new_rewriter requestPath)" by (simp add: rewriter_of_def)
  obtain kind where k: "indexKind (ic_ParseMediaType ic) contentType requestPath = Inr kind"
    using assms by (auto simp: RewriteIndex_def Let_def split: sum.splits)
  moreover have "served_index ic requestPath kind doc (ir_Body out)"
    using assms k jsonSimple_served [OF _ r] jsonAPI_served [OF _ r] rewrite_html_served [OF _ r]
    by (cases kind) (auto simp: RewriteIndex_def Let_def split: sum.splits prod.splits)
  ultimately show ?thesis by blast
qed

text \<open>A page with a \<^verbatim>\<open>base\<close> element, a link to a distribution elsewhere and a link to something else.\<close>

definition one_page :: index_codecs where
  "one_page = \<lparr>
     ic_links = \<lparr>lk_Parse = (\<lambda>s. Some \<lparr>lu_Scheme = [], lu_Opaque = [], lu_User = None, lu_Host = [], lu_Path = s,
         lu_RawQuery = [], lu_Fragment = [], lu_EscapedFragment = []\<rparr>), lk_ResolveReference = (\<lambda>_ u. u)\<rparr>,
     ic_html = \<lparr>hx_tokens = (\<lambda>_. ([TagToken ''B'' ''base'' [], TagToken ''A'' ''a'' [\<lparr>ha_Namespace = [], ha_Key = ''href'', ha_Val = ''/packages/a.whl''\<rparr>],
         TagToken ''A'' ''a'' [\<lparr>ha_Namespace = [], ha_Key = ''href'', ha_Val = ''/else''\<rparr>]], None)),
       hx_String = (\<lambda>_ attrs _. concat (map ha_Val attrs))\<rparr>,
     ic_json = \<lparr>ij_object = (\<lambda>s. Inl (Plain s)), ij_array = (\<lambda>s. Inl (Plain s)), ij_string = (\<lambda>s. Inl (Plain s)),
       ij_MarshalString = Inr, ij_MarshalObject = (\<lambda>_. Inr []), ij_MarshalArray = (\<lambda>_. Inr [])\<rparr>,
     ic_ParseMediaType = Inr\<rparr>"

theorem index_links_stay_on_the_proxy_witness:
  "RewriteIndex one_page [] ''text/html'' ''/simple/a/'' = Inr \<lparr>ir_Body = ''../../packages/a.whl'', ir_Rewritten = 1, ir_Dropped = [''/else'']\<rparr>
   \<and> served_index one_page ''/simple/a/'' kindHTML [] ''../../packages/a.whl''"
proof -
  have r: "RewriteIndex one_page [] ''text/html'' ''/simple/a/'' = Inr \<lparr>ir_Body = ''../../packages/a.whl'', ir_Rewritten = 1, ir_Dropped = [''/else'']\<rparr>"
    by code_simp
  have k: "indexKind (ic_ParseMediaType one_page) ''text/html'' ''/simple/a/'' = Inr kindHTML" by code_simp
  show ?thesis using index_links_stay_on_the_proxy [OF r] r k by simp
qed

end
