(* ===== verification/Registry_Routes.thy ===== *)
theory Registry_Routes
  imports Npm_Metadata_Correct Pypi_Index_Correct Proxy_Metadata Console_Registries Docker_Handler
begin

text \<open>
  The handlers of the package registries as \<^verbatim>\<open>cmd/jo-ei/routes.go\<close> builds them: each adapter of
  \<^verbatim>\<open>internal/proxy/adapters\<close> behind the proxy handler, under its prefix. What the handler relies on is the
  locale \<open>gated_registry\<close>: the adapter names downloads of its own ecosystem and recognises
  every artifact file it cannot name. It is interpreted on the five adapters.
\<close>

section \<open>The adapters as the handler sees them\<close>

record adapter_env =
  aw_services :: services
  aw_npm :: npm_decoders
  aw_npmJSON :: npm_json
  aw_queryHas :: "http_request \<Rightarrow> string \<Rightarrow> bool"
  aw_pypi :: pypi_decoders
  aw_index :: index_codecs
  aw_ParseTime :: "string \<Rightarrow> gotime option"
  aw_goInfo :: "gotime decoder"
  aw_gems :: gem_decoders

definition npm_adapter :: "adapter_env \<Rightarrow> registry_adapter \<Rightarrow> adapter" where
  "npm_adapter aw a =
     \<lparr>ad_NormalizeRequest = npm_NormalizeRequest, ad_FetchMetadata = npm_FetchMetadata a (aw_services aw) (aw_npm aw),
      ad_UpstreamURLs = npm_UpstreamURLs a, ad_MetadataFromHeader = None, ad_IsArtifactPath = Some npm_IsArtifactPath,
      ad_IndexRewriter = None,
      ad_MetadataFilterer = Some \<lparr>mf_NormalizeMetadataRequest = npm_NormalizeMetadataRequest (aw_queryHas aw),
        mf_FilterVersions = npm_FilterVersions (aw_npmJSON aw)\<rparr>\<rparr>"

definition pypi_adapter :: "adapter_env \<Rightarrow> registry_adapter \<Rightarrow> adapter" where
  "pypi_adapter aw a =
     \<lparr>ad_NormalizeRequest = pypi_NormalizeRequest, ad_FetchMetadata = pypi_FetchMetadata a (aw_services aw) (aw_pypi aw),
      ad_UpstreamURLs = pypi_UpstreamURLs a, ad_MetadataFromHeader = None, ad_IsArtifactPath = Some pypi_IsArtifactPath,
      ad_IndexRewriter = Some \<lparr>iw_IsIndexRequest = IsIndexRequest, iw_RewriteIndex = RewriteIndex (aw_index aw)\<rparr>,
      ad_MetadataFilterer = None\<rparr>"

definition maven_adapter :: "adapter_env \<Rightarrow> registry_adapter \<Rightarrow> adapter" where
  "maven_adapter aw a =
     \<lparr>ad_NormalizeRequest = maven_NormalizeRequest, ad_FetchMetadata = maven_FetchMetadata,
      ad_UpstreamURLs = maven_UpstreamURLs a, ad_MetadataFromHeader = Some (maven_MetadataFromHeader (aw_ParseTime aw)),
      ad_IsArtifactPath = Some maven_IsArtifactPath, ad_IndexRewriter = None, ad_MetadataFilterer = None\<rparr>"

definition go_adapter :: "adapter_env \<Rightarrow> registry_adapter \<Rightarrow> adapter" where
  "go_adapter aw a =
     \<lparr>ad_NormalizeRequest = go_NormalizeRequest, ad_FetchMetadata = go_FetchMetadata a (aw_services aw) (aw_goInfo aw),
      ad_UpstreamURLs = go_UpstreamURLs a, ad_MetadataFromHeader = None, ad_IsArtifactPath = Some go_IsArtifactPath,
      ad_IndexRewriter = None, ad_MetadataFilterer = None\<rparr>"

definition gem_adapter :: "adapter_env \<Rightarrow> registry_adapter \<Rightarrow> adapter" where
  "gem_adapter aw a =
     \<lparr>ad_NormalizeRequest = gem_NormalizeRequest, ad_FetchMetadata = gem_FetchMetadata a (aw_services aw) (aw_gems aw),
      ad_UpstreamURLs = gem_UpstreamURLs a, ad_MetadataFromHeader = None, ad_IsArtifactPath = Some gem_IsArtifactPath,
      ad_IndexRewriter = None, ad_MetadataFilterer = None\<rparr>"

section \<open>Building the handlers\<close>

text \<open>The logger and the two clients are part of the services a request meets; the temporary directory too.\<close>

record 'c shared_deps =
  sd_filter :: "gotime \<Rightarrow> package_ref \<Rightarrow> package_metadata \<Rightarrow> filter_result"
  sd_cache :: "'c cache_ops"
  sd_cveScanner :: "(package_ref \<Rightarrow> go_error + scan_result) option"
  sd_policy :: "(package_ref \<Rightarrow> scan_result \<Rightarrow> policy_decision) option"
  sd_avScanner :: "(string \<Rightarrow> string option \<Rightarrow> go_error + av_result) option"
  sd_recorder :: bool
  sd_throttles :: "throttle_lookup option"
  sd_cveRecheckTTL :: duration
  sd_malwareRecheckTTL :: duration
  sd_metadataFilterMaxMB :: int64
  sd_publicBase :: "http_request \<Rightarrow> go_error + string"
  sd_maxArtifactBytes :: int64

definition buildHandler :: "adapter \<Rightarrow> 'c shared_deps \<Rightarrow> 'c handler_config" where
  "buildHandler ad shared =
     \<lparr>hc_Adapter = ad, hc_Filter = sd_filter shared, hc_Cache = sd_cache shared, hc_CVEScanner = sd_cveScanner shared,
      hc_Policy = sd_policy shared, hc_AVScanner = sd_avScanner shared, hc_Recorder = sd_recorder shared,
      hc_CVERecheckTTL = sd_cveRecheckTTL shared, hc_MalwareRecheckTTL = sd_malwareRecheckTTL shared,
      hc_MetadataFilterMaxMB = sd_metadataFilterMaxMB shared, hc_PublicBase = sd_publicBase shared, hc_IndexMaxMB = 0,
      hc_MaxArtifactBytes = sd_maxArtifactBytes shared, hc_Throttles = sd_throttles shared\<rparr>"

definition cfg_upstreams :: "registry_cfg \<Rightarrow> string list" where
  "cfg_upstreams c = (case rc_Upstreams c of None \<Rightarrow> [] | Some us \<Rightarrow> us)"

definition buildHandlers :: "registries_cfg \<Rightarrow> adapter_env \<Rightarrow> 'c shared_deps \<Rightarrow> (string \<times> 'c handler_config) list" where
  "buildHandlers cfg aw shared =
     (let on = (\<lambda>c prefixes h. if rc_Enabled c then map (\<lambda>p. (p, h)) prefixes else []) in
      on (rg_PyPI cfg) [''pypi''] (buildHandler (pypi_adapter aw (NewPyPIAdapter (cfg_upstreams (rg_PyPI cfg)))) shared)
      @ on (rg_NPM cfg) [''npm'', ''yarn''] (buildHandler (npm_adapter aw (NewNPMAdapter (cfg_upstreams (rg_NPM cfg)))) shared)
      @ on (rg_Maven cfg) [''maven''] (buildHandler (maven_adapter aw (NewMavenAdapter (cfg_upstreams (rg_Maven cfg)))) shared)
      @ on (rg_RubyGems cfg) [''rubygems''] (buildHandler (gem_adapter aw (NewRubyGemsAdapter (cfg_upstreams (rg_RubyGems cfg)))) shared)
      @ on (rg_Go cfg) [''go''] (buildHandler (go_adapter aw (NewGoAdapter (cfg_upstreams (rg_Go cfg)))) shared))"

definition minEnabledTTL :: "duration \<Rightarrow> duration \<Rightarrow> duration" where
  "minEnabledTTL a b = (if a \<le> 0 then b else if b \<le> 0 then a else if a < b then a else b)"

text \<open>What the Docker route needs beside the shared dependencies; the policy runtime is its filter and its policy.\<close>

record 'c docker_deps =
  dd_trivy :: "(string \<Rightarrow> go_error + cve_finding list) option"
  dd_filter :: "gotime \<Rightarrow> package_ref \<Rightarrow> package_metadata \<Rightarrow> filter_result"
  dd_policy :: "package_ref \<Rightarrow> scan_result \<Rightarrow> policy_decision"
  dd_store :: "'c image_cache"
  dd_codecs :: docker_codecs
  dd_breaker :: throttle_lookup
  dd_MaxLayerBytes :: int64
  dd_ClientWaitSeconds :: int64

definition docker_route ::
  "registries_cfg \<Rightarrow> 'c shared_deps \<Rightarrow> 'c docker_deps \<Rightarrow> (string \<Rightarrow> go_error + cve_finding list) \<Rightarrow> 'c docker_config" where
  "docker_route cfg shared dd trivy =
     \<lparr>dk_gate = \<lparr>ig_upstreams = NewAdapter (cfg_upstreams (rg_Docker cfg)), ig_scanner = trivy, ig_av = sd_avScanner shared,
        ig_filter = dd_filter dd, ig_policy = Some (dd_policy dd), ig_store = dd_store dd, ig_codecs = dd_codecs dd,
        ig_maxLayerBytes = dd_MaxLayerBytes dd,
        ig_recheckTTL = minEnabledTTL (sd_cveRecheckTTL shared) (sd_malwareRecheckTTL shared)\<rparr>,
      dk_Recorder = sd_recorder shared, dk_Throttles = Some (dd_breaker dd),
      dk_ClientWait = wrap64 (dd_ClientWaitSeconds dd * Second)\<rparr>"

text \<open>All routes: Docker is served only with an image scanner, and at least one registry must be enabled.\<close>

record 'c proxy_routes =
  px_handlers :: "(string \<times> 'c handler_config) list"
  px_raw :: "(string \<times> 'c docker_config) list"

definition buildProxyRoutes ::
  "registries_cfg \<Rightarrow> adapter_env \<Rightarrow> 'c shared_deps \<Rightarrow> 'c docker_deps \<Rightarrow> go_error + 'c proxy_routes" where
  "buildProxyRoutes cfg aw shared dd =
     (let handlers = buildHandlers cfg aw shared;
          raw = (if rc_Enabled (rg_Docker cfg)
                 then (case dd_trivy dd of None \<Rightarrow> [] | Some trivy \<Rightarrow> [(''v2'', docker_route cfg shared dd trivy)]) else [])
      in if handlers = [] \<and> raw = []
         then Inl (Plain ''no registries enabled; set at least one of registries.{pypi,npm,maven,rubygems,go,docker}.enabled: true'')
         else Inr \<lparr>px_handlers = handlers, px_raw = raw\<rparr>)"

definition registryCount :: "'c proxy_routes \<Rightarrow> nat" where
  "registryCount r =
     (let n = length (px_handlers r);
          m = (if ''yarn'' \<in> fst ` set (px_handlers r) then n - 1 else n)
      in if ''v2'' \<in> fst ` set (px_raw r) then m + 1 else m)"

definition route_prefixes :: "'c proxy_routes \<Rightarrow> string list" where
  "route_prefixes r = map fst (px_handlers r) @ map fst (px_raw r)"

definition recommendedMetadataCapMB :: int64 where "recommendedMetadataCapMB = 256"

definition metadataCapWarning :: "int64 \<Rightarrow> string" where
  "metadataCapWarning mb =
     (if mb = 0 then ''metadata_filter_max_mb is 0: npm metadata documents are buffered with no size cap''
      else if mb < recommendedMetadataCapMB
      then ''metadata_filter_max_mb is below the default 256: npm packuments larger than the cap fail with 502 metadata_rewrite_failed''
      else [])"

section \<open>Artifact files\<close>

text \<open>The files of a registry that carry code, by their place and name.\<close>

definition npm_tarball :: "string \<Rightarrow> bool" where
  "npm_tarball p \<longleftrightarrow> (\<exists>a b. p = a @ ''/-/'' @ b @ ''.tgz'')"

definition pypi_distribution :: "string \<Rightarrow> bool" where
  "pypi_distribution p \<longleftrightarrow> (\<exists>x. p = ''/packages/'' @ x) \<and> (\<nexists>d. p = d @ ''.metadata'' \<and> parsePyPIFilename (path_base d) \<noteq> None)"

definition maven_artifact :: "string \<Rightarrow> bool" where
  "maven_artifact p \<longleftrightarrow>
     (\<exists>dirs artifact version x. p = maven_path dirs artifact version (artifact @ ''-'' @ x) \<and> \<not> isMavenSidecar (artifact @ ''-'' @ x)
        \<and> join_on (CHR ''.'') dirs \<noteq> [] \<and> artifact \<noteq> [] \<and> version \<noteq> []
        \<and> (\<forall>s\<in>set (dirs @ [artifact, version, x]). CHR ''/'' \<notin> set s))"

definition gem_archive :: "string \<Rightarrow> bool" where
  "gem_archive p \<longleftrightarrow> (\<exists>a. p = a @ ''.gem'')"

definition go_module_zip :: "string \<Rightarrow> bool" where
  "go_module_zip p \<longleftrightarrow> (\<exists>a b. p = a @ ''/@v/'' @ b @ ''.zip'')"

definition artifact_file :: "string \<Rightarrow> string \<Rightarrow> bool" where
  "artifact_file eco p =
     (if eco = ''npm'' then npm_tarball p
      else if eco = ''pypi'' then pypi_distribution p
      else if eco = ''maven'' then maven_artifact p
      else if eco = ''rubygems'' then gem_archive p
      else eco = ''go'' \<and> go_module_zip p)"

section \<open>The contract of an adapter\<close>

locale gated_registry =
  fixes ad :: adapter and eco :: string
  assumes own_ecosystem: "ad_NormalizeRequest ad r = Some ref \<Longrightarrow> Ecosystem ref = eco"
    and recognised: "artifact_file eco (rq_Path r) \<Longrightarrow> ad_NormalizeRequest ad r = None \<Longrightarrow> \<exists>m. ad_IsArtifactPath ad = Some m \<and> m r"
begin

lemma gated_or_refused:
  assumes "hc_Adapter cfg = ad" "artifact_file eco (rq_Path r)" "ServeHTTP cfg se w r c = (rp, evs, c')"
  shows "(\<exists>ref ev. Ecosystem ref = eco \<and> serve_download cfg (req_env.truncate se) w r ref c = ((rp, ev), c'))
    \<or> rp = writeJSONError w StatusForbidden ''unrecognized_artifact'' \<and> evs = [] \<and> c' = c"
proof (cases "ad_NormalizeRequest ad r")
  case None
  with recognised [OF assms(2)] show ?thesis using assms(1,3) by (auto simp: ServeHTTP_def Let_def)
next
  case (Some ref)
  with own_ecosystem [OF Some] show ?thesis
    using assms(1,3) by (auto simp: ServeHTTP_def Let_def split: prod.splits)
qed

end

lemma contains_infix: "contains_str (a @ p @ b) p"
proof (induction a)
  case Nil
  show ?case using str_index_here [of p b] by (simp add: contains_str_def)
qed (auto simp: contains_str_def)

interpretation npm_gate: gated_registry "npm_adapter aw a" "''npm''" for aw a
proof unfold_locales
  fix r :: http_request assume "artifact_file ''npm'' (rq_Path r)"
  then obtain x y where "rq_Path r = x @ ''/-/'' @ y @ ''.tgz''" by (auto simp: artifact_file_def npm_tarball_def)
  then have "npm_IsArtifactPath r"
    using contains_infix [of x "''/-/''" "y @ ''.tgz''"] has_suffix_append [of "x @ ''/-/'' @ y" "''.tgz''"]
    by (simp add: npm_IsArtifactPath_def)
  then show "\<exists>m. ad_IsArtifactPath (npm_adapter aw a) = Some m \<and> m r" by (simp add: npm_adapter_def)
qed (auto simp: npm_adapter_def npm_NormalizeRequest_def Let_def split: if_splits option.splits)

interpretation go_gate: gated_registry "go_adapter aw a" "''go''" for aw a
proof unfold_locales
  fix r :: http_request assume "artifact_file ''go'' (rq_Path r)"
  then obtain x y where "rq_Path r = x @ ''/@v/'' @ y @ ''.zip''" by (auto simp: artifact_file_def go_module_zip_def)
  then have "go_IsArtifactPath r"
    using contains_infix [of x "''/@v/''" "y @ ''.zip''"] has_suffix_append [of "x @ ''/@v/'' @ y" "''.zip''"]
    by (simp add: go_IsArtifactPath_def)
  then show "\<exists>m. ad_IsArtifactPath (go_adapter aw a) = Some m \<and> m r" by (simp add: go_adapter_def)
qed (auto simp: go_adapter_def go_NormalizeRequest_def Let_def split: if_splits option.splits)

interpretation gem_gate: gated_registry "gem_adapter aw a" "''rubygems''" for aw a
proof unfold_locales
  fix r :: http_request assume "artifact_file ''rubygems'' (rq_Path r)"
  then have "gem_IsArtifactPath r" by (auto simp: artifact_file_def gem_archive_def gem_IsArtifactPath_def)
  then show "\<exists>m. ad_IsArtifactPath (gem_adapter aw a) = Some m \<and> m r" by (simp add: gem_adapter_def)
qed (auto simp: gem_adapter_def gem_NormalizeRequest_def Let_def split: if_splits option.splits)

interpretation pypi_gate: gated_registry "pypi_adapter aw a" "''pypi''" for aw a
proof unfold_locales
  fix r :: http_request assume "artifact_file ''pypi'' (rq_Path r)"
  then have d: "\<exists>x. rq_Path r = ''/packages/'' @ x" "\<nexists>d. rq_Path r = d @ ''.metadata'' \<and> parsePyPIFilename (path_base d) \<noteq> None"
    by (auto simp: artifact_file_def pypi_distribution_def)
  then have "pypi_IsArtifactPath r"
    by (auto simp: pypi_IsArtifactPath_def packagePathRe_def has_prefix_def elim!: has_suffixE)
  then show "\<exists>m. ad_IsArtifactPath (pypi_adapter aw a) = Some m \<and> m r" by (simp add: pypi_adapter_def)
qed (auto simp: pypi_adapter_def pypi_NormalizeRequest_def Let_def split: if_splits option.splits)

lemma parseMavenPath_artifact:
  assumes "maven_artifact p"
  shows "parseMavenPath p \<noteq> None"
proof -
  obtain dirs artifact version x where p: "p = maven_path dirs artifact version (artifact @ ''-'' @ x)"
    and c: "\<not> isMavenSidecar (artifact @ ''-'' @ x)" "join_on (CHR ''.'') dirs \<noteq> []" "artifact \<noteq> []" "version \<noteq> []"
      "\<forall>s\<in>set (dirs @ [artifact, version, x]). CHR ''/'' \<notin> set s"
    using assms unfolding maven_artifact_def by blast
  let ?f = "artifact @ ''-'' @ x"
  let ?segs = "dirs @ [artifact, version, ?f]"
  have d: "dirs \<noteq> []" using c(2) by (auto simp: join_on_def)
  have s: "split_on (CHR ''/'') (trim_prefix p ''/'') = ?segs"
    unfolding p maven_path_def append_Cons append_Nil trim_prefix_Cons by (rule split_join) (use c(5) in auto)
  have nth: "?segs ! (length ?segs - 1) = ?f" "?segs ! (length ?segs - 2) = version" "?segs ! (length ?segs - 3) = artifact"
    "take (length ?segs - 3) ?segs = dirs" "\<not> length ?segs < 4"
    using d by (simp_all add: nth_append numeral_eq_Suc Suc_le_eq)
  have "has_prefix ?f (artifact @ ''-'')" by (simp add: has_prefix_iff)
  then show ?thesis unfolding parseMavenPath_def Let_def s nth using nth(5) c by simp
qed

interpretation maven_gate: gated_registry "maven_adapter aw a" "''maven''" for aw a
proof unfold_locales
  fix r :: http_request assume "artifact_file ''maven'' (rq_Path r)"
  then have "maven_IsArtifactPath r" using parseMavenPath_artifact by (auto simp: artifact_file_def maven_IsArtifactPath_def)
  then show "\<exists>m. ad_IsArtifactPath (maven_adapter aw a) = Some m \<and> m r" by (simp add: maven_adapter_def)
qed (auto simp: maven_adapter_def maven_NormalizeRequest_def split: option.splits)

section \<open>No artifact passes by the gates\<close>

definition prefix_ecosystem :: "string \<Rightarrow> string" where
  "prefix_ecosystem p = (if p = ''yarn'' then ''npm'' else p)"

text \<open>C3: Whatever handlers are built: a request for a file that carries code, under any prefix, is
  either a download of that registry's ecosystem through the gates or refused with 403, leaving the
  cache alone; it is never forwarded to the upstream as it is.
\<close>

theorem artifacts_never_forwarded:
  assumes "(p, cfg) \<in> set (buildHandlers regs aw shared)" "artifact_file (prefix_ecosystem p) (rq_Path r)"
    and "ServeHTTP cfg se w r c = (rp, evs, c')"
  shows "(\<exists>ref ev. Ecosystem ref = prefix_ecosystem p \<and> serve_download cfg (req_env.truncate se) w r ref c = ((rp, ev), c'))
    \<or> rp = writeJSONError w 403 ''unrecognized_artifact'' \<and> evs = [] \<and> c' = c"
proof -
  have "gated_registry (hc_Adapter cfg) (prefix_ecosystem p)"
    using assms(1) npm_gate.gated_registry_axioms pypi_gate.gated_registry_axioms maven_gate.gated_registry_axioms
      gem_gate.gated_registry_axioms go_gate.gated_registry_axioms
    by (auto simp: buildHandlers_def Let_def buildHandler_def prefix_ecosystem_def split: if_splits)
  from gated_registry.gated_or_refused [OF this refl assms(2,3)] show ?thesis .
qed

definition npm_only :: registries_cfg where
  "npm_only = (let off = \<lparr>rc_Upstreams = None, rc_Enabled = False\<rparr> in
     \<lparr>rg_PyPI = off, rg_NPM = \<lparr>rc_Upstreams = Some [''https://r/''], rc_Enabled = True\<rparr>, rg_Maven = off, rg_RubyGems = off, rg_Go = off, rg_Docker = off\<rparr>)"

theorem artifacts_never_forwarded_witness:
  "\<forall>aw (shared :: nat shared_deps) se w c. case ServeHTTP (snd (last (buildHandlers npm_only aw shared))) se w (demo_path ''/x/-/y.tgz'') c of
     (rp, evs, c') \<Rightarrow> (\<exists>ref ev. Ecosystem ref = ''npm''
        \<and> serve_download (snd (last (buildHandlers npm_only aw shared))) (req_env.truncate se) w (demo_path ''/x/-/y.tgz'') ref c = ((rp, ev), c'))
      \<or> rp = writeJSONError w 403 ''unrecognized_artifact'' \<and> evs = [] \<and> c' = c"
proof (intro allI)
  fix aw and shared :: "nat shared_deps" and se w c
  let ?cfg = "snd (last (buildHandlers npm_only aw shared))" and ?r = "demo_path ''/x/-/y.tgz''"
  obtain rp evs c' where s: "ServeHTTP ?cfg se w ?r c = (rp, evs, c')" by (metis prod_cases3)
  have h: "(''yarn'', ?cfg) \<in> set (buildHandlers npm_only aw shared)" by (simp add: buildHandlers_def npm_only_def Let_def)
  have "''/x/-/y.tgz'' = ''/x'' @ ''/-/'' @ ''y'' @ ''.tgz''" by simp
  then have f: "artifact_file (prefix_ecosystem ''yarn'') (rq_Path ?r)"
    unfolding artifact_file_def prefix_ecosystem_def npm_tarball_def demo_path_simps by (simp only: simp_thms if_True) blast
  show "case ServeHTTP ?cfg se w ?r c of (rp, evs, c') \<Rightarrow> (\<exists>ref ev. Ecosystem ref = ''npm''
        \<and> serve_download ?cfg (req_env.truncate se) w ?r ref c = ((rp, ev), c'))
      \<or> rp = writeJSONError w 403 ''unrecognized_artifact'' \<and> evs = [] \<and> c' = c"
    using artifacts_never_forwarded [OF h f s] s by (simp add: prefix_ecosystem_def)
qed

end
