(* ===== verification/Configuration.thy ===== *)
theory Configuration
  imports Console_Registries Scanners Client_IP
begin

text \<open>
  The configuration, \<^verbatim>\<open>internal/config/config.go\<close> and \<^verbatim>\<open>env.go\<close>: its sections as records, the checks \<open>Validate\<close>
  makes in their order, the flattening of lists, and which environment variables set something.
  Reading the file is the work of viper and mapstructure: \<open>Load\<close> starts from the configuration they decoded, the keys
  they know and the environment. An error is a value that names the setting; its text is not modelled.
\<close>

section \<open>Sections\<close>

record server_config =
  srv_Listen :: string
  srv_UpstreamMaxConcurrent :: int64
  srv_UpstreamRatePerSecond :: int64
  srv_MetadataFilterMaxMB :: int64
  srv_ShutdownTimeoutSeconds :: int64
  srv_MaxArtifactMB :: int64
  srv_TrustedProxies :: "string list"
  srv_ClientIPHeader :: string
  srv_PublicURL :: string

definition DefaultUpstreamMaxConcurrent :: int64 where "DefaultUpstreamMaxConcurrent = 6"

definition DefaultUpstreamRatePerSecond :: int64 where "DefaultUpstreamRatePerSecond = 10"

record tls_config =
  tls_CAFiles :: "string list"

record auth_config =
  au_JWTSecret :: string
  au_AccessTTLMinutes :: int64
  au_RefreshTTLHours :: int64

record console_config =
  cc_Auth :: auth_config

definition DefaultAccessTTLMinutes :: int64 where "DefaultAccessTTLMinutes = 15"

definition DefaultRefreshTTLHours :: int64 where "DefaultRefreshTTLHours = 168"

definition MinJWTSecretLen :: nat where "MinJWTSecretLen = 32"

record cache_local_config =
  cl_Path :: string
  cl_MaxSizeGB :: int64
  cl_StaleAfterDays :: int64

record revalidation_config =
  rv_CVETTLMinutes :: int64
  rv_MalwareTTLMinutes :: int64

record s3_cache_config =
  s3_Endpoint :: string
  s3_Bucket :: string
  s3_Region :: string

record cache_config =
  ca_Backend :: string
  ca_Local :: cache_local_config
  ca_S3 :: s3_cache_config
  ca_Revalidation :: revalidation_config

record policy_config =
  pc_ActiveProfile :: string
  pc_Profiles :: "string \<rightharpoonup> policy_profile"

record image_scan_config =
  im_Enabled :: bool
  im_TrivyServer :: string
  im_TimeoutSeconds :: int64
  im_Scanners :: string
  im_MaxLayerBytes :: int64
  im_ClientWaitSeconds :: int64

record malware_config =
  mw_Scanners :: "scanner_config list"
  mw_MaxConcurrentScans :: int64

record health_config =
  hl_ProbeIntervalSeconds :: int64
  hl_SlowThresholdMS :: int64

record database_config =
  db_Path :: string
  db_EventRetentionDays :: int64
  db_DailyRetentionDays :: int64

record metrics_config =
  mt_Enabled :: bool
  mt_Listen :: string
  mt_Path :: string

record logging_config =
  lg_Level :: string
  lg_Format :: string
  lg_Output :: string

record config =
  cf_UnknownEnv :: "string list"
  cf_Server :: server_config
  cf_TLS :: tls_config
  cf_Registries :: registries_cfg
  cf_SupplyChain :: supply_chain_config
  cf_CVE :: cve_config
  cf_ImageScan :: image_scan_config
  cf_Malware :: malware_config
  cf_Cache :: cache_config
  cf_Policy :: policy_config
  cf_Logging :: logging_config
  cf_Console :: console_config
  cf_Health :: health_config
  cf_Database :: database_config
  cf_Metrics :: metrics_config

section \<open>Validation\<close>

datatype config_error =
    RegistryWithoutUpstreams string
  | BadTrustedProxy nat
  | BadPublicURL
  | UnknownClientIPHeader string
  | ScannerTypeMissing nat
  | ScannerTypeUnknown nat string
  | ScannerAddressMissing nat
  | ScannerServiceMissing nat
  | ScannerNameReserved nat string
  | ScannerNameTaken nat string nat
  | NegativeSetting string
  | MetricsListenMissing
  | MetricsListenTaken
  | MetricsPathNotRooted string
  | MetricsPathNotPlain string
  | DatabasePathMissing
  | TrivyServerMissing
  | JWTSecretTooShort nat
  | ListenMissing

text \<open>A check that fails, and the first failure of a sequence of checks.\<close>

definition reject_if :: "bool \<Rightarrow> config_error \<Rightarrow> config_error option" where
  "reject_if bad e = (if bad then Some e else None)"

fun first_error :: "config_error option list \<Rightarrow> config_error option" where
  "first_error [] = None"
| "first_error (None # cs) = first_error cs"
| "first_error (Some e # cs) = Some e"

definition registry_sections :: "registries_cfg \<Rightarrow> (string \<times> registry_cfg) list" where
  "registry_sections r =
     [(''pypi'', rg_PyPI r), (''npm'', rg_NPM r), (''maven'', rg_Maven r), (''rubygems'', rg_RubyGems r), (''go'', rg_Go r), (''docker'', rg_Docker r)]"

text \<open>The sections are ranged over as a map: which of several faulty ones is reported is not fixed.\<close>

definition registry_checks :: "registries_cfg \<Rightarrow> config_error option list" where
  "registry_checks r =
     map (\<lambda>(name, rc). reject_if (rc_Enabled rc \<and> slice (rc_Upstreams rc) = []) (RegistryWithoutUpstreams name)) (registry_sections r)"

definition validateTrustedProxy :: "net_syntax \<Rightarrow> string \<Rightarrow> bool" where
  "validateTrustedProxy ns entry0 =
     (let entry = trim_space entry0 in
      if str_contains entry CHR ''/'' then ns_ParsePrefix ns entry \<noteq> None else ns_ParseAddr ns entry \<noteq> None)"

definition proxy_checks :: "net_syntax \<Rightarrow> string list \<Rightarrow> config_error option list" where
  "proxy_checks ns entries =
     map (\<lambda>(i, entry). reject_if (\<not> validateTrustedProxy ns entry) (BadTrustedProxy i)) (enumerate 0 entries)"

definition client_ip_headers :: "string list" where
  "client_ip_headers = [[], ''x-forwarded-for'', ''x-real-ip'', ''forwarded'']"

definition reserved_names :: "string list" where
  "reserved_names = [''osv'', ''osv.dev'', ''trivy'']"

text \<open>One engine; \<open>seen\<close> holds the names before it with their positions.\<close>

definition scanner_check :: "(string \<times> nat) list \<Rightarrow> nat \<Rightarrow> scanner_config \<Rightarrow> config_error option" where
  "scanner_check seen i sc =
     (let name = DisplayName sc in
      first_error
        [reject_if (scc_Type sc = []) (ScannerTypeMissing i),
         reject_if (scc_Type sc \<noteq> ''clamav'' \<and> scc_Type sc \<noteq> ''icap'') (ScannerTypeUnknown i (scc_Type sc)),
         reject_if (scc_Address sc = []) (ScannerAddressMissing i),
         reject_if (scc_Type sc = ''icap'' \<and> scc_Service sc = []) (ScannerServiceMissing i),
         reject_if (to_lower name \<in> set reserved_names) (ScannerNameReserved i name),
         map_option (ScannerNameTaken i name) (map_of seen name)])"

fun scanner_checks :: "(string \<times> nat) list \<Rightarrow> nat \<Rightarrow> scanner_config list \<Rightarrow> config_error option" where
  "scanner_checks seen i [] = None"
| "scanner_checks seen i (sc # scs) =
     (case scanner_check seen i sc of
        Some e \<Rightarrow> Some e
      | None \<Rightarrow> scanner_checks ((DisplayName sc, i) # seen) (Suc i) scs)"

definition path_specials :: string where
  "path_specials = [CHR '' '', CHR 0x09, CHR 0x0D, CHR 0x0A] @ ''{}?#''"

definition metrics_checks :: "metrics_config \<Rightarrow> server_config \<Rightarrow> config_error option list" where
  "metrics_checks m s =
     (if mt_Enabled m
      then [reject_if (mt_Listen m = []) MetricsListenMissing,
            reject_if (mt_Listen m = srv_Listen s) MetricsListenTaken,
            reject_if (\<not> has_prefix (mt_Path m) ''/'') (MetricsPathNotRooted (mt_Path m)),
            reject_if (contains_any (mt_Path m) path_specials) (MetricsPathNotPlain (mt_Path m))]
      else [])"

definition Validate :: "net_syntax \<Rightarrow> config \<Rightarrow> config_error option" where
  "Validate ns c =
     (let s = cf_Server c; au = cc_Auth (cf_Console c); neg = (\<lambda>v key. reject_if (v < (0 :: int)) (NegativeSetting key)) in
      first_error
        (registry_checks (cf_Registries c)
         @ proxy_checks ns (srv_TrustedProxies s)
         @ [reject_if (srv_PublicURL s \<noteq> [] \<and> ParsePublicURL ns (srv_PublicURL s) = None) BadPublicURL,
            reject_if (to_lower (srv_ClientIPHeader s) \<notin> set client_ip_headers) (UnknownClientIPHeader (srv_ClientIPHeader s)),
            scanner_checks [] 0 (mw_Scanners (cf_Malware c)),
            neg (mw_MaxConcurrentScans (cf_Malware c)) ''malware.max_concurrent_scans'',
            neg (srv_MaxArtifactMB s) ''server.max_artifact_mb'',
            neg (srv_MetadataFilterMaxMB s) ''server.metadata_filter_max_mb'']
         @ metrics_checks (cf_Metrics c) s
         @ [neg (hl_ProbeIntervalSeconds (cf_Health c)) ''health.probe_interval_seconds'',
            neg (hl_SlowThresholdMS (cf_Health c)) ''health.slow_threshold_ms'',
            neg (db_EventRetentionDays (cf_Database c)) ''database.event_retention_days'',
            neg (db_DailyRetentionDays (cf_Database c)) ''database.daily_retention_days'',
            reject_if (db_Path (cf_Database c) = []) DatabasePathMissing,
            reject_if (im_Enabled (cf_ImageScan c) \<and> im_TrivyServer (cf_ImageScan c) = []) TrivyServerMissing,
            neg (im_MaxLayerBytes (cf_ImageScan c)) ''image_scan.max_layer_bytes'',
            neg (rv_CVETTLMinutes (ca_Revalidation (cf_Cache c))) ''cache.revalidation.cve_ttl_minutes'',
            neg (rv_MalwareTTLMinutes (ca_Revalidation (cf_Cache c))) ''cache.revalidation.malware_ttl_minutes'',
            neg (cl_StaleAfterDays (ca_Local (cf_Cache c))) ''cache.local.stale_after_days'',
            reject_if (au_JWTSecret au \<noteq> [] \<and> length (au_JWTSecret au) < MinJWTSecretLen) (JWTSecretTooShort (length (au_JWTSecret au))),
            neg (au_AccessTTLMinutes au) ''console.auth.access_ttl_minutes'',
            neg (au_RefreshTTLHours au) ''console.auth.refresh_ttl_hours'',
            reject_if (srv_Listen s = []) ListenMissing]))"

section \<open>Lists\<close>

definition list_separators :: "string list" where
  "list_separators = '','' # go_spaces"

text \<open>\<^verbatim>\<open>strings.FieldsFunc\<close> with commas and white space as separators; \<open>cur\<close> is the field being read.\<close>

function split_fields :: "string \<Rightarrow> string \<Rightarrow> string list" where
  "split_fields cur s =
     (case strip_one list_separators s of
        Some rest \<Rightarrow> (if cur = [] then [] else [cur]) @ split_fields [] rest
      | None \<Rightarrow> (case s of [] \<Rightarrow> (if cur = [] then [] else [cur]) | c # t \<Rightarrow> split_fields (cur @ [c]) t))"
  by pat_completeness auto
termination
  by (relation "measure (\<lambda>(cur, s). length s)") (auto dest: strip_one_length)

declare split_fields.simps [simp del]

definition splitList :: "string list \<Rightarrow> string list" where
  "splitList entries = concat (map (split_fields []) entries)"

section \<open>Environment variables\<close>

definition envPrefix :: string where "envPrefix = ''JOEI_''"

definition directEnv :: "string list" where "directEnv = [''JOEI_CONSOLE_JWT_SECRET'']"

definition envName :: "string \<Rightarrow> string" where
  "envName key = envPrefix @ to_upper (map (\<lambda>c. if c = CHR ''.'' then CHR ''_'' else c) key)"

text \<open>The regular expression of the service links that Kubernetes injects.\<close>

definition word_char :: "char \<Rightarrow> bool" where
  "word_char c \<longleftrightarrow> is_upper c \<or> is_digit c \<or> c = CHR ''_''"

definition words :: "string \<Rightarrow> bool" where
  "words s \<longleftrightarrow> s \<noteq> [] \<and> list_all word_char s"

definition service_link_tail :: "string \<Rightarrow> bool" where
  "service_link_tail t =
     (t = ''SERVICE_HOST'' \<or> t = ''SERVICE_PORT'' \<or> has_prefix t ''SERVICE_PORT_'' \<and> words (drop 13 t) \<or>
      (case split_on (CHR ''_'') t of
         [p] \<Rightarrow> p = ''PORT''
       | [p, n, proto] \<Rightarrow> p = ''PORT'' \<and> n \<noteq> [] \<and> list_all is_digit n \<and> proto \<in> {''TCP'', ''UDP'', ''SCTP''}
       | [p, n, proto, what] \<Rightarrow> p = ''PORT'' \<and> n \<noteq> [] \<and> list_all is_digit n \<and> proto \<in> {''TCP'', ''UDP'', ''SCTP''}
           \<and> what \<in> {''ADDR'', ''PORT'', ''PROTO''}
       | _ \<Rightarrow> False))"

definition kubernetesServiceLinkRe :: "string \<Rightarrow> bool" where
  "kubernetesServiceLinkRe name =
     (has_prefix name envPrefix \<and>
      (let s = drop (length envPrefix) name in
       service_link_tail s \<or>
       list_ex (\<lambda>i. s ! i = CHR ''_'' \<and> words (take i s) \<and> service_link_tail (drop (Suc i) s)) [0..<length s]))"

text \<open>The type of the configuration as reflection shows it: fields with their tags.\<close>

datatype field_type = ScalarField | FileOnlyField | StructField "(string \<times> field_type) list"

record env_schema =
  es_keys :: "(string \<times> string) list"
  es_fileOnly :: "(string \<times> string) list"

fun walk_type :: "string \<Rightarrow> field_type \<Rightarrow> env_schema" and
    walk_fields :: "string \<Rightarrow> (string \<times> field_type) list \<Rightarrow> env_schema" where
  "walk_type key ScalarField = \<lparr>es_keys = [(envName key, key)], es_fileOnly = []\<rparr>"
| "walk_type key FileOnlyField = \<lparr>es_keys = [], es_fileOnly = [(envName key, key)]\<rparr>"
| "walk_type key (StructField fs) = walk_fields key fs"
| "walk_fields pre [] = \<lparr>es_keys = [], es_fileOnly = []\<rparr>"
| "walk_fields pre ((tag, t) # fs) =
     (let s = walk_fields pre fs in
      if tag = [] \<or> tag = ''-'' then s
      else let f = walk_type (if pre = [] then tag else pre @ ''.'' @ tag) t
           in \<lparr>es_keys = es_keys f @ es_keys s, es_fileOnly = es_fileOnly f @ es_fileOnly s\<rparr>)"

definition scalar_fields :: "string list \<Rightarrow> (string \<times> field_type) list" where
  "scalar_fields tags = map (\<lambda>t. (t, ScalarField)) tags"

definition config_type :: "(string \<times> field_type) list" where
  "config_type =
     (let registry = StructField (scalar_fields [''upstreams'', ''enabled'']) in
      [(''-'', ScalarField),
       (''server'', StructField (scalar_fields [''listen'', ''upstream_max_concurrent'', ''upstream_rate_per_second'', ''metadata_filter_max_mb'',
          ''shutdown_timeout_seconds'', ''max_artifact_mb'', ''trusted_proxies'', ''client_ip_header'', ''public_url''])),
       (''tls'', StructField (scalar_fields [''ca_files''])),
       (''registries'', StructField (map (\<lambda>e. (e, registry)) [''pypi'', ''npm'', ''maven'', ''rubygems'', ''go'', ''docker''])),
       (''supply_chain'', StructField (scalar_fields [''min_age_hours'', ''allowlist_path'', ''mode''])),
       (''cve'', StructField (scalar_fields [''enabled'', ''base_url'', ''block_on'', ''cache_ttl_minutes''])),
       (''image_scan'', StructField (scalar_fields [''enabled'', ''trivy_server'', ''timeout_seconds'', ''scanners'', ''max_layer_bytes'', ''client_wait_seconds''])),
       (''malware'', StructField [(''scanners'', FileOnlyField), (''max_concurrent_scans'', ScalarField)]),
       (''cache'', StructField [(''backend'', ScalarField),
          (''local'', StructField (scalar_fields [''path'', ''max_size_gb'', ''stale_after_days''])),
          (''s3'', StructField (scalar_fields [''endpoint'', ''bucket'', ''region''])),
          (''revalidation'', StructField (scalar_fields [''cve_ttl_minutes'', ''malware_ttl_minutes'']))]),
       (''policy'', StructField [(''active_profile'', ScalarField), (''profiles'', FileOnlyField)]),
       (''logging'', StructField (scalar_fields [''level'', ''format'', ''output''])),
       (''console'', StructField [(''auth'', StructField (scalar_fields [''jwt_secret'', ''access_ttl_minutes'', ''refresh_ttl_hours'']))]),
       (''health'', StructField (scalar_fields [''probe_interval_seconds'', ''slow_threshold_ms''])),
       (''database'', StructField (scalar_fields [''path'', ''event_retention_days'', ''daily_retention_days''])),
       (''metrics'', StructField (scalar_fields [''enabled'', ''listen'', ''path'']))])"

definition buildEnvSchema :: env_schema where
  "buildEnvSchema = walk_fields [] config_type"

definition fileOnlyKey :: "env_schema \<Rightarrow> string \<Rightarrow> string option" where
  "fileOnlyKey s name = map_option snd (find (\<lambda>(p, key). name = p \<or> has_prefix name (p @ ''_'')) (es_fileOnly s))"

text \<open>The problem a variable makes, if any; an entry of the environment is a name and a value at its first equals sign.\<close>

definition env_problem :: "env_schema \<Rightarrow> string list \<Rightarrow> string \<Rightarrow> string option" where
  "env_problem s fileKeys kv =
     (case cut (CHR ''='') kv of (name, value, _) \<Rightarrow>
      if \<not> has_prefix name envPrefix \<or> value = [] then None
      else if name \<in> fst ` set (es_keys s) \<or> name \<in> envName ` set fileKeys \<or> name \<in> set directEnv \<or> kubernetesServiceLinkRe name then None
      else case fileOnlyKey s name of
        Some key \<Rightarrow> Some (name @ '': '' @ key @ '' is a list of objects or a map; set it in the config file'')
      | None \<Rightarrow> Some (name @ '': no such setting''))"

definition unknown_env :: "env_schema \<Rightarrow> string list \<Rightarrow> string list \<Rightarrow> string list" where
  "unknown_env s fileKeys environ = sort (List.map_filter (env_problem s fileKeys) environ)"

section \<open>Loading\<close>

text \<open>What \<open>Load\<close> does once viper has read the file and decoded it.\<close>

definition Load :: "net_syntax \<Rightarrow> config \<Rightarrow> string list \<Rightarrow> string list \<Rightarrow> config_error + config" where
  "Load ns decoded allKeys environ =
     (let c = decoded\<lparr>cf_UnknownEnv := unknown_env buildEnvSchema allKeys environ,
                      cf_Server := (cf_Server decoded)\<lparr>srv_TrustedProxies := splitList (srv_TrustedProxies (cf_Server decoded))\<rparr>\<rparr>
      in case Validate ns c of Some e \<Rightarrow> Inl e | None \<Rightarrow> Inr c)"

end
