(* ===== verification/Configuration_Correct.thy ===== *)
theory Configuration_Correct
  imports Configuration
begin

text \<open>
  What a configuration that passes \<open>Validate\<close> guarantees to the code that starts from it, what
  \<open>splitList\<close> makes of a list given in one variable, and that no two settings share a variable.
\<close>

section \<open>Sequences of checks\<close>

lemma first_error_None: "first_error cs = None \<longleftrightarrow> (\<forall>c\<in>set cs. c = None)"
  by (induction cs rule: first_error.induct) auto

lemma reject_if_None [simp]: "reject_if bad e = None \<longleftrightarrow> \<not> bad"
  by (simp add: reject_if_def)

definition engine_ok :: "scanner_config \<Rightarrow> bool" where
  "engine_ok sc \<longleftrightarrow> (scc_Type sc = ''clamav'' \<or> scc_Type sc = ''icap'' \<and> scc_Service sc \<noteq> []) \<and> scc_Address sc \<noteq> []
     \<and> to_lower (DisplayName sc) \<notin> set reserved_names"

lemma scanner_check_None: "scanner_check seen i sc = None \<longleftrightarrow> engine_ok sc \<and> DisplayName sc \<notin> fst ` set seen"
  by (auto simp: scanner_check_def Let_def first_error_None engine_ok_def map_of_eq_None_iff)

lemma scanner_checks_None:
  "scanner_checks seen i scs = None \<longleftrightarrow>
     (\<forall>sc\<in>set scs. engine_ok sc \<and> DisplayName sc \<notin> fst ` set seen) \<and> distinct (map DisplayName scs)"
proof (induction scs arbitrary: seen i)
  case (Cons sc scs)
  show ?case
  proof (cases "scanner_check seen i sc")
    case None
    then have "engine_ok sc \<and> DisplayName sc \<notin> fst ` set seen" by (simp add: scanner_check_None)
    with None Cons.IH [of "(DisplayName sc, i) # seen"] show ?thesis by (auto simp: image_iff)
  next
    case (Some e)
    then have "\<not> (engine_ok sc \<and> DisplayName sc \<notin> fst ` set seen)" using scanner_check_None [of seen i sc] by auto
    with Some show ?thesis by auto
  qed
qed simp

lemma proxy_checks_None:
  "(\<forall>c\<in>set (proxy_checks ns entries). c = None) \<longleftrightarrow> (\<forall>e\<in>set entries. validateTrustedProxy ns e)"
proof -
  have "set entries = snd ` set (enumerate 0 entries)" by (metis list.set_map map_snd_enumerate)
  then show ?thesis by (auto simp: proxy_checks_def)
qed

lemma registry_checks_None:
  "(\<forall>c\<in>set (registry_checks r). c = None) \<longleftrightarrow> (\<forall>(n, rc)\<in>set (registry_sections r). rc_Enabled rc \<longrightarrow> slice (rc_Upstreams rc) \<noteq> [])"
  by (auto simp: registry_checks_def)

lemma Validate_None:
  assumes "Validate ns c = None"
  shows "\<forall>(n, rc)\<in>set (registry_sections (cf_Registries c)). rc_Enabled rc \<longrightarrow> slice (rc_Upstreams rc) \<noteq> []"
    and "\<forall>e\<in>set (srv_TrustedProxies (cf_Server c)). validateTrustedProxy ns e"
    and "srv_PublicURL (cf_Server c) \<noteq> [] \<Longrightarrow> ParsePublicURL ns (srv_PublicURL (cf_Server c)) \<noteq> None"
    and "to_lower (srv_ClientIPHeader (cf_Server c)) \<in> set client_ip_headers"
    and "\<forall>sc\<in>set (mw_Scanners (cf_Malware c)). engine_ok sc"
    and "distinct (map DisplayName (mw_Scanners (cf_Malware c)))"
    and "0 \<le> mw_MaxConcurrentScans (cf_Malware c)"
    and "au_JWTSecret (cc_Auth (cf_Console c)) \<noteq> [] \<Longrightarrow> MinJWTSecretLen \<le> length (au_JWTSecret (cc_Auth (cf_Console c)))"
  using assms unfolding Validate_def Let_def first_error_None
  by (simp_all add: ball_Un registry_checks_None proxy_checks_None scanner_checks_None)

section \<open>A validated configuration is accepted further on\<close>

lemma validateTrustedProxy_parses: "validateTrustedProxy ns e \<longleftrightarrow> parseTrusted ns e \<noteq> None"
  by (auto simp: validateTrustedProxy_def parseTrusted_def Let_def)

lemma those_all: "(\<forall>x\<in>set xs. x \<noteq> None) \<Longrightarrow> those xs \<noteq> None"
  by (induction xs) auto

lemma ParseTrustedPeers_ok: "(\<forall>e\<in>set entries. validateTrustedProxy ns e) \<Longrightarrow> ParseTrustedPeers ns entries \<noteq> None"
  unfolding ParseTrustedPeers_def by (rule those_all) (auto simp: validateTrustedProxy_parses)

lemma fold_case_ascii_text: "ascii s \<Longrightarrow> fold_case s = map lower_byte s"
  by (induction s rule: fold_case.induct) auto

lemma client_ip_header_ok:
  assumes "to_lower h \<in> set client_ip_headers" "ascii h"
  shows "h = [] \<or> equal_fold h HeaderXForwardedFor \<or> equal_fold h HeaderXRealIP \<or> equal_fold h HeaderForwarded"
proof -
  have low: "fold_case HeaderXForwardedFor = ''x-forwarded-for''" "fold_case HeaderXRealIP = ''x-real-ip''" "fold_case HeaderForwarded = ''forwarded''"
    by code_simp+
  have "to_lower h = fold_case h" using assms(2) by (simp add: to_lower_ascii fold_case_ascii_text)
  moreover have "h = []" if "fold_case h = []" using that by (cases h rule: fold_case.cases) (auto split: if_splits)
  ultimately show ?thesis using assms(1) by (auto simp: client_ip_headers_def equal_fold_def low)
qed

lemma NewClientIPResolver_ok:
  assumes "to_lower h \<in> set client_ip_headers" "ascii h" "\<forall>e\<in>set entries. validateTrustedProxy ns e"
  shows "NewClientIPResolver ns entries h \<noteq> None"
  using client_ip_header_ok [OF assms(1,2)] ParseTrustedPeers_ok [OF assms(3)]
  by (auto simp: NewClientIPResolver_def Let_def)

lemma NewPublicBaseResolver_ok:
  "(u \<noteq> [] \<Longrightarrow> ParsePublicURL ns u \<noteq> None) \<Longrightarrow> NewPublicBaseResolver ns u peers \<noteq> None"
  by (auto simp: NewPublicBaseResolver_def)

lemma New_scanner_ok: "engine_ok sc \<Longrightarrow> New_scanner sc = None \<longleftrightarrow> parseScannerAddress (scc_Address sc) = None"
  by (auto simp: engine_ok_def New_scanner_def NewClamAVScanner_def NewICAPScanner_def Let_def split: option.splits)

lemma engine_ok_name: "engine_ok sc \<Longrightarrow> DisplayName sc \<noteq> ''osv.dev'' \<and> DisplayName sc \<noteq> ''osv'' \<and> DisplayName sc \<noteq> ''trivy''"
  by (auto simp: engine_ok_def reserved_names_def lower_byte_def is_upper_def of_char_def)

section \<open>Lists in one variable\<close>

text \<open>A field holds no separator, at no place.\<close>

definition plain_field :: "string \<Rightarrow> bool" where
  "plain_field f \<longleftrightarrow> f \<noteq> [] \<and> (\<forall>t. suffix t f \<longrightarrow> t \<noteq> [] \<longrightarrow> strip_one list_separators t = None)"

lemma strip_one_cases: "strip_one list_separators [] = None"
  by (cases "strip_one list_separators []") (auto dest: strip_one_length)

lemma split_fields_until:
  assumes "\<And>t. suffix t f \<Longrightarrow> t \<noteq> [] \<Longrightarrow> strip_one list_separators (t @ s) = None"
  shows "split_fields cur (f @ s) = split_fields (cur @ f) s"
  using assms
proof (induction f arbitrary: cur)
  case (Cons c f)
  have "strip_one list_separators (c # f @ s) = None" using Cons.prems [of "c # f"] by simp
  then have "split_fields cur (c # f @ s) = split_fields (cur @ [c]) (f @ s)" by (subst split_fields.simps) simp
  with Cons.IH [of "cur @ [c]"] Cons.prems show ?case by (simp add: suffix_Cons)
qed simp

lemma split_fields_end: "split_fields cur [] = (if cur = [] then [] else [cur])"
  by (subst split_fields.simps) (simp add: strip_one_cases)

lemma split_fields_plain: "plain_field f \<Longrightarrow> split_fields [] f = [f]"
  using split_fields_until [of f "[]" "[]"] by (simp add: plain_field_def split_fields_end)

lemma split_fields_sound:
  assumes "\<And>t. suffix t cur \<Longrightarrow> t \<noteq> [] \<Longrightarrow> strip_one list_separators (t @ s) = None" "f \<in> set (split_fields cur s)"
  shows "plain_field f"
  using assms
proof (induction cur s rule: split_fields.induct)
  case (1 cur s)
  have here: "plain_field cur" if "cur \<noteq> []"
    using that strip_one_prefix [OF _ 1(3)] by (simp add: plain_field_def) (metis prefixI)
  show ?case
  proof (cases "strip_one list_separators s")
    case (Some rest)
    then have "f = cur \<and> cur \<noteq> [] \<or> f \<in> set (split_fields [] rest)"
      using 1(4) by (subst (asm) split_fields.simps) (auto split: if_splits)
    with here 1(2) [OF Some] show ?thesis by auto
  next
    case None
    show ?thesis
    proof (cases s)
      case Nil
      with 1(4) here show ?thesis by (auto simp: split_fields_end split: if_splits)
    next
      case (Cons c t)
      have "f \<in> set (split_fields (cur @ [c]) t)"
        using 1(4) None Cons by (subst (asm) split_fields.simps) simp
      moreover have "strip_one list_separators (u @ t) = None" if u: "suffix u (cur @ [c])" "u \<noteq> []" for u
      proof -
        from u obtain u' where "u = u' @ [c]" "suffix u' cur" by (auto simp: suffix_snoc)
        with 1(3) [of u'] None Cons show ?thesis by (cases "u' = []") auto
      qed
      ultimately show ?thesis using 1(1) [OF None Cons] by blast
    qed
  qed
qed

lemma splitList_fields: "f \<in> set (splitList entries) \<Longrightarrow> plain_field f"
  by (auto simp: splitList_def intro: split_fields_sound [of "[]"])

lemma splitList_plain: "\<forall>f\<in>set fs. plain_field f \<Longrightarrow> splitList fs = fs"
  by (induction fs) (auto simp: splitList_def split_fields_plain)

text \<open>A field of bytes below 128 that are no separators is plain.\<close>

lemma plain_field_ascii:
  assumes "f \<noteq> []" "ascii f" "\<forall>c\<in>set f. [c] \<notin> set list_separators"
  shows "plain_field f"
proof -
  have "strip_one list_separators t = None" if t: "suffix t f" "t \<noteq> []" for t
  proof -
    obtain c u where cu: "t = c # u" using t by (cases t) auto
    then have c: "c \<in> set f" "(of_char c :: nat) < 128" using t assms(2) by (auto simp: suffix_def ascii_def)
    have "p = [c]" if p: "p \<in> set list_separators" "p \<noteq> []" "prefix p t" for p
      using p cu c by (auto simp: list_separators_def go_spaces_def of_char_def)
    with assms(3) c show ?thesis by (auto simp: strip_one_None)
  qed
  with assms(1) show ?thesis by (simp add: plain_field_def)
qed

lemma separator_tails: "p \<in> set list_separators \<Longrightarrow> c \<in> {CHR '' '', CHR '',''} \<Longrightarrow> c \<notin> set (tl p)"
  by (auto simp: list_separators_def go_spaces_def)

lemma split_fields_separated:
  assumes "plain_field f" "c \<in> {CHR '' '', CHR '',''}"
  shows "split_fields [] (f @ c # s) = f # split_fields [] s"
proof -
  have sep: "strip_one list_separators (c # s) = Some s"
    using assms(2) by (elim insertE emptyE) (simp_all add: list_separators_def go_spaces_def has_prefix_def)
  have "strip_one list_separators (t @ c # s) = None" if t: "suffix t f" "t \<noteq> []" for t
  proof -
    have plain: "strip_one list_separators t = None" using assms(1) t by (simp add: plain_field_def)
    have "\<not> prefix p (t @ c # s)" if p: "p \<in> set list_separators" "p \<noteq> []" for p
    proof
      assume "prefix p (t @ c # s)"
      moreover have "\<not> prefix p t" using plain p by (auto simp: strip_one_None)
      ultimately obtain zs where "p = t @ zs" "prefix zs (c # s)" "zs \<noteq> []" by (auto simp: prefix_append)
      then have "c \<in> set (tl p)" using t(2) by (auto simp: prefix_Cons)
      with separator_tails [OF p(1) assms(2)] show False by simp
    qed
    then show ?thesis by (simp add: strip_one_None)
  qed
  from split_fields_until [of f "c # s" "[]", OF this] have "split_fields [] (f @ c # s) = split_fields f (c # s)" by simp
  also have "\<dots> = f # split_fields [] s" using assms(1) by (subst split_fields.simps) (simp add: sep plain_field_def)
  finally show ?thesis .
qed

text \<open>A list written in one variable, separated by spaces or by commas, is that list.\<close>

lemma splitList_join:
  assumes "\<forall>f\<in>set fs. plain_field f" "c \<in> {CHR '' '', CHR '',''}" "fs \<noteq> []"
  shows "splitList [join_on c fs] = fs"
  using assms(3,1)
proof (induction fs rule: list_nonempty_induct)
  case (single f)
  then show ?case by (simp add: splitList_def split_fields_plain join_on_def)
next
  case (cons f fs)
  then have "join_on c (f # fs) = f @ c # join_on c fs" by (cases fs) (auto simp: join_on_def)
  with cons split_fields_separated [OF _ assms(2), of f "join_on c fs"] show ?case by (simp add: splitList_def)
qed

lemma splitList_idem: "splitList (splitList entries) = splitList entries"
  by (rule splitList_plain) (auto dest: splitList_fields)

section \<open>Environment variables\<close>

lemma walk_names:
  "list_all (\<lambda>(n, k). n = envName k) (es_keys (walk_type key t) @ es_fileOnly (walk_type key t))"
  "list_all (\<lambda>(n, k). n = envName k) (es_keys (walk_fields pre fs) @ es_fileOnly (walk_fields pre fs))"
  by (induction key t and pre fs rule: walk_type_walk_fields.induct) (simp_all add: Let_def)

lemma schema_name: "(n, k) \<in> set (es_keys buildEnvSchema) \<Longrightarrow> n = envName k"
  using walk_names(2) [of "[]" config_type] by (fastforce simp: buildEnvSchema_def list_all_iff)

text \<open>The settings a variable can set.\<close>

lemma schema_keys:
  "map snd (es_keys buildEnvSchema) =
     [''server.listen'', ''server.upstream_max_concurrent'', ''server.upstream_rate_per_second'',
      ''server.metadata_filter_max_mb'', ''server.shutdown_timeout_seconds'', ''server.max_artifact_mb'',
      ''server.trusted_proxies'', ''server.client_ip_header'', ''server.public_url'',
      ''tls.ca_files'', ''registries.pypi.upstreams'', ''registries.pypi.enabled'',
      ''registries.npm.upstreams'', ''registries.npm.enabled'', ''registries.maven.upstreams'',
      ''registries.maven.enabled'', ''registries.rubygems.upstreams'', ''registries.rubygems.enabled'',
      ''registries.go.upstreams'', ''registries.go.enabled'', ''registries.docker.upstreams'',
      ''registries.docker.enabled'', ''supply_chain.min_age_hours'', ''supply_chain.allowlist_path'',
      ''supply_chain.mode'', ''cve.enabled'', ''cve.base_url'',
      ''cve.block_on'', ''cve.cache_ttl_minutes'', ''image_scan.enabled'',
      ''image_scan.trivy_server'', ''image_scan.timeout_seconds'', ''image_scan.scanners'',
      ''image_scan.max_layer_bytes'', ''image_scan.client_wait_seconds'', ''malware.max_concurrent_scans'',
      ''cache.backend'', ''cache.local.path'', ''cache.local.max_size_gb'',
      ''cache.local.stale_after_days'', ''cache.s3.endpoint'', ''cache.s3.bucket'',
      ''cache.s3.region'', ''cache.revalidation.cve_ttl_minutes'', ''cache.revalidation.malware_ttl_minutes'',
      ''policy.active_profile'', ''logging.level'', ''logging.format'',
      ''logging.output'', ''console.auth.jwt_secret'', ''console.auth.access_ttl_minutes'',
      ''console.auth.refresh_ttl_hours'', ''health.probe_interval_seconds'', ''health.slow_threshold_ms'',
      ''database.path'', ''database.event_retention_days'', ''database.daily_retention_days'',
      ''metrics.enabled'', ''metrics.listen'', ''metrics.path'']"
  by (simp add: buildEnvSchema_def config_type_def scalar_fields_def Let_def)

lemma upper_byte_inj:
  assumes "upper_byte c = upper_byte d" "\<not> is_upper c" "\<not> is_upper d"
  shows "c = d"
proof -
  have "(of_char (upper_byte x) :: nat) = (if is_lower x then of_char x - 32 else of_char x)" for x
    by (auto simp: upper_byte_def is_lower_def of_char_of)
  with assms have "(if is_lower c then of_char c - 32 else of_char c :: nat) = (if is_lower d then of_char d - 32 else of_char d)"
    by metis
  moreover have "x = y" if "(if 97 \<le> x \<and> x \<le> 122 then x - 32 else x) = (if 97 \<le> y \<and> y \<le> 122 then y - 32 else y)"
    "\<not> (65 \<le> x \<and> x \<le> 90)" "\<not> (65 \<le> y \<and> y \<le> 90)" for x y :: nat
    using that by (auto split: if_splits)
  ultimately have "(of_char c :: nat) = of_char d" using assms(2,3) unfolding is_lower_def is_upper_def by blast
  then show ?thesis by simp
qed

definition dot_free :: "string \<Rightarrow> string" where
  "dot_free key = map (\<lambda>c. if c = CHR ''.'' then CHR ''_'' else c) key"

lemma envName_inj:
  assumes "envName k = envName l" "ascii k" "ascii l" "\<forall>c\<in>set (k @ l). \<not> is_upper c"
  shows "dot_free k = dot_free l"
proof -
  have a: "ascii (dot_free x)" if "ascii x" for x using that by (auto simp: dot_free_def ascii_def list_all_iff)
  have u: "\<not> is_upper c" if "c \<in> set (dot_free k @ dot_free l)" for c
    using that assms(4) by (auto simp: dot_free_def is_upper_def split: if_splits)
  have "map upper_byte (dot_free k) = map upper_byte (dot_free l)"
    using assms(1) a [OF assms(2)] a [OF assms(3)] by (simp add: envName_def to_upper_ascii flip: dot_free_def)
  moreover have "inj_on upper_byte (set (dot_free k) \<union> set (dot_free l))"
    by (rule inj_onI) (use u in \<open>auto intro: upper_byte_inj\<close>)
  ultimately show ?thesis by (rule map_inj_on)
qed

lemma schema_keys_plain:
  "list_all (\<lambda>k. ascii k \<and> list_all (\<lambda>c. \<not> is_upper c) k) (map snd (es_keys buildEnvSchema))"
  "distinct (map dot_free (map snd (es_keys buildEnvSchema)))"
  unfolding schema_keys by (simp_all add: ascii_def is_upper_def dot_free_def)

lemma schema_names_distinct: "distinct (map fst (es_keys buildEnvSchema))"
proof -
  let ?ks = "map snd (es_keys buildEnvSchema)"
  have "map fst (es_keys buildEnvSchema) = map envName ?ks"
    using schema_name by auto
  moreover have "inj_on envName (set ?ks)"
  proof (rule inj_onI)
    fix k l assume kl: "k \<in> set ?ks" "l \<in> set ?ks" "envName k = envName l"
    then have "dot_free k = dot_free l"
      using schema_keys_plain(1) by (intro envName_inj) (auto simp: list_all_iff)
    moreover have "inj_on dot_free (set ?ks)" using schema_keys_plain(2) unfolding distinct_map [of dot_free] by (rule conjunct2)
    ultimately show "k = l" using kl(1,2) by (blast dest: inj_onD)
  qed
  moreover have "distinct ?ks" using schema_keys_plain(2) unfolding distinct_map [of dot_free] by (rule conjunct1)
  ultimately show ?thesis by (simp only: distinct_map [of envName])
qed

lemma unknown_env_Nil:
  "unknown_env s fileKeys environ = [] \<longleftrightarrow> (\<forall>kv\<in>set environ. env_problem s fileKeys kv = None)"
proof -
  have "unknown_env s fileKeys environ = [] \<longleftrightarrow> List.map_filter (env_problem s fileKeys) environ = []"
    unfolding unknown_env_def by (metis length_0_conv length_sort)
  also have "\<dots> \<longleftrightarrow> (\<forall>kv\<in>set environ. env_problem s fileKeys kv = None)"
    by (induction environ) (auto simp: map_filter_simps split: option.splits)
  finally show ?thesis .
qed

text \<open>
  When no variable is reported, a non-empty variable of this program that is neither read directly nor a service
  link sets exactly one setting, or one the file has.
\<close>

theorem accepted_variables_set_something:
  assumes "Load ns decoded allKeys environ = Inr c" "cf_UnknownEnv c = []"
    and "name @ ''='' @ v \<in> set environ" "v \<noteq> []" "CHR ''='' \<notin> set name" "has_prefix name envPrefix"
    and "name \<notin> set directEnv" "\<not> kubernetesServiceLinkRe name"
  shows "(\<exists>!key. (name, key) \<in> set (es_keys buildEnvSchema)) \<and> (\<forall>key. (name, key) \<in> set (es_keys buildEnvSchema) \<longrightarrow> name = envName key)
    \<or> (\<exists>key\<in>set allKeys. name = envName key)"
proof -
  have "unknown_env buildEnvSchema allKeys environ = []"
    using assms(1,2) by (auto simp: Load_def Let_def split: option.splits)
  then have "env_problem buildEnvSchema allKeys (name @ ''='' @ v) = None" using assms(3) by (simp add: unknown_env_Nil)
  moreover have "cut (CHR ''='') (name @ ''='' @ v) = (name, v, True)" using cut_found [OF assms(5)] by simp
  ultimately consider "name \<in> fst ` set (es_keys buildEnvSchema)" | "name \<in> envName ` set allKeys"
    using assms(4,6-8) by (auto simp: env_problem_def split: if_splits option.splits)
  then show ?thesis
  proof cases
    case 1
    then obtain key where k: "(name, key) \<in> set (es_keys buildEnvSchema)" by auto
    moreover have "k' = key" if "(name, k') \<in> set (es_keys buildEnvSchema)" for k'
      using that k schema_names_distinct by (metis eq_key_imp_eq_value)
    ultimately show ?thesis using schema_name by blast
  qed auto
qed

section \<open>A configuration\<close>

definition demo_scanner :: scanner_config where
  "demo_scanner = \<lparr>scc_Type = ''clamav'', scc_Name = [], scc_Address = ''tcp:clamd:3310'', scc_TimeoutSeconds = 30, scc_Service = []\<rparr>"

definition demo_syntax :: net_syntax where
  "demo_syntax = \<lparr>ns_ParseAddr = (\<lambda>s. if s = ''10.0.0.1'' then Some (V4 167772161) else None), ns_ParseAddrPort = (\<lambda>_. None),
     ns_ParsePrefix = (\<lambda>_. None), ns_String = (\<lambda>_. []), ns_url_Parse = (\<lambda>_. None)\<rparr>"

definition demo_npm_section :: registry_cfg where
  "demo_npm_section = \<lparr>rc_Upstreams = Some [''https://u''], rc_Enabled = True\<rparr>"

definition demo_off_section :: registry_cfg where
  "demo_off_section = \<lparr>rc_Upstreams = None, rc_Enabled = False\<rparr>"

definition demo_config :: config where
  "demo_config =
     \<lparr>cf_UnknownEnv = [],
      cf_Server = \<lparr>srv_Listen = '':8080'', srv_UpstreamMaxConcurrent = 0, srv_UpstreamRatePerSecond = 0, srv_MetadataFilterMaxMB = 256,
        srv_ShutdownTimeoutSeconds = 30, srv_MaxArtifactMB = 2048, srv_TrustedProxies = [''10.0.0.1''], srv_ClientIPHeader = ''X-Real-IP'',
        srv_PublicURL = []\<rparr>,
      cf_TLS = \<lparr>tls_CAFiles = []\<rparr>,
      cf_Registries = \<lparr>rg_PyPI = demo_off_section, rg_NPM = demo_npm_section, rg_Maven = demo_off_section, rg_RubyGems = demo_off_section, rg_Go = demo_off_section, rg_Docker = demo_off_section\<rparr>,
      cf_SupplyChain = \<lparr>sc_MinAgeHours = 24, sc_AllowlistPath = [], sc_Mode = ''enforce''\<rparr>,
      cf_CVE = \<lparr>cc_Enabled = True, cc_BaseURL = [], cc_BlockOn = ''HIGH'', cc_CacheTTLMinutes = 0\<rparr>,
      cf_ImageScan = \<lparr>im_Enabled = True, im_TrivyServer = ''http://trivy'', im_TimeoutSeconds = 0, im_Scanners = [], im_MaxLayerBytes = 0,
        im_ClientWaitSeconds = 25\<rparr>,
      cf_Malware = \<lparr>mw_Scanners = [demo_scanner], mw_MaxConcurrentScans = 0\<rparr>,
      cf_Cache = \<lparr>ca_Backend = [], ca_Local = \<lparr>cl_Path = ''/c'', cl_MaxSizeGB = 1, cl_StaleAfterDays = 0\<rparr>,
        ca_S3 = \<lparr>s3_Endpoint = [], s3_Bucket = [], s3_Region = []\<rparr>, ca_Revalidation = \<lparr>rv_CVETTLMinutes = 1440, rv_MalwareTTLMinutes = 1440\<rparr>\<rparr>,
      cf_Policy = \<lparr>pc_ActiveProfile = ''p'', pc_Profiles = [''p'' \<mapsto> \<lparr>pp_CVEBlock = True, pp_CVEMinSeverity = [], pp_SupplyChainBlock = True,
        pp_MalwareBlock = True, pp_Allowlist = [], pp_Denylist = []\<rparr>]\<rparr>,
      cf_Logging = \<lparr>lg_Level = ''info'', lg_Format = [], lg_Output = []\<rparr>,
      cf_Console = \<lparr>cc_Auth = \<lparr>au_JWTSecret = [], au_AccessTTLMinutes = 0, au_RefreshTTLHours = 0\<rparr>\<rparr>,
      cf_Health = \<lparr>hl_ProbeIntervalSeconds = 0, hl_SlowThresholdMS = 0\<rparr>,
      cf_Database = \<lparr>db_Path = ''d'', db_EventRetentionDays = 0, db_DailyRetentionDays = 0\<rparr>,
      cf_Metrics = \<lparr>mt_Enabled = True, mt_Listen = '':9464'', mt_Path = ''/metrics''\<rparr>\<rparr>"

text \<open>The same with another address of its engine and another signing key.\<close>

definition demo_variant :: "string \<Rightarrow> string \<Rightarrow> config" where
  "demo_variant address key = demo_config\<lparr>cf_Malware := \<lparr>mw_Scanners = [demo_scanner\<lparr>scc_Address := address\<rparr>], mw_MaxConcurrentScans = 0\<rparr>,
     cf_Console := \<lparr>cc_Auth = \<lparr>au_JWTSecret = key, au_AccessTTLMinutes = 0, au_RefreshTTLHours = 0\<rparr>\<rparr>\<rparr>"

lemma demo_variant_valid:
  assumes "address \<noteq> []" "key = [] \<or> 32 \<le> length key"
  shows "Validate demo_syntax (demo_variant address key) = None"
proof -
  have h: "to_lower ''X-Real-IP'' \<in> set client_ip_headers" "trim_space ''10.0.0.1'' = ''10.0.0.1''"
    "to_lower ''clamav'' \<notin> set reserved_names" "\<not> contains_any ''/metrics'' path_specials"
    by code_simp+
  have s: "scanner_checks [] 0 [demo_scanner\<lparr>scc_Address := address\<rparr>] = None"
    unfolding scanner_checks_None using h(3) assms(1) by (simp add: engine_ok_def demo_scanner_def DisplayName_def)
  have p: "\<forall>c\<in>set (proxy_checks demo_syntax [''10.0.0.1'']). c = None"
    unfolding proxy_checks_None by (simp add: validateTrustedProxy_def h(2) demo_syntax_def str_contains_def)
  have r: "\<forall>c\<in>set (registry_checks (cf_Registries demo_config)). c = None"
    unfolding registry_checks_None by (simp add: demo_config_def registry_sections_def demo_off_section_def demo_npm_section_def slice_def)
  show ?thesis
    unfolding Validate_def Let_def first_error_None
    using h(1,4) s p r assms(2) by (auto simp: ball_Un demo_variant_def demo_config_def metrics_checks_def has_prefix_def MinJWTSecretLen_def)
qed

lemma demo_variant_same: "demo_variant ''tcp:clamd:3310'' [] = demo_config"
  by (simp add: demo_variant_def demo_config_def demo_scanner_def)

lemma demo_config_valid: "Validate demo_syntax demo_config = None"
  using demo_variant_valid [of "''tcp:clamd:3310''" "[]"] by (simp add: demo_variant_same)

definition demo_environ :: "string list" where
  "demo_environ = [''PATH=/bin'', ''JOEI_SERVER_LISTEN=:1'', ''JOEI_PORT=tcp'', ''JOEI_TLS_CA_FILES='']"

lemma demo_scanner_names:
  "envName ''server.listen'' = ''JOEI_SERVER_LISTEN''" "kubernetesServiceLinkRe ''JOEI_PORT''" "\<not> kubernetesServiceLinkRe ''JOEI_SERVER_LISTEN''"
  by code_simp+

lemma demo_listen: "''JOEI_SERVER_LISTEN'' \<in> fst ` set (es_keys buildEnvSchema)"
proof -
  have "''server.listen'' \<in> set (map snd (es_keys buildEnvSchema))" unfolding schema_keys by simp
  then obtain n where "(n, ''server.listen'') \<in> set (es_keys buildEnvSchema)" by auto
  moreover from this have "n = ''JOEI_SERVER_LISTEN''"
    using schema_name demo_scanner_names(1) by simp
  ultimately show ?thesis by force
qed

lemma demo_environ_known: "unknown_env buildEnvSchema [] demo_environ = []"
  unfolding unknown_env_Nil using demo_listen demo_scanner_names(2)
  by (simp add: demo_environ_def env_problem_def cut_def envPrefix_def has_prefix_def)

lemma demo_variant_load:
  assumes "address \<noteq> []" "key = [] \<or> 32 \<le> length key"
  shows "Load demo_syntax (demo_variant address key) [] demo_environ = Inr (demo_variant address key)"
proof -
  have f: "splitList [''10.0.0.1''] = [''10.0.0.1'']"
    by (rule splitList_plain) (simp add: plain_field_ascii list_separators_def go_spaces_def ascii_def of_char_def)
  let ?c = "demo_variant address key"
  have "?c\<lparr>cf_UnknownEnv := [], cf_Server := (cf_Server ?c)\<lparr>srv_TrustedProxies := [''10.0.0.1'']\<rparr>\<rparr> = ?c"
    by (simp add: demo_variant_def demo_config_def)
  moreover have "srv_TrustedProxies (cf_Server ?c) = [''10.0.0.1'']" by (simp add: demo_variant_def demo_config_def)
  ultimately show ?thesis
    using demo_variant_valid [OF assms] demo_environ_known f by (simp add: Load_def Let_def)
qed

lemma demo_load: "Load demo_syntax demo_config [] demo_environ = Inr demo_config" "cf_UnknownEnv demo_config = []"
  using demo_variant_load [of "''tcp:clamd:3310''" "[]"] by (simp_all add: demo_variant_same) (simp add: demo_config_def)

theorem accepted_variables_set_something_witness:
  "(\<exists>!key. (''JOEI_SERVER_LISTEN'', key) \<in> set (es_keys buildEnvSchema)) \<or> (\<exists>key\<in>set []. ''JOEI_SERVER_LISTEN'' = envName key)"
proof -
  have "''JOEI_SERVER_LISTEN'' @ ''='' @ '':1'' \<in> set demo_environ" by (simp add: demo_environ_def)
  from accepted_variables_set_something [OF demo_load this] demo_scanner_names(3) show ?thesis
    by (simp add: envPrefix_def has_prefix_def directEnv_def)
qed

end
