(* ===== verification/Metrics.thy ===== *)
theory Metrics
  imports Console_API Health_Monitor Circuit_Breaker Scanners "HOL-Library.Multiset"
begin

text \<open>
  The Prometheus metrics, \<^verbatim>\<open>internal/metrics\<close>: the label vocabulary, the instrumentation of inbound requests,
  upstream calls, scans and events, and the collectors a scrape reads. A vector maps label values to its
  series; a histogram's series is the list of observed durations. An instrumented call has two
  halves, before and after the wrapped code, so that calls can overlap. Registration with the
  client library and the text format are not modelled.
\<close>

section \<open>Labels\<close>

definition other_label :: string where "other_label = ''other''"

definition oneOf :: "string \<Rightarrow> string list \<Rightarrow> string" where
  "oneOf v allowed = (if v \<in> set allowed then v else other_label)"

definition knownScanners :: "string list" where
  "knownScanners = [''clamav'', ''icap'', ''osv'', ''trivy'']"

definition knownEcosystems :: "string list" where
  "knownEcosystems = [''pypi'', ''npm'', ''maven'', ''rubygems'', ''go'', ''docker'']"

definition knownVerdicts :: "string list" where
  "knownVerdicts = [''pass'', ''cache'', ''block'', ''error'']"

definition knownGates :: "string list" where
  "knownGates = map gate_string [GateCache, GateSupply, GateCVE, GateMalware, GateImageScan]"

definition httpMethods :: "string list" where
  "httpMethods = [''GET'', ''HEAD'', ''POST'', ''PUT'', ''PATCH'', ''DELETE'', ''OPTIONS'']"

definition ssePath :: string where "ssePath = ''/api/events''"

text \<open>The hosts of the upstreams in the order they are first seen; \<open>url.Parse\<close> is an argument.\<close>

fun upstream_hosts :: "(string \<Rightarrow> string option) \<Rightarrow> string list \<Rightarrow> string list \<Rightarrow> string list" where
  "upstream_hosts host seen [] = []"
| "upstream_hosts host seen (raw # raws) =
     (case host raw of
        None \<Rightarrow> upstream_hosts host seen raws
      | Some h \<Rightarrow> if h = [] \<or> h \<in> set seen then upstream_hosts host seen raws else h # upstream_hosts host (h # seen) raws)"

definition UpstreamHosts :: "(string \<Rightarrow> string option) \<Rightarrow> string list list \<Rightarrow> string list" where
  "UpstreamHosts host upstreamLists = upstream_hosts host [] (concat upstreamLists)"

definition first_segment :: "string \<Rightarrow> string" where
  "first_segment path = takeWhile (\<lambda>c. c \<noteq> CHR ''/'') (trim_prefix path ''/'')"

definition NewRouteFunc :: "string list \<Rightarrow> string \<Rightarrow> string" where
  "NewRouteFunc proxyPrefixes path =
     (if path = ''/favicon.ico'' then ''favicon''
      else if path = ''/health'' \<or> path = ''/ready'' then ''health''
      else if path = ''/console'' \<or> has_prefix path ''/console/'' then ''console''
      else if has_prefix path ''/api/auth/'' then ''auth''
      else if has_prefix path ''/api/'' then ''api''
      else let seg = first_segment path in
        if seg \<in> set proxyPrefixes then (if seg = ''v2'' then ''docker'' else seg) else ''other'')"

definition lower :: "string \<Rightarrow> string" where
  "lower s = map lower_byte s"

section \<open>Vectors\<close>

type_synonym 'k counter_vec = "'k \<rightharpoonup> nat"
type_synonym 'k gauge_vec = "'k \<rightharpoonup> int"
type_synonym 'k histogram_vec = "'k \<rightharpoonup> duration list"

definition counter_inc :: "'k \<Rightarrow> 'k counter_vec \<Rightarrow> 'k counter_vec" where
  "counter_inc k v = v(k \<mapsto> (case v k of None \<Rightarrow> 1 | Some n \<Rightarrow> n + 1))"

definition gauge_add :: "'k \<Rightarrow> int \<Rightarrow> 'k gauge_vec \<Rightarrow> 'k gauge_vec" where
  "gauge_add k d v = v(k \<mapsto> (case v k of None \<Rightarrow> d | Some n \<Rightarrow> n + d))"

definition observe :: "'k \<Rightarrow> duration \<Rightarrow> 'k histogram_vec \<Rightarrow> 'k histogram_vec" where
  "observe k d v = v(k \<mapsto> (case v k of None \<Rightarrow> [d] | Some ds \<Rightarrow> ds @ [d]))"

record metrics =
  http_requests :: "(string \<times> string \<times> string) counter_vec"
  http_duration :: "(string \<times> string) histogram_vec"
  http_inFlight :: "string gauge_vec"
  http_aborted :: "string counter_vec"
  upstream_requests :: "(string \<times> string) counter_vec"
  upstream_duration :: "string histogram_vec"
  upstream_inFlight :: "string gauge_vec"
  upstream_errors :: "(string \<times> string) counter_vec"
  scanner_scans :: "(string \<times> string \<times> string) counter_vec"
  scanner_duration :: "(string \<times> string) histogram_vec"
  scanner_inFlight :: "(string \<times> string) gauge_vec"
  scanner_queueWait :: "duration list"
  scanner_limit :: int
  domain_verdicts :: "(string \<times> string \<times> string) counter_vec"

definition New_metrics :: metrics where
  "New_metrics = \<lparr>http_requests = Map.empty, http_duration = Map.empty, http_inFlight = Map.empty, http_aborted = Map.empty,
     upstream_requests = Map.empty, upstream_duration = Map.empty, upstream_inFlight = Map.empty, upstream_errors = Map.empty,
     scanner_scans = Map.empty, scanner_duration = Map.empty, scanner_inFlight = Map.empty, scanner_queueWait = [], scanner_limit = 0,
     domain_verdicts = Map.empty\<rparr>"

section \<open>Scans\<close>

definition scan_labels :: "string \<Rightarrow> string \<Rightarrow> string \<times> string" where
  "scan_labels scanner engine0 =
     (let engine = oneOf engine0 knownScanners in (if scanner = [] then engine else scanner, engine))"

text \<open>What the wrapped scan did: whether it detected something, and the error with whether it is a timeout.\<close>

record scan_outcome =
  so_detected :: bool
  so_error :: bool
  so_timeout :: bool

definition scan_result_label :: "scan_outcome \<Rightarrow> string" where
  "scan_result_label o' =
     (if so_error o' \<and> so_timeout o' then ''timeout'' else if so_error o' then ''error''
      else if so_detected o' then ''detected'' else ''clean'')"

definition record_enter :: "string \<times> string \<Rightarrow> metrics \<Rightarrow> metrics" where
  "record_enter l m = m\<lparr>scanner_inFlight := gauge_add l 1 (scanner_inFlight m)\<rparr>"

text \<open>The second half; a scan that panics (\<open>None\<close>) leaves through the deferred decrement only.\<close>

definition record_leave :: "string \<times> string \<Rightarrow> (scan_outcome \<times> duration) option \<Rightarrow> metrics \<Rightarrow> metrics" where
  "record_leave l out m0 =
     (let m = (case out of
            None \<Rightarrow> m0
          | Some (o', d) \<Rightarrow> m0\<lparr>scanner_duration := observe l d (scanner_duration m0),
                              scanner_scans := counter_inc (fst l, snd l, scan_result_label o') (scanner_scans m0)\<rparr>)
      in m\<lparr>scanner_inFlight := gauge_add l (- 1) (scanner_inFlight m)\<rparr>)"

text \<open>The wrapped engines: what is recorded of an engine's outcome, and the outcome passed on.\<close>

definition av_outcome :: "engine_outcome \<Rightarrow> bool \<Rightarrow> scan_outcome" where
  "av_outcome out timeout =
     \<lparr>so_detected = (case fst out of None \<Rightarrow> False | Some r \<Rightarrow> \<not> av_Clean r), so_error = (snd out \<noteq> None), so_timeout = timeout\<rparr>"

definition WrapAVScanner ::
  "string \<Rightarrow> string \<Rightarrow> ('x \<Rightarrow> engine_outcome) \<Rightarrow> ('x \<Rightarrow> bool \<times> duration) \<Rightarrow> 'x \<Rightarrow> metrics option \<Rightarrow> engine_outcome \<times> metrics option" where
  "WrapAVScanner name engine scan io x mx =
     (let out = scan x in
      (out, map_option (\<lambda>m. let l = scan_labels name engine in
              record_leave l (Some (av_outcome out (fst (io x)), snd (io x))) (record_enter l m)) mx))"

definition WrapCVEScanner ::
  "string \<Rightarrow> ('x \<Rightarrow> string + scan_result) \<Rightarrow> ('x \<Rightarrow> bool \<times> duration) \<Rightarrow> 'x \<Rightarrow> metrics option \<Rightarrow> (string + scan_result) \<times> metrics option" where
  "WrapCVEScanner engine scan io x mx =
     (let out = scan x in
      (out, map_option (\<lambda>m. let l = scan_labels engine engine in
              record_leave l (Some (\<lparr>so_detected = (case out of Inl _ \<Rightarrow> False | Inr r \<Rightarrow> \<not> sr_Clean r), so_error = isl out,
                so_timeout = fst (io x)\<rparr>, snd (io x))) (record_enter l m)) mx))"

definition WrapImageScanner ::
  "string \<Rightarrow> ('x \<Rightarrow> string + cve_finding list) \<Rightarrow> ('x \<Rightarrow> bool \<times> duration) \<Rightarrow> 'x \<Rightarrow> metrics option
   \<Rightarrow> (string + cve_finding list) \<times> metrics option" where
  "WrapImageScanner engine scan io x mx =
     (let out = scan x in
      (out, map_option (\<lambda>m. let l = scan_labels engine engine in
              record_leave l (Some (\<lparr>so_detected = (case out of Inl _ \<Rightarrow> False | Inr fs \<Rightarrow> fs \<noteq> []), so_error = isl out,
                so_timeout = fst (io x)\<rparr>, snd (io x))) (record_enter l m)) mx))"

definition ScanWaitObserver :: "duration \<Rightarrow> metrics \<Rightarrow> metrics" where
  "ScanWaitObserver d m = m\<lparr>scanner_queueWait := scanner_queueWait m @ [d]\<rparr>"

definition SetScanConcurrencyLimit :: "int \<Rightarrow> metrics option \<Rightarrow> metrics option" where
  "SetScanConcurrencyLimit n mx = map_option (\<lambda>m. m\<lparr>scanner_limit := n\<rparr>) mx"

section \<open>Upstream calls\<close>

text \<open>What the tests on an error's chain find.\<close>

record transport_failure =
  te_circuitOpen :: bool
  te_canceled :: bool
  te_deadline :: bool
  te_netTimeout :: bool
  te_dns :: bool
  te_certificate :: bool
  te_op :: bool

definition isTimeout :: "transport_failure \<Rightarrow> bool" where
  "isTimeout e \<longleftrightarrow> te_deadline e \<or> te_netTimeout e"

definition classifyUpstreamError :: "transport_failure \<Rightarrow> string" where
  "classifyUpstreamError e =
     (if te_circuitOpen e then ''circuit_open''
      else if te_canceled e then ''canceled''
      else if isTimeout e then ''timeout''
      else if te_dns e then ''dns''
      else if te_certificate e then ''tls''
      else if te_op e then ''connection''
      else ''other'')"

definition transport_enter :: "string \<Rightarrow> metrics \<Rightarrow> metrics" where
  "transport_enter host m = m\<lparr>upstream_inFlight := gauge_add host 1 (upstream_inFlight m)\<rparr>"

definition transport_leave :: "string \<Rightarrow> ((transport_failure + int) \<times> duration) option \<Rightarrow> metrics \<Rightarrow> metrics" where
  "transport_leave host out m0 =
     (let m = (case out of
            None \<Rightarrow> m0
          | Some (Inl e, d) \<Rightarrow> m0\<lparr>upstream_duration := observe host d (upstream_duration m0),
              upstream_requests := counter_inc (host, ''error'') (upstream_requests m0),
              upstream_errors := counter_inc (host, classifyUpstreamError e) (upstream_errors m0)\<rparr>
          | Some (Inr code, d) \<Rightarrow> m0\<lparr>upstream_duration := observe host d (upstream_duration m0),
              upstream_requests := counter_inc (host, FormatInt code) (upstream_requests m0)\<rparr>)
      in m\<lparr>upstream_inFlight := gauge_add host (- 1) (upstream_inFlight m)\<rparr>)"

definition WrapTransport ::
  "('r \<Rightarrow> transport_failure + int) \<Rightarrow> string list \<Rightarrow> ('r \<Rightarrow> string) \<Rightarrow> ('r \<Rightarrow> duration) \<Rightarrow> 'r \<Rightarrow> metrics option
   \<Rightarrow> (transport_failure + int) \<times> metrics option" where
  "WrapTransport rt hosts host_of elapsed req mx =
     (let out = rt req; host = oneOf (host_of req) hosts in
      (out, map_option (\<lambda>m. transport_leave host (Some (out, elapsed req)) (transport_enter host m)) mx))"

section \<open>Inbound requests\<close>

text \<open>A served request: its status and duration, and whether its client went away; \<open>None\<close> when the handler panicked.\<close>

definition handler_enter :: "string \<Rightarrow> metrics \<Rightarrow> metrics" where
  "handler_enter rt m = m\<lparr>http_inFlight := gauge_add rt 1 (http_inFlight m)\<rparr>"

definition handler_leave :: "string \<Rightarrow> string \<Rightarrow> bool \<Rightarrow> (int \<times> duration \<times> bool) option \<Rightarrow> metrics \<Rightarrow> metrics" where
  "handler_leave rt meth sse out m0 =
     (let m = (case out of
            None \<Rightarrow> m0
          | Some (code, d, gone) \<Rightarrow>
              m0\<lparr>http_requests := counter_inc (rt, meth, FormatInt code) (http_requests m0),
                 http_duration := (if sse then http_duration m0 else observe (rt, meth) d (http_duration m0)),
                 http_aborted := (if gone then counter_inc rt (http_aborted m0) else http_aborted m0)\<rparr>)
      in m\<lparr>http_inFlight := gauge_add rt (- 1) (http_inFlight m)\<rparr>)"

definition WrapHandler ::
  "(string \<Rightarrow> string) \<Rightarrow> ('q \<Rightarrow> (int \<times> duration \<times> bool) option) \<Rightarrow> ('q \<Rightarrow> string) \<Rightarrow> ('q \<Rightarrow> string) \<Rightarrow> 'q \<Rightarrow> metrics option
   \<Rightarrow> (int \<times> duration \<times> bool) option \<times> metrics option" where
  "WrapHandler route next path_of method_of r mx =
     (let out = next r; rt = route (path_of r); meth = oneOf (method_of r) httpMethods in
      (out, map_option (\<lambda>m. handler_leave rt meth (path_of r = ssePath) out (handler_enter rt m)) mx))"

section \<open>Events\<close>

text \<open>An event of the model always names a gate, so the label for none does not arise.\<close>

definition Recorder_labels :: "event \<Rightarrow> string \<times> string \<times> string" where
  "Recorder_labels e =
     (oneOf (ev_Ecosystem e) knownEcosystems, oneOf (lower (verdict_string (ev_Verdict e))) knownVerdicts,
      oneOf (gate_string (ev_Gate e)) knownGates)"

definition count_event :: "event \<Rightarrow> metrics \<Rightarrow> metrics" where
  "count_event e m = m\<lparr>domain_verdicts := counter_inc (Recorder_labels e) (domain_verdicts m)\<rparr>"

definition instrumented_Record :: "(event \<Rightarrow> 's \<Rightarrow> 's) \<Rightarrow> event \<Rightarrow> metrics option \<times> 's \<Rightarrow> metrics option \<times> 's" where
  "instrumented_Record inner e ms =
     (map_option (count_event e) (fst ms), inner e (snd ms))"

section \<open>Collectors\<close>

text \<open>A scrape's series of a gauge: label values and value.\<close>

definition b2f :: "bool \<Rightarrow> int" where "b2f b = (if b then 1 else 0)"

definition circuit_Collect :: "string list \<Rightarrow> string list \<Rightarrow> (string \<times> int) list" where
  "circuit_Collect openHosts hosts0 =
     (let hosts = sort hosts0; opened = map (\<lambda>h. oneOf h hosts) openHosts in
      map (\<lambda>h. (h, b2f (h \<in> set opened))) hosts
      @ (if other_label \<in> set opened \<and> other_label \<notin> set hosts then [(other_label, 1)] else []))"

definition health_labels :: "(string \<rightharpoonup> string) \<Rightarrow> string \<Rightarrow> string \<times> string" where
  "health_labels types name0 =
     (case types name0 of
        Some t \<Rightarrow> (name0, oneOf t knownScanners)
      | None \<Rightarrow> let name = oneOf (if name0 = ''osv.dev'' then ''osv'' else name0) knownScanners in (name, name))"

fun scanner_up :: "(string \<rightharpoonup> string) \<Rightarrow> string list \<Rightarrow> scanner_health list \<Rightarrow> ((string \<times> string) \<times> int) list" where
  "scanner_up types seen [] = []"
| "scanner_up types seen (sh # rest) =
     (let l = health_labels types (sh_Name sh) in
      if \<not> sh_Enabled sh \<or> sh_Status sh = HealthUnknown \<or> fst l \<in> set seen then scanner_up types seen rest
      else (l, b2f (sh_Status sh = HealthOK \<or> sh_Status sh = HealthWarn)) # scanner_up types (fst l # seen) rest)"

definition scannerUp_Collect :: "(string \<rightharpoonup> string) \<Rightarrow> scanner_health list \<Rightarrow> ((string \<times> string) \<times> int) list" where
  "scannerUp_Collect types snap = scanner_up types [] snap"

definition cacheSize_Collect :: "cache_stats option \<Rightarrow> int list" where
  "cacheSize_Collect stats = (case stats of None \<Rightarrow> [] | Some st \<Rightarrow> [cs_SizeBytes st])"

end
