(* ===== verification/Metrics_Correct.thy ===== *)
theory Metrics_Correct
  imports Metrics
begin

text \<open>
  What the metrics show of any run of overlapping calls: every in-flight gauge is the number of calls
  between their two halves (the locale \<open>in_flight\<close>, interpreted on the three gauges), and the labels stay within
  fixed sets. A scrape holds no series twice.
\<close>

section \<open>Runs\<close>

datatype call = HttpCall string string bool | UpstreamCall string | ScanCall "string \<times> string"

record answer =
  an_http :: "(int \<times> duration \<times> bool) option"
  an_upstream :: "((transport_failure + int) \<times> duration) option"
  an_scan :: "(scan_outcome \<times> duration) option"

definition mx_enter :: "call \<Rightarrow> metrics \<Rightarrow> metrics" where
  "mx_enter c = (case c of HttpCall rt _ _ \<Rightarrow> handler_enter rt | UpstreamCall h \<Rightarrow> transport_enter h | ScanCall l \<Rightarrow> record_enter l)"

definition mx_leave :: "call \<Rightarrow> answer \<Rightarrow> metrics \<Rightarrow> metrics" where
  "mx_leave c a =
     (case c of
        HttpCall rt meth sse \<Rightarrow> handler_leave rt meth sse (an_http a)
      | UpstreamCall h \<Rightarrow> transport_leave h (an_upstream a)
      | ScanCall l \<Rightarrow> record_leave l (an_scan a))"

definition labelled :: "string list \<Rightarrow> string list \<Rightarrow> (string \<times> string) list \<Rightarrow> call \<Rightarrow> bool" where
  "labelled proxyPrefixes hosts engines c \<longleftrightarrow>
     (case c of
        HttpCall rt meth sse \<Rightarrow> \<exists>p me. rt = NewRouteFunc proxyPrefixes p \<and> meth = oneOf me httpMethods \<and> sse = (p = ssePath)
      | UpstreamCall h \<Rightarrow> \<exists>host. h = oneOf host hosts
      | ScanCall l \<Rightarrow> \<exists>(name, engine)\<in>set engines. l = scan_labels name engine)"

inductive mx_run :: "string list \<Rightarrow> string list \<Rightarrow> (string \<times> string) list \<Rightarrow> metrics \<Rightarrow> call multiset \<Rightarrow> bool"
  for proxyPrefixes hosts engines where
  fresh: "mx_run proxyPrefixes hosts engines New_metrics {#}"
| begins: "mx_run proxyPrefixes hosts engines m cs \<Longrightarrow> labelled proxyPrefixes hosts engines c \<Longrightarrow>
    mx_run proxyPrefixes hosts engines (mx_enter c m) (add_mset c cs)"
| ends: "mx_run proxyPrefixes hosts engines m cs \<Longrightarrow> c \<in># cs \<Longrightarrow> mx_run proxyPrefixes hosts engines (mx_leave c a m) (cs - {#c#})"
| event: "mx_run proxyPrefixes hosts engines m cs \<Longrightarrow> mx_run proxyPrefixes hosts engines (count_event e m) cs"
| waited: "mx_run proxyPrefixes hosts engines m cs \<Longrightarrow> mx_run proxyPrefixes hosts engines (ScanWaitObserver d m) cs"

lemmas mx_defs = mx_enter_def mx_leave_def handler_enter_def handler_leave_def transport_enter_def transport_leave_def
  record_enter_def record_leave_def ScanWaitObserver_def count_event_def New_metrics_def

lemma running_labelled: "mx_run proxyPrefixes hosts engines m cs \<Longrightarrow> c \<in># cs \<Longrightarrow> labelled proxyPrefixes hosts engines c"
  by (induction arbitrary: c rule: mx_run.induct) (auto dest: in_diffD)

section \<open>Gauges\<close>

definition level :: "'k gauge_vec \<Rightarrow> 'k \<Rightarrow> int" where
  "level v k = (case v k of None \<Rightarrow> 0 | Some n \<Rightarrow> n)"

lemma level_add: "level (gauge_add k d v) l = level v l + (if l = k then d else 0)"
  by (auto simp: level_def gauge_add_def split: option.splits)

locale in_flight =
  fixes gauge :: "metrics \<Rightarrow> 'k gauge_vec" and key :: "call \<Rightarrow> 'k option"
  assumes entering: "level (gauge (mx_enter c m)) k = level (gauge m) k + (if key c = Some k then 1 else 0)"
    and leaving: "level (gauge (mx_leave c a m)) k = level (gauge m) k - (if key c = Some k then 1 else 0)"
    and untouched: "gauge (count_event e m) = gauge m" "gauge (ScanWaitObserver d m) = gauge m"
    and initially: "level (gauge New_metrics) k = 0"
begin

lemma counts_running:
  "mx_run proxyPrefixes hosts engines m cs \<Longrightarrow> level (gauge m) k = int (size {#c \<in># cs. key c = Some k#})"
proof (induction rule: mx_run.induct)
  case (ends m cs c a)
  then obtain cs' where "cs = add_mset c cs'" by (metis insert_DiffM)
  with ends(3) show ?case by (simp add: leaving split: if_splits)
qed (simp_all add: entering untouched initially)

lemma idle_is_zero: "mx_run proxyPrefixes hosts engines m {#} \<Longrightarrow> level (gauge m) k = 0"
  using counts_running [of proxyPrefixes hosts engines m "{#}"] by simp

end

fun http_key :: "call \<Rightarrow> string option" where
  "http_key (HttpCall rt _ _) = Some rt"
| "http_key _ = None"

fun upstream_key :: "call \<Rightarrow> string option" where
  "upstream_key (UpstreamCall h) = Some h"
| "upstream_key _ = None"

fun scan_key :: "call \<Rightarrow> (string \<times> string) option" where
  "scan_key (ScanCall l) = Some l"
| "scan_key _ = None"

interpretation http_calls: in_flight http_inFlight http_key
  by unfold_locales (auto simp: mx_defs Let_def level_add level_def [of Map.empty] split: call.splits option.splits sum.splits)

interpretation upstream_calls: in_flight upstream_inFlight upstream_key
  by unfold_locales (auto simp: mx_defs Let_def level_add level_def [of Map.empty] split: call.splits option.splits sum.splits)

interpretation scan_calls: in_flight scanner_inFlight scan_key
  by unfold_locales (auto simp: mx_defs Let_def level_add level_def [of Map.empty] split: call.splits option.splits sum.splits)

text \<open>C36: At every moment of any run of overlapping requests, upstream calls and scans, panics included, the
  in-flight gauge of a route, host or engine is the number of its unfinished calls.
\<close>

theorem gauges_count_running_calls:
  assumes "mx_run proxyPrefixes hosts engines m cs"
  shows "level (http_inFlight m) rt = int (size {#c \<in># cs. http_key c = Some rt#})
    \<and> level (upstream_inFlight m) h = int (size {#c \<in># cs. upstream_key c = Some h#})
    \<and> level (scanner_inFlight m) l = int (size {#c \<in># cs. scan_key c = Some l#})"
  using http_calls.counts_running [OF assms] upstream_calls.counts_running [OF assms] scan_calls.counts_running [OF assms] by simp

definition demo_engines :: "(string \<times> string) list" where
  "demo_engines = [(''av'', ''clamav''), (''osv'', ''osv'')]"

text \<open>One scan is running after another one failed.\<close>

definition demo_call :: call where "demo_call = ScanCall (scan_labels ''av'' ''clamav'')"

definition demo_answer :: answer where
  "demo_answer = \<lparr>an_http = None, an_upstream = None, an_scan = Some (\<lparr>so_detected = False, so_error = True, so_timeout = True\<rparr>, 7)\<rparr>"

lemma demo_scan_run:
  "mx_run [] [] demo_engines (mx_enter demo_call (mx_leave demo_call demo_answer (mx_enter demo_call New_metrics))) {#demo_call#}"
proof -
  have l: "labelled [] [] demo_engines demo_call" by (simp add: labelled_def demo_call_def demo_engines_def)
  from mx_run.ends [OF mx_run.begins [OF mx_run.fresh l], of demo_call demo_answer]
  have "mx_run [] [] demo_engines (mx_leave demo_call demo_answer (mx_enter demo_call New_metrics)) {#}" by simp
  from mx_run.begins [OF this l] show ?thesis by simp
qed

theorem gauges_count_running_calls_witness:
  "level (scanner_inFlight (mx_enter demo_call (mx_leave demo_call demo_answer (mx_enter demo_call New_metrics)))) (''av'', ''clamav'') = 1"
  using gauges_count_running_calls [OF demo_scan_run, of _ _ "(''av'', ''clamav'')"]
  by (simp add: demo_call_def scan_labels_def oneOf_def knownScanners_def)

section \<open>Labels\<close>

lemma dom_vectors [simp]:
  "dom (counter_inc k c) = insert k (dom c)" "dom (gauge_add k i g) = insert k (dom g)" "dom (observe k d h) = insert k (dom h)"
  by (auto simp: counter_inc_def gauge_add_def observe_def)

lemma oneOf_closed [simp]: "oneOf v allowed \<in> insert other_label (set allowed)"
  by (simp add: oneOf_def)

definition route_labels :: "string list \<Rightarrow> string list" where
  "route_labels proxyPrefixes = [''favicon'', ''health'', ''console'', ''auth'', ''api'', ''docker'', ''other''] @ proxyPrefixes"

lemma route_closed [simp]: "NewRouteFunc proxyPrefixes p \<in> set (route_labels proxyPrefixes)"
  by (simp add: NewRouteFunc_def route_labels_def Let_def)

definition error_reasons :: "string list" where
  "error_reasons = [''circuit_open'', ''canceled'', ''timeout'', ''dns'', ''tls'', ''connection'', ''other'']"

lemma reason_closed [simp]: "classifyUpstreamError e \<in> set error_reasons"
  by (simp add: classifyUpstreamError_def error_reasons_def)

definition scan_results :: "string list" where
  "scan_results = [''clean'', ''detected'', ''timeout'', ''error'']"

lemma result_closed [simp]: "scan_result_label o' \<in> set scan_results"
  by (simp add: scan_result_label_def scan_results_def)

definition engine_labels :: "(string \<times> string) list \<Rightarrow> (string \<times> string) list" where
  "engine_labels engines = map (\<lambda>(name, engine). scan_labels name engine) engines"

lemma event_closed [simp]:
  "Recorder_labels e \<in> insert other_label (set knownEcosystems) \<times> set knownVerdicts \<times> set knownGates"
proof -
  have "list_all (\<lambda>v. oneOf (lower (verdict_string v)) knownVerdicts \<in> set knownVerdicts) [VerdictPass, VerdictCache, VerdictBlock, VerdictError]"
    by code_simp
  then have "oneOf (lower (verdict_string v)) knownVerdicts \<in> set knownVerdicts" for v by (cases v) simp_all
  moreover have "oneOf (gate_string g) knownGates \<in> set knownGates" for g by (cases g) (simp_all add: oneOf_def knownGates_def)
  ultimately show ?thesis by (simp only: Recorder_labels_def mem_Times_iff fst_conv snd_conv oneOf_closed simp_thms)
qed

text \<open>The label values of every vector; only status codes are open.\<close>

definition labels_closed :: "string list \<Rightarrow> string list \<Rightarrow> (string \<times> string) list \<Rightarrow> metrics \<Rightarrow> bool" where
  "labels_closed proxyPrefixes hosts engines m \<longleftrightarrow>
     (let routes = set (route_labels proxyPrefixes); methods = insert other_label (set httpMethods);
          ups = insert other_label (set hosts); scans = set (engine_labels engines) in
      dom (http_requests m) \<subseteq> routes \<times> methods \<times> range FormatInt \<and> dom (http_duration m) \<subseteq> routes \<times> methods
      \<and> dom (http_inFlight m) \<subseteq> routes \<and> dom (http_aborted m) \<subseteq> routes
      \<and> dom (upstream_requests m) \<subseteq> ups \<times> insert ''error'' (range FormatInt) \<and> dom (upstream_duration m) \<subseteq> ups
      \<and> dom (upstream_inFlight m) \<subseteq> ups \<and> dom (upstream_errors m) \<subseteq> ups \<times> set error_reasons
      \<and> dom (scanner_scans m) \<subseteq> {(s, e, r). (s, e) \<in> scans \<and> r \<in> set scan_results}
      \<and> dom (scanner_duration m) \<subseteq> scans \<and> dom (scanner_inFlight m) \<subseteq> scans
      \<and> dom (domain_verdicts m) \<subseteq> insert other_label (set knownEcosystems) \<times> set knownVerdicts \<times> set knownGates)"

lemma labelled_cases:
  assumes "labelled proxyPrefixes hosts engines c"
  shows "case c of HttpCall rt meth sse \<Rightarrow> rt \<in> set (route_labels proxyPrefixes) \<and> meth \<in> insert other_label (set httpMethods)
    | UpstreamCall h \<Rightarrow> h \<in> insert other_label (set hosts) | ScanCall l \<Rightarrow> l \<in> set (engine_labels engines)"
  using assms by (auto simp: labelled_def engine_labels_def oneOf_def split: call.splits)

lemma enter_closed: "labels_closed P H E m \<Longrightarrow> labelled P H E c \<Longrightarrow> labels_closed P H E (mx_enter c m)"
  using labelled_cases [of P H E c]
  by (auto simp: labels_closed_def Let_def mx_enter_def handler_enter_def transport_enter_def record_enter_def split: call.splits)

lemma handler_leave_closed:
  "labels_closed P H E m \<Longrightarrow> rt \<in> set (route_labels P) \<Longrightarrow> meth \<in> insert other_label (set httpMethods) \<Longrightarrow>
   labels_closed P H E (handler_leave rt meth sse out m)"
  by (cases out) (simp_all add: labels_closed_def Let_def handler_leave_def mem_Times_iff split: prod.splits)

lemma transport_leave_closed:
  "labels_closed P H E m \<Longrightarrow> h \<in> insert other_label (set H) \<Longrightarrow> labels_closed P H E (transport_leave h out m)"
  by (cases out) (simp_all add: labels_closed_def Let_def transport_leave_def mem_Times_iff split: prod.splits sum.splits, blast)

lemma record_leave_closed: "labels_closed P H E m \<Longrightarrow> l \<in> set (engine_labels E) \<Longrightarrow> labels_closed P H E (record_leave l out m)"
  by (cases out; cases l) (simp_all add: labels_closed_def Let_def record_leave_def split: prod.splits)

lemma leave_closed: "labels_closed P H E m \<Longrightarrow> labelled P H E c \<Longrightarrow> labels_closed P H E (mx_leave c a m)"
  using labelled_cases [of P H E c]
  by (cases c) (simp_all add: mx_leave_def handler_leave_closed transport_leave_closed record_leave_closed)

text \<open>
  Over any run the label values stay within sets that the configuration fixes, whatever paths,
  methods, hosts and errors occur.
\<close>

theorem metric_labels_are_closed:
  assumes "mx_run proxyPrefixes hosts engines m cs"
  shows "labels_closed proxyPrefixes hosts engines m"
  using assms
proof (induction rule: mx_run.induct)
  case (begins m cs c)
  then show ?case by (intro enter_closed)
next
  case (ends m cs c a)
  then show ?case by (intro leave_closed) (auto dest: running_labelled)
next
  case (event m cs e)
  then show ?case using event_closed [of e] by (simp add: labels_closed_def Let_def count_event_def)
qed (simp_all add: labels_closed_def Let_def ScanWaitObserver_def New_metrics_def)

theorem metric_labels_are_closed_witness:
  "labels_closed [] [] demo_engines (mx_enter demo_call (mx_leave demo_call demo_answer (mx_enter demo_call New_metrics)))"
  by (rule metric_labels_are_closed [OF demo_scan_run])

section \<open>Scrapes\<close>

lemma upstream_hosts_distinct: "distinct (upstream_hosts host seen raws) \<and> set (upstream_hosts host seen raws) \<inter> set seen = {}"
  by (induction host seen raws rule: upstream_hosts.induct) (auto split: option.splits)

lemma upstream_hosts_set: "set (upstream_hosts host seen raws) = {h. h \<noteq> [] \<and> h \<notin> set seen \<and> (\<exists>raw\<in>set raws. host raw = Some h)}"
  by (induction host seen raws rule: upstream_hosts.induct) (auto split: option.splits)

lemma circuit_series:
  assumes "distinct hosts"
  shows "distinct (map fst (circuit_Collect openHosts hosts))"
    "map_of (circuit_Collect openHosts hosts) h =
       (if h \<in> set hosts then Some (b2f (h \<in> set openHosts \<or> h = other_label \<and> \<not> set openHosts \<subseteq> set hosts))
        else if h = other_label \<and> \<not> set openHosts \<subseteq> set hosts then Some 1 else None)"
proof -
  have mem: "h \<in> set (map (\<lambda>x. oneOf x (sort hosts)) openHosts) \<longleftrightarrow>
      h \<in> set hosts \<and> h \<in> set openHosts \<or> h = other_label \<and> \<not> set openHosts \<subseteq> set hosts" for h
    by (auto simp: oneOf_def image_iff)
  show "distinct (map fst (circuit_Collect openHosts hosts))"
    using assms by (auto simp: circuit_Collect_def Let_def o_def)
  show "map_of (circuit_Collect openHosts hosts) h =
       (if h \<in> set hosts then Some (b2f (h \<in> set openHosts \<or> h = other_label \<and> \<not> set openHosts \<subseteq> set hosts))
        else if h = other_label \<and> \<not> set openHosts \<subseteq> set hosts then Some 1 else None)"
    unfolding circuit_Collect_def Let_def mem
    by (auto simp: map_of_map_restrict map_add_def restrict_map_def split: if_splits)
qed

lemma scanner_up_distinct:
  "distinct (map (fst \<circ> fst) (scanner_up types seen snap)) \<and> (fst \<circ> fst) ` set (scanner_up types seen snap) \<inter> set seen = {}"
  by (induction types seen snap rule: scanner_up.induct) (auto simp: Let_def)

end
