(* ===== verification/Scanner_Setup.thy ===== *)
theory Scanner_Setup
  imports Configuration_Correct Metrics_Correct Docker_Registry
begin

text \<open>
  The engines a start builds from the configuration and the monitor over them (\<^verbatim>\<open>cmd/jo-ei/scanners.go\<close>), and the readiness
  endpoint that reads the monitor (\<^verbatim>\<open>cmd/jo-ei/ready.go\<close>). For a validated configuration every engine has a
  row of its own in the console and a series of its own in a scrape.
\<close>

section \<open>Building the engines\<close>

definition defaultOSVBaseURL :: string where "defaultOSVBaseURL = ''https://api.osv.dev''"

definition defaultMaxConcurrentScans :: int64 where "defaultMaxConcurrentScans = 8"

definition osvTimeout :: duration where "osvTimeout = 15 * Second"

definition osv_base :: "cve_config \<Rightarrow> string" where
  "osv_base cve = (if cc_BaseURL cve = [] then defaultOSVBaseURL else cc_BaseURL cve)"

definition osv_cache_ttl :: "cve_config \<Rightarrow> duration" where
  "osv_cache_ttl cve = (let ttl = wrap64 (cc_CacheTTLMinutes cve * Minute) in if ttl = 0 then 24 * Hour else ttl)"

definition NewOSVScanner :: "duration \<Rightarrow> osv_scanner" where
  "NewOSVScanner ttl = \<lparr>os_ttl = ttl, os_cache = Map.empty, os_health = None\<rparr>"

record scanners =
  sn_cve :: "osv_scanner option"
  sn_av :: "(limited_scanner \<times> av_scanner list) option"
  sn_trivy :: "trivy_scanner option"
  sn_health :: monitor
  sn_types :: "string \<rightharpoonup> string"
  sn_engineCount :: nat

datatype setup_error = ScannerUnusable nat | LimitPanic | RegistrationPanic

fun new_engines :: "nat \<Rightarrow> scanner_config list \<Rightarrow> setup_error + av_scanner list" where
  "new_engines i [] = Inr []"
| "new_engines i (sc # scs) =
     (case New_scanner sc of
        None \<Rightarrow> Inl (ScannerUnusable i)
      | Some av \<Rightarrow> (case new_engines (Suc i) scs of Inl e \<Rightarrow> Inl e | Inr avs \<Rightarrow> Inr (av # avs)))"

definition scan_limit :: "malware_config \<Rightarrow> int64" where
  "scan_limit mw = (if mw_MaxConcurrentScans mw = 0 then defaultMaxConcurrentScans else mw_MaxConcurrentScans mw)"

text \<open>The malware engines, attached only when the profile blocks malware.\<close>

definition attach_engines :: "malware_config \<Rightarrow> policy_profile \<Rightarrow> setup_error + (limited_scanner \<times> av_scanner list) option" where
  "attach_engines mw profile =
     (if pp_MalwareBlock profile \<and> mw_Scanners mw \<noteq> []
      then case new_engines 0 (mw_Scanners mw) of
          Inl e \<Rightarrow> Inl e
        | Inr avs \<Rightarrow> (case NewLimitedScanner (scan_limit mw) of None \<Rightarrow> Inl LimitPanic | Some l \<Rightarrow> Inr (Some (l, avs)))
      else Inr None)"

text \<open>The rows of the monitor: both kinds of engine can be probed.\<close>

fun watch_engines :: "bool \<Rightarrow> scanner_config list \<Rightarrow> monitor \<Rightarrow> monitor option" where
  "watch_engines attached [] m = Some m"
| "watch_engines attached (sc # scs) m =
     Option.bind (if attached then AddActive m (DisplayName sc) (scc_Address sc) True else AddDisabled m (DisplayName sc) (scc_Address sc))
       (watch_engines attached scs)"

definition health_monitor :: "health_config \<Rightarrow> monitor" where
  "health_monitor h =
     (let slow = wrap64 (hl_SlowThresholdMS h * 1000000) in
      NewMonitor (wrap64 (hl_ProbeIntervalSeconds h * Second)) (if slow \<le> 0 then 2000 * 1000000 else slow))"

definition watch_all :: "config \<Rightarrow> bool \<Rightarrow> monitor option" where
  "watch_all c attached =
     Option.bind (if cc_Enabled (cf_CVE c) then AddPassive (health_monitor (cf_Health c)) ''osv.dev'' (osv_base (cf_CVE c)) True
                  else Some (health_monitor (cf_Health c)))
       (\<lambda>m. Option.bind (watch_engines attached (mw_Scanners (cf_Malware c)) m)
         (\<lambda>m. if im_Enabled (cf_ImageScan c) then AddActive m ''trivy'' (im_TrivyServer (cf_ImageScan c)) True else Some m))"

definition scannerTypes :: "scanner_config list \<Rightarrow> string \<rightharpoonup> string" where
  "scannerTypes scs = foldl (\<lambda>types sc. types(DisplayName sc \<mapsto> scc_Type sc)) Map.empty scs"

definition buildScanners :: "config \<Rightarrow> policy_profile \<Rightarrow> setup_error + scanners" where
  "buildScanners c profile =
     (case attach_engines (cf_Malware c) profile of
        Inl e \<Rightarrow> Inl e
      | Inr av \<Rightarrow>
          (case watch_all c (av \<noteq> None) of
             None \<Rightarrow> Inl RegistrationPanic
           | Some m \<Rightarrow> Inr
               \<lparr>sn_cve = (if cc_Enabled (cf_CVE c) then Some (NewOSVScanner (osv_cache_ttl (cf_CVE c))) else None),
                sn_av = av,
                sn_trivy = (if im_Enabled (cf_ImageScan c)
                   then Some (NewTrivyScanner (im_TrivyServer (cf_ImageScan c)) (im_Scanners (cf_ImageScan c))
                     (wrap64 (im_TimeoutSeconds (cf_ImageScan c) * Second)))
                   else None),
                sn_health = Monitor_Start m,
                sn_types = scannerTypes (mw_Scanners (cf_Malware c)),
                sn_engineCount = (case av of None \<Rightarrow> 0 | Some (_, avs) \<Rightarrow> length avs)\<rparr>))"

section \<open>Readiness\<close>

definition readinessCacheTTL :: duration where "readinessCacheTTL = 2 * Second"

record readiness =
  rd_at :: gotime
  rd_code :: int
  rd_failing :: "string list"

definition fresh_readiness :: readiness where
  "fresh_readiness = \<lparr>rd_at = zero_time, rd_code = 0, rd_failing = []\<rparr>"

text \<open>One evaluation: whether the database answered in time, and the monitor's snapshot.\<close>

definition failing_parts :: "bool \<Rightarrow> scanner_health list \<Rightarrow> string list" where
  "failing_parts db_ok snap =
     (if db_ok then [] else [''database''])
     @ map sh_Name (filter (\<lambda>sh. sh_Enabled sh \<and> \<not> sh_Passive sh \<and> sh_Status sh = HealthDown) snap)"

definition evaluate_readiness :: "bool \<Rightarrow> scanner_health list \<Rightarrow> int \<times> string list" where
  "evaluate_readiness db_ok snap =
     (let failing = failing_parts db_ok snap in (if failing = [] then 200 else 503, failing))"

record ready_probe =
  pb_now :: gotime
  pb_db :: bool
  pb_snap :: "scanner_health list"
  pb_done :: gotime

definition readinessHandler :: "readiness \<Rightarrow> ready_probe \<Rightarrow> (int \<times> string list) \<times> readiness" where
  "readinessHandler rd p =
     (let rd' = (if readinessCacheTTL \<le> time_sub (pb_now p) (rd_at rd)
                 then (case evaluate_readiness (pb_db p) (pb_snap p) of (code, failing) \<Rightarrow>
                        rd\<lparr>rd_code := code, rd_failing := failing, rd_at := pb_done p\<rparr>)
                 else rd)
      in ((rd_code rd', rd_failing rd'), rd'))"

fun probe_replies :: "readiness \<Rightarrow> ready_probe list \<Rightarrow> (int \<times> string list) list" where
  "probe_replies rd [] = []"
| "probe_replies rd (p # ps) = (case readinessHandler rd p of (reply, rd') \<Rightarrow> reply # probe_replies rd' ps)"

section \<open>Rows and series\<close>

definition row_names :: "monitor \<Rightarrow> string list" where
  "row_names m = map (sh_Name \<circ> he_meta) (mo_entries m)"

lemma add_entry_Some:
  "\<not> mo_started m \<Longrightarrow> add_entry m k meta = Some (m\<lparr>mo_entries := mo_entries m @ [\<lparr>he_meta = meta, he_kind = k, he_sample = None\<rparr>]\<rparr>)"
  by (simp add: add_entry_def)

lemmas register_defs = AddActive_def AddPassive_def AddDisabled_def

definition engine_rows :: "bool \<Rightarrow> scanner_config list \<Rightarrow> health_entry list" where
  "engine_rows attached scs =
     map (\<lambda>sc. \<lparr>he_meta = zero_health (DisplayName sc) (scc_Address sc) attached False,
               he_kind = (if attached then kindActive else kindDisabled), he_sample = None\<rparr>) scs"

lemma watch_engines_rows:
  "\<not> mo_started m \<Longrightarrow> watch_engines attached scs m = Some (m\<lparr>mo_entries := mo_entries m @ engine_rows attached scs\<rparr>)"
  by (induction scs arbitrary: m) (auto simp: register_defs add_entry_Some engine_rows_def)

lemma watch_all_rows:
  "\<exists>m. watch_all c attached = Some m \<and> \<not> mo_stopped m
     \<and> mo_entries m =
         (if cc_Enabled (cf_CVE c) then [\<lparr>he_meta = zero_health ''osv.dev'' (osv_base (cf_CVE c)) True True, he_kind = kindPassive, he_sample = None\<rparr>] else [])
         @ engine_rows attached (mw_Scanners (cf_Malware c))
         @ (if im_Enabled (cf_ImageScan c)
            then [\<lparr>he_meta = zero_health ''trivy'' (im_TrivyServer (cf_ImageScan c)) True False, he_kind = kindActive, he_sample = None\<rparr>] else [])"
  by (simp add: watch_all_def health_monitor_def NewMonitor_def register_defs add_entry_Some watch_engines_rows Let_def)

lemma engine_row_names: "map (sh_Name \<circ> he_meta) (engine_rows attached scs) = map DisplayName scs"
  by (simp add: engine_rows_def zero_health_def)

definition expected_rows :: "config \<Rightarrow> string list" where
  "expected_rows c = (if cc_Enabled (cf_CVE c) then [''osv.dev''] else []) @ map DisplayName (mw_Scanners (cf_Malware c))
     @ (if im_Enabled (cf_ImageScan c) then [''trivy''] else [])"

lemma reserved_names_free:
  assumes "Validate ns c = None"
  shows "''osv.dev'' \<notin> DisplayName ` set (mw_Scanners (cf_Malware c))" "''osv'' \<notin> DisplayName ` set (mw_Scanners (cf_Malware c))"
    "''trivy'' \<notin> DisplayName ` set (mw_Scanners (cf_Malware c))"
  using Validate_None(5) [OF assms] engine_ok_name by (metis imageE)+

lemma expected_rows_distinct: "Validate ns c = None \<Longrightarrow> distinct (expected_rows c)"
  using Validate_None(6) [of ns c] reserved_names_free [of ns c] by (simp add: expected_rows_def)

lemma scannerTypes_eq: "scannerTypes scs name = map_option scc_Type (find (\<lambda>sc. DisplayName sc = name) (rev scs))"
proof -
  have "foldl (\<lambda>types sc. types(DisplayName sc \<mapsto> scc_Type sc)) t scs name
      = (case find (\<lambda>sc. DisplayName sc = name) (rev scs) of None \<Rightarrow> t name | Some sc \<Rightarrow> Some (scc_Type sc))" for t
    by (induction scs rule: rev_induct) auto
  then show ?thesis by (simp add: scannerTypes_def split: option.splits)
qed

lemma scannerTypes_dom: "scannerTypes scs name = None \<longleftrightarrow> name \<notin> DisplayName ` set scs"
  by (auto simp: scannerTypes_eq find_None_iff)

lemma snapshot_names:
  assumes "\<not> mo_stopped m"
  shows "map sh_Name (Monitor_Snapshot report (monitor_loop rounds m)) = row_names m"
proof (rule nth_equalityI)
  note f = monitor_loop_fixed [OF assms, of rounds]
  show "length (map sh_Name (Monitor_Snapshot report (monitor_loop rounds m))) = length (row_names m)"
    using f by (simp add: Monitor_Snapshot_def row_names_def)
  fix i assume "i < length (map sh_Name (Monitor_Snapshot report (monitor_loop rounds m)))"
  then show "map sh_Name (Monitor_Snapshot report (monitor_loop rounds m)) ! i = row_names m ! i"
    using f by (simp add: Monitor_Snapshot_def row_names_def nth_enumerate_eq snapshot_entry_def split: prod.splits)
qed

definition shown :: "scanner_health \<Rightarrow> bool" where
  "shown sh \<longleftrightarrow> sh_Enabled sh \<and> sh_Status sh \<noteq> HealthUnknown"

lemma scanner_up_labels:
  assumes "distinct (map (fst \<circ> health_labels types \<circ> sh_Name) snap)" "set (map (fst \<circ> health_labels types \<circ> sh_Name) snap) \<inter> set seen = {}"
  shows "map fst (scanner_up types seen snap) = map (health_labels types \<circ> sh_Name) (filter shown snap)"
  using assms by (induction types seen snap rule: scanner_up.induct) (auto simp: Let_def shown_def)

lemma health_labels_names:
  assumes "Validate ns c = None"
  shows "map (fst \<circ> health_labels (scannerTypes (mw_Scanners (cf_Malware c)))) (expected_rows c)
    = (if cc_Enabled (cf_CVE c) then [''osv''] else []) @ map DisplayName (mw_Scanners (cf_Malware c))
      @ (if im_Enabled (cf_ImageScan c) then [''trivy''] else [])"
proof -
  let ?t = "scannerTypes (mw_Scanners (cf_Malware c))"
  have "fst (health_labels ?t (DisplayName sc)) = DisplayName sc" if "sc \<in> set (mw_Scanners (cf_Malware c))" for sc
    using that scannerTypes_dom [of "mw_Scanners (cf_Malware c)" "DisplayName sc"] by (auto simp: health_labels_def)
  moreover have "?t ''osv.dev'' = None" "?t ''trivy'' = None"
    using reserved_names_free [OF assms] unfolding scannerTypes_dom by blast+
  then have "fst (health_labels ?t ''osv.dev'') = ''osv''" "fst (health_labels ?t ''trivy'') = ''trivy''"
    by (simp_all add: health_labels_def oneOf_def knownScanners_def Let_def)
  ultimately show ?thesis by (simp add: expected_rows_def)
qed

lemma buildScanners_rows:
  assumes "buildScanners c profile = Inr b"
  shows "row_names (sn_health b) = expected_rows c" "\<not> mo_stopped (sn_health b)" "sn_types b = scannerTypes (mw_Scanners (cf_Malware c))"
proof -
  obtain av where av: "attach_engines (cf_Malware c) profile = Inr av" using assms by (auto simp: buildScanners_def split: sum.splits)
  from watch_all_rows [of c "av \<noteq> None"] obtain m where m: "watch_all c (av \<noteq> None) = Some m" "\<not> mo_stopped m"
    "row_names m = expected_rows c"
    by (auto simp: row_names_def expected_rows_def engine_row_names zero_health_def simp del: map_map)
  with assms av show "row_names (sn_health b) = expected_rows c" "\<not> mo_stopped (sn_health b)"
    "sn_types b = scannerTypes (mw_Scanners (cf_Malware c))"
    by (auto simp: buildScanners_def Monitor_Start_def row_names_def)
qed

text \<open>C27: With a validated configuration the console shows every engine in a row of its own, and a scrape has
  one series for each engine that is enabled and was checked, none of them dropped as a duplicate.
\<close>

theorem engines_have_rows_and_series:
  assumes "Validate ns c = None" "buildScanners c profile = Inr b"
    and "snap = Monitor_Snapshot report (monitor_loop rounds (sn_health b))"
  shows "map sh_Name snap = expected_rows c \<and> distinct (expected_rows c)
    \<and> map fst (scannerUp_Collect (sn_types b) snap) = map (health_labels (sn_types b) \<circ> sh_Name) (filter shown snap)
    \<and> distinct (map (fst \<circ> fst) (scannerUp_Collect (sn_types b) snap))"
proof -
  note b = buildScanners_rows [OF assms(2)]
  have names: "map sh_Name snap = expected_rows c" using snapshot_names [OF b(2)] b(1) assms(3) by simp
  have "map (fst \<circ> health_labels (sn_types b) \<circ> sh_Name) snap
      = (if cc_Enabled (cf_CVE c) then [''osv''] else []) @ map DisplayName (mw_Scanners (cf_Malware c))
        @ (if im_Enabled (cf_ImageScan c) then [''trivy''] else [])"
    using health_labels_names [OF assms(1)] unfolding b(3) names [symmetric] by (simp add: comp_assoc)
  moreover have "distinct \<dots>" using Validate_None(6) [OF assms(1)] reserved_names_free [OF assms(1)] by simp
  ultimately have "map fst (scannerUp_Collect (sn_types b) snap) = map (health_labels (sn_types b) \<circ> sh_Name) (filter shown snap)"
    unfolding scannerUp_Collect_def by (intro scanner_up_labels) simp_all
  with names expected_rows_distinct [OF assms(1)] scanner_up_distinct show ?thesis by (auto simp: scannerUp_Collect_def)
qed

definition demo_profile :: policy_profile where
  "demo_profile = \<lparr>pp_CVEBlock = True, pp_CVEMinSeverity = [], pp_SupplyChainBlock = True, pp_MalwareBlock = True, pp_Allowlist = [], pp_Denylist = []\<rparr>"

lemma demo_scanners_built: "\<exists>b. buildScanners demo_config demo_profile = Inr b"
proof -
  obtain m where "watch_all demo_config True = Some m" using watch_all_rows [of demo_config True] by blast
  moreover have "\<exists>x. attach_engines (cf_Malware demo_config) demo_profile = Inr (Some x)"
    by (simp add: attach_engines_def demo_profile_def demo_config_def demo_scanner_def New_scanner_def NewClamAVScanner_def
        parseScannerAddress_def has_prefix_def trim_prefix_def NewLimitedScanner_def scan_limit_def defaultMaxConcurrentScans_def Let_def)
  ultimately show ?thesis by (auto simp: buildScanners_def)
qed

theorem engines_have_rows_and_series_witness:
  "\<exists>b. buildScanners demo_config demo_profile = Inr b
     \<and> map sh_Name (Monitor_Snapshot (\<lambda>_. \<lparr>sm_OK = True, sm_Latency = 1, sm_HasData = True\<rparr>) (monitor_loop [\<lambda>_. (True, 1)] (sn_health b)))
       = [''osv.dev'', ''clamav'', ''trivy'']"
proof -
  obtain b where b: "buildScanners demo_config demo_profile = Inr b" using demo_scanners_built by blast
  have "expected_rows demo_config = [''osv.dev'', ''clamav'', ''trivy'']"
    by (simp add: expected_rows_def demo_config_def demo_scanner_def DisplayName_def)
  with engines_have_rows_and_series [OF demo_config_valid b refl] b show ?thesis by metis
qed

section \<open>What an answer of the readiness endpoint says\<close>

lemma probe_replies_recent:
  assumes "i < length ps"
  shows "(probe_replies rd ps ! i = (rd_code rd, rd_failing rd) \<and> time_sub (pb_now (ps ! i)) (rd_at rd) < readinessCacheTTL)
    \<or> (\<exists>j\<le>i. probe_replies rd ps ! i = evaluate_readiness (pb_db (ps ! j)) (pb_snap (ps ! j))
         \<and> (j = i \<or> time_sub (pb_now (ps ! i)) (pb_done (ps ! j)) < readinessCacheTTL))"
  using assms
proof (induction ps arbitrary: rd i)
  case (Cons p ps)
  obtain reply rd' where h: "readinessHandler rd p = (reply, rd')" by fastforce
  show ?case
  proof (cases i)
    case 0
    with h show ?thesis by (auto simp: readinessHandler_def Let_def split: if_splits prod.splits)
  next
    case (Suc k)
    with Cons.prems have k: "k < length ps" by simp
    have rep: "probe_replies rd (p # ps) ! i = probe_replies rd' ps ! k" using Suc h by simp
    consider "rd' = rd" | "(rd_code rd', rd_failing rd') = evaluate_readiness (pb_db p) (pb_snap p)" "rd_at rd' = pb_done p"
      using h by (auto simp: readinessHandler_def Let_def split: if_splits prod.splits)
    then show ?thesis
    proof cases
      case 1
      from Cons.IH [OF k, of rd] show ?thesis unfolding rep 1 using Suc by (auto intro: exI [of _ "Suc j" for j])
    next
      case 2
      from Cons.IH [OF k, of rd'] show ?thesis unfolding rep 2 using Suc by (auto intro: exI [of _ "Suc j" for j] exI [of _ 0])
    qed
  qed
qed simp

text \<open>
  Every answer of a run of probes is the evaluation made by that probe or by one that ended less than two
  seconds before it, and an evaluation says 200 exactly when the database answered and no enabled engine that
  is probed was down.
\<close>

theorem readiness_is_recent:
  assumes "i < length ps" "\<forall>p\<in>set ps. readinessCacheTTL \<le> time_sub (pb_now p) zero_time"
  shows "\<exists>j\<le>i. probe_replies fresh_readiness ps ! i = evaluate_readiness (pb_db (ps ! j)) (pb_snap (ps ! j))
      \<and> (j = i \<or> time_sub (pb_now (ps ! i)) (pb_done (ps ! j)) < readinessCacheTTL)
      \<and> (fst (probe_replies fresh_readiness ps ! i) = 200 \<longleftrightarrow>
          pb_db (ps ! j) \<and> (\<forall>sh\<in>set (pb_snap (ps ! j)). sh_Enabled sh \<and> \<not> sh_Passive sh \<longrightarrow> sh_Status sh \<noteq> HealthDown))"
proof -
  have "readinessCacheTTL \<le> time_sub (pb_now (ps ! i)) (rd_at fresh_readiness)" using assms by (simp add: fresh_readiness_def)
  with probe_replies_recent [OF assms(1), of fresh_readiness] obtain j where j: "j \<le> i"
    "probe_replies fresh_readiness ps ! i = evaluate_readiness (pb_db (ps ! j)) (pb_snap (ps ! j))"
    "j = i \<or> time_sub (pb_now (ps ! i)) (pb_done (ps ! j)) < readinessCacheTTL" by force
  have "fst (evaluate_readiness db snap) = 200 \<longleftrightarrow>
      db \<and> (\<forall>sh\<in>set snap. sh_Enabled sh \<and> \<not> sh_Passive sh \<longrightarrow> sh_Status sh \<noteq> HealthDown)" for db snap
    by (auto simp: evaluate_readiness_def failing_parts_def Let_def filter_empty_conv)
  with j show ?thesis by metis
qed

text \<open>Two probes, the second within two seconds: it repeats the first answer.\<close>

definition demo_probes :: "ready_probe list" where
  "demo_probes = [\<lparr>pb_now = 0, pb_db = False, pb_snap = [], pb_done = 5\<rparr>, \<lparr>pb_now = 1000, pb_db = True, pb_snap = [], pb_done = 1001\<rparr>]"

theorem readiness_is_recent_witness: "fst (probe_replies fresh_readiness demo_probes ! 1) = 503"
proof -
  have "1 < length demo_probes" "\<forall>p\<in>set demo_probes. readinessCacheTTL \<le> time_sub (pb_now p) zero_time"
    by (simp_all add: demo_probes_def readinessCacheTTL_def zero_time_def go_time_defs)
  from readiness_is_recent [OF this] have "\<exists>j\<le>1. probe_replies fresh_readiness demo_probes ! 1
      = evaluate_readiness (pb_db (demo_probes ! j)) (pb_snap (demo_probes ! j))" by blast
  moreover have "probe_replies fresh_readiness demo_probes ! 1 = (503, [''database''])"
    by (simp add: demo_probes_def readinessHandler_def evaluate_readiness_def failing_parts_def fresh_readiness_def readinessCacheTTL_def
        zero_time_def go_time_defs Let_def)
  ultimately show ?thesis by simp
qed

end
