(* ===== verification/Session_Key.thy ===== *)
theory Session_Key
  imports Auth_Token Policy_Runtime Configuration
begin

text \<open>
  The console's signing key and the lifetimes of its sessions, \<^verbatim>\<open>cmd/jo-ei/authsecret.go\<close>: where the key comes
  from, that a generated key is stored, and padded base64, in which it is stored.
\<close>

section \<open>Padded base64\<close>

definition std_alphabet :: string where
  "std_alphabet = ''ABCDEFGHIJKLMNOPQRSTUVWXYZabcdefghijklmnopqrstuvwxyz0123456789+/''"

definition std_char :: "nat \<Rightarrow> char" where
  "std_char n = std_alphabet ! n"

definition std_val :: "char \<Rightarrow> nat option" where
  "std_val c = map_of (zip std_alphabet [0..<64]) c"

definition std_EncodeToString :: "string \<Rightarrow> string" where
  "std_EncodeToString s =
     (let gs = b64_groups (map of_char s) in map std_char gs @ replicate ((4 - length gs mod 4) mod 4) CHR ''='')"

text \<open>Line breaks are skipped; the text is whole quadruples, of which the last may end in one or two padding signs.\<close>

definition std_DecodeString :: "string \<Rightarrow> string option" where
  "std_DecodeString s0 =
     (let s = filter (\<lambda>c. c \<notin> {CHR 0x0A, CHR 0x0D}) s0; body = takeWhile (\<lambda>c. c \<noteq> CHR ''='') s in
      if length s mod 4 \<noteq> 0 \<or> list_ex (\<lambda>c. c \<noteq> CHR ''='') (drop (length body) s) \<or> 2 < length s - length body then None
      else Option.bind (those (map std_val body)) (\<lambda>vs. map_option (map char_of) (b64_bytes vs)))"

lemma std_val_char_all: "list_all (\<lambda>n. std_val (std_char n) = Some n \<and> std_char n \<noteq> CHR ''='' \<and> std_char n \<noteq> CHR 0x0A \<and> std_char n \<noteq> CHR 0x0D) [0..<64]"
  by code_simp

lemma std_val_char: "n < 64 \<Longrightarrow> std_val (std_char n) = Some n \<and> std_char n \<notin> {CHR ''='', CHR 0x0A, CHR 0x0D}"
  using std_val_char_all by (simp add: list_all_iff)

lemma b64_groups_length: "length (b64_groups xs) mod 4 \<noteq> 1"
proof (induction xs rule: b64_groups.induct)
  case (4 x y z r)
  then show ?case by simp
qed simp_all

lemma padding_fills: "(n + (4 - n mod 4) mod 4) mod 4 = 0" "n mod 4 \<noteq> 1 \<Longrightarrow> (4 - n mod 4) mod 4 \<le> 2" for n :: nat
proof -
  have r: "(r + (4 - r) mod 4) mod 4 = 0 \<and> (r \<noteq> 1 \<longrightarrow> (4 - r) mod 4 \<le> 2)" if "r < 4" for r :: nat
  proof -
    from that consider "r = 0" | "r = 1" | "r = 2" | "r = 3" by linarith
    then show ?thesis by cases simp_all
  qed
  have "(n + (4 - n mod 4) mod 4) mod 4 = (n mod 4 + (4 - n mod 4) mod 4) mod 4" by (rule mod_add_left_eq [symmetric])
  then show "(n + (4 - n mod 4) mod 4) mod 4 = 0" using r [of "n mod 4"] by simp
  show "n mod 4 \<noteq> 1 \<Longrightarrow> (4 - n mod 4) mod 4 \<le> 2" using r [of "n mod 4"] by simp
qed

lemma std_round_trip: "std_DecodeString (std_EncodeToString s) = Some s"
proof -
  let ?g = "b64_groups (map of_char s)" and ?p = "(4 - length (b64_groups (map of_char s :: nat list)) mod 4) mod 4"
  have small: "\<forall>g\<in>set ?g. g < 64" by (rule b64_groups_small [OF byte_small])
  have enc: "std_EncodeToString s = map std_char ?g @ replicate ?p CHR ''=''" by (simp add: std_EncodeToString_def Let_def)
  have keep: "filter (\<lambda>c. c \<notin> {CHR 0x0A, CHR 0x0D}) (std_EncodeToString s) = std_EncodeToString s"
    unfolding enc using small std_val_char by (intro filter_True) auto
  have body: "takeWhile (\<lambda>c. c \<noteq> CHR ''='') (std_EncodeToString s) = map std_char ?g"
    unfolding enc using small std_val_char by (subst takeWhile_append2) auto
  have vs: "those (map std_val (map std_char ?g)) = Some ?g"
    using small std_val_char by (intro those_map_Some) auto
  have "(length ?g + ?p) mod 4 = 0" by (rule padding_fills)
  moreover have "?p \<le> 2" by (rule padding_fills, rule b64_groups_length)
  ultimately show ?thesis
    unfolding std_DecodeString_def Let_def keep body vs
    by (simp add: enc list_ex_iff b64_bytes_groups [OF byte_small] comp_def)
qed

section \<open>The key\<close>

definition jwtSecretSettingKey :: string where "jwtSecretSettingKey = ''auth.jwt_secret''"

datatype key_error = KeyReadFailed | KeyUndecodable | KeyRandomFailed | KeyStoreFailed

text \<open>The last resort: a key of \<open>MinSecretLen\<close> random bytes, absent when the random source fails.\<close>

definition generate_key :: "settings_store \<Rightarrow> string option \<Rightarrow> key_error + string \<times> settings_store" where
  "generate_key st random =
     (case random of
        None \<Rightarrow> Inl KeyRandomFailed
      | Some secret \<Rightarrow>
          (case settings_Put st jwtSecretSettingKey (StringRow (std_EncodeToString secret)) of
             Inl _ \<Rightarrow> Inl KeyStoreFailed
           | Inr st' \<Rightarrow> Inr (secret, st')))"

definition resolveJWTSecret :: "string \<Rightarrow> string \<Rightarrow> settings_store \<Rightarrow> string option \<Rightarrow> key_error + string \<times> settings_store" where
  "resolveJWTSecret envValue fileValue st random =
     (if trim_space envValue \<noteq> [] then Inr (trim_space envValue, st)
      else if trim_space fileValue \<noteq> [] then Inr (trim_space fileValue, st)
      else case settings_Get st jwtSecretSettingKey of
        Inl _ \<Rightarrow> Inl KeyReadFailed
      | Inr None \<Rightarrow> generate_key st random
      | Inr (Some (StringRow encoded)) \<Rightarrow>
          (case std_DecodeString encoded of
             None \<Rightarrow> Inl KeyUndecodable
           | Some secret \<Rightarrow> if MinSecretLen \<le> length secret then Inr (secret, st) else generate_key st random)
      | Inr (Some _) \<Rightarrow> Inl KeyUndecodable)"

definition authTTLs :: "auth_config \<Rightarrow> duration \<times> duration" where
  "authTTLs c =
     (let minutes = (if au_AccessTTLMinutes c \<le> 0 then DefaultAccessTTLMinutes else au_AccessTTLMinutes c);
          hours = (if au_RefreshTTLHours c \<le> 0 then DefaultRefreshTTLHours else au_RefreshTTLHours c)
      in (wrap64 (minutes * Minute), wrap64 (hours * Hour)))"

lemma authTTLs_exact:
  assumes "0 \<le> au_AccessTTLMinutes c" "au_AccessTTLMinutes c \<le> 153722867" "0 \<le> au_RefreshTTLHours c" "au_RefreshTTLHours c \<le> 2562047"
  shows "authTTLs c = ((if au_AccessTTLMinutes c = 0 then 15 else au_AccessTTLMinutes c) * Minute,
           (if au_RefreshTTLHours c = 0 then 168 else au_RefreshTTLHours c) * Hour)"
    and "0 < fst (authTTLs c)" "0 < snd (authTTLs c)"
proof -
  show *: "authTTLs c = ((if au_AccessTTLMinutes c = 0 then 15 else au_AccessTTLMinutes c) * Minute,
           (if au_RefreshTTLHours c = 0 then 168 else au_RefreshTTLHours c) * Hour)"
    using assms by (auto simp: authTTLs_def Let_def DefaultAccessTTLMinutes_def DefaultRefreshTTLHours_def wrap64_id go_time_defs
        min_int64_def max_int64_def)
  show "0 < fst (authTTLs c)" "0 < snd (authTTLs c)" using assms by (auto simp: * go_time_defs)
qed

text \<open>C26: The key a start resolves is the key every later start resolves from the store it left, whatever
  random bytes that start would draw; a stored or generated key is long enough to sign with,
  and no other setting is touched.
\<close>

theorem signing_key_survives_restart:
  assumes "resolveJWTSecret envValue fileValue st random = Inr (key, st')" "\<forall>r. random = Some r \<longrightarrow> length r = MinSecretLen"
    "st_readable st"
  shows "resolveJWTSecret envValue fileValue st' random' = Inr (key, st')
    \<and> (trim_space envValue = [] \<and> trim_space fileValue = [] \<longrightarrow> NewSigner key \<noteq> None)
    \<and> (\<forall>k. k \<noteq> jwtSecretSettingKey \<longrightarrow> st_rows st' k = st_rows st k)"
proof -
  have gen: "st' = st\<lparr>st_rows := (st_rows st)(jwtSecretSettingKey \<mapsto> StringRow (std_EncodeToString key))\<rparr> \<and> length key = MinSecretLen"
    if "generate_key st random = Inr (key, st')"
    using that assms(2) by (auto simp: generate_key_def settings_Put_def split: option.splits sum.splits if_splits)
  consider "trim_space envValue \<noteq> [] \<or> trim_space fileValue \<noteq> []" | "trim_space envValue = []" "trim_space fileValue = []" by blast
  then show ?thesis
  proof cases
    case 1
    then show ?thesis using assms(1) by (auto simp: resolveJWTSecret_def split: if_splits)
  next
    case 2
    then have "generate_key st random = Inr (key, st')
        \<or> st' = st \<and> MinSecretLen \<le> length key \<and> (\<exists>e. st_rows st jwtSecretSettingKey = Some (StringRow e) \<and> std_DecodeString e = Some key)"
      using assms(1,3) by (auto simp: resolveJWTSecret_def settings_Get_def split: sum.splits option.splits json_row.splits if_splits)
    with gen 2 assms(3) show ?thesis
      by (auto simp: resolveJWTSecret_def settings_Get_def std_round_trip NewSigner_def)
  qed
qed

text \<open>A first start on an empty store, and the next one.\<close>

definition demo_random :: string where "demo_random = replicate 32 CHR 0x41"

theorem signing_key_survives_restart_witness:
  "\<exists>st'. resolveJWTSecret [] '' '' sample_store (Some demo_random) = Inr (demo_random, st')
     \<and> resolveJWTSecret [] '' '' st' None = Inr (demo_random, st')"
proof -
  have t: "trim_space '' '' = []" by code_simp
  obtain st' where r: "resolveJWTSecret [] '' '' sample_store (Some demo_random) = Inr (demo_random, st')"
    by (simp add: resolveJWTSecret_def t settings_Get_def sample_store_def generate_key_def settings_Put_def)
  have "\<forall>r. Some demo_random = Some r \<longrightarrow> length r = MinSecretLen" "st_readable sample_store"
    by (simp_all add: demo_random_def MinSecretLen_def sample_store_def)
  from signing_key_survives_restart [OF r this, of None] r show ?thesis by blast
qed

end
