(* ===== verification/Root_Routes.thy ===== *)
theory Root_Routes
  imports Registry_Adapters_Correct Pypi_Index Metrics
begin

text \<open>
  The outermost routes, \<^verbatim>\<open>buildRootHandler\<close> of \<^verbatim>\<open>cmd/jo-ei/console.go\<close>: the site icon, the console's files,
  readiness, sessions, the console API behind its session check, and the proxy for every other path.
  \<open>http.ServeMux\<close> is modelled for patterns of literal segments: it cleans the path, redirects to a directory pattern
  when only the slash is missing, and otherwise picks the most specific pattern. The unescaping of a segment is
  an argument.
\<close>

section \<open>The multiplexer\<close>

definition cleanPath :: "string \<Rightarrow> string" where
  "cleanPath p0 =
     (if p0 = [] then ''/''
      else let p = (if hd p0 = CHR ''/'' then p0 else CHR ''/'' # p0); np = path_Clean p
           in if last p = CHR ''/'' \<and> np \<noteq> ''/'' then np @ ''/'' else np)"

text \<open>A pattern: its segments and whether it covers the paths below it. A path is a list of unescaped segments, the last
  one empty when the path ends in a slash.\<close>

type_synonym mux_pattern = "string list \<times> bool"

definition path_segments :: "(string \<Rightarrow> string) \<Rightarrow> string \<Rightarrow> string list" where
  "path_segments unescape path = map unescape (split_on (CHR ''/'') (tl path))"

definition pattern_matches :: "mux_pattern \<Rightarrow> string list \<Rightarrow> bool" where
  "pattern_matches p segs =
     (if snd p then length (fst p) < length segs \<and> take (length (fst p)) segs = fst p else segs = fst p)"

definition exactMatch :: "mux_pattern \<Rightarrow> string list \<Rightarrow> bool" where
  "exactMatch p segs = (if snd p then segs = fst p @ [[]] else True)"

definition more_specific :: "mux_pattern \<times> 'h \<Rightarrow> mux_pattern \<times> 'h \<Rightarrow> mux_pattern \<times> 'h" where
  "more_specific a b =
     (if length (fst (fst a)) < length (fst (fst b)) \<or> length (fst (fst a)) = length (fst (fst b)) \<and> snd (fst a) then b else a)"

fun best_match :: "(mux_pattern \<times> 'h) list \<Rightarrow> string list \<Rightarrow> (mux_pattern \<times> 'h) option" where
  "best_match [] segs = None"
| "best_match (ph # phs) segs =
     (if pattern_matches (fst ph) segs
      then (case best_match phs segs of None \<Rightarrow> Some ph | Some q \<Rightarrow> Some (more_specific ph q)) else best_match phs segs)"

datatype 'h mux_answer = Redirected | NotFound | Handled 'h

definition slash_missing :: "(mux_pattern \<times> 'h) list \<Rightarrow> string list \<Rightarrow> bool" where
  "slash_missing phs segs =
     (last segs \<noteq> [] \<and> (case best_match phs segs of None \<Rightarrow> True | Some (p, _) \<Rightarrow> \<not> exactMatch p segs)
      \<and> (case best_match phs (segs @ [[]]) of None \<Rightarrow> False | Some (p, _) \<Rightarrow> exactMatch p (segs @ [[]])))"

definition findHandler :: "(mux_pattern \<times> 'h) list \<Rightarrow> (string \<Rightarrow> string) \<Rightarrow> string \<Rightarrow> string \<Rightarrow> 'h mux_answer" where
  "findHandler phs unescape meth escaped =
     (let p = (if meth = ''CONNECT'' then escaped else cleanPath escaped); segs = path_segments unescape p in
      if slash_missing phs segs then Redirected
      else if p \<noteq> escaped then Redirected
      else case best_match phs segs of None \<Rightarrow> NotFound | Some (_, h) \<Rightarrow> Handled h)"

section \<open>The routes\<close>

datatype root_target = FaviconFile | ConsoleShell | ReadyProbe | AuthAPI | ConsoleAPI | ProxyMux

definition root_patterns :: "(mux_pattern \<times> root_target) list" where
  "root_patterns =
     [(([''favicon.ico''], False), FaviconFile), (([''console''], True), ConsoleShell), (([''ready''], False), ReadyProbe),
      (([''api'', ''auth''], True), AuthAPI), (([''api''], True), ConsoleAPI), (([], True), ProxyMux)]"

definition csp_quoted :: "string \<Rightarrow> string" where
  "csp_quoted s = CHR 0x27 # s @ [CHR 0x27]"

definition consoleCSP :: string where
  "consoleCSP =
     ''default-src '' @ csp_quoted ''self'' @ ''; script-src '' @ csp_quoted ''self'' @ ''; style-src '' @ csp_quoted ''self''
      @ '' '' @ csp_quoted ''unsafe-inline''
      @ '' https://fonts.googleapis.com; font-src https://fonts.gstatic.com; img-src '' @ csp_quoted ''self''
      @ '' data:; connect-src '' @ csp_quoted ''self'' @ ''; object-src '' @ csp_quoted ''none'' @ ''; base-uri ''
      @ csp_quoted ''self'' @ ''; form-action '' @ csp_quoted ''self'' @ ''; frame-ancestors '' @ csp_quoted ''none''"

definition securityHeaders :: "header \<Rightarrow> header" where
  "securityHeaders h =
     hdr_Set (hdr_Set (hdr_Set (hdr_Set h ''Content-Security-Policy'' consoleCSP) ''X-Content-Type-Options'' ''nosniff'')
       ''X-Frame-Options'' ''DENY'') ''Referrer-Policy'' ''no-referrer''"

text \<open>A handler gets the header map it starts from; the two handlers of the redirect and of no match are the multiplexer's own.\<close>

type_synonym 's http_handler = "header \<Rightarrow> http_request \<Rightarrow> 's \<Rightarrow> reply \<times> 's"

record 's root_handlers =
  rh_favicon :: "'s http_handler"
  rh_console :: "'s http_handler"
  rh_ready :: "'s http_handler"
  rh_auth :: "'s http_handler"
  rh_api :: "'s http_handler"
  rh_proxy :: "'s http_handler"

definition root_ServeHTTP ::
  "'s root_handlers \<Rightarrow> (string \<Rightarrow> string) \<Rightarrow> (http_request \<Rightarrow> string) \<Rightarrow> 's http_handler \<Rightarrow> header \<Rightarrow> http_request \<Rightarrow> 's \<Rightarrow> reply \<times> 's" where
  "root_ServeHTTP rh unescape escaped_of redirect w r s =
     (case findHandler root_patterns unescape (rq_Method r) (escaped_of r) of
        Redirected \<Rightarrow> redirect w r s
      | NotFound \<Rightarrow> (http_Error w ''404 page not found'' 404, s)
      | Handled FaviconFile \<Rightarrow> rh_favicon rh (securityHeaders w) r s
      | Handled ConsoleShell \<Rightarrow> rh_console rh (securityHeaders w) r s
      | Handled ReadyProbe \<Rightarrow> rh_ready rh w r s
      | Handled AuthAPI \<Rightarrow> rh_auth rh (securityHeaders w) r s
      | Handled ConsoleAPI \<Rightarrow> rh_api rh (securityHeaders w) r s
      | Handled ProxyMux \<Rightarrow> rh_proxy rh w r s)"

section \<open>Which request goes where\<close>

























text \<open>The condition on the label cannot go: this request reaches the proxy and is counted with the session endpoints.\<close>

lemma escaped_slash_is_mislabelled:
  "findHandler root_patterns (\<lambda>s. if s = ''api%2Fauth'' then ''api/auth'' else s) ''GET'' ''/api%2Fauth/x'' = Handled ProxyMux
   \<and> NewRouteFunc [''npm''] ''/api/auth/x'' = ''auth''"
  by code_simp

lemma securityHeaders_set:
  "hdr_Get (securityHeaders h) ''X-Frame-Options'' = ''DENY'' \<and> hdr_Get (securityHeaders h) ''Content-Security-Policy'' = consoleCSP
   \<and> hdr_Get (securityHeaders h) ''X-Content-Type-Options'' = ''nosniff'' \<and> hdr_Get (securityHeaders h) ''Referrer-Policy'' = ''no-referrer''"
proof -
  let ?names = "[''Content-Security-Policy'', ''X-Content-Type-Options'', ''X-Frame-Options'', ''Referrer-Policy'']"
  have "list_all (\<lambda>k. list_all (\<lambda>l. k = l \<or> CanonicalHeaderKey k \<noteq> CanonicalHeaderKey l) ?names) ?names"
    by code_simp
  then show ?thesis by (simp add: securityHeaders_def)
qed

end
