(* ===== verification/Storage.thy ===== *)
theory Storage
  imports Go_Prelude
begin

text \<open>
  The embedded database, \<^verbatim>\<open>internal/storage/storage.go\<close>: opening the file and the migrations of the components
  that share it. What a statement does to the schema is an argument; \<open>None\<close> is a statement that fails.
  Statements run one by one, outside a transaction.
\<close>

section \<open>Opening\<close>

datatype open_error = DbMkdirFailed | SqlOpenFailed | PragmaFailed string

definition pragmas :: "string list" where
  "pragmas = [''PRAGMA busy_timeout=5000'', ''PRAGMA journal_mode=WAL'', ''PRAGMA synchronous=NORMAL'', ''PRAGMA foreign_keys=ON'']"

text \<open>The result and whether a handle that was opened has been closed again.\<close>

record open_io =
  oi_mkdir :: bool
  oi_open :: bool
  oi_pragma :: "string \<Rightarrow> bool"

definition storage_Open :: "open_io \<Rightarrow> open_error option \<times> bool" where
  "storage_Open io =
     (if \<not> oi_mkdir io then (Some DbMkdirFailed, False)
      else if \<not> oi_open io then (Some SqlOpenFailed, False)
      else case find (\<lambda>p. \<not> oi_pragma io p) pragmas of
        Some p \<Rightarrow> (Some (PragmaFailed p), True)
      | None \<Rightarrow> (None, False))"

section \<open>Migrations\<close>

record 's sql_db =
  sq_schema :: 's
  sq_versions :: "string \<rightharpoonup> nat"
  sq_readable :: bool
  sq_writable :: bool

datatype migration_error = CreateVersionsFailed | ReadVersionFailed | StepFailed nat | RecordVersionFailed

text \<open>The steps from \<open>i\<close> on; a failure keeps what the steps before it did.\<close>

fun run_steps :: "('s \<Rightarrow> string \<Rightarrow> 's option) \<Rightarrow> nat \<Rightarrow> string list \<Rightarrow> 's \<Rightarrow> nat option \<times> 's" where
  "run_steps exec i [] s = (None, s)"
| "run_steps exec i (q # qs) s = (case exec s q of None \<Rightarrow> (Some i, s) | Some s' \<Rightarrow> run_steps exec (Suc i) qs s')"

definition ApplyMigrations ::
  "('s \<Rightarrow> string \<Rightarrow> 's option) \<Rightarrow> 's sql_db \<Rightarrow> string \<Rightarrow> string list \<Rightarrow> migration_error option \<times> 's sql_db" where
  "ApplyMigrations exec db component steps =
     (if \<not> sq_writable db then (Some CreateVersionsFailed, db)
      else if \<not> sq_readable db then (Some ReadVersionFailed, db)
      else
        let current = (case sq_versions db component of None \<Rightarrow> 0 | Some v \<Rightarrow> v);
            (failed, s) = run_steps exec current (drop current steps) (sq_schema db)
        in case failed of
             Some i \<Rightarrow> (Some (StepFailed i), db\<lparr>sq_schema := s\<rparr>)
           | None \<Rightarrow> (None, db\<lparr>sq_schema := s, sq_versions := (sq_versions db)(component \<mapsto> length steps)\<rparr>))"

lemma run_steps_append:
  "run_steps exec i (a @ b) s =
     (case run_steps exec i a s of (Some k, s') \<Rightarrow> (Some k, s') | (None, s') \<Rightarrow> run_steps exec (i + length a) b s')"
  by (induction a arbitrary: i s) (auto split: option.splits prod.splits)

text \<open>
  Upgrades run each step once: a program with the steps \<open>a\<close> followed by one with the steps \<open>a @ b\<close> leaves what the
  second alone would have left, or fails at the same step, further starts change nothing, and the other components keep their versions.
\<close>

theorem migrations_run_once:
  assumes "sq_versions db component = None" "ApplyMigrations exec db component a = (None, db1)"
  shows "(\<forall>db2. ApplyMigrations exec db1 component (a @ b) = (None, db2) \<longleftrightarrow> ApplyMigrations exec db component (a @ b) = (None, db2))
    \<and> fst (ApplyMigrations exec db1 component (a @ b)) = fst (ApplyMigrations exec db component (a @ b))
    \<and> ApplyMigrations exec db1 component a = (None, db1)
    \<and> (\<forall>other. other \<noteq> component \<longrightarrow> sq_versions db1 other = sq_versions db other)"
proof -
  obtain s where s: "run_steps exec 0 a (sq_schema db) = (None, s)" "sq_writable db" "sq_readable db"
    "db1 = db\<lparr>sq_schema := s, sq_versions := (sq_versions db)(component \<mapsto> length a)\<rparr>"
    using assms by (auto simp: ApplyMigrations_def Let_def split: prod.splits option.splits if_splits)
  have v: "sq_versions db1 component = Some (length a)" "sq_schema db1 = s" "sq_writable db1" "sq_readable db1"
    using s by simp_all
  have "run_steps exec 0 (a @ b) (sq_schema db) = run_steps exec (length a) b s"
    by (simp add: run_steps_append s(1))
  then have "(ApplyMigrations exec db1 component (a @ b) = (None, db2) \<longleftrightarrow> ApplyMigrations exec db component (a @ b) = (None, db2))
      \<and> fst (ApplyMigrations exec db1 component (a @ b)) = fst (ApplyMigrations exec db component (a @ b))" for db2
    by (simp add: ApplyMigrations_def v s(2,3) assms(1)) (simp add: s(4) split: prod.splits option.splits)
  moreover have "ApplyMigrations exec db1 component a = (None, db1)"
    by (simp add: ApplyMigrations_def v) (simp add: s(4))
  ultimately show ?thesis by (simp add: s(4))
qed

definition demo_exec :: "string list \<Rightarrow> string \<Rightarrow> string list option" where
  "demo_exec s q = (if q = [] then None else Some (s @ [q]))"

definition demo_db :: "string list sql_db" where
  "demo_db = \<lparr>sq_schema = [], sq_versions = Map.empty, sq_readable = True, sq_writable = True\<rparr>"

lemma demo_migration:
  "ApplyMigrations demo_exec demo_db ''users'' [''A''] = (None, demo_db\<lparr>sq_schema := [''A''], sq_versions := [''users'' \<mapsto> 1]\<rparr>)"
  by (simp add: ApplyMigrations_def demo_exec_def demo_db_def)

theorem migrations_run_once_witness:
  "fst (ApplyMigrations demo_exec (demo_db\<lparr>sq_schema := [''A''], sq_versions := [''users'' \<mapsto> 1]\<rparr>) ''users'' ([''A''] @ [''B'']))
     = fst (ApplyMigrations demo_exec demo_db ''users'' ([''A''] @ [''B'']))"
  using migrations_run_once [OF _ demo_migration, of "[''B'']"] by (simp add: demo_db_def)

text \<open>
  The recorded version is the number of steps of the program that ran last: after a start of the older program
  the newer one runs its steps again, though the comment promises that applied steps are skipped.
\<close>

theorem older_program_reapplies_steps:
  "\<exists>db1 db2 db3. ApplyMigrations demo_exec demo_db ''users'' [''A'', ''B''] = (None, db1)
     \<and> ApplyMigrations demo_exec db1 ''users'' [''A''] = (None, db2)
     \<and> ApplyMigrations demo_exec db2 ''users'' [''A'', ''B''] = (None, db3) \<and> sq_schema db3 = [''A'', ''B'', ''B'']"
  by (simp add: ApplyMigrations_def demo_exec_def demo_db_def)

end
