(* ===== verification/Startup.thy ===== *)
theory Startup
  imports Scanner_Setup Session_Key Root_Routes Registry_Routes Storage Users Upstream_Limits Local_Cache
begin

text \<open>
  The start of the server, \<^verbatim>\<open>cmd/jo-ei\<close>: \<open>run\<close> of \<^verbatim>\<open>main.go\<close> with \<open>openState\<close>, \<open>buildUpstream\<close>, \<open>buildRootHandler\<close> and \<open>bindServers\<close>, the
  resources an \<open>app\<close> owns, and the end of the servers (\<^verbatim>\<open>serve.go\<close>). A start is a computation that may fail and that
  records which resources it opened and which closers it registered. Every answer of the system (files,
  database, listeners, random bytes) is an argument.
\<close>

section \<open>The resources of a start\<close>

datatype resource = LogOutput | Database | CacheHandle | TelemetryStore | OSVClient | HealthMonitor | MetricsListener | MainListener

record boot =
  bt_opened :: "resource list"
  bt_closers :: "resource list"

definition onClose :: "resource \<Rightarrow> boot \<Rightarrow> boot" where
  "onClose r b = b\<lparr>bt_closers := bt_closers b @ [r]\<rparr>"

text \<open>The closers that run, in their order, and the registrations that remain.\<close>

definition app_close :: "boot \<Rightarrow> resource list \<times> boot" where
  "app_close b = (rev (bt_closers b), b\<lparr>bt_closers := []\<rparr>)"

datatype start_error =
    ConfigRefused config_error | UnknownEnvironment "string list" | LogOutputFailed | DatabaseFailed open_error | SettingsFailed
  | StoredRegistriesFailed overlay_error | CacheFailed cache_error | TempDirFailed | ProfileMissing string | AllowlistFailed load_error
  | PolicyFailed policy_error | TelemetryFailed | TrustPoolFailed | TrustedProxiesRefused | PublicURLRefused
  | ScannersFailed setup_error | NoRegistries | UsersFailed | KeyFailed key_error | KeyTooShort | ClientIPRefused | ListenFailed string

type_synonym 'a start = "boot \<Rightarrow> (start_error + 'a) \<times> boot"

definition st_return :: "'a \<Rightarrow> 'a start" where
  "st_return x b = (Inr x, b)"

definition st_fail :: "start_error \<Rightarrow> 'a start" where
  "st_fail e b = (Inl e, b)"

definition st_bind :: "'a start \<Rightarrow> ('a \<Rightarrow> 'b start) \<Rightarrow> 'b start" where
  "st_bind m f b = (case m b of (Inl e, b') \<Rightarrow> (Inl e, b') | (Inr x, b') \<Rightarrow> f x b')"

definition st_check :: "bool \<Rightarrow> start_error \<Rightarrow> unit start" where
  "st_check ok e = (if ok then st_return () else st_fail e)"

definition st_sum :: "('e \<Rightarrow> start_error) \<Rightarrow> 'e + 'a \<Rightarrow> 'a start" where
  "st_sum err s = (case s of Inl e \<Rightarrow> st_fail (err e) | Inr x \<Rightarrow> st_return x)"

definition st_option :: "start_error \<Rightarrow> 'a option \<Rightarrow> 'a start" where
  "st_option err s = (case s of None \<Rightarrow> st_fail err | Some x \<Rightarrow> st_return x)"

definition st_open :: "resource \<Rightarrow> unit start" where
  "st_open r b = (Inr (), b\<lparr>bt_opened := bt_opened b @ [r]\<rparr>)"

definition st_onClose :: "resource \<Rightarrow> unit start" where
  "st_onClose r b = (Inr (), onClose r b)"

text \<open>A resource is opened and its closer registered.\<close>

definition st_keep :: "resource \<Rightarrow> unit start" where
  "st_keep r = st_bind (st_open r) (\<lambda>_. st_onClose r)"

section \<open>Logging\<close>

text \<open>The standard streams are always there; a file may not open.\<close>

definition logWriter :: "(string \<Rightarrow> bool) \<Rightarrow> string \<Rightarrow> bool" where
  "logWriter file_ok output = (output = [] \<or> output = ''stderr'' \<or> output = ''stdout'' \<or> file_ok output)"

text \<open>The level in force: an unknown one falls back to info; \<open>zerolog.ParseLevel\<close> is an argument.\<close>

definition log_level :: "(string \<Rightarrow> 'l option) \<Rightarrow> 'l \<Rightarrow> string \<Rightarrow> 'l" where
  "log_level parse info s = (case parse s of None \<Rightarrow> info | Some l \<Rightarrow> l)"

definition setupLogging :: "(string \<Rightarrow> bool) \<Rightarrow> logging_config \<Rightarrow> unit start" where
  "setupLogging file_ok lg = st_bind (st_check (logWriter file_ok (lg_Output lg)) LogOutputFailed) (\<lambda>_. st_keep LogOutput)"

section \<open>The temporary directory\<close>

definition left_behind :: "string \<Rightarrow> bool" where
  "left_behind name = has_prefix name ''jo-ei-''"

text \<open>The names that remain; \<open>None\<close> for the directory listing is one that fails.\<close>

fun remove_left_behind :: "(string \<Rightarrow> bool) \<Rightarrow> string list \<Rightarrow> bool \<times> string list" where
  "remove_left_behind remove_ok [] = (True, [])"
| "remove_left_behind remove_ok (e # es) =
     (if \<not> left_behind e then (case remove_left_behind remove_ok es of (ok, rest) \<Rightarrow> (ok, e # rest))
      else if remove_ok e then remove_left_behind remove_ok es
      else (False, e # es))"

definition prepareTempDir :: "bool \<Rightarrow> string list option \<Rightarrow> (string \<Rightarrow> bool) \<Rightarrow> bool \<times> string list" where
  "prepareTempDir mkdir_ok listing remove_ok =
     (if \<not> mkdir_ok then (False, [])
      else case listing of None \<Rightarrow> (False, []) | Some es \<Rightarrow> remove_left_behind remove_ok es)"

lemma remove_left_behind_ok:
  "remove_left_behind remove_ok es = (True, rest) \<Longrightarrow> rest = filter (\<lambda>e. \<not> left_behind e) es"
  by (induction es arbitrary: rest) (auto split: if_splits prod.splits)

section \<open>The state\<close>

record start_io =
  si_logFile :: "string \<Rightarrow> bool"
  si_database :: open_io
  si_settings :: "settings_store option"
  si_cacheDir :: bool
  si_index :: "index_error + index"
  si_files :: "string \<rightharpoonup> bytes"
  si_tempDir :: bool
  si_tempEntries :: "string list option"
  si_tempRemove :: "string \<Rightarrow> bool"
  si_allowlist :: "string option"
  si_telemetry :: bool
  si_roots :: bool
  si_caFile :: "string \<Rightarrow> bool option list option"
  si_users :: "user_store option"
  si_draws :: "nat \<Rightarrow> nat option"
  si_hash :: "string \<Rightarrow> string option"
  si_now :: gotime
  si_keyEnv :: string
  si_random :: "string option"
  si_listen :: "string \<Rightarrow> bool"

record state =
  ste_registries :: registries_cfg
  ste_settings :: settings_store
  ste_cache :: local_cache
  ste_profile :: policy_profile
  ste_policy :: runtime

definition open_cache :: "start_io \<Rightarrow> cache_config \<Rightarrow> cache_error + local_cache" where
  "open_cache io c =
     (case cache_New (ca_Backend c) (cl_Path (ca_Local c)) (cl_MaxSizeGB (ca_Local c)) (cl_StaleAfterDays (ca_Local c)) of
        Inl e \<Rightarrow> Inl e
      | Inr cfg \<Rightarrow> NewLocalCache cfg (si_cacheDir io) (si_index io) (si_files io))"

definition file_allowlist :: "start_io \<Rightarrow> supply_chain_config \<Rightarrow> load_error + string list" where
  "file_allowlist io sc =
     (if sc_AllowlistPath sc = [] then Inr []
      else case LoadAllowlist (si_allowlist io) of Inl e \<Rightarrow> Inl e | Inr l \<Rightarrow> Inr (Allowlist_Entries (Some l)))"

text \<open>The settings store after the policy has been seeded is the one the runtime holds.\<close>

definition openState :: "start_io \<Rightarrow> config \<Rightarrow> state start" where
  "openState io c =
     st_bind (case fst (storage_Open (si_database io)) of None \<Rightarrow> st_keep Database | Some e \<Rightarrow> st_fail (DatabaseFailed e)) (\<lambda>_.
     st_bind (st_option SettingsFailed (si_settings io)) (\<lambda>settings.
     st_bind (st_sum StoredRegistriesFailed (applyStoredRegistries (cf_Registries c) settings)) (\<lambda>(registries, settings).
     st_bind (st_sum CacheFailed (open_cache io (cf_Cache c))) (\<lambda>cache.
     st_bind (st_keep CacheHandle) (\<lambda>_.
     st_bind (st_check (fst (prepareTempDir (si_tempDir io) (si_tempEntries io) (si_tempRemove io))) TempDirFailed) (\<lambda>_.
     st_bind (st_option (ProfileMissing (pc_ActiveProfile (cf_Policy c))) (pc_Profiles (cf_Policy c) (pc_ActiveProfile (cf_Policy c)))) (\<lambda>profile.
     st_bind (st_sum AllowlistFailed (file_allowlist io (cf_SupplyChain c))) (\<lambda>fileAllow.
     st_bind (st_sum PolicyFailed (NewRuntimeWithStore (cf_SupplyChain c) (cf_CVE c) profile fileAllow (Some settings))) (\<lambda>rt.
     st_bind (st_check (si_telemetry io) TelemetryFailed) (\<lambda>_.
     st_bind (st_keep TelemetryStore) (\<lambda>_.
     st_return \<lparr>ste_registries = registries, ste_settings = (case rt_store rt of None \<Rightarrow> settings | Some s \<Rightarrow> s),
       ste_cache = cache, ste_profile = profile, ste_policy = rt\<rparr>)))))))))))"

section \<open>Upstreams\<close>

text \<open>The trust pool: per file the certificates found in it (\<open>None\<close> for one that does not parse), or no file.\<close>

fun RootPool :: "(string \<Rightarrow> bool option list option) \<Rightarrow> string list \<Rightarrow> nat option" where
  "RootPool file [] = Some 0"
| "RootPool file (f # fs) =
     (case file f of
        None \<Rightarrow> None
      | Some certs \<Rightarrow>
          if None \<in> set certs \<or> certs = [] then None
          else map_option (\<lambda>n. length certs + n) (RootPool file fs))"

definition upstreamRetryBaseDelay :: duration where "upstreamRetryBaseDelay = 1 * Second"
definition upstreamRetryMaxDelay :: duration where "upstreamRetryMaxDelay = 20 * Second"

record upstream_clients =
  uc_breaker :: circuit_breaker
  uc_rate :: rate_limiter
  uc_concurrency :: concurrency_limiter
  uc_adapterTimeout :: duration
  uc_osvTimeout :: duration
  uc_hosts :: "string list"
  uc_osvHosts :: "string list"

definition all_upstreams :: "registries_cfg \<Rightarrow> string list list" where
  "all_upstreams r = map (slice \<circ> rc_Upstreams) [rg_PyPI r, rg_NPM r, rg_Maven r, rg_RubyGems r, rg_Go r, rg_Docker r]"

definition buildUpstream :: "start_io \<Rightarrow> (string \<Rightarrow> string option) \<Rightarrow> config \<Rightarrow> registries_cfg \<Rightarrow> upstream_clients start" where
  "buildUpstream io host c regs =
     (let s = cf_Server c;
          maxConc = (if srv_UpstreamMaxConcurrent s \<le> 0 then DefaultUpstreamMaxConcurrent else srv_UpstreamMaxConcurrent s);
          rate = (if srv_UpstreamRatePerSecond s \<le> 0 then DefaultUpstreamRatePerSecond else srv_UpstreamRatePerSecond s)
      in if \<not> si_roots io \<or> RootPool (si_caFile io) (tls_CAFiles (cf_TLS c)) = None then st_fail TrustPoolFailed
         else st_return
           \<lparr>uc_breaker = NewCircuitBreaker upstreamRetryBaseDelay upstreamRetryMaxDelay,
            uc_rate = NewRateLimiter (of_int rate) (wrap64 (2 * rate)), uc_concurrency = NewConcurrencyLimiter maxConc,
            uc_adapterTimeout = 30 * Second, uc_osvTimeout = osvTimeout,
            uc_hosts = UpstreamHosts host (all_upstreams regs), uc_osvHosts = UpstreamHosts host [[osv_base (cf_CVE c)]]\<rparr>)"

section \<open>Console and servers\<close>

record console_auth =
  cn_users :: user_store
  cn_settings :: settings_store
  cn_signer :: signer
  cn_accessTTL :: duration
  cn_refreshTTL :: duration
  cn_clientIP :: client_ip_resolver
  cn_cacheMaxBytes :: int64
  cn_staleDays :: int64

text \<open>The initial administrator: the password that is logged when one was created.\<close>

definition ensureInitialAdmin :: "start_io \<Rightarrow> user_store \<Rightarrow> (string option \<times> user_store) start" where
  "ensureInitialAdmin io us =
     (case EnsureInitialAdmin (si_hash io) us (si_draws io) (si_now io) id of
        (Inl _, _) \<Rightarrow> st_fail UsersFailed
      | (Inr password, us') \<Rightarrow> st_return (password, us'))"

text \<open>What the console is built with; stores, broadcaster, policy, cache and monitor are passed on from the state and the
  scanners, and the routes are \<open>root_patterns\<close>.\<close>

definition buildRootHandler :: "start_io \<Rightarrow> net_syntax \<Rightarrow> config \<Rightarrow> settings_store \<Rightarrow> console_auth start" where
  "buildRootHandler io ns c settings =
     st_bind (st_option UsersFailed (si_users io)) (\<lambda>us.
     st_bind (ensureInitialAdmin io us) (\<lambda>(_, us).
     st_bind (st_sum KeyFailed (resolveJWTSecret (si_keyEnv io) (au_JWTSecret (cc_Auth (cf_Console c))) settings (si_random io))) (\<lambda>(secret, settings).
     st_bind (st_option KeyTooShort (NewSigner secret)) (\<lambda>signer.
     st_bind (st_option ClientIPRefused (NewClientIPResolver ns (srv_TrustedProxies (cf_Server c)) (srv_ClientIPHeader (cf_Server c)))) (\<lambda>clientIP.
     st_return \<lparr>cn_users = us, cn_settings = settings, cn_signer = signer,
       cn_accessTTL = fst (authTTLs (cc_Auth (cf_Console c))), cn_refreshTTL = snd (authTTLs (cc_Auth (cf_Console c))), cn_clientIP = clientIP,
       cn_cacheMaxBytes = wrap64 (cl_MaxSizeGB (ca_Local (cf_Cache c)) * 2 ^ 30),
       cn_staleDays = (if cl_StaleAfterDays (ca_Local (cf_Cache c)) \<le> 0 then DefaultStaleAfterDays else cl_StaleAfterDays (ca_Local (cf_Cache c)))\<rparr>)))))"

definition defaultDrain :: duration where "defaultDrain = 30 * Second"
definition metricsDrain :: duration where "metricsDrain = 5 * Second"

definition main_drain :: "server_config \<Rightarrow> duration" where
  "main_drain s = (let drain = wrap64 (srv_ShutdownTimeoutSeconds s * Second) in if drain \<le> 0 then defaultDrain else drain)"

text \<open>The address and the drain time of each server, the metrics server first.\<close>

definition bind_one :: "start_io \<Rightarrow> string \<Rightarrow> resource \<Rightarrow> unit start" where
  "bind_one io addr r = st_bind (st_check (si_listen io addr) (ListenFailed addr)) (\<lambda>_. st_keep r)"

definition bindServers :: "start_io \<Rightarrow> config \<Rightarrow> (string \<times> duration) list start" where
  "bindServers io c =
     st_bind (if mt_Enabled (cf_Metrics c)
              then st_bind (bind_one io (mt_Listen (cf_Metrics c)) MetricsListener) (\<lambda>_. st_return [(mt_Listen (cf_Metrics c), metricsDrain)])
              else st_return []) (\<lambda>servers.
     st_bind (bind_one io (srv_Listen (cf_Server c)) MainListener) (\<lambda>_.
     st_return (servers @ [(srv_Listen (cf_Server c), main_drain (cf_Server c))])))"

section \<open>The whole start\<close>

text \<open>What the packages call of each other, as the handlers see it: the cache port, the adapters' environment, the scans of
  the built engines, the image cache and the codecs.\<close>

record 'c proxy_ports =
  pp_ops :: "'c cache_ops"
  pp_adapters :: adapter_env
  pp_cveScan :: "package_ref \<Rightarrow> go_error + scan_result"
  pp_avScan :: "string \<Rightarrow> string option \<Rightarrow> go_error + av_result"
  pp_trivyScan :: "string \<Rightarrow> go_error + cve_finding list"
  pp_images :: "'c image_cache"
  pp_codecs :: docker_codecs
  pp_throttles :: throttle_lookup
  pp_publicBase :: "public_base_resolver \<Rightarrow> http_request \<Rightarrow> go_error + string"

definition sharedDeps :: "'c proxy_ports \<Rightarrow> config \<Rightarrow> runtime \<Rightarrow> scanners \<Rightarrow> public_base_resolver \<Rightarrow> 'c shared_deps" where
  "sharedDeps pp c rt sc base =
     \<lparr>sd_filter = Runtime_Check rt, sd_cache = pp_ops pp,
      sd_cveScanner = (if sn_cve sc \<noteq> None then Some (pp_cveScan pp) else None),
      sd_policy = (if cc_Enabled (cf_CVE c) then Some (Runtime_Evaluate rt) else None),
      sd_avScanner = (if sn_av sc \<noteq> None then Some (pp_avScan pp) else None),
      sd_recorder = True, sd_throttles = Some (pp_throttles pp),
      sd_cveRecheckTTL = wrap64 (rv_CVETTLMinutes (ca_Revalidation (cf_Cache c)) * Minute),
      sd_malwareRecheckTTL = wrap64 (rv_MalwareTTLMinutes (ca_Revalidation (cf_Cache c)) * Minute),
      sd_metadataFilterMaxMB = srv_MetadataFilterMaxMB (cf_Server c), sd_publicBase = pp_publicBase pp base,
      sd_maxArtifactBytes = wrap64 (srv_MaxArtifactMB (cf_Server c) * 2 ^ 20)\<rparr>"

definition dockerDeps :: "'c proxy_ports \<Rightarrow> config \<Rightarrow> runtime \<Rightarrow> scanners \<Rightarrow> 'c docker_deps" where
  "dockerDeps pp c rt sc =
     \<lparr>dd_trivy = (if sn_trivy sc \<noteq> None then Some (pp_trivyScan pp) else None), dd_filter = Runtime_Check rt, dd_policy = Runtime_Evaluate rt,
      dd_store = pp_images pp, dd_codecs = pp_codecs pp, dd_breaker = pp_throttles pp,
      dd_MaxLayerBytes = im_MaxLayerBytes (cf_ImageScan c), dd_ClientWaitSeconds = im_ClientWaitSeconds (cf_ImageScan c)\<rparr>"

record 'c running =
  rn_state :: state
  rn_upstream :: upstream_clients
  rn_scanners :: scanners
  rn_routes :: "'c proxy_routes"
  rn_console :: console_auth
  rn_servers :: "(string \<times> duration) list"

text \<open>The monitor is registered after the OSV client it reads, so it is closed first.\<close>

definition start_scanners :: "config \<Rightarrow> policy_profile \<Rightarrow> scanners start" where
  "start_scanners c profile =
     st_bind (if cc_Enabled (cf_CVE c) then st_keep OSVClient else st_return ()) (\<lambda>_.
     st_bind (st_sum ScannersFailed (buildScanners c profile)) (\<lambda>sc.
     st_bind (st_keep HealthMonitor) (\<lambda>_. st_return sc)))"

definition run_loaded ::
  "start_io \<Rightarrow> 'c proxy_ports \<Rightarrow> net_syntax \<Rightarrow> (string \<Rightarrow> string option) \<Rightarrow> config \<Rightarrow> 'c running start" where
  "run_loaded io pp ns host c =
     st_bind (st_check (cf_UnknownEnv c = []) (UnknownEnvironment (cf_UnknownEnv c))) (\<lambda>_.
     st_bind (setupLogging (si_logFile io) (cf_Logging c)) (\<lambda>_.
     st_bind (openState io c) (\<lambda>st.
     st_bind (buildUpstream io host c (ste_registries st)) (\<lambda>up.
     st_bind (st_option TrustedProxiesRefused (ParseTrustedPeers ns (srv_TrustedProxies (cf_Server c)))) (\<lambda>trusted.
     st_bind (st_option PublicURLRefused (NewPublicBaseResolver ns (srv_PublicURL (cf_Server c)) trusted)) (\<lambda>base.
     st_bind (start_scanners c (ste_profile st)) (\<lambda>sc.
     st_bind (st_sum (\<lambda>_. NoRegistries) (buildProxyRoutes (ste_registries st) (pp_adapters pp) (sharedDeps pp c (ste_policy st) sc base)
        (dockerDeps pp c (ste_policy st) sc))) (\<lambda>routes.
     st_bind (buildRootHandler io ns c (ste_settings st)) (\<lambda>cons.
     st_bind (bindServers io c) (\<lambda>servers.
     st_return \<lparr>rn_state = st, rn_upstream = up, rn_scanners = sc, rn_routes = routes, rn_console = cons, rn_servers = servers\<rparr>))))))))))"

definition no_boot :: boot where "no_boot = \<lparr>bt_opened = [], bt_closers = []\<rparr>"

text \<open>The result of the start, the resources it opened, and the closers that run when it fails or the server stops.\<close>

definition run ::
  "start_io \<Rightarrow> 'c proxy_ports \<Rightarrow> net_syntax \<Rightarrow> (string \<Rightarrow> string option) \<Rightarrow> config_error + config \<Rightarrow> (start_error + 'c running) \<times> resource list \<times> resource list" where
  "run io pp ns host loaded =
     (case st_bind (st_sum ConfigRefused loaded) (run_loaded io pp ns host) no_boot of
        (res, b) \<Rightarrow> (res, bt_opened b, fst (app_close b)))"

section \<open>Serving and stopping\<close>

text \<open>How one server ends: its own failure, or the stop of the process with what the shutdown and the forced close answered.\<close>

datatype shutdown = Drained | DrainFailed | DrainTimeout bool

datatype server_end = ServeReturned "string option" | Stopped shutdown

definition serveWith :: "server_end \<Rightarrow> string option" where
  "serveWith e =
     (case e of
        ServeReturned err \<Rightarrow> (if err = Some ''http: Server closed'' then None else err)
      | Stopped Drained \<Rightarrow> None
      | Stopped DrainFailed \<Rightarrow> Some ''shutdown failed''
      | Stopped (DrainTimeout ended) \<Rightarrow> if ended then None else Some ''close failed'')"

text \<open>The servers in the order they end.\<close>

definition serveAll :: "server_end list \<Rightarrow> string option" where
  "serveAll ends = Option.bind (find (\<lambda>e. e \<noteq> None) (map serveWith ends)) id"

end
