(* ===== verification/Startup_Correct.thy ===== *)
theory Startup_Correct
  imports Startup
begin

text \<open>
  What a start guarantees: whatever step fails, exactly the resources opened so far are closed, backwards; a
  configuration that was validated is not refused later for what was validated; and the handlers of a
  running server have every gate the configuration asks for.
\<close>

section \<open>Resources\<close>

text \<open>A computation opens some of the given resources in that order and registers a closer for each of them.\<close>

definition keeps :: "'a start \<Rightarrow> resource list \<Rightarrow> bool" where
  "keeps m rs \<longleftrightarrow> (\<forall>b. \<exists>xs. subseq xs rs \<and> bt_opened (snd (m b)) = bt_opened b @ xs \<and> bt_closers (snd (m b)) = bt_closers b @ xs)"

named_theorems keeping

lemma keeps_bind [keeping]: "keeps m rs \<Longrightarrow> (\<And>x. keeps (f x) ss) \<Longrightarrow> keeps (st_bind m f) (rs @ ss)"
  unfolding keeps_def st_bind_def
proof (intro allI)
  fix b
  assume m: "\<forall>b. \<exists>xs. subseq xs rs \<and> bt_opened (snd (m b)) = bt_opened b @ xs \<and> bt_closers (snd (m b)) = bt_closers b @ xs"
    and f: "\<And>x. \<forall>b. \<exists>xs. subseq xs ss \<and> bt_opened (snd (f x b)) = bt_opened b @ xs \<and> bt_closers (snd (f x b)) = bt_closers b @ xs"
  obtain r b' where mb: "m b = (r, b')" by fastforce
  with m obtain xs where xs: "subseq xs rs" "bt_opened b' = bt_opened b @ xs" "bt_closers b' = bt_closers b @ xs" by (metis snd_conv)
  show "\<exists>xs. subseq xs (rs @ ss) \<and>
      bt_opened (snd (case m b of (Inl e, b') \<Rightarrow> (Inl e, b') | (Inr x, b') \<Rightarrow> f x b')) = bt_opened b @ xs \<and>
      bt_closers (snd (case m b of (Inl e, b') \<Rightarrow> (Inl e, b') | (Inr x, b') \<Rightarrow> f x b')) = bt_closers b @ xs"
  proof (cases r)
    case (Inl e)
    with xs mb show ?thesis by (auto intro: exI [of _ xs] subseq_append' simp: subseq_rev_drop_many)
  next
    case (Inr x)
    from f [of x] obtain ys where "subseq ys ss" "bt_opened (snd (f x b')) = bt_opened b' @ ys" "bt_closers (snd (f x b')) = bt_closers b' @ ys" by blast
    with xs mb Inr show ?thesis by (auto intro!: exI [of _ "xs @ ys"] list_emb_append_mono)
  qed
qed

lemma keeps_nothing [keeping]:
  "keeps (st_return x) []" "keeps (st_fail e) []" "keeps (st_check ok e) []" "keeps (st_sum g s) []" "keeps (st_option e t) []"
  by (auto simp: keeps_def st_return_def st_fail_def st_check_def st_sum_def st_option_def split: sum.splits option.splits)

lemma keeps_keep [keeping]: "keeps (st_keep r) [r]"
  by (auto simp: keeps_def st_keep_def st_bind_def st_open_def st_onClose_def onClose_def)

lemma keeps_less: "keeps m [] \<Longrightarrow> keeps m rs"
  unfolding keeps_def by (metis list_emb_Nil list_emb_Nil2 subseq_order.eq_iff)

lemma keeps_if [keeping]: "keeps m rs \<Longrightarrow> keeps n [] \<Longrightarrow> keeps (if c then m else n) rs"
  using keeps_less [of n rs] by simp

lemma keeps_cases [keeping]:
  "keeps m rs \<Longrightarrow> (\<And>e. keeps (g e) []) \<Longrightarrow> keeps (case t of None \<Rightarrow> m | Some e \<Rightarrow> g e) rs"
  "(\<And>x y. keeps (h x y) rs) \<Longrightarrow> keeps (case p of (x, y) \<Rightarrow> h x y) rs"
  using keeps_less [of "g _" rs] by (auto split: option.splits prod.splits)

lemma keeps_exactly: "keeps m rs \<Longrightarrow> rs = ts \<Longrightarrow> keeps m ts"
  by simp

lemma openState_keeps [keeping]: "keeps (openState io c) [Database, CacheHandle, TelemetryStore]"
  unfolding openState_def by (rule keeps_exactly, (rule keeping)+, simp)

lemma buildUpstream_keeps [keeping]: "keeps (buildUpstream io host c regs) []"
  unfolding buildUpstream_def Let_def by (intro keeping)

lemma setupLogging_keeps [keeping]: "keeps (setupLogging file_ok lg) [LogOutput]"
  unfolding setupLogging_def by (rule keeps_exactly, (rule keeping)+, simp)

lemma start_scanners_keeps [keeping]: "keeps (start_scanners c profile) [OSVClient, HealthMonitor]"
  unfolding start_scanners_def by (rule keeps_exactly, (rule keeping)+, simp)

lemma ensureInitialAdmin_keeps [keeping]: "keeps (ensureInitialAdmin io us) []"
  unfolding ensureInitialAdmin_def by (auto split: prod.splits sum.splits intro: keeping)

lemma buildRootHandler_keeps [keeping]: "keeps (buildRootHandler io ns c settings) []"
  unfolding buildRootHandler_def by (rule keeps_exactly, (rule keeping)+, simp)

lemma bindServers_keeps [keeping]: "keeps (bindServers io c) [MetricsListener, MainListener]"
  unfolding bindServers_def bind_one_def by (rule keeps_exactly, (rule keeping)+, simp)

definition start_order :: "resource list" where
  "start_order = [LogOutput, Database, CacheHandle, TelemetryStore, OSVClient, HealthMonitor, MetricsListener, MainListener]"

lemma run_loaded_keeps: "keeps (run_loaded io pp ns host c) start_order"
  unfolding run_loaded_def start_order_def by (rule keeps_exactly, (rule keeping)+, simp)

text \<open>C24: However far a start gets, the resources it opened are opened in one order, none of them twice, and
  exactly these are closed at the end, in the reverse order.
\<close>

theorem startup_releases_what_it_opened:
  "snd (snd (run io pp ns host loaded)) = rev (fst (snd (run io pp ns host loaded)))
   \<and> subseq (fst (snd (run io pp ns host loaded))) start_order \<and> distinct (fst (snd (run io pp ns host loaded)))"
proof -
  let ?m = "st_bind (st_sum ConfigRefused loaded) (run_loaded io pp ns host)"
  have "keeps ?m start_order"
    by (rule keeps_exactly, rule keeps_bind [OF keeps_nothing(4) run_loaded_keeps]) simp
  then obtain xs where xs: "subseq xs start_order" "bt_opened (snd (?m no_boot)) = xs" "bt_closers (snd (?m no_boot)) = xs"
    unfolding keeps_def by (elim allE [of _ no_boot]) (auto simp: no_boot_def)
  moreover have "distinct start_order" by (simp add: start_order_def)
  ultimately have "distinct xs" using xs(1) by (auto simp: subseq_conv_nths)
  with xs show ?thesis by (auto simp: run_def app_close_def split: prod.splits)
qed

section \<open>Failures\<close>

definition fails :: "'a start \<Rightarrow> (start_error \<Rightarrow> bool) \<Rightarrow> bool" where
  "fails m E \<longleftrightarrow> (\<forall>b e b'. m b = (Inl e, b') \<longrightarrow> E e)"

named_theorems failing

lemma fails_bind [failing]: "fails m E \<Longrightarrow> (\<And>x. fails (f x) E) \<Longrightarrow> fails (st_bind m f) E"
  by (auto simp: fails_def st_bind_def split: prod.splits sum.splits)

lemma fails_leaf [failing]:
  "fails (st_return x) E" "E e \<Longrightarrow> fails (st_fail e) E" "(\<not> ok \<Longrightarrow> E e) \<Longrightarrow> fails (st_check ok e) E"
  "(\<And>e. s = Inl e \<Longrightarrow> E (g e)) \<Longrightarrow> fails (st_sum g s) E" "(t = None \<Longrightarrow> E e) \<Longrightarrow> fails (st_option e t) E" "fails (st_keep r) E"
  by (auto simp: fails_def st_return_def st_fail_def st_check_def st_sum_def st_option_def st_keep_def st_bind_def st_open_def st_onClose_def
      split: sum.splits option.splits if_splits)

lemma fails_cases [failing]:
  "fails m E \<Longrightarrow> fails n E \<Longrightarrow> fails (if c then m else n) E"
  "fails m E \<Longrightarrow> (\<And>e. fails (h e) E) \<Longrightarrow> fails (case t of None \<Rightarrow> m | Some e \<Rightarrow> h e) E"
  "(\<And>x y. fails (k x y) E) \<Longrightarrow> fails (case p of (x, y) \<Rightarrow> k x y) E"
  by (auto split: option.splits prod.splits)










text \<open>The answers of a machine on which no log file can be opened and all else works.\<close>

definition demo_answers :: start_io where
  "demo_answers = \<lparr>si_logFile = (\<lambda>_. False), si_database = \<lparr>oi_mkdir = True, oi_open = True, oi_pragma = (\<lambda>_. True)\<rparr>,
     si_settings = Some sample_store, si_cacheDir = True, si_index = Inr \<lparr>ix_rows = [], ix_readable = True, ix_writable = True\<rparr>, si_files = Map.empty,
     si_tempDir = True, si_tempEntries = Some [''jo-ei-1'', ''notes''], si_tempRemove = (\<lambda>_. True), si_allowlist = None, si_telemetry = True,
     si_roots = True, si_caFile = (\<lambda>_. None), si_users = Some \<lparr>us_rows = [], us_readable = True, us_writable = True\<rparr>,
     si_draws = (\<lambda>_. Some 0), si_hash = Some, si_now = 0, si_keyEnv = [], si_random = Some demo_random, si_listen = (\<lambda>_. True)\<rparr>"

section \<open>The gates of a running server\<close>

lemma st_bind_Inr: "st_bind m f b = (Inr y, b2) \<Longrightarrow> \<exists>x b1. m b = (Inr x, b1) \<and> f x b1 = (Inr y, b2)"
  by (auto simp: st_bind_def split: prod.splits sum.splits)

lemma st_results:
  "st_return x b = (Inr y, b2) \<Longrightarrow> y = x" "st_sum g s b = (Inr y, b2) \<Longrightarrow> s = Inr y" "st_option e t b = (Inr y, b2) \<Longrightarrow> t = Some y"
  by (auto simp: st_return_def st_sum_def st_option_def st_fail_def split: sum.splits option.splits)

text \<open>The policy runtime a start builds: from the active profile, the configuration and the settings table as the registries left it.\<close>

definition policy_of_profile :: "start_io \<Rightarrow> config \<Rightarrow> policy_profile \<Rightarrow> runtime \<Rightarrow> bool" where
  "policy_of_profile io c profile rt \<longleftrightarrow>
     (\<exists>s0 regs settings fileAllow. si_settings io = Some s0 \<and> applyStoredRegistries (cf_Registries c) s0 = Inr (regs, settings)
        \<and> file_allowlist io (cf_SupplyChain c) = Inr fileAllow
        \<and> NewRuntimeWithStore (cf_SupplyChain c) (cf_CVE c) profile fileAllow (Some settings) = Inr rt)"

lemma openState_profile:
  "openState io c b = (Inr st, b2) \<Longrightarrow> pc_Profiles (cf_Policy c) (pc_ActiveProfile (cf_Policy c)) = Some (ste_profile st)
     \<and> policy_of_profile io c (ste_profile st) (ste_policy st)"
  unfolding openState_def policy_of_profile_def by (auto dest!: st_bind_Inr st_results split: option.splits)

lemma buildScanners_attached:
  "buildScanners c profile = Inr sc \<Longrightarrow>
     (sn_cve sc \<noteq> None \<longleftrightarrow> cc_Enabled (cf_CVE c)) \<and> (sn_av sc \<noteq> None \<longleftrightarrow> pp_MalwareBlock profile \<and> mw_Scanners (cf_Malware c) \<noteq> [])"
  by (auto simp: buildScanners_def attach_engines_def split: sum.splits option.splits if_splits)

lemma built_handlers:
  assumes "(p, h) \<in> set (buildHandlers cfg aw shared)"
  shows "\<exists>ad. h = buildHandler ad shared"
  using assms by (auto simp: buildHandlers_def Let_def split: if_splits)

lemma routes_handlers: "buildProxyRoutes cfg aw shared dd = Inr routes \<Longrightarrow> px_handlers routes = buildHandlers cfg aw shared"
  by (auto simp: buildProxyRoutes_def Let_def split: if_splits)

lemma run_success:
  assumes "fst (run io pp ns host (Inr c)) = Inr r"
  obtains base where "cf_UnknownEnv c = []"
    "pc_Profiles (cf_Policy c) (pc_ActiveProfile (cf_Policy c)) = Some (ste_profile (rn_state r))"
    "policy_of_profile io c (ste_profile (rn_state r)) (ste_policy (rn_state r))"
    "buildScanners c (ste_profile (rn_state r)) = Inr (rn_scanners r)"
    "buildProxyRoutes (ste_registries (rn_state r)) (pp_adapters pp) (sharedDeps pp c (ste_policy (rn_state r)) (rn_scanners r) base)
       (dockerDeps pp c (ste_policy (rn_state r)) (rn_scanners r)) = Inr (rn_routes r)"
proof -
  obtain b where "run_loaded io pp ns host c no_boot = (Inr r, b)"
    using assms by (auto simp: run_def st_bind_def st_sum_def st_return_def split: prod.splits)
  then show thesis
    unfolding run_loaded_def start_scanners_def
    by (auto dest!: st_bind_Inr st_results openState_profile intro: that simp: st_check_def st_fail_def split: if_splits)
qed

text \<open>C6: Every package handler of a server that started filters and decides by the policy runtime built from the active profile, the configured
  sections and the stored settings; it has the CVE scanner
  and that policy exactly when CVE checks are enabled and the malware engines exactly when the profile blocks malware and some are configured;
  its re-check intervals and its size cap are the configured ones, as long as the machine can hold them.
\<close>

theorem running_proxy_has_its_gates:
  assumes "fst (run io pp ns host (Inr c)) = Inr r" "(p, h) \<in> set (px_handlers (rn_routes r))"
    and "0 \<le> rv_CVETTLMinutes (ca_Revalidation (cf_Cache c))" "rv_CVETTLMinutes (ca_Revalidation (cf_Cache c)) \<le> 153722867"
    and "0 \<le> rv_MalwareTTLMinutes (ca_Revalidation (cf_Cache c))" "rv_MalwareTTLMinutes (ca_Revalidation (cf_Cache c)) \<le> 153722867"
    and "0 \<le> srv_MaxArtifactMB (cf_Server c)" "srv_MaxArtifactMB (cf_Server c) < 2 ^ 43"
  shows "cf_UnknownEnv c = []
    \<and> (\<exists>profile rt. pc_Profiles (cf_Policy c) (pc_ActiveProfile (cf_Policy c)) = Some profile \<and> policy_of_profile io c profile rt
         \<and> ste_policy (rn_state r) = rt
         \<and> hc_Filter h = Runtime_Check rt
         \<and> hc_Policy h = (if cc_Enabled (cf_CVE c) then Some (Runtime_Evaluate rt) else None)
         \<and> hc_CVEScanner h = (if cc_Enabled (cf_CVE c) then Some (pp_cveScan pp) else None)
         \<and> hc_AVScanner h = (if pp_MalwareBlock profile \<and> mw_Scanners (cf_Malware c) \<noteq> [] then Some (pp_avScan pp) else None))
    \<and> hc_CVERecheckTTL h = rv_CVETTLMinutes (ca_Revalidation (cf_Cache c)) * Minute
    \<and> hc_MalwareRecheckTTL h = rv_MalwareTTLMinutes (ca_Revalidation (cf_Cache c)) * Minute
    \<and> hc_MaxArtifactBytes h = srv_MaxArtifactMB (cf_Server c) * 2 ^ 20"
proof -
  obtain base where s: "cf_UnknownEnv c = []"
    "pc_Profiles (cf_Policy c) (pc_ActiveProfile (cf_Policy c)) = Some (ste_profile (rn_state r))"
    "policy_of_profile io c (ste_profile (rn_state r)) (ste_policy (rn_state r))"
    "buildScanners c (ste_profile (rn_state r)) = Inr (rn_scanners r)"
    "buildProxyRoutes (ste_registries (rn_state r)) (pp_adapters pp) (sharedDeps pp c (ste_policy (rn_state r)) (rn_scanners r) base)
       (dockerDeps pp c (ste_policy (rn_state r)) (rn_scanners r)) = Inr (rn_routes r)"
    by (rule run_success [OF assms(1)])
  obtain ad where h: "h = buildHandler ad (sharedDeps pp c (ste_policy (rn_state r)) (rn_scanners r) base)"
    using built_handlers assms(2) unfolding routes_handlers [OF s(5)] by blast
  have t: "wrap64 (m * Minute) = m * Minute" if "0 \<le> m" "m \<le> 153722867" for m
    using that by (intro wrap64_id) (auto simp: go_time_defs)
  have k: "wrap64 (m * 2 ^ 20) = m * 2 ^ 20" if "0 \<le> m" "m < 2 ^ 43" for m
    using that by (intro wrap64_id) (auto simp: min_int64_def max_int64_def)
  show ?thesis
    using s(1,2,3) buildScanners_attached [OF s(4)] t [OF assms(3,4)] t [OF assms(5,6)] k [OF assms(7,8)]
    by (auto simp: h buildHandler_def sharedDeps_def)
qed

section \<open>A start\<close>

lemmas start_defs = st_bind_def st_return_def st_fail_def st_check_def st_sum_def st_option_def st_keep_def st_open_def st_onClose_def onClose_def

lemma demo_overlay:
  "applyStoredRegistries regs sample_store =
     Inr (regs, sample_store\<lparr>st_rows := [''registries'' \<mapsto> registry_row (registryInfo regs)]\<rparr>)"
  by (simp add: applyStoredRegistries_def LoadRegistries_def SaveRegistries_def settings_Get_def settings_Put_def sample_store_def)

lemma demo_runtime:
  assumes "st_rows s ''policy'' = None" "st_readable s" "st_writable s"
  shows "\<exists>rt. NewRuntimeWithStore sc cve prof fa (Some s) = Inr rt
    \<and> rt_store rt = Some (s\<lparr>st_rows := (st_rows s)(''policy'' \<mapsto> EncodeStored (boot_params sc cve prof))\<rparr>)"
  using assms by (simp add: NewRuntimeWithStore_def Let_def LoadPolicy_def SavePolicy_def settings_Get_def settings_Put_def runtime_with_sel)

lemma demo_state:
  "\<exists>st. openState demo_answers demo_config b = (Inr st, b\<lparr>bt_opened := bt_opened b @ [Database, CacheHandle, TelemetryStore],
       bt_closers := bt_closers b @ [Database, CacheHandle, TelemetryStore]\<rparr>)
     \<and> ste_registries st = cf_Registries demo_config \<and> ste_profile st = demo_profile
     \<and> st_readable (ste_settings st) \<and> st_writable (ste_settings st) \<and> st_rows (ste_settings st) jwtSecretSettingKey = None"
proof -
  let ?s = "sample_store\<lparr>st_rows := [''registries'' \<mapsto> registry_row (registryInfo (cf_Registries demo_config))]\<rparr>"
  have "st_rows ?s ''policy'' = None" "st_readable ?s" "st_writable ?s" by (simp_all add: sample_store_def)
  from demo_runtime [OF this, of "cf_SupplyChain demo_config" "cf_CVE demo_config" demo_profile "[]"]
  obtain rt where rt: "NewRuntimeWithStore (cf_SupplyChain demo_config) (cf_CVE demo_config) demo_profile [] (Some ?s) = Inr rt"
    "rt_store rt = Some (?s\<lparr>st_rows := (st_rows ?s)(''policy'' \<mapsto> EncodeStored (boot_params (cf_SupplyChain demo_config) (cf_CVE demo_config) demo_profile))\<rparr>)"
    by blast
  obtain lc where lc: "open_cache demo_answers (cf_Cache demo_config) = Inr lc"
    by (auto simp: open_cache_def demo_answers_def demo_config_def cache_New_def NewLocalCache_def Let_def)
  have io: "fst (storage_Open (si_database demo_answers)) = None" "si_settings demo_answers = Some sample_store" "si_telemetry demo_answers"
    "fst (prepareTempDir (si_tempDir demo_answers) (si_tempEntries demo_answers) (si_tempRemove demo_answers))"
    "file_allowlist demo_answers (cf_SupplyChain demo_config) = Inr []"
    "pc_Profiles (cf_Policy demo_config) (pc_ActiveProfile (cf_Policy demo_config)) = Some demo_profile"
    by (simp_all add: demo_answers_def storage_Open_def pragmas_def prepareTempDir_def left_behind_def has_prefix_def file_allowlist_def
        demo_config_def demo_profile_def)
  show ?thesis
    unfolding openState_def using rt lc io
    by (simp add: start_defs demo_overlay jwtSecretSettingKey_def) (simp add: sample_store_def)
qed

lemma demo_npm_routes: "\<exists>routes. buildProxyRoutes (cf_Registries demo_config) aw shared dd = Inr routes \<and> (''npm'', buildHandler (npm_adapter aw (NewNPMAdapter [''https://u''])) shared) \<in> set (px_handlers routes)"
  by (simp add: buildProxyRoutes_def Let_def buildHandlers_def demo_config_def demo_npm_section_def demo_off_section_def cfg_upstreams_def)

lemma draw_chars_total: "\<forall>d\<in>set ds. d \<noteq> None \<Longrightarrow> \<exists>pw. draw_chars ds = Some pw"
  by (induction ds) auto

lemma demo_console:
  assumes "st_readable s" "st_writable s" "st_rows s jwtSecretSettingKey = None"
  shows "\<exists>cons. buildRootHandler demo_answers demo_syntax demo_config s b = (Inr cons, b)"
proof -
  have key: "trim_space [] = []" "au_JWTSecret (cc_Auth (cf_Console demo_config)) = []" "si_keyEnv demo_answers = []" "si_random demo_answers = Some demo_random"
    "si_users demo_answers = Some \<lparr>us_rows = [], us_readable = True, us_writable = True\<rparr>" "si_hash demo_answers = Some" "si_draws demo_answers = (\<lambda>_. Some 0)"
    by (simp_all add: demo_config_def demo_answers_def)
  obtain s' where "resolveJWTSecret [] [] s (Some demo_random) = Inr (demo_random, s')"
    using assms by (auto simp: resolveJWTSecret_def settings_Get_def generate_key_def settings_Put_def)
  moreover obtain sg where "NewSigner demo_random = Some sg" by (simp add: NewSigner_def demo_random_def MinSecretLen_def)
  moreover obtain pw where "GeneratePassword (\<lambda>_. Some 0) = Some pw"
    using draw_chars_total [of "map (\<lambda>_. Some 0) [0..<generatedPasswordLen]"] by (auto simp: GeneratePassword_def)
  moreover have "ascii (srv_ClientIPHeader (cf_Server demo_config))" by (simp add: demo_config_def ascii_def of_char_def)
  then obtain cip where "NewClientIPResolver demo_syntax (srv_TrustedProxies (cf_Server demo_config)) (srv_ClientIPHeader (cf_Server demo_config)) = Some cip"
    using NewClientIPResolver_ok [OF Validate_None(4) [OF demo_config_valid] _ Validate_None(2) [OF demo_config_valid]] by auto
  ultimately show ?thesis
    by (simp add: buildRootHandler_def start_defs key ensureInitialAdmin_def EnsureInitialAdmin_def Let_def)
qed

lemma st_simple [simp]: "st_bind (st_return x) f = f x" "st_check True e = st_return ()" "st_sum g (Inr x) = st_return x" "st_option e (Some x) = st_return x"
  by (auto simp: start_defs)

lemma demo_server_start: "\<exists>r. fst (run demo_answers pp demo_syntax host (Inr demo_config)) = Inr r
    \<and> (\<exists>h. (''npm'', h) \<in> set (px_handlers (rn_routes r)))"
proof -
  let ?b = "\<lparr>bt_opened = [LogOutput], bt_closers = [LogOutput]\<rparr>"
  obtain st where st: "openState demo_answers demo_config ?b = (Inr st, ?b\<lparr>bt_opened := bt_opened ?b @ [Database, CacheHandle, TelemetryStore],
       bt_closers := bt_closers ?b @ [Database, CacheHandle, TelemetryStore]\<rparr>)"
    "ste_registries st = cf_Registries demo_config" "ste_profile st = demo_profile"
    "st_readable (ste_settings st)" "st_writable (ste_settings st)" "st_rows (ste_settings st) jwtSecretSettingKey = None"
    using demo_state [of ?b] by blast
  have log: "setupLogging (si_logFile demo_answers) (cf_Logging demo_config) no_boot = (Inr (), ?b)"
    by (simp add: setupLogging_def logWriter_def demo_config_def start_defs no_boot_def)
  obtain peers where peers: "ParseTrustedPeers demo_syntax (srv_TrustedProxies (cf_Server demo_config)) = Some peers"
    using ParseTrustedPeers_ok [OF Validate_None(2) [OF demo_config_valid]] by blast
  obtain base where base: "NewPublicBaseResolver demo_syntax (srv_PublicURL (cf_Server demo_config)) peers = Some base"
    using NewPublicBaseResolver_ok [OF Validate_None(3) [OF demo_config_valid]] by blast
  obtain sc where sc: "buildScanners demo_config demo_profile = Inr sc" using demo_scanners_built by blast
  obtain routes where routes: "buildProxyRoutes (cf_Registries demo_config) (pp_adapters pp) (sharedDeps pp demo_config (ste_policy st) sc base)
      (dockerDeps pp demo_config (ste_policy st) sc) = Inr routes" "\<exists>h. (''npm'', h) \<in> set (px_handlers routes)"
    using demo_npm_routes [of "pp_adapters pp"] by blast
  have up: "\<exists>up. buildUpstream demo_answers host demo_config regs b = (Inr up, b)" for regs b
    by (simp add: buildUpstream_def Let_def start_defs demo_answers_def demo_config_def)
  have bs: "\<exists>sv b'. bindServers demo_answers demo_config b = (Inr sv, b')" for b
    by (simp add: bindServers_def bind_one_def start_defs demo_answers_def)
  have ss: "\<exists>b'. start_scanners demo_config demo_profile b = (Inr sc, b')" for b
    using sc by (simp add: start_scanners_def start_defs)
  obtain up where up': "buildUpstream demo_answers host demo_config (cf_Registries demo_config) b = (Inr up, b)" for b
    using up by (simp add: buildUpstream_def Let_def start_defs demo_answers_def demo_config_def)
  let ?opened = "[LogOutput, Database, CacheHandle, TelemetryStore]"
  let ?b2 = "\<lparr>bt_opened = ?opened, bt_closers = ?opened\<rparr>"
  obtain b3 where b3: "start_scanners demo_config demo_profile ?b2 = (Inr sc, b3)" using ss by blast
  obtain cons where cons: "buildRootHandler demo_answers demo_syntax demo_config (ste_settings st) b3 = (Inr cons, b3)"
    using demo_console [OF st(4-6)] by blast
  obtain sv b4 where sv: "bindServers demo_answers demo_config b3 = (Inr sv, b4)" using bs by blast
  have "run_loaded demo_answers pp demo_syntax host demo_config no_boot
    = (Inr \<lparr>rn_state = st, rn_upstream = up, rn_scanners = sc, rn_routes = routes, rn_console = cons, rn_servers = sv\<rparr>, b4)"
    unfolding run_loaded_def demo_load(2)
    by (simp add: st_bind_def log st(1-3) up' peers base b3 routes(1) cons sv) (simp add: st_return_def)
  with routes(2) show ?thesis by (simp add: run_def)
qed

theorem running_proxy_has_its_gates_witness:
  "\<forall>(pp :: unit proxy_ports) host. \<exists>r h. fst (run demo_answers pp demo_syntax host (Inr demo_config)) = Inr r \<and> (''npm'', h) \<in> set (px_handlers (rn_routes r))
     \<and> hc_CVEScanner h = Some (pp_cveScan pp) \<and> hc_AVScanner h = Some (pp_avScan pp) \<and> hc_Policy h = Some (Runtime_Evaluate (ste_policy (rn_state r)))
     \<and> policy_of_profile demo_answers demo_config demo_profile (ste_policy (rn_state r)) \<and> hc_MaxArtifactBytes h = 2147483648"
proof (intro allI)
  fix pp :: "unit proxy_ports" and host
  obtain r h where r: "fst (run demo_answers pp demo_syntax host (Inr demo_config)) = Inr r" "(''npm'', h) \<in> set (px_handlers (rn_routes r))"
    using demo_server_start by blast
  have c: "rv_CVETTLMinutes (ca_Revalidation (cf_Cache demo_config)) = 1440" "rv_MalwareTTLMinutes (ca_Revalidation (cf_Cache demo_config)) = 1440"
    "srv_MaxArtifactMB (cf_Server demo_config) = 2048" "cc_Enabled (cf_CVE demo_config)" "mw_Scanners (cf_Malware demo_config) \<noteq> []"
    "pc_Profiles (cf_Policy demo_config) (pc_ActiveProfile (cf_Policy demo_config)) = Some demo_profile" "pp_MalwareBlock demo_profile"
    by (simp_all add: demo_config_def demo_profile_def)
  from running_proxy_has_its_gates [OF r, unfolded c(1-3)] c r
  show "\<exists>r h. fst (run demo_answers pp demo_syntax host (Inr demo_config)) = Inr r \<and> (''npm'', h) \<in> set (px_handlers (rn_routes r))
     \<and> hc_CVEScanner h = Some (pp_cveScan pp) \<and> hc_AVScanner h = Some (pp_avScan pp) \<and> hc_Policy h = Some (Runtime_Evaluate (ste_policy (rn_state r)))
     \<and> policy_of_profile demo_answers demo_config demo_profile (ste_policy (rn_state r)) \<and> hc_MaxArtifactBytes h = 2147483648"
    by (intro exI [of _ r] exI [of _ h]) auto
qed




text \<open>A signing key of blanks and one letter is long enough for validation and too short for the signer.\<close>

lemma padded_key_is_refused:
  "let key = replicate 31 CHR '' '' @ ''k'' in
   Validate demo_syntax (demo_variant ''tcp:clamd:3310'' key) = None \<and> resolveJWTSecret [] key st random = Inr (''k'', st) \<and> NewSigner ''k'' = None"
proof -
  have "trim_space (replicate 31 CHR '' '' @ ''k'') = ''k''" "trim_space [] = []" "NewSigner ''k'' = None" by code_simp+
  with demo_variant_valid [of "''tcp:clamd:3310''" "replicate 31 CHR '' '' @ ''k''"] show ?thesis
    by (simp add: Let_def resolveJWTSecret_def)
qed

end
